(* ===== verification/Prelude.thy ===== *)
theory Prelude
  imports Main "HOL-Library.Word" "HOL-Library.Sublist" "HOL-Library.Code_Target_Numeral"
begin

text \<open>
  Shared vocabulary of the development: the outcome of a Go call (a value, an error
  value, or a run-time panic), Go slices with checked indexing, the widths of the
  integer types, and the generic list lemmas and locales that the component theories
  instantiate.
\<close>

section \<open>Collections of rewrite rules\<close>

named_theorems outcome_iff \<open>when a sequence of calls returns a value, an error or panics\<close>

section \<open>Integer types\<close>

type_synonym u64 = "64 word"
type_synonym u32 = "32 word"
type_synonym u16 = "16 word"
type_synonym u8 = "8 word"

text \<open>Signed Go integers are HOL integers; a conversion to a narrower type wraps.\<close>

definition wrap_signed :: "nat \<Rightarrow> int \<Rightarrow> int" where
  "wrap_signed w x = (x + 2 ^ (w - 1)) mod 2 ^ w - 2 ^ (w - 1)"

abbreviation to_i32 :: "int \<Rightarrow> int" where
  "to_i32 \<equiv> wrap_signed 32"

abbreviation to_i64 :: "int \<Rightarrow> int" where
  "to_i64 \<equiv> wrap_signed 64"

lemma wrap_signed_id:
  assumes "0 < w" and "- (2 ^ (w - 1)) \<le> x" and "x < 2 ^ (w - 1)"
  shows "wrap_signed w x = x"
proof -
  have "(2::int) ^ w = 2 * 2 ^ (w - 1)"
    using assms(1) by (cases w) simp_all
  then have "(x + 2 ^ (w - 1)) mod 2 ^ w = x + 2 ^ (w - 1)"
    using assms(2,3) by (intro mod_pos_pos_trivial) linarith+
  then show ?thesis by (simp add: wrap_signed_def)
qed

lemma wrap_signed_bounds:
  assumes "0 < w"
  shows "- (2 ^ (w - 1)) \<le> wrap_signed w x" and "wrap_signed w x < 2 ^ (w - 1)"
proof -
  have w: "(2::int) ^ w = 2 * 2 ^ (w - 1)"
    using assms by (cases w) simp_all
  have "0 \<le> (x + 2 ^ (w - 1)) mod 2 ^ w" "(x + 2 ^ (w - 1)) mod 2 ^ w < 2 ^ w"
    by simp_all
  then show "- (2 ^ (w - 1)) \<le> wrap_signed w x" "wrap_signed w x < 2 ^ (w - 1)"
    using w by (auto simp: wrap_signed_def)
qed

lemma wrap_signed_mod: "wrap_signed w (x mod 2 ^ w) = wrap_signed w x"
  by (simp add: wrap_signed_def mod_add_left_eq)

lemma wrap_signed_add: "wrap_signed w (wrap_signed w x + y) = wrap_signed w (x + y)"
proof -
  let ?h = "2 ^ (w - 1) :: int"
  have "wrap_signed w x + y = (x + ?h) mod 2 ^ w + (y - ?h)" by (simp add: wrap_signed_def)
  then have "(wrap_signed w x + y) mod 2 ^ w = (x + ?h + (y - ?h)) mod 2 ^ w" by (simp only: mod_add_left_eq)
  then have "(wrap_signed w x + y) mod 2 ^ w = (x + y) mod 2 ^ w" by simp
  then show ?thesis by (metis wrap_signed_mod)
qed

section \<open>Errors and outcomes\<close>

text \<open>
  The error values the sources create, return or compare: errno values of a system
  call, the end of a stream, the two parse errors of \<^verbatim>\<open>strconv\<close>, the package-level
  sentinels, and a formatted message that may wrap another error.
\<close>

datatype num_err = ErrSyntax | ErrRange

datatype gerr =
    ENOENT | EACCES | EPERM | ESRCH | EINTR | EINVAL | Errno nat
  | EOF
  | NumError num_err
  | ErrNotFound
  | ErrNotImplemented
  | ErrTimeout
  | ErrCanceled
  | ErrProcessNotRunning
  | ErrNotPermitted
  | ErrDockerNotAvailable
  | ErrCgroupNotAvailable
  | ErrMsg string
  | ErrWrap string gerr

text \<open>\<^verbatim>\<open>os.IsNotExist\<close> and \<^verbatim>\<open>os.IsPermission\<close> look at the errno of a system call and do
  not unwrap formatted errors; \<^verbatim>\<open>errors.Is\<close> unwraps.\<close>

fun is_not_exist :: "gerr \<Rightarrow> bool" where
  "is_not_exist ENOENT = True"
| "is_not_exist _ = False"

fun is_permission :: "gerr \<Rightarrow> bool" where
  "is_permission EACCES = True"
| "is_permission EPERM = True"
| "is_permission _ = False"

fun err_is :: "gerr \<Rightarrow> gerr \<Rightarrow> bool" where
  "err_is (ErrWrap m e) t = (ErrWrap m e = t \<or> err_is e t)"
| "err_is e t = (e = t)"

text \<open>
  A Go call returns a value, returns a non-nil error, or panics. A call that returns a
  meaningful value together with an error is modelled as \<open>Ok (value, error)\<close>.
\<close>

datatype 'a result = Ok 'a | Err gerr | Panic

primrec rbind :: "'a result \<Rightarrow> ('a \<Rightarrow> 'b result) \<Rightarrow> 'b result" where
  "rbind (Ok x) f = f x"
| "rbind (Err e) f = Err e"
| "rbind Panic f = Panic"

primrec of_sum :: "gerr + 'a \<Rightarrow> 'a result" where
  "of_sum (Inl e) = Err e"
| "of_sum (Inr x) = Ok x"

lemma rbind_Ok_iff [outcome_iff]: "rbind r f = Ok y \<longleftrightarrow> (\<exists>x. r = Ok x \<and> f x = Ok y)"
  by (cases r) auto

lemma rbind_Err_iff [outcome_iff]: "rbind r f = Err e \<longleftrightarrow> r = Err e \<or> (\<exists>x. r = Ok x \<and> f x = Err e)"
  by (cases r) auto

lemma rbind_Panic_iff [outcome_iff]: "rbind r f = Panic \<longleftrightarrow> r = Panic \<or> (\<exists>x. r = Ok x \<and> f x = Panic)"
  by (cases r) auto

lemma rbind_assoc: "rbind (rbind r f) g = rbind r (\<lambda>x. rbind (f x) g)"
  by (cases r) auto

lemma rbind_cong: "r = r' \<Longrightarrow> (\<And>x. r' = Ok x \<Longrightarrow> f x = g x) \<Longrightarrow> rbind r f = rbind r' g"
  by (cases r') auto

lemma of_sum_Ok_iff [simp]: "of_sum r = Ok x \<longleftrightarrow> r = Inr x"
  by (cases r) auto

lemma of_sum_Err_iff [simp]: "of_sum r = Err e \<longleftrightarrow> r = Inl e"
  by (cases r) auto

lemma of_sum_no_Panic [simp]: "of_sum r \<noteq> Panic"
  by (cases r) auto

section \<open>Slices\<close>

text \<open>\<^verbatim>\<open>xs[i]\<close> and \<^verbatim>\<open>xs[i:]\<close>: an index outside the slice panics.\<close>

definition idx :: "'a list \<Rightarrow> nat \<Rightarrow> 'a result" where
  "idx xs i = (if i < length xs then Ok (xs ! i) else Panic)"

definition slice_from :: "'a list \<Rightarrow> nat \<Rightarrow> 'a list result" where
  "slice_from xs i = (if i \<le> length xs then Ok (drop i xs) else Panic)"

lemma idx_Ok_iff [simp]: "idx xs i = Ok x \<longleftrightarrow> i < length xs \<and> x = xs ! i"
  by (auto simp: idx_def)

lemma idx_in [simp]: "i < length xs \<Longrightarrow> idx xs i = Ok (xs ! i)"
  by (simp add: idx_def)

lemma idx_out [simp]: "length xs \<le> i \<Longrightarrow> idx xs i = Panic"
  by (simp add: idx_def)

lemma idx_not_Err [simp]: "idx xs i \<noteq> Err e"
  by (simp add: idx_def)

text \<open>A fold whose step may return an error or panic: the loop stops there.\<close>

fun rfold :: "('a \<Rightarrow> 's \<Rightarrow> 's result) \<Rightarrow> 'a list \<Rightarrow> 's \<Rightarrow> 's result" where
  "rfold f [] s = Ok s"
| "rfold f (x # xs) s = rbind (f x s) (rfold f xs)"

lemma rfold_append: "rfold f (xs @ ys) s = rbind (rfold f xs s) (rfold f ys)"
  by (induction xs arbitrary: s) (simp_all add: rbind_assoc cong: rbind_cong)

lemma rfold_total:
  assumes "\<And>x s. x \<in> set xs \<Longrightarrow> f x s = Ok (g x s)"
  shows "rfold f xs s = Ok (fold g xs s)"
  using assms by (induction xs arbitrary: s) simp_all

lemma rfold_no_Panic: "(\<And>x s. f x s \<noteq> Panic) \<Longrightarrow> rfold f xs s \<noteq> Panic"
  by (induction xs arbitrary: s) (auto simp: rbind_Panic_iff)

lemma rfold_invariant:
  assumes "rfold f xs s = Ok t" and "P s"
    and "\<And>x u v. x \<in> set xs \<Longrightarrow> P u \<Longrightarrow> f x u = Ok v \<Longrightarrow> P v"
  shows "P t"
  using assms by (induction xs arbitrary: s) (auto simp: rbind_Ok_iff)

section \<open>List lemmas\<close>

lemma dropWhile_none [simp]: "(\<And>x. x \<in> set xs \<Longrightarrow> \<not> P x) \<Longrightarrow> dropWhile P xs = xs"
  by (cases xs) simp_all

lemma takeWhile_append_stop:
  assumes "\<And>x. x \<in> set xs \<Longrightarrow> P x" and "\<not> P y"
  shows "takeWhile P (xs @ y # ys) = xs" and "dropWhile P (xs @ y # ys) = y # ys"
  using assms by (induction xs) auto

text \<open>Laws that hold for all entries of a table, read at the keys.\<close>

lemma list_all_map_of: "list_all (\<lambda>(a, b). P a b) xs \<Longrightarrow> map_of xs a = Some b \<Longrightarrow> P a b"
  by (drule map_of_SomeD) (auto simp: list_all_iff)

lemma list_all_tables:
  "list_all (\<lambda>(a, b). list_all (\<lambda>(c, d). P a b c d) ys) xs \<Longrightarrow>
   map_of xs a = Some b \<Longrightarrow> map_of ys c = Some d \<Longrightarrow> P a b c d"
  by (drule list_all_map_of, assumption, drule list_all_map_of)

text \<open>Association lists as Go maps: the last binding of a key wins and the key set is
  what \<^verbatim>\<open>len\<close> counts.\<close>

fun alist_put :: "'k \<Rightarrow> 'v \<Rightarrow> ('k \<times> 'v) list \<Rightarrow> ('k \<times> 'v) list" where
  "alist_put k v [] = [(k, v)]"
| "alist_put k v ((a, b) # ps) = (if a = k then (k, v) # ps else (a, b) # alist_put k v ps)"

lemma map_of_alist_put [simp]: "map_of (alist_put k v ps) = (map_of ps)(k \<mapsto> v)"
  by (induction ps) auto

lemma dom_alist_put [simp]: "fst ` set (alist_put k v ps) = insert k (fst ` set ps)"
  by (induction k v ps rule: alist_put.induct) (auto simp: insert_commute)

lemma distinct_alist_put: "distinct (map fst ps) \<Longrightarrow> distinct (map fst (alist_put k v ps))"
proof (induction ps)
  case Nil
  then show ?case by simp
next
  case (Cons p ps)
  obtain a b where p: "p = (a, b)" by (cases p)
  have "a \<noteq> k \<Longrightarrow> a \<notin> set (map fst ps) \<Longrightarrow> a \<notin> set (map fst (alist_put k v ps))"
    by simp
  with Cons p show ?case by (auto simp del: set_map)
qed

lemma alist_put_put [simp]: "alist_put k v (alist_put k w m) = alist_put k v m"
  by (induction m) auto

lemma alist_put_fresh: "k \<notin> fst ` set m \<Longrightarrow> alist_put k v m = m @ [(k, v)]"
  by (induction m) auto

section \<open>Parsers that fill a record line by line\<close>

text \<open>
  Most readers of \<^verbatim>\<open>/proc\<close> and \<^verbatim>\<open>/sys\<close> loop over lines and assign a field when the line's
  key names it. \<open>contrib\<close> is what one line assigns to the field \<open>sel\<close>, if anything.
  After the loop the field holds the last assignment, or its initial value.
\<close>

fun last_some :: "('l \<Rightarrow> 'v option) \<Rightarrow> 'l list \<Rightarrow> 'v option" where
  "last_some f [] = None"
| "last_some f (x # xs) = (case last_some f xs of None \<Rightarrow> f x | Some v \<Rightarrow> Some v)"

lemma last_some_append:
  "last_some f (xs @ ys) = (case last_some f ys of None \<Rightarrow> last_some f xs | Some v \<Rightarrow> Some v)"
  by (induction xs) (auto split: option.splits)

lemma last_some_None_iff: "last_some f xs = None \<longleftrightarrow> (\<forall>x \<in> set xs. f x = None)"
  by (induction xs) (auto split: option.splits)

lemma last_some_map_option: "last_some (\<lambda>x. map_option f (g x)) xs = map_option f (last_some g xs)"
  by (induction xs) (auto split: option.splits)

lemma last_some_unique:
  assumes "x \<in> set xs" and "f x = Some v" and "\<And>y w. y \<in> set xs \<Longrightarrow> f y = Some w \<Longrightarrow> w = v"
  shows "last_some f xs = Some v"
proof -
  have "last_some f xs \<noteq> None"
    using assms(1,2) by (auto simp: last_some_None_iff)
  moreover have "last_some f ys = Some w \<Longrightarrow> \<exists>y \<in> set ys. f y = Some w" for ys w
    by (induction ys) (auto split: option.splits)
  ultimately show ?thesis using assms(3) by fastforce
qed

locale field_fold =
  fixes step :: "'l \<Rightarrow> 's \<Rightarrow> 's"
    and sel :: "'s \<Rightarrow> 'v"
    and contrib :: "'l \<Rightarrow> 'v option"
  assumes sel_step: "sel (step l s) = (case contrib l of None \<Rightarrow> sel s | Some v \<Rightarrow> v)"
begin

lemma sel_fold:
  "sel (fold step ls s) = (case last_some contrib ls of None \<Rightarrow> sel s | Some v \<Rightarrow> v)"
proof (induction ls arbitrary: s)
  case Nil
  then show ?case by simp
next
  case (Cons l ls)
  then show ?case by (cases "last_some contrib ls") (simp_all add: sel_step)
qed

lemma sel_fold_absent: "(\<And>l. l \<in> set ls \<Longrightarrow> contrib l = None) \<Longrightarrow> sel (fold step ls s) = sel s"
  by (simp add: sel_fold last_some_None_iff [THEN iffD2])

end

text \<open>The same contract for a loop that stops at the first line it cannot parse.\<close>

locale field_rfold =
  fixes step :: "'l \<Rightarrow> 's \<Rightarrow> 's result"
    and sel :: "'s \<Rightarrow> 'v"
    and contrib :: "'l \<Rightarrow> 'v option"
  assumes sel_rstep:
    "step l s = Ok t \<Longrightarrow> sel t = (case contrib l of None \<Rightarrow> sel s | Some v \<Rightarrow> v)"
begin

lemma sel_rfold:
  "rfold step ls s = Ok t \<Longrightarrow>
    sel t = (case last_some contrib ls of None \<Rightarrow> sel s | Some v \<Rightarrow> v)"
proof (induction ls arbitrary: s)
  case Nil
  then show ?case by simp
next
  case (Cons l ls)
  then obtain u where u: "step l s = Ok u" "rfold step ls u = Ok t"
    by (auto simp: rbind_Ok_iff)
  with Cons.IH [OF u(2)] show ?case
    by (cases "last_some contrib ls") (simp_all add: sel_rstep [OF u(1)])
qed

end

section \<open>Totals over a list of counters\<close>

text \<open>
  A summary record whose field is accumulated with \<^verbatim>\<open>+=\<close> over a slice: the total is the
  sum of the field in the arithmetic of the field's type (so it wraps at its width).
\<close>

locale counter_sum =
  fixes accumulate :: "'r \<Rightarrow> 'r \<Rightarrow> 'r"
    and sel :: "'r \<Rightarrow> 'v::comm_monoid_add"
  assumes sel_accumulate: "sel (accumulate x acc) = sel acc + sel x"
begin

lemma sel_total: "sel (fold accumulate xs acc) = sel acc + sum_list (map sel xs)"
  by (induction xs arbitrary: acc) (simp_all add: sel_accumulate add.assoc)

end

end
