(* ===== verification/Go_Strings.thy ===== *)
theory Go_Strings
  imports Prelude
begin

text \<open>
  The functions of Go's packages \<^verbatim>\<open>strings\<close>, \<^verbatim>\<open>bytes\<close> and \<^verbatim>\<open>bufio\<close> that the sources call.
  A Go string is a sequence of bytes, so it is a list of 8-bit characters. White space is
  Unicode white space in UTF-8, as \<^verbatim>\<open>unicode.IsSpace\<close> has it; letter case is the case of
  ASCII letters.
\<close>

section \<open>White space\<close>

definition is_ascii_space :: "char \<Rightarrow> bool" where
  "is_ascii_space c \<longleftrightarrow> of_char c \<in> {9, 10, 11, 12, 13, 32 :: nat}"

text \<open>
  The UTF-8 encodings of the white-space code points above U+007F: U+0085, U+00A0, U+1680,
  U+2000 to U+200A, U+2028, U+2029, U+202F, U+205F and U+3000. Their first bytes are never
  continuation bytes, so looking for the byte sequences agrees with decoding runes.
\<close>

definition utf8_spaces :: "string list" where
  "utf8_spaces = map (map char_of)
     ([[194, 133], [194, 160], [225, 154, 128]] @ map (\<lambda>b. [226, 128, b]) [128..<139] @
      [[226, 128, 168], [226, 128, 169], [226, 128, 175], [226, 129, 159], [227, 128, 128 :: nat]])"

text \<open>The number of bytes of the white-space rune at the front, or at the back; 0 if none.\<close>

definition space_len :: "string \<Rightarrow> nat" where
  "space_len s = (case s of [] \<Rightarrow> 0
     | c # _ \<Rightarrow> if is_ascii_space c then 1
         else (case find (\<lambda>p. prefix p s) utf8_spaces of None \<Rightarrow> 0 | Some p \<Rightarrow> length p))"

definition space_suffix_len :: "string \<Rightarrow> nat" where
  "space_suffix_len s = (if s = [] then 0 else if is_ascii_space (last s) then 1
     else (case find (\<lambda>p. suffix p s) utf8_spaces of None \<Rightarrow> 0 | Some p \<Rightarrow> length p))"

lemma is_ascii_space_simps [simp]:
  "is_ascii_space (CHR '' '')" "is_ascii_space (CHR 0x09)" "is_ascii_space (CHR 0x0A)"
  by (simp_all add: is_ascii_space_def)

lemma space_len_le: "space_len s \<le> length s"
proof (cases "find (\<lambda>p. prefix p s) utf8_spaces")
  case None
  then show ?thesis by (auto simp: space_len_def split: list.splits)
next
  case (Some p)
  then have "prefix p s" by (auto simp: find_Some_iff)
  then have "length p \<le> length s" by (rule prefix_length_le)
  with Some show ?thesis by (auto simp: space_len_def split: list.splits)
qed

text \<open>Plain text: ASCII bytes that are not white space.\<close>

definition plain :: "string \<Rightarrow> bool" where
  "plain s \<longleftrightarrow> (\<forall>c \<in> set s. (of_char c :: nat) < 128 \<and> \<not> is_ascii_space c)"

lemma plain_simps [simp]:
  "plain []" "plain (c # s) \<longleftrightarrow> (of_char c :: nat) < 128 \<and> \<not> is_ascii_space c \<and> plain s"
  "plain (s @ t) \<longleftrightarrow> plain s \<and> plain t" "plain (rev s) \<longleftrightarrow> plain s"
  by (auto simp: plain_def)

lemma plain_no_space: "plain w \<Longrightarrow> is_ascii_space c \<Longrightarrow> c \<notin> set w"
  by (auto simp: plain_def)

lemma utf8_spaces_high:
  "p \<in> set utf8_spaces \<Longrightarrow> p \<noteq> [] \<and> (of_char (hd p) :: nat) \<ge> 128 \<and> (of_char (last p) :: nat) \<ge> 128"
  by (auto simp: utf8_spaces_def)

lemma find_utf8_low:
  "(of_char c :: nat) < 128 \<Longrightarrow> find (\<lambda>p. prefix p (c # s)) utf8_spaces = None"
  by (auto simp: find_None_iff prefix_Cons dest: utf8_spaces_high)

lemma find_utf8_low_suffix:
  assumes "(of_char (last s) :: nat) < 128"
  shows "find (\<lambda>p. suffix p s) utf8_spaces = None"
proof -
  have "\<not> suffix p s" if p: "p \<in> set utf8_spaces" for p
  proof
    assume "suffix p s"
    moreover have "p \<noteq> []" "(of_char (last p) :: nat) \<ge> 128"
      using utf8_spaces_high [OF p] by simp_all
    ultimately show False using assms by (auto simp: suffix_def)
  qed
  then show ?thesis by (auto simp: find_None_iff)
qed

lemma space_len_ascii [simp]:
  "(of_char c :: nat) < 128 \<Longrightarrow> space_len (c # s) = (if is_ascii_space c then 1 else 0)"
  by (simp add: space_len_def find_utf8_low)

lemma space_len_Nil [simp]: "space_len [] = 0"
  by (simp add: space_len_def)

lemma ascii_space_low: "is_ascii_space c \<Longrightarrow> (of_char c :: nat) < 128"
  by (auto simp: is_ascii_space_def)

lemma space_suffix_len_ascii:
  "s \<noteq> [] \<Longrightarrow> (of_char (last s) :: nat) < 128 \<Longrightarrow>
    space_suffix_len s = (if is_ascii_space (last s) then 1 else 0)"
  by (simp add: space_suffix_len_def find_utf8_low_suffix)

section \<open>Fields and TrimSpace\<close>

text \<open>\<^verbatim>\<open>strings.Fields\<close>: \<open>cur\<close> is the field being read, in reverse.\<close>

function fields_from :: "string \<Rightarrow> string \<Rightarrow> string list" where
  "fields_from cur s =
     (if s = [] then (if cur = [] then [] else [rev cur])
      else if space_len s > 0
        then (if cur = [] then [] else [rev cur]) @ fields_from [] (drop (space_len s) s)
        else fields_from (hd s # cur) (tl s))"
  by pat_completeness auto
termination
  by (relation "measure (\<lambda>(cur, s). length s)") (auto simp: neq_Nil_conv)

declare fields_from.simps [simp del]

definition str_fields :: "string \<Rightarrow> string list" where
  "str_fields s = fields_from [] s"

function trim_left_space :: "string \<Rightarrow> string" where
  "trim_left_space s =
     (if space_len s > 0 then trim_left_space (drop (space_len s) s) else s)"
  by pat_completeness auto
termination
  by (relation "measure length") (auto simp: space_len_def split: list.splits)

declare trim_left_space.simps [simp del]

function trim_right_space :: "string \<Rightarrow> string" where
  "trim_right_space s =
     (if space_suffix_len s > 0 then trim_right_space (take (length s - space_suffix_len s) s) else s)"
  by pat_completeness auto
termination
  by (relation "measure length") (auto simp: space_suffix_len_def split: if_splits)

declare trim_right_space.simps [simp del]

definition trim_space :: "string \<Rightarrow> string" where
  "trim_space s = trim_right_space (trim_left_space s)"

lemma fields_from_Nil: "fields_from cur [] = (if cur = [] then [] else [rev cur])"
  by (simp add: fields_from.simps)

lemma fields_from_space:
  "is_ascii_space c \<Longrightarrow> fields_from cur (c # s) = (if cur = [] then [] else [rev cur]) @ fields_from [] s"
  by (simp add: fields_from.simps [of cur "c # s"] ascii_space_low)

lemma fields_from_char:
  "(of_char c :: nat) < 128 \<Longrightarrow> \<not> is_ascii_space c \<Longrightarrow> fields_from cur (c # s) = fields_from (c # cur) s"
  by (simp add: fields_from.simps [of cur "c # s"])

lemma fields_from_plain: "plain w \<Longrightarrow> fields_from cur (w @ s) = fields_from (rev w @ cur) s"
  by (induction w arbitrary: cur) (simp_all add: fields_from_char)

lemma fields_Nil [simp]: "str_fields [] = []"
  by (simp add: str_fields_def fields_from_Nil)

lemma fields_space [simp]: "is_ascii_space c \<Longrightarrow> str_fields (c # s) = str_fields s"
  by (simp add: str_fields_def fields_from_space)

lemma fields_word_space:
  "plain w \<Longrightarrow> w \<noteq> [] \<Longrightarrow> is_ascii_space c \<Longrightarrow> str_fields (w @ c # s) = w # str_fields s"
  by (simp add: str_fields_def fields_from_plain fields_from_space)

lemma fields_word: "plain w \<Longrightarrow> w \<noteq> [] \<Longrightarrow> str_fields w = [w]"
  using fields_from_plain [of w "[]" "[]"] by (simp add: str_fields_def fields_from_Nil)

lemma trim_left_space_hd: "s \<noteq> [] \<Longrightarrow> plain [hd s] \<Longrightarrow> trim_left_space s = s"
  by (cases s) (simp_all add: trim_left_space.simps)

lemma trim_right_space_last: "s \<noteq> [] \<Longrightarrow> plain [last s] \<Longrightarrow> trim_right_space s = s"
  by (simp add: trim_right_space.simps [of s] space_suffix_len_ascii plain_def)

lemma trim_space_ends: "s \<noteq> [] \<Longrightarrow> plain [hd s] \<Longrightarrow> plain [last s] \<Longrightarrow> trim_space s = s"
  by (simp add: trim_space_def trim_left_space_hd trim_right_space_last)

lemma trim_space_Nil [simp]: "trim_space [] = []"
  by (simp add: trim_space_def trim_left_space.simps trim_right_space.simps space_suffix_len_def)

lemma trim_space_plain [simp]: "plain s \<Longrightarrow> trim_space s = s"
  by (cases "s = []") (auto simp: plain_def intro: trim_space_ends)

lemma trim_left_space_ascii: "is_ascii_space c \<Longrightarrow> trim_left_space (c # s) = trim_left_space s"
  by (simp add: trim_left_space.simps [of "c # s"] ascii_space_low)

lemma trim_space_lead [simp]: "is_ascii_space c \<Longrightarrow> trim_space (c # s) = trim_space s"
  by (simp add: trim_space_def trim_left_space_ascii)

section \<open>Searching, splitting and joining\<close>

definition has_prefix :: "string \<Rightarrow> string \<Rightarrow> bool" where
  "has_prefix s p = prefix p s"

definition has_suffix :: "string \<Rightarrow> string \<Rightarrow> bool" where
  "has_suffix s p = suffix p s"

definition str_contains :: "string \<Rightarrow> string \<Rightarrow> bool" where
  "str_contains s p = sublist p s"

definition contains_any :: "string \<Rightarrow> string \<Rightarrow> bool" where
  "contains_any s cs = list_ex (\<lambda>c. List.member cs c) s"

fun index_byte :: "string \<Rightarrow> char \<Rightarrow> nat option" where
  "index_byte [] c = None"
| "index_byte (x # s) c = (if x = c then Some 0 else map_option Suc (index_byte s c))"

fun last_index_byte :: "string \<Rightarrow> char \<Rightarrow> nat option" where
  "last_index_byte [] c = None"
| "last_index_byte (x # s) c =
     (case last_index_byte s c of Some i \<Rightarrow> Some (Suc i) | None \<Rightarrow> if x = c then Some 0 else None)"

text \<open>\<^verbatim>\<open>strings.Split\<close> on a one-byte separator never returns an empty slice.\<close>

fun split_char :: "char \<Rightarrow> string \<Rightarrow> string list" where
  "split_char c [] = [[]]"
| "split_char c (x # s) =
     (if x = c then [] # split_char c s
      else (case split_char c s of [] \<Rightarrow> [[x]] | w # ws \<Rightarrow> (x # w) # ws))"

text \<open>\<^verbatim>\<open>strings.SplitN(s, sep, n)\<close> for \<open>n > 0\<close>: at most \<open>n\<close> parts, the last is the rest.\<close>

fun split_char_n :: "char \<Rightarrow> nat \<Rightarrow> string \<Rightarrow> string list" where
  "split_char_n c 0 s = []"
| "split_char_n c (Suc 0) s = [s]"
| "split_char_n c (Suc (Suc n)) s =
     (case index_byte s c of None \<Rightarrow> [s]
      | Some i \<Rightarrow> take i s # split_char_n c (Suc n) (drop (Suc i) s))"

text \<open>\<^verbatim>\<open>strings.Split\<close> on a longer separator.\<close>

function split_str :: "string \<Rightarrow> string \<Rightarrow> string \<Rightarrow> string list" where
  "split_str sep cur s =
     (if s = [] then [rev cur]
      else if sep \<noteq> [] \<and> prefix sep s then rev cur # split_str sep [] (drop (length sep) s)
      else split_str sep (hd s # cur) (tl s))"
  by pat_completeness auto
termination
  by (relation "measure (\<lambda>(sep, cur, s). length s)") auto

declare split_str.simps [simp del]

fun join :: "string \<Rightarrow> string list \<Rightarrow> string" where
  "join sep [] = []"
| "join sep [w] = w"
| "join sep (w # v # ws) = w @ sep @ join sep (v # ws)"

text \<open>\<^verbatim>\<open>strings.FieldsFunc\<close> for a predicate on single ASCII bytes.\<close>

fun fields_func :: "(char \<Rightarrow> bool) \<Rightarrow> string \<Rightarrow> string \<Rightarrow> string list" where
  "fields_func f cur [] = (if cur = [] then [] else [rev cur])"
| "fields_func f cur (c # s) =
     (if f c then (if cur = [] then [] else [rev cur]) @ fields_func f [] s
      else fields_func f (c # cur) s)"

text \<open>\<^verbatim>\<open>strings.Split(s, "")\<close>: one string per UTF-8 sequence; an invalid byte is its own.\<close>

definition byte_in :: "string \<Rightarrow> nat \<Rightarrow> nat \<Rightarrow> nat \<Rightarrow> bool" where
  "byte_in s i lo hi \<longleftrightarrow> i < length s \<and> lo \<le> (of_char (s ! i) :: nat) \<and> (of_char (s ! i) :: nat) \<le> hi"

definition rune_len :: "string \<Rightarrow> nat" where
  "rune_len s =
     (if byte_in s 0 194 223 \<and> byte_in s 1 128 191 then 2
      else if byte_in s 2 128 191 \<and>
        (byte_in s 0 224 224 \<and> byte_in s 1 160 191 \<or> byte_in s 0 225 236 \<and> byte_in s 1 128 191 \<or>
         byte_in s 0 237 237 \<and> byte_in s 1 128 159 \<or> byte_in s 0 238 239 \<and> byte_in s 1 128 191) then 3
      else if byte_in s 2 128 191 \<and> byte_in s 3 128 191 \<and>
        (byte_in s 0 240 240 \<and> byte_in s 1 144 191 \<or> byte_in s 0 241 243 \<and> byte_in s 1 128 191 \<or>
         byte_in s 0 244 244 \<and> byte_in s 1 128 143) then 4
      else 1)"

function explode :: "string \<Rightarrow> string list" where
  "explode s = (if s = [] then [] else take (rune_len s) s # explode (drop (rune_len s) s))"
  by pat_completeness auto
termination
  by (relation "measure length") (auto simp: rune_len_def)

declare explode.simps [simp del]

definition trim_left_set :: "string \<Rightarrow> string \<Rightarrow> string" where
  "trim_left_set cs s = dropWhile (\<lambda>c. c \<in> set cs) s"

definition trim_right_set :: "string \<Rightarrow> string \<Rightarrow> string" where
  "trim_right_set cs s = rev (dropWhile (\<lambda>c. c \<in> set cs) (rev s))"

definition trim_set :: "string \<Rightarrow> string \<Rightarrow> string" where
  "trim_set cs s = trim_right_set cs (trim_left_set cs s)"

definition trim_suffix :: "string \<Rightarrow> string \<Rightarrow> string" where
  "trim_suffix s suf = (if suffix suf s then take (length s - length suf) s else s)"

text \<open>\<^verbatim>\<open>strings.ReplaceAll\<close> and \<^verbatim>\<open>strings.Replace(s, old, new, 1)\<close>, for a non-empty \<open>old\<close>.\<close>

function replace_all :: "string \<Rightarrow> string \<Rightarrow> string \<Rightarrow> string" where
  "replace_all old new s =
     (if s = [] then []
      else if old \<noteq> [] \<and> prefix old s then new @ replace_all old new (drop (length old) s)
      else hd s # replace_all old new (tl s))"
  by pat_completeness auto
termination
  by (relation "measure (\<lambda>(old, new, s). length s)") auto

declare replace_all.simps [simp del]

fun replace_first :: "string \<Rightarrow> string \<Rightarrow> string \<Rightarrow> string" where
  "replace_first old new [] = []"
| "replace_first old new (c # s) =
     (if prefix old (c # s) then new @ drop (length old) (c # s) else c # replace_first old new s)"

definition lower_char :: "char \<Rightarrow> char" where
  "lower_char c = (let n = (of_char c :: nat) in if 65 \<le> n \<and> n \<le> 90 then char_of (n + 32) else c)"

definition to_lower :: "string \<Rightarrow> string" where
  "to_lower = map lower_char"

definition equal_fold :: "string \<Rightarrow> string \<Rightarrow> bool" where
  "equal_fold s t \<longleftrightarrow> to_lower s = to_lower t"

section \<open>Laws\<close>

lemma split_char_not_Nil [simp]: "split_char c s \<noteq> []"
  by (induction s) (auto split: list.splits)

lemma split_char_none [simp]: "c \<notin> set s \<Longrightarrow> split_char c s = [s]"
  by (induction s) auto

lemma split_char_append: "c \<notin> set w \<Longrightarrow> split_char c (w @ c # s) = w # split_char c s"
  by (induction w) auto

lemma split_char_join:
  assumes "ws \<noteq> []" and "\<And>w. w \<in> set ws \<Longrightarrow> c \<notin> set w"
  shows "split_char c (join [c] ws) = ws"
  using assms by (induction "[c]" ws rule: join.induct) (simp_all add: split_char_append)

lemma join_split_char: "join [c] (split_char c s) = s"
proof (induction s)
  case Nil
  then show ?case by simp
next
  case (Cons x s)
  obtain w ws where ws: "split_char c s = w # ws"
    using split_char_not_Nil [of c s] by (cases "split_char c s") blast+
  with Cons show ?case by (cases ws) auto
qed

lemma split_char_elems: "w \<in> set (split_char c s) \<Longrightarrow> c \<notin> set w"
  by (induction s arbitrary: w) (auto split: list.splits if_splits)

lemma index_byte_None_iff [simp]: "index_byte s c = None \<longleftrightarrow> c \<notin> set s"
  by (induction s) auto

lemma index_byte_append: "c \<notin> set w \<Longrightarrow> index_byte (w @ c # s) c = Some (length w)"
  by (induction w) auto

lemma last_index_byte_None_iff [simp]: "last_index_byte s c = None \<longleftrightarrow> c \<notin> set s"
  by (induction s) (auto split: option.splits)

lemma last_index_byte_append: "c \<notin> set s \<Longrightarrow> last_index_byte (w @ c # s) c = Some (length w)"
  by (induction w) (simp_all add: last_index_byte_None_iff [THEN iffD2])

lemma index_byte_Some: "index_byte s c = Some i \<Longrightarrow> i < length s \<and> s ! i = c \<and> c \<notin> set (take i s)"
  by (induction s arbitrary: i) (auto split: if_splits)

lemma last_index_byte_Some:
  "last_index_byte s c = Some i \<Longrightarrow> i < length s \<and> s ! i = c \<and> c \<notin> set (drop (Suc i) s)"
proof (induction s arbitrary: i)
  case (Cons x s)
  then show ?case by (cases "last_index_byte s c") (auto split: if_splits)
qed simp

lemma split_char_n_2:
  "c \<notin> set w \<Longrightarrow> split_char_n c 2 (w @ c # s) = [w, s]"
  by (simp add: numeral_2_eq_2 index_byte_append)

lemma split_char_n_2_none: "c \<notin> set s \<Longrightarrow> split_char_n c 2 s = [s]"
  by (simp add: numeral_2_eq_2 index_byte_None_iff [THEN iffD2])

lemma join_not_Nil: "ws \<noteq> [] \<Longrightarrow> (\<And>w. w \<in> set ws \<Longrightarrow> w \<noteq> []) \<Longrightarrow> join sep ws \<noteq> []"
  by (induction sep ws rule: join.induct) auto

lemma hd_join: "ws \<noteq> [] \<Longrightarrow> hd ws \<noteq> [] \<Longrightarrow> hd (join sep ws) = hd (hd ws)"
  by (induction sep ws rule: join.induct) auto

lemma last_join: "ws \<noteq> [] \<Longrightarrow> (\<And>w. w \<in> set ws \<Longrightarrow> w \<noteq> []) \<Longrightarrow> last (join sep ws) = last (last ws)"
proof (induction sep ws rule: join.induct)
  case (3 sep w v ws)
  then have "join sep (v # ws) \<noteq> []" by (intro join_not_Nil) auto
  with 3 show ?case by simp
qed simp_all

lemma set_join: "set (join sep ws) \<subseteq> set sep \<union> \<Union> (set ` set ws)"
  by (induction sep ws rule: join.induct) auto

text \<open>Words joined by a separator, with no space at either end.\<close>

lemma trim_space_join:
  assumes "ws \<noteq> []" and "\<And>w. w \<in> set ws \<Longrightarrow> plain w \<and> w \<noteq> []"
  shows "trim_space (join sep ws) = join sep ws"
proof (rule trim_space_ends)
  show "join sep ws \<noteq> []" using assms by (simp add: join_not_Nil)
  have ends: "plain [hd w] \<and> plain [last w]" if "plain w" "w \<noteq> []" for w
    using that by (auto simp: plain_def)
  have "hd ws \<in> set ws" "last ws \<in> set ws" using assms(1) by simp_all
  with assms(2) ends have "plain [hd (hd ws)]" "plain [last (last ws)]" "hd ws \<noteq> []" by blast+
  moreover have "last (join sep ws) = last (last ws)" using assms by (intro last_join) auto
  moreover have "hd (join sep ws) = hd (hd ws)" using assms(1) \<open>hd ws \<noteq> []\<close> by (rule hd_join)
  ultimately show "plain [hd (join sep ws)]" "plain [last (join sep ws)]" by simp_all
qed

lemma fields_join_sep:
  assumes "is_ascii_space c" and "\<And>w. w \<in> set ws \<Longrightarrow> plain w \<and> w \<noteq> []"
  shows "str_fields (join [c] ws) = ws"
  using assms(2)
proof (induction "[c]" ws rule: join.induct)
  case (3 w v ws)
  then show ?case using assms(1) by (simp add: fields_word_space)
qed (simp_all add: fields_word)

lemma fields_join:
  assumes "\<And>w. w \<in> set ws \<Longrightarrow> plain w \<and> w \<noteq> []"
  shows "str_fields (join '' '' ws) = ws"
  using assms by (intro fields_join_sep) simp_all

lemma trim_right_set_snoc [simp]: "c \<in> set cs \<Longrightarrow> trim_right_set cs (s @ [c]) = trim_right_set cs s"
  by (simp add: trim_right_set_def)

lemma trim_set_id: "(\<And>c. c \<in> set s \<Longrightarrow> c \<notin> set cs) \<Longrightarrow> trim_set cs s = s"
  using dropWhile_none [of "rev s" "\<lambda>c. c \<in> set cs"]
  by (simp add: trim_set_def trim_left_set_def trim_right_set_def)

lemma trim_suffix_append [simp]: "trim_suffix (s @ suf) suf = s"
  by (simp add: trim_suffix_def suffixI)

text \<open>A trailing newline changes neither the fields of a line nor its trimmed text.\<close>

lemma utf8_spaces_bytes: "p \<in> set utf8_spaces \<Longrightarrow> c \<in> set p \<Longrightarrow> (of_char c :: nat) \<ge> 128"
  by (auto simp: utf8_spaces_def)

lemma space_len_snoc:
  assumes "is_ascii_space c" and "s \<noteq> []"
  shows "space_len (s @ [c]) = space_len s"
proof -
  have "prefix p (s @ [c]) \<longleftrightarrow> prefix p s" if "p \<in> set utf8_spaces" for p
    using utf8_spaces_bytes [OF that, of c] ascii_space_low [OF assms(1)] by (auto simp: prefix_snoc)
  then have "find (\<lambda>p. prefix p (s @ [c])) utf8_spaces = find (\<lambda>p. prefix p s) utf8_spaces"
    by (intro find_cong) simp_all
  with assms(2) show ?thesis by (cases s) (simp_all add: space_len_def)
qed

lemma fields_from_snoc_space:
  "is_ascii_space c \<Longrightarrow> fields_from cur (s @ [c]) = fields_from cur s"
proof (induction cur s rule: fields_from.induct)
  case (1 cur s)
  show ?case
  proof (cases "s = []")
    case True
    with 1 show ?thesis by (simp add: fields_from_space fields_from_Nil)
  next
    case False
    with 1 space_len_le [of s] show ?thesis
      by (simp add: fields_from.simps [of cur "s @ [c]"] fields_from.simps [of cur s] space_len_snoc)
  qed
qed

lemma fields_snoc_space [simp]: "is_ascii_space c \<Longrightarrow> str_fields (s @ [c]) = str_fields s"
  by (simp add: str_fields_def fields_from_snoc_space)

lemma trim_space_snoc:
  assumes "plain w" and "w \<noteq> []" and "is_ascii_space c"
  shows "trim_space (w @ [c]) = w"
proof -
  have ends: "plain [hd w]" "plain [last w]" using assms by (auto simp: plain_def)
  with assms(2) have "trim_left_space (w @ [c]) = w @ [c]"
    by (intro trim_left_space_hd) simp_all
  moreover have "trim_right_space (w @ [c]) = trim_right_space w"
    using assms(3) ascii_space_low [OF assms(3)]
    by (subst trim_right_space.simps) (simp add: space_suffix_len_ascii)
  ultimately show ?thesis
    using assms(2) ends by (simp add: trim_space_def trim_right_space_last)
qed

end
