(* ===== verification/Go_Strconv.thy ===== *)
theory Go_Strconv
  imports Go_Strings
begin

text \<open>
  Package \<^verbatim>\<open>strconv\<close> on integers: \<^verbatim>\<open>ParseUint\<close>, \<^verbatim>\<open>ParseInt\<close> and \<^verbatim>\<open>Itoa\<close>. As in Go, a value
  comes back together with the error: 0 with a syntax error, the nearest representable
  value with a range error. Bytes are read from the left, so a number that has overflowed
  is a range error even if an invalid byte follows.
\<close>

section \<open>Digits\<close>

definition is_digit :: "char \<Rightarrow> bool" where
  "is_digit c \<longleftrightarrow> 48 \<le> (of_char c :: nat) \<and> (of_char c :: nat) \<le> 57"

definition digit_of :: "char \<Rightarrow> nat option" where
  "digit_of c = (let n = (of_char c :: nat) in
     if 48 \<le> n \<and> n \<le> 57 then Some (n - 48)
     else if 97 \<le> n \<and> n \<le> 122 then Some (n - 87)
     else if 65 \<le> n \<and> n \<le> 90 then Some (n - 55)
     else None)"

definition digit_char :: "nat \<Rightarrow> char" where
  "digit_char d = char_of (48 + d)"

lemma of_char_digit_char [simp]: "d < 10 \<Longrightarrow> (of_char (digit_char d) :: nat) = 48 + d"
  by (simp add: digit_char_def)

lemma digit_of_digit_char [simp]: "d < 10 \<Longrightarrow> digit_of (digit_char d) = Some d"
  by (simp add: digit_of_def)

lemma is_digit_digit_char [simp]: "d < 10 \<Longrightarrow> is_digit (digit_char d)"
  by (simp add: is_digit_def)

lemma digit_of_digit: "is_digit c \<Longrightarrow> digit_of c = Some (of_char c - 48)"
  by (simp add: digit_of_def is_digit_def)

lemma is_digit_plain: "is_digit c \<Longrightarrow> (of_char c :: nat) < 128 \<and> \<not> is_ascii_space c"
  by (auto simp: is_digit_def is_ascii_space_def)

section \<open>Underscores between digits, for literals with a base prefix\<close>

datatype seen = SawStart | SawDigit | SawUnderscore | SawOther

fun underscore_scan :: "bool \<Rightarrow> seen \<Rightarrow> string \<Rightarrow> bool" where
  "underscore_scan hex saw [] = (saw \<noteq> SawUnderscore)"
| "underscore_scan hex saw (c # s) =
     (if is_digit c \<or> (hex \<and> lower_char c \<in> set ''abcdef'') then underscore_scan hex SawDigit s
      else if c = CHR ''_'' then saw = SawDigit \<and> underscore_scan hex SawUnderscore s
      else saw \<noteq> SawUnderscore \<and> underscore_scan hex SawOther s)"

definition underscore_ok :: "string \<Rightarrow> bool" where
  "underscore_ok s0 =
     (let s = (case s0 of c # t \<Rightarrow> if c = CHR ''-'' \<or> c = CHR ''+'' then t else s0 | [] \<Rightarrow> [])
      in if 2 \<le> length s \<and> s ! 0 = CHR ''0'' \<and> lower_char (s ! 1) \<in> set ''box''
         then underscore_scan (lower_char (s ! 1) = CHR ''x'') SawDigit (drop 2 s)
         else underscore_scan False SawStart s)"

section \<open>ParseUint and ParseInt\<close>

text \<open>The digit loop: the value and whether an underscore was skipped.\<close>

fun parse_digits :: "nat \<Rightarrow> nat \<Rightarrow> bool \<Rightarrow> string \<Rightarrow> nat \<Rightarrow> bool \<Rightarrow> num_err + (nat \<times> bool)" where
  "parse_digits base maxv base0 [] n us = Inr (n, us)"
| "parse_digits base maxv base0 (c # s) n us =
     (if c = CHR ''_'' \<and> base0 then parse_digits base maxv base0 s n True
      else (case digit_of c of None \<Rightarrow> Inl ErrSyntax
        | Some d \<Rightarrow> if base \<le> d then Inl ErrSyntax
            else if maxv < n * base + d then Inl ErrRange
            else parse_digits base maxv base0 s (n * base + d) us))"

text \<open>Base 0 reads the base from the prefix.\<close>

definition base_prefix :: "nat \<Rightarrow> string \<Rightarrow> nat \<times> string" where
  "base_prefix base s =
     (if base \<noteq> 0 then (base, s)
      else (case s of [] \<Rightarrow> (10, s)
        | c # t \<Rightarrow> if c \<noteq> CHR ''0'' then (10, s)
            else if 3 \<le> length s \<and> lower_char (hd t) = CHR ''b'' then (2, tl t)
            else if 3 \<le> length s \<and> lower_char (hd t) = CHR ''o'' then (8, tl t)
            else if 3 \<le> length s \<and> lower_char (hd t) = CHR ''x'' then (16, tl t)
            else (8, t)))"

definition parse_uint :: "string \<Rightarrow> nat \<Rightarrow> nat \<Rightarrow> nat \<times> num_err option" where
  "parse_uint s base bits =
     (if s = [] then (0, Some ErrSyntax)
      else let (b, t) = base_prefix base s; maxv = 2 ^ bits - 1
        in (case parse_digits b maxv (base = 0) t 0 False of
              Inl ErrRange \<Rightarrow> (maxv, Some ErrRange)
            | Inl ErrSyntax \<Rightarrow> (0, Some ErrSyntax)
            | Inr (n, us) \<Rightarrow> if us \<and> \<not> underscore_ok s then (0, Some ErrSyntax) else (n, None)))"

definition parse_int :: "string \<Rightarrow> nat \<Rightarrow> nat \<Rightarrow> int \<times> num_err option" where
  "parse_int s0 base bits =
     (if s0 = [] then (0, Some ErrSyntax)
      else let neg = (hd s0 = CHR ''-'');
               s = (if hd s0 = CHR ''-'' \<or> hd s0 = CHR ''+'' then tl s0 else s0);
               cutoff = 2 ^ (bits - 1)
        in (case parse_uint s base bits of
              (un, Some ErrSyntax) \<Rightarrow> (0, Some ErrSyntax)
            | (un, _) \<Rightarrow>
                if \<not> neg \<and> cutoff \<le> un then (int cutoff - 1, Some ErrRange)
                else if neg \<and> cutoff < un then (- int cutoff, Some ErrRange)
                else (if neg then - int un else int un, None)))"

text \<open>The calls as the sources make them: \<open>v, err := strconv.ParseUint(s, 10, 64)\<close> followed
  by a test of \<open>err\<close>.\<close>

definition parse_u64 :: "string \<Rightarrow> u64 result" where
  "parse_u64 s = (case parse_uint s 10 64 of (n, None) \<Rightarrow> Ok (word_of_nat n) | (_, Some e) \<Rightarrow> Err (NumError e))"

definition parse_u32 :: "string \<Rightarrow> u32 result" where
  "parse_u32 s = (case parse_uint s 10 32 of (n, None) \<Rightarrow> Ok (word_of_nat n) | (_, Some e) \<Rightarrow> Err (NumError e))"

definition parse_hex64 :: "string \<Rightarrow> u64 result" where
  "parse_hex64 s = (case parse_uint s 16 64 of (n, None) \<Rightarrow> Ok (word_of_nat n) | (_, Some e) \<Rightarrow> Err (NumError e))"

definition parse_i64 :: "string \<Rightarrow> int result" where
  "parse_i64 s = (case parse_int s 10 64 of (n, None) \<Rightarrow> Ok n | (_, Some e) \<Rightarrow> Err (NumError e))"

definition parse_i32 :: "string \<Rightarrow> int result" where
  "parse_i32 s = (case parse_int s 10 32 of (n, None) \<Rightarrow> Ok n | (_, Some e) \<Rightarrow> Err (NumError e))"

section \<open>Itoa\<close>

fun fmt_nat :: "nat \<Rightarrow> string" where
  "fmt_nat n = (if n < 10 then [digit_char n] else fmt_nat (n div 10) @ [digit_char (n mod 10)])"

declare fmt_nat.simps [simp del]

definition itoa :: "int \<Rightarrow> string" where
  "itoa i = (if i < 0 then CHR ''-'' # fmt_nat (nat (- i)) else fmt_nat (nat i))"

section \<open>Laws\<close>

definition dec_val :: "string \<Rightarrow> nat" where
  "dec_val s = foldl (\<lambda>n c. n * 10 + (of_char c - 48)) 0 s"

definition decimal :: "string \<Rightarrow> bool" where
  "decimal s \<longleftrightarrow> s \<noteq> [] \<and> list_all is_digit s"

lemma foldl_dec_mono: "n \<le> foldl (\<lambda>n c. n * 10 + (of_char c - 48 :: nat)) n s"
proof (induction s arbitrary: n)
  case (Cons c s)
  have "n \<le> n * 10 + (of_char c - 48)" by simp
  also have "\<dots> \<le> foldl (\<lambda>n c. n * 10 + (of_char c - 48)) (n * 10 + (of_char c - 48)) s"
    by (rule Cons.IH)
  finally show ?case by simp
qed simp

lemma digit_of_lt_10: "is_digit c \<Longrightarrow> (of_char c - 48 :: nat) < 10"
  by (auto simp: is_digit_def)

lemma not_underscore_digit: "is_digit c \<Longrightarrow> c \<noteq> CHR ''_''"
  by (auto simp: is_digit_def)

lemma parse_digits_decimal:
  assumes "list_all is_digit s" and "n \<le> maxv"
  shows "parse_digits 10 maxv base0 s n us =
    (if foldl (\<lambda>n c. n * 10 + (of_char c - 48)) n s \<le> maxv
     then Inr (foldl (\<lambda>n c. n * 10 + (of_char c - 48)) n s, us) else Inl ErrRange)"
  using assms
proof (induction s arbitrary: n)
  case (Cons c s)
  let ?m = "n * 10 + (of_char c - 48)"
  have c: "is_digit c" using Cons.prems by simp
  show ?case
  proof (cases "?m \<le> maxv")
    case True
    with Cons c show ?thesis
      by (simp add: digit_of_digit digit_of_lt_10 not_underscore_digit linorder_not_less [symmetric])
  next
    case False
    then have "\<not> foldl (\<lambda>n c. n * 10 + (of_char c - 48)) ?m s \<le> maxv"
      using foldl_dec_mono [of ?m s] by linarith
    with False c show ?thesis
      using digit_of_lt_10 [OF c] by (simp add: digit_of_digit not_underscore_digit)
  qed
qed simp

lemma parse_uint_decimal:
  assumes "decimal s"
  shows "parse_uint s 10 bits =
    (if dec_val s < 2 ^ bits then (dec_val s, None) else (2 ^ bits - 1, Some ErrRange))"
proof -
  have "dec_val s \<le> 2 ^ bits - 1 \<longleftrightarrow> dec_val s < 2 ^ bits"
    by (simp add: nat_less_le less_eq_Suc_le [symmetric] Suc_le_eq le_diff_conv)
       (metis One_nat_def Suc_pred less_Suc_eq_le zero_less_numeral zero_less_power nat_less_le)
  with assms show ?thesis
    by (auto simp: parse_uint_def base_prefix_def decimal_def parse_digits_decimal dec_val_def)
qed

lemma dec_val_snoc: "dec_val (s @ [c]) = dec_val s * 10 + (of_char c - 48)"
  by (simp add: dec_val_def)

lemma decimal_fmt_nat [simp]: "decimal (fmt_nat n)"
proof (induction n rule: fmt_nat.induct)
  case (1 n)
  then show ?case by (subst fmt_nat.simps) (simp add: decimal_def)
qed

lemma dec_val_fmt_nat [simp]: "dec_val (fmt_nat n) = n"
proof (induction n rule: fmt_nat.induct)
  case (1 n)
  show ?case
  proof (cases "n < 10")
    case True
    then show ?thesis by (subst fmt_nat.simps) (simp add: dec_val_def)
  next
    case False
    with "1.IH" show ?thesis
      by (subst fmt_nat.simps) (simp add: dec_val_snoc)
  qed
qed

lemma parse_uint_fmt_nat: "n < 2 ^ bits \<Longrightarrow> parse_uint (fmt_nat n) 10 bits = (n, None)"
  by (simp add: parse_uint_decimal)

lemma decimal_plain: "decimal s \<Longrightarrow> plain s"
  by (auto simp: decimal_def plain_def list_all_iff dest: is_digit_plain)

lemma fmt_nat_plain [simp]: "plain (fmt_nat n)"
  by (simp add: decimal_plain)

lemma fmt_nat_not_Nil [simp]: "fmt_nat n \<noteq> []"
  using decimal_fmt_nat [of n] by (simp add: decimal_def del: decimal_fmt_nat)

lemma itoa_plain [simp]: "plain (itoa i)" "itoa i \<noteq> []"
  by (auto simp: itoa_def is_ascii_space_def)

lemma hd_fmt_nat [simp]: "is_digit (hd (fmt_nat n))"
  using decimal_fmt_nat [of n]
  by (cases "fmt_nat n") (simp_all add: decimal_def del: decimal_fmt_nat)

lemma digit_not_sign: "is_digit c \<Longrightarrow> c \<noteq> CHR ''-'' \<and> c \<noteq> CHR ''+''"
  by (auto simp: is_digit_def)

lemma parse_int_fmt_nat:
  assumes "n < 2 ^ (bits - 1)" and "0 < bits"
  shows "parse_int (fmt_nat n) 10 bits = (int n, None)"
proof -
  have "n < 2 ^ bits"
    using assms by (cases bits) auto
  moreover have "hd (fmt_nat n) \<noteq> CHR ''-''" "hd (fmt_nat n) \<noteq> CHR ''+''"
    using digit_not_sign [OF hd_fmt_nat] by simp_all
  ultimately show ?thesis
    using assms by (simp add: parse_int_def parse_uint_fmt_nat Let_def)
qed

lemma parse_int_itoa:
  assumes "- (2 ^ (bits - 1)) \<le> i" and "i < 2 ^ (bits - 1)" and "0 < bits"
  shows "parse_int (itoa i) 10 bits = (i, None)"
proof (cases "i < 0")
  case True
  have le: "nat (- i) \<le> 2 ^ (bits - 1)"
    using assms(1) True by (simp add: nat_le_iff)
  moreover have "(2::nat) ^ (bits - 1) < 2 ^ bits"
    using assms(3) by simp
  ultimately have "nat (- i) < 2 ^ bits" by linarith
  with True le show ?thesis
    by (simp add: itoa_def parse_int_def parse_uint_fmt_nat Let_def)
next
  case False
  then have "nat i < 2 ^ (bits - 1)"
    using assms(2) by (simp add: nat_less_iff)
  with False show ?thesis
    using parse_int_fmt_nat assms(3) by (simp add: itoa_def)
qed

lemma parse_u64_fmt_nat [simp]: "n < 2 ^ 64 \<Longrightarrow> parse_u64 (fmt_nat n) = Ok (word_of_nat n)"
  by (simp add: parse_u64_def parse_uint_fmt_nat)

lemma parse_u64_fmt_unat [simp]: "parse_u64 (fmt_nat (unat (w :: u64))) = Ok w"
  using unsigned_less [of w, where 'a=nat] by (simp add: parse_u64_def parse_uint_fmt_nat)

lemma parse_u32_fmt_unat [simp]: "parse_u32 (fmt_nat (unat (w :: u32))) = Ok w"
  using unsigned_less [of w, where 'a=nat] by (simp add: parse_u32_def parse_uint_fmt_nat)

lemma parse_no_Panic [simp]:
  "parse_u64 s \<noteq> Panic" "parse_u32 s \<noteq> Panic" "parse_hex64 s \<noteq> Panic"
  "parse_i64 s \<noteq> Panic" "parse_i32 s \<noteq> Panic"
  by (auto simp: parse_u64_def parse_u32_def parse_hex64_def parse_i64_def parse_i32_def
      split: prod.splits option.splits)

lemma parse_digits_bound:
  "parse_digits base maxv base0 s n us = Inr (m, us') \<Longrightarrow> n \<le> maxv \<Longrightarrow> m \<le> maxv"
  by (induction base maxv base0 s n us rule: parse_digits.induct)
     (auto split: if_splits option.splits)

lemma parse_uint_bound: "fst (parse_uint s base bits) < 2 ^ bits"
proof -
  have p: "(0::nat) < 2 ^ bits" by simp
  then have "n \<le> 2 ^ bits - 1 \<Longrightarrow> n < 2 ^ bits" for n :: nat by linarith
  with p show ?thesis
    by (auto simp: parse_uint_def Let_def split: prod.splits sum.splits num_err.splits
        dest!: parse_digits_bound)
qed

lemma parse_int_bounds:
  "- (2 ^ (bits - 1)) \<le> fst (parse_int s base bits)" "fst (parse_int s base bits) < 2 ^ (bits - 1)"
proof -
  define t where "t = (if hd s = CHR ''-'' \<or> hd s = CHR ''+'' then tl s else s)"
  obtain un e where un: "parse_uint t base bits = (un, e)" by fastforce
  have pos: "(0::int) < 2 ^ (bits - 1)" by simp
  have *: "- (2 ^ (bits - 1)) \<le> fst (parse_int s base bits) \<and> fst (parse_int s base bits) < 2 ^ (bits - 1)"
  proof (cases "s = [] \<or> e = Some ErrSyntax")
    case True
    then show ?thesis using un pos by (auto simp: parse_int_def Let_def t_def [symmetric])
  next
    case False
    then have "parse_int s base bits =
        (if hd s \<noteq> CHR ''-'' \<and> 2 ^ (bits - 1) \<le> un then (int (2 ^ (bits - 1)) - 1, Some ErrRange)
         else if hd s = CHR ''-'' \<and> 2 ^ (bits - 1) < un then (- int (2 ^ (bits - 1)), Some ErrRange)
         else (if hd s = CHR ''-'' then - int un else int un, None))"
      using un by (auto simp: parse_int_def Let_def t_def [symmetric] split: option.splits num_err.splits)
    moreover have "- int un < 2 ^ (bits - 1)" "- (2 ^ (bits - 1)) \<le> int un"
      using pos by linarith+
    ultimately show ?thesis using pos by (simp split: if_splits)
  qed
  show "- (2 ^ (bits - 1)) \<le> fst (parse_int s base bits)" "fst (parse_int s base bits) < 2 ^ (bits - 1)"
    using * by simp_all
qed

lemma decimal_chars: "decimal s \<Longrightarrow> c \<in> set s \<Longrightarrow> is_digit c"
  by (simp add: decimal_def list_all_iff)

lemma itoa_chars: "c \<in> set (itoa i) \<Longrightarrow> is_digit c \<or> c = CHR ''-''"
  using decimal_chars [OF decimal_fmt_nat] by (auto simp: itoa_def split: if_splits)

lemma itoa_inject [simp]: "itoa i = itoa j \<longleftrightarrow> i = j"
proof
  assume eq: "itoa i = itoa j"
  have inj: "fmt_nat m = fmt_nat n \<Longrightarrow> m = n" for m n by (metis dec_val_fmt_nat)
  have "fmt_nat m \<noteq> CHR ''-'' # s" for m s
    using hd_fmt_nat [of m] digit_not_sign by (metis list.sel(1))
  with eq show "i = j"
    by (auto simp: itoa_def dest!: inj split: if_splits) (metis)+
qed simp

lemma parse_u64_itoa: "0 \<le> i \<Longrightarrow> i < 2 ^ 64 \<Longrightarrow> parse_u64 (itoa i) = Ok (word_of_int i)"
  using parse_u64_fmt_nat [of "nat i"] by (simp add: itoa_def nat_less_iff)

lemma parse_i32_itoa: "- (2 ^ 31) \<le> i \<Longrightarrow> i < 2 ^ 31 \<Longrightarrow> parse_i32 (itoa i) = Ok i"
  using parse_int_itoa [of 32 i] by (simp add: parse_i32_def)

end
