(* ===== verification/Go_Float.thy ===== *)
theory Go_Float
  imports Go_Strconv "HOL-Library.Log_Nat"
begin

text \<open>
  IEEE 754 arithmetic as Go's \<^verbatim>\<open>float64\<close> and \<^verbatim>\<open>float32\<close> have it: every operation computes
  the exact rational result and rounds it to the nearest representable number, ties to
  even, with gradual underflow and overflow to an infinity. The laws used by the component
  theories are that rounding is monotone and leaves small integers unchanged.
\<close>

section \<open>Rounding to a binary precision\<close>

text \<open>The exponent of the leading bit of a positive rational.\<close>

definition ilog2 :: "rat \<Rightarrow> int" where
  "ilog2 q = (let (a, b) = quotient_of q; k = bitlen a - bitlen b
     in if 2 powi k \<le> q then k else k - 1)"

text \<open>Round half to even.\<close>

definition rhe :: "rat \<Rightarrow> int" where
  "rhe q = (let f = \<lfloor>q\<rfloor>; d = q - of_int f
     in if d < 1 / 2 then f else if 1 / 2 < d then f + 1 else if even f then f else f + 1)"

text \<open>\<open>p\<close> bits of precision, \<open>emin\<close> the exponent of the smallest subnormal number.\<close>

definition ulp_exp :: "nat \<Rightarrow> int \<Rightarrow> rat \<Rightarrow> int" where
  "ulp_exp p emin q = max emin (ilog2 q - (int p - 1))"

definition rnd_pos :: "nat \<Rightarrow> int \<Rightarrow> rat \<Rightarrow> rat" where
  "rnd_pos p emin q = (let u = 2 powi ulp_exp p emin q in of_int (rhe (q / u)) * u)"

definition rnd :: "nat \<Rightarrow> int \<Rightarrow> rat \<Rightarrow> rat" where
  "rnd p emin q = (if q = 0 then 0 else if 0 < q then rnd_pos p emin q else - rnd_pos p emin (- q))"

lemma powi2_pos [simp]: "(0::rat) < 2 powi k"
  by (simp add: zero_less_power_int)

lemma powi2_nonzero [simp]: "(2::rat) powi k \<noteq> 0"
  using powi2_pos [of k] by linarith

lemma powi2_less_iff: "(2::rat) powi j < 2 powi k \<longleftrightarrow> j < k"
proof
  assume *: "(2::rat) powi j < 2 powi k"
  show "j < k"
  proof (rule ccontr)
    assume "\<not> j < k"
    then have "(2::rat) powi k \<le> 2 powi j" by (intro power_int_increasing) simp_all
    with * show False by linarith
  qed
qed (rule power_int_strict_increasing, simp_all)

lemma bitlen_powi:
  assumes "0 < (a::int)"
  shows "(2::rat) powi (bitlen a - 1) \<le> of_int a" and "of_int a < (2::rat) powi (bitlen a)"
proof -
  have "0 < bitlen a" using assms by (simp add: bitlen_alt_def)
  then have b: "bitlen a - 1 \<ge> 0" "bitlen a \<ge> 0" by simp_all
  have *: "2 ^ nat (bitlen a - 1) \<le> a" "a < 2 ^ nat (bitlen a)"
    using bitlen_bounds [OF assms] by simp_all
  have "(2::rat) powi (bitlen a - 1) = of_int (2 ^ nat (bitlen a - 1))"
    using b by (simp add: power_int_def)
  with *(1) show "(2::rat) powi (bitlen a - 1) \<le> of_int a"
    using of_int_le_iff by metis
  have "(2::rat) powi (bitlen a) = of_int (2 ^ nat (bitlen a))"
    using b by (simp add: power_int_def)
  with *(2) show "of_int a < (2::rat) powi (bitlen a)"
    using of_int_less_iff by metis
qed

lemma ilog2_bounds:
  assumes "0 < q"
  shows "2 powi (ilog2 q) \<le> q" and "q < 2 powi (ilog2 q + 1)"
proof -
  obtain a b where ab: "quotient_of q = (a, b)" by fastforce
  then have q: "q = of_int a / of_int b" and b: "0 < b"
    by (simp_all add: quotient_of_div quotient_of_denom_pos)
  with assms have a: "0 < a" by (simp add: zero_less_divide_iff)
  define k where "k = bitlen a - bitlen b"
  note A = bitlen_powi [OF a] and B = bitlen_powi [OF b]
  have "2 powi (k - 1) \<le> (2::rat) powi (bitlen a - 1) / 2 powi (bitlen b)"
    by (simp add: k_def power_int_diff power_int_add field_simps)
  also have "\<dots> \<le> q"
    unfolding q using A(1) B(2) a b by (intro frac_le) simp_all
  finally have lo: "2 powi (k - 1) \<le> q" .
  have "q < (2::rat) powi (bitlen a) / 2 powi (bitlen b - 1)"
    unfolding q using A(2) B(1) a by (intro frac_less) simp_all
  also have "\<dots> = 2 powi (k + 1)"
    by (simp add: k_def power_int_diff power_int_add field_simps)
  finally have hi: "q < 2 powi (k + 1)" .
  have il: "ilog2 q = (if 2 powi k \<le> q then k else k - 1)"
    by (simp add: ilog2_def ab k_def)
  show "2 powi (ilog2 q) \<le> q" "q < 2 powi (ilog2 q + 1)"
    using lo hi by (auto simp: il)
qed

lemma ilog2_less_iff: "0 < q \<Longrightarrow> ilog2 q < k \<longleftrightarrow> q < 2 powi k"
  using ilog2_bounds [of q] powi2_less_iff [of "ilog2 q" k]
    power_int_increasing [of "ilog2 q + 1" k "2::rat"]
  by (cases "ilog2 q < k") (auto intro: order.strict_trans2 dest: order.strict_trans1)

lemma ilog2_mono: "0 < q \<Longrightarrow> q \<le> r \<Longrightarrow> ilog2 q \<le> ilog2 r"
  using ilog2_bounds(2) [of r] ilog2_less_iff [of q "ilog2 r + 1"] by linarith

lemma rhe_bounds: "\<lfloor>q\<rfloor> \<le> rhe q" "rhe q \<le> \<lfloor>q\<rfloor> + 1"
  by (auto simp: rhe_def Let_def)

lemma rhe_of_int [simp]: "rhe (of_int n) = n"
  by (simp add: rhe_def)

lemma rhe_mono:
  assumes "x \<le> y"
  shows "rhe x \<le> rhe y"
proof (cases "\<lfloor>x\<rfloor> = \<lfloor>y\<rfloor>")
  case True
  then show ?thesis using assms by (auto simp: rhe_def Let_def)
next
  case False
  moreover have "\<lfloor>x\<rfloor> \<le> \<lfloor>y\<rfloor>" using assms by (rule floor_mono)
  ultimately show ?thesis using rhe_bounds(2) [of x] rhe_bounds(1) [of y] by linarith
qed

lemma rhe_le: "x \<le> of_int n \<Longrightarrow> rhe x \<le> n"
  using rhe_mono [of x "of_int n"] by simp

lemma rhe_ge: "of_int n \<le> x \<Longrightarrow> n \<le> rhe x"
  using rhe_mono [of "of_int n" x] by simp

lemma powi2_of_int: "0 \<le> k \<Longrightarrow> (2::rat) powi k = of_int (2 ^ nat k)"
  by (simp add: power_int_def)

text \<open>A power of two on the grid of \<open>x\<close> bounds the rounded value.\<close>

lemma rnd_pos_le_powi:
  assumes "x \<le> 2 powi m" and "ulp_exp p emin x \<le> m"
  shows "rnd_pos p emin x \<le> 2 powi m"
proof -
  let ?e = "ulp_exp p emin x"
  have "x / 2 powi ?e \<le> 2 powi (m - ?e)"
    using assms(1) by (simp add: power_int_diff divide_right_mono less_imp_le)
  then have "rhe (x / 2 powi ?e) \<le> 2 ^ nat (m - ?e)"
    using assms(2) by (intro rhe_le) (simp add: powi2_of_int)
  then have "of_int (rhe (x / 2 powi ?e)) \<le> (2::rat) powi (m - ?e)"
    using assms(2) by (metis powi2_of_int of_int_le_iff diff_ge_0_iff_ge)
  then have "of_int (rhe (x / 2 powi ?e)) * 2 powi ?e \<le> (2::rat) powi (m - ?e) * 2 powi ?e"
    by (intro mult_right_mono) (simp_all add: less_imp_le)
  then show ?thesis by (simp add: rnd_pos_def Let_def power_int_diff)
qed

lemma rnd_pos_ge_powi:
  assumes "2 powi m \<le> x" and "ulp_exp p emin x \<le> m"
  shows "2 powi m \<le> rnd_pos p emin x"
proof -
  let ?e = "ulp_exp p emin x"
  have "2 powi (m - ?e) \<le> x / 2 powi ?e"
    using assms(1) by (simp add: power_int_diff divide_right_mono less_imp_le)
  then have "2 ^ nat (m - ?e) \<le> rhe (x / 2 powi ?e)"
    using assms(2) by (intro rhe_ge) (simp add: powi2_of_int)
  then have "(2::rat) powi (m - ?e) \<le> of_int (rhe (x / 2 powi ?e))"
    using assms(2) by (metis powi2_of_int of_int_le_iff diff_ge_0_iff_ge)
  then have "(2::rat) powi (m - ?e) * 2 powi ?e \<le> of_int (rhe (x / 2 powi ?e)) * 2 powi ?e"
    by (intro mult_right_mono) (simp_all add: less_imp_le)
  then show ?thesis by (simp add: rnd_pos_def Let_def power_int_diff)
qed

lemma rnd_pos_mono:
  assumes "0 < x" and "x \<le> y" and "0 < p"
  shows "rnd_pos p emin x \<le> rnd_pos p emin y"
proof (cases "ulp_exp p emin x = ulp_exp p emin y")
  case True
  have "rhe (x / 2 powi ulp_exp p emin y) \<le> rhe (y / 2 powi ulp_exp p emin y)"
    using assms(2) by (intro rhe_mono divide_right_mono) (simp_all add: less_imp_le)
  then show ?thesis
    by (simp add: rnd_pos_def Let_def True mult_right_mono less_imp_le)
next
  case False
  let ?ex = "ulp_exp p emin x" and ?ey = "ulp_exp p emin y"
  have "?ex \<le> ?ey"
    using ilog2_mono [OF assms(1,2)] by (simp add: ulp_exp_def)
  with False have lt: "?ex < ?ey" by simp
  then have ey: "?ey = ilog2 y - (int p - 1)"
    by (auto simp: ulp_exp_def max_def split: if_splits)
  define m where "m = ?ey + (int p - 1)"
  have "2 powi m \<le> y"
    using ilog2_bounds(1) [of y] assms(1,2) by (simp add: m_def ey)
  moreover have "ilog2 x < m"
    using lt by (auto simp: m_def ulp_exp_def)
  then have "x \<le> 2 powi m"
    using ilog2_less_iff [OF assms(1)] by (simp add: less_imp_le)
  moreover have "?ex \<le> m" "?ey \<le> m" using lt assms(3) by (simp_all add: m_def)
  ultimately show ?thesis
    using rnd_pos_le_powi rnd_pos_ge_powi order.trans by blast
qed

lemma rnd_pos_nonneg: "0 < x \<Longrightarrow> 0 \<le> rnd_pos p emin x"
  using rhe_ge [of 0 "x / 2 powi ulp_exp p emin x"]
  by (simp add: rnd_pos_def Let_def less_imp_le)

lemma rnd_mono:
  assumes "x \<le> y" and "0 < p"
  shows "rnd p emin x \<le> rnd p emin y"
proof -
  have neg: "rnd_pos p emin (- y) \<le> rnd_pos p emin (- x)" if "y < 0"
    using that assms by (intro rnd_pos_mono) simp_all
  have sign: "x < 0 \<Longrightarrow> 0 < y \<Longrightarrow> - rnd_pos p emin (- x) \<le> rnd_pos p emin y"
    using rnd_pos_nonneg [of "- x" p emin] rnd_pos_nonneg [of y p emin] by simp
  show ?thesis
    using assms rnd_pos_mono [of x y p emin] neg sign rnd_pos_nonneg [of y p emin]
      rnd_pos_nonneg [of "- x" p emin]
    by (auto simp: rnd_def)
qed

lemma rnd_0 [simp]: "rnd p emin 0 = 0"
  by (simp add: rnd_def)

lemma rnd_nonneg: "0 \<le> x \<Longrightarrow> 0 < p \<Longrightarrow> 0 \<le> rnd p emin x"
  using rnd_mono [of 0 x p emin] by simp

lemma rnd_uminus: "rnd p emin (- x) = - rnd p emin x"
  by (simp add: rnd_def)

lemma rnd_of_int:
  assumes "0 < n" and "n < 2 ^ p" and "emin \<le> 0" and "0 < p"
  shows "rnd p emin (of_int n) = of_int n"
proof -
  define e where "e = ulp_exp p emin (of_int n)"
  have "(of_int n :: rat) < 2 powi int p"
    using assms(2) by (simp add: power_int_of_nat)
  then have "ilog2 (of_int n) < int p"
    using ilog2_less_iff [of "of_int n"] assms(1) by simp
  then have "e \<le> 0" using assms(3) by (simp add: e_def ulp_exp_def)
  then obtain k where k: "e = - int k" by (rule nonpos_int_cases)
  have "of_int n / (2::rat) powi e = of_int (n * 2 ^ k)"
    by (simp add: k power_int_minus divide_inverse)
  then have "rhe (of_int n / 2 powi e) = n * 2 ^ k"
    by (simp only: rhe_of_int)
  then have "rnd_pos p emin (of_int n) = of_int (n * 2 ^ k) * 2 powi e"
    by (simp add: rnd_pos_def Let_def e_def [symmetric])
  also have "\<dots> = of_int n"
    by (simp add: k power_int_minus)
  finally show ?thesis using assms(1) by (simp add: rnd_def)
qed

section \<open>The floating-point numbers\<close>

text \<open>\<open>Fin 0\<close> is the positive zero; the other finite numbers are \<open>Fin q\<close>.\<close>

datatype float64 = NaN | PInf | NInf | NegZero | Fin rat

primrec fval :: "float64 \<Rightarrow> rat" where
  "fval NaN = 0"
| "fval PInf = 0"
| "fval NInf = 0"
| "fval NegZero = 0"
| "fval (Fin q) = q"

fun finite_float :: "float64 \<Rightarrow> bool" where
  "finite_float (Fin q) = True"
| "finite_float NegZero = True"
| "finite_float _ = False"

fun sign_bit :: "float64 \<Rightarrow> bool" where
  "sign_bit (Fin q) = (q < 0)"
| "sign_bit NegZero = True"
| "sign_bit NInf = True"
| "sign_bit _ = False"

text \<open>
  The rounded result of an operation whose exact value is \<open>q\<close>; \<open>neg\<close> is the sign of the
  result, used when it rounds to zero. A rounded value of magnitude \<open>2 ^ emax\<close> or more
  overflows.
\<close>

definition fl_gen :: "nat \<Rightarrow> int \<Rightarrow> nat \<Rightarrow> bool \<Rightarrow> rat \<Rightarrow> float64" where
  "fl_gen p emin emax neg q = (let r = rnd p emin q
     in if 0 < r \<and> int emax \<le> ilog2 r then PInf
        else if r < 0 \<and> int emax \<le> ilog2 (- r) then NInf
        else if r = 0 \<and> neg then NegZero else Fin r)"

definition fl :: "bool \<Rightarrow> rat \<Rightarrow> float64" where
  "fl = fl_gen 53 (- 1074) 1024"

definition fl32 :: "bool \<Rightarrow> rat \<Rightarrow> float64" where
  "fl32 = fl_gen 24 (- 149) 128"

text \<open>The operations, with the rounding as a parameter.\<close>

fun f_neg :: "float64 \<Rightarrow> float64" where
  "f_neg NaN = NaN"
| "f_neg PInf = NInf"
| "f_neg NInf = PInf"
| "f_neg NegZero = Fin 0"
| "f_neg (Fin q) = (if q = 0 then NegZero else Fin (- q))"

definition f_add :: "(bool \<Rightarrow> rat \<Rightarrow> float64) \<Rightarrow> float64 \<Rightarrow> float64 \<Rightarrow> float64" where
  "f_add r a b =
     (if a = NaN \<or> b = NaN then NaN
      else if a = PInf then (if b = NInf then NaN else PInf)
      else if a = NInf then (if b = PInf then NaN else NInf)
      else if b = PInf \<or> b = NInf then b
      else if a = NegZero \<and> b = NegZero then NegZero
      else let s = fval a + fval b in r (s < 0) s)"

definition f_mul :: "(bool \<Rightarrow> rat \<Rightarrow> float64) \<Rightarrow> float64 \<Rightarrow> float64 \<Rightarrow> float64" where
  "f_mul r a b = (let neg = (sign_bit a \<noteq> sign_bit b) in
     if a = NaN \<or> b = NaN then NaN
     else if finite_float a \<and> finite_float b then r neg (fval a * fval b)
     else if (finite_float a \<and> fval a = 0) \<or> (finite_float b \<and> fval b = 0) then NaN
     else if neg then NInf else PInf)"

definition f_div :: "(bool \<Rightarrow> rat \<Rightarrow> float64) \<Rightarrow> float64 \<Rightarrow> float64 \<Rightarrow> float64" where
  "f_div r a b = (let neg = (sign_bit a \<noteq> sign_bit b) in
     if a = NaN \<or> b = NaN then NaN
     else if finite_float a \<and> finite_float b then
       (if fval b = 0 then (if fval a = 0 then NaN else if neg then NInf else PInf)
        else r neg (fval a / fval b))
     else if finite_float a then (if neg then NegZero else Fin 0)
     else if finite_float b then (if neg then NInf else PInf)
     else NaN)"

fun f_less :: "float64 \<Rightarrow> float64 \<Rightarrow> bool" where
  "f_less NaN b = False"
| "f_less a NaN = False"
| "f_less PInf b = False"
| "f_less a NInf = False"
| "f_less NInf b = True"
| "f_less a PInf = True"
| "f_less a b = (fval a < fval b)"

definition f_eq :: "float64 \<Rightarrow> float64 \<Rightarrow> bool" where
  "f_eq a b \<longleftrightarrow> a \<noteq> NaN \<and> b \<noteq> NaN \<and>
     (if finite_float a \<and> finite_float b then fval a = fval b else a = b)"

text \<open>Go's operators on \<^verbatim>\<open>float64\<close>, as the library's operator classes.\<close>

instantiation float64 :: "{zero, one, plus, minus, uminus, times, inverse, ord}"
begin

definition zero_float64 :: float64 where
  "0 = Fin 0"

definition one_float64 :: float64 where
  "1 = Fin 1"

definition plus_float64 :: "float64 \<Rightarrow> float64 \<Rightarrow> float64" where
  "a + b = f_add fl a b"

definition minus_float64 :: "float64 \<Rightarrow> float64 \<Rightarrow> float64" where
  "a - b = f_add fl a (f_neg b)"

definition uminus_float64 :: "float64 \<Rightarrow> float64" where
  "- a = f_neg a"

definition times_float64 :: "float64 \<Rightarrow> float64 \<Rightarrow> float64" where
  "a * b = f_mul fl a b"

definition inverse_float64 :: "float64 \<Rightarrow> float64" where
  "inverse a = f_div fl (Fin 1) a"

definition divide_float64 :: "float64 \<Rightarrow> float64 \<Rightarrow> float64" where
  "a div b = f_div fl a b"

definition less_float64 :: "float64 \<Rightarrow> float64 \<Rightarrow> bool" where
  "a < b = f_less a b"

definition less_eq_float64 :: "float64 \<Rightarrow> float64 \<Rightarrow> bool" where
  "a \<le> b = (f_less a b \<or> f_eq a b)"

instance ..

end

text \<open>\<^verbatim>\<open>math.Min\<close> and \<^verbatim>\<open>math.Max\<close>, with their special cases in the library's order.\<close>

definition f_min :: "float64 \<Rightarrow> float64 \<Rightarrow> float64" where
  "f_min x y =
     (if x = NInf \<or> y = NInf then NInf else if x = NaN \<or> y = NaN then NaN
      else if f_eq x 0 \<and> f_eq x y then (if sign_bit x then x else y)
      else if x < y then x else y)"

definition f_max :: "float64 \<Rightarrow> float64 \<Rightarrow> float64" where
  "f_max x y =
     (if x = PInf \<or> y = PInf then PInf else if x = NaN \<or> y = NaN then NaN
      else if f_eq x 0 \<and> f_eq x y then (if sign_bit x then y else x)
      else if y < x then x else y)"

text \<open>Conversions from integers round; a conversion to \<^verbatim>\<open>uint64\<close> truncates, and its value
  is implementation-dependent when it does not fit (\<open>oob\<close>).\<close>

definition f_of_nat :: "nat \<Rightarrow> float64" where
  "f_of_nat n = fl False (of_nat n)"

definition f_of_int :: "int \<Rightarrow> float64" where
  "f_of_int i = fl (i < 0) (of_int i)"

abbreviation f_of_u64 :: "u64 \<Rightarrow> float64" where
  "f_of_u64 w \<equiv> f_of_nat (unat w)"

definition rat_trunc :: "rat \<Rightarrow> int" where
  "rat_trunc q = (if 0 \<le> q then \<lfloor>q\<rfloor> else - \<lfloor>- q\<rfloor>)"

definition f_to_u64 :: "(float64 \<Rightarrow> u64) \<Rightarrow> float64 \<Rightarrow> u64" where
  "f_to_u64 oob x = (if finite_float x \<and> 0 \<le> rat_trunc (fval x) \<and> rat_trunc (fval x) < 2 ^ 64
     then word_of_int (rat_trunc (fval x)) else oob x)"

section \<open>Laws of the operations\<close>

lemma fl_nonneg:
  assumes "0 \<le> q" and "q \<le> 2 ^ 1000"
  shows "\<exists>r. fl False q = Fin r \<and> r = rnd 53 (- 1074) q \<and> 0 \<le> r \<and> r \<le> rnd 53 (- 1074) (2 ^ 1000)"
proof -
  let ?r = "rnd 53 (- 1074) q"
  have r: "0 \<le> ?r" "?r \<le> rnd 53 (- 1074) (2 ^ 1000)"
    using assms by (simp_all add: rnd_nonneg rnd_mono)
  have "rnd 53 (- 1074) (2 ^ 1000) = rnd_pos 53 (- 1074) (2 powi 1000)"
    by (simp add: rnd_def power_int_def)
  also have "\<dots> \<le> 2 powi 1000"
  proof (rule rnd_pos_le_powi)
    have "ilog2 (2 powi 1000) < 1001" by (subst ilog2_less_iff) (simp_all add: powi2_less_iff)
    then show "ulp_exp 53 (- 1074) (2 powi 1000) \<le> 1000" by (simp add: ulp_exp_def)
  qed simp
  also have "\<dots> < (2::rat) powi 1024" by (simp only: powi2_less_iff)
  finally have "?r < 2 powi 1024" using r(2) by (rule order.strict_trans1 [rotated])
  then have "0 < ?r \<Longrightarrow> ilog2 ?r < 1024" by (simp add: ilog2_less_iff)
  then show ?thesis
    using r by (auto simp: fl_def fl_gen_def Let_def)
qed

lemma fl_bounded:
  assumes "0 \<le> q" and "q \<le> of_int n" and "0 < n" and "n < 2 ^ 53"
  shows "\<exists>r. fl False q = Fin r \<and> r = rnd 53 (- 1074) q \<and> 0 \<le> r \<and> r \<le> of_int n"
proof -
  have "(of_int n :: rat) \<le> of_int (2 ^ 53)" using assms(4) by (simp only: of_int_le_iff)
  also have "\<dots> \<le> 2 ^ 1000" by (simp add: power_increasing)
  finally have "q \<le> 2 ^ 1000" using assms(2) by simp
  moreover have "rnd 53 (- 1074) q \<le> of_int n"
    using rnd_mono [OF assms(2), of 53 "- 1074"] rnd_of_int [of n 53 "- 1074"] assms(3,4) by simp
  ultimately show ?thesis using fl_nonneg [OF assms(1)] by auto
qed

lemma less_Fin [simp]: "Fin a < Fin b \<longleftrightarrow> a < b"
  by (simp add: less_float64_def)

lemma le_Fin [simp]: "Fin a \<le> Fin b \<longleftrightarrow> a \<le> b"
  by (auto simp: less_eq_float64_def f_eq_def)

lemma NaN_unordered [simp]: "\<not> NaN < a" "\<not> a < NaN" "\<not> NaN \<le> a" "\<not> a \<le> NaN"
  by (cases a; simp add: less_float64_def less_eq_float64_def f_eq_def)+

text \<open>\<^verbatim>\<open>float64(n)\<close> for a \<^verbatim>\<open>uint64\<close>: finite, monotone, and positive for a positive \<open>n\<close>.\<close>

definition r64 :: "nat \<Rightarrow> rat" where
  "r64 n = rnd 53 (- 1074) (of_nat n)"

lemma f_of_nat_Fin:
  assumes "n < 2 ^ 64"
  shows "f_of_nat n = Fin (r64 n)"
proof -
  have "n \<le> 2 ^ 1000" using assms by (rule order.trans [OF less_imp_le]) (simp add: power_increasing)
  then have "(of_nat n :: rat) \<le> of_nat (2 ^ 1000)" by (rule of_nat_mono)
  then show ?thesis
    using fl_nonneg [of "of_nat n"] by (auto simp: f_of_nat_def r64_def)
qed

lemma f_of_u64: "f_of_u64 w = Fin (r64 (unat w))"
  using unsigned_less [of w, where 'a=nat] by (intro f_of_nat_Fin) simp

lemma r64_mono: "m \<le> n \<Longrightarrow> r64 m \<le> r64 n"
  by (simp add: r64_def rnd_mono)

lemma r64_1 [simp]: "r64 1 = 1" "r64 (Suc 0) = 1"
  using rnd_of_int [of 1 53 "- 1074"] by (simp_all add: r64_def)

lemma r64_pos: "0 < n \<Longrightarrow> 1 \<le> r64 n"
  using r64_mono [of 1 n] by simp

lemma r64_nonneg: "0 \<le> r64 n"
  by (simp add: r64_def rnd_nonneg)

lemma r64_0 [simp]: "r64 0 = 0"
  by (simp add: r64_def)

text \<open>The expression \<^verbatim>\<open>float64(x) / float64(y) * 100.0\<close> of the usage percentages.\<close>

lemma mul_Fin_nonneg: "0 \<le> a \<Longrightarrow> 0 \<le> b \<Longrightarrow> Fin a * Fin b = fl False (a * b)"
  by (simp add: times_float64_def f_mul_def)

lemma div_Fin_nonneg: "0 \<le> a \<Longrightarrow> 0 < b \<Longrightarrow> Fin a / Fin b = fl False (a / b)"
  by (simp add: divide_float64_def f_div_def)

lemma percent_Fin:
  assumes "0 \<le> a" and "a \<le> b" and "0 < b"
  shows "\<exists>r. Fin a / Fin b * Fin 100 = Fin r \<and> 0 \<le> r \<and> r \<le> 100"
proof -
  have "a / b \<le> of_int 1" using assms by simp
  with assms obtain q where q: "Fin a / Fin b = Fin q" "0 \<le> q" "q \<le> 1"
    using fl_bounded [of "a / b" 1] by (auto simp: div_Fin_nonneg)
  then have "q * 100 \<le> of_int 100" "0 \<le> q * 100" by simp_all
  with q(2) obtain r where "fl False (q * 100) = Fin r" "0 \<le> r" "r \<le> 100"
    using fl_bounded [of "q * 100" 100] by auto
  with q show ?thesis by (simp add: mul_Fin_nonneg)
qed

lemma percent_u64:
  assumes "x \<le> y" and "y \<noteq> 0"
  shows "\<exists>r. f_of_u64 x / f_of_u64 y * Fin 100 = Fin r \<and> 0 \<le> r \<and> r \<le> 100"
proof -
  have "0 < unat y" using assms(2) by (simp add: unat_gt_0)
  then have "0 < r64 (unat y)" using r64_pos [of "unat y"] by linarith
  moreover have "r64 (unat x) \<le> r64 (unat y)"
    using assms(1) by (simp add: r64_mono word_le_nat_alt)
  ultimately show ?thesis
    using percent_Fin [OF r64_nonneg] by (simp add: f_of_u64)
qed

lemma f_of_nat_0 [simp]: "f_of_nat 0 = Fin 0"
  using f_of_u64 [of 0] by simp

lemma f_min_Fin: "f_min (Fin a) (Fin b) = Fin (min a b)"
  by (auto simp: f_min_def zero_float64_def f_eq_def less_float64_def min_def)

lemma percent_u64_diff:
  assumes "x \<le> y" and "y \<noteq> 0"
  shows "unat (y - x) + unat x = unat y"
    and "\<exists>r. f_of_u64 (y - x) / f_of_u64 y * Fin 100 = Fin r \<and> 0 \<le> r \<and> r \<le> 100"
proof -
  show u: "unat (y - x) + unat x = unat y"
    using assms(1) by (simp add: unat_sub_if_size word_le_nat_alt)
  then have "y - x \<le> y" by (simp add: word_le_nat_alt)
  then show "\<exists>r. f_of_u64 (y - x) / f_of_u64 y * Fin 100 = Fin r \<and> 0 \<le> r \<and> r \<le> 100"
    by (rule percent_u64 [OF _ assms(2)])
qed

lemma div_Fin_zero: "0 \<le> a \<Longrightarrow> Fin a / Fin 0 = (if a = 0 then NaN else PInf)"
  by (simp add: divide_float64_def f_div_def)

lemma mul_NaN_PInf_100: "NaN * Fin 100 = NaN" "PInf * Fin 100 = PInf"
  by (simp_all add: times_float64_def f_mul_def)

lemma percent_u64_zero: "f_of_u64 x / f_of_u64 0 * Fin 100 = (if x = 0 then NaN else PInf)"
proof (cases "x = 0")
  case False
  then have "0 < unat x" by (simp add: unat_gt_0)
  from r64_pos [OF this] have "r64 (unat x) \<noteq> 0" by linarith
  with False show ?thesis
    by (simp only: f_of_u64 unat_0 f_of_nat_0 div_Fin_zero [OF r64_nonneg] mul_NaN_PInf_100 if_False)
next
  case True
  then show ?thesis by (simp only: unat_0 f_of_nat_0 div_Fin_zero [OF order_refl] mul_NaN_PInf_100 simp_thms if_True)
qed

section \<open>Finite ranges\<close>

text \<open>
  Every rounded value is a multiple of the smallest subnormal number, so two different
  doubles have a difference that does not round to zero. \<open>fbound k x\<close> says that \<open>x\<close> is such a
  finite number of magnitude at most \<open>2 ^ k\<close>.
\<close>

definition on_grid :: "rat \<Rightarrow> bool" where
  "on_grid q \<longleftrightarrow> (\<exists>n. q = of_int n * 2 powi (- 1074))"

definition fbound :: "nat \<Rightarrow> float64 \<Rightarrow> bool" where
  "fbound k x \<longleftrightarrow> finite_float x \<and> on_grid (fval x) \<and> \<bar>fval x\<bar> \<le> 2 powi int k"

lemma on_grid_0 [simp]: "on_grid 0"
  unfolding on_grid_def by (rule exI [of _ 0]) simp

lemma on_grid_uminus [simp]: "on_grid (- q) \<longleftrightarrow> on_grid q"
proof -
  have "on_grid (- r)" if "on_grid r" for r
    using that unfolding on_grid_def by (metis mult_minus_left of_int_minus)
  then show ?thesis by (metis minus_minus)
qed

lemma on_grid_add: "on_grid a \<Longrightarrow> on_grid b \<Longrightarrow> on_grid (a + b)"
  unfolding on_grid_def by (metis distrib_right of_int_add)

lemma on_grid_rnd: "on_grid (rnd 53 (- 1074) q)"
proof -
  have "on_grid (rnd_pos 53 (- 1074) x)" for x
  proof -
    define e where "e = ulp_exp 53 (- 1074) x"
    have "0 \<le> e + 1074" by (simp add: e_def ulp_exp_def)
    then obtain k where "e + 1074 = int k" by (rule nonneg_int_cases)
    then have k: "e = int k + (- 1074)" by simp
    have "(2::rat) powi e = 2 powi int k * 2 powi (- 1074)"
      unfolding k by (rule power_int_add) simp
    then have "(2::rat) powi e = of_int (2 ^ k) * 2 powi (- 1074)"
      by (simp only: powi2_of_int of_nat_0_le_iff nat_int)
    then have "rnd_pos 53 (- 1074) x = of_int (rhe (x / 2 powi e) * 2 ^ k) * 2 powi (- 1074)"
      by (simp only: rnd_pos_def Let_def e_def [symmetric] of_int_mult mult.assoc)
    then show ?thesis unfolding on_grid_def by blast
  qed
  then show ?thesis by (simp add: rnd_def)
qed

lemma on_grid_pos: "on_grid q \<Longrightarrow> 0 < q \<Longrightarrow> 2 powi (- 1074) \<le> q"
proof -
  assume "on_grid q" "0 < q"
  then obtain n where q: "q = of_int n * 2 powi (- 1074)" by (auto simp: on_grid_def)
  with \<open>0 < q\<close> have "0 < n" by (simp add: zero_less_mult_iff)
  then have "(1::rat) \<le> of_int n" by simp
  then show ?thesis unfolding q using mult_right_mono [of 1 "of_int n :: rat" "2 powi (- 1074)"] by (simp add: less_imp_le)
qed

lemma rnd_grid_pos:
  assumes "on_grid q" and "0 < q"
  shows "0 < rnd 53 (- 1074) q"
proof -
  have "ilog2 (2 powi (- 1074)) < - 1073" by (subst ilog2_less_iff) (simp_all add: powi2_less_iff)
  then have "ulp_exp 53 (- 1074) (2 powi (- 1074)) \<le> - 1074" by (simp add: ulp_exp_def)
  then have "2 powi (- 1074) \<le> rnd_pos 53 (- 1074) (2 powi (- 1074))"
    by (intro rnd_pos_ge_powi) simp_all
  then have "2 powi (- 1074) \<le> rnd 53 (- 1074) (2 powi (- 1074))"
    by (simp add: rnd_def)
  also have "\<dots> \<le> rnd 53 (- 1074) q"
    using on_grid_pos [OF assms] by (rule rnd_mono) simp
  finally have "2 powi (- 1074) \<le> rnd 53 (- 1074) q" .
  moreover have "(0::rat) < 2 powi (- 1074)" by (rule powi2_pos)
  ultimately show ?thesis by (rule order.strict_trans2 [rotated])
qed

lemma rnd_le_powi:
  assumes "q \<le> 2 powi m" and "- 1074 \<le> m"
  shows "rnd 53 (- 1074) q \<le> 2 powi m"
proof (cases "0 < q")
  case True
  have "q < 2 powi (m + 1)"
    using assms(1) powi2_less_iff [of m "m + 1"] by (auto intro: order.strict_trans1)
  then have "ilog2 q < m + 1" using True by (simp only: ilog2_less_iff)
  then have "ulp_exp 53 (- 1074) q \<le> m" using assms(2) by (simp add: ulp_exp_def)
  with assms True show ?thesis by (simp add: rnd_def rnd_pos_le_powi)
next
  case False
  then have "rnd 53 (- 1074) q \<le> 0" using rnd_mono [of q 0 53 "- 1074"] by simp
  also have "(0::rat) \<le> 2 powi m" by (simp add: less_imp_le)
  finally show ?thesis .
qed

lemma rnd_abs_le:
  assumes "\<bar>q\<bar> \<le> 2 powi m" and "- 1074 \<le> m"
  shows "\<bar>rnd 53 (- 1074) q\<bar> \<le> 2 powi m"
  using rnd_le_powi [of q m] rnd_le_powi [of "- q" m] assms by (simp add: rnd_uminus abs_le_iff)

lemma fl_fbound:
  assumes "\<bar>q\<bar> \<le> 2 powi int k" and "k < 1024"
  shows "fbound k (fl neg q) \<and> fval (fl neg q) = rnd 53 (- 1074) q"
proof -
  let ?r = "rnd 53 (- 1074) q"
  have r: "\<bar>?r\<bar> \<le> 2 powi int k" using assms(1) by (intro rnd_abs_le) simp_all
  also have "\<dots> < 2 powi 1024" using assms(2) by (simp only: powi2_less_iff)
  finally have "\<bar>?r\<bar> < 2 powi 1024" .
  then have "0 < ?r \<Longrightarrow> ilog2 ?r < 1024" "?r < 0 \<Longrightarrow> ilog2 (- ?r) < 1024"
    by (subst ilog2_less_iff; simp)+
  then have "fl neg q = (if ?r = 0 \<and> neg then NegZero else Fin ?r)"
    by (auto simp: fl_def fl_gen_def Let_def)
  with r show ?thesis by (simp add: fbound_def on_grid_rnd)
qed

lemma fbound_NegZero [simp]: "fbound k NegZero"
  by (simp add: fbound_def less_imp_le)

lemma fbound_0 [simp]: "fbound k 0" "fbound k (Fin 0)"
  by (simp_all add: fbound_def zero_float64_def less_imp_le)

lemma fbound_finite: "fbound k x \<Longrightarrow> x \<noteq> NaN \<and> x \<noteq> PInf \<and> x \<noteq> NInf"
  by (cases x) (simp_all add: fbound_def)

lemma fbound_mono: "fbound k x \<Longrightarrow> k \<le> m \<Longrightarrow> fbound m x"
  unfolding fbound_def by (meson order.trans power_int_increasing of_nat_mono one_le_numeral)

lemma fbound_neg [simp]: "fbound k (f_neg x) \<longleftrightarrow> fbound k x" "fval (f_neg x) = - fval x"
  by (cases x; auto simp: fbound_def)+

lemma add_fbound:
  assumes "fbound k a" and "fbound k b" and "Suc k < 1024"
  shows "fbound (Suc k) (a + b) \<and> fval (a + b) = rnd 53 (- 1074) (fval a + fval b)"
proof (cases "a = NegZero \<and> b = NegZero")
  case True
  then show ?thesis by (simp add: plus_float64_def f_add_def)
next
  case False
  let ?s = "fval a + fval b"
  have "\<bar>?s\<bar> \<le> 2 powi int k + 2 powi int k"
    using assms(1,2) by (intro order.trans [OF abs_triangle_ineq] add_mono) (simp_all add: fbound_def)
  also have "\<dots> = 2 powi int (Suc k)" by (simp add: power_int_add)
  finally have "\<bar>?s\<bar> \<le> 2 powi int (Suc k)" .
  moreover have "a + b = fl (?s < 0) ?s"
    using False fbound_finite [OF assms(1)] fbound_finite [OF assms(2)]
    by (auto simp: plus_float64_def f_add_def Let_def)
  ultimately show ?thesis using fl_fbound [of ?s "Suc k"] assms(3) by simp
qed

lemma minus_fbound:
  assumes "fbound k a" and "fbound k b" and "Suc k < 1024"
  shows "fbound (Suc k) (a - b) \<and> fval (a - b) = rnd 53 (- 1074) (fval a - fval b)"
  using add_fbound [of k a "f_neg b"] assms by (simp add: minus_float64_def plus_float64_def)

lemma less_fbound: "fbound k a \<Longrightarrow> fbound m b \<Longrightarrow> a < b \<longleftrightarrow> fval a < fval b"
  by (cases a; cases b) (simp_all add: fbound_def less_float64_def)

lemma le_fbound: "fbound k a \<Longrightarrow> fbound m b \<Longrightarrow> a \<le> b \<longleftrightarrow> fval a \<le> fval b"
  by (cases a; cases b) (auto simp: fbound_def less_eq_float64_def f_eq_def)

lemma minus_fbound_pos:
  assumes "fbound k a" and "fbound k b" and "Suc k < 1024" and "b < a"
  shows "\<exists>d. a - b = Fin d \<and> 0 < d"
proof -
  have "on_grid (fval a - fval b)"
    using assms(1,2) on_grid_add [of "fval a" "- fval b"] by (simp add: fbound_def)
  moreover have "0 < fval a - fval b"
    using assms(4) less_fbound [OF assms(2,1)] by simp
  ultimately have "0 < rnd 53 (- 1074) (fval a - fval b)" by (rule rnd_grid_pos)
  then have "0 < fval (a - b)" "finite_float (a - b)"
    using minus_fbound [OF assms(1-3)] by (simp_all add: fbound_def)
  then show ?thesis by (cases "a - b") simp_all
qed

end
