(* ===== verification/Go_ParseFloat.thy ===== *)
theory Go_ParseFloat
  imports Go_Float
begin

text \<open>
  \<^verbatim>\<open>strconv.ParseFloat(s, 64)\<close>: decimal and hexadecimal literals with an optional exponent,
  underscores under the rules of Go literals, and the special names. The value is the
  correctly rounded rational; an overflow returns an infinity with a range error.
\<close>

record float_scan =
  fs_mant :: nat
  fs_frac :: nat
  fs_digits :: bool
  fs_us :: bool
  fs_rest :: string

text \<open>Digits with at most one point; stops at the first other byte.\<close>

fun float_digits :: "bool \<Rightarrow> string \<Rightarrow> nat \<Rightarrow> nat \<Rightarrow> bool \<Rightarrow> bool \<Rightarrow> bool \<Rightarrow> float_scan" where
  "float_digits hex [] m fr dot digits us =
     \<lparr>fs_mant = m, fs_frac = fr, fs_digits = digits, fs_us = us, fs_rest = []\<rparr>"
| "float_digits hex (c # s) m fr dot digits us =
     (if c = CHR ''_'' then float_digits hex s m fr dot digits True
      else if c = CHR ''.'' \<and> \<not> dot then float_digits hex s m fr True digits us
      else if is_digit c \<or> (hex \<and> lower_char c \<in> set ''abcdef'') then
        float_digits hex s (m * (if hex then 16 else 10) + the (digit_of c))
          (if dot then Suc fr else fr) dot True us
      else \<lparr>fs_mant = m, fs_frac = fr, fs_digits = digits, fs_us = us, fs_rest = c # s\<rparr>)"

text \<open>Exponent digits; the accumulated value stops growing at 10000.\<close>

fun exp_digits :: "string \<Rightarrow> nat \<Rightarrow> bool \<Rightarrow> nat \<times> bool \<times> string" where
  "exp_digits [] e us = (e, us, [])"
| "exp_digits (c # s) e us =
     (if c = CHR ''_'' then exp_digits s e True
      else if is_digit c then exp_digits s (if e < 10000 then e * 10 + (of_char c - 48) else e) us
      else (e, us, c # s))"

definition float_exp :: "bool \<Rightarrow> bool \<Rightarrow> string \<Rightarrow> (int \<times> bool \<times> string) option" where
  "float_exp hex us rest =
     (case rest of
        c # t \<Rightarrow>
          if lower_char c = (if hex then CHR ''p'' else CHR ''e'') then
            (let neg = (t \<noteq> [] \<and> hd t = CHR ''-'');
                 u = (if t \<noteq> [] \<and> (hd t = CHR ''-'' \<or> hd t = CHR ''+'') then tl t else t)
             in if u = [] \<or> \<not> is_digit (hd u) then None
                else case exp_digits u 0 us of (e, us', rest') \<Rightarrow>
                  Some (if neg then - int e else int e, us', rest'))
          else if hex then None else Some (0, us, rest)
      | [] \<Rightarrow> if hex then None else Some (0, us, rest))"

definition float_special :: "string \<Rightarrow> float64 option" where
  "float_special s = (let l = to_lower s in
     if l \<in> {''inf'', ''+inf'', ''infinity'', ''+infinity''} then Some PInf
     else if l \<in> {''-inf'', ''-infinity''} then Some NInf
     else if l = ''nan'' then Some NaN else None)"

definition float_value :: "bool \<Rightarrow> float_scan \<Rightarrow> int \<Rightarrow> rat" where
  "float_value hex sc e =
     (if hex then of_nat (fs_mant sc) * 2 powi (e - 4 * int (fs_frac sc))
      else of_nat (fs_mant sc) * 10 powi (e - int (fs_frac sc)))"

definition parse_float :: "string \<Rightarrow> float64 \<times> num_err option" where
  "parse_float s =
     (case float_special s of Some v \<Rightarrow> (v, None)
      | None \<Rightarrow>
        if s = [] then (Fin 0, Some ErrSyntax)
        else let neg = (hd s = CHR ''-'');
                 t = (if hd s = CHR ''-'' \<or> hd s = CHR ''+'' then tl s else s);
                 hex = (2 < length t \<and> t ! 0 = CHR ''0'' \<and> lower_char (t ! 1) = CHR ''x'');
                 sc = float_digits hex (if hex then drop 2 t else t) 0 0 False False False
          in if \<not> fs_digits sc then (Fin 0, Some ErrSyntax)
             else (case float_exp hex (fs_us sc) (fs_rest sc) of
                 None \<Rightarrow> (Fin 0, Some ErrSyntax)
               | Some (e, us, rest) \<Rightarrow>
                   if rest \<noteq> [] \<or> (us \<and> \<not> underscore_ok s) then (Fin 0, Some ErrSyntax)
                   else let v = float_value hex sc e; r = fl neg (if neg then - v else v)
                     in (r, if r = PInf \<or> r = NInf then Some ErrRange else None)))"

text \<open>The call with its error test.\<close>

definition parse_f64 :: "string \<Rightarrow> float64 result" where
  "parse_f64 s = (case parse_float s of (v, None) \<Rightarrow> Ok v | (_, Some e) \<Rightarrow> Err (NumError e))"

lemma parse_f64_no_Panic [simp]: "parse_f64 s \<noteq> Panic"
  by (auto simp: parse_f64_def split: prod.splits option.splits)

section \<open>Laws\<close>

lemma float_digits_decimal:
  assumes "list_all is_digit s"
  shows "float_digits False s m 0 False d us =
    \<lparr>fs_mant = foldl (\<lambda>n c. n * 10 + (of_char c - 48)) m s, fs_frac = 0,
     fs_digits = (d \<or> s \<noteq> []), fs_us = us, fs_rest = []\<rparr>"
  using assms
proof (induction s arbitrary: m d)
  case (Cons c s)
  then have c: "is_digit c" "c \<noteq> CHR ''.''"
    by (auto simp: is_digit_def)
  with Cons show ?case
    by (simp add: digit_of_digit not_underscore_digit)
qed simp

lemma decimal_not_special: "decimal s \<Longrightarrow> float_special s = None"
proof -
  assume "decimal s"
  then obtain c t where s: "s = c # t" and c: "is_digit c"
    by (cases s) (auto simp: decimal_def)
  then have "lower_char c = c" by (auto simp: lower_char_def is_digit_def Let_def)
  with s c show ?thesis by (auto simp: float_special_def to_lower_def Let_def is_digit_def)
qed

text \<open>A decimal integer is parsed to the correctly rounded double.\<close>

lemma parse_float_decimal:
  assumes "decimal s"
  shows "parse_float s = (let r = fl False (of_nat (dec_val s)) in (r, if r = PInf \<or> r = NInf then Some ErrRange else None))"
proof -
  from assms obtain c t where s: "s = c # t" and ds: "list_all is_digit s"
    by (cases s) (auto simp: decimal_def)
  then have c: "is_digit c" by simp
  have nx: "\<not> (lower_char (s ! 1) = CHR ''x'' \<and> 2 < length s)"
  proof
    assume x: "lower_char (s ! 1) = CHR ''x'' \<and> 2 < length s"
    then have "is_digit (s ! 1)" using ds by (simp add: list_all_length)
    then show False using x by (auto simp: lower_char_def is_digit_def Let_def split: if_splits)
  qed
  then have hex: "(2 < length s \<and> s ! 0 = CHR ''0'' \<and> lower_char (s ! 1) = CHR ''x'') = False"
    by blast
  have sgn: "hd s \<noteq> CHR ''-''" "hd s \<noteq> CHR ''+''" "s \<noteq> []"
    using digit_not_sign [OF c] s by simp_all
  show ?thesis
    unfolding parse_float_def decimal_not_special [OF assms] Let_def
    by (simp only: sgn hex if_False simp_thms option.case float_digits_decimal [OF ds])
       (simp add: float_exp_def float_value_def dec_val_def)
qed

lemma parse_f64_fmt_nat:
  assumes "n < 2 ^ 64"
  shows "parse_f64 (fmt_nat n) = Ok (f_of_nat n)"
  using f_of_nat_Fin [OF assms] by (simp add: parse_f64_def parse_float_decimal f_of_nat_def Let_def)

lemma parse_f64_itoa: "0 \<le> i \<Longrightarrow> i < 2 ^ 64 \<Longrightarrow> parse_f64 (itoa i) = Ok (f_of_nat (nat i))"
  using parse_f64_fmt_nat [of "nat i"] by (simp add: itoa_def nat_less_iff)

end
