(* ===== verification/Common.thy ===== *)
theory Common
  imports Go_ParseFloat
begin

text \<open>
  Package \<^verbatim>\<open>internal/common\<close> (\<^verbatim>\<open>common.go\<close>): the file readers, the byte and string
  helpers, and the resolution of \<^verbatim>\<open>/proc\<close>, \<^verbatim>\<open>/sys\<close> and the other roots from the context,
  the environment and the defaults. The operating system is the record \<open>host\<close>: what opening,
  listing or querying a path gives, the environment variables, the clock and the external
  commands. A call reads one snapshot of it.
\<close>

section \<open>The operating system\<close>

text \<open>
  An open file is the bytes that can be read followed by the end of the file or by a read
  error. \<open>h_fcvt\<close> is the platform's result of converting a float that does not fit into
  \<^verbatim>\<open>uint64\<close>; Go leaves it to the implementation.
\<close>

type_synonym stream = "string \<times> gerr option"

record sysinfo =
  si_uptime :: int
  si_loads :: "u64 list"
  si_totalswap :: u64
  si_freeswap :: u64
  si_unit :: u32

record host =
  h_open :: "string \<Rightarrow> gerr + stream"
  h_stat :: "string \<Rightarrow> gerr + (nat \<times> bool)"
  h_readdir :: "string \<Rightarrow> gerr + string list"
  h_glob :: "string \<Rightarrow> gerr + string list"
  h_readlink :: "string \<Rightarrow> gerr + string"
  h_getenv :: "string \<Rightarrow> string"
  h_ctxenv :: "(string \<rightharpoonup> string) option"
  h_now :: int
  h_sysinfo :: "gerr + sysinfo"
  h_command :: "string \<Rightarrow> string list \<Rightarrow> string \<times> gerr option"
  h_pagesize :: nat
  h_fcvt :: "float64 \<Rightarrow> u64"

abbreviation nl :: char where
  "nl \<equiv> CHR 0x0A"

section \<open>Reading files\<close>

text \<open>\<^verbatim>\<open>os.ReadFile\<close> and \<^verbatim>\<open>ReadFile\<close>.\<close>

definition ReadFile :: "host \<Rightarrow> string \<Rightarrow> string result" where
  "ReadFile h filename = (case h_open h filename of Inl e \<Rightarrow> Err e
     | Inr (d, None) \<Rightarrow> Ok d | Inr (d, Some e) \<Rightarrow> Err e)"

text \<open>\<^verbatim>\<open>bufio.Reader.ReadString('\n')\<close>: the bytes up to and including the newline, what is left,
  and whether a newline was found.\<close>

definition read_string :: "string \<Rightarrow> string \<times> string \<times> bool" where
  "read_string d = (case index_byte d nl of
     Some i \<Rightarrow> (take (Suc i) d, drop (Suc i) d, True) | None \<Rightarrow> (d, [], False))"

lemma read_string_shorter: "(line, rest, True) = read_string d \<Longrightarrow> length rest < length d"
  by (auto simp: read_string_def split: option.splits dest: index_byte_Some)

text \<open>The loop of \<^verbatim>\<open>ReadLinesOffsetN\<close> from line number \<open>i\<close>; \<open>bnd\<close> is the bound of the loop
  and \<open>fin\<close> what ends the stream.\<close>

function read_lines_loop :: "gerr option \<Rightarrow> nat option \<Rightarrow> nat \<Rightarrow> nat \<Rightarrow> string \<Rightarrow> string list" where
  "read_lines_loop fin bnd off i d =
     (if (case bnd of None \<Rightarrow> False | Some l \<Rightarrow> l \<le> i) then []
      else case read_string d of (line, rest, found) \<Rightarrow>
        if \<not> found then (if fin = None \<and> line \<noteq> [] then [trim_set [nl] line] else [])
        else if i < off then read_lines_loop fin bnd off (Suc i) rest
        else trim_set [nl] line # read_lines_loop fin bnd off (Suc i) rest)"
  by pat_completeness auto
termination
  by (relation "measure (\<lambda>(fin, bnd, off, i, d). length d)") (auto intro: read_string_shorter)

declare read_lines_loop.simps [simp del]

definition ReadLinesOffsetN :: "host \<Rightarrow> string \<Rightarrow> u64 \<Rightarrow> int \<Rightarrow> string list result" where
  "ReadLinesOffsetN h filename offset n =
     (case h_open h filename of Inl e \<Rightarrow> Err e
      | Inr (d, fin) \<Rightarrow> Ok (read_lines_loop fin
          (if n < 0 then None else Some (unat (word_of_int n + offset))) (unat offset) 0 d))"

definition ReadLines :: "host \<Rightarrow> string \<Rightarrow> string list result" where
  "ReadLines h filename = ReadLinesOffsetN h filename 0 (- 1)"

function read_line_loop :: "gerr option \<Rightarrow> string \<Rightarrow> string \<Rightarrow> string result" where
  "read_line_loop fin pre d =
     (case read_string d of (line, rest, found) \<Rightarrow>
        if \<not> found then (case fin of None \<Rightarrow> Ok [] | Some e \<Rightarrow> Err e)
        else if has_prefix line pre then Ok line else read_line_loop fin pre rest)"
  by pat_completeness auto
termination
  by (relation "measure (\<lambda>(fin, pre, d). length d)") (auto intro: read_string_shorter)

declare read_line_loop.simps [simp del]

definition ReadLine :: "host \<Rightarrow> string \<Rightarrow> string \<Rightarrow> string result" where
  "ReadLine h filename pre = (case h_open h filename of Inl e \<Rightarrow> Err e
     | Inr (d, fin) \<Rightarrow> read_line_loop fin pre d)"

text \<open>\<^verbatim>\<open>ReadInts\<close>: the first line, which must end in a newline, as a 32-bit decimal.\<close>

definition ReadInts :: "host \<Rightarrow> string \<Rightarrow> int list result" where
  "ReadInts h filename = (case h_open h filename of Inl e \<Rightarrow> Err e
     | Inr (d, fin) \<Rightarrow> (case read_string d of (line, rest, found) \<Rightarrow>
         if \<not> found then Err (case fin of None \<Rightarrow> EOF | Some e \<Rightarrow> e)
         else rbind (parse_i32 (trim_set [nl] line)) (\<lambda>i. Ok [i])))"

text \<open>
  \<^verbatim>\<open>bufio.Scanner\<close> with \<^verbatim>\<open>ScanLines\<close>: the tokens it yields and its \<^verbatim>\<open>Err()\<close>. A line loses a trailing
  carriage return, a line that does not fit into the 64 KiB buffer stops the scan, and what was read
  before a read error is still a token.
\<close>

definition drop_cr :: "string \<Rightarrow> string" where
  "drop_cr s = (if s \<noteq> [] \<and> last s = CHR 0x0D then butlast s else s)"

function scan_lines :: "gerr option \<Rightarrow> string \<Rightarrow> string list \<times> gerr option" where
  "scan_lines fin d =
     (if d = [] then ([], fin)
      else case read_string d of (line, rest, found) \<Rightarrow>
        let token = (if found then butlast line else line)
        in if 65536 \<le> length token then ([], Some (ErrMsg ''bufio.Scanner: token too long''))
           else case scan_lines fin rest of (tokens, err) \<Rightarrow> (drop_cr token # tokens, err))"
  by pat_completeness auto
termination
  by (relation "measure (\<lambda>(fin, d). length d)")
     (auto simp: read_string_def split: option.splits dest: index_byte_Some)

declare scan_lines.simps [simp del]

section \<open>Commands and regular expressions\<close>

text \<open>Running a command, an error wrapped by \<^verbatim>\<open>fmt.Errorf\<close> with \<^verbatim>\<open>%w\<close>, and the class \<^verbatim>\<open>\s\<close> of a regular expression.\<close>

definition run_command :: "host \<Rightarrow> string \<Rightarrow> string list \<Rightarrow> string result" where
  "run_command h name args = (case h_command h name args of (out, None) \<Rightarrow> Ok out | (_, Some e) \<Rightarrow> Err e)"

definition wrap_err :: "string \<Rightarrow> 'a result \<Rightarrow> 'a result" where
  "wrap_err msg r = (case r of Err e \<Rightarrow> Err (ErrWrap msg e) | _ \<Rightarrow> r)"

definition re_space :: "char \<Rightarrow> bool" where
  "re_space c \<longleftrightarrow> c \<in> {CHR '' '', CHR 0x09, CHR 0x0A, CHR 0x0C, CHR 0x0D}"

section \<open>Byte strings\<close>

text \<open>The loop of \<^verbatim>\<open>IntToString\<close> stops at the first zero; \<^verbatim>\<open>byte(o)\<close> wraps.\<close>

fun IntToString :: "int list \<Rightarrow> string" where
  "IntToString [] = []"
| "IntToString (b # bs) = (if b = 0 then [] else char_of (nat (b mod 256)) # IntToString bs)"

fun UintToString :: "u8 list \<Rightarrow> string" where
  "UintToString [] = []"
| "UintToString (b # bs) = (if b = 0 then [] else char_of (unat b) # UintToString bs)"

text \<open>
  The loop of \<^verbatim>\<open>ByteToString\<close>: \<open>l\<close> is the index of the first non-zero byte and \<open>n\<close> the end of
  the last one seen before a zero; both are \<^verbatim>\<open>-1\<close> (\<open>None\<close>) at the start.
\<close>

fun byte_bounds :: "string \<Rightarrow> nat \<Rightarrow> nat option \<Rightarrow> nat option \<Rightarrow> nat option \<times> nat option" where
  "byte_bounds [] i l n = (l, n)"
| "byte_bounds (b # bs) i l n =
     (if l = None \<and> b = CHR 0x00 then byte_bounds bs (Suc i) l n
      else let l' = (case l of None \<Rightarrow> Some i | Some k \<Rightarrow> Some k)
        in if b = CHR 0x00 then (l', n) else byte_bounds bs (Suc i) l' (Some (Suc i)))"

definition ByteToString :: "string \<Rightarrow> string" where
  "ByteToString orig = (case byte_bounds orig 0 None None of
     (Some l, Some n) \<Rightarrow> drop l (take n orig) | _ \<Rightarrow> orig)"

section \<open>Numbers without error\<close>

definition HexToUint32 :: "string \<Rightarrow> u32" where
  "HexToUint32 hex = word_of_nat (fst (parse_uint hex 16 32))"

definition mustParseInt32 :: "string \<Rightarrow> int" where
  "mustParseInt32 val = to_i32 (fst (parse_int val 10 32))"

definition mustParseUint64 :: "string \<Rightarrow> u64" where
  "mustParseUint64 val = word_of_int (fst (parse_int val 10 64))"

definition mustParseFloat64 :: "string \<Rightarrow> float64" where
  "mustParseFloat64 val = fst (parse_float val)"

section \<open>Searching slices\<close>

fun StringsHas :: "string list \<Rightarrow> string \<Rightarrow> bool" where
  "StringsHas [] src = False"
| "StringsHas (t # ts) src = (if trim_space t = src then True else StringsHas ts src)"

definition StringsContains :: "string list \<Rightarrow> string \<Rightarrow> bool" where
  "StringsContains target src = list_ex (\<lambda>s. str_contains s src) target"

definition IntContains :: "int list \<Rightarrow> int \<Rightarrow> bool" where
  "IntContains target src = List.member target src"

section \<open>Paths\<close>

definition PathExists :: "host \<Rightarrow> string \<Rightarrow> bool" where
  "PathExists h filename = (case h_stat h filename of Inr _ \<Rightarrow> True | Inl _ \<Rightarrow> False)"

definition PathExistsWithContents :: "host \<Rightarrow> string \<Rightarrow> bool" where
  "PathExistsWithContents h filename = (case h_stat h filename of Inl _ \<Rightarrow> False
     | Inr (sz, is_dir) \<Rightarrow> 4 < sz \<and> \<not> is_dir)"

text \<open>
  \<^verbatim>\<open>filepath.Clean\<close> on Unix, by components: empty and \<^verbatim>\<open>.\<close> components go, \<^verbatim>\<open>..\<close> removes the
  component before it, and at the root of a rooted path it is dropped. \<open>acc\<close> holds the kept
  components in reverse.
\<close>

fun clean_comps :: "bool \<Rightarrow> string list \<Rightarrow> string list \<Rightarrow> string list" where
  "clean_comps rooted acc [] = rev acc"
| "clean_comps rooted acc (c # cs) =
     (if c = [] \<or> c = ''.'' then clean_comps rooted acc cs
      else if c = ''..'' then
        (case acc of
           a # as \<Rightarrow> if a \<noteq> ''..'' then clean_comps rooted as cs
                     else if rooted then clean_comps rooted acc cs
                     else clean_comps rooted (c # acc) cs
         | [] \<Rightarrow> if rooted then clean_comps rooted acc cs else clean_comps rooted (c # acc) cs)
      else clean_comps rooted (c # acc) cs)"

abbreviation slash :: char where
  "slash \<equiv> CHR ''/''"

definition path_clean :: "string \<Rightarrow> string" where
  "path_clean p =
     (if p = [] then ''.''
      else let rooted = (hd p = slash); cs = clean_comps rooted [] (split_char slash p)
        in if rooted then slash # join [slash] cs
           else if cs = [] then ''.'' else join [slash] cs)"

text \<open>\<^verbatim>\<open>filepath.Join\<close> and \<^verbatim>\<open>path.Join\<close> ignore leading empty elements.\<close>

definition path_join :: "string list \<Rightarrow> string" where
  "path_join elems = (case dropWhile (\<lambda>e. e = []) elems of [] \<Rightarrow> []
     | es \<Rightarrow> path_clean (join [slash] es))"

text \<open>\<^verbatim>\<open>filepath.Base\<close>.\<close>

definition path_base :: "string \<Rightarrow> string" where
  "path_base p =
     (if p = [] then ''.''
      else let q = rev (dropWhile (\<lambda>c. c = slash) (rev p))
        in if q = [] then [slash] else last (split_char slash q))"

text \<open>\<^verbatim>\<open>filepath.Dir\<close>.\<close>

definition path_dir :: "string \<Rightarrow> string" where
  "path_dir p = path_clean (case last_index_byte p slash of Some i \<Rightarrow> take (Suc i) p | None \<Rightarrow> [])"

section \<open>Roots of the system directories\<close>

text \<open>The verb \<^verbatim>\<open>%q\<close>, on text without characters to escape.\<close>

definition quote :: "string \<Rightarrow> string" where
  "quote s = CHR 0x22 # s @ [CHR 0x22]"

definition combine :: "string \<Rightarrow> string list \<Rightarrow> string" where
  "combine value combineWith = (case combineWith of [] \<Rightarrow> value | _ \<Rightarrow> path_join (value # combineWith))"

definition GetEnv :: "host \<Rightarrow> string \<Rightarrow> string \<Rightarrow> string list \<Rightarrow> string" where
  "GetEnv h key dfault combineWith =
     (let value = h_getenv h key;
          value = (if value = [] then dfault else value)
      in combine value combineWith)"

definition GetEnvWithContext :: "host \<Rightarrow> string \<Rightarrow> string \<Rightarrow> string list \<Rightarrow> string" where
  "GetEnvWithContext h key dfault combineWith =
     (let value = (case h_ctxenv h of None \<Rightarrow> [] | Some env \<Rightarrow> (case env key of None \<Rightarrow> [] | Some v \<Rightarrow> v));
          value = (if value = [] then h_getenv h key else value);
          value = (if value = [] then dfault else value)
      in combine value combineWith)"

definition HostProc :: "host \<Rightarrow> string list \<Rightarrow> string" where
  "HostProc h = GetEnv h ''HOST_PROC'' ''/proc''"

definition HostSys :: "host \<Rightarrow> string list \<Rightarrow> string" where
  "HostSys h = GetEnv h ''HOST_SYS'' ''/sys''"

definition HostEtc :: "host \<Rightarrow> string list \<Rightarrow> string" where
  "HostEtc h = GetEnv h ''HOST_ETC'' ''/etc''"

definition HostVar :: "host \<Rightarrow> string list \<Rightarrow> string" where
  "HostVar h = GetEnv h ''HOST_VAR'' ''/var''"

definition HostRun :: "host \<Rightarrow> string list \<Rightarrow> string" where
  "HostRun h = GetEnv h ''HOST_RUN'' ''/run''"

definition HostDev :: "host \<Rightarrow> string list \<Rightarrow> string" where
  "HostDev h = GetEnv h ''HOST_DEV'' ''/dev''"

definition HostRoot :: "host \<Rightarrow> string list \<Rightarrow> string" where
  "HostRoot h = GetEnv h ''HOST_ROOT'' ''/''"

definition HostProcWithContext :: "host \<Rightarrow> string list \<Rightarrow> string" where
  "HostProcWithContext h = GetEnvWithContext h ''HOST_PROC'' ''/proc''"

definition HostProcMountInfoWithContext :: "host \<Rightarrow> string list \<Rightarrow> string" where
  "HostProcMountInfoWithContext h = GetEnvWithContext h ''HOST_PROC_MOUNTINFO'' []"

definition HostSysWithContext :: "host \<Rightarrow> string list \<Rightarrow> string" where
  "HostSysWithContext h = GetEnvWithContext h ''HOST_SYS'' ''/sys''"

definition HostEtcWithContext :: "host \<Rightarrow> string list \<Rightarrow> string" where
  "HostEtcWithContext h = GetEnvWithContext h ''HOST_ETC'' ''/etc''"

definition HostVarWithContext :: "host \<Rightarrow> string list \<Rightarrow> string" where
  "HostVarWithContext h = GetEnvWithContext h ''HOST_VAR'' ''/var''"

definition HostRunWithContext :: "host \<Rightarrow> string list \<Rightarrow> string" where
  "HostRunWithContext h = GetEnvWithContext h ''HOST_RUN'' ''/run''"

definition HostDevWithContext :: "host \<Rightarrow> string list \<Rightarrow> string" where
  "HostDevWithContext h = GetEnvWithContext h ''HOST_DEV'' ''/dev''"

definition HostRootWithContext :: "host \<Rightarrow> string list \<Rightarrow> string" where
  "HostRootWithContext h = GetEnvWithContext h ''HOST_ROOT'' ''/''"

text \<open>The environment for \<^verbatim>\<open>sysctl\<close>, and the time since a timestamp (modulo 2 to the 64).\<close>

definition getSysctrlEnv :: "string list \<Rightarrow> string list" where
  "getSysctrlEnv env =
     (let replaced = map (\<lambda>line. if has_prefix line ''LC_ALL'' then ''LC_ALL=C'' else line) env;
          foundLC = list_ex (\<lambda>line. has_prefix line ''LC_ALL'') env
      in if foundLC then replaced else replaced @ [''LC_ALL=C''])"

definition TimeSince :: "host \<Rightarrow> u64 \<Rightarrow> u64" where
  "TimeSince h ts = word_of_int (h_now h div 10 ^ 9) - ts"

definition TimeSinceMillis :: "host \<Rightarrow> u64 \<Rightarrow> u64" where
  "TimeSinceMillis h ts = word_of_int (h_now h div 10 ^ 6) - ts"

section \<open>Laws of the readers\<close>

text \<open>The text of a file that holds the given lines, each ended by a newline.\<close>

definition unlines :: "string list \<Rightarrow> string" where
  "unlines ls = concat (map (\<lambda>l. l @ [nl]) ls)"

definition no_nl :: "string list \<Rightarrow> bool" where
  "no_nl ls \<longleftrightarrow> (\<forall>l \<in> set ls. nl \<notin> set l)"

lemma no_nl_simps [simp]: "no_nl []" "no_nl (l # ls) \<longleftrightarrow> nl \<notin> set l \<and> no_nl ls"
  by (simp_all add: no_nl_def)

lemma unlines_simps [simp]: "unlines [] = []" "unlines (l # ls) = l @ nl # unlines ls"
  by (simp_all add: unlines_def)

lemma split_char_unlines: "no_nl ls \<Longrightarrow> split_char nl (unlines ls) = ls @ [[]]"
  by (induction ls) (simp_all add: no_nl_def split_char_append)

lemma read_string_line: "nl \<notin> set l \<Longrightarrow> read_string (l @ nl # d) = (l @ [nl], d, True)"
  by (simp add: read_string_def index_byte_append)

lemma read_string_rest: "nl \<notin> set l \<Longrightarrow> read_string l = (l, [], False)"
  by (simp add: read_string_def index_byte_None_iff [THEN iffD2])

lemma trim_set_nl: "nl \<notin> set l \<Longrightarrow> trim_set [nl] l = l"
  by (rule trim_set_id) auto

lemma trim_set_line: "nl \<notin> set l \<Longrightarrow> trim_set [nl] (l @ [nl]) = l"
proof (cases l)
  case Nil
  then show ?thesis by (simp add: trim_set_def trim_left_set_def trim_right_set_def)
next
  case (Cons a k)
  moreover assume "nl \<notin> set l"
  ultimately have "trim_left_set [nl] (l @ [nl]) = l @ [nl]"
    by (auto simp: trim_left_set_def)
  moreover have "trim_right_set [nl] l = l"
  proof -
    have "dropWhile (\<lambda>c. c \<in> set [nl]) (rev l) = rev l"
      using \<open>nl \<notin> set l\<close> by (intro dropWhile_none) auto
    then show ?thesis by (simp add: trim_right_set_def)
  qed
  ultimately show ?thesis by (simp add: trim_set_def)
qed

text \<open>The whole loop on a text of newline-terminated lines followed by an unterminated rest.\<close>

lemma read_lines_loop_lines:
  assumes "no_nl ls" and "nl \<notin> set r"
  shows "read_lines_loop fin bnd off i (unlines ls @ r) =
    (case bnd of
       None \<Rightarrow> drop (off - i) ls @ (if fin = None \<and> r \<noteq> [] then [r] else [])
     | Some b \<Rightarrow> drop (off - i) (take (b - i) ls) @
         (if length ls < b - i \<and> fin = None \<and> r \<noteq> [] then [r] else []))"
  using assms(1)
proof (induction ls arbitrary: i)
  case Nil
  then show ?case
    by (subst read_lines_loop.simps)
       (auto simp: read_string_rest [OF assms(2)] trim_set_nl [OF assms(2)] split: option.splits)
next
  case (Cons l ls)
  have l: "nl \<notin> set l" and ls: "no_nl ls" using Cons.prems by simp_all
  have step: "read_lines_loop fin bnd off i (unlines (l # ls) @ r) =
      (if (case bnd of None \<Rightarrow> False | Some b \<Rightarrow> b \<le> i) then []
       else if i < off then read_lines_loop fin bnd off (Suc i) (unlines ls @ r)
       else l # read_lines_loop fin bnd off (Suc i) (unlines ls @ r))"
    by (subst read_lines_loop.simps) (simp add: read_string_line [OF l] trim_set_line [OF l])
  show ?case
  proof (cases bnd)
    case None
    then show ?thesis using step Cons.IH [OF ls, of "Suc i"]
      by (cases "i < off") (simp_all add: Suc_diff_Suc [symmetric])
  next
    case (Some b)
    then show ?thesis using step Cons.IH [OF ls, of "Suc i"]
      by (cases "i < off"; cases "i < b") (simp_all add: Suc_diff_Suc [symmetric])
  qed
qed

lemma ReadLines_lines:
  assumes "h_open h f = Inr (unlines ls @ r, None)" and "no_nl ls" and "nl \<notin> set r"
  shows "ReadLines h f = Ok (ls @ (if r = [] then [] else [r]))"
  using assms by (simp add: ReadLines_def ReadLinesOffsetN_def read_lines_loop_lines)

text \<open>The same for any end of the stream: a read error drops the unterminated rest.\<close>

lemma ReadLines_open:
  assumes "h_open h f = Inr (unlines ls @ r, fin)" and "no_nl ls" and "nl \<notin> set r"
  shows "ReadLines h f = Ok (ls @ (if fin = None \<and> r \<noteq> [] then [r] else []))"
  using assms by (simp add: ReadLines_def ReadLinesOffsetN_def read_lines_loop_lines)

lemma ReadFirst_open:
  assumes "h_open h f = Inr (unlines ls @ r, fin)" and "no_nl ls" and "nl \<notin> set r"
  shows "ReadLinesOffsetN h f 0 1 = Ok (take 1 ls @ (if ls = [] \<and> fin = None \<and> r \<noteq> [] then [r] else []))"
  using assms by (simp add: ReadLinesOffsetN_def read_lines_loop_lines)

lemma ReadLines_no_Panic [simp]: "ReadLines h f \<noteq> Panic" "ReadLinesOffsetN h f off n \<noteq> Panic"
  by (auto simp: ReadLines_def ReadLinesOffsetN_def split: sum.splits prod.splits)

lemma read_line_loop_lines:
  assumes "no_nl ls" and "nl \<notin> set r"
  shows "read_line_loop fin pre (unlines ls @ r) =
    (case find (\<lambda>l. has_prefix (l @ [nl]) pre) ls of Some l \<Rightarrow> Ok (l @ [nl])
     | None \<Rightarrow> (case fin of None \<Rightarrow> Ok [] | Some e \<Rightarrow> Err e))"
  using assms(1)
proof (induction ls)
  case Nil
  then show ?case
    by (subst read_line_loop.simps) (simp add: read_string_rest [OF assms(2)])
next
  case (Cons l ls)
  then show ?case
    by (subst read_line_loop.simps) (simp add: read_string_line)
qed

text \<open>The scanner on lines that fit its buffer and do not end in a carriage return.\<close>

definition scannable :: "string \<Rightarrow> bool" where
  "scannable l \<longleftrightarrow> nl \<notin> set l \<and> length l < 65536 \<and> drop_cr l = l"

lemma scan_lines_Nil [simp]: "scan_lines fin [] = ([], fin)"
  by (simp add: scan_lines.simps)

lemma scan_lines_lines:
  assumes "list_all scannable ls" and "scannable r"
  shows "scan_lines fin (unlines ls @ r) = (ls @ (if r = [] then [] else [r]), fin)"
  using assms(1)
proof (induction ls)
  case Nil
  with assms(2) show ?case
    by (subst scan_lines.simps) (auto simp: scannable_def read_string_rest)
next
  case (Cons l ls)
  then show ?case
    by (subst scan_lines.simps) (auto simp: scannable_def read_string_line)
qed

text \<open>Every text is a list of terminated lines and an unterminated rest.\<close>

lemma text_lines: "\<exists>ls r. d = unlines ls @ r \<and> no_nl ls \<and> nl \<notin> set r"
proof (induction d rule: length_induct)
  case (1 d)
  show ?case
  proof (cases "index_byte d nl")
    case None
    then show ?thesis by (intro exI [of _ "[]"] exI [of _ d]) simp
  next
    case (Some i)
    note i = index_byte_Some [OF Some]
    then have "length (drop (Suc i) d) < length d" unfolding length_drop by linarith
    then obtain ls r where "drop (Suc i) d = unlines ls @ r" "no_nl ls" "nl \<notin> set r"
      using "1.IH" by blast
    moreover have "d = take i d @ nl # drop (Suc i) d"
      using id_take_nth_drop [of i d] i by simp
    ultimately have "d = unlines (take i d # ls) @ r \<and> no_nl (take i d # ls) \<and> nl \<notin> set r"
      using i by simp
    then show ?thesis by blast
  qed
qed

section \<open>Laws of the helpers\<close>

lemma byte_bounds_started:
  "byte_bounds bs i (Some l) n =
     (Some l, if bs = [] \<or> hd bs = CHR 0x00 then n
              else Some (i + length (takeWhile (\<lambda>b. b \<noteq> CHR 0x00) bs)))"
proof (induction bs arbitrary: i n)
  case (Cons b bs)
  then show ?case by (cases bs) auto
qed simp

lemma byte_bounds_start:
  "byte_bounds bs i None None =
     (if \<forall>b \<in> set bs. b = CHR 0x00 then (None, None)
      else let z = length (takeWhile (\<lambda>b. b = CHR 0x00) bs)
        in (Some (i + z), Some (i + z + length (takeWhile (\<lambda>b. b \<noteq> CHR 0x00) (drop z bs)))))"
proof (induction bs arbitrary: i)
  case (Cons b bs)
  then show ?case
    by (cases "b = CHR 0x00") (auto simp: byte_bounds_started Let_def hd_conv_nth takeWhile_eq_Nil_iff)
qed simp

lemma join_Cons: "ws \<noteq> [] \<Longrightarrow> join sep (w # ws) = w @ sep @ join sep ws"
  by (cases ws) simp_all

section \<open>Concrete systems\<close>

text \<open>A system without files, commands and environment, and the same system with some files.\<close>

definition no_files :: host where
  "no_files =
     \<lparr>h_open = (\<lambda>_. Inl ENOENT), h_stat = (\<lambda>_. Inl ENOENT), h_readdir = (\<lambda>_. Inl ENOENT),
      h_glob = (\<lambda>_. Inr []), h_readlink = (\<lambda>_. Inl ENOENT), h_getenv = (\<lambda>_. []), h_ctxenv = None,
      h_now = 0, h_sysinfo = Inl EINVAL, h_command = (\<lambda>_ _. ([], Some ErrNotFound)),
      h_pagesize = 4096, h_fcvt = (\<lambda>_. 0)\<rparr>"

definition with_files :: "(string \<times> string) list \<Rightarrow> host" where
  "with_files fs = no_files
     \<lparr>h_open := (\<lambda>p. case map_of fs p of Some d \<Rightarrow> Inr (d, None) | None \<Rightarrow> Inl ENOENT),
      h_stat := (\<lambda>p. case map_of fs p of Some d \<Rightarrow> Inr (length d, False) | None \<Rightarrow> Inl ENOENT)\<rparr>"

section \<open>Properties\<close>

lemma unat_bound_offset:
  assumes "0 \<le> n" and "unat off + nat n < 2 ^ 64"
  shows "unat (word_of_int n + off :: u64) = unat off + nat n"
proof -
  have "word_of_int n = (word_of_nat (nat n) :: u64)"
    using assms(1) by (metis nat_0_le of_int_of_nat_eq)
  moreover have "unat (word_of_nat (nat n) :: u64) = nat n"
    using assms(2) by (simp add: unat_of_nat take_bit_eq_mod unsigned_of_nat)
  ultimately have "unat (word_of_int n + off :: u64) = (nat n + unat off) mod 2 ^ 64"
    by (simp only: unat_word_ariths(1)) simp
  then show ?thesis using assms(2) by (simp only: mod_less add.commute [of "nat n"])
qed

text \<open>C10: on a file of newline-terminated lines followed by an unterminated rest,
  \<^verbatim>\<open>ReadLinesOffsetN\<close> returns the \<open>n\<close> lines that follow the first \<open>offset\<close> ones; a non-empty rest is
  appended whenever the loop reaches the end of the file, also when the file has fewer than
  \<open>offset\<close> lines, so that a line before the offset is returned.\<close>

theorem ReadLinesOffsetN_window:
  assumes "h_open h f = Inr (unlines ls @ r, None)" and "no_nl ls" and "nl \<notin> set r"
    and "0 \<le> n" and "unat offset + nat n < 2 ^ 64"
  shows "ReadLinesOffsetN h f offset n =
    Ok (take (nat n) (drop (unat offset) ls) @
        (if r \<noteq> [] \<and> length ls < unat offset + nat n then [r] else []))"
  using assms
  by (simp add: ReadLinesOffsetN_def read_lines_loop_lines unat_bound_offset drop_take)

theorem ReadLinesOffsetN_window_witness:
  "ReadLinesOffsetN (with_files [(''/f'', unlines [''a'', ''b'', ''c''] @ ''d'')]) ''/f'' 1 1 = Ok [''b''] \<and>
   ReadLinesOffsetN (with_files [(''/f'', unlines [''a'', ''b'', ''c''] @ ''d'')]) ''/f'' 5 1 = Ok [''d'']"
  using ReadLinesOffsetN_window [of "with_files [(''/f'', unlines [''a'', ''b'', ''c''] @ ''d'')]" "''/f''"
      "[''a'', ''b'', ''c'']" "''d''" 1 1]
    ReadLinesOffsetN_window [of "with_files [(''/f'', unlines [''a'', ''b'', ''c''] @ ''d'')]" "''/f''"
      "[''a'', ''b'', ''c'']" "''d''" 1 5]
  by (simp add: with_files_def drop_Cons')

text \<open>\<^verbatim>\<open>ByteToString\<close> drops the leading zero bytes and cuts at the first zero after them; a
  buffer of zeros only is returned whole, not as the empty string.\<close>

theorem ByteToString_reference:
  "ByteToString bs =
    (if list_all (\<lambda>b. b = CHR 0x00) bs then bs
     else takeWhile (\<lambda>b. b \<noteq> CHR 0x00) (dropWhile (\<lambda>b. b = CHR 0x00) bs))"
proof (cases "\<forall>b \<in> set bs. b = CHR 0x00")
  case True
  then show ?thesis by (simp add: ByteToString_def byte_bounds_start list_all_iff)
next
  case False
  let ?z = "length (takeWhile (\<lambda>b. b = CHR 0x00) bs)"
  let ?w = "takeWhile (\<lambda>b. b \<noteq> CHR 0x00) (drop ?z bs)"
  have "byte_bounds bs 0 None None = (Some ?z, Some (?z + length ?w))"
    unfolding byte_bounds_start if_not_P [OF False] Let_def by simp
  then have "ByteToString bs = drop ?z (take (?z + length ?w) bs)"
    by (simp add: ByteToString_def)
  also have "\<dots> = take (length ?w) (drop ?z bs)" by (simp add: take_drop add.commute)
  also have "\<dots> = ?w" by (simp flip: takeWhile_eq_take)
  also have "drop ?z bs = dropWhile (\<lambda>b. b = CHR 0x00) bs" by (simp flip: dropWhile_eq_drop)
  finally show ?thesis using False by (simp only: list_all_iff if_False)
qed

text \<open>\<^verbatim>\<open>mustParseUint64\<close> goes through the signed parser: every decimal below 2 to the 63 is
  read exactly, and every larger one is clamped to 2 to the 63 minus 1.\<close>

theorem mustParseUint64_clamps:
  "mustParseUint64 (fmt_nat n) = (if n < 2 ^ 63 then word_of_nat n else word_of_nat (2 ^ 63 - 1))"
proof -
  have sign: "hd (fmt_nat n) \<noteq> CHR ''-''" "hd (fmt_nat n) \<noteq> CHR ''+''"
    using digit_not_sign [OF hd_fmt_nat] by simp_all
  have u: "parse_uint (fmt_nat n) 10 64 = (if n < 2 ^ 64 then (n, None) else (2 ^ 64 - 1, Some ErrRange))"
    using parse_uint_decimal [OF decimal_fmt_nat, of n 64] by simp
  have "fst (parse_int (fmt_nat n) 10 64) = (if n < 2 ^ 63 then int n else int (2 ^ 63) - 1)"
    using sign u by (simp add: parse_int_def)
  then show ?thesis by (simp add: mustParseUint64_def)
qed

end
