(* ===== verification/Common_Warnings.thy ===== *)
theory Common_Warnings
  imports Common
begin

text \<open>
  \<^verbatim>\<open>internal/common/warnings.go\<close>: a bounded collector of non-fatal errors. The list never
  holds more than \<open>maxWarnings\<close> errors; later ones only set a flag.
\<close>

definition maxWarnings :: nat where
  "maxWarnings = 100"

definition tooManyErrorsMessage :: string where
  "tooManyErrorsMessage = ''too many errors reported, next errors were discarded''"

definition numberOfWarningsMessage :: string where
  "numberOfWarningsMessage = ''Number of warnings:''"

record warnings =
  w_list :: "gerr list"
  w_tooMany :: bool
  w_verbose :: bool

definition Warnings_Add :: "gerr \<Rightarrow> warnings \<Rightarrow> warnings" where
  "Warnings_Add err w =
     (if maxWarnings \<le> length (w_list w) then w\<lparr>w_tooMany := True\<rparr>
      else w\<lparr>w_list := w_list w @ [err]\<rparr>)"

text \<open>\<^verbatim>\<open>Reference\<close>: the collector itself as an error, or nil when it holds none.\<close>

definition Warnings_Reference :: "warnings \<Rightarrow> warnings option" where
  "Warnings_Reference w = (if w_list w \<noteq> [] then Some w else None)"

text \<open>\<^verbatim>\<open>Error\<close>, over the text \<open>show_err\<close> of a single error.\<close>

fun verbose_lines :: "(gerr \<Rightarrow> string) \<Rightarrow> nat \<Rightarrow> gerr list \<Rightarrow> string" where
  "verbose_lines show_err i [] = []"
| "verbose_lines show_err i (e # es) =
     CHR 0x09 # ''Error '' @ fmt_nat i @ '': '' @ show_err e @ [nl] @ verbose_lines show_err (Suc i) es"

definition Warnings_Error :: "(gerr \<Rightarrow> string) \<Rightarrow> warnings \<Rightarrow> string" where
  "Warnings_Error show_err w =
     (if w_verbose w then
        verbose_lines show_err 0 (w_list w) @
        (if w_tooMany w then CHR 0x09 # tooManyErrorsMessage @ [nl] else [])
      else if w_tooMany w then
        numberOfWarningsMessage @ '' > '' @ fmt_nat maxWarnings @ '' - '' @ tooManyErrorsMessage
      else numberOfWarningsMessage @ '' '' @ fmt_nat (length (w_list w)))"

section \<open>Laws\<close>

definition new_warnings :: "bool \<Rightarrow> warnings" where
  "new_warnings verbose = \<lparr>w_list = [], w_tooMany = False, w_verbose = verbose\<rparr>"

lemma fold_Add_state:
  "fold Warnings_Add errs w =
     w\<lparr>w_list := w_list w @ take (maxWarnings - length (w_list w)) errs,
       w_tooMany := (w_tooMany w \<or> (errs \<noteq> [] \<and> maxWarnings < length (w_list w) + length errs))\<rparr>"
proof (induction errs arbitrary: w)
  case Nil
  then show ?case by simp
next
  case (Cons e errs)
  show ?case
  proof (cases "maxWarnings \<le> length (w_list w)")
    case True
    then have "Warnings_Add e w = w\<lparr>w_tooMany := True\<rparr>" by (simp add: Warnings_Add_def)
    with True show ?thesis by (simp add: Cons)
  next
    case False
    then have "Warnings_Add e w = w\<lparr>w_list := w_list w @ [e]\<rparr>"
      and "maxWarnings - length (w_list w) = Suc (maxWarnings - Suc (length (w_list w)))"
      by (simp_all add: Warnings_Add_def)
    then have "fold Warnings_Add (e # errs) w = fold Warnings_Add errs (w\<lparr>w_list := w_list w @ [e]\<rparr>)"
      and n: "maxWarnings - length (w_list w) = Suc (maxWarnings - Suc (length (w_list w)))"
      by simp_all
    note this(1)
    also have "fold Warnings_Add errs (w\<lparr>w_list := w_list w @ [e]\<rparr>) =
        w\<lparr>w_list := w_list w @ take (maxWarnings - length (w_list w)) (e # errs),
          w_tooMany := (w_tooMany w \<or> (errs \<noteq> [] \<and> maxWarnings < Suc (length (w_list w)) + length errs))\<rparr>"
      by (simp add: Cons.IH n)
    also have "(errs \<noteq> [] \<and> maxWarnings < Suc (length (w_list w)) + length errs) =
        (e # errs \<noteq> [] \<and> maxWarnings < length (w_list w) + length (e # errs))"
      using False by (cases errs) simp_all
    finally show ?thesis .
  qed
qed

text \<open>C9: after any sequence of \<^verbatim>\<open>Add\<close> calls on a fresh collector, the list holds exactly the
  first \<open>maxWarnings\<close> errors in order, the overflow flag is set exactly when more than
  \<open>maxWarnings\<close> errors were added, and \<^verbatim>\<open>Reference\<close> is nil exactly when none was.\<close>

theorem Warnings_Add_all:
  "w_list (fold Warnings_Add errs (new_warnings v)) = take maxWarnings errs \<and>
   length (w_list (fold Warnings_Add errs (new_warnings v))) \<le> maxWarnings \<and>
   w_tooMany (fold Warnings_Add errs (new_warnings v)) = (maxWarnings < length errs) \<and>
   (Warnings_Reference (fold Warnings_Add errs (new_warnings v)) = None) = (errs = [])"
  by (auto simp: fold_Add_state new_warnings_def Warnings_Reference_def maxWarnings_def)

end
