(* ===== verification/Cpu.thy ===== *)
theory Cpu
  imports Common
begin

text \<open>
  Package \<^verbatim>\<open>cpu\<close>, platform-independent part (\<^verbatim>\<open>cpu.go\<close>): the CPU times record, the busy
  percentage between two samples, and the percentage since the last call, whose state is
  the package variable \<^verbatim>\<open>lastCPUPercent\<close>. The platform's \<^verbatim>\<open>TimesWithContext\<close> is the argument
  \<open>readTimes\<close>.
\<close>

record times_stat =
  t_CPU :: string
  t_User :: float64
  t_System :: float64
  t_Idle :: float64
  t_Nice :: float64
  t_Iowait :: float64
  t_Irq :: float64
  t_Softirq :: float64
  t_Steal :: float64
  t_Guest :: float64
  t_GuestNice :: float64

record info_stat =
  i_CPU :: int
  i_VendorID :: string
  i_Family :: string
  i_Model :: string
  i_Stepping :: int
  i_PhysicalID :: string
  i_CoreID :: string
  i_Cores :: int
  i_ModelName :: string
  i_Mhz :: float64
  i_CacheSize :: int
  i_Flags :: "string list"
  i_Microcode :: string

text \<open>The package variable; \<open>None\<close> is a nil slice.\<close>

record last_percent =
  lastCPUTimes :: "times_stat list option"
  lastPerCPUTimes :: "times_stat list option"

text \<open>\<^verbatim>\<open>strconv.FormatFloat(x, 'f', 1, 64)\<close>: one decimal, the exact value rounded half to even.\<close>

definition format_float1 :: "float64 \<Rightarrow> string" where
  "format_float1 x = (case x of NaN \<Rightarrow> ''NaN'' | PInf \<Rightarrow> ''+Inf'' | NInf \<Rightarrow> ''-Inf''
     | _ \<Rightarrow> let n = nat (rhe (\<bar>fval x\<bar> * 10))
        in (if sign_bit x then ''-'' else []) @ fmt_nat (n div 10) @ ''.'' @ [digit_char (n mod 10)])"

definition TimesStat_String :: "times_stat \<Rightarrow> string" where
  "TimesStat_String c =
     ''{'' @ join '','' [
       [CHR 0x22] @ ''cpu'' @ [CHR 0x22] @ '':'' @ [CHR 0x22] @ t_CPU c @ [CHR 0x22],
       [CHR 0x22] @ ''user'' @ [CHR 0x22] @ '':'' @ format_float1 (t_User c),
       [CHR 0x22] @ ''system'' @ [CHR 0x22] @ '':'' @ format_float1 (t_System c),
       [CHR 0x22] @ ''idle'' @ [CHR 0x22] @ '':'' @ format_float1 (t_Idle c),
       [CHR 0x22] @ ''nice'' @ [CHR 0x22] @ '':'' @ format_float1 (t_Nice c),
       [CHR 0x22] @ ''iowait'' @ [CHR 0x22] @ '':'' @ format_float1 (t_Iowait c),
       [CHR 0x22] @ ''irq'' @ [CHR 0x22] @ '':'' @ format_float1 (t_Irq c),
       [CHR 0x22] @ ''softirq'' @ [CHR 0x22] @ '':'' @ format_float1 (t_Softirq c),
       [CHR 0x22] @ ''steal'' @ [CHR 0x22] @ '':'' @ format_float1 (t_Steal c),
       [CHR 0x22] @ ''guest'' @ [CHR 0x22] @ '':'' @ format_float1 (t_Guest c),
       [CHR 0x22] @ ''guestNice'' @ [CHR 0x22] @ '':'' @ format_float1 (t_GuestNice c)] @ ''}''"

definition TimesStat_Total :: "times_stat \<Rightarrow> float64" where
  "TimesStat_Total c = t_User c + t_System c + t_Idle c + t_Nice c + t_Iowait c + t_Irq c +
     t_Softirq c + t_Steal c + t_Guest c + t_GuestNice c"

text \<open>\<open>goos\<close> is \<^verbatim>\<open>runtime.GOOS\<close>.\<close>

definition getAllBusy :: "string \<Rightarrow> times_stat \<Rightarrow> float64 \<times> float64" where
  "getAllBusy goos t =
     (let tot = TimesStat_Total t;
          tot = (if goos = ''linux'' then tot - t_Guest t - t_GuestNice t else tot);
          busy = tot - t_Idle t - t_Iowait t
      in (tot, busy))"

definition calculateBusy :: "string \<Rightarrow> times_stat \<Rightarrow> times_stat \<Rightarrow> float64" where
  "calculateBusy goos t1 t2 =
     (case getAllBusy goos t1 of (t1All, t1Busy) \<Rightarrow> case getAllBusy goos t2 of (t2All, t2Busy) \<Rightarrow>
        if t2Busy \<le> t1Busy then Fin 0
        else if t2All \<le> t1All then Fin 100
        else f_min (Fin 100) (f_max (Fin 0) ((t2Busy - t1Busy) / (t2All - t1All) * Fin 100)))"

definition calculateAllBusy :: "string \<Rightarrow> times_stat list \<Rightarrow> times_stat list \<Rightarrow> float64 list result" where
  "calculateAllBusy goos t1 t2 =
     (if length t1 \<noteq> length t2
      then Err (ErrMsg (''received two CPU counts: '' @ fmt_nat (length t1) @ '' != '' @ fmt_nat (length t2)))
      else Ok (map2 (calculateBusy goos) t1 t2))"

text \<open>
  \<^verbatim>\<open>percentUsedFromLastCallWithContext\<close>: the sample is read first; a read error leaves the
  state alone, otherwise the sample replaces the last one even when the result is an error.
\<close>

definition percentUsedFromLastCall ::
  "string \<Rightarrow> (bool \<Rightarrow> times_stat list result) \<Rightarrow> bool \<Rightarrow> last_percent \<Rightarrow> float64 list result \<times> last_percent" where
  "percentUsedFromLastCall goos readTimes percpu st =
     (case readTimes percpu of
        Err e \<Rightarrow> (Err e, st)
      | Panic \<Rightarrow> (Panic, st)
      | Ok cpuTimes \<Rightarrow>
          let lastTimes = (if percpu then lastPerCPUTimes st else lastCPUTimes st);
              st' = (if percpu then st\<lparr>lastPerCPUTimes := Some cpuTimes\<rparr> else st\<lparr>lastCPUTimes := Some cpuTimes\<rparr>)
          in (case lastTimes of
                None \<Rightarrow> (Err (ErrMsg ''error getting times for cpu percent. lastTimes was nil''), st')
              | Some l \<Rightarrow> (calculateAllBusy goos l cpuTimes, st')))"

text \<open>
  \<^verbatim>\<open>PercentWithContext\<close>: \<open>times1\<close> and \<open>times2\<close> sample the system before and after the sleep,
  which ends with \<open>slept\<close> (\<open>None\<close> when the interval has passed).
\<close>

definition PercentWithContext ::
  "string \<Rightarrow> (bool \<Rightarrow> times_stat list result) \<Rightarrow> gerr option \<Rightarrow> (bool \<Rightarrow> times_stat list result) \<Rightarrow>
   int \<Rightarrow> bool \<Rightarrow> last_percent \<Rightarrow> float64 list result \<times> last_percent" where
  "PercentWithContext goos times1 slept times2 interval percpu st =
     (if interval \<le> 0 then percentUsedFromLastCall goos times1 percpu st
      else (rbind (times1 percpu) (\<lambda>cpuTimes1.
              case slept of Some e \<Rightarrow> Err e
              | None \<Rightarrow> rbind (times2 percpu) (\<lambda>cpuTimes2. calculateAllBusy goos cpuTimes1 cpuTimes2)), st))"

text \<open>The package's \<^verbatim>\<open>init\<close>: an error leaves a nil slice.\<close>

definition init_lastPercent :: "(bool \<Rightarrow> times_stat list result) \<Rightarrow> last_percent" where
  "init_lastPercent readTimes =
     \<lparr>lastCPUTimes = (case readTimes False of Ok ts \<Rightarrow> Some ts | _ \<Rightarrow> None),
      lastPerCPUTimes = (case readTimes True of Ok ts \<Rightarrow> Some ts | _ \<Rightarrow> None)\<rparr>"

section \<open>The busy percentage stays between 0 and 100\<close>

text \<open>Times whose fields are doubles of magnitude at most \<open>2 ^ k\<close>.\<close>

definition times_bound :: "nat \<Rightarrow> times_stat \<Rightarrow> bool" where
  "times_bound k t \<longleftrightarrow> fbound k (t_User t) \<and> fbound k (t_System t) \<and> fbound k (t_Idle t) \<and>
     fbound k (t_Nice t) \<and> fbound k (t_Iowait t) \<and> fbound k (t_Irq t) \<and> fbound k (t_Softirq t) \<and>
     fbound k (t_Steal t) \<and> fbound k (t_Guest t) \<and> fbound k (t_GuestNice t)"

lemma add_fbound_step: "fbound m a \<Longrightarrow> fbound k b \<Longrightarrow> k \<le> m \<Longrightarrow> m < 1023 \<Longrightarrow> fbound (Suc m) (a + b)"
  using add_fbound [of m a b] fbound_mono by simp

lemma minus_fbound_step: "fbound m a \<Longrightarrow> fbound k b \<Longrightarrow> k \<le> m \<Longrightarrow> m < 1023 \<Longrightarrow> fbound (Suc m) (a - b)"
  using minus_fbound [of m a b] fbound_mono by simp

lemma Total_fbound:
  assumes "times_bound k t" and "k < 1000"
  shows "fbound (k + 9) (TimesStat_Total t)"
proof -
  note b = assms(1) [unfolded times_bound_def]
  have "fbound (Suc (Suc (Suc (Suc (Suc (Suc (Suc (Suc (Suc k))))))))) (TimesStat_Total t)"
    unfolding TimesStat_Total_def using b assms(2) by (intro add_fbound_step [where k = k]) simp_all
  then show ?thesis by (simp add: eval_nat_numeral)
qed

lemma getAllBusy_fbound:
  assumes "times_bound k t" and "k < 1000" and "getAllBusy goos t = (all, busy)"
  shows "fbound (k + 13) all" and "fbound (k + 13) busy"
proof -
  note b = assms(1) [unfolded times_bound_def]
  have t: "fbound (k + 9) (TimesStat_Total t)" using assms by (intro Total_fbound)
  have "fbound (Suc (Suc (k + 9))) (TimesStat_Total t - t_Guest t - t_GuestNice t)"
    using b t assms(2) by (intro minus_fbound_step [where k = k]) simp_all
  then have a: "fbound (k + 11) all"
    using assms(3) t by (auto simp: getAllBusy_def Let_def eval_nat_numeral split: if_splits elim: fbound_mono)
  then show "fbound (k + 13) all" by (rule fbound_mono) simp
  have "fbound (Suc (Suc (k + 11))) (all - t_Idle t - t_Iowait t)"
    using b a assms(2) by (intro minus_fbound_step [where k = k]) simp_all
  then show "fbound (k + 13) busy"
    using assms(3) by (auto simp: getAllBusy_def Let_def eval_nat_numeral)
qed

lemma fl_pos_cases:
  assumes "0 \<le> q"
  shows "fl False q = PInf \<or> (\<exists>r. fl False q = Fin r \<and> 0 \<le> r)"
  using rnd_nonneg [OF assms, of 53 "- 1074"] by (auto simp: fl_def fl_gen_def Let_def)

lemma clamp_percent:
  assumes "x = PInf \<or> (\<exists>r. x = Fin r \<and> 0 \<le> r)"
  shows "\<exists>r. f_min (Fin 100) (f_max (Fin 0) x) = Fin r \<and> 0 \<le> r \<and> r \<le> 100"
  using assms
proof
  assume "x = PInf"
  then show ?thesis
    by (simp add: f_min_def f_max_def f_eq_def zero_float64_def less_float64_def)
next
  assume "\<exists>r. x = Fin r \<and> 0 \<le> r"
  then obtain r where "x = Fin r" "0 \<le> r" by blast
  then show ?thesis
    by (cases "r = 0"; cases "r \<le> 100")
       (auto simp: f_min_def f_max_def f_eq_def zero_float64_def)
qed

lemma calculateBusy_in_range:
  assumes "times_bound k t1" and "times_bound k t2" and "k < 1000"
  shows "\<exists>r. calculateBusy goos t1 t2 = Fin r \<and> 0 \<le> r \<and> r \<le> 100"
proof -
  obtain a1 b1 where ab1: "getAllBusy goos t1 = (a1, b1)" by fastforce
  obtain a2 b2 where ab2: "getAllBusy goos t2 = (a2, b2)" by fastforce
  note f1 = getAllBusy_fbound [OF assms(1,3) ab1] and f2 = getAllBusy_fbound [OF assms(2,3) ab2]
  show ?thesis
  proof (cases "b2 \<le> b1 \<or> a2 \<le> a1")
    case True
    then show ?thesis by (auto simp: calculateBusy_def ab1 ab2)
  next
    case False
    then have "b1 < b2" "a1 < a2"
      using le_fbound [OF f2(1) f1(1)] le_fbound [OF f2(2) f1(2)]
        less_fbound [OF f1(1) f2(1)] less_fbound [OF f1(2) f2(2)] by simp_all
    then obtain x y where x: "b2 - b1 = Fin x" "0 < x" and y: "a2 - a1 = Fin y" "0 < y"
      using minus_fbound_pos [OF f2(2) f1(2)] minus_fbound_pos [OF f2(1) f1(1)] assms(3) by auto
    then have "Fin x / Fin y = fl False (x / y)" by (simp add: div_Fin_nonneg)
    moreover have "0 \<le> x / y" using x y by simp
    ultimately have q: "Fin x / Fin y = PInf \<or> (\<exists>r. Fin x / Fin y = Fin r \<and> 0 \<le> r)"
      using fl_pos_cases by simp
    have "Fin x / Fin y * Fin 100 = PInf \<or> (\<exists>r. Fin x / Fin y * Fin 100 = Fin r \<and> 0 \<le> r)"
      using q
    proof
      assume "Fin x / Fin y = PInf"
      then show ?thesis by (simp add: times_float64_def f_mul_def)
    next
      assume "\<exists>r. Fin x / Fin y = Fin r \<and> 0 \<le> r"
      then obtain r where "Fin x / Fin y = Fin r" "0 \<le> r" by blast
      then show ?thesis using fl_pos_cases [of "r * 100"] by (simp add: mul_Fin_nonneg)
    qed
    with False show ?thesis by (simp add: calculateBusy_def ab1 ab2 x y clamp_percent)
  qed
qed

section \<open>The contract of a sampler\<close>

text \<open>
  What the percentage functions need of a platform's \<^verbatim>\<open>TimesWithContext\<close>: it does not panic
  and its times are moderate doubles. Then a call never panics, returns one percentage per
  CPU of the sample, each between 0 and 100, and records the sample it took.
\<close>

definition percentages :: "float64 list \<Rightarrow> bool" where
  "percentages xs \<longleftrightarrow> (\<forall>x \<in> set xs. \<exists>r. x = Fin r \<and> 0 \<le> r \<and> r \<le> 100)"

definition samples_bound :: "nat \<Rightarrow> last_percent \<Rightarrow> bool" where
  "samples_bound k st \<longleftrightarrow>
     (\<forall>ts. lastCPUTimes st = Some ts \<or> lastPerCPUTimes st = Some ts \<longrightarrow> (\<forall>t \<in> set ts. times_bound k t))"

lemma calculateAllBusy_percentages:
  assumes "calculateAllBusy goos l ts = Ok xs" and "k < 1000"
    and "\<forall>t \<in> set l. times_bound k t" and "\<forall>t \<in> set ts. times_bound k t"
  shows "length xs = length ts \<and> percentages xs"
proof -
  have len: "length l = length ts" and xs: "xs = map2 (calculateBusy goos) l ts"
    using assms(1) by (auto simp: calculateAllBusy_def split: if_splits)
  have "\<exists>r. calculateBusy goos a b = Fin r \<and> 0 \<le> r \<and> r \<le> 100" if "(a, b) \<in> set (zip l ts)" for a b
    using calculateBusy_in_range [of k a b goos] assms(2-4) set_zip_leftD [OF that] set_zip_rightD [OF that]
    by blast
  then show ?thesis using len by (auto simp: xs percentages_def)
qed

locale times_source =
  fixes readTimes :: "bool \<Rightarrow> times_stat list result" and k :: nat
  assumes times_no_panic: "readTimes percpu \<noteq> Panic"
    and times_moderate: "readTimes percpu = Ok ts \<Longrightarrow> t \<in> set ts \<Longrightarrow> times_bound k t"
    and k_small: "k < 1000"
begin

lemma percent_invariant:
  assumes "samples_bound k st"
  shows "samples_bound k (snd (percentUsedFromLastCall goos readTimes percpu st))"
  using assms times_moderate
  by (auto simp: percentUsedFromLastCall_def samples_bound_def Let_def split: result.splits option.splits)

lemma percent_no_panic: "fst (percentUsedFromLastCall goos readTimes percpu st) \<noteq> Panic"
  using times_no_panic
  by (auto simp: percentUsedFromLastCall_def calculateAllBusy_def Let_def split: result.splits option.splits)

lemma percent_values:
  assumes "samples_bound k st" and "fst (percentUsedFromLastCall goos readTimes percpu st) = Ok xs"
  shows "\<exists>ts. readTimes percpu = Ok ts \<and> length xs = length ts \<and> percentages xs"
proof -
  obtain ts where ts: "readTimes percpu = Ok ts"
    using assms(2) by (auto simp: percentUsedFromLastCall_def split: result.splits)
  with assms(2) obtain l where
    l: "(if percpu then lastPerCPUTimes st else lastCPUTimes st) = Some l" "calculateAllBusy goos l ts = Ok xs"
    by (auto simp: percentUsedFromLastCall_def Let_def split: option.splits if_splits)
  moreover have "\<forall>t \<in> set l. times_bound k t"
    using assms(1) l(1) by (auto simp: samples_bound_def split: if_splits)
  ultimately show ?thesis
    using calculateAllBusy_percentages [OF l(2) k_small] times_moderate [OF ts] ts by blast
qed

lemma init_invariant: "samples_bound k (init_lastPercent readTimes)"
  using times_moderate by (auto simp: samples_bound_def init_lastPercent_def split: result.splits)

end

end
