(* ===== verification/Cpu_Linux.thy ===== *)
theory Cpu_Linux
  imports Cpu
begin

text \<open>
  Package \<^verbatim>\<open>cpu\<close> on Linux (\<^verbatim>\<open>cpu_linux.go\<close>, \<^verbatim>\<open>ex_linux.go\<close>): the counters of
  \<^verbatim>\<open>/proc/stat\<close>, the processor descriptions of \<^verbatim>\<open>/proc/cpuinfo\<close> and the logical and physical
  CPU counts. \<open>clk\<close> is the package variable \<^verbatim>\<open>ClocksPerSec\<close>.
\<close>

section \<open>CPU times\<close>

record ex_times_stat =
  x_CPU :: string
  x_User :: u64
  x_System :: u64
  x_Idle :: u64
  x_Nice :: u64
  x_Iowait :: u64
  x_Irq :: u64
  x_Softirq :: u64
  x_Steal :: u64
  x_Guest :: u64
  x_GuestNice :: u64

definition ToTimesStat :: "float64 \<Rightarrow> ex_times_stat \<Rightarrow> times_stat" where
  "ToTimesStat clk c =
     \<lparr>t_CPU = x_CPU c,
      t_User = f_of_u64 (x_User c) / clk,
      t_System = f_of_u64 (x_System c) / clk,
      t_Idle = f_of_u64 (x_Idle c) / clk,
      t_Nice = f_of_u64 (x_Nice c) / clk,
      t_Iowait = f_of_u64 (x_Iowait c) / clk,
      t_Irq = f_of_u64 (x_Irq c) / clk,
      t_Softirq = f_of_u64 (x_Softirq c) / clk,
      t_Steal = f_of_u64 (x_Steal c) / clk,
      t_Guest = f_of_u64 (x_Guest c) / clk,
      t_GuestNice = f_of_u64 (x_GuestNice c) / clk\<rparr>"

text \<open>\<^verbatim>\<open>init\<close>: the clock ticks of \<^verbatim>\<open>sysconf\<close>, or 100 when it fails.\<close>

definition init_ClocksPerSec :: "gerr + int \<Rightarrow> float64" where
  "init_ClocksPerSec sysconf_clk_tck = (case sysconf_clk_tck of Inl _ \<Rightarrow> Fin 100 | Inr n \<Rightarrow> f_of_int n)"

definition empty_ex_times :: "string \<Rightarrow> ex_times_stat" where
  "empty_ex_times name =
     \<lparr>x_CPU = name, x_User = 0, x_System = 0, x_Idle = 0, x_Nice = 0, x_Iowait = 0,
      x_Irq = 0, x_Softirq = 0, x_Steal = 0, x_Guest = 0, x_GuestNice = 0\<rparr>"

text \<open>The slice of counter addresses of \<^verbatim>\<open>parseStatLine\<close>, in the order of the columns.\<close>

definition stat_counters :: "(u64 \<Rightarrow> ex_times_stat \<Rightarrow> ex_times_stat) list" where
  "stat_counters =
     [\<lambda>v s. s\<lparr>x_User := v\<rparr>, \<lambda>v s. s\<lparr>x_Nice := v\<rparr>, \<lambda>v s. s\<lparr>x_System := v\<rparr>, \<lambda>v s. s\<lparr>x_Idle := v\<rparr>,
      \<lambda>v s. s\<lparr>x_Iowait := v\<rparr>, \<lambda>v s. s\<lparr>x_Irq := v\<rparr>, \<lambda>v s. s\<lparr>x_Softirq := v\<rparr>, \<lambda>v s. s\<lparr>x_Steal := v\<rparr>,
      \<lambda>v s. s\<lparr>x_Guest := v\<rparr>, \<lambda>v s. s\<lparr>x_GuestNice := v\<rparr>]"

text \<open>The loop over the counters and the fields after the name: it ends with either.\<close>

fun fill_counters :: "nat \<Rightarrow> (u64 \<Rightarrow> ex_times_stat \<Rightarrow> ex_times_stat) list \<Rightarrow> string list \<Rightarrow>
    ex_times_stat \<Rightarrow> ex_times_stat result" where
  "fill_counters i [] fs stat = Ok stat"
| "fill_counters i (c # cs) [] stat = Ok stat"
| "fill_counters i (c # cs) (f # fs) stat =
     (case parse_u64 f of
        Ok v \<Rightarrow> fill_counters (Suc i) cs fs (c v stat)
      | Err e \<Rightarrow> Err (ErrWrap (''parse CPU time field '' @ fmt_nat (Suc i) @ '' for '' @ x_CPU stat) e)
      | Panic \<Rightarrow> Panic)"

definition parseStatLine :: "string \<Rightarrow> ex_times_stat result" where
  "parseStatLine line =
     (let fs = str_fields line in
      if length fs < 8 then Err (ErrMsg ''stat does not contain cpu info'')
      else if \<not> has_prefix (fs ! 0) ''cpu'' then Err (ErrMsg ''not contain cpu'')
      else fill_counters 0 stat_counters (tl fs)
             (empty_ex_times (if fs ! 0 = ''cpu'' then ''cpu-total'' else fs ! 0)))"

text \<open>The rows that parse, in order; the others are skipped.\<close>

fun stat_rows :: "float64 \<Rightarrow> string list \<Rightarrow> times_stat list" where
  "stat_rows clk [] = []"
| "stat_rows clk (line # ls) =
     (case parseStatLine line of Ok ct \<Rightarrow> ToTimesStat clk ct # stat_rows clk ls | _ \<Rightarrow> stat_rows clk ls)"

definition TimesWithContext :: "host \<Rightarrow> float64 \<Rightarrow> bool \<Rightarrow> times_stat list result" where
  "TimesWithContext h clk percpu =
     (let filename = HostProcWithContext h [''stat''] in
      if percpu then
        (case ReadLines h filename of
           Ok statlines \<Rightarrow>
             if length statlines < 2 then Ok []
             else Ok (stat_rows clk (takeWhile (\<lambda>line. has_prefix line ''cpu'') (drop 1 statlines)))
         | _ \<Rightarrow> Ok [])
      else
        (case ReadLinesOffsetN h filename 0 1 of
           Ok ls \<Rightarrow> if ls = [] then Ok [] else Ok (stat_rows clk ls)
         | _ \<Rightarrow> Ok []))"

text \<open>
  \<^verbatim>\<open>ExLinux.TimesWithContext\<close>: raw counters, with every error reported. The loop reads rows
  from the unread bytes \<open>d\<close>; \<open>fin\<close> is the read error that follows them, if any.
\<close>

function ex_times_loop :: "gerr option \<Rightarrow> bool \<Rightarrow> string \<Rightarrow> ex_times_stat list \<Rightarrow> ex_times_stat list result" where
  "ex_times_loop fin percpu d ret =
     (if percpu \<and> length d < 3 \<and> fin \<noteq> None then Err (the fin)
      else if percpu \<and> take 3 d \<noteq> ''cpu'' then Ok ret
      else case read_string d of (line, rest, found) \<Rightarrow>
        if \<not> found \<and> fin \<noteq> None then Err (the fin)
        else if line = [] then Ok ret
        else (case parseStatLine line of
                Ok stat \<Rightarrow>
                  if \<not> percpu \<or> \<not> found then Ok (ret @ [stat])
                  else ex_times_loop fin percpu rest (ret @ [stat])
              | Err e \<Rightarrow> Err e
              | Panic \<Rightarrow> Panic))"
  by pat_completeness auto
termination
  by (relation "measure (\<lambda>(fin, percpu, d, ret). length d)") (auto intro: read_string_shorter)

declare ex_times_loop.simps [simp del]

definition ExLinux_TimesWithContext :: "host \<Rightarrow> bool \<Rightarrow> ex_times_stat list result" where
  "ExLinux_TimesWithContext h percpu =
     (case h_open h (HostProcWithContext h [''stat'']) of
        Inl e \<Rightarrow> Err e
      | Inr (d, fin) \<Rightarrow>
          if percpu then
            (case read_string d of (line, rest, found) \<Rightarrow>
               if \<not> found then (case fin of None \<Rightarrow> Ok [] | Some e \<Rightarrow> Err e)
               else ex_times_loop fin True rest [])
          else ex_times_loop fin False d [])"

section \<open>Processor information\<close>

definition armModelToModelName :: "(nat \<times> string) list" where
  "armModelToModelName =
     [(0x810, ''ARM810''),
      (0x920, ''ARM920''),
      (0x922, ''ARM922''),
      (0x926, ''ARM926''),
      (0x940, ''ARM940''),
      (0x946, ''ARM946''),
      (0x966, ''ARM966''),
      (0xa20, ''ARM1020''),
      (0xa22, ''ARM1022''),
      (0xa26, ''ARM1026''),
      (0xb02, ''ARM11 MPCore''),
      (0xb36, ''ARM1136''),
      (0xb56, ''ARM1156''),
      (0xb76, ''ARM1176''),
      (0xc05, ''Cortex-A5''),
      (0xc07, ''Cortex-A7''),
      (0xc08, ''Cortex-A8''),
      (0xc09, ''Cortex-A9''),
      (0xc0d, ''Cortex-A17''),
      (0xc0f, ''Cortex-A15''),
      (0xc0e, ''Cortex-A17''),
      (0xc14, ''Cortex-R4''),
      (0xc15, ''Cortex-R5''),
      (0xc17, ''Cortex-R7''),
      (0xc18, ''Cortex-R8''),
      (0xc20, ''Cortex-M0''),
      (0xc21, ''Cortex-M1''),
      (0xc23, ''Cortex-M3''),
      (0xc24, ''Cortex-M4''),
      (0xc27, ''Cortex-M7''),
      (0xc60, ''Cortex-M0+''),
      (0xd01, ''Cortex-A32''),
      (0xd02, ''Cortex-A34''),
      (0xd03, ''Cortex-A53''),
      (0xd04, ''Cortex-A35''),
      (0xd05, ''Cortex-A55''),
      (0xd06, ''Cortex-A65''),
      (0xd07, ''Cortex-A57''),
      (0xd08, ''Cortex-A72''),
      (0xd09, ''Cortex-A73''),
      (0xd0a, ''Cortex-A75''),
      (0xd0b, ''Cortex-A76''),
      (0xd0c, ''Neoverse-N1''),
      (0xd0d, ''Cortex-A77''),
      (0xd0e, ''Cortex-A76AE''),
      (0xd13, ''Cortex-R52''),
      (0xd20, ''Cortex-M23''),
      (0xd21, ''Cortex-M33''),
      (0xd40, ''Neoverse-V1''),
      (0xd41, ''Cortex-A78''),
      (0xd42, ''Cortex-A78AE''),
      (0xd43, ''Cortex-A65AE''),
      (0xd44, ''Cortex-X1''),
      (0xd46, ''Cortex-A510''),
      (0xd47, ''Cortex-A710''),
      (0xd48, ''Cortex-X2''),
      (0xd49, ''Neoverse-N2''),
      (0xd4a, ''Neoverse-E1''),
      (0xd4b, ''Cortex-A78C''),
      (0xd4c, ''Cortex-X1C''),
      (0xd4d, ''Cortex-A715''),
      (0xd4e, ''Cortex-X3''),
      (0xd4f, ''Neoverse-V2''),
      (0xd81, ''Cortex-A720''),
      (0xd82, ''Cortex-X4''),
      (0xd84, ''Neoverse-V3''),
      (0xd85, ''Cortex-X925''),
      (0xd87, ''Cortex-A725''),
      (0xd8e, ''Neoverse-N3'')]"

definition riscv_vendor :: "nat \<Rightarrow> string option" where
  "riscv_vendor = map_of
     [(0x31e, ''Andes''), (0x029, ''Microchip''), (0x127, ''MIPS''), (0x489, ''SiFive''), (0x5b7, ''T-Head'')]"

definition arm_implementer :: "nat \<Rightarrow> string option" where
  "arm_implementer = map_of
     [(0x41, ''ARM''), (0x42, ''Broadcom''), (0x43, ''Cavium''), (0x44, ''DEC''), (0x46, ''Fujitsu''), (0x48, ''HiSilicon''), (0x49, ''Infineon''), (0x4d, ''Motorola/Freescale''), (0x4e, ''NVIDIA''), (0x50, ''APM''), (0x51, ''Qualcomm''), (0x56, ''Marvell''), (0x61, ''Apple''), (0x69, ''Intel''), (0xc0, ''Ampere'')]"

definition sysCPUPath :: "host \<Rightarrow> int \<Rightarrow> string \<Rightarrow> string" where
  "sysCPUPath h cpu relPath = HostSysWithContext h [''devices/system/cpu/cpu'' @ itoa cpu, relPath]"

text \<open>
  \<^verbatim>\<open>finishCPUInfo\<close> reads the core id and the maximum frequency. An empty \<^verbatim>\<open>core_id\<close> file makes
  \<^verbatim>\<open>lines[0]\<close> panic.
\<close>

definition finish_core_id :: "host \<Rightarrow> info_stat \<Rightarrow> info_stat result" where
  "finish_core_id h c =
     (if i_CoreID c = [] then
        (case ReadLines h (sysCPUPath h (i_CPU c) ''topology/core_id'') of
           Ok ls \<Rightarrow> rbind (idx ls 0) (\<lambda>l. Ok (c\<lparr>i_CoreID := l\<rparr>))
         | Err _ \<Rightarrow> Ok c
         | Panic \<Rightarrow> Panic)
      else Ok c)"

definition finishCPUInfo :: "host \<Rightarrow> info_stat \<Rightarrow> info_stat result" where
  "finishCPUInfo h c0 =
     rbind (finish_core_id h c0) (\<lambda>c.
       case ReadLines h (sysCPUPath h (i_CPU c) ''cpufreq/cpuinfo_max_freq'') of
         Ok (l # _) \<Rightarrow>
           (case parse_float l of
              (v, None) \<Rightarrow>
                let mhz = v / Fin 1000; mhz = (if Fin 9999 < mhz then mhz / Fin 1000 else mhz)
                in Ok (c\<lparr>i_Mhz := mhz\<rparr>)
            | _ \<Rightarrow> Ok c)
       | Panic \<Rightarrow> Panic
       | _ \<Rightarrow> Ok c)"

definition riscvISAParse :: "string \<Rightarrow> string list" where
  "riscvISAParse s =
     (let ext = split_char (CHR ''_'') s in
      if length (hd ext) \<le> 4 then [] else explode (drop 4 (hd ext)) @ tl ext)"

definition empty_info :: "int \<Rightarrow> int \<Rightarrow> string \<Rightarrow> info_stat" where
  "empty_info cpu cores modelName =
     \<lparr>i_CPU = cpu, i_VendorID = [], i_Family = [], i_Model = [], i_Stepping = 0, i_PhysicalID = [],
      i_CoreID = [], i_Cores = cores, i_ModelName = modelName, i_Mhz = Fin 0, i_CacheSize = 0,
      i_Flags = [], i_Microcode = []\<rparr>"

text \<open>The state of the loop of \<^verbatim>\<open>InfoWithContext\<close>: the finished entries, the processor name and
  the entry being filled.\<close>

record info_state =
  is_ret :: "info_stat list"
  is_processorName :: string
  is_c :: info_stat

abbreviation upd_c :: "(info_stat \<Rightarrow> info_stat) \<Rightarrow> info_state \<Rightarrow> info_state" where
  "upd_c f st \<equiv> st\<lparr>is_c := f (is_c st)\<rparr>"

text \<open>The keys that start an entry or describe its vendor and model.\<close>

definition info_start :: "host \<Rightarrow> string \<Rightarrow> info_state \<Rightarrow> (info_state \<times> gerr option) result" where
  "info_start h value st =
     rbind (if 0 \<le> i_CPU (is_c st)
            then rbind (finishCPUInfo h (is_c st)) (\<lambda>c. Ok (st\<lparr>is_ret := is_ret st @ [c]\<rparr>)) else Ok st)
       (\<lambda>st. let st = st\<lparr>is_c := empty_info 0 1 (is_processorName st)\<rparr> in
         case parse_int value 10 64 of
           (t, None) \<Rightarrow> Ok (upd_c (\<lambda>c. c\<lparr>i_CPU := to_i32 t\<rparr>) st, None)
         | (_, Some e) \<Rightarrow> Ok (st, Some (NumError e)))"

definition info_vendor :: "string \<Rightarrow> string \<Rightarrow> info_state \<Rightarrow> info_state" where
  "info_vendor key value st =
     (if key \<in> {''vendorId'', ''vendor_id''} then
        (let st = upd_c (\<lambda>c. c\<lparr>i_VendorID := value\<rparr>) st
         in if str_contains value ''S390'' then st\<lparr>is_processorName := ''S390''\<rparr> else st)
      else if key = ''mvendorid'' then
        (if \<not> has_prefix value ''0x'' then st
         else case parse_uint (drop 2 value) 16 32 of
                (v, None) \<Rightarrow> (case riscv_vendor v of Some n \<Rightarrow> upd_c (\<lambda>c. c\<lparr>i_VendorID := n\<rparr>) st | None \<Rightarrow> st)
              | _ \<Rightarrow> st)
      else case parse_uint value 0 8 of
             (v, None) \<Rightarrow> (case arm_implementer v of Some n \<Rightarrow> upd_c (\<lambda>c. c\<lparr>i_VendorID := n\<rparr>) st | None \<Rightarrow> st)
           | _ \<Rightarrow> st)"

definition info_model :: "string \<Rightarrow> info_stat \<Rightarrow> info_stat" where
  "info_model value c0 =
     (let c = c0\<lparr>i_Model := value\<rparr> in
      if i_VendorID c = ''ARM'' then
        (case parse_uint (i_Model c) 0 16 of
           (v, None) \<Rightarrow> (case map_of armModelToModelName v of
              Some n \<Rightarrow> c\<lparr>i_ModelName := n\<rparr> | None \<Rightarrow> c\<lparr>i_ModelName := ''Undefined''\<rparr>)
         | _ \<Rightarrow> c)
      else c)"

definition info_model_name :: "string \<Rightarrow> info_stat \<Rightarrow> info_stat" where
  "info_model_name value c0 =
     (let c = c0\<lparr>i_ModelName := value\<rparr> in
      if str_contains value ''POWER''
      then c\<lparr>i_Model := hd (split_char (CHR '' '') value), i_Family := ''POWER'', i_VendorID := ''IBM''\<rparr>
      else c)"

text \<open>\<^verbatim>\<open>stepping\<close>, \<^verbatim>\<open>cache size\<close>: an invalid number ends the whole call with an error.\<close>

definition info_stepping :: "string \<Rightarrow> string \<Rightarrow> info_state \<Rightarrow> info_state \<times> gerr option" where
  "info_stepping key value st =
     (let val = (if key = ''revision'' then hd (split_char (CHR ''.'') value) else value) in
      if equal_fold val ''unknown'' then (st, None)
      else case parse_int val 10 64 of
             (t, None) \<Rightarrow> (upd_c (\<lambda>c. c\<lparr>i_Stepping := to_i32 t\<rparr>) st, None)
           | (_, Some e) \<Rightarrow> (st, Some (NumError e)))"

definition info_cache :: "string \<Rightarrow> info_state \<Rightarrow> info_state \<times> gerr option" where
  "info_cache value st =
     (case parse_int (replace_first '' KB'' [] value) 10 64 of
        (t, None) \<Rightarrow> (upd_c (\<lambda>c. c\<lparr>i_CacheSize := to_i32 t\<rparr>) st, None)
      | (_, Some e) \<Rightarrow> (st, Some (NumError e)))"

definition info_mhz :: "string \<Rightarrow> info_stat \<Rightarrow> info_stat" where
  "info_mhz value c = (case parse_float (replace_first ''MHz'' [] value) of
     (t, None) \<Rightarrow> c\<lparr>i_Mhz := t\<rparr> | _ \<Rightarrow> c)"

definition info_isa :: "string \<Rightarrow> info_stat \<Rightarrow> info_stat" where
  "info_isa value c = (if i_Flags c \<noteq> [] \<or> \<not> has_prefix value ''rv64'' then c
     else c\<lparr>i_Flags := riscvISAParse value\<rparr>)"

definition info_key :: "host \<Rightarrow> string \<Rightarrow> string \<Rightarrow> info_state \<Rightarrow> (info_state \<times> gerr option) result" where
  "info_key h key value st =
     (if key = ''Processor'' then Ok (st\<lparr>is_processorName := value\<rparr>, None)
      else if key \<in> {''processor'', ''cpu number''} then info_start h value st
      else if key \<in> {''vendorId'', ''vendor_id'', ''mvendorid'', ''CPU implementer''} then Ok (info_vendor key value st, None)
      else if key \<in> {''cpu family'', ''marchid''} then Ok (upd_c (\<lambda>c. c\<lparr>i_Family := value\<rparr>) st, None)
      else if key \<in> {''model'', ''CPU part'', ''mimpid''} then Ok (upd_c (info_model value) st, None)
      else if key \<in> {''Model Name'', ''model name'', ''cpu'', ''uarch''} then Ok (upd_c (info_model_name value) st, None)
      else if key \<in> {''stepping'', ''revision'', ''CPU revision''} then Ok (info_stepping key value st)
      else if key \<in> {''cpu MHz'', ''clock'', ''cpu MHz dynamic''} then Ok (upd_c (info_mhz value) st, None)
      else if key = ''cache size'' then Ok (info_cache value st)
      else if key \<in> {''physical id'', ''hart''} then Ok (upd_c (\<lambda>c. c\<lparr>i_PhysicalID := value\<rparr>) st, None)
      else if key = ''core id'' then Ok (upd_c (\<lambda>c. c\<lparr>i_CoreID := value\<rparr>) st, None)
      else if key \<in> {''flags'', ''Features''}
        then Ok (upd_c (\<lambda>c. c\<lparr>i_Flags := fields_func (\<lambda>r. r = CHR '','' \<or> r = CHR '' '') [] value\<rparr>) st, None)
      else if key \<in> {''isa'', ''hart isa''} then Ok (upd_c (info_isa value) st, None)
      else if key = ''microcode'' then Ok (upd_c (\<lambda>c. c\<lparr>i_Microcode := value\<rparr>) st, None)
      else Ok (st, None))"

fun info_loop :: "host \<Rightarrow> string list \<Rightarrow> info_state \<Rightarrow> (info_state \<times> gerr option) result" where
  "info_loop h [] st = Ok (st, None)"
| "info_loop h (line # ls) st =
     (case split_char_n (CHR '':'') 2 line of
        [k, v] \<Rightarrow> rbind (info_key h (trim_space k) (trim_space v) st)
          (\<lambda>(st', err). if err = None then info_loop h ls st' else Ok (st', err))
      | _ \<Rightarrow> info_loop h ls st)"

text \<open>\<^verbatim>\<open>InfoWithContext\<close> returns the entries read so far together with an error.\<close>

definition InfoWithContext :: "host \<Rightarrow> (info_stat list \<times> gerr option) result" where
  "InfoWithContext h =
     (let filename = HostProcWithContext h [''cpuinfo''] in
      case ReadLines h filename of
        Err e \<Rightarrow> Ok ([], Some (ErrWrap (''could not read '' @ filename) e))
      | Panic \<Rightarrow> Panic
      | Ok ls \<Rightarrow>
          rbind (info_loop h ls \<lparr>is_ret = [], is_processorName = [], is_c = empty_info (- 1) 1 []\<rparr>)
            (\<lambda>(st, err). if err \<noteq> None then Ok (is_ret st, err)
               else if 0 \<le> i_CPU (is_c st)
               then rbind (finishCPUInfo h (is_c st)) (\<lambda>c. Ok (is_ret st @ [c], None))
               else Ok (is_ret st, None)))"

section \<open>Counts\<close>

text \<open>Lines of \<^verbatim>\<open>cpuinfo\<close> that name a processor, and lines of \<^verbatim>\<open>stat\<close> that match \<^verbatim>\<open>^cpu\d\<close>.\<close>

definition is_processor_line :: "string \<Rightarrow> bool" where
  "is_processor_line line0 =
     (let line = to_lower line0;
          after = (case index_byte line (CHR '':'') of Some i \<Rightarrow> drop (Suc i) line | None \<Rightarrow> line)
      in has_prefix line ''processor'' \<and> snd (parse_int (trim_space after) 10 32) = None)"

definition is_cpu_row :: "string \<Rightarrow> bool" where
  "is_cpu_row line \<longleftrightarrow> 4 \<le> length line \<and> has_prefix line ''cpu'' \<and> is_digit (line ! 3)"

definition countsLogical :: "host \<Rightarrow> nat result" where
  "countsLogical h =
     (let ret = (case ReadLines h (HostProcWithContext h [''cpuinfo'']) of
            Ok ls \<Rightarrow> length (filter is_processor_line ls) | _ \<Rightarrow> 0)
      in if ret = 0
         then rbind (ReadLines h (HostProcWithContext h [''stat''])) (\<lambda>ls. Ok (length (filter is_cpu_row ls)))
         else Ok ret)"

text \<open>The set of sibling lists, over the files of one pattern after those of the earlier ones.\<close>

fun siblings_of :: "host \<Rightarrow> string list \<Rightarrow> string list \<Rightarrow> string list" where
  "siblings_of h [] acc = acc"
| "siblings_of h (f # fs) acc =
     (case ReadLines h f of Ok [l] \<Rightarrow> siblings_of h fs (List.insert l acc) | _ \<Rightarrow> siblings_of h fs acc)"

fun siblings_globs :: "host \<Rightarrow> string list \<Rightarrow> string list \<Rightarrow> nat option" where
  "siblings_globs h [] acc = None"
| "siblings_globs h (g # gs) acc =
     (case h_glob h (HostSysWithContext h [g]) of
        Inl _ \<Rightarrow> siblings_globs h gs acc
      | Inr files \<Rightarrow>
          let acc' = siblings_of h files acc
          in if acc' \<noteq> [] then Some (length acc') else siblings_globs h gs acc')"

record count_state =
  cs_mapping :: "(int \<times> int) list"
  cs_id :: "int option"
  cs_cores :: "int option"

definition cores_line :: "string \<Rightarrow> count_state \<Rightarrow> count_state" where
  "cores_line line0 st =
     (let line = to_lower (trim_space line0) in
      if line = [] then
        (case (cs_id st, cs_cores st) of
           (Some i, Some c) \<Rightarrow> \<lparr>cs_mapping = alist_put i c (cs_mapping st), cs_id = None, cs_cores = None\<rparr>
         | _ \<Rightarrow> st\<lparr>cs_id := None, cs_cores := None\<rparr>)
      else case split_char_n (CHR '':'') 2 line of
             [k, v] \<Rightarrow>
               (let key = trim_space k in
                if key = ''physical id'' \<or> key = ''cpu cores'' then
                  (case parse_int (trim_space v) 10 32 of
                     (val, None) \<Rightarrow> if key = ''physical id'' then st\<lparr>cs_id := Some val\<rparr> else st\<lparr>cs_cores := Some val\<rparr>
                   | _ \<Rightarrow> st)
                else st)
           | _ \<Rightarrow> st)"

definition countsPhysical :: "host \<Rightarrow> int result" where
  "countsPhysical h =
     (case siblings_globs h [''devices/system/cpu/cpu[0-9]*/topology/core_cpus_list'',
                             ''devices/system/cpu/cpu[0-9]*/topology/thread_siblings_list''] [] of
        Some n \<Rightarrow> Ok (int n)
      | None \<Rightarrow> rbind (ReadLines h (HostProcWithContext h [''cpuinfo''])) (\<lambda>ls.
          Ok (sum_list (map snd (cs_mapping (fold cores_line ls \<lparr>cs_mapping = [], cs_id = None, cs_cores = None\<rparr>))))))"

definition CountsWithContext :: "host \<Rightarrow> bool \<Rightarrow> int result" where
  "CountsWithContext h logical =
     (if logical then rbind (countsLogical h) (\<lambda>n. Ok (int n)) else countsPhysical h)"

section \<open>Rows of /proc/stat\<close>

text \<open>The row for a CPU name and its counters, as the kernel prints it, and what it means.\<close>

definition stat_row :: "string \<Rightarrow> u64 list \<Rightarrow> string" where
  "stat_row name vs = join '' '' (name # map (\<lambda>v. fmt_nat (unat v)) vs)"

definition nth0 :: "u64 list \<Rightarrow> nat \<Rightarrow> u64" where
  "nth0 vs i = (if i < length vs then vs ! i else 0)"

definition stat_meaning :: "string \<Rightarrow> u64 list \<Rightarrow> ex_times_stat" where
  "stat_meaning name vs =
     \<lparr>x_CPU = (if name = ''cpu'' then ''cpu-total'' else name),
      x_User = nth0 vs 0, x_System = nth0 vs 2, x_Idle = nth0 vs 3, x_Nice = nth0 vs 1,
      x_Iowait = nth0 vs 4, x_Irq = nth0 vs 5, x_Softirq = nth0 vs 6, x_Steal = nth0 vs 7,
      x_Guest = nth0 vs 8, x_GuestNice = nth0 vs 9\<rparr>"

lemma fields_stat_row:
  "plain name \<Longrightarrow> name \<noteq> [] \<Longrightarrow> str_fields (stat_row name vs) = name # map (\<lambda>v. fmt_nat (unat v)) vs"
  unfolding stat_row_def by (rule fields_join) auto

lemma fill_counters_print:
  "fill_counters i cs (map (\<lambda>v. fmt_nat (unat v)) vs) s = Ok (fold (\<lambda>(c, v). c v) (zip cs vs) s)"
proof (induction cs arbitrary: i vs s)
  case (Cons c cs)
  then show ?case by (cases vs) simp_all
qed simp

lemma nth0_simps: "nth0 [] i = 0" "nth0 (v # vs) 0 = v" "nth0 (v # vs) (Suc i) = nth0 vs i"
  by (simp_all add: nth0_def)

lemma fold_stat_counters:
  "fold (\<lambda>(c, v). c v) (zip stat_counters vs) (empty_ex_times nm) = (stat_meaning name vs)\<lparr>x_CPU := nm\<rparr>"
proof -
  have *: "nth0 vs 1 = nth0 vs (Suc 0)" "nth0 vs 2 = nth0 vs (Suc (Suc 0))"
    "nth0 vs 3 = nth0 vs (Suc (Suc (Suc 0)))" "nth0 vs 4 = nth0 vs (Suc (Suc (Suc (Suc 0))))"
    "nth0 vs 5 = nth0 vs (Suc (Suc (Suc (Suc (Suc 0)))))" "nth0 vs 6 = nth0 vs (Suc (Suc (Suc (Suc (Suc (Suc 0))))))"
    "nth0 vs 7 = nth0 vs (Suc (Suc (Suc (Suc (Suc (Suc (Suc 0)))))))"
    "nth0 vs 8 = nth0 vs (Suc (Suc (Suc (Suc (Suc (Suc (Suc (Suc 0))))))))"
    "nth0 vs 9 = nth0 vs (Suc (Suc (Suc (Suc (Suc (Suc (Suc (Suc (Suc 0)))))))))"
    by (simp_all add: eval_nat_numeral)
  show ?thesis
    unfolding stat_meaning_def * stat_counters_def empty_ex_times_def
    by (cases vs rule: list.exhaust; simp add: nth0_simps)
       (simp add: nth0_simps zip_Cons1 split: list.splits)
qed

text \<open>C6: a row of \<^verbatim>\<open>/proc/stat\<close> printed from a CPU name and at least seven counters is parsed
  back to exactly those counters in the kernel's column order; absent optional columns are 0,
  columns after the tenth are ignored and the aggregate row is renamed.\<close>

theorem parseStatLine_roundtrip:
  assumes "plain name" and "has_prefix name ''cpu''" and "7 \<le> length vs"
  shows "parseStatLine (stat_row name vs) = Ok (stat_meaning name vs)"
proof -
  have ne: "name \<noteq> []" using assms(2) by (auto simp: has_prefix_def)
  show ?thesis
    using assms by (simp add: parseStatLine_def fields_stat_row [OF assms(1) ne] fill_counters_print
        fold_stat_counters [of _ _ name]) (simp add: stat_meaning_def)
qed

theorem parseStatLine_roundtrip_witness:
  "parseStatLine (stat_row ''cpu'' [1, 2, 3, 4, 5, 6, 7]) = Ok (stat_meaning ''cpu'' [1, 2, 3, 4, 5, 6, 7])
   \<and> x_Nice (stat_meaning ''cpu'' [1, 2, 3, 4, 5, 6, 7]) = 2"
  using parseStatLine_roundtrip [of "''cpu''" "[1, 2, 3, 4, 5, 6, 7]"]
  by (simp add: is_ascii_space_def has_prefix_def stat_meaning_def nth0_def)

section \<open>The two readers of the CPU times agree\<close>

text \<open>\<^verbatim>\<open>ClocksPerSec\<close> for a positive number of ticks per second.\<close>

definition ticks :: "nat \<Rightarrow> float64" where
  "ticks n = Fin (of_nat (Suc n))"

lemma parseStatLine_nl [simp]: "parseStatLine (l @ [nl]) = parseStatLine l"
  by (simp add: parseStatLine_def)

lemma parseStatLine_no_Panic [simp]: "parseStatLine l \<noteq> Panic"
proof -
  have "fill_counters i cs fs s \<noteq> Panic" for i cs fs s
    by (induction i cs fs s rule: fill_counters.induct) (auto split: result.splits)
  then show ?thesis by (auto simp: parseStatLine_def Let_def)
qed

lemma take_3_cpu: "take 3 r = ''cpu'' \<longleftrightarrow> has_prefix r ''cpu''"
proof
  assume "take 3 r = ''cpu''"
  then have "r = ''cpu'' @ drop 3 r" by (metis append_take_drop_id)
  then show "has_prefix r ''cpu''" unfolding has_prefix_def by (rule prefixI)
next
  assume "has_prefix r ''cpu''"
  then obtain z where "r = ''cpu'' @ z" by (auto simp: has_prefix_def prefix_def)
  then show "take 3 r = ''cpu''" by simp
qed

lemma take_3_cpu_line: "nl \<notin> set l \<Longrightarrow> take 3 (l @ nl # d) = ''cpu'' \<longleftrightarrow> has_prefix l ''cpu''"
proof -
  assume l: "nl \<notin> set l"
  have "prefix ''cpu'' (l @ nl # d) \<longleftrightarrow> prefix ''cpu'' l"
  proof
    assume "prefix ''cpu'' (l @ nl # d)"
    then consider "prefix ''cpu'' l" | us where "''cpu'' = l @ us" "prefix us (nl # d)"
      by (auto simp: prefix_append)
    then show "prefix ''cpu'' l"
    proof cases
      case 2
      have "nl \<notin> set ''cpu''" by simp
      then have "nl \<notin> set us" using 2(1) by (metis UnI2 set_append)
      with 2 show ?thesis by (cases us) auto
    qed
  qed simp
  then show ?thesis unfolding take_3_cpu has_prefix_def .
qed

lemma ex_times_loop_agrees:
  assumes "no_nl ls" and "nl \<notin> set r" and "ex_times_loop fin True (unlines ls @ r) ret = Ok rows"
  shows "\<exists>new. rows = ret @ new \<and>
    stat_rows clk (takeWhile (\<lambda>l. has_prefix l ''cpu'') (ls @ (if fin = None \<and> r \<noteq> [] then [r] else []))) =
    map (ToTimesStat clk) new"
  using assms(1,3)
proof (induction ls arbitrary: ret)
  case Nil
  then show ?case
    using take_3_cpu [of r]
    by (subst (asm) ex_times_loop.simps)
       (auto simp: read_string_rest [OF assms(2)] split: if_splits result.splits)
next
  case (Cons l ls)
  have l: "nl \<notin> set l" and ls: "no_nl ls" using Cons.prems by simp_all
  have ne: "l @ [nl] \<noteq> []" by simp
  show ?case
  proof (cases "has_prefix l ''cpu''")
    case False
    then have "rows = ret"
      using Cons.prems(2) take_3_cpu_line [OF l, of "unlines ls @ r"]
      by (subst (asm) ex_times_loop.simps) (auto split: if_splits)
    with False show ?thesis by auto
  next
    case True
    with Cons.prems(2) take_3_cpu_line [OF l, of "unlines ls @ r"]
    obtain stat where st: "parseStatLine l = Ok stat"
      and rec: "ex_times_loop fin True (unlines ls @ r) (ret @ [stat]) = Ok rows"
      by (subst (asm) ex_times_loop.simps)
         (auto simp: read_string_line [OF l] split: if_splits result.splits)
    from Cons.IH [OF ls rec] True st show ?thesis by auto
  qed
qed

lemma ex_times_first_agrees:
  assumes "no_nl ls" and "nl \<notin> set r" and "ex_times_loop fin False (unlines ls @ r) [] = Ok rows"
  shows "stat_rows clk (take 1 ls @ (if ls = [] \<and> fin = None \<and> r \<noteq> [] then [r] else [])) =
    map (ToTimesStat clk) rows"
proof (cases ls)
  case Nil
  with assms show ?thesis
    by (subst (asm) ex_times_loop.simps)
       (auto simp: read_string_rest split: if_splits result.splits)
next
  case (Cons l ls')
  with assms show ?thesis
    by (subst (asm) ex_times_loop.simps)
       (auto simp: read_string_line split: if_splits result.splits)
qed

text \<open>Whenever the strict reader \<^verbatim>\<open>ExLinux.TimesWithContext\<close> succeeds on a system, the
  package-level \<^verbatim>\<open>TimesWithContext\<close> returns the same rows, converted to seconds, for the total
  and for the per-CPU view.\<close>

theorem ExLinux_Times_agrees:
  assumes "ExLinux_TimesWithContext h percpu = Ok rows"
  shows "TimesWithContext h clk percpu = Ok (map (ToTimesStat clk) rows)"
proof -
  obtain d fin where o: "h_open h (HostProcWithContext h [''stat'']) = Inr (d, fin)"
    using assms by (auto simp: ExLinux_TimesWithContext_def split: sum.splits)
  obtain ls r where d: "d = unlines ls @ r" "no_nl ls" "nl \<notin> set r"
    using text_lines by blast
  note all = ReadLines_open [OF o [unfolded d(1)] d(2,3)]
    and first = ReadFirst_open [OF o [unfolded d(1)] d(2,3)]
  show ?thesis
  proof (cases percpu)
    case False
    with assms o d have "ex_times_loop fin False (unlines ls @ r) [] = Ok rows"
      by (simp add: ExLinux_TimesWithContext_def)
    from ex_times_first_agrees [OF d(2,3) this] False show ?thesis
      by (auto simp: TimesWithContext_def first Let_def split: if_splits)
  next
    case True
    show ?thesis
    proof (cases ls)
      case Nil
      with assms o d True show ?thesis
        by (auto simp: ExLinux_TimesWithContext_def TimesWithContext_def all
            read_string_rest Let_def split: option.splits)
    next
      case (Cons l ls')
      with assms o d True have "ex_times_loop fin True (unlines ls' @ r) [] = Ok rows"
        by (simp add: ExLinux_TimesWithContext_def read_string_line)
      from ex_times_loop_agrees [OF _ d(3) this, of clk] Cons d(2) True show ?thesis
        by (auto simp: TimesWithContext_def all Let_def)
    qed
  qed
qed

definition stat_host :: host where
  "stat_host = with_files [(''/proc/stat'', unlines [stat_row ''cpu'' [1, 2, 3, 4, 5, 6, 7],
     stat_row ''cpu0'' [1, 2, 3, 4, 5, 6, 7], ''intr 0''])]"

theorem ExLinux_Times_agrees_witness:
  "ExLinux_TimesWithContext stat_host True = Ok [stat_meaning ''cpu0'' [1, 2, 3, 4, 5, 6, 7]] \<and>
   TimesWithContext stat_host (ticks 99) True =
     Ok [ToTimesStat (ticks 99) (stat_meaning ''cpu0'' [1, 2, 3, 4, 5, 6, 7])]"
proof -
  have "ExLinux_TimesWithContext stat_host True = Ok [stat_meaning ''cpu0'' [1, 2, 3, 4, 5, 6, 7]]"
    by code_simp
  with ExLinux_Times_agrees [OF this, of "ticks 99"] show ?thesis by simp
qed

section \<open>Percentages on Linux\<close>

lemma u64_div_ticks: "fbound 64 (f_of_u64 w / ticks n)"
proof -
  have "(of_nat (unat w) :: rat) \<le> of_nat (2 ^ 64)"
    using unsigned_less [of w, where 'a=nat] by (intro of_nat_mono) simp
  then have "r64 (unat w) \<le> 2 powi int 64"
    unfolding r64_def by (intro rnd_le_powi) simp_all
  moreover have "r64 (unat w) / of_nat (Suc n) \<le> r64 (unat w)"
    using r64_nonneg [of "unat w"] by (simp add: divide_le_eq mult_le_cancel_left1)
  ultimately have "\<bar>r64 (unat w) / of_nat (Suc n)\<bar> \<le> 2 powi int 64"
    using r64_nonneg [of "unat w"] by (simp only: abs_of_nonneg divide_nonneg_nonneg of_nat_0_le_iff)
  then show ?thesis
    using fl_fbound [of "r64 (unat w) / of_nat (Suc n)" 64 False]
    by (simp add: f_of_u64 ticks_def div_Fin_nonneg r64_nonneg del: of_nat_Suc)
qed

lemma ToTimesStat_bound: "times_bound 64 (ToTimesStat (ticks n) c)"
  by (simp add: times_bound_def ToTimesStat_def u64_div_ticks)

lemma stat_rows_bound: "t \<in> set (stat_rows (ticks n) ls) \<Longrightarrow> times_bound 64 t"
  by (induction ls) (auto simp: ToTimesStat_bound split: result.splits)

interpretation linux_times: times_source "TimesWithContext h (ticks n)" 64 for h n
proof unfold_locales
  show "TimesWithContext h (ticks n) percpu \<noteq> Panic" for percpu
    by (auto simp: TimesWithContext_def Let_def split: result.splits)
  show "TimesWithContext h (ticks n) percpu = Ok ts \<Longrightarrow> t \<in> set ts \<Longrightarrow> times_bound 64 t" for percpu ts t
    by (auto simp: TimesWithContext_def Let_def stat_rows_bound split: result.splits if_splits)
qed simp

text \<open>The states of \<^verbatim>\<open>lastCPUPercent\<close>: \<^verbatim>\<open>init\<close>, then calls on changing systems.\<close>

inductive percent_state :: "nat \<Rightarrow> last_percent \<Rightarrow> bool" for n where
  start: "percent_state n (init_lastPercent (TimesWithContext h (ticks n)))"
| call: "percent_state n st \<Longrightarrow>
    percent_state n (snd (percentUsedFromLastCall ''linux'' (TimesWithContext h (ticks n)) percpu st))"

lemma percent_state_bound: "percent_state n st \<Longrightarrow> samples_bound 64 st"
  by (induction rule: percent_state.induct) (simp_all add: linux_times.init_invariant linux_times.percent_invariant)

text \<open>C5: in every state the package can reach on Linux, \<^verbatim>\<open>Percent(0, percpu)\<close> never panics, and
  when it returns values there is one for each row of the sample it took and all of them are
  finite numbers between 0 and 100.\<close>

theorem percent_from_last_call:
  assumes "percent_state n st"
    and "fst (percentUsedFromLastCall ''linux'' (TimesWithContext h (ticks n)) percpu st) = r"
  shows "r \<noteq> Panic \<and> (\<forall>xs. r = Ok xs \<longrightarrow>
    (\<exists>ts. TimesWithContext h (ticks n) percpu = Ok ts \<and> length xs = length ts \<and> percentages xs))"
  using linux_times.percent_no_panic linux_times.percent_values [OF percent_state_bound [OF assms(1)]] assms(2)
  by blast

theorem percent_from_last_call_witness:
  "percent_state 99 (init_lastPercent (TimesWithContext no_files (ticks 99))) \<and>
   fst (percentUsedFromLastCall ''linux'' (TimesWithContext no_files (ticks 99)) True
     (init_lastPercent (TimesWithContext no_files (ticks 99)))) \<noteq> Panic"
  using percent_from_last_call [OF percent_state.start [of 99 no_files] refl, of no_files True]
    percent_state.start [of 99 no_files] by blast

text \<open>For any two samples of raw counters, even when counters went backwards or wrapped,
  the busy percentage between them is a finite number between 0 and 100.\<close>

theorem calculateBusy_counters:
  "\<exists>r. calculateBusy goos (ToTimesStat (ticks n) s1) (ToTimesStat (ticks n) s2) = Fin r \<and> 0 \<le> r \<and> r \<le> 100"
  by (rule calculateBusy_in_range [OF ToTimesStat_bound ToTimesStat_bound]) simp

section \<open>Counting cores\<close>

lemma siblings_of_set:
  "set (siblings_of h fs acc) = set acc \<union> {l. \<exists>f \<in> set fs. ReadLines h f = Ok [l]}"
proof (induction h fs acc rule: siblings_of.induct)
  case (2 h f fs acc)
  show ?case
  proof (cases "\<exists>l. ReadLines h f = Ok [l]")
    case True
    then show ?thesis using 2 by auto
  next
    case False
    then have "siblings_of h (f # fs) acc = siblings_of h fs acc"
      by (auto split: result.splits list.splits)
    with False show ?thesis using 2 by (auto split: result.splits list.splits)
  qed
qed simp

lemma siblings_of_distinct: "distinct acc \<Longrightarrow> distinct (siblings_of h fs acc)"
  by (induction h fs acc rule: siblings_of.induct) (auto split: result.splits list.splits)

text \<open>When the kernel publishes \<^verbatim>\<open>core_cpus_list\<close> files, the number of physical cores is the
  number of different sibling lists among the readable one-line files.\<close>

theorem countsPhysical_siblings:
  assumes "h_glob h (HostSysWithContext h [''devices/system/cpu/cpu[0-9]*/topology/core_cpus_list'']) = Inr files"
    and "f \<in> set files" and "ReadLines h f = Ok [l]"
  shows "CountsWithContext h False = Ok (int (card {l. \<exists>f \<in> set files. ReadLines h f = Ok [l]}))"
proof -
  let ?s = "siblings_of h files []"
  have s: "set ?s = {l. \<exists>f \<in> set files. ReadLines h f = Ok [l]}" using siblings_of_set [of h files "[]"] by simp
  then have "?s \<noteq> []" using assms(2,3) by auto
  moreover have "length ?s = card (set ?s)"
    using siblings_of_distinct [of "[]" h files] by (simp add: distinct_card)
  ultimately show ?thesis using assms(1) s by (simp add: CountsWithContext_def countsPhysical_def Let_def)
qed

definition siblings_host :: host where
  "siblings_host = (with_files [(''/a'', ''0,4''), (''/b'', ''1,5''), (''/c'', ''0,4'')])
     \<lparr>h_glob := (\<lambda>_. Inr [''/a'', ''/b'', ''/c''])\<rparr>"

theorem countsPhysical_siblings_witness:
  "CountsWithContext siblings_host False =
     Ok (int (card {l. \<exists>f \<in> set [''/a'', ''/b'', ''/c'']. ReadLines siblings_host f = Ok [l]})) \<and>
   ReadLines siblings_host ''/a'' = Ok [''0,4'']"
proof -
  have "h_glob siblings_host p = Inr [''/a'', ''/b'', ''/c'']" for p
    by (simp add: siblings_host_def)
  moreover have "ReadLines siblings_host ''/a'' = Ok [''0,4'']" by code_simp
  ultimately show ?thesis
    using countsPhysical_siblings [of siblings_host "[''/a'', ''/b'', ''/c'']" "''/a''" "''0,4''"] by simp
qed

text \<open>An entry without a \<^verbatim>\<open>core id\<close> whose \<^verbatim>\<open>topology/core_id\<close> file exists but is empty makes
  \<^verbatim>\<open>finishCPUInfo\<close> index an empty slice and panic.\<close>

theorem finishCPUInfo_empty_core_id:
  assumes "i_CoreID c = []" and "h_open h (sysCPUPath h (i_CPU c) ''topology/core_id'') = Inr ([], None)"
  shows "finishCPUInfo h c = Panic"
  using assms ReadLines_lines [of h _ "[]" "[]"]
  by (simp add: finishCPUInfo_def finish_core_id_def)

theorem finishCPUInfo_empty_core_id_witness:
  "finishCPUInfo (with_files [(''/sys/devices/system/cpu/cpu0/topology/core_id'', [])]) (empty_info 0 1 []) = Panic"
proof -
  let ?h = "with_files [(''/sys/devices/system/cpu/cpu0/topology/core_id'', [])]"
  have "sysCPUPath ?h 0 ''topology/core_id'' = ''/sys/devices/system/cpu/cpu0/topology/core_id''"
    by code_simp
  then show ?thesis
    using finishCPUInfo_empty_core_id [of "empty_info 0 1 []" ?h]
    by (simp add: empty_info_def with_files_def)
qed

end
