(* ===== verification/Mem_Linux.thy ===== *)
theory Mem_Linux
  imports Common
begin

text \<open>
  Package \<^verbatim>\<open>mem\<close> on Linux (\<^verbatim>\<open>mem.go\<close>, \<^verbatim>\<open>mem_linux.go\<close>, \<^verbatim>\<open>ex_linux.go\<close>): virtual memory from
  \<^verbatim>\<open>/proc/meminfo\<close> with the fallback of old kernels, swap totals and paging counters, and the
  swap devices. The switch over the keys of \<^verbatim>\<open>/proc/meminfo\<close> is a table from keys to assignments.
\<close>

section \<open>Data\<close>

record virtual_memory_stat =
  v_Total :: u64
  v_Available :: u64
  v_Used :: u64
  v_UsedPercent :: float64
  v_Free :: u64
  v_Active :: u64
  v_Inactive :: u64
  v_Wired :: u64
  v_Laundry :: u64
  v_Buffers :: u64
  v_Cached :: u64
  v_WriteBack :: u64
  v_Dirty :: u64
  v_WriteBackTmp :: u64
  v_Shared :: u64
  v_Slab :: u64
  v_Sreclaimable :: u64
  v_Sunreclaim :: u64
  v_PageTables :: u64
  v_SwapCached :: u64
  v_CommitLimit :: u64
  v_CommittedAS :: u64
  v_HighTotal :: u64
  v_HighFree :: u64
  v_LowTotal :: u64
  v_LowFree :: u64
  v_SwapTotal :: u64
  v_SwapFree :: u64
  v_Mapped :: u64
  v_VmallocTotal :: u64
  v_VmallocUsed :: u64
  v_VmallocChunk :: u64
  v_HugePagesTotal :: u64
  v_HugePagesFree :: u64
  v_HugePagesRsvd :: u64
  v_HugePagesSurp :: u64
  v_HugePageSize :: u64
  v_AnonHugePages :: u64

record ex_virtual_memory =
  e_ActiveFile :: u64
  e_InactiveFile :: u64
  e_ActiveAnon :: u64
  e_InactiveAnon :: u64
  e_Unevictable :: u64
  e_Percpu :: u64
  e_KernelStack :: u64

record swap_memory_stat =
  sw_Total :: u64
  sw_Used :: u64
  sw_Free :: u64
  sw_UsedPercent :: float64
  sw_Sin :: u64
  sw_Sout :: u64
  sw_PgIn :: u64
  sw_PgOut :: u64
  sw_PgFault :: u64
  sw_PgMajFault :: u64

record swap_device =
  sd_Name :: string
  sd_UsedBytes :: u64
  sd_FreeBytes :: u64

definition empty_vm :: virtual_memory_stat where
  "empty_vm =
     \<lparr>v_Total = 0, v_Available = 0, v_Used = 0, v_UsedPercent = 0, v_Free = 0,
      v_Active = 0, v_Inactive = 0, v_Wired = 0, v_Laundry = 0, v_Buffers = 0,
      v_Cached = 0, v_WriteBack = 0, v_Dirty = 0, v_WriteBackTmp = 0, v_Shared = 0,
      v_Slab = 0, v_Sreclaimable = 0, v_Sunreclaim = 0, v_PageTables = 0, v_SwapCached = 0,
      v_CommitLimit = 0, v_CommittedAS = 0, v_HighTotal = 0, v_HighFree = 0, v_LowTotal = 0,
      v_LowFree = 0, v_SwapTotal = 0, v_SwapFree = 0, v_Mapped = 0, v_VmallocTotal = 0,
      v_VmallocUsed = 0, v_VmallocChunk = 0, v_HugePagesTotal = 0, v_HugePagesFree = 0, v_HugePagesRsvd = 0,
      v_HugePagesSurp = 0, v_HugePageSize = 0, v_AnonHugePages = 0\<rparr>"

definition empty_ex_vm :: ex_virtual_memory where
  "empty_ex_vm =
     \<lparr>e_ActiveFile = 0, e_InactiveFile = 0, e_ActiveAnon = 0, e_InactiveAnon = 0, e_Unevictable = 0, e_Percpu = 0, e_KernelStack = 0\<rparr>"

text \<open>The variables of the loop: the two results and the four flags.\<close>

record meminfo =
  m_vm :: virtual_memory_stat
  m_ex :: ex_virtual_memory
  m_memavail :: bool
  m_activeFile :: bool
  m_inactiveFile :: bool
  m_sReclaimable :: bool

abbreviation upd_vm :: "(virtual_memory_stat \<Rightarrow> virtual_memory_stat) \<Rightarrow> meminfo \<Rightarrow> meminfo" where
  "upd_vm f s \<equiv> s\<lparr>m_vm := f (m_vm s)\<rparr>"

abbreviation upd_ex :: "(ex_virtual_memory \<Rightarrow> ex_virtual_memory) \<Rightarrow> meminfo \<Rightarrow> meminfo" where
  "upd_ex f s \<equiv> s\<lparr>m_ex := f (m_ex s)\<rparr>"

definition empty_meminfo :: meminfo where
  "empty_meminfo = \<lparr>m_vm = empty_vm, m_ex = empty_ex_vm, m_memavail = False, m_activeFile = False,
     m_inactiveFile = False, m_sReclaimable = False\<rparr>"

section \<open>Virtual memory\<close>

text \<open>The cases of the switch, in the order of the source. A later definition of a key is never
  reached; the keys are distinct.\<close>

definition meminfo_fields_1 :: "(string \<times> (u64 \<Rightarrow> meminfo \<Rightarrow> meminfo)) list" where
  "meminfo_fields_1 =
     [(''MemTotal'', \<lambda>t. upd_vm (v_Total_update (\<lambda>_. t * 1024))),
      (''MemFree'', \<lambda>t. upd_vm (v_Free_update (\<lambda>_. t * 1024))),
      (''MemAvailable'', \<lambda>t s. upd_vm (v_Available_update (\<lambda>_. t * 1024)) (s\<lparr>m_memavail := True\<rparr>)),
      (''Buffers'', \<lambda>t. upd_vm (v_Buffers_update (\<lambda>_. t * 1024))),
      (''Cached'', \<lambda>t. upd_vm (v_Cached_update (\<lambda>_. t * 1024))),
      (''Active'', \<lambda>t. upd_vm (v_Active_update (\<lambda>_. t * 1024))),
      (''Inactive'', \<lambda>t. upd_vm (v_Inactive_update (\<lambda>_. t * 1024))),
      (''Active(anon)'', \<lambda>t. upd_ex (e_ActiveAnon_update (\<lambda>_. t * 1024))),
      (''Inactive(anon)'', \<lambda>t. upd_ex (e_InactiveAnon_update (\<lambda>_. t * 1024))),
      (''Active(file)'', \<lambda>t s. upd_ex (e_ActiveFile_update (\<lambda>_. t * 1024)) (s\<lparr>m_activeFile := True\<rparr>)),
      (''Inactive(file)'', \<lambda>t s. upd_ex (e_InactiveFile_update (\<lambda>_. t * 1024)) (s\<lparr>m_inactiveFile := True\<rparr>)),
      (''Unevictable'', \<lambda>t. upd_ex (e_Unevictable_update (\<lambda>_. t * 1024))),
      (''Percpu'', \<lambda>t. upd_ex (e_Percpu_update (\<lambda>_. t * 1024))),
      (''Writeback'', \<lambda>t. upd_vm (v_WriteBack_update (\<lambda>_. t * 1024))),
      (''WritebackTmp'', \<lambda>t. upd_vm (v_WriteBackTmp_update (\<lambda>_. t * 1024))),
      (''Dirty'', \<lambda>t. upd_vm (v_Dirty_update (\<lambda>_. t * 1024))),
      (''Shmem'', \<lambda>t. upd_vm (v_Shared_update (\<lambda>_. t * 1024))),
      (''Slab'', \<lambda>t. upd_vm (v_Slab_update (\<lambda>_. t * 1024))),
      (''SReclaimable'', \<lambda>t s. upd_vm (v_Sreclaimable_update (\<lambda>_. t * 1024)) (s\<lparr>m_sReclaimable := True\<rparr>)),
      (''SUnreclaim'', \<lambda>t. upd_vm (v_Sunreclaim_update (\<lambda>_. t * 1024))),
      (''KernelStack'', \<lambda>t. upd_ex (e_KernelStack_update (\<lambda>_. t * 1024)))]"

definition meminfo_fields_2 :: "(string \<times> (u64 \<Rightarrow> meminfo \<Rightarrow> meminfo)) list" where
  "meminfo_fields_2 =
     [(''PageTables'', \<lambda>t. upd_vm (v_PageTables_update (\<lambda>_. t * 1024))),
      (''SwapCached'', \<lambda>t. upd_vm (v_SwapCached_update (\<lambda>_. t * 1024))),
      (''CommitLimit'', \<lambda>t. upd_vm (v_CommitLimit_update (\<lambda>_. t * 1024))),
      (''Committed_AS'', \<lambda>t. upd_vm (v_CommittedAS_update (\<lambda>_. t * 1024))),
      (''HighTotal'', \<lambda>t. upd_vm (v_HighTotal_update (\<lambda>_. t * 1024))),
      (''HighFree'', \<lambda>t. upd_vm (v_HighFree_update (\<lambda>_. t * 1024))),
      (''LowTotal'', \<lambda>t. upd_vm (v_LowTotal_update (\<lambda>_. t * 1024))),
      (''LowFree'', \<lambda>t. upd_vm (v_LowFree_update (\<lambda>_. t * 1024))),
      (''SwapTotal'', \<lambda>t. upd_vm (v_SwapTotal_update (\<lambda>_. t * 1024))),
      (''SwapFree'', \<lambda>t. upd_vm (v_SwapFree_update (\<lambda>_. t * 1024))),
      (''Mapped'', \<lambda>t. upd_vm (v_Mapped_update (\<lambda>_. t * 1024))),
      (''VmallocTotal'', \<lambda>t. upd_vm (v_VmallocTotal_update (\<lambda>_. t * 1024))),
      (''VmallocUsed'', \<lambda>t. upd_vm (v_VmallocUsed_update (\<lambda>_. t * 1024))),
      (''VmallocChunk'', \<lambda>t. upd_vm (v_VmallocChunk_update (\<lambda>_. t * 1024))),
      (''HugePages_Total'', \<lambda>t. upd_vm (v_HugePagesTotal_update (\<lambda>_. t))),
      (''HugePages_Free'', \<lambda>t. upd_vm (v_HugePagesFree_update (\<lambda>_. t))),
      (''HugePages_Rsvd'', \<lambda>t. upd_vm (v_HugePagesRsvd_update (\<lambda>_. t))),
      (''HugePages_Surp'', \<lambda>t. upd_vm (v_HugePagesSurp_update (\<lambda>_. t))),
      (''Hugepagesize'', \<lambda>t. upd_vm (v_HugePageSize_update (\<lambda>_. t * 1024))),
      (''AnonHugePages'', \<lambda>t. upd_vm (v_AnonHugePages_update (\<lambda>_. t * 1024)))]"

definition meminfo_fields :: "(string \<times> (u64 \<Rightarrow> meminfo \<Rightarrow> meminfo)) list" where
  "meminfo_fields = meminfo_fields_1 @ meminfo_fields_2"

text \<open>The key and the value of a line; a line that does not have exactly one colon has none.\<close>

definition meminfo_kv :: "string \<Rightarrow> (string \<times> string) option" where
  "meminfo_kv line = (case split_char CHR '':'' line of
     [k, v] \<Rightarrow> Some (trim_space k, replace_all '' kB'' [] (trim_space v)) | _ \<Rightarrow> None)"

definition meminfo_step :: "string \<Rightarrow> meminfo \<Rightarrow> meminfo result" where
  "meminfo_step line s = (case meminfo_kv line of None \<Rightarrow> Ok s
     | Some (key, value) \<Rightarrow> (case map_of meminfo_fields key of None \<Rightarrow> Ok s
         | Some assign \<Rightarrow> rbind (parse_u64 value) (\<lambda>t. Ok (assign t s))))"

text \<open>The fallback before kernel 3.14. The loop over \<^verbatim>\<open>/proc/zoneinfo\<close> indexes the fields of every
  line.\<close>

definition zone_low :: "string \<Rightarrow> u64 \<Rightarrow> u64 result" where
  "zone_low line watermarkLow =
     (let fs = str_fields line in
      rbind (idx fs 0) (\<lambda>f0. if has_prefix f0 ''low''
        then rbind (idx fs 1) (\<lambda>f1. Ok (watermarkLow + (case parse_u64 f1 of Ok v \<Rightarrow> v | _ \<Rightarrow> 0)))
        else Ok watermarkLow))"

text \<open>The last test of the source, \<^verbatim>\<open>availMemory < 0\<close>, compares an unsigned number.\<close>

definition availVmem :: "host \<Rightarrow> u64 \<Rightarrow> virtual_memory_stat \<Rightarrow> ex_virtual_memory \<Rightarrow> u64" where
  "availVmem h watermarkLow ret retEx =
     (let cache = e_ActiveFile retEx + e_InactiveFile retEx;
          pageCache = cache - f_to_u64 (h_fcvt h) (f_min (f_of_u64 (cache div 2)) (f_of_u64 watermarkLow));
          avail = v_Free ret - watermarkLow + pageCache + (v_Sreclaimable ret -
            f_to_u64 (h_fcvt h) (f_min (f_of_u64 (v_Sreclaimable ret div 2)) (f_of_u64 watermarkLow)))
      in if avail < 0 then 0 else avail)"

definition calculateAvailVmem :: "host \<Rightarrow> virtual_memory_stat \<Rightarrow> ex_virtual_memory \<Rightarrow> u64 result" where
  "calculateAvailVmem h ret retEx =
     (case ReadLines h (HostProcWithContext h [''zoneinfo'']) of
        Err _ \<Rightarrow> Ok (v_Free ret + v_Cached ret)
      | Panic \<Rightarrow> Panic
      | Ok lines \<Rightarrow> rbind (rfold zone_low lines 0) (\<lambda>low.
          Ok (availVmem h (low * word_of_nat (h_pagesize h)) ret retEx)))"

text \<open>After the loop: the reclaimable slab joins the page cache, then the available, used and
  percentage fields. Both callers drop the partial values that the source returns with an error.\<close>

definition meminfo_finish :: "host \<Rightarrow> meminfo \<Rightarrow> (virtual_memory_stat \<times> ex_virtual_memory) result" where
  "meminfo_finish h s =
     (let ret = m_vm s; retEx = m_ex s; ret = ret\<lparr>v_Cached := v_Cached ret + v_Sreclaimable ret\<rparr> in
      rbind (if m_memavail s then Ok (v_Available ret)
             else if m_activeFile s \<and> m_inactiveFile s \<and> m_sReclaimable s
             then calculateAvailVmem h ret retEx
             else Ok (v_Cached ret + v_Free ret))
        (\<lambda>avail. let used = v_Total ret - avail in
           Ok (ret\<lparr>v_Available := avail, v_Used := used,
             v_UsedPercent := f_of_u64 used / f_of_u64 (v_Total ret) * Fin 100\<rparr>, retEx)))"

definition fillFromMeminfoWithContext :: "host \<Rightarrow> (virtual_memory_stat \<times> ex_virtual_memory) result" where
  "fillFromMeminfoWithContext h =
     (let filename = HostProcWithContext h [''meminfo''] in
      case ReadLines h filename of
        Err e \<Rightarrow> Err (ErrWrap (''couldn't read '' @ filename) e)
      | Panic \<Rightarrow> Panic
      | Ok lines \<Rightarrow> rbind (rfold meminfo_step lines empty_meminfo) (meminfo_finish h))"

definition VirtualMemoryWithContext :: "host \<Rightarrow> virtual_memory_stat result" where
  "VirtualMemoryWithContext h = rbind (fillFromMeminfoWithContext h) (\<lambda>(vm, _). Ok vm)"

definition ExLinux_VirtualMemoryWithContext :: "host \<Rightarrow> ex_virtual_memory result" where
  "ExLinux_VirtualMemoryWithContext h = rbind (fillFromMeminfoWithContext h) (\<lambda>(_, vmEx). Ok vmEx)"

section \<open>Swap\<close>

text \<open>The counters of \<^verbatim>\<open>/proc/vmstat\<close> in pages; a value that does not parse is skipped.\<close>

definition vmstat_fields :: "(string \<times> (u64 \<Rightarrow> swap_memory_stat \<Rightarrow> swap_memory_stat)) list" where
  "vmstat_fields =
     [(''pswpin'', \<lambda>v. sw_Sin_update (\<lambda>_. v * 4 * 1024)),
      (''pswpout'', \<lambda>v. sw_Sout_update (\<lambda>_. v * 4 * 1024)),
      (''pgpgin'', \<lambda>v. sw_PgIn_update (\<lambda>_. v * 4 * 1024)),
      (''pgpgout'', \<lambda>v. sw_PgOut_update (\<lambda>_. v * 4 * 1024)),
      (''pgfault'', \<lambda>v. sw_PgFault_update (\<lambda>_. v * 4 * 1024)),
      (''pgmajfault'', \<lambda>v. sw_PgMajFault_update (\<lambda>_. v * 4 * 1024))]"

definition vmstat_step :: "string \<Rightarrow> swap_memory_stat \<Rightarrow> swap_memory_stat" where
  "vmstat_step l ret = (case str_fields l of
     f0 # f1 # _ \<Rightarrow> (case map_of vmstat_fields f0 of None \<Rightarrow> ret
       | Some assign \<Rightarrow> (case parse_u64 f1 of Ok value \<Rightarrow> assign value ret | _ \<Rightarrow> ret))
   | _ \<Rightarrow> ret)"

definition swap_of_sysinfo :: "sysinfo \<Rightarrow> swap_memory_stat" where
  "swap_of_sysinfo si =
     (let total = si_totalswap si * ucast (si_unit si); free = si_freeswap si * ucast (si_unit si) in
      \<lparr>sw_Total = total, sw_Used = total - free, sw_Free = free,
       sw_UsedPercent = (if total \<noteq> 0 then f_of_u64 (total - free) / f_of_u64 total * Fin 100 else 0),
       sw_Sin = 0, sw_Sout = 0, sw_PgIn = 0, sw_PgOut = 0, sw_PgFault = 0, sw_PgMajFault = 0\<rparr>)"

definition SwapMemoryWithContext :: "host \<Rightarrow> swap_memory_stat result" where
  "SwapMemoryWithContext h = rbind (of_sum (h_sysinfo h)) (\<lambda>si.
     let filename = HostProcWithContext h [''vmstat''] in
     case ReadLines h filename of
       Err e \<Rightarrow> Err (ErrWrap (''couldn't read '' @ filename) e)
     | Panic \<Rightarrow> Panic
     | Ok lines \<Rightarrow> Ok (fold vmstat_step lines (swap_of_sysinfo si)))"

section \<open>Swap devices\<close>

text \<open>One row: name, type, size, used, priority. The columns are those of the constants
  \<^verbatim>\<open>nameCol\<close>, \<^verbatim>\<open>totalCol\<close> and \<^verbatim>\<open>usedCol\<close>.\<close>

definition nameCol :: nat where "nameCol = 0"
definition totalCol :: nat where "totalCol = 2"
definition usedCol :: nat where "usedCol = 3"

definition swaps_error :: "string \<Rightarrow> string \<Rightarrow> gerr" where
  "swaps_error path what = ErrMsg (''couldn't parse '' @ quote path @ '': '' @ what)"

definition swaps_column :: "string \<Rightarrow> string \<Rightarrow> string \<Rightarrow> gerr" where
  "swaps_column path found wanted = swaps_error path (''expected '' @ quote found @ '' to be '' @ quote wanted)"

definition swaps_header :: "string \<Rightarrow> string \<Rightarrow> unit result" where
  "swaps_header path line =
     (let hf = str_fields line in
      if length hf \<le> usedCol then Err (swaps_error path ''too few fields in header'')
      else if hf ! nameCol \<noteq> ''Filename'' then Err (swaps_column path (hf ! nameCol) ''Filename'')
      else if hf ! totalCol \<noteq> ''Size'' then Err (swaps_column path (hf ! totalCol) ''Size'')
      else if hf ! usedCol \<noteq> ''Used'' then Err (swaps_column path (hf ! usedCol) ''Used'')
      else Ok ())"

definition swaps_row :: "string \<Rightarrow> string \<Rightarrow> swap_device list \<Rightarrow> swap_device list result" where
  "swaps_row path line acc =
     (let fs = str_fields line in
      if length fs \<le> usedCol then Err (swaps_error path ''too few fields'')
      else case parse_u64 (fs ! totalCol) of
        Err e \<Rightarrow> Err (ErrWrap (''couldn't parse 'Size' column in '' @ quote path) e)
      | Panic \<Rightarrow> Panic
      | Ok totalKiB \<Rightarrow> (case parse_u64 (fs ! usedCol) of
          Err e \<Rightarrow> Err (ErrWrap (''couldn't parse 'Used' column in '' @ quote path) e)
        | Panic \<Rightarrow> Panic
        | Ok usedKiB \<Rightarrow> Ok (acc @ [\<lparr>sd_Name = fs ! nameCol, sd_UsedBytes = usedKiB * 1024,
            sd_FreeBytes = (totalKiB - usedKiB) * 1024\<rparr>])))"

definition parseSwapsFile :: "host \<Rightarrow> stream \<Rightarrow> swap_device list result" where
  "parseSwapsFile h r =
     (let path = HostProcWithContext h [''swaps''] in
      case scan_lines (snd r) (fst r) of
        ([], None) \<Rightarrow> Err (ErrMsg (''unexpected end-of-file in '' @ quote path))
      | ([], Some e) \<Rightarrow> Err (ErrWrap (''couldn't read file '' @ quote path) e)
      | (header # rows, err) \<Rightarrow>
          rbind (swaps_header path header) (\<lambda>_.
          rbind (rfold (swaps_row path) rows []) (\<lambda>devices.
            case err of None \<Rightarrow> Ok devices
            | Some e \<Rightarrow> Err (ErrWrap (''couldn't read file '' @ quote path) e))))"

definition SwapDevicesWithContext :: "host \<Rightarrow> swap_device list result" where
  "SwapDevicesWithContext h =
     rbind (of_sum (h_open h (HostProcWithContext h [''swaps'']))) (parseSwapsFile h)"

section \<open>The loop over the lines of meminfo\<close>

text \<open>Which field of the result each key is about.\<close>

definition meminfo_view :: "(string \<times> (meminfo \<Rightarrow> u64)) list" where
  "meminfo_view =
     [(''MemTotal'', v_Total \<circ> m_vm), (''MemFree'', v_Free \<circ> m_vm),
      (''MemAvailable'', v_Available \<circ> m_vm), (''Buffers'', v_Buffers \<circ> m_vm),
      (''Cached'', v_Cached \<circ> m_vm), (''Active'', v_Active \<circ> m_vm),
      (''Inactive'', v_Inactive \<circ> m_vm), (''Active(anon)'', e_ActiveAnon \<circ> m_ex),
      (''Inactive(anon)'', e_InactiveAnon \<circ> m_ex), (''Active(file)'', e_ActiveFile \<circ> m_ex),
      (''Inactive(file)'', e_InactiveFile \<circ> m_ex), (''Unevictable'', e_Unevictable \<circ> m_ex),
      (''Percpu'', e_Percpu \<circ> m_ex), (''Writeback'', v_WriteBack \<circ> m_vm),
      (''WritebackTmp'', v_WriteBackTmp \<circ> m_vm), (''Dirty'', v_Dirty \<circ> m_vm),
      (''Shmem'', v_Shared \<circ> m_vm), (''Slab'', v_Slab \<circ> m_vm),
      (''SReclaimable'', v_Sreclaimable \<circ> m_vm), (''SUnreclaim'', v_Sunreclaim \<circ> m_vm),
      (''KernelStack'', e_KernelStack \<circ> m_ex), (''PageTables'', v_PageTables \<circ> m_vm),
      (''SwapCached'', v_SwapCached \<circ> m_vm), (''CommitLimit'', v_CommitLimit \<circ> m_vm),
      (''Committed_AS'', v_CommittedAS \<circ> m_vm), (''HighTotal'', v_HighTotal \<circ> m_vm),
      (''HighFree'', v_HighFree \<circ> m_vm), (''LowTotal'', v_LowTotal \<circ> m_vm),
      (''LowFree'', v_LowFree \<circ> m_vm), (''SwapTotal'', v_SwapTotal \<circ> m_vm),
      (''SwapFree'', v_SwapFree \<circ> m_vm), (''Mapped'', v_Mapped \<circ> m_vm),
      (''VmallocTotal'', v_VmallocTotal \<circ> m_vm), (''VmallocUsed'', v_VmallocUsed \<circ> m_vm),
      (''VmallocChunk'', v_VmallocChunk \<circ> m_vm), (''HugePages_Total'', v_HugePagesTotal \<circ> m_vm),
      (''HugePages_Free'', v_HugePagesFree \<circ> m_vm), (''HugePages_Rsvd'', v_HugePagesRsvd \<circ> m_vm),
      (''HugePages_Surp'', v_HugePagesSurp \<circ> m_vm), (''Hugepagesize'', v_HugePageSize \<circ> m_vm),
      (''AnonHugePages'', v_AnonHugePages \<circ> m_vm)]"

definition meminfo_get :: "string \<Rightarrow> meminfo \<Rightarrow> u64" where
  "meminfo_get k s = (case map_of meminfo_view k of None \<Rightarrow> 0 | Some sel \<Rightarrow> sel s)"

text \<open>Huge pages are counted in pages, everything else in kibibytes.\<close>

definition meminfo_unit :: "string \<Rightarrow> u64" where
  "meminfo_unit k = (if has_prefix k ''HugePages_'' then 1 else 1024)"

definition meminfo_contrib :: "string \<Rightarrow> string \<Rightarrow> u64 option" where
  "meminfo_contrib k line = (case meminfo_kv line of None \<Rightarrow> None
     | Some (key, value) \<Rightarrow> (if key = k \<and> map_of meminfo_view k \<noteq> None
         then (case parse_u64 value of Ok t \<Rightarrow> Some (t * meminfo_unit k) | _ \<Rightarrow> None) else None))"

lemma meminfo_tables:
  "list_all (\<lambda>(k', assign). list_all (\<lambda>(k, sel).
     sel (assign t s) = (if k = k' then t * meminfo_unit k' else sel s)) meminfo_view) meminfo_fields"
  by (simp add: meminfo_fields_def meminfo_fields_1_def meminfo_fields_2_def meminfo_view_def
      meminfo_unit_def has_prefix_def)

lemma meminfo_keys: "map fst meminfo_view = map fst meminfo_fields"
  by (simp add: meminfo_fields_def meminfo_fields_1_def meminfo_fields_2_def meminfo_view_def)

lemma meminfo_view_fields: "map_of meminfo_view k = None \<longleftrightarrow> map_of meminfo_fields k = None"
  using meminfo_keys by (simp add: map_of_eq_None_iff flip: set_map)

lemma meminfo_assign:
  assumes "map_of meminfo_fields k' = Some assign"
  shows "meminfo_get k (assign t s) = (if k = k' then t * meminfo_unit k else meminfo_get k s)"
proof (cases "map_of meminfo_view k")
  case None
  then have "k \<noteq> k'" using assms meminfo_view_fields [of k] by auto
  with None show ?thesis by (simp add: meminfo_get_def)
next
  case (Some sel)
  have "sel (assign t s) = (if k = k' then t * meminfo_unit k' else sel s)"
    by (rule list_all_tables [OF meminfo_tables assms Some])
  with Some show ?thesis by (simp add: meminfo_get_def)
qed

interpretation meminfo_field: field_rfold meminfo_step "meminfo_get k" "meminfo_contrib k" for k
proof unfold_locales
  fix l s t
  assume "meminfo_step l s = Ok t"
  then show "meminfo_get k t = (case meminfo_contrib k l of None \<Rightarrow> meminfo_get k s | Some v \<Rightarrow> v)"
    by (auto simp: meminfo_step_def meminfo_contrib_def outcome_iff meminfo_assign meminfo_view_fields
        split: option.splits)
qed

text \<open>The four flags say whether a key was seen.\<close>

definition meminfo_flags :: "(string \<times> (meminfo \<Rightarrow> bool)) list" where
  "meminfo_flags = [(''MemAvailable'', m_memavail), (''Active(file)'', m_activeFile),
     (''Inactive(file)'', m_inactiveFile), (''SReclaimable'', m_sReclaimable)]"

lemma meminfo_flag_tables:
  "list_all (\<lambda>(k', assign). list_all (\<lambda>(k, flag).
     flag (assign t s) = (k = k' \<or> flag s)) meminfo_flags) meminfo_fields"
  by (simp add: meminfo_fields_def meminfo_fields_1_def meminfo_fields_2_def meminfo_flags_def)

definition meminfo_flag :: "string \<Rightarrow> meminfo \<Rightarrow> bool" where
  "meminfo_flag k s = (case map_of meminfo_flags k of None \<Rightarrow> False | Some flag \<Rightarrow> flag s)"

definition meminfo_seen :: "string \<Rightarrow> string \<Rightarrow> bool option" where
  "meminfo_seen k line = (if map_of meminfo_flags k = None then None
     else map_option (\<lambda>_. True) (meminfo_contrib k line))"

lemma meminfo_flag_assign:
  assumes "map_of meminfo_fields k' = Some assign" and "map_of meminfo_flags k \<noteq> None"
  shows "meminfo_flag k (assign t s) = (k = k' \<or> meminfo_flag k s)"
proof -
  obtain flag where f: "map_of meminfo_flags k = Some flag" using assms(2) by blast
  have "flag (assign t s) = (k = k' \<or> flag s)"
    by (rule list_all_tables [OF meminfo_flag_tables assms(1) f])
  with f show ?thesis by (simp add: meminfo_flag_def)
qed

interpretation meminfo_flag: field_rfold meminfo_step "meminfo_flag k" "meminfo_seen k" for k
proof unfold_locales
  fix l s t
  assume "meminfo_step l s = Ok t"
  moreover have "map_of meminfo_flags k = None \<Longrightarrow> meminfo_flag k u = False" for u
    by (simp add: meminfo_flag_def)
  ultimately show "meminfo_flag k t = (case meminfo_seen k l of None \<Rightarrow> meminfo_flag k s | Some v \<Rightarrow> v)"
    by (auto simp: meminfo_step_def meminfo_seen_def meminfo_contrib_def outcome_iff meminfo_flag_assign
        meminfo_view_fields split: option.splits)
qed

text \<open>What a file says about a key: the value of its last line, in bytes, and 0 without a line.\<close>

definition meminfo_value :: "string list \<Rightarrow> string \<Rightarrow> u64" where
  "meminfo_value lines k = (case last_some (meminfo_contrib k) lines of None \<Rightarrow> 0 | Some v \<Rightarrow> v)"

definition meminfo_has :: "string list \<Rightarrow> string \<Rightarrow> bool" where
  "meminfo_has lines k = (last_some (meminfo_contrib k) lines \<noteq> None)"

lemma meminfo_loop_value:
  assumes "rfold meminfo_step lines empty_meminfo = Ok s"
  shows "meminfo_get k s = meminfo_value lines k"
proof -
  have "meminfo_get k empty_meminfo = 0"
  proof (cases "map_of meminfo_view k")
    case (Some sel)
    have "list_all (\<lambda>(k, sel). sel empty_meminfo = 0) meminfo_view"
      by (simp add: meminfo_view_def empty_meminfo_def empty_vm_def empty_ex_vm_def)
    from list_all_map_of [OF this Some] have "sel empty_meminfo = 0" .
    with Some show ?thesis by (simp add: meminfo_get_def)
  qed (simp add: meminfo_get_def)
  with meminfo_field.sel_rfold [OF assms, of k] show ?thesis
    by (simp add: meminfo_value_def cong: option.case_cong)
qed

lemma meminfo_loop_flag:
  assumes "rfold meminfo_step lines empty_meminfo = Ok s" and "map_of meminfo_flags k \<noteq> None"
  shows "meminfo_flag k s = meminfo_has lines k"
proof -
  have "meminfo_flag k empty_meminfo = False"
    by (simp add: meminfo_flag_def meminfo_flags_def empty_meminfo_def split: option.splits)
  moreover have "last_some (meminfo_seen k) lines = map_option (\<lambda>_. True) (last_some (meminfo_contrib k) lines)"
  proof -
    have "meminfo_seen k = (\<lambda>l. map_option (\<lambda>_. True) (meminfo_contrib k l))"
      using assms(2) by (auto simp: meminfo_seen_def)
    then show ?thesis by (simp add: last_some_map_option)
  qed
  ultimately show ?thesis
    using meminfo_flag.sel_rfold [OF assms(1), of k] by (auto simp: meminfo_has_def split: option.splits)
qed

lemma meminfo_loop_figures:
  assumes "rfold meminfo_step lines empty_meminfo = Ok s"
  shows "v_Total (m_vm s) = meminfo_value lines ''MemTotal''"
    "v_Available (m_vm s) = meminfo_value lines ''MemAvailable''"
    "v_Free (m_vm s) = meminfo_value lines ''MemFree''"
    "v_Active (m_vm s) = meminfo_value lines ''Active''"
    "v_Inactive (m_vm s) = meminfo_value lines ''Inactive''"
    "v_Buffers (m_vm s) = meminfo_value lines ''Buffers''"
    "v_Cached (m_vm s) = meminfo_value lines ''Cached''"
    "v_WriteBack (m_vm s) = meminfo_value lines ''Writeback''"
    "v_Dirty (m_vm s) = meminfo_value lines ''Dirty''"
    "v_WriteBackTmp (m_vm s) = meminfo_value lines ''WritebackTmp''"
    "v_Shared (m_vm s) = meminfo_value lines ''Shmem''"
    "v_Slab (m_vm s) = meminfo_value lines ''Slab''"
    "v_Sreclaimable (m_vm s) = meminfo_value lines ''SReclaimable''"
    "v_Sunreclaim (m_vm s) = meminfo_value lines ''SUnreclaim''"
    "v_PageTables (m_vm s) = meminfo_value lines ''PageTables''"
    "v_SwapCached (m_vm s) = meminfo_value lines ''SwapCached''"
    "v_CommitLimit (m_vm s) = meminfo_value lines ''CommitLimit''"
    "v_CommittedAS (m_vm s) = meminfo_value lines ''Committed_AS''"
    "v_HighTotal (m_vm s) = meminfo_value lines ''HighTotal''"
    "v_HighFree (m_vm s) = meminfo_value lines ''HighFree''"
    "v_LowTotal (m_vm s) = meminfo_value lines ''LowTotal''"
    "v_LowFree (m_vm s) = meminfo_value lines ''LowFree''"
    "v_SwapTotal (m_vm s) = meminfo_value lines ''SwapTotal''"
    "v_SwapFree (m_vm s) = meminfo_value lines ''SwapFree''"
    "v_Mapped (m_vm s) = meminfo_value lines ''Mapped''"
    "v_VmallocTotal (m_vm s) = meminfo_value lines ''VmallocTotal''"
    "v_VmallocUsed (m_vm s) = meminfo_value lines ''VmallocUsed''"
    "v_VmallocChunk (m_vm s) = meminfo_value lines ''VmallocChunk''"
    "v_HugePagesTotal (m_vm s) = meminfo_value lines ''HugePages_Total''"
    "v_HugePagesFree (m_vm s) = meminfo_value lines ''HugePages_Free''"
    "v_HugePagesRsvd (m_vm s) = meminfo_value lines ''HugePages_Rsvd''"
    "v_HugePagesSurp (m_vm s) = meminfo_value lines ''HugePages_Surp''"
    "v_HugePageSize (m_vm s) = meminfo_value lines ''Hugepagesize''"
    "v_AnonHugePages (m_vm s) = meminfo_value lines ''AnonHugePages''"
    "e_ActiveFile (m_ex s) = meminfo_value lines ''Active(file)''"
    "e_InactiveFile (m_ex s) = meminfo_value lines ''Inactive(file)''"
  by (simp_all flip: meminfo_loop_value [OF assms, unfolded meminfo_get_def meminfo_view_def])

text \<open>No line assigns the two figures that Linux does not report.\<close>

lemma meminfo_loop_unset:
  assumes "rfold meminfo_step lines empty_meminfo = Ok s"
  shows "v_Wired (m_vm s) = 0 \<and> v_Laundry (m_vm s) = 0"
proof (rule rfold_invariant [OF assms])
  show "v_Wired (m_vm empty_meminfo) = 0 \<and> v_Laundry (m_vm empty_meminfo) = 0" by (simp add: empty_meminfo_def empty_vm_def)
  have "list_all (\<lambda>(k, assign). \<forall>t s. v_Wired (m_vm (assign t s)) = v_Wired (m_vm s) \<and> v_Laundry (m_vm (assign t s)) = v_Laundry (m_vm s)) meminfo_fields"
    by (simp add: meminfo_fields_def meminfo_fields_1_def meminfo_fields_2_def)
  note keep = list_all_map_of [OF this]
  show "v_Wired (m_vm t) = 0 \<and> v_Laundry (m_vm t) = 0"
    if "v_Wired (m_vm s) = 0 \<and> v_Laundry (m_vm s) = 0" "meminfo_step l s = Ok t" for l s t
    using that by (auto simp: meminfo_step_def outcome_iff keep split: option.splits)
qed

text \<open>The figures of \<^verbatim>\<open>VirtualMemory\<close> from the value of each key and the available size.\<close>

definition memory_figures :: "(string \<Rightarrow> u64) \<Rightarrow> u64 \<Rightarrow> virtual_memory_stat" where
  "memory_figures M avail =
     \<lparr>v_Total = M ''MemTotal'', v_Available = avail, v_Used = M ''MemTotal'' - avail,
        v_UsedPercent = f_of_u64 (M ''MemTotal'' - avail) / f_of_u64 (M ''MemTotal'') * Fin 100, v_Free = M ''MemFree'',
        v_Active = M ''Active'', v_Inactive = M ''Inactive'', v_Wired = 0, v_Laundry = 0, v_Buffers = M ''Buffers'',
        v_Cached = M ''Cached'' + M ''SReclaimable'', v_WriteBack = M ''Writeback'', v_Dirty = M ''Dirty'',
        v_WriteBackTmp = M ''WritebackTmp'', v_Shared = M ''Shmem'', v_Slab = M ''Slab'',
        v_Sreclaimable = M ''SReclaimable'', v_Sunreclaim = M ''SUnreclaim'', v_PageTables = M ''PageTables'',
        v_SwapCached = M ''SwapCached'', v_CommitLimit = M ''CommitLimit'', v_CommittedAS = M ''Committed_AS'',
        v_HighTotal = M ''HighTotal'', v_HighFree = M ''HighFree'', v_LowTotal = M ''LowTotal'',
        v_LowFree = M ''LowFree'', v_SwapTotal = M ''SwapTotal'', v_SwapFree = M ''SwapFree'', v_Mapped = M ''Mapped'',
        v_VmallocTotal = M ''VmallocTotal'', v_VmallocUsed = M ''VmallocUsed'', v_VmallocChunk = M ''VmallocChunk'',
        v_HugePagesTotal = M ''HugePages_Total'', v_HugePagesFree = M ''HugePages_Free'',
        v_HugePagesRsvd = M ''HugePages_Rsvd'', v_HugePagesSurp = M ''HugePages_Surp'',
        v_HugePageSize = M ''Hugepagesize'', v_AnonHugePages = M ''AnonHugePages''\<rparr>"

text \<open>C32: when \<^verbatim>\<open>VirtualMemory\<close> succeeds, all its figures are determined by the last lines of the keys of
  \<^verbatim>\<open>/proc/meminfo\<close>: each is the value of its key, the cache is the page cache plus the reclaimable slab, the used size is the total
  less the available size and the percentage is taken of the total; the two figures of other systems are 0. The available size
  is the kernel's \<^verbatim>\<open>MemAvailable\<close> when there is one, the estimate from the zone watermarks when the file LRU and slab lines are all
  there, and cache plus free otherwise.\<close>

theorem VirtualMemory_values:
  assumes "ReadLines h (HostProcWithContext h [''meminfo'']) = Ok lines"
    and "VirtualMemoryWithContext h = Ok vm"
  shows "vm = memory_figures (meminfo_value lines) (v_Available vm) \<and>
    Ok (v_Available vm) =
      (if meminfo_has lines ''MemAvailable'' then Ok (meminfo_value lines ''MemAvailable'')
       else if meminfo_has lines ''Active(file)'' \<and> meminfo_has lines ''Inactive(file)'' \<and>
         meminfo_has lines ''SReclaimable''
       then calculateAvailVmem h
         (empty_vm\<lparr>v_Free := v_Free vm, v_Cached := v_Cached vm, v_Sreclaimable := meminfo_value lines ''SReclaimable''\<rparr>)
         (empty_ex_vm\<lparr>e_ActiveFile := meminfo_value lines ''Active(file)'',
            e_InactiveFile := meminfo_value lines ''Inactive(file)''\<rparr>)
       else Ok (v_Cached vm + v_Free vm))"
proof -
  from assms obtain s where s: "rfold meminfo_step lines empty_meminfo = Ok s"
    and fin: "rbind (meminfo_finish h s) (\<lambda>(vm, _). Ok vm) = Ok vm"
    by (auto simp: VirtualMemoryWithContext_def fillFromMeminfoWithContext_def Let_def outcome_iff)
  note val = meminfo_loop_figures [OF s] meminfo_loop_unset [OF s]
  note f = meminfo_loop_flag [OF s, unfolded meminfo_flag_def meminfo_flags_def]
  have flags: "m_memavail s = meminfo_has lines ''MemAvailable''"
    "m_activeFile s = meminfo_has lines ''Active(file)''"
    "m_inactiveFile s = meminfo_has lines ''Inactive(file)''"
    "m_sReclaimable s = meminfo_has lines ''SReclaimable''"
    by (simp_all flip: f)
  have same: "calculateAvailVmem h a b = calculateAvailVmem h a' b'"
    if "v_Free a = v_Free a'" "v_Cached a = v_Cached a'" "v_Sreclaimable a = v_Sreclaimable a'"
      "e_ActiveFile b = e_ActiveFile b'" "e_InactiveFile b = e_InactiveFile b'" for a b a' b'
    using that by (cases "ReadLines h (HostProcWithContext h [''zoneinfo''])")
      (simp_all add: calculateAvailVmem_def availVmem_def)
  have avail: "calculateAvailVmem h ((m_vm s)\<lparr>v_Cached := meminfo_value lines ''Cached'' + meminfo_value lines ''SReclaimable''\<rparr>) (m_ex s) =
      calculateAvailVmem h
         (empty_vm\<lparr>v_Free := meminfo_value lines ''MemFree'',
            v_Cached := meminfo_value lines ''Cached'' + meminfo_value lines ''SReclaimable'',
            v_Sreclaimable := meminfo_value lines ''SReclaimable''\<rparr>)
         (empty_ex_vm\<lparr>e_ActiveFile := meminfo_value lines ''Active(file)'',
            e_InactiveFile := meminfo_value lines ''Inactive(file)''\<rparr>)"
    by (rule same) (simp_all add: val)
  have "vm = memory_figures (meminfo_value lines) (v_Available vm)"
    using fin by (auto simp: meminfo_finish_def Let_def outcome_iff memory_figures_def val)
  moreover have "Ok (v_Available vm) =
      (if meminfo_has lines ''MemAvailable'' then Ok (meminfo_value lines ''MemAvailable'')
       else if meminfo_has lines ''Active(file)'' \<and> meminfo_has lines ''Inactive(file)'' \<and> meminfo_has lines ''SReclaimable''
       then calculateAvailVmem h
         (empty_vm\<lparr>v_Free := v_Free vm, v_Cached := v_Cached vm, v_Sreclaimable := meminfo_value lines ''SReclaimable''\<rparr>)
         (empty_ex_vm\<lparr>e_ActiveFile := meminfo_value lines ''Active(file)'',
            e_InactiveFile := meminfo_value lines ''Inactive(file)''\<rparr>)
       else Ok (v_Cached vm + v_Free vm))"
    using fin by (auto simp: meminfo_finish_def Let_def outcome_iff val flags avail)
  ultimately show ?thesis ..
qed

lemma fillFromMeminfo_percent:
  assumes "VirtualMemoryWithContext h = Ok vm"
  shows "v_UsedPercent vm = f_of_u64 (v_Total vm - v_Available vm) / f_of_u64 (v_Total vm) * Fin 100"
    and "v_Used vm = v_Total vm - v_Available vm"
  using assms
  by (auto simp: VirtualMemoryWithContext_def fillFromMeminfoWithContext_def meminfo_finish_def Let_def outcome_iff
      split: result.splits)

text \<open>As long as a machine reports some memory and no more available than total, the used and
  available sizes add up to the total and the percentage is a finite number in [0, 100]; a
  \<^verbatim>\<open>/proc/meminfo\<close> without \<^verbatim>\<open>MemTotal\<close> gives NaN or infinity, unlike \<^verbatim>\<open>SwapMemory\<close>, which tests for 0.\<close>

theorem VirtualMemory_percent:
  assumes "VirtualMemoryWithContext h = Ok vm"
  shows "(v_Total vm \<noteq> 0 \<and> v_Available vm \<le> v_Total vm \<longrightarrow>
      unat (v_Used vm) + unat (v_Available vm) = unat (v_Total vm) \<and>
      (\<exists>r. v_UsedPercent vm = Fin r \<and> 0 \<le> r \<and> r \<le> 100)) \<and>
    (v_Total vm = 0 \<longrightarrow> v_UsedPercent vm = (if v_Available vm = 0 then NaN else PInf))"
  using percent_u64_diff [of "v_Available vm" "v_Total vm"] percent_u64_zero [of "0 - v_Available vm"]
  by (simp add: fillFromMeminfo_percent [OF assms])

text \<open>The fallback estimate subtracts the watermark in 64-bit arithmetic: on a machine whose free
  pages are below the low watermark and that has no file cache and no slab to reclaim, it is
  not 0 but the wrapped difference, more than the free memory; the test \<^verbatim>\<open>availMemory < 0\<close> never
  holds.\<close>

theorem availVmem_underflow:
  assumes "v_Free ret < low" and "v_Sreclaimable ret = 0"
    and "e_ActiveFile ex = 0" and "e_InactiveFile ex = 0"
  shows "unat (availVmem h low ret ex) = 2 ^ 64 - (unat low - unat (v_Free ret)) \<and>
    v_Free ret < availVmem h low ret ex"
proof -
  have "f_to_u64 (h_fcvt h) (f_min (f_of_u64 (0 div 2)) (f_of_u64 low)) = 0"
    using r64_nonneg [of "unat low"]
    by (simp add: f_of_u64 f_min_Fin min_def f_to_u64_def rat_trunc_def)
  then have a: "availVmem h low ret ex = v_Free ret - low"
    using assms by (simp add: availVmem_def)
  have lt: "unat (v_Free ret) < unat low" using assms(1) by (simp add: word_less_nat_alt)
  then have u: "unat (v_Free ret - low) = 2 ^ 64 + unat (v_Free ret) - unat low"
    by (simp add: unat_sub_if_size word_size)
  moreover have "unat low < 2 ^ 64" using unsigned_less [of low, where 'a=nat] by simp
  ultimately show ?thesis using a lt by (simp add: word_less_nat_alt)
qed

lemma zone_low_blank:
  assumes "line \<in> set lines" and "str_fields line = []"
  shows "rfold zone_low lines low = Panic"
  using assms
proof (induction lines arbitrary: low)
  case (Cons l lines)
  show ?case
  proof (cases "l = line")
    case True
    with Cons.prems show ?thesis by (simp add: zone_low_def)
  next
    case False
    then have "rfold zone_low lines low' = Panic" for low' using Cons by simp
    moreover have "zone_low l low \<noteq> Err e" for e
      by (auto simp: zone_low_def Let_def rbind_Err_iff split: if_splits)
    ultimately show ?thesis by (cases "zone_low l low") auto
  qed
qed simp

section \<open>Swap counters\<close>

definition vmstat_view :: "(string \<times> (swap_memory_stat \<Rightarrow> u64)) list" where
  "vmstat_view = [(''pswpin'', sw_Sin), (''pswpout'', sw_Sout), (''pgpgin'', sw_PgIn),
     (''pgpgout'', sw_PgOut), (''pgfault'', sw_PgFault), (''pgmajfault'', sw_PgMajFault)]"

definition vmstat_get :: "string \<Rightarrow> swap_memory_stat \<Rightarrow> u64" where
  "vmstat_get k s = (case map_of vmstat_view k of None \<Rightarrow> 0 | Some sel \<Rightarrow> sel s)"

text \<open>The bytes a line gives for a key: pages of 4 KiB.\<close>

definition vmstat_contrib :: "string \<Rightarrow> string \<Rightarrow> u64 option" where
  "vmstat_contrib k line = (case str_fields line of
     f0 # f1 # _ \<Rightarrow> (if f0 = k \<and> map_of vmstat_view k \<noteq> None
       then (case parse_u64 f1 of Ok v \<Rightarrow> Some (v * 4096) | _ \<Rightarrow> None) else None)
   | _ \<Rightarrow> None)"

lemma vmstat_tables:
  "list_all (\<lambda>(k', assign). list_all (\<lambda>(k, sel).
     sel (assign v s) = (if k = k' then v * 4096 else sel s)) vmstat_view) vmstat_fields"
  by (simp add: vmstat_fields_def vmstat_view_def)

lemma vmstat_view_fields: "map_of vmstat_view k = None \<longleftrightarrow> map_of vmstat_fields k = None"
  by (simp add: vmstat_view_def vmstat_fields_def)

lemma vmstat_assign:
  assumes "map_of vmstat_fields k' = Some assign"
  shows "vmstat_get k (assign v s) = (if k = k' then v * 4096 else vmstat_get k s)"
proof (cases "map_of vmstat_view k")
  case None
  then have "k \<noteq> k'" using assms vmstat_view_fields [of k] by auto
  with None show ?thesis by (simp add: vmstat_get_def)
next
  case (Some sel)
  have "sel (assign v s) = (if k = k' then v * 4096 else sel s)"
    by (rule list_all_tables [OF vmstat_tables assms Some])
  with Some show ?thesis by (simp add: vmstat_get_def)
qed

interpretation vmstat_field: field_fold vmstat_step "vmstat_get k" "vmstat_contrib k" for k
  by unfold_locales
    (auto simp: vmstat_step_def vmstat_contrib_def vmstat_assign vmstat_view_fields
      split: list.splits option.splits result.splits)

abbreviation swap_sizes :: "swap_memory_stat \<Rightarrow> u64 \<times> u64 \<times> u64 \<times> float64" where
  "swap_sizes s \<equiv> (sw_Total s, sw_Used s, sw_Free s, sw_UsedPercent s)"

interpretation vmstat_sizes: field_fold vmstat_step swap_sizes "\<lambda>_. None"
  by unfold_locales
    (auto simp: vmstat_step_def vmstat_fields_def split: list.splits option.splits result.splits if_splits)

lemma swap_of_sysinfo_values:
  "sw_Total (swap_of_sysinfo si) = si_totalswap si * ucast (si_unit si)"
  "sw_Free (swap_of_sysinfo si) = si_freeswap si * ucast (si_unit si)"
  "sw_Used (swap_of_sysinfo si) = sw_Total (swap_of_sysinfo si) - sw_Free (swap_of_sysinfo si)"
  "sw_UsedPercent (swap_of_sysinfo si) =
     (if sw_Total (swap_of_sysinfo si) = 0 then Fin 0
      else f_of_u64 (sw_Total (swap_of_sysinfo si) - sw_Free (swap_of_sysinfo si)) /
        f_of_u64 (sw_Total (swap_of_sysinfo si)) * Fin 100)"
  by (simp_all add: swap_of_sysinfo_def Let_def zero_float64_def)

text \<open>When the system call and \<^verbatim>\<open>/proc/vmstat\<close> can be read, \<^verbatim>\<open>SwapMemory\<close> succeeds; its sizes are those
  of \<^verbatim>\<open>sysinfo\<close> in bytes, the percentage is 0 without swap and a finite number in [0, 100] when no more is
  free than there is, and each paging counter is the last parsable value of its key in pages of
  4 KiB.\<close>

theorem SwapMemory_values:
  assumes "h_sysinfo h = Inr si" and "ReadLines h (HostProcWithContext h [''vmstat'']) = Ok lines"
  shows "\<exists>sw. SwapMemoryWithContext h = Ok sw \<and>
    sw_Total sw = si_totalswap si * ucast (si_unit si) \<and> sw_Free sw = si_freeswap si * ucast (si_unit si) \<and>
    sw_Used sw = sw_Total sw - sw_Free sw \<and>
    (sw_Total sw = 0 \<longrightarrow> sw_UsedPercent sw = Fin 0) \<and>
    (sw_Total sw \<noteq> 0 \<and> sw_Free sw \<le> sw_Total sw \<longrightarrow>
      (\<exists>r. sw_UsedPercent sw = Fin r \<and> 0 \<le> r \<and> r \<le> 100)) \<and>
    (\<forall>k. vmstat_get k sw = (case last_some (vmstat_contrib k) lines of None \<Rightarrow> 0 | Some v \<Rightarrow> v))"
proof -
  let ?s = "swap_of_sysinfo si" and ?sw = "fold vmstat_step lines (swap_of_sysinfo si)"
  have ok: "SwapMemoryWithContext h = Ok ?sw" using assms by (simp add: SwapMemoryWithContext_def)
  have "swap_sizes ?sw = swap_sizes ?s" by (rule vmstat_sizes.sel_fold_absent) simp
  then have sizes: "sw_Total ?sw = sw_Total ?s" "sw_Free ?sw = sw_Free ?s" "sw_Used ?sw = sw_Used ?s"
    "sw_UsedPercent ?sw = sw_UsedPercent ?s" by simp_all
  have "vmstat_get k ?s = 0" for k
    by (simp add: vmstat_get_def vmstat_view_def swap_of_sysinfo_def Let_def)
  then have get: "vmstat_get k ?sw = (case last_some (vmstat_contrib k) lines of None \<Rightarrow> 0 | Some v \<Rightarrow> v)" for k
    using vmstat_field.sel_fold [of k lines ?s] by (simp cong: option.case_cong)
  show ?thesis
    unfolding ok using percent_u64_diff(2)
    by (intro exI [of _ ?sw]) (auto simp: sizes get swap_of_sysinfo_values)
qed

section \<open>Swap devices\<close>

text \<open>The file as the kernel prints it, for rows of name, type, size and used size in KiB and
  priority.\<close>

definition tab :: string where
  "tab = [CHR 0x09]"

definition swaps_header_line :: string where
  "swaps_header_line = join tab [''Filename'', ''Type'', ''Size'', ''Used'', ''Priority'']"

definition swaps_line :: "string \<times> u64 \<times> u64 \<Rightarrow> string" where
  "swaps_line = (\<lambda>(name, total, used).
     join tab [name, ''partition'', fmt_nat (unat total), fmt_nat (unat used), ''-2''])"

definition swaps_meaning :: "string \<times> u64 \<times> u64 \<Rightarrow> swap_device" where
  "swaps_meaning = (\<lambda>(name, total, used).
     \<lparr>sd_Name = name, sd_UsedBytes = used * 1024, sd_FreeBytes = (total - used) * 1024\<rparr>)"

definition swap_row_ok :: "string \<times> u64 \<times> u64 \<Rightarrow> bool" where
  "swap_row_ok r \<longleftrightarrow> plain (fst r) \<and> fst r \<noteq> [] \<and> scannable (swaps_line r)"

lemma swaps_row_line:
  assumes "swap_row_ok r"
  shows "swaps_row path (swaps_line r) acc = Ok (acc @ [swaps_meaning r])"
proof -
  obtain name total used where r: "r = (name, total, used)" by (cases r)
  have "str_fields (swaps_line r) = [name, ''partition'', fmt_nat (unat total), fmt_nat (unat used), ''-2'']"
    unfolding swaps_line_def r prod.case tab_def
    by (rule fields_join_sep) (use assms r in \<open>auto simp: swap_row_ok_def is_ascii_space_def\<close>)
  then show ?thesis
    by (simp add: swaps_row_def r swaps_meaning_def nameCol_def totalCol_def usedCol_def)
qed

text \<open>\<^verbatim>\<open>SwapDevices\<close> reads back the file the kernel prints: one device per row, with the used
  and the remaining size in bytes.\<close>

theorem SwapDevices_roundtrip:
  assumes "h_open h (HostProcWithContext h [''swaps'']) =
      Inr (unlines (swaps_header_line # map swaps_line rows), None)"
    and "list_all swap_row_ok rows"
  shows "SwapDevicesWithContext h = Ok (map swaps_meaning rows)"
proof -
  let ?ls = "swaps_header_line # map swaps_line rows"
  have hdr: "scannable swaps_header_line" "swaps_header path swaps_header_line = Ok ()" for path
    by (code_simp, code_simp)
  have "list_all scannable ?ls"
    using assms(2) hdr(1) by (auto simp: list_all_iff swap_row_ok_def)
  from scan_lines_lines [OF this, of "[]" None]
  have scan: "scan_lines None (unlines ?ls) = (?ls, None)" by (simp add: scannable_def drop_cr_def)
  have rows: "rfold (swaps_row path) (map swaps_line rows) acc = Ok (acc @ map swaps_meaning rows)" for path acc
    using assms(2) by (induction rows arbitrary: acc) (simp_all add: swaps_row_line)
  show ?thesis
    unfolding SwapDevicesWithContext_def assms(1) of_sum.simps rbind.simps parseSwapsFile_def fst_conv snd_conv scan
    by (simp add: hdr rows)
qed

section \<open>A concrete system\<close>

definition meminfo_lines :: "string list" where
  "meminfo_lines = [''MemTotal:       8000 kB'', ''MemAvailable: 6000 kB'', ''Cached: 3000 kB'', ''SReclaimable: 500 kB'']"

definition meminfo_host :: host where
  "meminfo_host = (with_files [(''/proc/meminfo'', unlines meminfo_lines),
      (''/proc/vmstat'', unlines [''pswpin 3'', ''pgfault 7''])])
     \<lparr>h_sysinfo := Inr \<lparr>si_uptime = 1, si_loads = [], si_totalswap = 10, si_freeswap = 4, si_unit = 1024\<rparr>\<rparr>"

lemma meminfo_host_lines: "ReadLines meminfo_host (HostProcWithContext meminfo_host [''meminfo'']) = Ok meminfo_lines"
  by code_simp

lemma meminfo_lines_kv:
  "meminfo_kv ''MemTotal:       8000 kB'' = Some (''MemTotal'', ''8000'')"
  "meminfo_kv ''MemAvailable: 6000 kB'' = Some (''MemAvailable'', ''6000'')"
  "meminfo_kv ''Cached: 3000 kB'' = Some (''Cached'', ''3000'')"
  "meminfo_kv ''SReclaimable: 500 kB'' = Some (''SReclaimable'', ''500'')"
  "parse_u64 ''8000'' = Ok 8000" "parse_u64 ''6000'' = Ok 6000" "parse_u64 ''3000'' = Ok 3000" "parse_u64 ''500'' = Ok 500"
  by code_simp+

lemma meminfo_host_ok: "\<exists>vm. VirtualMemoryWithContext meminfo_host = Ok vm"
proof -
  have "\<exists>s. rfold meminfo_step meminfo_lines empty_meminfo = Ok s \<and> m_memavail s"
    by (simp add: meminfo_lines_def meminfo_step_def meminfo_lines_kv meminfo_fields_def meminfo_fields_1_def)
  then show ?thesis
    using meminfo_host_lines
    by (auto simp: VirtualMemoryWithContext_def fillFromMeminfoWithContext_def meminfo_finish_def Let_def)
qed

theorem VirtualMemory_values_witness:
  "\<exists>vm. VirtualMemoryWithContext meminfo_host = Ok vm \<and> v_Cached vm = 3500 * 1024 \<and> v_Used vm = 2000 * 1024 \<and> v_Active vm = 0"
proof -
  obtain vm where vm: "VirtualMemoryWithContext meminfo_host = Ok vm" using meminfo_host_ok by blast
  have vals: "meminfo_value meminfo_lines ''Cached'' = 3000 * 1024" "meminfo_value meminfo_lines ''SReclaimable'' = 500 * 1024"
    "meminfo_value meminfo_lines ''MemTotal'' = 8000 * 1024" "meminfo_value meminfo_lines ''MemAvailable'' = 6000 * 1024"
    "meminfo_value meminfo_lines ''Active'' = 0" "meminfo_has meminfo_lines ''MemAvailable''"
    by (simp_all add: meminfo_value_def meminfo_has_def meminfo_contrib_def meminfo_lines_def meminfo_lines_kv
        meminfo_view_def meminfo_unit_def has_prefix_def)
  have fig: "vm = memory_figures (meminfo_value meminfo_lines) (v_Available vm)" and avail: "v_Available vm = 6000 * 1024"
    using VirtualMemory_values [OF meminfo_host_lines vm] vals(4,6) by auto
  have "v_Cached vm = 3500 * 1024 \<and> v_Used vm = 2000 * 1024 \<and> v_Active vm = 0"
    by (subst (1 2 3) fig) (simp add: memory_figures_def vals avail)
  with vm show ?thesis by blast
qed

theorem VirtualMemory_percent_witness:
  "\<exists>vm. VirtualMemoryWithContext meminfo_host = Ok vm \<and> (v_Total vm \<noteq> 0 \<and> v_Available vm \<le> v_Total vm \<longrightarrow>
      (\<exists>r. v_UsedPercent vm = Fin r \<and> 0 \<le> r \<and> r \<le> 100))"
proof -
  obtain vm where vm: "VirtualMemoryWithContext meminfo_host = Ok vm" using meminfo_host_ok by blast
  with VirtualMemory_percent [OF vm] show ?thesis by blast
qed

theorem availVmem_underflow_witness:
  "unat (availVmem no_files 4096 empty_vm empty_ex_vm) = 2 ^ 64 - 4096"
  using availVmem_underflow [of empty_vm 4096 empty_ex_vm no_files]
  by (simp add: empty_vm_def empty_ex_vm_def)

theorem SwapMemory_values_witness:
  "\<exists>sw. SwapMemoryWithContext meminfo_host = Ok sw \<and> sw_Used sw = 6144 \<and> vmstat_get ''pswpin'' sw = 12288"
proof -
  have l: "ReadLines meminfo_host (HostProcWithContext meminfo_host [''vmstat'']) = Ok [''pswpin 3'', ''pgfault 7'']"
    by code_simp
  have si: "h_sysinfo meminfo_host =
      Inr \<lparr>si_uptime = 1, si_loads = [], si_totalswap = 10, si_freeswap = 4, si_unit = 1024\<rparr>"
    by (simp add: meminfo_host_def)
  have "last_some (vmstat_contrib ''pswpin'') [''pswpin 3'', ''pgfault 7''] = Some 12288" by code_simp
  with SwapMemory_values [OF si l] show ?thesis by auto
qed

theorem SwapDevices_roundtrip_witness:
  "SwapDevicesWithContext (with_files [(''/proc/swaps'', unlines (swaps_header_line # map swaps_line [(''/dev/sda2'', 100, 25)]))]) =
     Ok [\<lparr>sd_Name = ''/dev/sda2'', sd_UsedBytes = 25600, sd_FreeBytes = 76800\<rparr>]"
proof -
  let ?d = "unlines (swaps_header_line # map swaps_line [(''/dev/sda2'', 100, 25)])"
  let ?h = "with_files [(''/proc/swaps'', ?d)]"
  have "HostProcWithContext ?h [''swaps''] = ''/proc/swaps''" by code_simp
  then have "h_open ?h (HostProcWithContext ?h [''swaps'']) = Inr (?d, None)"
    by (simp add: with_files_def)
  moreover have "list_all swap_row_ok [(''/dev/sda2'', 100, 25)]" by code_simp
  ultimately show ?thesis
    using SwapDevices_roundtrip [of ?h "[(''/dev/sda2'', 100, 25)]"] by (simp add: swaps_meaning_def)
qed

end
