(* ===== verification/Common_Linux.thy ===== *)
theory Common_Linux
  imports Common
begin

text \<open>
  Package \<^verbatim>\<open>internal/common\<close> on Linux (\<^verbatim>\<open>common_linux.go\<close>, \<^verbatim>\<open>common_unix.go\<close>, \<^verbatim>\<open>readlink_linux.go\<close>):
  the number of processes, the boot time and the detection of the virtualization system with
  their process-wide caches, \<^verbatim>\<open>os-release\<close>, \<^verbatim>\<open>lsof\<close> and \<^verbatim>\<open>readlink\<close>. The caches are explicit state;
  concurrent first calls of \<^verbatim>\<open>VirtualizationWithContext\<close> are a step relation.
\<close>

section \<open>Processes, os-release, lsof and links\<close>

definition NumProcsWithContext :: "host \<Rightarrow> u64 result" where
  "NumProcsWithContext h = rbind (of_sum (h_readdir h (HostProcWithContext h []))) (\<lambda>names.
     Ok (word_of_nat (length (filter (\<lambda>v. snd (parse_uint v 10 64) = None) names))))"

definition trimQuotes :: "string \<Rightarrow> string" where
  "trimQuotes s = (if 2 \<le> length s \<and> hd s = CHR 0x22 \<and> last s = CHR 0x22 then butlast (tl s) else s)"

definition os_release_line :: "string \<Rightarrow> string \<times> string \<Rightarrow> string \<times> string" where
  "os_release_line line = (\<lambda>(platform, version). (case split_char CHR ''='' line of
     f0 # f1 # _ \<Rightarrow> (if f0 = ''ID'' then (trimQuotes f1, version)
                      else if f0 = ''VERSION_ID'' then (platform, trimQuotes f1) else (platform, version))
   | _ \<Rightarrow> (platform, version)))"

definition GetOSReleaseWithContext :: "host \<Rightarrow> string \<times> string" where
  "GetOSReleaseWithContext h = (case ReadLines h (HostEtcWithContext h [''os-release'']) of
     Ok contents \<Rightarrow> (case fold os_release_line contents ([], []) of (platform, version) \<Rightarrow>
       (if platform = ''amzn'' then ''amazon'' else platform, version))
   | _ \<Rightarrow> ([], []))"

definition CallLsofWithContext :: "host \<Rightarrow> int \<Rightarrow> string list \<Rightarrow> string list result" where
  "CallLsofWithContext h pid args =
     (let cmd = (if pid = 0 then [''-a'', ''-n'', ''-P''] else [''-a'', ''-n'', ''-P'', ''-p'', itoa pid]) @ args
      in case h_command h ''lsof'' cmd of (out, err) \<Rightarrow>
        (case err of
           Some e \<Rightarrow> (if err_is e ErrNotFound then Err e
                      else if e = ErrMsg ''exit status 1'' \<and> out = [] then Ok []
                      else Ok (filter (\<lambda>l. l \<noteq> []) (tl (split_char nl out))))
         | None \<Rightarrow> Ok (filter (\<lambda>l. l \<noteq> []) (tl (split_char nl out)))))"

text \<open>A system call that may be interrupted: \<open>fn i\<close> is the result of its attempt number \<open>i\<close>. The loop
  returns the first that is not \<^verbatim>\<open>EINTR\<close>; not returning is \<open>None\<close>.\<close>

definition interrupted :: "'a \<times> gerr option \<Rightarrow> bool" where
  "interrupted r = (case snd r of Some e \<Rightarrow> err_is e EINTR | None \<Rightarrow> False)"

partial_function (option) ignoringEINTR2 :: "(nat \<Rightarrow> 'a \<times> gerr option) \<Rightarrow> nat \<Rightarrow> ('a \<times> gerr option) option" where
  [code]: "ignoringEINTR2 fn i = (if interrupted (fn i) then ignoringEINTR2 fn (Suc i) else Some (fn i))"

definition fixCount :: "int \<times> gerr option \<Rightarrow> int \<times> gerr option" where
  "fixCount = (\<lambda>(n, err). (if n < 0 then 0 else n, err))"

text \<open>The buffer holds \<^verbatim>\<open>PathMax\<close> bytes; each attempt gives a count and an error, and the last one leaves
  the buffer as \<open>buf\<close>.\<close>

definition readlink_result :: "string \<Rightarrow> string \<Rightarrow> int \<times> gerr option \<Rightarrow> string result" where
  "readlink_result name buf = (\<lambda>(n, err). case err of
     Some e \<Rightarrow> Err (ErrWrap (''readlink '' @ name) e) | None \<Rightarrow> Ok (take (nat n) buf))"

definition Readlink :: "string \<Rightarrow> string \<Rightarrow> (nat \<Rightarrow> int \<times> gerr option) \<Rightarrow> string result option" where
  "Readlink name buf attempts =
     map_option (readlink_result name buf) (ignoringEINTR2 (\<lambda>i. fixCount (attempts i)) 0)"

section \<open>Virtualization\<close>

type_synonym virt = "string \<times> string"

text \<open>The contents of a file that exists and can be read.\<close>

definition existing_lines :: "host \<Rightarrow> string \<Rightarrow> string list option" where
  "existing_lines h f = (if PathExists h f
     then (case ReadLines h f of Ok ls \<Rightarrow> Some ls | _ \<Rightarrow> None) else None)"

definition virt_xen :: "host \<Rightarrow> virt \<Rightarrow> virt" where
  "virt_xen h v =
     (let filename = HostProcWithContext h [''xen''] in
      if PathExists h filename then
        (''xen'', case existing_lines h (path_join [filename, ''capabilities'']) of
           Some contents \<Rightarrow> if StringsContains contents ''control_d'' then ''host'' else ''guest''
         | None \<Rightarrow> ''guest'')
      else v)"

definition virt_modules :: "host \<Rightarrow> virt \<Rightarrow> virt" where
  "virt_modules h v = (case existing_lines h (HostProcWithContext h [''modules'']) of
     None \<Rightarrow> v
   | Some c \<Rightarrow>
       if StringsContains c ''kvm'' then (''kvm'', ''host'')
       else if StringsContains c ''hv_util'' then (''hyperv'', ''guest'')
       else if StringsContains c ''vboxdrv'' then (''vbox'', ''host'')
       else if StringsContains c ''vboxguest'' then (''vbox'', ''guest'')
       else if StringsContains c ''vmware'' then (''vmware'', ''guest'')
       else v)"

definition virt_cpuinfo :: "host \<Rightarrow> virt \<Rightarrow> virt" where
  "virt_cpuinfo h v = (case existing_lines h (HostProcWithContext h [''cpuinfo'']) of
     None \<Rightarrow> v
   | Some c \<Rightarrow>
       if StringsContains c ''QEMU Virtual CPU'' \<or> StringsContains c ''Common KVM processor'' \<or>
         StringsContains c ''Common 32-bit KVM processor'' then (''kvm'', ''guest'') else v)"

definition virt_pci :: "host \<Rightarrow> virt \<Rightarrow> virt" where
  "virt_pci h v = (case existing_lines h (HostProcWithContext h [''bus/pci/devices'']) of
     None \<Rightarrow> v
   | Some c \<Rightarrow> if StringsContains c ''virtio-pci'' then (fst v, ''guest'') else v)"

definition virt_openvz :: "host \<Rightarrow> virt \<Rightarrow> virt" where
  "virt_openvz h v =
     (let filename = HostProcWithContext h [] in
      if PathExists h (path_join [filename, ''bc'', ''0'']) then (''openvz'', ''host'')
      else if PathExists h (path_join [filename, ''vz'']) then (''openvz'', ''guest'')
      else v)"

definition virt_vserver :: "host \<Rightarrow> virt \<Rightarrow> virt" where
  "virt_vserver h v = (case existing_lines h (path_join [HostProcWithContext h [], ''self'', ''status'']) of
     None \<Rightarrow> v
   | Some c \<Rightarrow> if StringsContains c ''s_context:'' \<or> StringsContains c ''VxID:''
       then (''linux-vserver'', snd v) else v)"

definition virt_environ :: "host \<Rightarrow> virt \<Rightarrow> virt" where
  "virt_environ h v =
     (let filename = path_join [HostProcWithContext h [], ''1'', ''environ''] in
      if PathExists h filename then
        (case ReadFile h filename of
           Ok contents \<Rightarrow> if str_contains contents ''container=lxc'' then (''lxc'', ''guest'') else v
         | _ \<Rightarrow> v)
      else v)"

definition virt_cgroup :: "host \<Rightarrow> virt \<Rightarrow> virt" where
  "virt_cgroup h v = (case existing_lines h (path_join [HostProcWithContext h [], ''self'', ''cgroup'']) of
     None \<Rightarrow> v
   | Some c \<Rightarrow>
       if StringsContains c ''lxc'' then (''lxc'', ''guest'')
       else if StringsContains c ''docker'' then (''docker'', ''guest'')
       else if StringsContains c ''machine-rkt'' then (''rkt'', ''guest'')
       else if PathExists h ''/usr/bin/lxc-version'' then (''lxc'', ''host'')
       else v)"

definition virt_coreos :: "host \<Rightarrow> virt \<Rightarrow> virt" where
  "virt_coreos h v =
     (if PathExists h (HostEtcWithContext h [''os-release'']) \<and> fst (GetOSReleaseWithContext h) = ''coreos''
      then (''rkt'', ''host'') else v)"

definition virt_dockerenv :: "host \<Rightarrow> virt \<Rightarrow> virt" where
  "virt_dockerenv h v =
     (if PathExists h (HostRootWithContext h [''.dockerenv'']) then (''docker'', ''guest'') else v)"

text \<open>The checks in the order of the source; a later one overrides an earlier one.\<close>

definition detectVirtualization :: "host \<Rightarrow> virt" where
  "detectVirtualization h = fold (\<lambda>check. check h)
     [virt_xen, virt_modules, virt_cpuinfo, virt_pci, virt_openvz, virt_vserver, virt_environ, virt_cgroup,
      virt_coreos, virt_dockerenv] ([], [])"

text \<open>One call on its own: \<^verbatim>\<open>cachedVirtMap\<close> (\<open>None\<close> is nil) is read, and filled on the first return.\<close>

definition VirtualizationWithContext :: "host \<Rightarrow> virt option \<Rightarrow> virt \<times> virt option" where
  "VirtualizationWithContext h cache = (case cache of Some v \<Rightarrow> (v, cache)
     | None \<Rightarrow> (let v = detectVirtualization h in (v, Some v)))"

section \<open>Boot time\<close>

record caches =
  c_bootTime :: u64
  c_virt :: "virt option"

text \<open>A file that may not be read is replaced by the uptime of the system call; \<^verbatim>\<open>uint64\<close> of a
  negative difference wraps.\<close>

definition handleBootTimeFileReadErr :: "host \<Rightarrow> gerr \<Rightarrow> u64 result" where
  "handleBootTimeFileReadErr h err =
     (if \<not> is_permission err then Err err
      else rbind (of_sum (h_sysinfo h)) (\<lambda>info.
        Ok (word_of_int (to_i64 (h_now h div 10 ^ 9 - si_uptime info)))))"

definition readBootTimeStat :: "host \<Rightarrow> u64 result" where
  "readBootTimeStat h = (case ReadLine h (HostProcWithContext h [''stat'']) ''btime'' of
     Err e \<Rightarrow> handleBootTimeFileReadErr h e
   | Panic \<Rightarrow> Panic
   | Ok line \<Rightarrow>
       if has_prefix line ''btime'' then
         (case str_fields line of [_, f1] \<Rightarrow> rbind (parse_i64 f1) (\<lambda>b. Ok (word_of_int b))
          | _ \<Rightarrow> Err (ErrMsg ''wrong btime format''))
       else Err (ErrMsg ''could not find btime''))"

text \<open>In a container: the time of day minus the uptime, as floats.\<close>

definition bootTimeFromUptime :: "host \<Rightarrow> string list \<Rightarrow> u64 result" where
  "bootTimeFromUptime h lines =
     (let currentTime = f_of_int (h_now h) / Fin (10 ^ 9) in
      case lines of
        [l] \<Rightarrow> rbind (idx (str_fields l) 0) (\<lambda>f0. rbind (parse_f64 f0) (\<lambda>b.
          Ok (f_to_u64 (h_fcvt h) (currentTime - b))))
      | _ \<Rightarrow> Err (ErrMsg ''wrong uptime format''))"

definition BootTimeWithContext :: "host \<Rightarrow> bool \<Rightarrow> caches \<Rightarrow> u64 result \<times> caches" where
  "BootTimeWithContext h enableCache c =
     (if enableCache \<and> c_bootTime c \<noteq> 0 then (Ok (c_bootTime c), c)
      else case VirtualizationWithContext h (c_virt c) of (v, virt) \<Rightarrow>
        let c = c\<lparr>c_virt := virt\<rparr>;
            store = (\<lambda>r. case r of Ok t \<Rightarrow> if enableCache then c\<lparr>c_bootTime := t\<rparr> else c | _ \<Rightarrow> c)
        in if v \<noteq> (''lxc'', ''guest'') \<and> v \<noteq> (''docker'', ''guest'')
           then let r = readBootTimeStat h in (r, store r)
           else case ReadLines h (HostProcWithContext h [''uptime'']) of
             Err e \<Rightarrow> (handleBootTimeFileReadErr h e, c)
           | Panic \<Rightarrow> (Panic, c)
           | Ok lines \<Rightarrow> let r = bootTimeFromUptime h lines in (r, store r))"

section \<open>Concurrent detection\<close>

text \<open>
  Any number of calls may be in flight. A call reads the map under the read lock; when it is nil
  the call detects on the system as it finds it, and then \<^verbatim>\<open>cachedVirtOnce.Do\<close> stores the result
  unless another call was first. It returns what it detected itself.
\<close>

datatype virt_call = Calling | Detecting | Returned virt

record virt_state =
  vs_cache :: "virt option"
  vs_once :: bool
  vs_calls :: "nat \<Rightarrow> virt_call"

inductive virt_step :: "virt_state \<Rightarrow> virt_state \<Rightarrow> bool" where
  hit: "vs_calls s i = Calling \<Longrightarrow> vs_cache s = Some v \<Longrightarrow>
    virt_step s (s\<lparr>vs_calls := (vs_calls s)(i := Returned v)\<rparr>)"
| miss: "vs_calls s i = Calling \<Longrightarrow> vs_cache s = None \<Longrightarrow>
    virt_step s (s\<lparr>vs_calls := (vs_calls s)(i := Detecting)\<rparr>)"
| store: "vs_calls s i = Detecting \<Longrightarrow> v = detectVirtualization h \<Longrightarrow>
    virt_step s (s\<lparr>vs_cache := (if vs_once s then vs_cache s else Some v), vs_once := True,
      vs_calls := (vs_calls s)(i := Returned v)\<rparr>)"

definition virt_init :: virt_state where
  "virt_init = \<lparr>vs_cache = None, vs_once = False, vs_calls = (\<lambda>_. Calling)\<rparr>"

inductive_cases virt_stepE: "virt_step s t"

definition virt_inv :: "virt_state \<Rightarrow> bool" where
  "virt_inv s \<longleftrightarrow> (vs_once s \<longleftrightarrow> vs_cache s \<noteq> None) \<and>
     (\<forall>i v. vs_calls s i = Returned v \<longrightarrow> vs_cache s \<noteq> None)"

lemma virt_inv_step: "virt_step s t \<Longrightarrow> virt_inv s \<Longrightarrow> virt_inv t"
  by (erule virt_stepE) (auto simp: virt_inv_def split: if_splits)

lemma virt_inv_reachable: "virt_step\<^sup>*\<^sup>* virt_init s \<Longrightarrow> virt_inv s"
proof (induction rule: rtranclp_induct)
  case base
  then show ?case by (simp add: virt_inv_def virt_init_def)
qed (rule virt_inv_step)

text \<open>From a state with a filled cache, the cache stays and calls not yet started return it.\<close>

definition virt_from :: "virt_state \<Rightarrow> virt \<Rightarrow> virt_state \<Rightarrow> bool" where
  "virt_from s v t \<longleftrightarrow> virt_inv t \<and> vs_cache t = Some v \<and>
     (\<forall>i. vs_calls s i = Calling \<longrightarrow> vs_calls t i = Calling \<or> vs_calls t i = Returned v)"

lemma virt_from_step: "virt_step t u \<Longrightarrow> virt_from s v t \<Longrightarrow> virt_from s v u"
  by (frule virt_inv_step) (auto simp: virt_from_def virt_inv_def elim!: virt_stepE split: if_splits)

lemma virt_from_reachable:
  "virt_step\<^sup>*\<^sup>* s t \<Longrightarrow> virt_inv s \<Longrightarrow> vs_cache s = Some v \<Longrightarrow> virt_from s v t"
proof (induction rule: rtranclp_induct)
  case base
  then show ?case by (simp add: virt_from_def)
qed (blast intro: virt_from_step)

text \<open>C30: once any call has returned, the cached pair is fixed for ever, whatever the system looks like
  later, and every call that starts afterwards returns exactly that pair.\<close>

theorem Virtualization_settles:
  assumes "virt_step\<^sup>*\<^sup>* virt_init s" and "vs_calls s i = Returned w"
  shows "\<exists>v. vs_cache s = Some v \<and> (\<forall>t j. virt_step\<^sup>*\<^sup>* s t \<and> vs_calls s j = Calling \<longrightarrow>
    vs_cache t = Some v \<and> (vs_calls t j = Calling \<or> vs_calls t j = Returned v))"
proof -
  have inv: "virt_inv s" using assms(1) by (rule virt_inv_reachable)
  with assms(2) have "vs_cache s \<noteq> None" unfolding virt_inv_def by blast
  then obtain v where v: "vs_cache s = Some v" by blast
  show ?thesis
    using virt_from_reachable [OF _ inv v] v by (auto simp: virt_from_def)
qed

theorem Virtualization_settles_witness:
  "\<exists>s v. virt_step\<^sup>*\<^sup>* virt_init s \<and> vs_calls s 0 = Returned v \<and> vs_cache s = Some v \<and>
    (\<forall>t. virt_step\<^sup>*\<^sup>* s t \<longrightarrow> vs_cache t = Some v)"
proof -
  let ?v = "detectVirtualization no_files"
  let ?s1 = "virt_init\<lparr>vs_calls := (vs_calls virt_init)(0 := Detecting)\<rparr>"
  let ?s2 = "?s1\<lparr>vs_cache := (if vs_once ?s1 then vs_cache ?s1 else Some ?v), vs_once := True,
      vs_calls := (vs_calls ?s1)(0 := Returned ?v)\<rparr>"
  have "virt_step virt_init ?s1" by (rule virt_step.miss) (simp_all add: virt_init_def)
  moreover have "virt_step ?s1 ?s2" by (rule virt_step.store) simp_all
  ultimately have r: "virt_step\<^sup>*\<^sup>* virt_init ?s2" by (meson converse_rtranclp_into_rtranclp rtranclp.rtrancl_refl)
  have ret: "vs_calls ?s2 0 = Returned ?v" and c: "vs_cache ?s2 = Some ?v" and one: "vs_calls ?s2 1 = Calling"
    by (simp_all add: virt_init_def)
  from Virtualization_settles [OF r ret] c one have "virt_step\<^sup>*\<^sup>* ?s2 t \<Longrightarrow> vs_cache t = Some ?v" for t
    by (metis option.inject)
  with r ret c show ?thesis by blast
qed

section \<open>Interrupted system calls\<close>

lemma interrupted_fixCount [simp]: "interrupted (fixCount r) = interrupted r"
  by (simp add: interrupted_def fixCount_def split: prod.splits)

lemma ignoringEINTR2_returns:
  "\<forall>j < k. interrupted (fn (i + j)) \<Longrightarrow> \<not> interrupted (fn (i + k)) \<Longrightarrow> ignoringEINTR2 fn i = Some (fn (i + k))"
proof (induction k arbitrary: i)
  case 0
  then show ?case by (subst ignoringEINTR2.simps) simp
next
  case (Suc k)
  have "ignoringEINTR2 fn (Suc i) = Some (fn (Suc i + k))"
    using Suc.prems by (intro Suc.IH) auto
  moreover have "interrupted (fn i)" using Suc.prems(1) by (auto dest: spec [of _ 0])
  ultimately show ?case by (subst ignoringEINTR2.simps) simp
qed

lemma ignoringEINTR2_only_if: "ignoringEINTR2 fn i = Some r \<Longrightarrow> \<exists>j. \<not> interrupted (fn j)"
proof (rule ignoringEINTR2.raw_induct [where P = "\<lambda>fn i r. \<exists>j. \<not> interrupted (fn j)"])
  fix rec fn i r
  assume IH: "\<And>fn i r. rec fn i = Some r \<Longrightarrow> \<exists>j. \<not> interrupted (fn j)"
    and "(if interrupted (fn i) then rec fn (Suc i) else Some (fn i)) = Some r"
  then show "\<exists>j. \<not> interrupted (fn j)" by (cases "interrupted (fn i)") auto
qed

text \<open>C31: \<^verbatim>\<open>Readlink\<close> returns exactly when some attempt of the system call is not interrupted, and its
  result is then that of the first such attempt, a negative count read as zero.\<close>

theorem Readlink_returns:
  "Readlink name buf attempts =
     (if \<exists>i. \<not> interrupted (attempts i)
      then Some (readlink_result name buf (fixCount (attempts (LEAST i. \<not> interrupted (attempts i))))) else None)"
proof (cases "\<exists>i. \<not> interrupted (attempts i)")
  case True
  define k where "k = (LEAST i. \<not> interrupted (attempts i))"
  have k: "\<not> interrupted (attempts k)" unfolding k_def using True by (rule LeastI_ex)
  have lt: "\<forall>j < k. interrupted (attempts j)" unfolding k_def using not_less_Least by blast
  have "ignoringEINTR2 (\<lambda>i. fixCount (attempts i)) 0 = Some (fixCount (attempts (0 + k)))"
  proof (rule ignoringEINTR2_returns)
    show "\<forall>j < k. interrupted (fixCount (attempts (0 + j)))" using lt by (simp only: add_0 interrupted_fixCount)
    show "\<not> interrupted (fixCount (attempts (0 + k)))" using k by (simp only: add_0 interrupted_fixCount not_False_eq_True)
  qed
  with True show ?thesis by (simp only: Readlink_def k_def [symmetric] add_0 option.map if_True)
next
  case False
  have "ignoringEINTR2 (\<lambda>i. fixCount (attempts i)) 0 \<noteq> Some r" for r
    using False ignoringEINTR2_only_if [of "\<lambda>i. fixCount (attempts i)" 0 r] by (auto simp only: interrupted_fixCount)
  then have "ignoringEINTR2 (\<lambda>i. fixCount (attempts i)) 0 = None" by blast
  with False show ?thesis by (simp only: Readlink_def option.map if_False)
qed

section \<open>The boot time\<close>

definition btime_line :: "nat \<Rightarrow> string" where
  "btime_line n = ''btime '' @ fmt_nat n"

lemma readBootTimeStat_line:
  assumes "h_open h (HostProcWithContext h [''stat'']) = Inr (unlines (pre @ btime_line n # post), fin)"
    and "no_nl (pre @ post)" and "list_all (\<lambda>l. \<not> has_prefix (l @ [nl]) ''btime'') pre" and "n < 2 ^ 63"
  shows "readBootTimeStat h = Ok (word_of_nat n)"
proof -
  let ?ls = "pre @ btime_line n # post"
  have "plain (fmt_nat n)" by simp
  then have "nl \<notin> set (btime_line n)" by (auto simp: btime_line_def plain_def is_ascii_space_def)
  then have ls: "no_nl ?ls" using assms(2) by (auto simp: no_nl_def)
  have p: "has_prefix (btime_line n @ [nl]) ''btime''" by (simp add: btime_line_def has_prefix_def)
  have "find (\<lambda>l. has_prefix (l @ [nl]) ''btime'') ?ls = Some (btime_line n)"
    using assms(3) p by (induction pre) auto
  then have "ReadLine h (HostProcWithContext h [''stat'']) ''btime'' = Ok (btime_line n @ [nl])"
    using read_line_loop_lines [OF ls, of "[]" fin "''btime''"] assms(1) by (simp add: ReadLine_def)
  moreover have "str_fields (join '' '' [''btime'', fmt_nat n]) = [''btime'', fmt_nat n]"
    by (rule fields_join) (auto simp: is_ascii_space_def)
  then have "str_fields (btime_line n @ [nl]) = [''btime'', fmt_nat n]"
    using fields_snoc_space [of nl "btime_line n"] by (simp add: btime_line_def)
  moreover have "parse_i64 (fmt_nat n) = Ok (int n)"
    using parse_int_fmt_nat [of n 64] assms(4) by (simp add: parse_i64_def)
  ultimately show ?thesis using p by (simp add: readBootTimeStat_def)
qed

text \<open>Outside \<^verbatim>\<open>lxc\<close> and \<^verbatim>\<open>docker\<close> guests the boot time is the number of the first \<^verbatim>\<open>btime\<close> line of
  \<^verbatim>\<open>/proc/stat\<close>, and with the cache enabled every later call returns it without looking at the
  system again.\<close>

theorem BootTime_stat_cached:
  assumes "h_open h (HostProcWithContext h [''stat'']) = Inr (unlines (pre @ btime_line n # post), fin)"
    and "no_nl (pre @ post)" and "list_all (\<lambda>l. \<not> has_prefix (l @ [nl]) ''btime'') pre"
    and "0 < n" and "n < 2 ^ 63"
    and "fst (VirtualizationWithContext h virt) \<notin> {(''lxc'', ''guest''), (''docker'', ''guest'')}"
    and "BootTimeWithContext h True \<lparr>c_bootTime = 0, c_virt = virt\<rparr> = (r, c)"
  shows "r = Ok (word_of_nat n) \<and> BootTimeWithContext h' True c = (Ok (word_of_nat n), c)"
proof -
  have t: "readBootTimeStat h = Ok (word_of_nat n)" by (rule readBootTimeStat_line [OF assms(1,2,3,5)])
  have "(word_of_nat n :: u64) \<noteq> 0"
    using assms(4,5) by (simp add: word_of_nat_eq_0_iff nat_dvd_not_less)
  with t assms(6,7) show ?thesis
    by (cases "VirtualizationWithContext h virt") (auto simp: BootTimeWithContext_def Let_def)
qed

definition btime_host :: host where
  "btime_host = with_files [(''/proc/stat'', unlines ([''cpu 1''] @ btime_line 1700000000 # [''processes 9'']))]"

theorem BootTime_stat_cached_witness:
  "fst (BootTimeWithContext btime_host True \<lparr>c_bootTime = 0, c_virt = None\<rparr>) = Ok 1700000000 \<and>
   fst (BootTimeWithContext no_files True
     (snd (BootTimeWithContext btime_host True \<lparr>c_bootTime = 0, c_virt = None\<rparr>))) = Ok 1700000000"
proof -
  let ?b = "BootTimeWithContext btime_host True \<lparr>c_bootTime = 0, c_virt = None\<rparr>"
  have p: "HostProcWithContext btime_host [''stat''] = ''/proc/stat''" by code_simp
  have o: "h_open btime_host (HostProcWithContext btime_host [''stat'']) =
      Inr (unlines ([''cpu 1''] @ btime_line 1700000000 # [''processes 9'']), None)"
    unfolding p by (simp add: btime_host_def with_files_def)
  have v: "fst (VirtualizationWithContext btime_host None) \<notin> {(''lxc'', ''guest''), (''docker'', ''guest'')}"
    by code_simp
  have pre: "list_all (\<lambda>l. \<not> has_prefix (l @ [nl]) ''btime'') [''cpu 1'']" by (simp add: has_prefix_def)
  from BootTime_stat_cached [OF o _ pre _ _ v, of "fst ?b" "snd ?b" no_files] show ?thesis by simp
qed

end
