(* ===== verification/Load_Linux.thy ===== *)
theory Load_Linux
  imports Common_Linux
begin

text \<open>
  Package \<^verbatim>\<open>load\<close> on Linux (\<^verbatim>\<open>load.go\<close>, \<^verbatim>\<open>load_linux.go\<close>): the load averages, from \<^verbatim>\<open>/proc/loadavg\<close> or from
  the system call, and the process counts of \<^verbatim>\<open>/proc/stat\<close>.
\<close>

section \<open>Load averages\<close>

record avg_stat =
  l_Load1 :: float64
  l_Load5 :: float64
  l_Load15 :: float64

definition readLoadAvgFromFile :: "host \<Rightarrow> string list result" where
  "readLoadAvgFromFile h = rbind (ReadFile h (HostProcWithContext h [''loadavg''])) (\<lambda>line. Ok (str_fields line))"

definition fileAvgWithContext :: "host \<Rightarrow> avg_stat result" where
  "fileAvgWithContext h = rbind (readLoadAvgFromFile h) (\<lambda>values.
     rbind (idx values 0) (\<lambda>v0. rbind (parse_f64 v0) (\<lambda>load1.
     rbind (idx values 1) (\<lambda>v1. rbind (parse_f64 v1) (\<lambda>load5.
     rbind (idx values 2) (\<lambda>v2. rbind (parse_f64 v2) (\<lambda>load15.
       Ok \<lparr>l_Load1 = load1, l_Load5 = load5, l_Load15 = load15\<rparr>)))))))"

text \<open>\<^verbatim>\<open>info.Loads\<close> is an array of three words; a shorter list does not occur.\<close>

definition sysinfoAvgWithContext :: "host \<Rightarrow> avg_stat result" where
  "sysinfoAvgWithContext h = rbind (of_sum (h_sysinfo h)) (\<lambda>info.
     rbind (idx (si_loads info) 0) (\<lambda>l0. rbind (idx (si_loads info) 1) (\<lambda>l1. rbind (idx (si_loads info) 2) (\<lambda>l2.
       Ok \<lparr>l_Load1 = f_of_u64 l0 / Fin (2 ^ 16), l_Load5 = f_of_u64 l1 / Fin (2 ^ 16),
           l_Load15 = f_of_u64 l2 / Fin (2 ^ 16)\<rparr>))))"

definition AvgWithContext :: "host \<Rightarrow> avg_stat result" where
  "AvgWithContext h = (case fileAvgWithContext h of
     Ok stat \<Rightarrow> Ok stat | Err _ \<Rightarrow> sysinfoAvgWithContext h | Panic \<Rightarrow> Panic)"

section \<open>Process counts\<close>

record misc_stat =
  ms_ProcsTotal :: int
  ms_ProcsCreated :: int
  ms_ProcsRunning :: int
  ms_ProcsBlocked :: int
  ms_Ctxt :: int
  ms_SysCalls :: int
  ms_Interrupts :: int

definition misc_line :: "string \<Rightarrow> misc_stat \<Rightarrow> misc_stat" where
  "misc_line line ret = (case str_fields line of
     [f0, f1] \<Rightarrow> (case parse_i64 f1 of
        Ok v \<Rightarrow> (if f0 = ''processes'' then ret\<lparr>ms_ProcsCreated := v\<rparr>
                  else if f0 = ''procs_running'' then ret\<lparr>ms_ProcsRunning := v\<rparr>
                  else if f0 = ''procs_blocked'' then ret\<lparr>ms_ProcsBlocked := v\<rparr>
                  else if f0 = ''ctxt'' then ret\<lparr>ms_Ctxt := v\<rparr> else ret)
      | _ \<Rightarrow> ret)
   | _ \<Rightarrow> ret)"

definition empty_misc :: misc_stat where
  "empty_misc = \<lparr>ms_ProcsTotal = 0, ms_ProcsCreated = 0, ms_ProcsRunning = 0, ms_ProcsBlocked = 0,
     ms_Ctxt = 0, ms_SysCalls = 0, ms_Interrupts = 0\<rparr>"

text \<open>A failure to list the processes is returned with the counts read so far.\<close>

definition MiscWithContext :: "host \<Rightarrow> (misc_stat \<times> gerr option) result" where
  "MiscWithContext h = rbind (ReadFile h (HostProcWithContext h [''stat''])) (\<lambda>out.
     let ret = fold misc_line (split_char nl out) empty_misc in
     case NumProcsWithContext h of
       Ok procsTotal \<Rightarrow> Ok (ret\<lparr>ms_ProcsTotal := to_i64 (uint procsTotal)\<rparr>, None)
     | Err e \<Rightarrow> Ok (ret, Some e)
     | Panic \<Rightarrow> Panic)"

section \<open>Properties\<close>

text \<open>C40: a readable \<^verbatim>\<open>/proc/loadavg\<close> with fewer than three fields, all of them numbers, makes \<^verbatim>\<open>Avg\<close> panic
  instead of falling back to the system call.\<close>

theorem Avg_short_file:
  assumes "ReadFile h (HostProcWithContext h [''loadavg'']) = Ok d"
    and "length (str_fields d) < 3" and "list_all (\<lambda>f. \<exists>v. parse_f64 f = Ok v) (str_fields d)"
  shows "AvgWithContext h = Panic"
proof -
  consider "str_fields d = []" | a where "str_fields d = [a]" | a b where "str_fields d = [a, b]"
    using assms(2) by (auto simp: less_Suc_eq numeral_3_eq_3 length_Suc_conv)
  then have "fileAvgWithContext h = Panic"
    using assms(1,3) by cases (auto simp: fileAvgWithContext_def readLoadAvgFromFile_def)
  then show ?thesis by (simp add: AvgWithContext_def)
qed

theorem Avg_short_file_witness: "AvgWithContext (with_files [(''/proc/loadavg'', ''0.5'')]) = Panic"
proof (rule Avg_short_file [of _ "''0.5''"])
  show "ReadFile (with_files [(''/proc/loadavg'', ''0.5'')])
      (HostProcWithContext (with_files [(''/proc/loadavg'', ''0.5'')]) [''loadavg'']) = Ok ''0.5''" by code_simp
  have f: "str_fields ''0.5'' = [''0.5'']" by code_simp
  then show "length (str_fields ''0.5'') < 3" by simp
  have "\<exists>v. parse_f64 ''0.5'' = Ok v"
  proof -
    have "case parse_f64 ''0.5'' of Ok _ \<Rightarrow> True | _ \<Rightarrow> False" by code_simp
    then show ?thesis by (cases "parse_f64 ''0.5''") simp_all
  qed
  with f show "list_all (\<lambda>f. \<exists>v. parse_f64 f = Ok v) (str_fields ''0.5'')" by simp
qed

definition misc_view :: "(string \<times> (misc_stat \<Rightarrow> int)) list" where
  "misc_view = [(''processes'', ms_ProcsCreated), (''procs_running'', ms_ProcsRunning),
     (''procs_blocked'', ms_ProcsBlocked), (''ctxt'', ms_Ctxt)]"

definition misc_get :: "string \<Rightarrow> misc_stat \<Rightarrow> int" where
  "misc_get k s = (case map_of misc_view k of None \<Rightarrow> 0 | Some sel \<Rightarrow> sel s)"

definition misc_contrib :: "string \<Rightarrow> string \<Rightarrow> int option" where
  "misc_contrib k line = (case str_fields line of
     [f0, f1] \<Rightarrow> (if f0 = k \<and> map_of misc_view k \<noteq> None
        then (case parse_i64 f1 of Ok v \<Rightarrow> Some v | _ \<Rightarrow> None) else None)
   | _ \<Rightarrow> None)"

interpretation misc_field: field_fold misc_line "misc_get k" "misc_contrib k" for k
proof unfold_locales
  fix l s
  consider f0 f1 where "str_fields l = [f0, f1]" | "\<And>f0 f1. str_fields l \<noteq> [f0, f1]" by blast
  then show "misc_get k (misc_line l s) = (case misc_contrib k l of None \<Rightarrow> misc_get k s | Some v \<Rightarrow> v)"
  proof cases
    case 1
    then show ?thesis
      by (cases "parse_i64 f1") (simp_all add: misc_line_def misc_contrib_def misc_get_def misc_view_def)
  next
    case 2
    then have "misc_line l s = s" "misc_contrib k l = None"
      by (auto simp: misc_line_def misc_contrib_def split: list.splits)
    then show ?thesis by simp
  qed
qed

lemma misc_get_total [simp]: "misc_get k (s\<lparr>ms_ProcsTotal := n\<rparr>) = misc_get k s"
  by (simp add: misc_get_def misc_view_def)

text \<open>When \<^verbatim>\<open>Misc\<close> returns, the counters for created, running and blocked processes and for context
  switches are those of the last well-formed line of their key, also when listing the processes
  failed.\<close>

theorem Misc_values:
  assumes "ReadFile h (HostProcWithContext h [''stat'']) = Ok d" and "MiscWithContext h = Ok (ret, err)"
  shows "misc_get k ret =
    (case last_some (misc_contrib k) (split_char nl d) of None \<Rightarrow> 0 | Some v \<Rightarrow> v)"
proof -
  let ?r = "fold misc_line (split_char nl d) empty_misc"
  have "misc_get k empty_misc = 0" by (simp add: misc_get_def misc_view_def empty_misc_def)
  then have "misc_get k ?r = (case last_some (misc_contrib k) (split_char nl d) of None \<Rightarrow> 0 | Some v \<Rightarrow> v)"
    by (simp add: misc_field.sel_fold cong: option.case_cong)
  moreover have "misc_get k ret = misc_get k ?r"
    using assms by (cases "NumProcsWithContext h") (auto simp: MiscWithContext_def)
  ultimately show ?thesis by simp
qed

theorem Misc_values_witness:
  "\<exists>ret err. MiscWithContext (with_files [(''/proc/stat'', ''ctxt 5'' @ [nl] @ ''processes 7'')]) = Ok (ret, err) \<and>
    misc_get ''processes'' ret = 7"
proof -
  let ?h = "with_files [(''/proc/stat'', ''ctxt 5'' @ [nl] @ ''processes 7'')]"
  have r: "ReadFile ?h (HostProcWithContext ?h [''stat'']) = Ok (''ctxt 5'' @ [nl] @ ''processes 7'')" by code_simp
  then obtain ret err where m: "MiscWithContext ?h = Ok (ret, err)"
    by (cases "NumProcsWithContext ?h")
       (auto simp: MiscWithContext_def NumProcsWithContext_def with_files_def no_files_def outcome_iff)
  have "last_some (misc_contrib ''processes'') (split_char nl (''ctxt 5'' @ [nl] @ ''processes 7'')) = Some 7"
    by code_simp
  with Misc_values [OF r m, of "''processes''"] m show ?thesis by simp
qed

end
