(* ===== verification/Net.thy ===== *)
theory Net
  imports Common_Linux
begin

text \<open>
  Package \<^verbatim>\<open>net\<close>, the part shared by the platforms (\<^verbatim>\<open>net.go\<close>): the statistics records, the
  conntrack list with its summary and the sum over all interfaces.
\<close>

section \<open>Data\<close>

record io_counters_stat =
  io_Name :: string
  io_BytesSent :: u64
  io_BytesRecv :: u64
  io_PacketsSent :: u64
  io_PacketsRecv :: u64
  io_Errin :: u64
  io_Errout :: u64
  io_Dropin :: u64
  io_Dropout :: u64
  io_Fifoin :: u64
  io_Fifoout :: u64

record addr =
  a_IP :: string
  a_Port :: u32

record connection_stat =
  cs_Fd :: u32
  cs_Family :: u32
  cs_Type :: u32
  cs_Laddr :: addr
  cs_Raddr :: addr
  cs_Status :: string
  cs_Uids :: "int list"
  cs_Pid :: int

text \<open>\<^verbatim>\<open>Stats\<close> is a map with the names of the columns as keys.\<close>

record proto_counters_stat =
  pc_Protocol :: string
  pc_Stats :: "(string \<times> int) list"

record filter_stat =
  fs_ConnTrackCount :: int
  fs_ConnTrackMax :: int

record conntrack_stat =
  ct_Entries :: u32
  ct_Searched :: u32
  ct_Found :: u32
  ct_New :: u32
  ct_Invalid :: u32
  ct_Ignore :: u32
  ct_Delete :: u32
  ct_DeleteList :: u32
  ct_Insert :: u32
  ct_InsertFailed :: u32
  ct_Drop :: u32
  ct_EarlyDrop :: u32
  ct_IcmpError :: u32
  ct_ExpectNew :: u32
  ct_ExpectCreate :: u32
  ct_ExpectDelete :: u32
  ct_SearchRestart :: u32

section \<open>Conntrack lists\<close>

definition NewConntrackStat :: "u32 \<Rightarrow> u32 \<Rightarrow> u32 \<Rightarrow> u32 \<Rightarrow> u32 \<Rightarrow> u32 \<Rightarrow> u32 \<Rightarrow> u32 \<Rightarrow> u32 \<Rightarrow> u32 \<Rightarrow> u32 \<Rightarrow> u32 \<Rightarrow> u32 \<Rightarrow> u32 \<Rightarrow> u32 \<Rightarrow> u32 \<Rightarrow> u32 \<Rightarrow>
    conntrack_stat" where
  "NewConntrackStat e s f n inval ign del dlst ins insfail drp edrop ie en ec ed sr =
     \<lparr>ct_Entries = e, ct_Searched = s, ct_Found = f, ct_New = n, ct_Invalid = inval,
      ct_Ignore = ign, ct_Delete = del, ct_DeleteList = dlst, ct_Insert = ins, ct_InsertFailed = insfail,
      ct_Drop = drp, ct_EarlyDrop = edrop, ct_IcmpError = ie, ct_ExpectNew = en, ct_ExpectCreate = ec,
      ct_ExpectDelete = ed, ct_SearchRestart = sr\<rparr>"

text \<open>\<^verbatim>\<open>ConntrackStatList\<close> is its slice of items.\<close>

definition NewConntrackStatList :: "conntrack_stat list" where
  "NewConntrackStatList = []"

definition ConntrackStatList_Append :: "conntrack_stat \<Rightarrow> conntrack_stat list \<Rightarrow> conntrack_stat list" where
  "ConntrackStatList_Append c items = items @ [c]"

definition ConntrackStatList_Items :: "conntrack_stat list \<Rightarrow> conntrack_stat list" where
  "ConntrackStatList_Items items = items"

definition conntrack_add :: "conntrack_stat \<Rightarrow> conntrack_stat \<Rightarrow> conntrack_stat" where
  "conntrack_add cs summary =
     \<lparr>ct_Entries = ct_Entries summary + ct_Entries cs, ct_Searched = ct_Searched summary + ct_Searched cs,
      ct_Found = ct_Found summary + ct_Found cs, ct_New = ct_New summary + ct_New cs,
      ct_Invalid = ct_Invalid summary + ct_Invalid cs, ct_Ignore = ct_Ignore summary + ct_Ignore cs,
      ct_Delete = ct_Delete summary + ct_Delete cs, ct_DeleteList = ct_DeleteList summary + ct_DeleteList cs,
      ct_Insert = ct_Insert summary + ct_Insert cs, ct_InsertFailed = ct_InsertFailed summary + ct_InsertFailed cs,
      ct_Drop = ct_Drop summary + ct_Drop cs, ct_EarlyDrop = ct_EarlyDrop summary + ct_EarlyDrop cs,
      ct_IcmpError = ct_IcmpError summary + ct_IcmpError cs, ct_ExpectNew = ct_ExpectNew summary + ct_ExpectNew cs,
      ct_ExpectCreate = ct_ExpectCreate summary + ct_ExpectCreate cs, ct_ExpectDelete = ct_ExpectDelete summary + ct_ExpectDelete cs,
      ct_SearchRestart = ct_SearchRestart summary + ct_SearchRestart cs\<rparr>"

definition ConntrackStatList_Summary :: "conntrack_stat list \<Rightarrow> conntrack_stat list" where
  "ConntrackStatList_Summary items =
     [fold conntrack_add items (NewConntrackStat 0 0 0 0 0 0 0 0 0 0 0 0 0 0 0 0 0)]"

section \<open>Sums over the interfaces\<close>

definition io_add :: "io_counters_stat \<Rightarrow> io_counters_stat \<Rightarrow> io_counters_stat" where
  "io_add nic r = r
     \<lparr>io_BytesRecv := io_BytesRecv r + io_BytesRecv nic, io_PacketsRecv := io_PacketsRecv r + io_PacketsRecv nic,
      io_Errin := io_Errin r + io_Errin nic, io_Dropin := io_Dropin r + io_Dropin nic,
      io_Fifoin := io_Fifoin r + io_Fifoin nic, io_BytesSent := io_BytesSent r + io_BytesSent nic,
      io_PacketsSent := io_PacketsSent r + io_PacketsSent nic, io_Errout := io_Errout r + io_Errout nic,
      io_Dropout := io_Dropout r + io_Dropout nic, io_Fifoout := io_Fifoout r + io_Fifoout nic\<rparr>"

definition io_all :: io_counters_stat where
  "io_all = \<lparr>io_Name = ''all'', io_BytesSent = 0, io_BytesRecv = 0, io_PacketsSent = 0, io_PacketsRecv = 0,
     io_Errin = 0, io_Errout = 0, io_Dropin = 0, io_Dropout = 0, io_Fifoin = 0, io_Fifoout = 0\<rparr>"

definition getIOCountersAll :: "io_counters_stat list \<Rightarrow> io_counters_stat list" where
  "getIOCountersAll n = [fold io_add n io_all]"

section \<open>Totals\<close>

text \<open>The counters of the two records, by position.\<close>

definition conntrack_columns :: "(conntrack_stat \<Rightarrow> u32) list" where
  "conntrack_columns =
     [ct_Entries, ct_Searched, ct_Found, ct_New, ct_Invalid, ct_Ignore,
      ct_Delete, ct_DeleteList, ct_Insert, ct_InsertFailed, ct_Drop,
      ct_EarlyDrop, ct_IcmpError, ct_ExpectNew, ct_ExpectCreate, ct_ExpectDelete, ct_SearchRestart]"

definition io_columns :: "(io_counters_stat \<Rightarrow> u64) list" where
  "io_columns =
     [io_BytesSent, io_BytesRecv, io_PacketsSent, io_PacketsRecv, io_Errin,
      io_Errout, io_Dropin, io_Dropout, io_Fifoin, io_Fifoout]"

definition column :: "('r \<Rightarrow> 'v::zero) list \<Rightarrow> nat \<Rightarrow> 'r \<Rightarrow> 'v" where
  "column cols k r = (if k < length cols then (cols ! k) r else 0)"

lemma column_law:
  fixes cols :: "('r \<Rightarrow> 'v::monoid_add) list"
  assumes "list_all (\<lambda>sel. sel z = sel x + sel y) cols"
  shows "column cols k z = column cols k x + column cols k y"
  using assms by (simp add: column_def list_all_length)

interpretation conntrack_total: counter_sum conntrack_add "column conntrack_columns k" for k
  by unfold_locales (rule column_law, simp add: conntrack_columns_def conntrack_add_def)

interpretation io_total: counter_sum io_add "column io_columns k" for k
  by unfold_locales (rule column_law, simp add: io_columns_def io_add_def)

lemma columns_sumI:
  fixes cols :: "('r \<Rightarrow> 'v::monoid_add) list"
  assumes "\<And>k. column cols k x = (\<Sum>c\<leftarrow>cs. column cols k c)"
  shows "map (\<lambda>sel. sel x) cols = map (\<lambda>sel. \<Sum>c\<leftarrow>cs. sel c) cols"
proof (rule nth_equalityI)
  fix k
  assume "k < length (map (\<lambda>sel. sel x) cols)"
  with assms [of k] show "map (\<lambda>sel. sel x) cols ! k = map (\<lambda>sel. \<Sum>c\<leftarrow>cs. sel c) cols ! k"
    by (simp add: column_def)
qed simp

lemma io_add_name [simp]: "io_Name (fold io_add ns r) = io_Name r"
  by (induction ns arbitrary: r) (simp_all add: io_add_def)

text \<open>The summary of a conntrack list is one item, each of its 17 counters being the sum of that
  counter over the CPUs modulo 2 to the 32, and the items are kept in the order they were
  appended.\<close>

theorem Conntrack_Summary_totals:
  "ConntrackStatList_Items (fold ConntrackStatList_Append cs NewConntrackStatList) = cs \<and>
   map (\<lambda>r. map (\<lambda>sel. sel r) conntrack_columns)
     (ConntrackStatList_Summary (fold ConntrackStatList_Append cs NewConntrackStatList)) =
   [map (\<lambda>sel. \<Sum>c\<leftarrow>cs. sel c) conntrack_columns]"
proof -
  let ?z = "NewConntrackStat 0 0 0 0 0 0 0 0 0 0 0 0 0 0 0 0 0"
  have items: "fold ConntrackStatList_Append cs acc = acc @ cs" for acc
    by (induction cs arbitrary: acc) (simp_all add: ConntrackStatList_Append_def)
  have "list_all (\<lambda>sel. sel ?z = 0) conntrack_columns"
    by (simp add: conntrack_columns_def NewConntrackStat_def)
  then have "column conntrack_columns k ?z = 0" for k by (simp add: column_def list_all_length)
  then have "map (\<lambda>sel. sel (fold conntrack_add cs ?z)) conntrack_columns =
      map (\<lambda>sel. \<Sum>c\<leftarrow>cs. sel c) conntrack_columns"
    by (intro columns_sumI) (simp add: conntrack_total.sel_total)
  then show ?thesis
    by (simp add: ConntrackStatList_Summary_def ConntrackStatList_Items_def NewConntrackStatList_def items)
qed

lemma io_all_totals:
  "map io_Name (getIOCountersAll nics) = [''all''] \<and>
   map (\<lambda>r. map (\<lambda>sel. sel r) io_columns) (getIOCountersAll nics) = [map (\<lambda>sel. \<Sum>n\<leftarrow>nics. sel n) io_columns]"
proof -
  have "list_all (\<lambda>sel. sel io_all = 0) io_columns" by (simp add: io_columns_def io_all_def)
  then have "column io_columns k io_all = 0" for k by (simp add: column_def list_all_length)
  then have "map (\<lambda>sel. sel (fold io_add nics io_all)) io_columns = map (\<lambda>sel. \<Sum>n\<leftarrow>nics. sel n) io_columns"
    by (intro columns_sumI) (simp add: io_total.sel_total)
  then show ?thesis by (simp add: getIOCountersAll_def io_all_def)
qed

end
