(* ===== verification/Net_Linux.thy ===== *)
theory Net_Linux
  imports Net
begin

text \<open>
  Package \<^verbatim>\<open>net\<close> on Linux (\<^verbatim>\<open>net_linux.go\<close>): the counters of \<^verbatim>\<open>/proc/net/dev\<close>, \<^verbatim>\<open>/proc/net/snmp\<close> and
  conntrack, the decoding of socket addresses, and the list of connections with the map from
  socket inodes to the processes that hold them. The byte order of the machine is a parameter of
  the address decoder.
\<close>

section \<open>Interface counters\<close>

text \<open>One line after the two headers: \<open>None\<close> when it is skipped.\<close>

definition netdev_line :: "string \<Rightarrow> io_counters_stat option result" where
  "netdev_line line = (case last_index_byte line CHR '':'' of
     None \<Rightarrow> Ok None
   | Some separatorPos \<Rightarrow>
       (let interfaceName = trim_space (take separatorPos line);
            fs = str_fields (trim_space (drop (Suc separatorPos) line))
        in if interfaceName = [] \<or> length fs < 13 then Ok None
           else rbind (parse_u64 (fs ! 0)) (\<lambda>bytesRecv.
                rbind (parse_u64 (fs ! 1)) (\<lambda>packetsRecv.
                rbind (parse_u64 (fs ! 2)) (\<lambda>errIn.
                rbind (parse_u64 (fs ! 3)) (\<lambda>dropIn.
                rbind (parse_u64 (fs ! 4)) (\<lambda>fifoIn.
                rbind (parse_u64 (fs ! 8)) (\<lambda>bytesSent.
                rbind (parse_u64 (fs ! 9)) (\<lambda>packetsSent.
                rbind (parse_u64 (fs ! 10)) (\<lambda>errOut.
                rbind (parse_u64 (fs ! 11)) (\<lambda>dropOut.
                rbind (parse_u64 (fs ! 12)) (\<lambda>fifoOut.
                  Ok (Some \<lparr>io_Name = interfaceName, io_BytesSent = bytesSent, io_BytesRecv = bytesRecv,
                    io_PacketsSent = packetsSent, io_PacketsRecv = packetsRecv, io_Errin = errIn,
                    io_Errout = errOut, io_Dropin = dropIn, io_Dropout = dropOut,
                    io_Fifoin = fifoIn, io_Fifoout = fifoOut\<rparr>)))))))))))))"

text \<open>A value that does not parse ends the loop; the entries read so far are returned with the
  error.\<close>

fun netdev_loop :: "string list \<Rightarrow> io_counters_stat list \<Rightarrow> (io_counters_stat list \<times> gerr option) result" where
  "netdev_loop [] ret = Ok (ret, None)"
| "netdev_loop (line # lines) ret = (case netdev_line line of
     Ok None \<Rightarrow> netdev_loop lines ret
   | Ok (Some nic) \<Rightarrow> netdev_loop lines (ret @ [nic])
   | Err e \<Rightarrow> Ok (ret, Some e)
   | Panic \<Rightarrow> Panic)"

definition IOCountersByFileWithContext ::
    "host \<Rightarrow> bool \<Rightarrow> string \<Rightarrow> (io_counters_stat list \<times> gerr option) result" where
  "IOCountersByFileWithContext h pernic filename = rbind (ReadLines h filename) (\<lambda>lines.
     if length lines < 2 then
       Err (ErrMsg (''malformed '' @ filename @ '': expected at least 2 header lines, got '' @ fmt_nat (length lines)))
     else rbind (netdev_loop (drop 2 lines) []) (\<lambda>(ret, err). case err of
       Some e \<Rightarrow> Ok (ret, Some e)
     | None \<Rightarrow> if pernic then Ok (ret, None) else Ok (getIOCountersAll ret, None)))"

definition IOCountersWithContext :: "host \<Rightarrow> bool \<Rightarrow> (io_counters_stat list \<times> gerr option) result" where
  "IOCountersWithContext h pernic = IOCountersByFileWithContext h pernic (HostProcWithContext h [''net/dev''])"

section \<open>Protocol counters\<close>

definition netProtocols :: "string list" where
  "netProtocols = [''ip'', ''icmp'', ''icmpmsg'', ''tcp'', ''udp'', ''udplite'']"

text \<open>The inner loop; the two slices have the same length.\<close>

fun snmp_stats :: "string list \<Rightarrow> string list \<Rightarrow> (string \<times> int) list \<Rightarrow> (string \<times> int) list result" where
  "snmp_stats (n # ns) (v # vs) stats = rbind (parse_i64 v) (\<lambda>value. snmp_stats ns vs (alist_put n value stats))"
| "snmp_stats _ _ stats = Ok stats"

text \<open>The outer loop advances by two lines. The slice expressions \<^verbatim>\<open>line[r+2:]\<close> and \<^verbatim>\<open>lines[i]\<close> panic when
  the header ends at the colon, the data line is missing or is shorter than the header's name.\<close>

fun snmp_loop :: "string \<Rightarrow> string list \<Rightarrow> string list \<Rightarrow> proto_counters_stat list \<Rightarrow>
    proto_counters_stat list result" where
  "snmp_loop filename protos [] stats = Ok stats"
| "snmp_loop filename protos (line # rest) stats =
     (case index_byte line CHR '':'' of
        None \<Rightarrow> Err (ErrMsg (filename @ '' is not formatted correctly, expected ':'.''))
      | Some r \<Rightarrow>
          (let proto = to_lower (take r line) in
           if proto \<notin> set protos then snmp_loop filename protos (drop 1 rest) stats
           else rbind (slice_from line (r + 2)) (\<lambda>names.
             case rest of [] \<Rightarrow> Panic
             | dline # rest' \<Rightarrow> rbind (slice_from dline (r + 2)) (\<lambda>vals.
                 let statNames = split_char CHR '' '' names; statValues = split_char CHR '' '' vals in
                 if length statNames \<noteq> length statValues then
                   Err (ErrMsg (filename @ '' is not formatted correctly, expected same number of columns.''))
                 else rbind (snmp_stats statNames statValues []) (\<lambda>st.
                   snmp_loop filename protos rest' (stats @ [\<lparr>pc_Protocol = proto, pc_Stats = st\<rparr>]))))))"

definition ProtoCountersWithContext :: "host \<Rightarrow> string list \<Rightarrow> proto_counters_stat list result" where
  "ProtoCountersWithContext h protocols =
     (let protocols = (if protocols = [] then netProtocols else protocols);
          filename = HostProcWithContext h [''net/snmp'']
      in rbind (ReadLines h filename) (\<lambda>lines. snmp_loop filename protocols lines []))"

section \<open>Conntrack\<close>

definition FilterCountersWithContext :: "host \<Rightarrow> filter_stat list result" where
  "FilterCountersWithContext h =
     rbind (ReadInts h (HostProcWithContext h [''sys/net/netfilter/nf_conntrack_count''])) (\<lambda>count.
     rbind (ReadInts h (HostProcWithContext h [''sys/net/netfilter/nf_conntrack_max''])) (\<lambda>maxConn.
     rbind (idx count 0) (\<lambda>c. rbind (idx maxConn 0) (\<lambda>m.
       Ok [\<lparr>fs_ConnTrackCount = c, fs_ConnTrackMax = m\<rparr>]))))"

definition conntrack_line :: "string \<Rightarrow> conntrack_stat list \<Rightarrow> conntrack_stat list" where
  "conntrack_line line statlist =
     (let fs = str_fields line in
      if length fs = 17 \<and> fs ! 0 \<noteq> ''entries'' then
        (let c = (\<lambda>i. HexToUint32 (fs ! i)) in
         ConntrackStatList_Append (NewConntrackStat (c 0) (c 1) (c 2) (c 3) (c 4) (c 5) (c 6) (c 7) (c 8)
           (c 9) (c 10) (c 11) (c 12) (c 13) (c 14) (c 15) (c 16)) statlist)
      else statlist)"

definition conntrackStatsFromFile :: "host \<Rightarrow> string \<Rightarrow> bool \<Rightarrow> conntrack_stat list result" where
  "conntrackStatsFromFile h filename percpu = rbind (ReadLines h filename) (\<lambda>lines.
     let statlist = fold conntrack_line lines NewConntrackStatList in
     Ok (if percpu then ConntrackStatList_Items statlist else ConntrackStatList_Summary statlist))"

definition ConntrackStatsWithContext :: "host \<Rightarrow> bool \<Rightarrow> conntrack_stat list result" where
  "ConntrackStatsWithContext h percpu =
     conntrackStatsFromFile h (HostProcWithContext h [''net/stat/nf_conntrack'']) percpu"

section \<open>Addresses\<close>

abbreviation AF_UNIX :: u32 where "AF_UNIX \<equiv> 1"
abbreviation AF_INET :: u32 where "AF_INET \<equiv> 2"
abbreviation AF_INET6 :: u32 where "AF_INET6 \<equiv> 10"
abbreviation SOCK_STREAM :: u32 where "SOCK_STREAM \<equiv> 1"
abbreviation SOCK_DGRAM :: u32 where "SOCK_DGRAM \<equiv> 2"

text \<open>\<^verbatim>\<open>hex.DecodeString\<close>: two digits of either case per byte.\<close>

fun hex_decode :: "string \<Rightarrow> u8 list option" where
  "hex_decode [] = Some []"
| "hex_decode [_] = None"
| "hex_decode (a # b # s) = (case (digit_of a, digit_of b) of
     (Some x, Some y) \<Rightarrow> (if x < 16 \<and> y < 16
        then map_option ((#) (word_of_nat (16 * x + y))) (hex_decode s) else None)
   | _ \<Rightarrow> None)"

text \<open>Hexadecimal text, without and with leading zeros.\<close>

definition hex_digit :: "nat \<Rightarrow> char" where
  "hex_digit n = char_of (if n < 10 then 48 + n else 87 + n)"

fun fmt_hex :: "nat \<Rightarrow> string" where
  "fmt_hex n = (if n < 16 then [hex_digit n] else fmt_hex (n div 16) @ [hex_digit (n mod 16)])"

declare fmt_hex.simps [simp del]

definition hex_byte :: "u8 \<Rightarrow> string" where
  "hex_byte b = [hex_digit (unat b div 16), hex_digit (unat b mod 16)]"

text \<open>\<^verbatim>\<open>net.IP.String\<close>: dotted decimal, also for an IPv4 address mapped into IPv6; eight groups with the
  first longest run of zeros shortened; other lengths as a question mark and the bytes.\<close>

definition dotted :: "u8 list \<Rightarrow> string" where
  "dotted bs = join ''.'' (map (\<lambda>b. fmt_nat (unat b)) bs)"

fun groups16 :: "u8 list \<Rightarrow> nat list" where
  "groups16 (a # b # bs) = (256 * unat a + unat b) # groups16 bs"
| "groups16 _ = []"

definition zero_run :: "nat list \<Rightarrow> nat \<Rightarrow> nat" where
  "zero_run ws i = length (takeWhile (\<lambda>w. w = 0) (drop i ws))"

definition best_run :: "nat list \<Rightarrow> nat \<times> nat" where
  "best_run ws = foldl (\<lambda>(s, e) i. let l = zero_run ws i in if 2 \<le> l \<and> e - s < l then (i, i + l) else (s, e))
     (0, 0) [0..<8]"

definition ipv6_text :: "nat list \<Rightarrow> string" where
  "ipv6_text ws = (case best_run ws of (s, e) \<Rightarrow>
     if e = 0 then join '':'' (map fmt_hex ws)
     else join '':'' (map fmt_hex (take s ws)) @ ''::'' @ join '':'' (map fmt_hex (drop e ws)))"

definition ip_string :: "u8 list \<Rightarrow> string" where
  "ip_string ip =
     (if ip = [] then ''<nil>''
      else if length ip = 4 then dotted ip
      else if length ip = 16 then
        (if take 12 ip = replicate 10 0 @ [255, 255] then dotted (drop 12 ip) else ipv6_text (groups16 ip))
      else ''?'' @ concat (map hex_byte ip))"

text \<open>The loop of \<^verbatim>\<open>Reverse\<close> swaps in place, with \<open>j = len(s) - 1 - i\<close> counted as \<open>Suc j\<close> so that the empty
  slice needs no negative index.\<close>

function reverse_loop :: "nat \<Rightarrow> nat \<Rightarrow> 'a list \<Rightarrow> 'a list" where
  "reverse_loop i sj s = (if Suc i < sj
     then reverse_loop (Suc i) (sj - 1) (s[i := s ! (sj - 1), sj - 1 := s ! i]) else s)"
  by pat_completeness auto
termination
  by (relation "measure (\<lambda>(i, sj, s). sj - i)") auto

declare reverse_loop.simps [simp del]

definition Reverse :: "'a list \<Rightarrow> 'a list" where
  "Reverse s = reverse_loop 0 (length s) s"

definition parseIPv6HexString :: "u8 list \<Rightarrow> u8 list result" where
  "parseIPv6HexString src =
     (if length src \<noteq> 16 then Err (ErrMsg ''invalid IPv6 string'')
      else Ok (concat (map (\<lambda>i. Reverse (take 4 (drop i src))) [0, 4, 8, 12])))"

definition decodeAddress :: "bool \<Rightarrow> u32 \<Rightarrow> string \<Rightarrow> addr result" where
  "decodeAddress littleEndian family src = (case split_char CHR '':'' src of
     [t0, t1] \<Rightarrow>
       (case parse_uint t1 16 16 of
          (_, Some _) \<Rightarrow> Err (ErrMsg (''invalid port, '' @ src))
        | (port, None) \<Rightarrow> (case hex_decode t0 of
            None \<Rightarrow> Err (ErrMsg ''decode error'')
          | Some decoded \<Rightarrow>
              rbind (if family = AF_INET then Ok (if littleEndian then Reverse decoded else decoded)
                     else parseIPv6HexString decoded)
                (\<lambda>ip. Ok \<lparr>a_IP = ip_string ip, a_Port = word_of_nat port\<rparr>)))
   | _ \<Rightarrow> Err (ErrMsg (''does not contain port, '' @ src)))"

section \<open>Socket tables\<close>

definition tcpStatuses :: "(string \<times> string) list" where
  "tcpStatuses =
     [(''01'', ''ESTABLISHED''), (''02'', ''SYN_SENT''), (''03'', ''SYN_RECV''), (''04'', ''FIN_WAIT1''),
      (''05'', ''FIN_WAIT2''), (''06'', ''TIME_WAIT''), (''07'', ''CLOSE''), (''08'', ''CLOSE_WAIT''),
      (''09'', ''LAST_ACK''), (''0A'', ''LISTEN''), (''0B'', ''CLOSING'')]"

record net_kind =
  k_family :: u32
  k_sockType :: u32
  k_filename :: string

definition kindTCP4 :: net_kind where
  "kindTCP4 = \<lparr>k_family = AF_INET, k_sockType = SOCK_STREAM, k_filename = ''tcp''\<rparr>"

definition kindTCP6 :: net_kind where
  "kindTCP6 = \<lparr>k_family = AF_INET6, k_sockType = SOCK_STREAM, k_filename = ''tcp6''\<rparr>"

definition kindUDP4 :: net_kind where
  "kindUDP4 = \<lparr>k_family = AF_INET, k_sockType = SOCK_DGRAM, k_filename = ''udp''\<rparr>"

definition kindUDP6 :: net_kind where
  "kindUDP6 = \<lparr>k_family = AF_INET6, k_sockType = SOCK_DGRAM, k_filename = ''udp6''\<rparr>"

definition kindUNIX :: net_kind where
  "kindUNIX = \<lparr>k_family = AF_UNIX, k_sockType = 0, k_filename = ''unix''\<rparr>"

definition netConnectionKindMap :: "(string \<times> net_kind list) list" where
  "netConnectionKindMap =
     [(''all'', [kindTCP4, kindTCP6, kindUDP4, kindUDP6, kindUNIX]),
      (''tcp'', [kindTCP4, kindTCP6]), (''tcp4'', [kindTCP4]), (''tcp6'', [kindTCP6]),
      (''udp'', [kindUDP4, kindUDP6]), (''udp4'', [kindUDP4]), (''udp6'', [kindUDP6]),
      (''unix'', [kindUNIX]),
      (''inet'', [kindTCP4, kindTCP6, kindUDP4, kindUDP6]),
      (''inet4'', [kindTCP4, kindUDP4]), (''inet6'', [kindTCP6, kindUDP6])]"

record inode_map =
  im_pid :: int
  im_fd :: u32

type_synonym inodes = "(string \<times> inode_map list) list"

record conn_tmp =
  c_fd :: u32
  c_family :: u32
  c_sockType :: u32
  c_laddr :: addr
  c_raddr :: addr
  c_status :: string
  c_pid :: int
  c_boundPid :: int
  c_path :: string
  c_inode :: string

definition no_addr :: addr where
  "no_addr = \<lparr>a_IP = [], a_Port = 0\<rparr>"

text \<open>One line of an inet table; an inode that is known but has no holder panics.\<close>

definition inet_line :: "bool \<Rightarrow> net_kind \<Rightarrow> inodes \<Rightarrow> int \<Rightarrow> string \<Rightarrow> conn_tmp list \<Rightarrow> conn_tmp list result" where
  "inet_line littleEndian kind inodes filterPid line ret =
     (let l = str_fields line in
      if length l < 10 then Ok ret
      else rbind (case map_of inodes (l ! 9) of None \<Rightarrow> Ok \<lparr>im_pid = 0, im_fd = 0\<rparr> | Some i \<Rightarrow> idx i 0) (\<lambda>i.
        if 0 < filterPid \<and> filterPid \<noteq> im_pid i then Ok ret
        else let status = (if k_sockType kind = SOCK_STREAM
               then (case map_of tcpStatuses (l ! 3) of None \<Rightarrow> [] | Some st \<Rightarrow> st) else ''NONE'')
          in case decodeAddress littleEndian (k_family kind) (l ! 1) of
               Ok la \<Rightarrow> (case decodeAddress littleEndian (k_family kind) (l ! 2) of
                  Ok ra \<Rightarrow> Ok (ret @ [\<lparr>c_fd = im_fd i, c_family = k_family kind, c_sockType = k_sockType kind,
                    c_laddr = la, c_raddr = ra, c_status = status, c_pid = im_pid i, c_boundPid = 0,
                    c_path = [], c_inode = l ! 9\<rparr>])
                | Err _ \<Rightarrow> Ok ret | Panic \<Rightarrow> Panic)
             | Err _ \<Rightarrow> Ok ret | Panic \<Rightarrow> Panic))"

definition processInet :: "host \<Rightarrow> bool \<Rightarrow> string \<Rightarrow> net_kind \<Rightarrow> inodes \<Rightarrow> int \<Rightarrow> conn_tmp list result" where
  "processInet h littleEndian file kind inodes filterPid =
     (if has_suffix file ''6'' \<and> \<not> PathExists h file then Ok []
      else rbind (ReadFile h file) (\<lambda>contents.
        rfold (inet_line littleEndian kind inodes filterPid) (tl (split_char nl contents)) []))"

definition unix_conn :: "net_kind \<Rightarrow> string list \<Rightarrow> int \<Rightarrow> inode_map \<Rightarrow> conn_tmp" where
  "unix_conn kind tokens st pair =
     (let path = (if length tokens = 8 then last tokens else []) in
      \<lparr>c_fd = im_fd pair, c_family = k_family kind, c_sockType = word_of_int st,
       c_laddr = \<lparr>a_IP = path, a_Port = 0\<rparr>, c_raddr = no_addr, c_status = ''NONE'', c_pid = im_pid pair,
       c_boundPid = 0, c_path = path, c_inode = tokens ! 6\<rparr>)"

definition unix_line :: "net_kind \<Rightarrow> inodes \<Rightarrow> int \<Rightarrow> string \<Rightarrow> conn_tmp list \<Rightarrow> conn_tmp list result" where
  "unix_line kind inodes filterPid line ret =
     (let tokens = str_fields line in
      if length tokens < 7 then Ok ret
      else rbind (parse_i32 (tokens ! 4)) (\<lambda>st.
        let pairs = (case map_of inodes (tokens ! 6) of None \<Rightarrow> [\<lparr>im_pid = 0, im_fd = 0\<rparr>] | Some ps \<Rightarrow> ps) in
        Ok (ret @ map (unix_conn kind tokens st)
          (filter (\<lambda>pair. \<not> (0 < filterPid \<and> filterPid \<noteq> im_pid pair)) pairs))))"

definition processUnix :: "host \<Rightarrow> string \<Rightarrow> net_kind \<Rightarrow> inodes \<Rightarrow> int \<Rightarrow> conn_tmp list result" where
  "processUnix h file kind inodes filterPid = rbind (ReadFile h file) (\<lambda>contents.
     rfold (unix_line kind inodes filterPid) (tl (split_char nl contents)) [])"

section \<open>Inodes of the processes\<close>

text \<open>Go iterates over \<open>add\<close> in any order; its keys are different, so that the order does not matter.\<close>

definition updateMap :: "inodes \<Rightarrow> inodes \<Rightarrow> inodes" where
  "updateMap src add = fold (\<lambda>(key, value) src.
     alist_put key (case map_of src key of None \<Rightarrow> value | Some a \<Rightarrow> a @ value) src) add src"

definition isProcessGone :: "gerr \<Rightarrow> bool" where
  "isProcessGone err \<longleftrightarrow> is_permission err \<or> is_not_exist err \<or> err_is err EOF \<or> err_is err ESRCH"

text \<open>\<^verbatim>\<open>ReadDir(n)\<close>: at most \<open>n\<close> entries when \<open>n > 0\<close>, where an empty directory is the end of the file.\<close>

definition read_dir :: "host \<Rightarrow> string \<Rightarrow> int \<Rightarrow> string list result" where
  "read_dir h dir n = rbind (of_sum (h_readdir h dir)) (\<lambda>names.
     if 0 < n then (if names = [] then Err EOF else Ok (take (nat n) names)) else Ok names)"

definition proc_path :: "string \<Rightarrow> int \<Rightarrow> string \<Rightarrow> string" where
  "proc_path procRoot pid rest = procRoot @ ''/'' @ itoa pid @ rest"

definition inode_entry :: "host \<Rightarrow> string \<Rightarrow> int \<Rightarrow> string \<Rightarrow> inodes \<Rightarrow> inodes result" where
  "inode_entry h procRoot pid name ret = (case h_readlink h (proc_path procRoot pid (''/fd/'' @ name)) of
     Inl _ \<Rightarrow> Ok ret
   | Inr link \<Rightarrow>
       if \<not> has_prefix link ''socket:['' then Ok ret
       else if length link \<le> 8 then Panic
       else let inode = drop 8 (butlast link);
                cur = (case map_of ret inode of None \<Rightarrow> [] | Some is \<Rightarrow> is);
                ret = alist_put inode cur ret
         in case parse_i32 name of
              Ok fd \<Rightarrow> Ok (alist_put inode (cur @ [\<lparr>im_pid = pid, im_fd = word_of_int fd\<rparr>]) ret)
            | Err _ \<Rightarrow> Ok ret | Panic \<Rightarrow> Panic)"

definition getProcInodes :: "host \<Rightarrow> string \<Rightarrow> int \<Rightarrow> int \<Rightarrow> inodes result" where
  "getProcInodes h procRoot pid maxConn =
     rbind (read_dir h (proc_path procRoot pid ''/fd'') maxConn) (\<lambda>names.
       rfold (inode_entry h procRoot pid) names [])"

definition PidsWithContext :: "host \<Rightarrow> int list result" where
  "PidsWithContext h = rbind (of_sum (h_readdir h (HostProcWithContext h []))) (\<lambda>fnames.
     Ok (List.map_filter (\<lambda>fname. case parse_i32 fname of Ok pid \<Rightarrow> Some pid | _ \<Rightarrow> None) fnames))"

fun inodes_of_pids :: "host \<Rightarrow> string \<Rightarrow> int \<Rightarrow> int list \<Rightarrow> inodes \<Rightarrow> inodes result" where
  "inodes_of_pids h procRoot maxConn [] ret = Ok ret"
| "inodes_of_pids h procRoot maxConn (pid # pids) ret = (case getProcInodes h procRoot pid maxConn of
     Err e \<Rightarrow> (if isProcessGone e then inodes_of_pids h procRoot maxConn pids ret else Err e)
   | Panic \<Rightarrow> Panic
   | Ok t \<Rightarrow> inodes_of_pids h procRoot maxConn pids (if t = [] then ret else updateMap ret t))"

definition getProcInodesAllWithContext :: "host \<Rightarrow> string \<Rightarrow> int \<Rightarrow> inodes result" where
  "getProcInodesAllWithContext h procRoot maxConn =
     rbind (PidsWithContext h) (\<lambda>pids. inodes_of_pids h procRoot maxConn pids [])"

section \<open>Owners\<close>

fun parse_uids :: "string list \<Rightarrow> int list \<Rightarrow> int list result" where
  "parse_uids [] acc = Ok acc"
| "parse_uids (i # is) acc = rbind (parse_i32 i) (\<lambda>v. parse_uids is (acc @ [v]))"

definition status_uid_line :: "string \<Rightarrow> int list \<Rightarrow> int list result" where
  "status_uid_line line uids = (case split_char_n CHR 0x09 2 line of
     t0 # value # _ \<Rightarrow> (if trim_right_set '':'' t0 = ''Uid'' then parse_uids (split_char CHR 0x09 value) [] else Ok uids)
   | _ \<Rightarrow> Ok uids)"

definition getUids :: "host \<Rightarrow> int \<Rightarrow> int list result" where
  "getUids h pid = rbind (ReadFile h (HostProcWithContext h [itoa pid, ''status''])) (\<lambda>contents.
     rfold status_uid_line (split_char nl contents) [])"

section \<open>Connections\<close>

definition connectionDedupKey :: "u32 \<Rightarrow> conn_tmp \<Rightarrow> string" where
  "connectionDedupKey family c =
     (let num = (\<lambda>w :: u32. fmt_nat (unat w));
          tail = num (c_sockType c) @ ''-'' @ a_IP (c_laddr c) @ '':'' @ num (a_Port (c_laddr c)) @ ''-'' @
            a_IP (c_raddr c) @ '':'' @ num (a_Port (c_raddr c)) @ ''-'' @ c_status c
      in if family = AF_UNIX
         then itoa (c_pid c) @ ''-'' @ num (c_fd c) @ ''-'' @ c_inode c @ ''-'' @ tail
         else tail)"

text \<open>\<^verbatim>\<open>conn.Uids, _ = proc.getUids(ctx)\<close>: an error leaves an empty list; no call leaves the nil slice.\<close>

definition conn_of_tmp :: "host \<Rightarrow> bool \<Rightarrow> conn_tmp \<Rightarrow> connection_stat" where
  "conn_of_tmp h skipUids c =
     (let pid = (if c_pid c = 0 then c_boundPid c else c_pid c) in
      \<lparr>cs_Fd = c_fd c, cs_Family = c_family c, cs_Type = c_sockType c, cs_Laddr = c_laddr c,
       cs_Raddr = c_raddr c, cs_Status = c_status c,
       cs_Uids = (if skipUids then [] else case getUids h pid of Ok us \<Rightarrow> us | _ \<Rightarrow> []),
       cs_Pid = pid\<rparr>)"

text \<open>The inner loop keeps the first connection of every key; \<open>seen\<close> is \<^verbatim>\<open>dupCheckMap\<close>.\<close>

fun dedup_loop :: "host \<Rightarrow> bool \<Rightarrow> u32 \<Rightarrow> conn_tmp list \<Rightarrow> string list \<times> connection_stat list \<Rightarrow>
    string list \<times> connection_stat list" where
  "dedup_loop h skipUids family [] acc = acc"
| "dedup_loop h skipUids family (c # cs) (seen, ret) =
     (let key = connectionDedupKey family c in
      if key \<in> set seen then dedup_loop h skipUids family cs (seen, ret)
      else dedup_loop h skipUids family cs (seen @ [key], ret @ [conn_of_tmp h skipUids c]))"

definition kind_conns :: "host \<Rightarrow> bool \<Rightarrow> string \<Rightarrow> int \<Rightarrow> inodes \<Rightarrow> net_kind \<Rightarrow> conn_tmp list result" where
  "kind_conns h littleEndian procRoot pid inodes t =
     (let path = (if pid = 0 then procRoot @ ''/net/'' @ k_filename t else proc_path procRoot pid (''/net/'' @ k_filename t)) in
      if k_family t = AF_INET \<or> k_family t = AF_INET6 then processInet h littleEndian path t inodes pid
      else if k_family t = AF_UNIX then processUnix h path t inodes pid
      else Ok [])"

definition statsFromInodesWithContext ::
    "host \<Rightarrow> bool \<Rightarrow> string \<Rightarrow> int \<Rightarrow> net_kind list \<Rightarrow> inodes \<Rightarrow> bool \<Rightarrow> connection_stat list result" where
  "statsFromInodesWithContext h littleEndian procRoot pid tmap inodes skipUids =
     rbind (rfold (\<lambda>t acc. rbind (kind_conns h littleEndian procRoot pid inodes t)
       (\<lambda>ls. Ok (dedup_loop h skipUids (k_family t) ls acc))) tmap ([], [])) (\<lambda>(_, ret). Ok ret)"

definition connectionsPidMaxWithoutUidsWithContext ::
    "host \<Rightarrow> bool \<Rightarrow> string \<Rightarrow> int \<Rightarrow> int \<Rightarrow> bool \<Rightarrow> connection_stat list result" where
  "connectionsPidMaxWithoutUidsWithContext h littleEndian kind pid maxConn skipUids =
     (case map_of netConnectionKindMap kind of
        None \<Rightarrow> Err (ErrMsg (''invalid kind, '' @ kind))
      | Some tmap \<Rightarrow>
          (let procRoot = HostProcWithContext h [] in
           if pid = 0 then
             (case getProcInodesAllWithContext h procRoot maxConn of
                Ok inodes \<Rightarrow> statsFromInodesWithContext h littleEndian procRoot pid tmap inodes skipUids
              | Err e \<Rightarrow> Err (ErrWrap (''could not get pid(s), '' @ itoa pid) e)
              | Panic \<Rightarrow> Panic)
           else
             (case getProcInodes h procRoot pid maxConn of
                Ok inodes \<Rightarrow> (if inodes = [] then Ok []
                  else statsFromInodesWithContext h littleEndian procRoot pid tmap inodes skipUids)
              | Err _ \<Rightarrow> Ok []
              | Panic \<Rightarrow> Panic)))"

definition ConnectionsPidMaxWithContext :: "host \<Rightarrow> bool \<Rightarrow> string \<Rightarrow> int \<Rightarrow> int \<Rightarrow> connection_stat list result" where
  "ConnectionsPidMaxWithContext h le kind pid maxConn =
     connectionsPidMaxWithoutUidsWithContext h le kind pid maxConn False"

definition ConnectionsPidMaxWithoutUidsWithContext ::
    "host \<Rightarrow> bool \<Rightarrow> string \<Rightarrow> int \<Rightarrow> int \<Rightarrow> connection_stat list result" where
  "ConnectionsPidMaxWithoutUidsWithContext h le kind pid maxConn =
     connectionsPidMaxWithoutUidsWithContext h le kind pid maxConn True"

definition ConnectionsPidWithContext :: "host \<Rightarrow> bool \<Rightarrow> string \<Rightarrow> int \<Rightarrow> connection_stat list result" where
  "ConnectionsPidWithContext h le kind pid = ConnectionsPidMaxWithContext h le kind pid 0"

definition ConnectionsWithContext :: "host \<Rightarrow> bool \<Rightarrow> string \<Rightarrow> connection_stat list result" where
  "ConnectionsWithContext h le kind = ConnectionsPidWithContext h le kind 0"

section \<open>Addresses are decoded as the kernel prints them\<close>

lemma reverse_loop_nth:
  assumes "sj \<le> length s" and "i \<le> sj"
  shows "length (reverse_loop i sj s) = length s" and
    "k < length s \<Longrightarrow> reverse_loop i sj s ! k = (if i \<le> k \<and> k < sj then s ! (i + sj - Suc k) else s ! k)"
  using assms
proof (induction i sj s arbitrary: k rule: reverse_loop.induct)
  case (1 i sj s)
  let ?t = "s[i := s ! (sj - 1), sj - 1 := s ! i]"
  {
    case 1
    then show ?case using "1.IH"(1) by (subst reverse_loop.simps) (auto split: if_splits)
  next
    case 2
    show ?case
    proof (cases "Suc i < sj")
      case True
      then have *: "reverse_loop i sj s ! k = (if Suc i \<le> k \<and> k < sj - 1 then ?t ! (Suc i + (sj - 1) - Suc k) else ?t ! k)"
        using "1.IH"(2) [OF True] 2 by (subst reverse_loop.simps) simp
      consider "k = i" | "k = sj - 1" | "i < k" "k < sj - 1" | "k < i \<or> sj \<le> k" by linarith
      then show ?thesis
      proof cases
        case 1
        with True have "i \<noteq> sj - 1" "i + sj - Suc i = sj - 1" "i < sj" by auto
        with * 1 2 show ?thesis by simp
      next
        case 2
        with True have "i + sj - Suc k = i" "i \<le> k" "k < sj" by auto
        with * 2 \<open>k < length s\<close> show ?thesis by simp
      next
        case 4
        with True have "k \<noteq> i" "k \<noteq> sj - 1" by auto
        with * 4 show ?thesis by auto
      next
        case 3
        then have "k < sj" "i \<le> k" "i < i + sj - Suc k" "i + sj - Suc k < sj - 1" "Suc i + (sj - 1) - Suc k = i + sj - Suc k" by auto
        with * 3 show ?thesis by (simp add: nth_list_update)
      qed
    next
      case False
      then have "i \<le> k \<and> k < sj \<Longrightarrow> i + sj - Suc k = k" by auto
      with False show ?thesis by (subst reverse_loop.simps) auto
    qed
  }
qed

lemma Reverse_rev: "Reverse s = rev s"
  by (rule nth_equalityI) (simp_all add: Reverse_def reverse_loop_nth rev_nth)

text \<open>A byte and a 16-bit number as the kernel prints them, with \<^verbatim>\<open>%02X\<close> and \<^verbatim>\<open>%04X\<close>.\<close>

definition HEX_digit :: "nat \<Rightarrow> char" where
  "HEX_digit n = char_of (if n < 10 then 48 + n else 55 + n)"

definition HEX_byte :: "u8 \<Rightarrow> string" where
  "HEX_byte b = [HEX_digit (unat b div 16), HEX_digit (unat b mod 16)]"

definition HEX_port :: "u16 \<Rightarrow> string" where
  "HEX_port p = (let n = unat p in map HEX_digit [n div 4096, n div 256 mod 16, n div 16 mod 16, n mod 16])"

lemma digit_of_HEX: "n < 16 \<Longrightarrow> digit_of (HEX_digit n) = Some n"
  by (auto simp: digit_of_def HEX_digit_def Let_def of_char_of)

lemma HEX_not_colon: "n < 16 \<Longrightarrow> HEX_digit n \<noteq> CHR '':'' \<and> HEX_digit n \<noteq> CHR ''_''"
  using digit_of_HEX [of n] by (auto simp: digit_of_def)

lemma hex_decode_HEX: "hex_decode (concat (map HEX_byte bs)) = Some bs"
proof (induction bs)
  case (Cons b bs)
  have "unat b < 256" using unsigned_less [of b, where 'a=nat] by simp
  then have "unat b div 16 < 16" by auto
  with Cons show ?case
    by (simp add: HEX_byte_def digit_of_HEX)
qed simp

lemma parse_HEX_port: "parse_uint (HEX_port p) 16 16 = (unat p, None)"
proof -
  define n where "n = unat p"
  have n: "n < 65536" using unsigned_less [of p, where 'a=nat] by (simp add: n_def)
  have d: "n div 4096 < 16" "n div 256 mod 16 < 16" "n div 16 mod 16 < 16" "n mod 16 < 16"
    using n by auto
  have e1: "n div 4096 * 16 + n div 256 mod 16 = n div 256"
    using div_mult_mod_eq [of "n div 256" 16] by (simp add: div_mult2_eq [symmetric])
  have e2: "n div 256 * 16 + n div 16 mod 16 = n div 16"
    using div_mult_mod_eq [of "n div 16" 16] by (simp add: div_mult2_eq [symmetric])
  have e3: "n div 16 * 16 + n mod 16 = n" by simp
  have "n div 256 \<le> n" "n div 16 \<le> n" "n div 4096 \<le> n" by simp_all
  with n have le: "n div 256 \<le> 65535" "n div 16 \<le> 65535" "n div 4096 \<le> 65535" "n \<le> 65535" by linarith+
  have "parse_digits 16 65535 False (HEX_port p) 0 False = Inr (n, False)"
    using d le by (simp add: HEX_port_def Let_def n_def [symmetric] digit_of_HEX HEX_not_colon e1 e2 e3 not_le)
  moreover have "HEX_port p \<noteq> []" by (simp add: HEX_port_def Let_def)
  ultimately show ?thesis by (simp add: parse_uint_def base_prefix_def n_def)
qed

lemma HEX_no_colon: "CHR '':'' \<notin> set (concat (map HEX_byte bs))" "CHR '':'' \<notin> set (HEX_port p)"
proof -
  have "unat b div 16 < 16" for b :: u8 using unsigned_less [of b, where 'a=nat] by (simp add: less_mult_imp_div_less)
  then show "CHR '':'' \<notin> set (concat (map HEX_byte bs))"
    using HEX_not_colon by (auto simp: HEX_byte_def dest: sym)
  have "unat p div 4096 < 16" using unsigned_less [of p, where 'a=nat] by (simp add: less_mult_imp_div_less)
  then show "CHR '':'' \<notin> set (HEX_port p)"
    using HEX_not_colon by (auto simp: HEX_port_def Let_def dest: sym)
qed

text \<open>The kernel prints each 32-bit word of an address in the byte order of the machine; \<open>swap32\<close> is
  the order on a little-endian one.\<close>

definition swap32 :: "u8 list \<Rightarrow> u8 list" where
  "swap32 bs = concat (map (\<lambda>i. rev (take 4 (drop i bs))) [0, 4, 8, 12])"

definition kernel_addr :: "u8 list \<Rightarrow> u16 \<Rightarrow> string" where
  "kernel_addr bs port = concat (map HEX_byte bs) @ '':'' @ HEX_port port"

lemma split_kernel_addr: "split_char CHR '':'' (kernel_addr bs port) = [concat (map HEX_byte bs), HEX_port port]"
  using HEX_no_colon by (simp add: kernel_addr_def split_char_append)

lemma length_16E:
  assumes "length bs = 16"
  obtains b0 b1 b2 b3 b4 b5 b6 b7 b8 b9 b10 b11 b12 b13 b14 b15 where
    "bs = [b0, b1, b2, b3, b4, b5, b6, b7, b8, b9, b10, b11, b12, b13, b14, b15]"
  using assms by (auto simp: eval_nat_numeral length_Suc_conv)

lemma swap32_swap32: "length bs = 16 \<Longrightarrow> length (swap32 bs) = 16 \<and> swap32 (swap32 bs) = bs"
  by (erule length_16E) (simp add: swap32_def)

text \<open>C34: on a little-endian machine, \<^verbatim>\<open>decodeAddress\<close> recovers the IPv4 or IPv6 address and the port
  from the text the kernel prints for a socket.\<close>

theorem decodeAddress_roundtrip:
  "length ip4 = 4 \<Longrightarrow> length ip6 = 16 \<Longrightarrow>
   decodeAddress True AF_INET (kernel_addr (rev ip4) port) = Ok \<lparr>a_IP = dotted ip4, a_Port = ucast port\<rparr> \<and>
   decodeAddress True AF_INET6 (kernel_addr (swap32 ip6) port) = Ok \<lparr>a_IP = ip_string ip6, a_Port = ucast port\<rparr>"
proof -
  assume a: "length ip4 = 4" and b: "length ip6 = 16"
  have "parseIPv6HexString bs = Ok (swap32 bs)" if "length bs = 16" for bs
    using that by (simp add: parseIPv6HexString_def Reverse_rev swap32_def)
  with swap32_swap32 [OF b] have v6: "parseIPv6HexString (swap32 ip6) = Ok ip6" by simp
  have "ip_string ip4 = dotted ip4" using a by (auto simp: ip_string_def)
  moreover have "(word_of_nat (unat port) :: u32) = ucast port" by (simp add: unsigned_ucast_eq)
  ultimately show ?thesis
    by (simp add: decodeAddress_def split_kernel_addr parse_HEX_port hex_decode_HEX Reverse_rev v6)
qed

theorem decodeAddress_roundtrip_witness:
  "decodeAddress True AF_INET ''0500000A:0016'' = Ok \<lparr>a_IP = ''10.0.0.5'', a_Port = 22\<rparr> \<and>
   decodeAddress True AF_INET6 ''0085002452100113070057A13F025401:0016'' =
     Ok \<lparr>a_IP = ''2400:8500:1301:1052:a157:7:154:23f'', a_Port = 22\<rparr>"
proof -
  let ?v4 = "[10, 0, 0, 5] :: u8 list"
  let ?v6 = "[36, 0, 133, 0, 19, 1, 16, 82, 161, 87, 0, 7, 1, 84, 2, 63] :: u8 list"
  have "kernel_addr (rev ?v4) 22 = ''0500000A:0016''" "dotted ?v4 = ''10.0.0.5''"
    "kernel_addr (swap32 ?v6) 22 = ''0085002452100113070057A13F025401:0016''"
    "ip_string ?v6 = ''2400:8500:1301:1052:a157:7:154:23f''"
    by code_simp+
  with decodeAddress_roundtrip [of ?v4 ?v6 22] show ?thesis by simp
qed

section \<open>Interface counters\<close>

text \<open>The totals of \<^verbatim>\<open>IOCounters(false)\<close> are the sums of the entries of \<^verbatim>\<open>IOCounters(true)\<close> on the same
  system, one entry named \<^verbatim>\<open>all\<close>.\<close>

theorem IOCounters_all_is_sum:
  assumes "IOCountersWithContext h True = Ok (nics, None)"
  shows "\<exists>r. IOCountersWithContext h False = Ok ([r], None) \<and> io_Name r = ''all'' \<and>
    map (\<lambda>sel. sel r) io_columns = map (\<lambda>sel. \<Sum>n\<leftarrow>nics. sel n) io_columns"
proof -
  have "IOCountersWithContext h False = Ok (getIOCountersAll nics, None)"
    using assms by (auto simp: IOCountersWithContext_def IOCountersByFileWithContext_def outcome_iff
        split: if_splits option.splits prod.splits)
  with io_all_totals [of nics] show ?thesis by (auto simp: getIOCountersAll_def)
qed

text \<open>A row of \<^verbatim>\<open>/proc/net/dev\<close>: the interface, eight counters received and eight sent, of which
  frames, compressed and multicast are not reported.\<close>

definition netdev_row :: "string \<Rightarrow> u64 list \<Rightarrow> string" where
  "netdev_row name vs = ''  '' @ name @ '': '' @ join '' '' (map (\<lambda>v. fmt_nat (unat v)) vs)"

definition netdev_meaning :: "string \<Rightarrow> u64 list \<Rightarrow> io_counters_stat" where
  "netdev_meaning name vs =
     \<lparr>io_Name = name, io_BytesSent = vs ! 8, io_BytesRecv = vs ! 0, io_PacketsSent = vs ! 9, io_PacketsRecv = vs ! 1,
      io_Errin = vs ! 2, io_Errout = vs ! 10, io_Dropin = vs ! 3, io_Dropout = vs ! 11, io_Fifoin = vs ! 4,
      io_Fifoout = vs ! 12\<rparr>"

lemma fields_of_counters:
  "str_fields (join '' '' (map (\<lambda>v. fmt_nat (unat v)) (vs :: u64 list))) = map (\<lambda>v. fmt_nat (unat v)) vs"
  by (rule fields_join) auto

lemma digits_no_colon: "CHR '':'' \<notin> set (join '' '' (map (\<lambda>v. fmt_nat (f v)) vs))"
proof -
  have "CHR '':'' \<notin> set (fmt_nat n)" for n
    using decimal_fmt_nat [of n] by (auto simp: decimal_def list_all_iff is_digit_def)
  then show ?thesis using set_join [of "'' ''" "map (\<lambda>v. fmt_nat (f v)) vs"] by auto
qed

lemma netdev_line_row:
  assumes "plain name" and "name \<noteq> []" and "13 \<le> length vs"
  shows "netdev_line (netdev_row name vs) = Ok (Some (netdev_meaning name vs))"
proof -
  let ?ws = "map (\<lambda>v. fmt_nat (unat v)) vs"
  have row: "netdev_row name vs = (''  '' @ name) @ CHR '':'' # '' '' @ join '' '' ?ws" by (simp add: netdev_row_def)
  have "last_index_byte (netdev_row name vs) CHR '':'' = Some (length name + 2)"
    unfolding row using digits_no_colon [of unat vs] by (subst last_index_byte_append) simp_all
  moreover have "trim_space (take (length name + 2) (netdev_row name vs)) = name"
    using assms(1) by (simp add: row is_ascii_space_def)
  moreover have "trim_space (drop (Suc (length name + 2)) (netdev_row name vs)) = join '' '' ?ws"
  proof -
    have "drop (Suc (length name + 2)) (netdev_row name vs) = CHR '' '' # join '' '' ?ws" by (simp add: row)
    moreover have "trim_space (join '' '' ?ws) = join '' '' ?ws"
      using assms(3) by (intro trim_space_join) auto
    ultimately show ?thesis by (simp add: is_ascii_space_def)
  qed
  moreover have "?ws ! 0 = fmt_nat (unat (vs ! 0))" using assms(3) by (intro nth_map) linarith
  ultimately show ?thesis
    using assms(2,3) by (simp add: netdev_line_def fields_of_counters netdev_meaning_def)
qed

text \<open>\<^verbatim>\<open>IOCounters(true)\<close> reads back the table the kernel prints, one entry per interface in order,
  every counter from its own column, also when an interface name contains colons.\<close>

theorem IOCounters_roundtrip:
  assumes "ReadLines h (HostProcWithContext h [''net/dev'']) =
      Ok (h1 # h2 # map (\<lambda>(name, vs). netdev_row name vs) rows)"
    and "list_all (\<lambda>(name, vs). plain name \<and> name \<noteq> [] \<and> 13 \<le> length vs) rows"
  shows "IOCountersWithContext h True = Ok (map (\<lambda>(name, vs). netdev_meaning name vs) rows, None)"
proof -
  have "netdev_loop (map (\<lambda>(name, vs). netdev_row name vs) rows) acc =
      Ok (acc @ map (\<lambda>(name, vs). netdev_meaning name vs) rows, None)" for acc
    using assms(2) by (induction rows arbitrary: acc) (auto simp: netdev_line_row)
  with assms(1) show ?thesis
    by (simp add: IOCountersWithContext_def IOCountersByFileWithContext_def)
qed

definition netdev_host :: host where
  "netdev_host = with_files [(''/proc/net/dev'', unlines [''Inter-|'', '' face |'',
     netdev_row ''eth0:1'' [1, 2, 3, 4, 5, 6, 7, 8, 9, 10, 11, 12, 13, 14, 15, 16]])]"

lemma netdev_host_lines: "ReadLines netdev_host (HostProcWithContext netdev_host [''net/dev'']) =
    Ok (''Inter-|'' # '' face |'' # map (\<lambda>(name, vs). netdev_row name vs)
      [(''eth0:1'', [1, 2, 3, 4, 5, 6, 7, 8, 9, 10, 11, 12, 13, 14, 15, 16])])"
  by code_simp

theorem IOCounters_roundtrip_witness:
  "\<exists>nic. IOCountersWithContext netdev_host True = Ok ([nic], None) \<and> io_Name nic = ''eth0:1'' \<and>
    io_BytesSent nic = 9 \<and> io_Fifoout nic = 13"
  using IOCounters_roundtrip [OF netdev_host_lines]
  by (simp add: netdev_meaning_def is_ascii_space_def)

theorem IOCounters_all_is_sum_witness:
  "\<exists>nics r. IOCountersWithContext netdev_host True = Ok (nics, None) \<and>
    IOCountersWithContext netdev_host False = Ok ([r], None) \<and> io_Name r = ''all'' \<and> nics \<noteq> []"
proof -
  let ?nics = "[netdev_meaning ''eth0:1'' [1, 2, 3, 4, 5, 6, 7, 8, 9, 10, 11, 12, 13, 14, 15, 16]]"
  have "netdev_loop [netdev_row ''eth0:1'' [1, 2, 3, 4, 5, 6, 7, 8, 9, 10, 11, 12, 13, 14, 15, 16]] [] = Ok (?nics, None)"
    by (simp add: netdev_line_row is_ascii_space_def)
  then have "IOCountersWithContext netdev_host True = Ok (?nics, None)"
    using netdev_host_lines by (simp add: IOCountersWithContext_def IOCountersByFileWithContext_def)
  with IOCounters_all_is_sum [OF this] show ?thesis by blast
qed

section \<open>Holders of the sockets\<close>

lemma map_of_updateMap_notin: "key \<notin> fst ` set add \<Longrightarrow> map_of (updateMap src add) key = map_of src key"
  unfolding updateMap_def by (induction add arbitrary: src) (auto split: prod.splits)

lemma updateMap_Cons: "updateMap src ((k, v) # add) =
    updateMap (alist_put k (case map_of src k of None \<Rightarrow> v | Some a \<Rightarrow> a @ v) src) add"
  by (simp add: updateMap_def)

lemma map_of_updateMap:
  assumes "distinct (map fst add)"
  shows "map_of (updateMap src add) key = (case map_of add key of
     None \<Rightarrow> map_of src key
   | Some v \<Rightarrow> Some (case map_of src key of None \<Rightarrow> v | Some a \<Rightarrow> a @ v))"
  using assms
proof (induction add arbitrary: src)
  case Nil
  then show ?case by (simp add: updateMap_def)
next
  case (Cons p add)
  obtain k v where p: "p = (k, v)" by (cases p)
  show ?case
  proof (cases "key = k")
    case True
    then have "key \<notin> fst ` set add" using Cons.prems p by auto
    with True p show ?thesis by (simp add: updateMap_Cons map_of_updateMap_notin)
  next
    case False
    with Cons p show ?thesis by (simp add: updateMap_Cons split: option.split)
  qed
qed

text \<open>Well-formed inode maps: every key once, every socket with a holder, all holders among the given
  processes.\<close>

definition holders_ok :: "int set \<Rightarrow> inodes \<Rightarrow> bool" where
  "holders_ok pids m \<longleftrightarrow> distinct (map fst m) \<and>
     (\<forall>k is. map_of m k = Some is \<longrightarrow> is \<noteq> [] \<and> im_pid ` set is \<subseteq> pids)"

lemma holders_ok_Nil [simp]: "holders_ok pids []"
  by (simp add: holders_ok_def)

lemma holders_ok_put:
  "holders_ok pids m \<Longrightarrow> is \<noteq> [] \<Longrightarrow> im_pid ` set is \<subseteq> pids \<Longrightarrow> holders_ok pids (alist_put k is m)"
  by (auto simp: holders_ok_def distinct_alist_put)

lemma holders_ok_mono: "holders_ok pids m \<Longrightarrow> pids \<subseteq> pids' \<Longrightarrow> holders_ok pids' m"
  unfolding holders_ok_def by blast

text \<open>What the kernel guarantees about \<^verbatim>\<open>/proc/<pid>/fd\<close>: the entries are numbers and a socket link is
  closed by a bracket.\<close>

definition fd_names_numeric :: "host \<Rightarrow> string \<Rightarrow> bool" where
  "fd_names_numeric h procRoot \<longleftrightarrow> (\<forall>pid names. h_readdir h (proc_path procRoot pid ''/fd'') = Inr names \<longrightarrow>
     list_all (\<lambda>name. \<exists>fd. parse_i32 name = Ok fd) names)"

definition socket_links_closed :: "host \<Rightarrow> bool" where
  "socket_links_closed h \<longleftrightarrow> (\<forall>path link. h_readlink h path = Inr link \<and> has_prefix link ''socket:['' \<longrightarrow> 8 < length link)"

lemma inode_entry_ok:
  assumes "socket_links_closed h" and "parse_i32 name = Ok fd" and "holders_ok {pid} m"
  shows "\<exists>m'. inode_entry h procRoot pid name m = Ok m' \<and> holders_ok {pid} m'"
proof (cases "h_readlink h (proc_path procRoot pid (''/fd/'' @ name))")
  case (Inr link)
  show ?thesis
  proof (cases "has_prefix link ''socket:[''")
    case True
    then have l: "8 < length link" using assms(1) Inr by (auto simp: socket_links_closed_def)
    let ?i = "drop 8 (butlast link)"
    let ?cur = "case map_of m ?i of None \<Rightarrow> [] | Some is \<Rightarrow> is"
    have "im_pid ` set ?cur \<subseteq> {pid}"
      using assms(3) unfolding holders_ok_def by (cases "map_of m ?i") (simp, metis option.simps(5))
    then have "holders_ok {pid} (alist_put ?i (?cur @ [\<lparr>im_pid = pid, im_fd = word_of_int fd\<rparr>]) m)"
      using assms(3) by (intro holders_ok_put) auto
    with True l Inr assms(2) show ?thesis by (simp add: inode_entry_def Let_def)
  qed (use Inr assms(3) in \<open>simp add: inode_entry_def\<close>)
qed (use assms(3) in \<open>simp add: inode_entry_def\<close>)

lemma inode_entries_ok:
  assumes "socket_links_closed h" and "list_all (\<lambda>name. \<exists>fd. parse_i32 name = Ok fd) names" and "holders_ok {pid} m"
  shows "\<exists>m'. rfold (inode_entry h procRoot pid) names m = Ok m' \<and> holders_ok {pid} m'"
  using assms(2,3)
proof (induction names arbitrary: m)
  case (Cons name names)
  then obtain fd where "parse_i32 name = Ok fd" by auto
  from inode_entry_ok [OF assms(1) this Cons.prems(2)]
  obtain m' where "inode_entry h procRoot pid name m = Ok m'" "holders_ok {pid} m'" by blast
  with Cons show ?case by simp
qed simp

lemma getProcInodes_ok:
  assumes "socket_links_closed h" and "fd_names_numeric h procRoot"
  shows "getProcInodes h procRoot pid maxConn \<noteq> Panic"
    and "getProcInodes h procRoot pid maxConn = Ok m \<Longrightarrow> holders_ok {pid} m"
proof -
  have "(\<exists>e. getProcInodes h procRoot pid maxConn = Err e) \<or>
    (\<exists>m. getProcInodes h procRoot pid maxConn = Ok m \<and> holders_ok {pid} m)"
  proof (cases "read_dir h (proc_path procRoot pid ''/fd'') maxConn")
    case (Ok names)
    then have "list_all (\<lambda>name. \<exists>fd. parse_i32 name = Ok fd) names"
      using assms(2) by (auto simp: read_dir_def fd_names_numeric_def outcome_iff list_all_iff
          split: if_splits dest: in_set_takeD)
    with inode_entries_ok [OF assms(1) this holders_ok_Nil, of procRoot pid] Ok show ?thesis
      by (auto simp: getProcInodes_def)
  next
    case Panic
    then show ?thesis by (auto simp: read_dir_def rbind_Panic_iff split: if_splits)
  qed (simp add: getProcInodes_def)
  then show "getProcInodes h procRoot pid maxConn \<noteq> Panic"
    and "getProcInodes h procRoot pid maxConn = Ok m \<Longrightarrow> holders_ok {pid} m" by auto
qed

lemma distinct_updateMap: "distinct (map fst src) \<Longrightarrow> distinct (map fst (updateMap src add))"
proof (induction add arbitrary: src)
  case (Cons p add)
  then show ?case by (cases p) (simp add: updateMap_Cons distinct_alist_put del: map_of_alist_put)
qed (simp add: updateMap_def)

lemma holders_ok_updateMap:
  assumes "holders_ok UNIV src" and "holders_ok UNIV add"
  shows "holders_ok UNIV (updateMap src add)"
  using assms by (simp add: holders_ok_def map_of_updateMap distinct_updateMap split: option.splits)

lemma inodes_of_pids_ok:
  assumes "socket_links_closed h" and "fd_names_numeric h procRoot" and "holders_ok UNIV m"
  shows "inodes_of_pids h procRoot maxConn pids m \<noteq> Panic \<and>
    (\<forall>m'. inodes_of_pids h procRoot maxConn pids m = Ok m' \<longrightarrow> holders_ok UNIV m')"
  using assms(3)
proof (induction pids arbitrary: m)
  case (Cons pid pids)
  show ?case
  proof (cases "getProcInodes h procRoot pid maxConn")
    case (Ok t)
    then have "holders_ok UNIV t"
      using getProcInodes_ok(2) [OF assms(1,2) Ok] holders_ok_mono by blast
    then have "holders_ok UNIV (if t = [] then m else updateMap m t)"
      using Cons.prems by (simp add: holders_ok_updateMap)
    from Cons.IH [OF this] Ok show ?thesis by simp
  next
    case (Err e)
    with Cons show ?thesis by simp
  next
    case Panic
    with getProcInodes_ok(1) [OF assms(1,2)] show ?thesis by blast
  qed
qed simp

lemma decodeAddress_no_Panic [simp]: "decodeAddress le family src \<noteq> Panic"
  by (auto simp: decodeAddress_def parseIPv6HexString_def rbind_Panic_iff
      split: list.splits prod.splits option.splits if_splits)

lemma inet_line_no_Panic:
  assumes "holders_ok pids m"
  shows "inet_line le kind m filterPid line ret \<noteq> Panic"
proof -
  have "map_of m k = Some is \<Longrightarrow> is \<noteq> []" for k "is" using assms by (simp add: holders_ok_def)
  then show ?thesis
    by (auto simp: inet_line_def Let_def rbind_Panic_iff idx_def split: option.splits result.splits if_splits)
qed

lemma kind_conns_no_Panic:
  assumes "holders_ok pids m"
  shows "kind_conns h le procRoot pid m t \<noteq> Panic"
proof -
  have "ReadFile h f \<noteq> Panic" for f by (auto simp: ReadFile_def split: sum.splits option.splits)
  moreover have "unix_line kind m pid line ret \<noteq> Panic" for kind line ret
    by (simp add: unix_line_def Let_def rbind_Panic_iff)
  ultimately show ?thesis
    by (auto simp: kind_conns_def Let_def processInet_def processUnix_def rbind_Panic_iff
        inet_line_no_Panic [OF assms] rfold_no_Panic)
qed

lemma statsFromInodes_no_Panic:
  assumes "holders_ok pids m"
  shows "statsFromInodesWithContext h le procRoot pid tmap m skipUids \<noteq> Panic"
  using kind_conns_no_Panic [OF assms]
  by (auto simp: statsFromInodesWithContext_def rbind_Panic_iff intro!: rfold_no_Panic)

text \<open>C33: as long as the entries of \<^verbatim>\<open>/proc/<pid>/fd\<close> are numbers and socket links are closed by a
  bracket, listing connections never panics, for any kind, process and limit, whatever the
  socket tables contain.\<close>

theorem connections_no_panic:
  assumes "fd_names_numeric h (HostProcWithContext h [])" and "socket_links_closed h"
  shows "connectionsPidMaxWithoutUidsWithContext h le kind pid maxConn skipUids \<noteq> Panic"
proof -
  let ?p = "HostProcWithContext h []"
  have one: "getProcInodes h ?p pid maxConn \<noteq> Panic" by (rule getProcInodes_ok(1) [OF assms(2,1)])
  have all: "getProcInodesAllWithContext h ?p maxConn \<noteq> Panic"
    "getProcInodesAllWithContext h ?p maxConn = Ok m \<Longrightarrow> holders_ok UNIV m" for m
    using inodes_of_pids_ok [OF assms(2,1) holders_ok_Nil]
    by (auto simp: getProcInodesAllWithContext_def PidsWithContext_def outcome_iff)
  have stats: "statsFromInodesWithContext h le ?p pid tmap m skipUids \<noteq> Panic"
    if "getProcInodesAllWithContext h ?p maxConn = Ok m \<or> getProcInodes h ?p pid maxConn = Ok m" for m tmap
    using that all(2) getProcInodes_ok(2) [OF assms(2,1)] statsFromInodes_no_Panic by blast
  show ?thesis
    using one all(1) stats
    by (auto simp: connectionsPidMaxWithoutUidsWithContext_def Let_def split: option.splits result.splits)
qed

section \<open>Connections of one process\<close>

lemma inet_line_pid:
  assumes "inet_line le kind m pid line ret = Ok ret'" and "0 < pid" and "\<forall>c \<in> set ret. c_pid c = pid"
  shows "\<forall>c \<in> set ret'. c_pid c = pid"
  using assms by (auto simp: inet_line_def Let_def outcome_iff split: if_splits result.splits)

lemma unix_line_pid:
  assumes "unix_line kind m pid line ret = Ok ret'" and "0 < pid" and "\<forall>c \<in> set ret. c_pid c = pid"
  shows "\<forall>c \<in> set ret'. c_pid c = pid"
  using assms by (auto simp: unix_line_def unix_conn_def Let_def outcome_iff split: if_splits)

lemma kind_conns_pid:
  assumes "kind_conns h le procRoot pid m t = Ok ls" and "0 < pid"
  shows "\<forall>c \<in> set ls. c_pid c = pid"
proof -
  have inet: "rfold (inet_line le t m pid) lines [] = Ok ls \<Longrightarrow> ?thesis" for lines
    by (erule rfold_invariant) (use inet_line_pid assms(2) in auto)
  have unix: "rfold (unix_line t m pid) lines [] = Ok ls \<Longrightarrow> ?thesis" for lines
    by (erule rfold_invariant) (use unix_line_pid assms(2) in auto)
  show ?thesis
    using assms(1) inet unix
    by (auto simp: kind_conns_def processInet_def processUnix_def Let_def outcome_iff split: if_splits)
qed

lemma conn_of_tmp_pid: "0 < pid \<Longrightarrow> c_pid c = pid \<Longrightarrow> cs_Pid (conn_of_tmp h skipUids c) = pid"
  by (simp add: conn_of_tmp_def)

lemma dedup_loop_pid:
  assumes "0 < pid" and "\<forall>c \<in> set cs. c_pid c = pid" and "\<forall>c \<in> set (snd acc). cs_Pid c = pid"
  shows "\<forall>c \<in> set (snd (dedup_loop h skipUids family cs acc)). cs_Pid c = pid"
  using assms(2,3)
proof (induction h skipUids family cs acc rule: dedup_loop.induct)
  case (2 h skipUids family c cs seen ret)
  then show ?case using conn_of_tmp_pid [OF assms(1)] by (auto simp: Let_def)
qed simp

text \<open>C3: asked for one process, \<^verbatim>\<open>ConnectionsPidMax\<close> returns only connections of that process, for every
  kind of socket and with or without user ids.\<close>

theorem connections_of_pid:
  assumes "connectionsPidMaxWithoutUidsWithContext h le kind pid maxConn skipUids = Ok conns" and "0 < pid"
    and "c \<in> set conns"
  shows "cs_Pid c = pid"
proof -
  have "\<forall>c \<in> set ret. cs_Pid c = pid"
    if "statsFromInodesWithContext h le (HostProcWithContext h []) pid tmap m skipUids = Ok ret" for tmap m ret
  proof -
    from that obtain seen where
      "rfold (\<lambda>t acc. rbind (kind_conns h le (HostProcWithContext h []) pid m t)
         (\<lambda>ls. Ok (dedup_loop h skipUids (k_family t) ls acc))) tmap ([], []) = Ok (seen, ret)"
      by (auto simp: statsFromInodesWithContext_def outcome_iff)
    then have "\<forall>c \<in> set (snd (seen, ret)). cs_Pid c = pid"
    proof (rule rfold_invariant [where P = "\<lambda>acc. \<forall>c \<in> set (snd acc). cs_Pid c = pid"])
      fix t u v
      assume u: "\<forall>c \<in> set (snd u). cs_Pid c = pid"
        and "rbind (kind_conns h le (HostProcWithContext h []) pid m t)
          (\<lambda>ls. Ok (dedup_loop h skipUids (k_family t) ls u)) = Ok v"
      then obtain ls where "kind_conns h le (HostProcWithContext h []) pid m t = Ok ls"
        and v: "v = dedup_loop h skipUids (k_family t) ls u" by (auto simp: outcome_iff)
      from kind_conns_pid [OF this(1) assms(2)] u show "\<forall>c \<in> set (snd v). cs_Pid c = pid"
        unfolding v by (intro dedup_loop_pid [OF assms(2)])
    qed simp
    then show ?thesis by simp
  qed
  with assms show ?thesis
    by (auto simp: connectionsPidMaxWithoutUidsWithContext_def Let_def split: option.splits result.splits if_splits)
qed

text \<open>The first connection of every key, as a filter.\<close>

fun first_by :: "('a \<Rightarrow> 'k) \<Rightarrow> 'a list \<Rightarrow> 'a list" where
  "first_by f [] = []"
| "first_by f (x # xs) = x # filter (\<lambda>y. f y \<noteq> f x) (first_by f xs)"

lemma set_first_by_keys: "f ` set (first_by f xs) = f ` set xs"
proof (induction xs)
  case (Cons x xs)
  have "f ` {y \<in> set (first_by f xs). f y \<noteq> f x} = f ` set (first_by f xs) - {f x}" by auto
  with Cons show ?case by simp
qed simp

lemma distinct_first_by: "distinct (map f (first_by f xs))"
  by (induction xs) (auto simp: distinct_map_filter)

lemma dedup_loop_first_by:
  "dedup_loop h skipUids family cs (seen, ret) =
     (seen @ map (connectionDedupKey family) (filter (\<lambda>c. connectionDedupKey family c \<notin> set seen)
        (first_by (connectionDedupKey family) cs)),
      ret @ map (conn_of_tmp h skipUids) (filter (\<lambda>c. connectionDedupKey family c \<notin> set seen)
        (first_by (connectionDedupKey family) cs)))"
proof (induction cs arbitrary: seen ret)
  case (Cons c cs)
  let ?k = "connectionDedupKey family"
  have "?k c \<in> set seen \<Longrightarrow> filter (\<lambda>x. ?k x \<noteq> ?k c \<and> ?k x \<notin> set seen) xs = filter (\<lambda>x. ?k x \<notin> set seen) xs" for xs
    by (rule filter_cong) auto
  then show ?case
    by (auto simp: Cons.IH Let_def filter_filter intro: filter_cong)
qed simp

text \<open>C8: of the entries of one socket table, exactly the first one of every key (type, addresses and
  status; for unix sockets also holder, descriptor and inode) is reported, in table order, and no two
  reported entries have the same key.\<close>

theorem dedup_reports_first:
  "dedup_loop h skipUids family cs ([], []) =
     (map (connectionDedupKey family) (first_by (connectionDedupKey family) cs),
      map (conn_of_tmp h skipUids) (first_by (connectionDedupKey family) cs)) \<and>
   distinct (fst (dedup_loop h skipUids family cs ([], []))) \<and>
   set (fst (dedup_loop h skipUids family cs ([], []))) = connectionDedupKey family ` set cs"
  by (simp add: dedup_loop_first_by distinct_first_by set_first_by_keys)

text \<open>A system with one process that holds one TCP socket.\<close>

definition tcp_row :: string where
  "tcp_row = ''0: 0100007F:0016 0500000A:01BB 01 0:0 0:0 0 0 0 99''"

definition sock_host :: host where
  "sock_host = (with_files [(''/proc/7/net/tcp'', unlines [''sl'', tcp_row])])
     \<lparr>h_readdir := (\<lambda>p. if p = ''/proc/7/fd'' then Inr [''3''] else Inl ENOENT),
      h_readlink := (\<lambda>p. if p = ''/proc/7/fd/3'' then Inr ''socket:[99]'' else Inl ENOENT)\<rparr>"

definition sock_conn :: connection_stat where
  "sock_conn = \<lparr>cs_Fd = 3, cs_Family = AF_INET, cs_Type = SOCK_STREAM,
     cs_Laddr = \<lparr>a_IP = ''127.0.0.1'', a_Port = 22\<rparr>, cs_Raddr = \<lparr>a_IP = ''10.0.0.5'', a_Port = 443\<rparr>,
     cs_Status = ''ESTABLISHED'', cs_Uids = [], cs_Pid = 7\<rparr>"

lemma sock_host_conns: "connectionsPidMaxWithoutUidsWithContext sock_host True ''tcp4'' 7 0 True = Ok [sock_conn]"
  by code_simp

theorem connections_of_pid_witness:
  "connectionsPidMaxWithoutUidsWithContext sock_host True ''tcp4'' 7 0 True = Ok [sock_conn] \<and> cs_Pid sock_conn = 7"
  using connections_of_pid [OF sock_host_conns, of sock_conn] sock_host_conns by simp

theorem connections_no_panic_witness:
  "connectionsPidMaxWithoutUidsWithContext sock_host True ''all'' 0 5 False \<noteq> Panic"
proof (rule connections_no_panic)
  have "\<exists>fd. parse_i32 ''3'' = Ok fd"
  proof -
    have "parse_i32 ''3'' = Ok 3" by code_simp
    then show ?thesis by blast
  qed
  then show "fd_names_numeric sock_host (HostProcWithContext sock_host [])"
    by (auto simp: fd_names_numeric_def sock_host_def split: if_splits)
  show "socket_links_closed sock_host"
    by (auto simp: socket_links_closed_def sock_host_def split: if_splits)
qed

section \<open>Protocol counters\<close>

text \<open>A protocol of \<^verbatim>\<open>/proc/net/snmp\<close>: its name and its columns with their values, printed as a header and
  a data line.\<close>

type_synonym snmp_block = "string \<times> (string \<times> int) list"

definition snmp_lines :: "snmp_block \<Rightarrow> string list" where
  "snmp_lines b = [fst b @ '': '' @ join '' '' (map fst (snd b)), fst b @ '': '' @ join '' '' (map (itoa \<circ> snd) (snd b))]"

definition snmp_ok :: "snmp_block \<Rightarrow> bool" where
  "snmp_ok b \<longleftrightarrow> CHR '':'' \<notin> set (fst b) \<and> snd b \<noteq> [] \<and> distinct (map fst (snd b)) \<and>
     list_all (\<lambda>(n, v). CHR '' '' \<notin> set n \<and> - (2 ^ 63) \<le> v \<and> v < 2 ^ 63) (snd b)"

definition snmp_meaning :: "snmp_block \<Rightarrow> proto_counters_stat" where
  "snmp_meaning b = \<lparr>pc_Protocol = to_lower (fst b), pc_Stats = snd b\<rparr>"

lemma snmp_stats_print:
  assumes "distinct (map fst (acc @ cols))" and "list_all (\<lambda>(n, v). - (2 ^ 63) \<le> v \<and> v < 2 ^ 63) cols"
  shows "snmp_stats (map fst cols) (map (itoa \<circ> snd) cols) acc = Ok (acc @ cols)"
  using assms
proof (induction cols arbitrary: acc)
  case (Cons p cols)
  obtain n v where p: "p = (n, v)" by (cases p)
  have "parse_i64 (itoa v) = Ok v"
    using Cons.prems(2) p parse_int_itoa [of 64 v] by (simp add: parse_i64_def)
  moreover have "alist_put n v acc = acc @ [(n, v)]"
    using Cons.prems(1) p by (intro alist_put_fresh) auto
  ultimately show ?case using Cons p by simp
qed simp

lemma snmp_loop_block:
  assumes "snmp_ok b"
  shows "snmp_loop f protos (snmp_lines b @ rest) acc =
    snmp_loop f protos rest (if to_lower (fst b) \<in> set protos then acc @ [snmp_meaning b] else acc)"
proof -
  obtain name cols where b: "b = (name, cols)" by (cases b)
  have nospace: "CHR '' '' \<notin> set w" if "w \<in> set (map (itoa \<circ> snd) cols)" for w
    using that plain_no_space [OF itoa_plain(1), of "CHR '' ''"] by (auto simp: is_ascii_space_def)
  have "split_char CHR '' '' (join '' '' (map fst cols)) = map fst cols"
    using assms b by (intro split_char_join) (auto simp: snmp_ok_def list_all_iff)
  moreover have "split_char CHR '' '' (join '' '' (map (itoa \<circ> snd) cols)) = map (itoa \<circ> snd) cols"
    using assms b nospace by (intro split_char_join) (auto simp: snmp_ok_def)
  moreover have "index_byte (name @ CHR '':'' # s) CHR '':'' = Some (length name)" for s
    using assms b by (simp add: snmp_ok_def index_byte_append)
  moreover have "snmp_stats (map fst cols) (map (itoa \<circ> snd) cols) [] = Ok cols"
    using assms b snmp_stats_print [of "[]" cols] by (simp add: snmp_ok_def list_all_iff case_prod_beta)
  ultimately show ?thesis
    by (simp add: b snmp_lines_def snmp_meaning_def slice_from_def)
qed

text \<open>\<^verbatim>\<open>ProtoCounters\<close> reads back the tables of the requested protocols, in the order of the file
  and with every column under its name; an empty request means all six protocols.\<close>

theorem ProtoCounters_roundtrip:
  assumes "ReadLines h (HostProcWithContext h [''net/snmp'']) = Ok (concat (map snmp_lines blocks))"
    and "list_all snmp_ok blocks"
  shows "ProtoCountersWithContext h protocols =
    Ok (map snmp_meaning (filter (\<lambda>b. to_lower (fst b) \<in>
      set (if protocols = [] then netProtocols else protocols)) blocks))"
proof -
  have "snmp_loop f protos (concat (map snmp_lines blocks)) acc =
      Ok (acc @ map snmp_meaning (filter (\<lambda>b. to_lower (fst b) \<in> set protos) blocks))" for f protos acc
    using assms(2) by (induction blocks arbitrary: acc) (simp_all add: snmp_loop_block)
  with assms(1) show ?thesis by (simp add: ProtoCountersWithContext_def Let_def)
qed

definition snmp_host :: host where
  "snmp_host = with_files [(''/proc/net/snmp'', unlines (concat (map snmp_lines
     [(''Ip'', [(''Forwarding'', 1), (''DefaultTTL'', 64)]), (''Tcp'', [(''MaxConn'', - 1)])])))]"

theorem ProtoCounters_roundtrip_witness:
  "ProtoCountersWithContext snmp_host [''tcp''] = Ok [\<lparr>pc_Protocol = ''tcp'', pc_Stats = [(''MaxConn'', - 1)]\<rparr>]"
proof -
  let ?bs = "[(''Ip'', [(''Forwarding'', 1), (''DefaultTTL'', 64)]), (''Tcp'', [(''MaxConn'', - 1)])]"
  have l: "ReadLines snmp_host (HostProcWithContext snmp_host [''net/snmp'']) = Ok (concat (map snmp_lines ?bs))"
    by code_simp
  have "to_lower ''Ip'' = ''ip''" "to_lower ''Tcp'' = ''tcp''" by code_simp+
  with ProtoCounters_roundtrip [OF l, of "[''tcp'']"] show ?thesis
    by (simp add: snmp_ok_def snmp_meaning_def)
qed

lemma snmp_truncated_panics:
  assumes "index_byte line CHR '':'' = Some r" and "to_lower (take r line) \<in> set protos"
  shows "snmp_loop f protos [line] acc = Panic"
  using assms by (auto simp: Let_def slice_from_def)

end
