(* ===== verification/Process.thy ===== *)
theory Process
  imports Cpu Common_Linux
begin

text \<open>
  Package \<^verbatim>\<open>process\<close>: the data of \<^verbatim>\<open>process.go\<close> and its functions that do not touch the system, and
  the environment the readers of this package use beyond \<open>host\<close>: scheduling priorities, signals,
  \<^verbatim>\<open>lstat\<close>, device numbers, the number of CPUs and the clock ticks per second.
\<close>

section \<open>Data\<close>

record open_files_stat =
  of_Path :: string
  of_Fd :: u64

record memory_info_stat =
  mi_RSS :: u64
  mi_VMS :: u64
  mi_HWM :: u64
  mi_Data :: u64
  mi_Stack :: u64
  mi_Locked :: u64
  mi_Swap :: u64

record signal_info_stat =
  sg_PendingProcess :: u64
  sg_PendingThread :: u64
  sg_Blocked :: u64
  sg_Ignored :: u64
  sg_Caught :: u64

record rlimit_stat =
  rl_Resource :: int
  rl_Soft :: u64
  rl_Hard :: u64
  rl_Used :: u64

record proc_io_stat =
  pi_ReadCount :: u64
  pi_WriteCount :: u64
  pi_ReadBytes :: u64
  pi_WriteBytes :: u64
  pi_DiskReadBytes :: u64
  pi_DiskWriteBytes :: u64

record num_ctx_switches_stat =
  cx_Voluntary :: int
  cx_Involuntary :: int

record page_faults_stat =
  pf_MinorFaults :: u64
  pf_MajorFaults :: u64
  pf_ChildMinorFaults :: u64
  pf_ChildMajorFaults :: u64

text \<open>A \<^verbatim>\<open>Process\<close>; a nil pointer is \<open>None\<close>. \<^verbatim>\<open>lastCPUTime\<close> is in nanoseconds.\<close>

record process =
  p_Pid :: int
  p_name :: string
  p_status :: string
  p_parent :: int
  p_numCtxSwitches :: "num_ctx_switches_stat option"
  p_uids :: "u32 list"
  p_gids :: "u32 list"
  p_groups :: "u32 list"
  p_numThreads :: int
  p_memInfo :: "memory_info_stat option"
  p_sigInfo :: "signal_info_stat option"
  p_createTime :: int
  p_lastCPUTimes :: "times_stat option"
  p_lastCPUTime :: int
  p_tgid :: int

definition new_process :: "int \<Rightarrow> process" where
  "new_process pid = \<lparr>p_Pid = pid, p_name = [], p_status = [], p_parent = 0, p_numCtxSwitches = None,
     p_uids = [], p_gids = [], p_groups = [], p_numThreads = 0, p_memInfo = None, p_sigInfo = None,
     p_createTime = 0, p_lastCPUTimes = None, p_lastCPUTime = 0, p_tgid = 0\<rparr>"

definition empty_mem_info :: memory_info_stat where
  "empty_mem_info = \<lparr>mi_RSS = 0, mi_VMS = 0, mi_HWM = 0, mi_Data = 0, mi_Stack = 0, mi_Locked = 0, mi_Swap = 0\<rparr>"

definition empty_sig_info :: signal_info_stat where
  "empty_sig_info = \<lparr>sg_PendingProcess = 0, sg_PendingThread = 0, sg_Blocked = 0, sg_Ignored = 0, sg_Caught = 0\<rparr>"

definition empty_ctx :: num_ctx_switches_stat where
  "empty_ctx = \<lparr>cx_Voluntary = 0, cx_Involuntary = 0\<rparr>"

text \<open>The limits in the order of the constants \<^verbatim>\<open>RLIMIT_CPU\<close> = 0 to \<^verbatim>\<open>RLIMIT_RTTIME\<close> = 15, with their
  names in \<^verbatim>\<open>/proc/<pid>/limits\<close>.\<close>

definition rlimit_names :: "string list" where
  "rlimit_names =
     [''Max cpu time'', ''Max file size'', ''Max data size'', ''Max stack size'', ''Max core file size'',
      ''Max resident set'', ''Max processes'', ''Max open files'', ''Max locked memory'', ''Max address space'',
      ''Max file locks'', ''Max pending signals'', ''Max msgqueue size'', ''Max nice priority'',
      ''Max realtime priority'', ''Max realtime timeout'']"

section \<open>The environment\<close>

text \<open>\<open>pe_lstat\<close> gives whether a path is a symbolic link, its device and its inode; \<open>pe_rdev\<close> the device
  number of a special file; \<open>pe_signal\<close> what sending a signal to a process returns.\<close>

record proc_env =
  pe_host :: host
  pe_clockTicks :: int
  pe_priority :: "int \<Rightarrow> int"
  pe_lstat :: "string \<Rightarrow> gerr + (bool \<times> nat \<times> nat)"
  pe_rdev :: "string \<Rightarrow> gerr + u64"
  pe_signal :: "int \<Rightarrow> nat \<Rightarrow> gerr option"
  pe_numcpu :: nat
  pe_bootCache :: bool

section \<open>Pure functions\<close>

text \<open>\<^verbatim>\<open>convertStatusChar\<close>, on the first letter of the state.\<close>

definition convertStatusChar :: "string \<Rightarrow> string" where
  "convertStatusChar letter = (case map_of
     [(''A'', ''daemon''), (''D'', ''blocked''), (''U'', ''blocked''), (''E'', ''detached''), (''I'', ''idle''),
      (''L'', ''lock''), (''O'', ''orphan''), (''R'', ''running''), (''S'', ''sleep''), (''T'', ''stop''), (''t'', ''stop''),
      (''W'', ''wait''), (''Y'', ''system''), (''Z'', ''zombie'')] letter of Some s \<Rightarrow> s | None \<Rightarrow> [])"

definition calculatePercent :: "times_stat \<Rightarrow> times_stat \<Rightarrow> float64 \<Rightarrow> nat \<Rightarrow> float64" where
  "calculatePercent t1 t2 delta numcpu =
     (if f_eq delta 0 then 0
      else let deltaProc = (t_User t2 - t_User t1) + (t_System t2 - t_System t1) in
        if deltaProc \<le> 0 then 0 else ((deltaProc / delta) * Fin 100) * f_of_nat numcpu)"

end
