(* ===== verification/Process_Linux.thy ===== *)
theory Process_Linux
  imports Process
begin

text \<open>
  The readers of \<^verbatim>\<open>/proc/<pid>\<close> (\<^verbatim>\<open>process_linux.go\<close>): \<^verbatim>\<open>stat\<close>, \<^verbatim>\<open>status\<close>, \<^verbatim>\<open>statm\<close>, \<^verbatim>\<open>io\<close>, \<^verbatim>\<open>limits\<close>,
  \<^verbatim>\<open>smaps\<close>, \<^verbatim>\<open>cmdline\<close>, \<^verbatim>\<open>comm\<close>, \<^verbatim>\<open>environ\<close>, \<^verbatim>\<open>fd\<close> and the links. \<^verbatim>\<open>fillFromStatusWithContext\<close> updates
  the process object and keeps what it wrote before an error, so it returns the new object with the
  error. Reading the start time consults the boot time, whose cache is threaded through.
\<close>

section \<open>Paths\<close>

definition proc_file :: "host \<Rightarrow> int \<Rightarrow> string list \<Rightarrow> string" where
  "proc_file h pid rest = HostProcWithContext h (itoa pid # rest)"

section \<open>The file stat\<close>

text \<open>The fields of \<^verbatim>\<open>stat\<close> counted from one, with the command name between the first opening and the
  last closing parenthesis.\<close>

definition splitProcStat :: "string \<Rightarrow> string list" where
  "splitProcStat content =
     (case (index_byte content CHR ''('', last_index_byte content CHR '')'') of
        (Some nameStart, Some nameEnd) \<Rightarrow>
          (if nameEnd < nameStart \<or> length content < nameEnd + 2 then []
           else [[], trim_space (take nameStart content),
                 drop (Suc nameStart) (take nameEnd content)] @ str_fields (drop (nameEnd + 2) content))
      | _ \<Rightarrow> [])"

record tid_stat =
  ts_terminal :: u64
  ts_ppid :: int
  ts_cpuTimes :: times_stat
  ts_createTime :: int
  ts_rtpriority :: u32
  ts_nice :: int
  ts_faults :: page_faults_stat

definition proc_times :: "float64 \<Rightarrow> float64 \<Rightarrow> float64 \<Rightarrow> float64 \<Rightarrow> times_stat" where
  "proc_times ticks utime stime iotime =
     \<lparr>t_CPU = ''cpu'', t_User = utime / ticks, t_System = stime / ticks, t_Idle = 0, t_Nice = 0,
      t_Iowait = iotime / ticks, t_Irq = 0, t_Softirq = 0, t_Steal = 0, t_Guest = 0, t_GuestNice = 0\<rparr>"

text \<open>The fields before the boot time is asked for.\<close>

definition stat_times :: "int \<Rightarrow> string list \<Rightarrow> (u64 \<times> int \<times> times_stat) result" where
  "stat_times clockTicks fs =
     rbind (parse_u64 (fs ! 7)) (\<lambda>terminal.
     rbind (parse_i32 (fs ! 4)) (\<lambda>ppid.
     rbind (parse_f64 (fs ! 14)) (\<lambda>utime.
     rbind (parse_f64 (fs ! 15)) (\<lambda>stime.
       let iotime = (if 42 < length fs then (case parse_f64 (fs ! 42) of Ok v \<Rightarrow> v | _ \<Rightarrow> 0) else 0)
       in Ok (terminal, ppid, proc_times (f_of_int clockTicks) utime stime iotime)))))"

text \<open>The start time in milliseconds since the epoch, in 64-bit arithmetic; a tick rate of zero
  panics.\<close>

definition create_time :: "int \<Rightarrow> u64 \<Rightarrow> u64 \<Rightarrow> int result" where
  "create_time clockTicks bootTime t =
     (if word_of_int clockTicks = (0 :: u64) then Panic
      else Ok (sint (t * 1000 div word_of_int clockTicks + bootTime * 1000)))"

definition rt_priority :: "int \<Rightarrow> u32" where
  "rt_priority r = word_of_int (if r < 0 then - r - 1 else 0)"

definition stat_rest :: "proc_env \<Rightarrow> int \<Rightarrow> string list \<Rightarrow> u64 \<Rightarrow> u64 \<times> int \<times> times_stat \<Rightarrow> tid_stat result" where
  "stat_rest env pid fs bootTime = (\<lambda>(terminal, ppid, cpuTimes).
     rbind (parse_u64 (fs ! 22)) (\<lambda>t.
     rbind (create_time (pe_clockTicks env) bootTime t) (\<lambda>createTime.
     rbind (parse_i32 (fs ! 18)) (\<lambda>rtpriority.
     rbind (parse_u64 (fs ! 10)) (\<lambda>minFault.
     rbind (parse_u64 (fs ! 11)) (\<lambda>cMinFault.
     rbind (parse_u64 (fs ! 12)) (\<lambda>majFault.
     rbind (parse_u64 (fs ! 13)) (\<lambda>cMajFault.
       Ok \<lparr>ts_terminal = terminal, ts_ppid = ppid, ts_cpuTimes = cpuTimes, ts_createTime = createTime,
         ts_rtpriority = rt_priority rtpriority, ts_nice = to_i32 (pe_priority env pid),
         ts_faults = \<lparr>pf_MinorFaults = minFault, pf_MajorFaults = majFault,
           pf_ChildMinorFaults = cMinFault, pf_ChildMajorFaults = cMajFault\<rparr>\<rparr>))))))))"

definition stat_path :: "host \<Rightarrow> int \<Rightarrow> int \<Rightarrow> string" where
  "stat_path h pid tid = (if tid = - 1 then proc_file h pid [''stat''] else proc_file h pid [''task'', itoa tid, ''stat''])"

definition fillFromTIDStatWithContext :: "proc_env \<Rightarrow> caches \<Rightarrow> int \<Rightarrow> int \<Rightarrow> tid_stat result \<times> caches" where
  "fillFromTIDStatWithContext env c pid tid =
     (let h = pe_host env in
      case ReadFile h (stat_path h pid tid) of
        Err e \<Rightarrow> (Err e, c)
      | Panic \<Rightarrow> (Panic, c)
      | Ok contents \<Rightarrow>
          if contents = [] then
            (Err (ErrMsg (''process '' @ itoa pid @ '': stat file is empty, process may have terminated'')), c)
          else let fs = splitProcStat contents in
            if length fs < 23 then
              (Err (ErrMsg (''malformed stat file: expected at least 23 fields, got '' @ fmt_nat (length fs))), c)
            else case stat_times (pe_clockTicks env) fs of
              Err e \<Rightarrow> (Err e, c)
            | Panic \<Rightarrow> (Panic, c)
            | Ok cpuTimes \<Rightarrow>
                (case BootTimeWithContext h (pe_bootCache env) c of (boot, c') \<Rightarrow>
                   (case boot of
                      Panic \<Rightarrow> (Panic, c')
                    | Ok b \<Rightarrow> (stat_rest env pid fs b cpuTimes, c')
                    | Err _ \<Rightarrow> (stat_rest env pid fs 0 cpuTimes, c'))))"

definition fillFromStatWithContext :: "proc_env \<Rightarrow> caches \<Rightarrow> int \<Rightarrow> tid_stat result \<times> caches" where
  "fillFromStatWithContext env c pid = fillFromTIDStatWithContext env c pid (- 1)"

definition on_stat :: "proc_env \<Rightarrow> caches \<Rightarrow> int \<Rightarrow> (tid_stat \<Rightarrow> 'a) \<Rightarrow> 'a result \<times> caches" where
  "on_stat env c pid f = (case fillFromStatWithContext env c pid of (r, c') \<Rightarrow> (rbind r (\<lambda>s. Ok (f s)), c'))"

definition PpidWithContext :: "proc_env \<Rightarrow> caches \<Rightarrow> process \<Rightarrow> int result \<times> caches" where
  "PpidWithContext env c p = on_stat env c (p_Pid p) ts_ppid"

definition createTimeWithContext :: "proc_env \<Rightarrow> caches \<Rightarrow> process \<Rightarrow> int result \<times> caches" where
  "createTimeWithContext env c p = on_stat env c (p_Pid p) ts_createTime"

definition NiceWithContext :: "proc_env \<Rightarrow> caches \<Rightarrow> process \<Rightarrow> int result \<times> caches" where
  "NiceWithContext env c p = on_stat env c (p_Pid p) ts_nice"

definition proc_TimesWithContext :: "proc_env \<Rightarrow> caches \<Rightarrow> process \<Rightarrow> times_stat result \<times> caches" where
  "proc_TimesWithContext env c p = on_stat env c (p_Pid p) ts_cpuTimes"

definition PageFaultsWithContext :: "proc_env \<Rightarrow> caches \<Rightarrow> process \<Rightarrow> page_faults_stat result \<times> caches" where
  "PageFaultsWithContext env c p = on_stat env c (p_Pid p) ts_faults"

text \<open>\<^verbatim>\<open>Foreground\<close> splits the whole file at spaces.\<close>

definition ForegroundWithContext :: "host \<Rightarrow> process \<Rightarrow> bool result" where
  "ForegroundWithContext h p =
     (let statPath = proc_file h (p_Pid p) [''stat''] in
      rbind (ReadFile h statPath) (\<lambda>contents.
        let fs = str_fields contents in
        if length fs < 8 then Err (ErrMsg (''insufficient data in '' @ statPath))
        else Ok (fs ! 4 = fs ! 7)))"

section \<open>The command line\<close>

definition fillFromCmdlineWithContext :: "host \<Rightarrow> process \<Rightarrow> string result" where
  "fillFromCmdlineWithContext h p = rbind (ReadFile h (proc_file h (p_Pid p) [''cmdline''])) (\<lambda>cmdline.
     Ok (join '' '' (fields_func (\<lambda>ch. ch = CHR 0x00) [] cmdline)))"

definition fillSliceFromCmdlineWithContext :: "host \<Rightarrow> process \<Rightarrow> string list result" where
  "fillSliceFromCmdlineWithContext h p = rbind (ReadFile h (proc_file h (p_Pid p) [''cmdline''])) (\<lambda>cmdline.
     if cmdline = [] then Ok []
     else Ok (split_char CHR 0x00 (trim_right_set [CHR 0x00] cmdline)))"

definition EnvironWithContext :: "host \<Rightarrow> process \<Rightarrow> string list result" where
  "EnvironWithContext h p = rbind (ReadFile h (proc_file h (p_Pid p) [''environ''])) (\<lambda>d. Ok (split_char CHR 0x00 d))"

section \<open>The file status\<close>

text \<open>An assignment of a parsed value; on an error the object stays as it is.\<close>

fun set_parsed :: "'a result \<Rightarrow> ('a \<Rightarrow> process \<Rightarrow> process) \<Rightarrow> process \<Rightarrow> process \<times> gerr option" where
  "set_parsed (Ok v) f p = (f v p, None)"
| "set_parsed (Err e) f p = (p, Some e)"
| "set_parsed Panic f p = (p, None)"

text \<open>The loops over ids append to the slice of the object as they go.\<close>

fun parse_ids :: "string list \<Rightarrow> u32 list \<Rightarrow> u32 list \<times> gerr option" where
  "parse_ids [] acc = (acc, None)"
| "parse_ids (i # is) acc = (case parse_u32 i of Ok v \<Rightarrow> parse_ids is (acc @ [v])
     | Err e \<Rightarrow> (acc, Some e) | Panic \<Rightarrow> (acc, None))"

definition kib_value :: "string \<Rightarrow> u64 result" where
  "kib_value value = rbind (parse_u64 (trim_space (trim_suffix value '' kB''))) (\<lambda>v. Ok (v * 1024))"

definition sig_value :: "string \<Rightarrow> u64 result" where
  "sig_value value = parse_hex64 (if 16 < length value then drop (length value - 16) value else value)"

abbreviation upd_mem :: "(memory_info_stat \<Rightarrow> memory_info_stat) \<Rightarrow> process \<Rightarrow> process" where
  "upd_mem f p \<equiv> p\<lparr>p_memInfo := map_option f (p_memInfo p)\<rparr>"

abbreviation upd_sig :: "(signal_info_stat \<Rightarrow> signal_info_stat) \<Rightarrow> process \<Rightarrow> process" where
  "upd_sig f p \<equiv> p\<lparr>p_sigInfo := map_option f (p_sigInfo p)\<rparr>"

abbreviation upd_ctx :: "(num_ctx_switches_stat \<Rightarrow> num_ctx_switches_stat) \<Rightarrow> process \<Rightarrow> process" where
  "upd_ctx f p \<equiv> p\<lparr>p_numCtxSwitches := map_option f (p_numCtxSwitches p)\<rparr>"

text \<open>The name: a name of 15 characters may be cut by the kernel and is extended from the command
  line when that agrees.\<close>

definition status_name :: "host \<Rightarrow> string \<Rightarrow> process \<Rightarrow> process \<times> gerr option" where
  "status_name h value p =
     (let p = p\<lparr>p_name := trim_set [CHR '' '', CHR 0x09] value\<rparr> in
      if length (p_name p) < 15 then (p, None)
      else case fillSliceFromCmdlineWithContext h p of
        Err e \<Rightarrow> (p, Some e)
      | Panic \<Rightarrow> (p, None)
      | Ok [] \<Rightarrow> (p, None)
      | Ok (arg0 # _) \<Rightarrow>
          (let extendedName = path_base arg0 in
           if has_prefix extendedName (p_name p) then (p\<lparr>p_name := extendedName\<rparr>, None) else (p, None)))"

definition status_ids :: "string \<Rightarrow> string \<Rightarrow> process \<Rightarrow> (process \<times> gerr option) option" where
  "status_ids key value p =
     (if key = ''Uid'' then Some (case parse_ids (split_char CHR 0x09 value) [] of (us, e) \<Rightarrow> (p\<lparr>p_uids := us\<rparr>, e))
      else if key = ''Gid'' then Some (case parse_ids (split_char CHR 0x09 value) [] of (gs, e) \<Rightarrow> (p\<lparr>p_gids := gs\<rparr>, e))
      else if key = ''Groups'' then Some (case parse_ids (str_fields value) [] of (gs, e) \<Rightarrow> (p\<lparr>p_groups := gs\<rparr>, e))
      else None)"

definition status_nums :: "(string \<times> (string \<Rightarrow> process \<Rightarrow> process \<times> gerr option)) list" where
  "status_nums =
     [(''PPid'', \<lambda>v. set_parsed (parse_i32 v) (\<lambda>n p. p\<lparr>p_parent := n\<rparr>)),
      (''Ppid'', \<lambda>v. set_parsed (parse_i32 v) (\<lambda>n p. p\<lparr>p_parent := n\<rparr>)),
      (''Tgid'', \<lambda>v. set_parsed (parse_i32 v) (\<lambda>n p. p\<lparr>p_tgid := n\<rparr>)),
      (''Threads'', \<lambda>v. set_parsed (parse_i32 v) (\<lambda>n p. p\<lparr>p_numThreads := n\<rparr>)),
      (''voluntary_ctxt_switches'', \<lambda>v. set_parsed (parse_i64 v) (\<lambda>n. upd_ctx (cx_Voluntary_update (\<lambda>_. n)))),
      (''nonvoluntary_ctxt_switches'', \<lambda>v. set_parsed (parse_i64 v) (\<lambda>n. upd_ctx (cx_Involuntary_update (\<lambda>_. n))))]"

definition status_mem :: "(string \<times> (string \<Rightarrow> process \<Rightarrow> process \<times> gerr option)) list" where
  "status_mem =
     [(''VmRSS'', \<lambda>v. set_parsed (kib_value v) (\<lambda>n. upd_mem (mi_RSS_update (\<lambda>_. n)))),
      (''VmSize'', \<lambda>v. set_parsed (kib_value v) (\<lambda>n. upd_mem (mi_VMS_update (\<lambda>_. n)))),
      (''VmSwap'', \<lambda>v. set_parsed (kib_value v) (\<lambda>n. upd_mem (mi_Swap_update (\<lambda>_. n)))),
      (''VmHWM'', \<lambda>v. set_parsed (kib_value v) (\<lambda>n. upd_mem (mi_HWM_update (\<lambda>_. n)))),
      (''VmData'', \<lambda>v. set_parsed (kib_value v) (\<lambda>n. upd_mem (mi_Data_update (\<lambda>_. n)))),
      (''VmStk'', \<lambda>v. set_parsed (kib_value v) (\<lambda>n. upd_mem (mi_Stack_update (\<lambda>_. n)))),
      (''VmLck'', \<lambda>v. set_parsed (kib_value v) (\<lambda>n. upd_mem (mi_Locked_update (\<lambda>_. n))))]"

definition status_sig :: "(string \<times> (string \<Rightarrow> process \<Rightarrow> process \<times> gerr option)) list" where
  "status_sig =
     [(''SigPnd'', \<lambda>v. set_parsed (sig_value v) (\<lambda>n. upd_sig (sg_PendingThread_update (\<lambda>_. n)))),
      (''ShdPnd'', \<lambda>v. set_parsed (sig_value v) (\<lambda>n. upd_sig (sg_PendingProcess_update (\<lambda>_. n)))),
      (''SigBlk'', \<lambda>v. set_parsed (sig_value v) (\<lambda>n. upd_sig (sg_Blocked_update (\<lambda>_. n)))),
      (''SigIgn'', \<lambda>v. set_parsed (sig_value v) (\<lambda>n. upd_sig (sg_Ignored_update (\<lambda>_. n)))),
      (''SigCgt'', \<lambda>v. set_parsed (sig_value v) (\<lambda>n. upd_sig (sg_Caught_update (\<lambda>_. n))))]"

definition status_line :: "host \<Rightarrow> string \<Rightarrow> process \<Rightarrow> process \<times> gerr option" where
  "status_line h line p = (case split_char_n CHR 0x09 2 line of
     t0 # value # _ \<Rightarrow>
       (let key = trim_right_set '':'' t0 in
        if key = ''Name'' then status_name h value p
        else if key = ''State'' then (p\<lparr>p_status := (if value = [] then [] else convertStatusChar (take 1 value))\<rparr>, None)
        else case status_ids key value p of Some r \<Rightarrow> r
        | None \<Rightarrow> (case map_of (status_nums @ status_mem @ status_sig) key of
            Some assign \<Rightarrow> assign value p | None \<Rightarrow> (p, None)))
   | _ \<Rightarrow> (p, None))"

fun status_loop :: "host \<Rightarrow> string list \<Rightarrow> process \<Rightarrow> process \<times> gerr option" where
  "status_loop h [] p = (p, None)"
| "status_loop h (line # lines) p = (case status_line h line p of
     (p', None) \<Rightarrow> status_loop h lines p' | (p', Some e) \<Rightarrow> (p', Some e))"

definition fillFromStatusWithContext :: "host \<Rightarrow> process \<Rightarrow> process \<times> gerr option" where
  "fillFromStatusWithContext h p = (case ReadFile h (proc_file h (p_Pid p) [''status'']) of
     Err e \<Rightarrow> (p, Some e)
   | Panic \<Rightarrow> (p, None)
   | Ok contents \<Rightarrow> status_loop h (split_char nl contents)
       (p\<lparr>p_numCtxSwitches := Some empty_ctx, p_memInfo := Some empty_mem_info, p_sigInfo := Some empty_sig_info\<rparr>))"

definition on_status :: "host \<Rightarrow> process \<Rightarrow> (process \<Rightarrow> 'a) \<Rightarrow> 'a result \<times> process" where
  "on_status h p f = (case fillFromStatusWithContext h p of
     (p', None) \<Rightarrow> (Ok (f p'), p') | (p', Some e) \<Rightarrow> (Err e, p'))"

definition StatusWithContext :: "host \<Rightarrow> process \<Rightarrow> string list result \<times> process" where
  "StatusWithContext h p = on_status h p (\<lambda>p. [p_status p])"

definition UidsWithContext :: "host \<Rightarrow> process \<Rightarrow> u32 list result \<times> process" where
  "UidsWithContext h p = on_status h p p_uids"

definition GidsWithContext :: "host \<Rightarrow> process \<Rightarrow> u32 list result \<times> process" where
  "GidsWithContext h p = on_status h p p_gids"

definition GroupsWithContext :: "host \<Rightarrow> process \<Rightarrow> u32 list result \<times> process" where
  "GroupsWithContext h p = on_status h p p_groups"

definition NumCtxSwitchesWithContext :: "host \<Rightarrow> process \<Rightarrow> num_ctx_switches_stat option result \<times> process" where
  "NumCtxSwitchesWithContext h p = on_status h p p_numCtxSwitches"

definition NumThreadsWithContext :: "host \<Rightarrow> process \<Rightarrow> int result \<times> process" where
  "NumThreadsWithContext h p = on_status h p p_numThreads"

definition SignalsPendingWithContext :: "host \<Rightarrow> process \<Rightarrow> signal_info_stat result \<times> process" where
  "SignalsPendingWithContext h p = on_status h p (\<lambda>p. case p_sigInfo p of None \<Rightarrow> empty_sig_info | Some s \<Rightarrow> s)"

definition TgidWithContext :: "host \<Rightarrow> process \<Rightarrow> int result \<times> process" where
  "TgidWithContext h p = (if p_tgid p = 0 then on_status h p p_tgid else (Ok (p_tgid p), p))"

section \<open>The name\<close>

definition fillFromCommWithContext :: "host \<Rightarrow> process \<Rightarrow> process \<times> gerr option" where
  "fillFromCommWithContext h p = (case ReadFile h (proc_file h (p_Pid p) [''comm'']) of
     Ok contents \<Rightarrow> (p\<lparr>p_name := trim_suffix contents [nl]\<rparr>, None)
   | Err e \<Rightarrow> (p, Some e) | Panic \<Rightarrow> (p, None))"

definition fillNameWithContext :: "host \<Rightarrow> process \<Rightarrow> process \<times> gerr option" where
  "fillNameWithContext h p = (case fillFromCommWithContext h p of (p', err) \<Rightarrow>
     if err = None \<and> p_name p' \<noteq> [] \<and> length (p_name p') < 15 then (p', None)
     else fillFromStatusWithContext h p')"

definition NameWithContext :: "host \<Rightarrow> process \<Rightarrow> string result \<times> process" where
  "NameWithContext h p =
     (if p_name p = [] then (case fillNameWithContext h p of
        (p', None) \<Rightarrow> (Ok (p_name p'), p') | (p', Some e) \<Rightarrow> (Err e, p'))
      else (Ok (p_name p), p))"

section \<open>Counters\<close>

definition io_fields :: "(string \<times> (u64 \<Rightarrow> proc_io_stat \<Rightarrow> proc_io_stat)) list" where
  "io_fields =
     [(''syscr'', \<lambda>t. pi_ReadCount_update (\<lambda>_. t)), (''syscw'', \<lambda>t. pi_WriteCount_update (\<lambda>_. t)),
      (''read_bytes'', \<lambda>t. pi_DiskReadBytes_update (\<lambda>_. t)), (''write_bytes'', \<lambda>t. pi_DiskWriteBytes_update (\<lambda>_. t)),
      (''rchar'', \<lambda>t. pi_ReadBytes_update (\<lambda>_. t)), (''wchar'', \<lambda>t. pi_WriteBytes_update (\<lambda>_. t))]"

definition io_line :: "string \<Rightarrow> proc_io_stat \<Rightarrow> proc_io_stat result" where
  "io_line line ret = (case str_fields line of
     f0 # f1 # _ \<Rightarrow> rbind (parse_u64 f1) (\<lambda>t.
       case map_of io_fields (trim_suffix f0 '':'') of Some assign \<Rightarrow> Ok (assign t ret) | None \<Rightarrow> Ok ret)
   | _ \<Rightarrow> Ok ret)"

definition empty_io :: proc_io_stat where
  "empty_io = \<lparr>pi_ReadCount = 0, pi_WriteCount = 0, pi_ReadBytes = 0, pi_WriteBytes = 0,
     pi_DiskReadBytes = 0, pi_DiskWriteBytes = 0\<rparr>"

definition fillFromIOWithContext :: "host \<Rightarrow> process \<Rightarrow> proc_io_stat result" where
  "fillFromIOWithContext h p = rbind (ReadFile h (proc_file h (p_Pid p) [''io''])) (\<lambda>d.
     rfold io_line (split_char nl d) empty_io)"

record memory_info_ex_stat =
  me_RSS :: u64
  me_VMS :: u64
  me_Shared :: u64
  me_Text :: u64
  me_Lib :: u64
  me_Data :: u64
  me_Dirty :: u64

definition fillFromStatmWithContext :: "host \<Rightarrow> process \<Rightarrow> (memory_info_stat \<times> memory_info_ex_stat) result" where
  "fillFromStatmWithContext h p = rbind (ReadFile h (proc_file h (p_Pid p) [''statm''])) (\<lambda>contents.
     let fs = split_char CHR '' '' contents; pageSize = word_of_nat (h_pagesize h) in
     if length fs < 6 then
       Err (ErrMsg (''malformed statm file: expected at least 6 fields, got '' @ fmt_nat (length fs)))
     else rbind (parse_u64 (fs ! 0)) (\<lambda>vms. rbind (parse_u64 (fs ! 1)) (\<lambda>rss.
          rbind (parse_u64 (fs ! 2)) (\<lambda>shared. rbind (parse_u64 (fs ! 3)) (\<lambda>txt.
          rbind (parse_u64 (fs ! 4)) (\<lambda>lib. rbind (parse_u64 (fs ! 5)) (\<lambda>dirty.
            Ok (empty_mem_info\<lparr>mi_RSS := rss * pageSize, mi_VMS := vms * pageSize\<rparr>,
              \<lparr>me_RSS = rss * pageSize, me_VMS = vms * pageSize, me_Shared = shared * pageSize,
               me_Text = txt * pageSize, me_Lib = lib * pageSize, me_Data = 0, me_Dirty = dirty * pageSize\<rparr>))))))))"

definition MemoryInfoWithContext :: "host \<Rightarrow> process \<Rightarrow> memory_info_stat result" where
  "MemoryInfoWithContext h p = rbind (fillFromStatmWithContext h p) (\<lambda>(m, _). Ok m)"

definition MemoryInfoExWithContext :: "host \<Rightarrow> process \<Rightarrow> memory_info_ex_stat result" where
  "MemoryInfoExWithContext h p = rbind (fillFromStatmWithContext h p) (\<lambda>(_, m). Ok m)"

section \<open>Limits\<close>

definition limitToUint :: "string \<Rightarrow> u64 result" where
  "limitToUint val = (if val = ''unlimited'' then Ok (- 1) else parse_u64 val)"

text \<open>\<^verbatim>\<open>str[len(str)-1]\<close> panics on a line without fields.\<close>

definition last_field :: "string list \<Rightarrow> string result" where
  "last_field str = (if str = [] then Panic else Ok (last str))"

definition limits_line :: "string \<Rightarrow> rlimit_stat list \<Rightarrow> rlimit_stat list result" where
  "limits_line line limitStats =
     (let str = str_fields line in
      rbind (last_field str) (\<lambda>l. if str_contains l ''Units'' then Ok limitStats
        else rbind (case limitToUint l of Ok v \<Rightarrow> Ok (v, str)
            | Err _ \<Rightarrow> rbind (last_field (butlast str)) (\<lambda>l. rbind (limitToUint l) (\<lambda>v. Ok (v, butlast str)))
            | Panic \<Rightarrow> Panic) (\<lambda>(hard, str).
          rbind (last_field (butlast str)) (\<lambda>l. rbind (limitToUint l) (\<lambda>soft.
            let name = join '' '' (butlast (butlast str)) in
            case map_of (zip rlimit_names [0..15]) name of
              None \<Rightarrow> Ok limitStats
            | Some r \<Rightarrow> Ok (limitStats @ [\<lparr>rl_Resource = r, rl_Soft = soft, rl_Hard = hard, rl_Used = 0\<rparr>]))))))"

definition fillFromLimitsWithContext :: "host \<Rightarrow> process \<Rightarrow> rlimit_stat list result" where
  "fillFromLimitsWithContext h p = rbind (of_sum (h_open h (proc_file h (p_Pid p) [''limits'']))) (\<lambda>(d, fin).
     case scan_lines fin d of (lines, err) \<Rightarrow>
       rbind (rfold limits_line lines []) (\<lambda>limitStats. case err of None \<Rightarrow> Ok limitStats | Some e \<Rightarrow> Err e))"

section \<open>File descriptors and links\<close>

definition fillFromfdListWithContext :: "host \<Rightarrow> process \<Rightarrow> string list result" where
  "fillFromfdListWithContext h p = of_sum (h_readdir h (proc_file h (p_Pid p) [''fd'']))"

text \<open>A name that is not a number ends the loop with the files read so far and the error.\<close>

fun open_files_loop :: "host \<Rightarrow> string \<Rightarrow> string list \<Rightarrow> open_files_stat list \<Rightarrow> open_files_stat list \<times> gerr option" where
  "open_files_loop h statPath [] acc = (acc, None)"
| "open_files_loop h statPath (fd # fds) acc = (case h_readlink h (path_join [statPath, fd]) of
     Inl _ \<Rightarrow> open_files_loop h statPath fds acc
   | Inr path \<Rightarrow> (case parse_u64 fd of
       Ok t \<Rightarrow> open_files_loop h statPath fds (acc @ [\<lparr>of_Path = path, of_Fd = t\<rparr>])
     | Err e \<Rightarrow> (acc, Some e) | Panic \<Rightarrow> (acc, None)))"

definition fillFromfdWithContext :: "host \<Rightarrow> process \<Rightarrow> (int \<times> open_files_stat list \<times> gerr option) result" where
  "fillFromfdWithContext h p = rbind (fillFromfdListWithContext h p) (\<lambda>fnames.
     Ok (to_i32 (int (length fnames)), open_files_loop h (proc_file h (p_Pid p) [''fd'']) fnames []))"

definition NumFDsWithContext :: "host \<Rightarrow> process \<Rightarrow> int result" where
  "NumFDsWithContext h p = rbind (fillFromfdListWithContext h p) (\<lambda>fnames. Ok (to_i32 (int (length fnames))))"

definition OpenFilesWithContext :: "host \<Rightarrow> process \<Rightarrow> (open_files_stat list \<times> gerr option) result" where
  "OpenFilesWithContext h p = rbind (fillFromfdWithContext h p) (\<lambda>(_, r). Ok r)"

definition fillFromCwdWithContext :: "host \<Rightarrow> process \<Rightarrow> string result" where
  "fillFromCwdWithContext h p = of_sum (h_readlink h (proc_file h (p_Pid p) [''cwd'']))"

definition fillFromExeWithContext :: "host \<Rightarrow> process \<Rightarrow> string result" where
  "fillFromExeWithContext h p = of_sum (h_readlink h (proc_file h (p_Pid p) [''exe'']))"

end
