(* ===== verification/Process_Maps.thy ===== *)
theory Process_Maps
  imports Process_Linux Net
begin

text \<open>
  \<^verbatim>\<open>MemoryMapsWithContext\<close> (\<^verbatim>\<open>process_linux.go\<close>): the blocks of \<^verbatim>\<open>/proc/<pid>/smaps\<close>, one result each or
  summed into one. A block starts at a line whose first field does not end in a colon, and the last
  line of the file closes the block before it.
\<close>

section \<open>Blocks\<close>

record memory_maps_stat =
  mm_Path :: string
  mm_Rss :: u64
  mm_Size :: u64
  mm_Pss :: u64
  mm_SharedClean :: u64
  mm_SharedDirty :: u64
  mm_PrivateClean :: u64
  mm_PrivateDirty :: u64
  mm_Referenced :: u64
  mm_Anonymous :: u64
  mm_Swap :: u64

definition empty_maps :: memory_maps_stat where
  "empty_maps = \<lparr>mm_Path = [], mm_Rss = 0, mm_Size = 0, mm_Pss = 0, mm_SharedClean = 0, mm_SharedDirty = 0,
     mm_PrivateClean = 0, mm_PrivateDirty = 0, mm_Referenced = 0, mm_Anonymous = 0, mm_Swap = 0\<rparr>"

definition smaps_fields :: "(string \<times> (u64 \<Rightarrow> memory_maps_stat \<Rightarrow> memory_maps_stat)) list" where
  "smaps_fields =
     [(''Size'', \<lambda>t. mm_Size_update (\<lambda>_. t)),
      (''Rss'', \<lambda>t. mm_Rss_update (\<lambda>_. t)),
      (''Pss'', \<lambda>t. mm_Pss_update (\<lambda>_. t)),
      (''Shared_Clean'', \<lambda>t. mm_SharedClean_update (\<lambda>_. t)),
      (''Shared_Dirty'', \<lambda>t. mm_SharedDirty_update (\<lambda>_. t)),
      (''Private_Clean'', \<lambda>t. mm_PrivateClean_update (\<lambda>_. t)),
      (''Private_Dirty'', \<lambda>t. mm_PrivateDirty_update (\<lambda>_. t)),
      (''Referenced'', \<lambda>t. mm_Referenced_update (\<lambda>_. t)),
      (''Anonymous'', \<lambda>t. mm_Anonymous_update (\<lambda>_. t)),
      (''Swap'', \<lambda>t. mm_Swap_update (\<lambda>_. t))]"

text \<open>One line of a block.\<close>

definition smaps_line :: "string \<Rightarrow> memory_maps_stat \<Rightarrow> memory_maps_stat result" where
  "smaps_line line m =
     (if str_contains line ''VmFlags'' then Ok m
      else case split_char CHR '':'' line of
        f0 # f1 # _ \<Rightarrow> rbind (parse_u64 (trim_space (trim_suffix f1 '' kB''))) (\<lambda>t.
          case map_of smaps_fields f0 of Some assign \<Rightarrow> Ok (assign t m) | None \<Rightarrow> Ok m)
      | _ \<Rightarrow> Ok m)"

definition getBlock :: "string list \<Rightarrow> string list \<Rightarrow> memory_maps_stat result" where
  "getBlock firstLine block = rfold smaps_line block
     (empty_maps\<lparr>mm_Path := (if 6 \<le> length firstLine then join '' '' (drop 5 firstLine) else [])\<rparr>)"

definition maps_add :: "memory_maps_stat \<Rightarrow> memory_maps_stat \<Rightarrow> memory_maps_stat" where
  "maps_add g r = r
     \<lparr>mm_Size := mm_Size r + mm_Size g, mm_Rss := mm_Rss r + mm_Rss g,
      mm_Pss := mm_Pss r + mm_Pss g, mm_SharedClean := mm_SharedClean r + mm_SharedClean g,
      mm_SharedDirty := mm_SharedDirty r + mm_SharedDirty g, mm_PrivateClean := mm_PrivateClean r + mm_PrivateClean g,
      mm_PrivateDirty := mm_PrivateDirty r + mm_PrivateDirty g, mm_Referenced := mm_Referenced r + mm_Referenced g,
      mm_Anonymous := mm_Anonymous r + mm_Anonymous g, mm_Swap := mm_Swap r + mm_Swap g\<rparr>"

section \<open>The loop\<close>

text \<open>What a finished block does to the results: it is added to the single entry when grouped, and
  appended otherwise.\<close>

definition put_block :: "bool \<Rightarrow> memory_maps_stat \<Rightarrow> memory_maps_stat list \<Rightarrow> memory_maps_stat list" where
  "put_block grouped g ret = (if grouped then (case ret of r # rs \<Rightarrow> maps_add g r # rs | [] \<Rightarrow> []) else ret @ [g])"

definition starts_block :: "string list \<Rightarrow> bool" where
  "starts_block fs \<longleftrightarrow> fs \<noteq> [] \<and> \<not> has_suffix (hd fs) '':''"

text \<open>A block that cannot be parsed ends the loop with the results so far.\<close>

fun maps_loop :: "bool \<Rightarrow> string list \<Rightarrow> string list \<Rightarrow> string list \<Rightarrow> memory_maps_stat list \<Rightarrow>
    (memory_maps_stat list \<times> gerr option) result" where
  "maps_loop grouped [] firstLine blocks ret = Ok (ret, None)"
| "maps_loop grouped (line # lines) firstLine blocks ret =
     (let fs = str_fields line in
      if starts_block fs \<or> lines = [] then
        (if firstLine \<noteq> [] \<and> blocks \<noteq> [] then
           (case getBlock firstLine blocks of
              Ok g \<Rightarrow> maps_loop grouped lines fs [] (put_block grouped g ret)
            | Err e \<Rightarrow> Ok (ret, Some e)
            | Panic \<Rightarrow> Panic)
         else maps_loop grouped lines fs [] ret)
      else maps_loop grouped lines firstLine (blocks @ [line]) ret)"

definition smaps_path :: "host \<Rightarrow> int \<Rightarrow> bool \<Rightarrow> string" where
  "smaps_path h pid grouped =
     (let rollup = proc_file h pid [''smaps_rollup''] in
      if grouped \<and> (case h_stat h rollup of Inl e \<Rightarrow> \<not> is_not_exist e | Inr _ \<Rightarrow> True) then rollup
      else proc_file h pid [''smaps''])"

definition MemoryMapsWithContext :: "host \<Rightarrow> process \<Rightarrow> bool \<Rightarrow> (memory_maps_stat list \<times> gerr option) result" where
  "MemoryMapsWithContext h p grouped = rbind (ReadFile h (smaps_path h (p_Pid p) grouped)) (\<lambda>contents.
     maps_loop grouped (split_char nl contents) [] [] (if grouped then [empty_maps] else []))"

section \<open>Grouped maps are the sum\<close>

definition maps_columns :: "(memory_maps_stat \<Rightarrow> u64) list" where
  "maps_columns =
     [mm_Rss, mm_Size, mm_Pss, mm_SharedClean, mm_SharedDirty,
      mm_PrivateClean, mm_PrivateDirty, mm_Referenced, mm_Anonymous, mm_Swap]"

interpretation maps_total: counter_sum maps_add "column maps_columns k" for k
  by unfold_locales (rule column_law, simp add: maps_columns_def maps_add_def)

lemma maps_loop_grouped:
  assumes "maps_loop False lines firstLine blocks ret = Ok (ms, err)"
  shows "\<exists>new. ms = ret @ new \<and>
    maps_loop True lines firstLine blocks [r] = Ok ([fold maps_add new r], err)"
  using assms
proof (induction "False" lines firstLine blocks ret arbitrary: r rule: maps_loop.induct)
  case (2 line lines firstLine blocks ret)
  show ?case
  proof (cases "starts_block (str_fields line) \<or> lines = []")
    case new: True
    show ?thesis
    proof (cases "firstLine \<noteq> [] \<and> blocks \<noteq> []")
      case True
      show ?thesis
      proof (cases "getBlock firstLine blocks")
        case (Ok g)
        with new True "2.prems" have "maps_loop False lines (str_fields line) [] (put_block False g ret) = Ok (ms, err)"
          by simp
        from "2.hyps"(1) [OF refl new True Ok this, where r = "maps_add g r"] Ok new True show ?thesis
          by (auto simp: put_block_def)
      qed (use new True "2.prems" in auto)
    next
      case False
      with new "2.prems" have "maps_loop False lines (str_fields line) [] ret = Ok (ms, err)" by auto
      from "2.hyps"(2) [OF refl new False this] new False show ?thesis by auto
    qed
  next
    case False
    with "2.prems" have "maps_loop False lines firstLine (blocks @ [line]) ret = Ok (ms, err)" by auto
    from "2.hyps"(3) [OF refl False this] False show ?thesis by auto
  qed
qed simp

text \<open>Without a roll-up file, the grouped memory maps of a process are one entry whose ten counters
  are the sums over the ungrouped entries modulo 2 to the 64, with the same error.\<close>

theorem MemoryMaps_grouped_is_sum:
  assumes "MemoryMapsWithContext h p False = Ok (ms, err)"
    and "h_stat h (proc_file h (p_Pid p) [''smaps_rollup'']) = Inl ENOENT"
  shows "\<exists>r. MemoryMapsWithContext h p True = Ok ([r], err) \<and> mm_Path r = [] \<and>
    map (\<lambda>sel. sel r) maps_columns = map (\<lambda>sel. \<Sum>m\<leftarrow>ms. sel m) maps_columns"
proof -
  from assms(1) obtain d where d: "ReadFile h (proc_file h (p_Pid p) [''smaps'']) = Ok d"
    and loop: "maps_loop False (split_char nl d) [] [] [] = Ok (ms, err)"
    by (auto simp: MemoryMapsWithContext_def smaps_path_def Let_def outcome_iff)
  from maps_loop_grouped [OF loop, of empty_maps]
  have "maps_loop True (split_char nl d) [] [] [empty_maps] = Ok ([fold maps_add ms empty_maps], err)" by simp
  then have "MemoryMapsWithContext h p True = Ok ([fold maps_add ms empty_maps], err)"
    using d assms(2) by (simp add: MemoryMapsWithContext_def smaps_path_def)
  moreover have "list_all (\<lambda>sel. sel empty_maps = 0) maps_columns" by (simp add: maps_columns_def empty_maps_def)
  then have "column maps_columns k empty_maps = 0" for k by (simp add: column_def list_all_length)
  then have "map (\<lambda>sel. sel (fold maps_add ms empty_maps)) maps_columns = map (\<lambda>sel. \<Sum>m\<leftarrow>ms. sel m) maps_columns"
    by (intro columns_sumI) (simp add: maps_total.sel_total)
  moreover have "mm_Path (fold maps_add ns r) = mm_Path r" for ns r
    by (induction ns arbitrary: r) (simp_all add: maps_add_def)
  ultimately show ?thesis by (simp add: empty_maps_def)
qed

definition maps_host :: host where
  "maps_host = with_files [(''/proc/7/smaps'', unlines
     [''400-500 r--p 0 08:01 42 /bin/a'', ''Size: 4 kB'', ''Rss: 2 kB'', ''500-600 rw-p 0 00:00 0'', ''Size: 8 kB'', ''Rss: 1 kB''])]"

theorem MemoryMaps_grouped_is_sum_witness:
  "\<exists>r. MemoryMapsWithContext maps_host (new_process 7) True = Ok ([r], None) \<and>
     map (\<lambda>sel. sel r) maps_columns = [3, 12, 0, 0, 0, 0, 0, 0, 0, 0]"
proof -
  let ?ms = "[empty_maps\<lparr>mm_Path := ''/bin/a'', mm_Size := 4, mm_Rss := 2\<rparr>, empty_maps\<lparr>mm_Size := 8, mm_Rss := 1\<rparr>]"
  have "MemoryMapsWithContext maps_host (new_process 7) False = Ok (?ms, None)" by code_simp
  moreover have "h_stat maps_host (proc_file maps_host (p_Pid (new_process 7)) [''smaps_rollup'']) = Inl ENOENT"
    by code_simp
  ultimately show ?thesis
    using MemoryMaps_grouped_is_sum [of maps_host "new_process 7" ?ms None]
    by (auto simp: maps_columns_def empty_maps_def)
qed

end
