(* ===== verification/Process_Readers.thy ===== *)
theory Process_Readers
  imports Process_Linux
begin

text \<open>
  What the readers of \<^verbatim>\<open>/proc/<pid>\<close> return on the files the kernel prints: \<^verbatim>\<open>stat\<close> with an arbitrary
  command name, \<^verbatim>\<open>cmdline\<close>, \<^verbatim>\<open>statm\<close> and \<^verbatim>\<open>limits\<close>. Each file has a printer, the text of the kernel for
  some values, and the reader is shown to recover the values.
\<close>

section \<open>stat\<close>

text \<open>The file of a process: pid, command name in parentheses, state letter and the numbers that
  follow.\<close>


definition stat_text :: "int \<Rightarrow> string \<Rightarrow> string \<Rightarrow> int list \<Rightarrow> string" where
  "stat_text pid comm st vs = itoa pid @ '' ('' @ comm @ '') '' @ join '' '' (st # map itoa vs) @ [nl]"

lemma paren_not_in_itoa [simp]: "CHR ''('' \<notin> set (itoa i)" "CHR '')'' \<notin> set (itoa i)"
  using itoa_chars [of "CHR ''(''" i] itoa_chars [of "CHR '')''" i] by (auto simp: is_digit_def)

text \<open>The command name may hold any bytes, parentheses and spaces included: only the last closing
  parenthesis of the file ends it.\<close>

lemma splitProcStat_text:
  assumes "plain st" and "st \<noteq> []" and "CHR '')'' \<notin> set st"
  shows "splitProcStat (stat_text pid comm st vs) = [] # itoa pid # comm # st # map itoa vs"
proof -
  let ?rest = "join '' '' (st # map itoa vs) @ [nl]"
  let ?c = "stat_text pid comm st vs"
  have "set (join '' '' (st # map itoa vs)) \<subseteq> set '' '' \<union> \<Union> (set ` set (st # map itoa vs))"
    by (rule set_join)
  then have no: "CHR '')'' \<notin> set ('' '' @ ?rest)" using assms(3) by auto
  have c1: "?c = (itoa pid @ '' '') @ CHR ''('' # comm @ '') '' @ ?rest" by (simp add: stat_text_def)
  have c2: "?c = (itoa pid @ '' ('' @ comm) @ CHR '')'' # '' '' @ ?rest" by (simp add: stat_text_def)
  have i1: "index_byte ?c CHR ''('' = Some (length (itoa pid) + 1)"
    unfolding c1 by (subst index_byte_append) auto
  have i2: "last_index_byte ?c CHR '')'' = Some (length (itoa pid) + 2 + length comm)"
    unfolding c2 by (subst last_index_byte_append) (use no in auto)
  have "trim_space (itoa pid @ '' '') = itoa pid" by (rule trim_space_snoc) simp_all
  moreover have "take (length (itoa pid) + 1) ?c = itoa pid @ '' ''" by (simp add: stat_text_def)
  moreover have "drop (Suc (length (itoa pid) + 1)) (take (length (itoa pid) + 2 + length comm) ?c) = comm"
    by (simp add: stat_text_def)
  moreover have "drop (length (itoa pid) + 2 + length comm + 2) ?c = ?rest"
    by (simp add: stat_text_def eval_nat_numeral)
  moreover have "str_fields ?rest = st # map itoa vs"
    using assms by (subst fields_snoc_space) (auto simp: not_sym [OF itoa_plain(2)] intro!: fields_join)
  moreover have "length (itoa pid) + 2 + length comm + 2 \<le> length ?c" by (simp add: stat_text_def)
  ultimately show ?thesis
    unfolding splitProcStat_def i1 i2 by simp
qed


text \<open>The ranges of the numbers that are read: the parent and the priority are 32-bit, the terminal,
  the faults, the times and the start time are 64-bit counters.\<close>

definition stat_ok :: "int list \<Rightarrow> bool" where
  "stat_ok vs \<longleftrightarrow> 19 \<le> length vs \<and>
     list_all (\<lambda>i. - (2 ^ 31) \<le> vs ! i \<and> vs ! i < 2 ^ 31) [0, 14] \<and>
     list_all (\<lambda>i. 0 \<le> vs ! i \<and> vs ! i < 2 ^ 64) ([3, 6, 7, 8, 9, 10, 11, 18] @ (if 38 < length vs then [38] else []))"

definition stat_meaning :: "proc_env \<Rightarrow> int \<Rightarrow> u64 \<Rightarrow> int list \<Rightarrow> tid_stat" where
  "stat_meaning env pid boot vs =
     \<lparr>ts_terminal = word_of_int (vs ! 3), ts_ppid = vs ! 0,
      ts_cpuTimes = proc_times (f_of_int (pe_clockTicks env)) (f_of_nat (nat (vs ! 10))) (f_of_nat (nat (vs ! 11)))
        (if 38 < length vs then f_of_nat (nat (vs ! 38)) else 0),
      ts_createTime = sint (word_of_int (vs ! 18) * 1000 div word_of_int (pe_clockTicks env) + boot * 1000),
      ts_rtpriority = rt_priority (vs ! 14), ts_nice = to_i32 (pe_priority env pid),
      ts_faults = \<lparr>pf_MinorFaults = word_of_int (vs ! 6), pf_MajorFaults = word_of_int (vs ! 8),
        pf_ChildMinorFaults = word_of_int (vs ! 7), pf_ChildMajorFaults = word_of_int (vs ! 9)\<rparr>\<rparr>"

lemma fillFromStat_text:
  assumes "ReadFile (pe_host env) (proc_file (pe_host env) pid [''stat'']) = Ok (stat_text pid comm st vs)"
    and "plain st" and "st \<noteq> []" and "CHR '')'' \<notin> set st" and "stat_ok vs"
    and "word_of_int (pe_clockTicks env) \<noteq> (0 :: u64)"
    and "BootTimeWithContext (pe_host env) (pe_bootCache env) c = (Ok boot, c')"
  shows "fillFromStatWithContext env c pid = (Ok (stat_meaning env pid boot vs), c')"
proof -
  let ?fs = "[] # itoa pid # comm # st # map itoa vs"
  have len: "19 \<le> length vs" using assms(5) by (simp add: stat_ok_def)
  then have nth: "?fs ! (k + 4) = itoa (vs ! k)" if "k < 19 \<or> k < length vs" for k
    using that by (auto simp: nth_Cons')
  note nths = nth [of 0] nth [of 3] nth [of 6] nth [of 7] nth [of 8] nth [of 9] nth [of 10] nth [of 11]
    nth [of 14] nth [of 18] nth [of 38]
  have ne: "stat_text pid comm st vs \<noteq> []" by (simp add: stat_text_def)
  have "stat_times (pe_clockTicks env) ?fs = Ok (word_of_int (vs ! 3), vs ! 0, ts_cpuTimes (stat_meaning env pid boot vs))"
    using nths len assms(5)
    by (auto simp: stat_times_def stat_ok_def stat_meaning_def parse_u64_itoa parse_i32_itoa parse_f64_itoa simp del: nth_Cons_numeral)
  moreover have "stat_rest env pid ?fs boot (word_of_int (vs ! 3), vs ! 0, ts_cpuTimes (stat_meaning env pid boot vs)) =
      Ok (stat_meaning env pid boot vs)"
    using nths len assms(5,6)
    by (auto simp: stat_rest_def create_time_def stat_ok_def stat_meaning_def parse_u64_itoa parse_i32_itoa simp del: nth_Cons_numeral)
  ultimately show ?thesis
    using assms(1,7) splitProcStat_text [OF assms(2-4), of pid comm vs] ne len
    by (simp add: fillFromStatWithContext_def fillFromTIDStatWithContext_def stat_path_def)
qed


text \<open>C7: for every command name, whatever characters it holds, reading \<^verbatim>\<open>/proc/<pid>/stat\<close> gives the
  parent, CPU times, faults and start time that the kernel printed, and the priority the system call
  gives; the start time is the boot time plus the ticks since boot in milliseconds, in 64-bit
  arithmetic.\<close>

theorem Stat_roundtrip:
  assumes "ReadFile (pe_host env) (proc_file (pe_host env) (p_Pid p) [''stat'']) = Ok (stat_text (p_Pid p) comm st vs)"
    and "plain st" and "st \<noteq> []" and "CHR '')'' \<notin> set st" and "stat_ok vs"
    and "word_of_int (pe_clockTicks env) \<noteq> (0 :: u64)"
    and "BootTimeWithContext (pe_host env) (pe_bootCache env) c = (Ok boot, c')"
  shows "PpidWithContext env c p = (Ok (vs ! 0), c') \<and>
    createTimeWithContext env c p =
      (Ok (sint (word_of_int (vs ! 18) * 1000 div word_of_int (pe_clockTicks env) + boot * 1000)), c') \<and>
    proc_TimesWithContext env c p = (Ok (ts_cpuTimes (stat_meaning env (p_Pid p) boot vs)), c') \<and>
    PageFaultsWithContext env c p = (Ok (ts_faults (stat_meaning env (p_Pid p) boot vs)), c') \<and>
    NiceWithContext env c p = (Ok (to_i32 (pe_priority env (p_Pid p))), c')"
  by (simp add: fillFromStat_text [OF assms] on_stat_def PpidWithContext_def createTimeWithContext_def
      proc_TimesWithContext_def PageFaultsWithContext_def NiceWithContext_def) (simp add: stat_meaning_def)

text \<open>Splitting at spaces instead puts the words of the command name before the numbers.\<close>

lemma stat_fields:
  assumes "plain st" and "st \<noteq> []" and "words \<noteq> []" and "\<And>w. w \<in> set words \<Longrightarrow> plain w \<and> w \<noteq> []"
    and "'' ('' @ comm @ '') '' = CHR '' '' # join '' '' words @ '' ''"
  shows "str_fields (stat_text pid comm st vs) = itoa pid # words @ st # map itoa vs"
proof -
  have join_app: "join '' '' (xs @ ys) = join '' '' xs @ '' '' @ join '' '' ys" if "xs \<noteq> []" "ys \<noteq> []" for xs ys
    using that by (induction xs rule: induct_list012) (auto simp: join_Cons)
  have "stat_text pid comm st vs = itoa pid @ ('' ('' @ comm @ '') '') @ join '' '' (st # map itoa vs) @ [nl]"
    by (simp add: stat_text_def)
  also have "\<dots> = join '' '' (itoa pid # words @ st # map itoa vs) @ [nl]"
    unfolding assms(5) using assms(3) by (simp add: join_Cons join_app)
  finally have "stat_text pid comm st vs = join '' '' (itoa pid # words @ st # map itoa vs) @ [nl]" .
  moreover have w: "plain w \<and> w \<noteq> []" if "w \<in> set (itoa pid # words @ st # map itoa vs)" for w
    using that assms(1,2) assms(4) [of w] by auto
  have "str_fields (join '' '' (itoa pid # words @ st # map itoa vs)) = itoa pid # words @ st # map itoa vs"
    by (rule fields_join [OF w])
  ultimately show ?thesis by (simp del: join.simps)
qed

text \<open>\<^verbatim>\<open>Foreground\<close> compares the process group with the foreground group of the terminal only when the
  command name has no space; with one space in the name it compares the parent's pid with the
  terminal's device number.\<close>

theorem Foreground_fields:
  assumes "ReadFile h (proc_file h (p_Pid p) [''stat'']) = Ok (stat_text (p_Pid p) comm st vs)"
    and "plain st" and "st \<noteq> []" and "5 \<le> length vs"
  shows "(plain comm \<longrightarrow> ForegroundWithContext h p = Ok (vs ! 1 = vs ! 4)) \<and>
    (comm = a @ '' '' @ b \<and> plain a \<and> plain b \<longrightarrow> ForegroundWithContext h p = Ok (vs ! 0 = vs ! 3))"
proof -
  from assms(4) obtain v0 v1 v2 v3 v4 vs' where vs: "vs = v0 # v1 # v2 # v3 # v4 # vs'"
    by (auto simp: eval_nat_numeral Suc_le_length_iff)
  have one: "str_fields (stat_text (p_Pid p) comm st vs) = itoa (p_Pid p) # [''('' @ comm @ '')''] @ st # map itoa vs" if "plain comm"
    using that assms(2,3) by (intro stat_fields) (auto simp: is_ascii_space_def)
  have two: "str_fields (stat_text (p_Pid p) comm st vs) = itoa (p_Pid p) # [''('' @ a, b @ '')''] @ st # map itoa vs"
    if "comm = a @ '' '' @ b" "plain a" "plain b"
    using that assms(2,3) by (intro stat_fields) (auto simp: is_ascii_space_def)
  show ?thesis
    using one two assms(1) by (auto simp: ForegroundWithContext_def vs Let_def)
qed

section \<open>cmdline\<close>

definition argv_text :: "string list \<Rightarrow> string" where
  "argv_text argv = concat (map (\<lambda>a. a @ [CHR 0x00]) argv)"

lemma argv_text_join: "argv \<noteq> [] \<Longrightarrow> argv_text argv = join [CHR 0x00] argv @ [CHR 0x00]"
  by (induction argv rule: induct_list012) (auto simp: argv_text_def)

lemma fields_func_argv:
  assumes "\<And>a. a \<in> set argv \<Longrightarrow> CHR 0x00 \<notin> set a"
  shows "fields_func (\<lambda>ch. ch = CHR 0x00) [] (argv_text argv) = filter (\<lambda>a. a \<noteq> []) argv"
proof -
  have word: "fields_func (\<lambda>ch. ch = CHR 0x00) cur (a @ CHR 0x00 # s) =
      (if rev a @ cur = [] then [] else [rev (rev a @ cur)]) @ fields_func (\<lambda>ch. ch = CHR 0x00) [] s"
    if "CHR 0x00 \<notin> set a" for cur a s
    using that by (induction a arbitrary: cur) auto
  show ?thesis using assms by (induction argv) (auto simp: argv_text_def word)
qed

text \<open>The arguments of a process, empty ones included, are read back exactly from \<^verbatim>\<open>cmdline\<close> as a
  list when the last one is not empty; the command line as one string drops the empty ones.\<close>

theorem Cmdline_roundtrip:
  assumes "ReadFile h (proc_file h (p_Pid p) [''cmdline'']) = Ok (argv_text argv)"
    and "list_all (\<lambda>a. CHR 0x00 \<notin> set a) argv" and "argv \<noteq> []" and "last argv \<noteq> []"
  shows "fillSliceFromCmdlineWithContext h p = Ok argv \<and>
    fillFromCmdlineWithContext h p = Ok (join '' '' (filter (\<lambda>a. a \<noteq> []) argv))"
proof -
  have "CHR 0x00 \<notin> set (last argv)" using assms(2,3) by (simp add: list_all_iff)
  moreover have "\<exists>s. join [CHR 0x00] argv = s @ last argv"
    using assms(3) by (induction argv rule: induct_list012) auto
  ultimately have "trim_right_set [CHR 0x00] (join [CHR 0x00] argv) = join [CHR 0x00] argv"
    using assms(4) by (cases "last argv" rule: rev_cases) (auto simp: trim_right_set_def)
  then have "trim_right_set [CHR 0x00] (argv_text argv) = join [CHR 0x00] argv"
    using assms(3) by (simp add: argv_text_join)
  moreover have "split_char CHR 0x00 (join [CHR 0x00] argv) = argv"
    using assms(2,3) by (intro split_char_join) (auto simp: list_all_iff)
  moreover have "argv_text argv \<noteq> []" using assms(3) by (simp add: argv_text_join)
  moreover have "fields_func (\<lambda>ch. ch = CHR 0x00) [] (argv_text argv) = filter (\<lambda>a. a \<noteq> []) argv"
    using assms(2) by (intro fields_func_argv) (simp add: list_all_iff)
  ultimately show ?thesis
    using assms(1) by (simp add: fillSliceFromCmdlineWithContext_def fillFromCmdlineWithContext_def)
qed


section \<open>statm and limits\<close>

text \<open>The sizes of \<^verbatim>\<open>statm\<close> are read in pages; the sixth column, which the kernel documents as data
  and stack, is reported as dirty pages, and the data size is always 0.\<close>

theorem Statm_columns:
  assumes "ReadFile h (proc_file h (p_Pid p) [''statm'']) =
      Ok (join '' '' (map (\<lambda>w. fmt_nat (unat w)) [sz, resident, shared, txt, lib, data, dt]) @ [nl])"
  shows "MemoryInfoWithContext h p =
      Ok (empty_mem_info\<lparr>mi_RSS := resident * word_of_nat (h_pagesize h), mi_VMS := sz * word_of_nat (h_pagesize h)\<rparr>) \<and>
    MemoryInfoExWithContext h p =
      Ok \<lparr>me_RSS = resident * word_of_nat (h_pagesize h), me_VMS = sz * word_of_nat (h_pagesize h),
        me_Shared = shared * word_of_nat (h_pagesize h), me_Text = txt * word_of_nat (h_pagesize h),
        me_Lib = lib * word_of_nat (h_pagesize h), me_Data = 0, me_Dirty = data * word_of_nat (h_pagesize h)\<rparr>"
proof -
  let ?ws = "map (\<lambda>w. fmt_nat (unat w)) [sz, resident, shared, txt, lib, data] @ [fmt_nat (unat dt) @ [nl]]"
  have sp: "CHR '' '' \<notin> set (fmt_nat n)" for n
    using plain_no_space [OF fmt_nat_plain, of "CHR '' ''" n] by simp
  have "join '' '' (map (\<lambda>w. fmt_nat (unat w)) [sz, resident, shared, txt, lib, data, dt]) @ [nl] = join '' '' ?ws"
    by simp
  moreover have "split_char CHR '' '' (join '' '' ?ws) = ?ws"
    using sp by (intro split_char_join) auto
  ultimately have "split_char CHR '' '' (join '' '' (map (\<lambda>w. fmt_nat (unat w)) [sz, resident, shared, txt, lib, data, dt]) @ [nl]) = ?ws"
    by simp
  then have "fillFromStatmWithContext h p = Ok (empty_mem_info\<lparr>mi_RSS := resident * word_of_nat (h_pagesize h), mi_VMS := sz * word_of_nat (h_pagesize h)\<rparr>,
      \<lparr>me_RSS = resident * word_of_nat (h_pagesize h), me_VMS = sz * word_of_nat (h_pagesize h),
        me_Shared = shared * word_of_nat (h_pagesize h), me_Text = txt * word_of_nat (h_pagesize h),
        me_Lib = lib * word_of_nat (h_pagesize h), me_Data = 0, me_Dirty = data * word_of_nat (h_pagesize h)\<rparr>)"
    unfolding fillFromStatmWithContext_def assms by (simp add: Let_def del: join.simps)
  then show ?thesis by (simp add: MemoryInfoWithContext_def MemoryInfoExWithContext_def)
qed

text \<open>A row of \<^verbatim>\<open>limits\<close>: the index of the limit, soft and hard values (\<open>None\<close> is unlimited) and the
  unit, which some rows do not have.\<close>

type_synonym limit_row = "nat \<times> u64 option \<times> u64 option \<times> string option"

definition limit_text :: "u64 option \<Rightarrow> string" where
  "limit_text l = (case l of None \<Rightarrow> ''unlimited'' | Some w \<Rightarrow> fmt_nat (unat w))"

definition limit_value :: "u64 option \<Rightarrow> u64" where
  "limit_value l = (case l of None \<Rightarrow> - 1 | Some w \<Rightarrow> w)"

definition limits_row :: "limit_row \<Rightarrow> string" where
  "limits_row = (\<lambda>(r, soft, hard, u). join '' '' (split_char CHR '' '' (rlimit_names ! r) @
     [limit_text soft, limit_text hard] @ (case u of None \<Rightarrow> [] | Some u \<Rightarrow> [u])))"

definition limits_row_ok :: "limit_row \<Rightarrow> bool" where
  "limits_row_ok = (\<lambda>(r, soft, hard, u). r < length rlimit_names \<and> scannable (limits_row (r, soft, hard, u)) \<and>
     (case u of None \<Rightarrow> True | Some u \<Rightarrow> plain u \<and> u \<noteq> [] \<and> \<not> str_contains u ''Units'' \<and> u \<noteq> ''unlimited'' \<and>
        (case parse_u64 u of Err _ \<Rightarrow> True | _ \<Rightarrow> False)))"

definition limits_meaning :: "limit_row \<Rightarrow> rlimit_stat" where
  "limits_meaning = (\<lambda>(r, soft, hard, u). \<lparr>rl_Resource = int r, rl_Soft = limit_value soft, rl_Hard = limit_value hard, rl_Used = 0\<rparr>)"

definition limits_header :: string where
  "limits_header = ''Limit                     Soft Limit           Hard Limit           Units     ''"

lemma limit_text [simp]:
  "plain (limit_text l)" "limit_text l \<noteq> []" "limitToUint (limit_text l) = Ok (limit_value l)"
  "\<not> str_contains (limit_text l) ''Units''"
proof -
  have n: "fmt_nat m \<noteq> ''unlimited''" for m
    using hd_fmt_nat [of m] by (auto simp: is_digit_def)
  have noU: "CHR ''U'' \<notin> set (fmt_nat m)" for m
    using decimal_chars [OF decimal_fmt_nat, of "CHR ''U''" m] by (auto simp: is_digit_def)
  have "str_contains s ''Units'' \<Longrightarrow> CHR ''U'' \<in> set s" for s
    by (auto simp: str_contains_def sublist_def)
  moreover have "CHR ''U'' \<notin> set (limit_text l)" using noU by (auto simp: limit_text_def split: option.splits)
  ultimately show "\<not> str_contains (limit_text l) ''Units''" by blast
  show "plain (limit_text l)" "limit_text l \<noteq> []" "limitToUint (limit_text l) = Ok (limit_value l)"
    using n by (auto simp: limit_text_def limitToUint_def limit_value_def is_ascii_space_def split: option.splits)
qed

lemma rlimit_names_facts: "distinct rlimit_names" "length rlimit_names = 16"
  "list_all (\<lambda>n. list_all (\<lambda>w. plain w \<and> w \<noteq> []) (split_char CHR '' '' n)) rlimit_names"
  by (simp_all add: rlimit_names_def is_ascii_space_def)


lemma limits_line_row:
  assumes "limits_row_ok row"
  shows "limits_line (limits_row row) acc = Ok (acc @ [limits_meaning row])"
proof -
  obtain r soft hard u where row: "row = (r, soft, hard, u)" by (cases row)
  let ?ws = "split_char CHR '' '' (rlimit_names ! r)"
  let ?us = "case u of None \<Rightarrow> [] | Some u \<Rightarrow> [u]"
  have r: "r < length rlimit_names" using assms by (simp add: row limits_row_ok_def)
  have ws: "plain w \<and> w \<noteq> []" if "w \<in> set ?ws" for w
    using that r rlimit_names_facts(3) by (auto simp: list_all_iff)
  have us: "plain w \<and> w \<noteq> []" if "w \<in> set ?us" for w
    using that assms by (auto simp: row limits_row_ok_def split: option.splits)
  have fs: "str_fields (limits_row row) = ?ws @ [limit_text soft, limit_text hard] @ ?us"
    unfolding row limits_row_def prod.case by (rule fields_join) (use ws us in auto)
  have name: "join '' '' ?ws = rlimit_names ! r" by (rule join_split_char)
  have "map_of (zip rlimit_names [0..15]) (rlimit_names ! r) = Some ([0..15] ! r :: int)"
    using r rlimit_names_facts(1,2) by (intro map_of_zip_nth) (simp_all add: upto_rec1)
  moreover have "[0..15] ! r = int r" using r rlimit_names_facts(2) by (simp add: nth_upto)
  ultimately have res: "map_of (zip rlimit_names [0..15]) (rlimit_names ! r) = Some (int r)" by simp
  show ?thesis
  proof (cases u)
    case None
    with fs name res show ?thesis
      by (simp add: limits_line_def last_field_def limits_meaning_def row butlast_append)
  next
    case (Some w)
    then obtain e where "limitToUint w = Err e" "\<not> str_contains w ''Units''"
      using assms by (auto simp: row limits_row_ok_def limitToUint_def split: result.splits)
    with Some fs name res show ?thesis
      by (simp add: limits_line_def last_field_def limits_meaning_def row butlast_append)
  qed
qed

text \<open>\<^verbatim>\<open>Rlimit\<close> reads back the table the kernel prints, with and without units: every row gives the
  number of its limit and both values, where unlimited is the largest 64-bit number.\<close>

theorem Rlimit_roundtrip:
  assumes "h_open h (proc_file h (p_Pid p) [''limits'']) = Inr (unlines (limits_header # map limits_row rows), None)"
    and "list_all limits_row_ok rows"
  shows "fillFromLimitsWithContext h p = Ok (map limits_meaning rows)"
proof -
  have "list_all scannable (limits_header # map limits_row rows)"
    using assms(2) by (auto simp: list_all_iff limits_row_ok_def limits_header_def scannable_def drop_cr_def)
  then have scan: "scan_lines None (unlines (limits_header # map limits_row rows)) = (limits_header # map limits_row rows, None)"
    using scan_lines_lines [of "limits_header # map limits_row rows" "[]" None] by (simp add: scannable_def drop_cr_def)
  have "str_fields limits_header = [''Limit'', ''Soft'', ''Limit'', ''Hard'', ''Limit'', ''Units'']" by code_simp
  then have header: "limits_line limits_header acc = Ok acc" for acc
    by (simp add: limits_line_def last_field_def str_contains_def)
  have "rfold limits_line (map limits_row rows) acc = Ok (acc @ map limits_meaning rows)" for acc
    using assms(2) by (induction rows arbitrary: acc) (simp_all add: limits_line_row)
  with header show ?thesis
    unfolding fillFromLimitsWithContext_def assms(1) of_sum.simps rbind.simps prod.case scan by simp
qed


section \<open>A process\<close>

definition stat_vals :: "int list" where
  "stat_vals = [1, 7, 7, 34816, 7, 0, 5, 6, 8, 9, 250, 50, 0, 0, - 51, 0, 1, 0, 400]"

definition stat_env :: proc_env where
  "stat_env = \<lparr>pe_host = (with_files
     [(''/proc/7/stat'', stat_text 7 ''a b) c'' ''S'' stat_vals),
      (''/proc/8/stat'', stat_text 8 ''a b'' ''S'' stat_vals),
      (''/proc/7/cmdline'', argv_text [''a'', [], ''-x y'']),
      (''/proc/7/statm'', ''90 20 10 5 0 30 0'' @ [nl]),
      (''/proc/7/limits'', unlines [limits_header, limits_row (7, Some 1024, None, Some ''files''), limits_row (13, Some 0, Some 0, None)])])
       \<lparr>h_glob := (\<lambda>_. Inr [''/proc/7/stat'', ''/proc/9/stat''])\<rparr>,
     pe_clockTicks = 100, pe_priority = (\<lambda>_. 0), pe_lstat = (\<lambda>_. Inl ENOENT), pe_rdev = (\<lambda>_. Inl ENOENT),
     pe_signal = (\<lambda>_ _. None), pe_numcpu = 1, pe_bootCache = True\<rparr>"

lemma stat_env_paths:
  "proc_file (pe_host stat_env) 7 [''stat''] = ''/proc/7/stat''" "proc_file (pe_host stat_env) 8 [''stat''] = ''/proc/8/stat''"
  "proc_file (pe_host stat_env) 7 [''cmdline''] = ''/proc/7/cmdline''"
  "proc_file (pe_host stat_env) 7 [''statm''] = ''/proc/7/statm''"
  "proc_file (pe_host stat_env) 7 [''limits''] = ''/proc/7/limits''"
  by code_simp+

lemma stat_env_facts:
  "ReadFile (pe_host stat_env) (proc_file (pe_host stat_env) 7 [''stat'']) = Ok (stat_text 7 ''a b) c'' ''S'' stat_vals)"
  "plain ''S''" "''S'' \<noteq> []" "CHR '')'' \<notin> set ''S''" "stat_ok stat_vals"
  "word_of_int (pe_clockTicks stat_env) \<noteq> (0 :: u64)"
  "BootTimeWithContext (pe_host stat_env) (pe_bootCache stat_env) \<lparr>c_bootTime = 1000, c_virt = v\<rparr> =
    (Ok 1000, \<lparr>c_bootTime = 1000, c_virt = v\<rparr>)"
  unfolding stat_env_paths
  by (simp_all add: stat_env_def with_files_def no_files_def ReadFile_def is_ascii_space_def stat_ok_def stat_vals_def
      BootTimeWithContext_def)

theorem Stat_roundtrip_witness:
  "let c = \<lparr>c_bootTime = 1000, c_virt = None\<rparr>; p = new_process 7 in
     PpidWithContext stat_env c p = (Ok 1, c) \<and> createTimeWithContext stat_env c p = (Ok 1004000, c)"
proof -
  have pid: "p_Pid (new_process 7) = 7" by (simp add: new_process_def)
  from Stat_roundtrip [where p = "new_process 7", unfolded pid, OF stat_env_facts(1-6) stat_env_facts(7) [of None]] show ?thesis
    by (simp add: stat_vals_def stat_env_def)
qed

lemma stat_env_createTime:
  assumes "p_Pid p = 7"
  shows "createTimeWithContext stat_env \<lparr>c_bootTime = 1000, c_virt = v\<rparr> p = (Ok 1004000, \<lparr>c_bootTime = 1000, c_virt = v\<rparr>)"
  using fillFromStat_text [OF stat_env_facts(1-6) stat_env_facts(7) [of v]] assms
  by (simp add: createTimeWithContext_def on_stat_def stat_meaning_def stat_vals_def stat_env_def)

theorem Foreground_fields_witness:
  "ForegroundWithContext (pe_host stat_env) (new_process 8) = Ok (stat_vals ! 0 = stat_vals ! 3) \<and>
   (stat_vals ! 1 = stat_vals ! 4) \<noteq> (stat_vals ! 0 = stat_vals ! 3)"
proof -
  have pid: "p_Pid (new_process 8) = 8" by (simp add: new_process_def)
  have "ReadFile (pe_host stat_env) (proc_file (pe_host stat_env) 8 [''stat'']) = Ok (stat_text 8 ''a b'' ''S'' stat_vals)"
    unfolding stat_env_paths by (simp add: stat_env_def with_files_def no_files_def ReadFile_def)
  with Foreground_fields [of "pe_host stat_env" "new_process 8" "''a b''" "''S''" stat_vals "''a''" "''b''"] pid
  show ?thesis by (simp add: is_ascii_space_def stat_vals_def)
qed

theorem Cmdline_roundtrip_witness:
  "fillSliceFromCmdlineWithContext (pe_host stat_env) (new_process 7) = Ok [''a'', [], ''-x y''] \<and>
   fillFromCmdlineWithContext (pe_host stat_env) (new_process 7) = Ok ''a -x y''"
proof -
  have "ReadFile (pe_host stat_env) (proc_file (pe_host stat_env) (p_Pid (new_process 7)) [''cmdline'']) = Ok (argv_text [''a'', [], ''-x y''])"
    by (simp add: new_process_def stat_env_paths) (simp add: stat_env_def with_files_def no_files_def ReadFile_def)
  from Cmdline_roundtrip [OF this] show ?thesis by simp
qed

theorem Statm_columns_witness:
  "MemoryInfoExWithContext (pe_host stat_env) (new_process 7) =
     Ok \<lparr>me_RSS = 20 * 4096, me_VMS = 90 * 4096, me_Shared = 10 * 4096, me_Text = 5 * 4096, me_Lib = 0, me_Data = 0, me_Dirty = 30 * 4096\<rparr>"
proof -
  have f: "fmt_nat 90 = ''90''" "fmt_nat 20 = ''20''" "fmt_nat 10 = ''10''" "fmt_nat 5 = ''5''" "fmt_nat 0 = ''0''" "fmt_nat 30 = ''30''"
    by code_simp+
  have "ReadFile (pe_host stat_env) (proc_file (pe_host stat_env) (p_Pid (new_process 7)) [''statm'']) =
      Ok (join '' '' (map (\<lambda>w. fmt_nat (unat w)) [90, 20, 10, 5, 0, 30, 0 :: u64]) @ [nl])"
    by (simp add: new_process_def stat_env_paths f) (simp add: stat_env_def with_files_def no_files_def ReadFile_def)
  from Statm_columns [OF this] show ?thesis by (simp add: stat_env_def with_files_def no_files_def)
qed

theorem Rlimit_roundtrip_witness:
  "fillFromLimitsWithContext (pe_host stat_env) (new_process 7) =
     Ok [\<lparr>rl_Resource = 7, rl_Soft = 1024, rl_Hard = - 1, rl_Used = 0\<rparr>, \<lparr>rl_Resource = 13, rl_Soft = 0, rl_Hard = 0, rl_Used = 0\<rparr>]"
proof -
  let ?rows = "[(7, Some 1024, None, Some ''files''), (13, Some 0, Some 0, None)]"
  have "h_open (pe_host stat_env) (proc_file (pe_host stat_env) (p_Pid (new_process 7)) [''limits'']) =
      Inr (unlines (limits_header # map limits_row ?rows), None)"
    by (simp add: new_process_def stat_env_paths) (simp add: stat_env_def with_files_def no_files_def)
  moreover have "list_all limits_row_ok ?rows" by code_simp
  ultimately show ?thesis using Rlimit_roundtrip [of "pe_host stat_env" "new_process 7" ?rows]
    by (simp add: limits_meaning_def limit_value_def)
qed

end
