(* ===== verification/Process_Api.thy ===== *)
theory Process_Api
  imports Process_Maps Process_Readers Mem_Linux Net_Linux "HOL-Library.Multiset"
begin

text \<open>
  The operations on processes that combine the readers (\<^verbatim>\<open>process.go\<close>, \<^verbatim>\<open>process_posix.go\<close> and the rest
  of \<^verbatim>\<open>process_linux.go\<close>): listing and finding processes, the identity of a process by its start
  time, CPU and memory percentages, resource usage, threads, terminals and signals. Operations that
  update the process object or the boot time cache return the new values.
\<close>

section \<open>Listing\<close>

definition strictIntPtrn :: "string \<Rightarrow> bool" where
  "strictIntPtrn s \<longleftrightarrow> s \<noteq> [] \<and> list_all is_digit s"

definition readPidsFromDir :: "host \<Rightarrow> string \<Rightarrow> int list result" where
  "readPidsFromDir h path = rbind (of_sum (h_readdir h path)) (\<lambda>fnames.
     Ok (List.map_filter (\<lambda>fname. if strictIntPtrn fname
       then (case parse_i32 fname of Ok pid \<Rightarrow> Some pid | _ \<Rightarrow> None) else None) fnames))"

text \<open>\<^verbatim>\<open>sort.Slice\<close> on numbers.\<close>

definition proc_PidsWithContext :: "host \<Rightarrow> int list result" where
  "proc_PidsWithContext h = rbind (readPidsFromDir h (HostProcWithContext h [])) (\<lambda>pids. Ok (sort pids))"

section \<open>Existence\<close>

definition isMount :: "proc_env \<Rightarrow> string \<Rightarrow> bool" where
  "isMount env path = (case pe_lstat env path of
     Inl _ \<Rightarrow> False
   | Inr (is_link, dev1, ino1) \<Rightarrow>
       if is_link then False
       else (case pe_lstat env (path_join [path, ''..'']) of
           Inl _ \<Rightarrow> False
         | Inr (_, dev2, ino2) \<Rightarrow> dev1 \<noteq> dev2 \<or> ino1 = ino2))"

text \<open>\<^verbatim>\<open>os.ErrProcessDone\<close>. \<^verbatim>\<open>os.FindProcess\<close> always succeeds on Unix.\<close>

abbreviation ErrProcessDone :: gerr where
  "ErrProcessDone \<equiv> ErrMsg ''os: process already finished''"

definition PidExistsWithContext :: "proc_env \<Rightarrow> int \<Rightarrow> bool result" where
  "PidExistsWithContext env pid =
     (let h = pe_host env in
      if pid \<le> 0 then Err (ErrMsg (''invalid pid '' @ itoa pid))
      else if isMount env (HostProcWithContext h []) then
        (case h_stat h (proc_file h pid []) of
           Inr _ \<Rightarrow> Ok True
         | Inl e \<Rightarrow> if is_not_exist e then Ok False else Err e)
      else case pe_signal env pid 0 of
        None \<Rightarrow> Ok True
      | Some e \<Rightarrow> if err_is e ErrProcessDone \<or> e = ESRCH then Ok False
                  else if e = EPERM then Ok True else Err e)"

section \<open>Identity\<close>

text \<open>The start time is cached in the object; a failed read leaves 0 there.\<close>

definition CreateTimeWithContext :: "proc_env \<Rightarrow> caches \<Rightarrow> process \<Rightarrow> (int \<times> gerr option) result \<times> process \<times> caches" where
  "CreateTimeWithContext env c p =
     (if p_createTime p \<noteq> 0 then (Ok (p_createTime p, None), p, c)
      else case createTimeWithContext env c p of
        (Ok t, c') \<Rightarrow> (Ok (t, None), p\<lparr>p_createTime := t\<rparr>, c')
      | (Err e, c') \<Rightarrow> (Ok (0, Some e), p\<lparr>p_createTime := 0\<rparr>, c')
      | (Panic, c') \<Rightarrow> (Panic, p, c'))"

text \<open>The object is returned also with an error.\<close>

definition NewProcessWithContext :: "proc_env \<Rightarrow> caches \<Rightarrow> int \<Rightarrow> (process \<times> gerr option) result \<times> caches" where
  "NewProcessWithContext env c pid =
     (let p = new_process pid in
      case PidExistsWithContext env pid of
        Err e \<Rightarrow> (Ok (p, Some e), c)
      | Panic \<Rightarrow> (Panic, c)
      | Ok False \<Rightarrow> (Ok (p, Some ErrProcessNotRunning), c)
      | Ok True \<Rightarrow> (case CreateTimeWithContext env c p of
          (Panic, _, c') \<Rightarrow> (Panic, c') | (_, p', c') \<Rightarrow> (Ok (p', None), c')))"

definition IsRunningWithContext :: "proc_env \<Rightarrow> caches \<Rightarrow> process \<Rightarrow> bool result \<times> process \<times> caches" where
  "IsRunningWithContext env c p = (case CreateTimeWithContext env c p of
     (Panic, p', c') \<Rightarrow> (Panic, p', c')
   | (Err e, p', c') \<Rightarrow> (Err e, p', c')
   | (Ok (_, Some e), p', c') \<Rightarrow> (Err e, p', c')
   | (Ok (createTime, None), p', c') \<Rightarrow>
       (case NewProcessWithContext env c' (p_Pid p) of
          (Ok (p2, err), c2) \<Rightarrow>
            if err = Some ErrProcessNotRunning then (Ok False, p', c2)
            else (case CreateTimeWithContext env c2 p2 of
              (Ok (createTime2, None), _, c3) \<Rightarrow> (Ok (createTime = createTime2), p', c3)
            | (Ok (_, Some e), _, c3) \<Rightarrow> (Err e, p', c3)
            | (Err e, _, c3) \<Rightarrow> (Err e, p', c3)
            | (Panic, _, c3) \<Rightarrow> (Panic, p', c3))
        | (Err e, c2) \<Rightarrow> (Err e, p', c2)
        | (Panic, c2) \<Rightarrow> (Panic, p', c2)))"

text \<open>Processes that vanish while the list is built are left out.\<close>

fun new_processes :: "proc_env \<Rightarrow> caches \<Rightarrow> int list \<Rightarrow> process list \<Rightarrow> process list result \<times> caches" where
  "new_processes env c [] out = (Ok out, c)"
| "new_processes env c (pid # pids) out = (case NewProcessWithContext env c pid of
     (Ok (p, None), c') \<Rightarrow> new_processes env c' pids (out @ [p])
   | (Ok (p, Some _), c') \<Rightarrow> new_processes env c' pids out
   | (Err _, c') \<Rightarrow> new_processes env c' pids out
   | (Panic, c') \<Rightarrow> (Panic, c'))"

definition ProcessesWithContext :: "proc_env \<Rightarrow> caches \<Rightarrow> process list result \<times> caches" where
  "ProcessesWithContext env c = (case proc_PidsWithContext (pe_host env) of
     Ok pids \<Rightarrow> new_processes env c pids [] | Err e \<Rightarrow> (Err e, c) | Panic \<Rightarrow> (Panic, c))"

text \<open>The pid and the parent's pid of a \<^verbatim>\<open>stat\<close> file.\<close>

definition stat_pid_ppid :: "host \<Rightarrow> string \<Rightarrow> (int \<times> int) option" where
  "stat_pid_ppid h statFile = (case ReadFile h statFile of
     Ok contents \<Rightarrow>
       (let fs = splitProcStat contents in
        if contents = [] \<or> length fs < 5 then None
        else (case (parse_i32 (fs ! 1), parse_i32 (fs ! 4)) of (Ok pid, Ok ppid) \<Rightarrow> Some (pid, ppid) | _ \<Rightarrow> None))
   | _ \<Rightarrow> None)"

definition child_pids :: "host \<Rightarrow> int \<Rightarrow> string list \<Rightarrow> int list" where
  "child_pids h parent statFiles = map fst (filter (\<lambda>(_, ppid). ppid = parent) (List.map_filter (stat_pid_ppid h) statFiles))"

definition ChildrenWithContext :: "proc_env \<Rightarrow> caches \<Rightarrow> process \<Rightarrow> process list result \<times> caches" where
  "ChildrenWithContext env c p =
     (let h = pe_host env in
      case h_glob h (HostProcWithContext h [''[0-9]*/stat'']) of
        Inl e \<Rightarrow> (Err e, c)
      | Inr statFiles \<Rightarrow>
          (case new_processes env c (child_pids h (p_Pid p) statFiles) [] of
             (Ok ps, c') \<Rightarrow> (Ok (sort_key p_Pid ps), c') | r \<Rightarrow> r))"

section \<open>Percentages\<close>

text \<open>\<^verbatim>\<open>time.Duration.Seconds\<close>, and the saturating difference of two instants.\<close>

definition dur_seconds :: "int \<Rightarrow> float64" where
  "dur_seconds d = f_of_int (sgn d * (\<bar>d\<bar> div 10 ^ 9)) + f_of_int (sgn d * (\<bar>d\<bar> mod 10 ^ 9)) / Fin (10 ^ 9)"

definition dur_sub :: "int \<Rightarrow> int \<Rightarrow> int" where
  "dur_sub a b = max (- (2 ^ 63)) (min (2 ^ 63 - 1) (a - b))"

text \<open>\<open>env'\<close> is the system after the wait and \<open>slept\<close> the error of \<^verbatim>\<open>common.Sleep\<close>.\<close>

definition percent_since_last :: "proc_env \<Rightarrow> times_stat \<Rightarrow> process \<Rightarrow> float64 \<times> process" where
  "percent_since_last env cpuTimes p =
     (let now = h_now (pe_host env); numcpu = pe_numcpu env;
          delta = dur_seconds (dur_sub now (p_lastCPUTime p)) * f_of_nat numcpu;
          last = (case p_lastCPUTimes p of Some t \<Rightarrow> t | None \<Rightarrow> cpuTimes)
      in (calculatePercent last cpuTimes delta numcpu,
          p\<lparr>p_lastCPUTimes := Some cpuTimes, p_lastCPUTime := now\<rparr>))"

definition proc_PercentWithContext ::
    "proc_env \<Rightarrow> proc_env \<Rightarrow> gerr option \<Rightarrow> int \<Rightarrow> caches \<Rightarrow> process \<Rightarrow> float64 result \<times> process \<times> caches" where
  "proc_PercentWithContext env env' slept interval c p =
     (case proc_TimesWithContext env c p of
        (Err e, c1) \<Rightarrow> (Err e, p, c1)
      | (Panic, c1) \<Rightarrow> (Panic, p, c1)
      | (Ok cpuTimes, c1) \<Rightarrow>
          (let p1 = p\<lparr>p_lastCPUTimes := Some cpuTimes, p_lastCPUTime := h_now (pe_host env)\<rparr> in
           if 0 < interval then
             (case slept of
                Some e \<Rightarrow> (Err e, p1, c1)
              | None \<Rightarrow> (case proc_TimesWithContext env' c1 p1 of
                  (Err e, c2) \<Rightarrow> (Err e, p1, c2)
                | (Panic, c2) \<Rightarrow> (Panic, p1, c2)
                | (Ok t2, c2) \<Rightarrow> (case percent_since_last env' t2 p1 of (r, p2) \<Rightarrow> (Ok r, p2, c2))))
           else if p_lastCPUTimes p = None then (Ok 0, p1, c1)
           else (case percent_since_last env cpuTimes p of (r, p2) \<Rightarrow> (Ok r, p2, c1))))"

text \<open>In \<^verbatim>\<open>float32\<close> arithmetic.\<close>

definition MemoryPercentWithContext :: "host \<Rightarrow> process \<Rightarrow> float64 result" where
  "MemoryPercentWithContext h p = rbind (VirtualMemoryWithContext h) (\<lambda>machineMemory.
     rbind (MemoryInfoWithContext h p) (\<lambda>processMemory.
       Ok (f_div fl32 (f_mul fl32 (Fin 100) (fl32 False (of_nat (unat (mi_RSS processMemory)))))
             (fl32 False (of_nat (unat (v_Total machineMemory)))))))"

definition CPUPercentWithContext :: "proc_env \<Rightarrow> caches \<Rightarrow> process \<Rightarrow> float64 result \<times> caches" where
  "CPUPercentWithContext env c p = (case createTimeWithContext env c p of
     (Err e, c1) \<Rightarrow> (Err e, c1)
   | (Panic, c1) \<Rightarrow> (Panic, c1)
   | (Ok createTime, c1) \<Rightarrow> (case proc_TimesWithContext env c1 p of
       (Err e, c2) \<Rightarrow> (Err e, c2)
     | (Panic, c2) \<Rightarrow> (Panic, c2)
     | (Ok cput, c2) \<Rightarrow>
         (let created = to_i64 (createTime * 10 ^ 6);
              totalTime = dur_seconds (dur_sub (h_now (pe_host env)) created)
          in (Ok (if totalTime \<le> 0 then 0 else Fin 100 * TimesStat_Total cput / totalTime), c2))))"

section \<open>Threads, terminals, parents and limits\<close>

fun threads_loop :: "proc_env \<Rightarrow> caches \<Rightarrow> int \<Rightarrow> int list \<Rightarrow> (int \<times> times_stat) list \<Rightarrow>
    (int \<times> times_stat) list result \<times> caches" where
  "threads_loop env c pid [] ret = (Ok ret, c)"
| "threads_loop env c pid (tid # tids) ret = (case fillFromTIDStatWithContext env c pid tid of
     (Ok s, c') \<Rightarrow> threads_loop env c' pid tids (alist_put tid (ts_cpuTimes s) ret)
   | (Err e, c') \<Rightarrow> (Err e, c') | (Panic, c') \<Rightarrow> (Panic, c'))"

definition ThreadsWithContext :: "proc_env \<Rightarrow> caches \<Rightarrow> process \<Rightarrow> (int \<times> times_stat) list result \<times> caches" where
  "ThreadsWithContext env c p = (case readPidsFromDir (pe_host env) (proc_file (pe_host env) (p_Pid p) [''task'']) of
     Ok tids \<Rightarrow> threads_loop env c (p_Pid p) tids []
   | Err e \<Rightarrow> (Err e, c) | Panic \<Rightarrow> (Panic, c))"

definition term_files :: "host \<Rightarrow> string list result" where
  "term_files h =
     (let devPath = HostDev h []; ptsPath = path_join [devPath, ''pts''] in
      rbind (of_sum (h_readdir h devPath)) (\<lambda>devnames.
        let ttys = map (\<lambda>d. path_join [devPath, d]) (filter (\<lambda>d. has_prefix d ''tty'') devnames) in
        case h_readdir h ptsPath of
          Inl _ \<Rightarrow> Ok (ttys @ (case h_glob h (path_join [devPath, ''ttyp*'']) of Inr fs \<Rightarrow> fs | Inl _ \<Rightarrow> []))
        | Inr ptsnames \<Rightarrow> Ok (ttys @ map (\<lambda>d. path_join [ptsPath, d]) ptsnames)))"

definition trim_prefix :: "string \<Rightarrow> string \<Rightarrow> string" where
  "trim_prefix s pre = (if has_prefix s pre then drop (length pre) s else s)"

definition getTerminalMap :: "proc_env \<Rightarrow> (u64 \<times> string) list result" where
  "getTerminalMap env = rbind (term_files (pe_host env)) (\<lambda>files.
     rfold (\<lambda>name ret. rbind (of_sum (pe_rdev env name)) (\<lambda>rdev.
       Ok (alist_put rdev (trim_prefix name (HostDev (pe_host env) [] @ ''/'')) ret))) files [])"

definition TerminalWithContext :: "proc_env \<Rightarrow> caches \<Rightarrow> process \<Rightarrow> string result \<times> caches" where
  "TerminalWithContext env c p = (case fillFromStatWithContext env c (p_Pid p) of (r, c') \<Rightarrow>
     (rbind r (\<lambda>s. rbind (getTerminalMap env) (\<lambda>termmap.
        Ok (case map_of termmap (ts_terminal s) of Some t \<Rightarrow> t | None \<Rightarrow> []))), c'))"

definition BackgroundWithContext :: "host \<Rightarrow> process \<Rightarrow> bool result" where
  "BackgroundWithContext h p = rbind (ForegroundWithContext h p) (\<lambda>fg. Ok (\<not> fg))"

text \<open>\<^verbatim>\<open>RlimitUsage\<close>: the used amount of each limit. \<open>usage\<close> gives the amounts read from the object after
  \<^verbatim>\<open>fillFromStatus\<close>, the CPU time and the number of open files.\<close>

definition rlimit_used :: "proc_env \<Rightarrow> process \<Rightarrow> tid_stat \<Rightarrow> times_stat result \<Rightarrow> int result \<Rightarrow> rlimit_stat \<Rightarrow> rlimit_stat result" where
  "rlimit_used env p st cput nfds rs =
     (let memv = (\<lambda>sel. case p_memInfo p of Some m \<Rightarrow> Ok (sel m) | None \<Rightarrow> Panic);
          used = (if rl_Resource rs = 0 then rbind cput (\<lambda>t. Ok (f_to_u64 (h_fcvt (pe_host env)) (t_User t + t_System t)))
                  else if rl_Resource rs = 2 then memv mi_Data
                  else if rl_Resource rs = 3 then memv mi_Stack
                  else if rl_Resource rs = 5 then memv mi_RSS
                  else if rl_Resource rs = 7 then rbind nfds (\<lambda>n. Ok (word_of_int n))
                  else if rl_Resource rs = 8 then memv mi_Locked
                  else if rl_Resource rs = 9 then memv mi_VMS
                  else if rl_Resource rs = 11 then (case p_sigInfo p of Some s \<Rightarrow> Ok (sg_PendingProcess s) | None \<Rightarrow> Panic)
                  else if rl_Resource rs = 13 then Ok (word_of_int (ts_nice st))
                  else if rl_Resource rs = 14 then Ok (ucast (ts_rtpriority st))
                  else Ok (rl_Used rs))
      in rbind used (\<lambda>u. Ok (rs\<lparr>rl_Used := u\<rparr>)))"

fun map_result :: "('a \<Rightarrow> 'b result) \<Rightarrow> 'a list \<Rightarrow> 'b list result" where
  "map_result f [] = Ok []"
| "map_result f (x # xs) = rbind (f x) (\<lambda>y. rbind (map_result f xs) (\<lambda>ys. Ok (y # ys)))"

definition RlimitUsageWithContext :: "proc_env \<Rightarrow> caches \<Rightarrow> process \<Rightarrow> bool \<Rightarrow> rlimit_stat list result \<times> process \<times> caches" where
  "RlimitUsageWithContext env c p gatherUsed =
     (let h = pe_host env in
      case fillFromLimitsWithContext h p of
        Err e \<Rightarrow> (Err e, p, c)
      | Panic \<Rightarrow> (Panic, p, c)
      | Ok rlimits \<Rightarrow>
          if \<not> gatherUsed then (Ok rlimits, p, c)
          else (case fillFromStatWithContext env c (p_Pid p) of
            (Err e, c1) \<Rightarrow> (Err e, p, c1)
          | (Panic, c1) \<Rightarrow> (Panic, p, c1)
          | (Ok st, c1) \<Rightarrow> (case fillFromStatusWithContext h p of
              (p', Some e) \<Rightarrow> (Err e, p', c1)
            | (p', None) \<Rightarrow> (case proc_TimesWithContext env c1 p' of (cput, c2) \<Rightarrow>
                (map_result (rlimit_used env p' st cput (NumFDsWithContext h p')) rlimits, p',
                 if list_ex (\<lambda>rs. rl_Resource rs = 0) rlimits then c2 else c1)))))"

definition SendSignalWithContext :: "proc_env \<Rightarrow> process \<Rightarrow> nat \<Rightarrow> gerr option" where
  "SendSignalWithContext env p sig = pe_signal env (p_Pid p) sig"

text \<open>\<^verbatim>\<open>SIGSTOP\<close>, \<^verbatim>\<open>SIGCONT\<close>, \<^verbatim>\<open>SIGTERM\<close> and \<^verbatim>\<open>SIGKILL\<close> of Linux.\<close>

definition SuspendWithContext :: "proc_env \<Rightarrow> process \<Rightarrow> gerr option" where
  "SuspendWithContext env p = SendSignalWithContext env p 19"

definition ResumeWithContext :: "proc_env \<Rightarrow> process \<Rightarrow> gerr option" where
  "ResumeWithContext env p = SendSignalWithContext env p 18"

definition TerminateWithContext :: "proc_env \<Rightarrow> process \<Rightarrow> gerr option" where
  "TerminateWithContext env p = SendSignalWithContext env p 15"

definition KillWithContext :: "proc_env \<Rightarrow> process \<Rightarrow> gerr option" where
  "KillWithContext env p = SendSignalWithContext env p 9"

text \<open>\<open>lookupId\<close> is \<^verbatim>\<open>user.LookupId\<close>, by the decimal user id.\<close>

definition UsernameWithContext ::
    "(string \<Rightarrow> gerr + string) \<Rightarrow> host \<Rightarrow> process \<Rightarrow> string result \<times> process" where
  "UsernameWithContext lookupId h p = (case UidsWithContext h p of (r, p') \<Rightarrow>
     (rbind r (\<lambda>uids. case uids of [] \<Rightarrow> Ok [] | uid # _ \<Rightarrow> of_sum (lookupId (itoa (uint uid)))), p'))"

definition ParentWithContext :: "proc_env \<Rightarrow> caches \<Rightarrow> process \<Rightarrow> (process \<times> gerr option) result \<times> caches" where
  "ParentWithContext env c p = (case PpidWithContext env c p of
     (Ok ppid, c') \<Rightarrow> NewProcessWithContext env c' ppid
   | (Err e, c') \<Rightarrow> (Err e, c') | (Panic, c') \<Rightarrow> (Panic, c'))"

definition proc_ConnectionsMaxWithContext :: "host \<Rightarrow> bool \<Rightarrow> process \<Rightarrow> int \<Rightarrow> connection_stat list result" where
  "proc_ConnectionsMaxWithContext h le p maxConn = ConnectionsPidMaxWithContext h le ''all'' (p_Pid p) maxConn"

section \<open>Properties\<close>

lemma readPidsFromDir_pids:
  assumes "h_readdir h d = Inr names"
  shows "readPidsFromDir h d = Ok (List.map_filter (\<lambda>n. if decimal n \<and> dec_val n < 2 ^ 31 then Some (int (dec_val n)) else None) names)"
proof -
  have "(if strictIntPtrn n then (case parse_i32 n of Ok pid \<Rightarrow> Some pid | _ \<Rightarrow> None) else None) =
      (if decimal n \<and> dec_val n < 2 ^ 31 then Some (int (dec_val n)) else None)" for n
  proof (cases "decimal n")
    case True
    then have "\<not> (hd n = CHR ''-'' \<or> hd n = CHR ''+'')"
      using digit_not_sign decimal_def by (cases n) auto
    with True have "parse_int n 10 32 = (if dec_val n < 2 ^ 31 then (int (dec_val n), None) else (2 ^ 31 - 1, Some ErrRange))"
      by (simp add: parse_int_def parse_uint_decimal decimal_def Let_def)
    with True show ?thesis by (simp add: strictIntPtrn_def decimal_def parse_i32_def)
  qed (auto simp: strictIntPtrn_def decimal_def)
  with assms show ?thesis by (simp add: readPidsFromDir_def)
qed

text \<open>\<^verbatim>\<open>Pids\<close> returns, in ascending order, exactly the numbers below 2 to the 31 among the names in
  \<^verbatim>\<open>/proc\<close>, and skips every other name.\<close>

theorem Pids_sorted:
  assumes "h_readdir h (HostProcWithContext h []) = Inr names"
  shows "\<exists>pids. proc_PidsWithContext h = Ok pids \<and> sorted pids \<and>
    mset pids = mset (map (int \<circ> dec_val) (filter (\<lambda>n. decimal n \<and> dec_val n < 2 ^ 31) names))"
proof -
  have "List.map_filter (\<lambda>n. if decimal n \<and> dec_val n < 2 ^ 31 then Some (int (dec_val n)) else None) names =
      map (int \<circ> dec_val) (filter (\<lambda>n. decimal n \<and> dec_val n < 2 ^ 31) names)"
    by (induction names) simp_all
  with readPidsFromDir_pids [OF assms] show ?thesis by (simp add: proc_PidsWithContext_def)
qed

theorem Pids_sorted_witness:
  "proc_PidsWithContext (no_files\<lparr>h_readdir := (\<lambda>_. Inr [''12'', ''self'', ''7'', ''99999999999''])\<rparr>) = Ok [7, 12]"
proof -
  let ?h = "no_files\<lparr>h_readdir := (\<lambda>_. Inr [''12'', ''self'', ''7'', ''99999999999''])\<rparr>"
  obtain pids where "proc_PidsWithContext ?h = Ok pids" "sorted pids" "mset pids = {#7, 12#}"
    using Pids_sorted [of ?h] by (auto simp: decimal_def dec_val_def is_digit_def)
  then show ?thesis using properties_for_sort [of pids "[7, 12]"] by simp
qed

text \<open>C4: a process object with a known start time is running exactly when its pid exists and the
  process that has the pid now started at that time: a pid that was given to another process does
  not count.\<close>

theorem IsRunning_identity:
  assumes "p_createTime p \<noteq> 0" and "PidExistsWithContext env (p_Pid p) = Ok e"
    and "e \<Longrightarrow> createTimeWithContext env c (new_process (p_Pid p)) = (Ok t, c') \<and> t \<noteq> 0"
  shows "IsRunningWithContext env c p = (Ok (e \<and> p_createTime p = t), p, if e then c' else c)"
proof (cases e)
  case True
  with assms show ?thesis
    by (simp add: IsRunningWithContext_def NewProcessWithContext_def CreateTimeWithContext_def new_process_def Let_def)
next
  case False
  with assms(1,2) show ?thesis
    by (simp add: IsRunningWithContext_def NewProcessWithContext_def CreateTimeWithContext_def Let_def)
qed

theorem IsRunning_identity_witness:
  "let c = \<lparr>c_bootTime = 1000, c_virt = None\<rparr>; p = (new_process 7)\<lparr>p_createTime := 1004000\<rparr>;
       q = (new_process 7)\<lparr>p_createTime := 999000\<rparr> in
     IsRunningWithContext stat_env c p = (Ok True, p, c) \<and> IsRunningWithContext stat_env c q = (Ok False, q, c)"
proof -
  let ?c = "\<lparr>c_bootTime = 1000, c_virt = None\<rparr>"
  have ex: "PidExistsWithContext stat_env 7 = Ok True"
    by (simp add: PidExistsWithContext_def isMount_def stat_env_def Let_def)
  have pid: "p_Pid (new_process 7) = 7" by (simp add: new_process_def)
  have "IsRunningWithContext stat_env ?c ((new_process 7)\<lparr>p_createTime := t\<rparr>) =
      (Ok (t = 1004000), (new_process 7)\<lparr>p_createTime := t\<rparr>, ?c)" if "t \<noteq> 0" for t
    using IsRunning_identity [of "(new_process 7)\<lparr>p_createTime := t\<rparr>" stat_env True ?c 1004000 ?c] that ex
      stat_env_createTime [OF pid, of None] by (simp add: pid)
  then show ?thesis by simp
qed


lemma NewProcess_pid: "NewProcessWithContext env c pid = (Ok (p, err), c') \<Longrightarrow> p_Pid p = pid"
  by (auto simp: NewProcessWithContext_def CreateTimeWithContext_def new_process_def Let_def
      split: result.splits bool.splits if_splits prod.splits)

lemma new_processes_pids:
  assumes "new_processes env c pids out = (Ok ps, c')"
  shows "\<exists>new. ps = out @ new \<and> set (map p_Pid new) \<subseteq> set pids"
  using assms
proof (induction pids arbitrary: c out)
  case (Cons pid pids)
  obtain r c1 where r: "NewProcessWithContext env c pid = (r, c1)" by fastforce
  have rest: ?case if "new_processes env c1 pids (out @ add) = (Ok ps, c')" "set (map p_Pid add) \<subseteq> {pid}" for add
    using Cons.IH [OF that(1)] that(2) by (auto simp: image_subset_iff)
  show ?case
  proof (cases r)
    case (Ok pe)
    then obtain q e where pe: "r = Ok (q, e)" by (cases pe) auto
    with r have "p_Pid q = pid" by (auto dest: NewProcess_pid)
    with r pe Cons.prems rest [of "[q]"] rest [of "[]"] show ?thesis by (cases e) auto
  qed (use r Cons.prems rest [of "[]"] in auto)
qed simp

text \<open>C35: the children of a process are listed by ascending pid, and each of them has a \<^verbatim>\<open>stat\<close> file that
  names the process as its parent.\<close>

theorem Children_of_parent:
  assumes "ChildrenWithContext env c p = (Ok ps, c')"
  shows "sorted (map p_Pid ps) \<and> (\<exists>files. h_glob (pe_host env) (HostProcWithContext (pe_host env) [''[0-9]*/stat'']) = Inr files \<and>
    (\<forall>q \<in> set ps. \<exists>f \<in> set files. stat_pid_ppid (pe_host env) f = Some (p_Pid q, p_Pid p)))"
proof -
  from assms obtain files new where files: "h_glob (pe_host env) (HostProcWithContext (pe_host env) [''[0-9]*/stat'']) = Inr files"
    and new: "new_processes env c (child_pids (pe_host env) (p_Pid p) files) [] = (Ok new, c')" and ps: "ps = sort_key p_Pid new"
    by (auto simp: ChildrenWithContext_def Let_def split: sum.splits prod.splits result.splits)
  have "\<exists>f \<in> set files. stat_pid_ppid (pe_host env) f = Some (p_Pid q, p_Pid p)" if "q \<in> set new" for q
  proof -
    from new_processes_pids [OF new] that have "p_Pid q \<in> set (child_pids (pe_host env) (p_Pid p) files)" by auto
    then show ?thesis by (auto simp: child_pids_def List.map_filter_def)
  qed
  with files ps show ?thesis by simp
qed


theorem Children_of_parent_witness:
  "let c = \<lparr>c_bootTime = 1000, c_virt = None\<rparr> in \<exists>ps. ChildrenWithContext stat_env c (new_process 1) = (Ok ps, c) \<and>
     map p_Pid ps = [7] \<and> sorted (map p_Pid ps)"
proof -
  let ?c = "\<lparr>c_bootTime = 1000, c_virt = None\<rparr>" and ?h = "pe_host stat_env"
  have ex: "PidExistsWithContext stat_env 7 = Ok True"
    by (simp add: PidExistsWithContext_def isMount_def stat_env_def Let_def)
  have pid: "p_Pid (new_process n) = n" for n by (simp add: new_process_def)
  have "splitProcStat (stat_text 7 ''a b) c'' ''S'' stat_vals) = [] # itoa 7 # ''a b) c'' # ''S'' # map itoa stat_vals"
    by (rule splitProcStat_text [OF stat_env_facts(2-4)])
  then have "stat_pid_ppid ?h ''/proc/7/stat'' = Some (7, 1)"
    using stat_env_facts(1) unfolding stat_env_paths by (simp add: stat_pid_ppid_def stat_vals_def parse_i32_itoa stat_text_def)
  moreover have "stat_pid_ppid ?h ''/proc/9/stat'' = None"
    by (simp add: stat_pid_ppid_def stat_env_def ReadFile_def with_files_def)
  moreover have "h_glob ?h f = Inr [''/proc/7/stat'', ''/proc/9/stat'']" for f by (simp add: stat_env_def)
  ultimately have "ChildrenWithContext stat_env ?c (new_process 1) = (Ok [(new_process 7)\<lparr>p_createTime := 1004000\<rparr>], ?c)"
    using ex stat_env_createTime [OF pid, of None]
    by (simp add: ChildrenWithContext_def child_pids_def List.map_filter_def pid NewProcessWithContext_def
        CreateTimeWithContext_def) (simp add: new_process_def)
  from Children_of_parent [OF this] this show ?thesis by (simp add: pid)
qed

end
