(* ===== verification/Docker_Linux.thy ===== *)
theory Docker_Linux
  imports Cpu
begin

text \<open>
  Package \<^verbatim>\<open>docker\<close> (\<^verbatim>\<open>docker.go\<close>, \<^verbatim>\<open>docker_linux.go\<close>): the containers that the \<^verbatim>\<open>docker\<close> command lists and
  the CPU and memory counters of a control group, in the version 1 and the version 2 layout of
  \<^verbatim>\<open>/sys/fs/cgroup\<close>. The file of a counter is found by \<^verbatim>\<open>getCgroupFilePath\<close>, which must not leave the
  directory of the group for any container id. \<^verbatim>\<open>cpu.ClocksPerSec\<close> is the argument \<open>clocksPerSec\<close>.
\<close>

section \<open>Data\<close>

text \<open>\<^verbatim>\<open>CgroupCPUStat\<close> embeds \<^verbatim>\<open>cpu.TimesStat\<close>.\<close>

record cgroup_cpu_stat = times_stat +
  cg_Usage :: float64

record cgroup_mem_stat =
  cm_ContainerID :: string
  cm_Cache :: u64
  cm_RSS :: u64
  cm_RSSHuge :: u64
  cm_MappedFile :: u64
  cm_Pgpgin :: u64
  cm_Pgpgout :: u64
  cm_Pgfault :: u64
  cm_Pgmajfault :: u64
  cm_InactiveAnon :: u64
  cm_ActiveAnon :: u64
  cm_InactiveFile :: u64
  cm_ActiveFile :: u64
  cm_Unevictable :: u64
  cm_HierarchicalMemoryLimit :: u64
  cm_TotalCache :: u64
  cm_TotalRSS :: u64
  cm_TotalRSSHuge :: u64
  cm_TotalMappedFile :: u64
  cm_TotalPgpgIn :: u64
  cm_TotalPgpgOut :: u64
  cm_TotalPgFault :: u64
  cm_TotalPgMajFault :: u64
  cm_TotalInactiveAnon :: u64
  cm_TotalActiveAnon :: u64
  cm_TotalInactiveFile :: u64
  cm_TotalActiveFile :: u64
  cm_TotalUnevictable :: u64
  cm_MemUsageInBytes :: u64
  cm_MemMaxUsageInBytes :: u64
  cm_MemLimitInBytes :: u64
  cm_MemFailCnt :: u64

record cgroup_docker_stat =
  cd_ContainerID :: string
  cd_Name :: string
  cd_Image :: string
  cd_Status :: string
  cd_Running :: bool

definition empty_cgroup_cpu :: "string \<Rightarrow> cgroup_cpu_stat" where
  "empty_cgroup_cpu containerID = \<lparr>t_CPU = (if containerID = [] then ''all'' else containerID), t_User = 0, t_System = 0,
     t_Idle = 0, t_Nice = 0, t_Iowait = 0, t_Irq = 0, t_Softirq = 0, t_Steal = 0, t_Guest = 0, t_GuestNice = 0,
     cg_Usage = 0\<rparr>"

definition empty_cgroup_mem :: "string \<Rightarrow> cgroup_mem_stat" where
  "empty_cgroup_mem containerID = \<lparr>cm_ContainerID = (if containerID = [] then ''all'' else containerID),
     cm_Cache = 0, cm_RSS = 0, cm_RSSHuge = 0, cm_MappedFile = 0, cm_Pgpgin = 0,
     cm_Pgpgout = 0, cm_Pgfault = 0, cm_Pgmajfault = 0, cm_InactiveAnon = 0, cm_ActiveAnon = 0,
     cm_InactiveFile = 0, cm_ActiveFile = 0, cm_Unevictable = 0, cm_HierarchicalMemoryLimit = 0, cm_TotalCache = 0,
     cm_TotalRSS = 0, cm_TotalRSSHuge = 0, cm_TotalMappedFile = 0, cm_TotalPgpgIn = 0, cm_TotalPgpgOut = 0,
     cm_TotalPgFault = 0, cm_TotalPgMajFault = 0, cm_TotalInactiveAnon = 0, cm_TotalActiveAnon = 0, cm_TotalInactiveFile = 0,
     cm_TotalActiveFile = 0, cm_TotalUnevictable = 0, cm_MemUsageInBytes = 0, cm_MemMaxUsageInBytes = 0, cm_MemLimitInBytes = 0,
     cm_MemFailCnt = 0\<rparr>"

section \<open>Containers\<close>

definition docker_line :: "string \<Rightarrow> cgroup_docker_stat option" where
  "docker_line l = (if l = [] then None else case split_char CHR ''|'' l of
     [c0, c1, c2, c3] \<Rightarrow> Some \<lparr>cd_ContainerID = c0, cd_Name = hd (split_char CHR '','' c2), cd_Image = c1,
       cd_Status = c3, cd_Running = str_contains c3 ''Up''\<rparr>
   | _ \<Rightarrow> None)"

definition GetDockerStatWithContext :: "host \<Rightarrow> cgroup_docker_stat list result" where
  "GetDockerStatWithContext h =
     (case h_command h ''docker'' [''ps'', ''-a'', ''--no-trunc'', ''--format'', ''{{.ID}}|{{.Image}}|{{.Names}}|{{.Status}}''] of
        (out, Some e) \<Rightarrow> Err (if err_is e ErrNotFound then ErrDockerNotAvailable else e)
      | (out, None) \<Rightarrow> Ok (List.map_filter docker_line (split_char nl out)))"

definition GetDockerIDListWithContext :: "host \<Rightarrow> string list result" where
  "GetDockerIDListWithContext h = (case h_command h ''docker'' [''ps'', ''-q'', ''--no-trunc''] of
     (out, Some e) \<Rightarrow> Err (if err_is e ErrNotFound then ErrDockerNotAvailable else e)
   | (out, None) \<Rightarrow> Ok (filter (\<lambda>l. l \<noteq> []) (split_char nl out)))"

section \<open>Files of a group\<close>

definition isCgroupV2 :: "host \<Rightarrow> bool" where
  "isCgroupV2 h = PathExists h (HostSysWithContext h [''fs/cgroup/cgroup.controllers''])"

definition cgroupDir :: "host \<Rightarrow> bool \<Rightarrow> string \<Rightarrow> string \<Rightarrow> string" where
  "cgroupDir h v2 target dir =
     (if v2 then HostSysWithContext h [''fs/cgroup'', dir] else HostSysWithContext h [''fs/cgroup'', target, dir])"

definition getCgroupFilePath :: "host \<Rightarrow> string \<Rightarrow> string \<Rightarrow> string \<Rightarrow> string \<Rightarrow> string result" where
  "getCgroupFilePath h containerID base target file =
     (if contains_any containerID [slash, CHR 0x5C] \<or> str_contains containerID ''..'' then
        Err (ErrMsg (''invalid container ID '' @ quote containerID))
      else
        let v2 = isCgroupV2 h; base = (if base = [] then cgroupDir h v2 target ''docker'' else base);
            statfile = path_join [base, containerID, file]
        in Ok (case h_stat h statfile of
             Inl e \<Rightarrow> if is_not_exist e
               then path_join [cgroupDir h v2 target ''system.slice'', ''docker-'' @ containerID @ ''.scope'', file]
               else statfile
           | Inr _ \<Rightarrow> statfile))"

text \<open>The path of the calling process in the lines of \<^verbatim>\<open>/proc/self/cgroup\<close>.\<close>

fun ownCgroupPath :: "string list \<Rightarrow> bool \<Rightarrow> string \<Rightarrow> string result" where
  "ownCgroupPath [] v2 target = Err (ErrMsg (''no cgroup entry for '' @ quote target))"
| "ownCgroupPath (line # lines) v2 target = (case split_char_n CHR '':'' 3 line of
     [f0, f1, f2] \<Rightarrow>
       if v2 then (if f0 = ''0'' then Ok f2 else ownCgroupPath lines v2 target)
       else if target \<in> set (split_char CHR '','' f1) then Ok f2 else ownCgroupPath lines v2 target
   | _ \<Rightarrow> ownCgroupPath lines v2 target)"

definition cgroupOwnDir :: "host \<Rightarrow> string \<Rightarrow> string result" where
  "cgroupOwnDir h target =
     (let v2 = isCgroupV2 h; base = HostSysWithContext h [''fs/cgroup''];
          base = (if v2 then base else path_join [base, target]);
          procfile = HostProcWithContext h [''self/cgroup'']
      in rbind (ReadLines h procfile) (\<lambda>lines. case ownCgroupPath lines v2 target of
           Err e \<Rightarrow> Err (ErrWrap ('' in '' @ procfile) e)
         | Panic \<Rightarrow> Panic
         | Ok rel \<Rightarrow> let dir = path_join [base, rel] in Ok (if PathExists h dir then dir else base)))"

section \<open>CPU\<close>

text \<open>A line of \<^verbatim>\<open>cpu.stat\<close>, in microseconds.\<close>

definition cpuV2_line :: "string \<Rightarrow> cgroup_cpu_stat \<Rightarrow> cgroup_cpu_stat" where
  "cpuV2_line line ret = (case str_fields line of
     f0 # f1 # _ \<Rightarrow> (case parse_f64 f1 of
       Ok v \<Rightarrow> (if f0 = ''usage_usec'' then ret\<lparr>cg_Usage := v / Fin (10 ^ 6)\<rparr>
                 else if f0 = ''user_usec'' then ret\<lparr>t_User := v / Fin (10 ^ 6)\<rparr>
                 else if f0 = ''system_usec'' then ret\<lparr>t_System := v / Fin (10 ^ 6)\<rparr> else ret)
     | _ \<Rightarrow> ret)
   | _ \<Rightarrow> ret)"

definition cgroupCPUV2WithContext :: "host \<Rightarrow> string \<Rightarrow> string \<Rightarrow> cgroup_cpu_stat result" where
  "cgroupCPUV2WithContext h containerID base =
     rbind (getCgroupFilePath h containerID base ''cpu'' ''cpu.stat'') (\<lambda>statfile.
     rbind (ReadLines h statfile) (\<lambda>lines. Ok (fold cpuV2_line lines (empty_cgroup_cpu containerID))))"

definition CgroupCPUUsageWithContext :: "host \<Rightarrow> string \<Rightarrow> string \<Rightarrow> float64 result" where
  "CgroupCPUUsageWithContext h containerID base =
     (if isCgroupV2 h then rbind (cgroupCPUV2WithContext h containerID base) (\<lambda>stat. Ok (cg_Usage stat))
      else rbind (getCgroupFilePath h containerID base ''cpuacct'' ''cpuacct.usage'') (\<lambda>usagefile.
           rbind (ReadLinesOffsetN h usagefile 0 1) (\<lambda>lines.
           rbind (idx lines 0) (\<lambda>l. rbind (parse_f64 l) (\<lambda>ns. Ok (ns / Fin (10 ^ 9)))))))"

text \<open>A line of \<^verbatim>\<open>cpuacct.stat\<close>; a line that is the word \<^verbatim>\<open>user\<close> or \<^verbatim>\<open>system\<close> alone panics.\<close>

definition cpuV1_line :: "float64 \<Rightarrow> string \<Rightarrow> cgroup_cpu_stat \<Rightarrow> cgroup_cpu_stat result" where
  "cpuV1_line clocksPerSec line ret =
     (let fs = split_char CHR '' '' line in
      if hd fs = ''user'' then
        rbind (idx fs 1) (\<lambda>f1. Ok (case parse_f64 f1 of Ok user \<Rightarrow> ret\<lparr>t_User := user / clocksPerSec\<rparr> | _ \<Rightarrow> ret))
      else if hd fs = ''system'' then
        rbind (idx fs 1) (\<lambda>f1. Ok (case parse_f64 f1 of Ok system \<Rightarrow> ret\<lparr>t_System := system / clocksPerSec\<rparr> | _ \<Rightarrow> ret))
      else Ok ret)"

definition CgroupCPUWithContext :: "host \<Rightarrow> float64 \<Rightarrow> string \<Rightarrow> string \<Rightarrow> cgroup_cpu_stat result" where
  "CgroupCPUWithContext h clocksPerSec containerID base =
     (if isCgroupV2 h then cgroupCPUV2WithContext h containerID base
      else rbind (getCgroupFilePath h containerID base ''cpuacct'' ''cpuacct.stat'') (\<lambda>statfile.
           rbind (ReadLines h statfile) (\<lambda>lines.
           rbind (rfold (cpuV1_line clocksPerSec) lines (empty_cgroup_cpu containerID)) (\<lambda>ret.
           rbind (CgroupCPUUsageWithContext h containerID base) (\<lambda>usage. Ok (ret\<lparr>cg_Usage := usage\<rparr>))))))"

definition CgroupCPUDockerWithContext :: "host \<Rightarrow> float64 \<Rightarrow> string \<Rightarrow> cgroup_cpu_stat result" where
  "CgroupCPUDockerWithContext h clocksPerSec containerID = CgroupCPUWithContext h clocksPerSec containerID []"

definition CgroupCPUDockerUsageWithContext :: "host \<Rightarrow> string \<Rightarrow> float64 result" where
  "CgroupCPUDockerUsageWithContext h containerID = CgroupCPUUsageWithContext h containerID []"

definition CgroupCPUOwnWithContext :: "host \<Rightarrow> float64 \<Rightarrow> cgroup_cpu_stat result" where
  "CgroupCPUOwnWithContext h clocksPerSec = rbind (cgroupOwnDir h ''cpuacct'') (\<lambda>base.
     rbind (CgroupCPUWithContext h clocksPerSec [] base) (\<lambda>ret. Ok (ret\<lparr>t_CPU := ''own''\<rparr>)))"

section \<open>Memory\<close>

definition memV1_fields :: "(string \<times> (u64 \<Rightarrow> cgroup_mem_stat \<Rightarrow> cgroup_mem_stat)) list" where
  "memV1_fields =
     [(''cache'', \<lambda>v. cm_Cache_update (\<lambda>_. v)),
      (''rss'', \<lambda>v. cm_RSS_update (\<lambda>_. v)),
      (''rssHuge'', \<lambda>v. cm_RSSHuge_update (\<lambda>_. v)),
      (''rss_huge'', \<lambda>v. cm_RSSHuge_update (\<lambda>_. v)),
      (''mappedFile'', \<lambda>v. cm_MappedFile_update (\<lambda>_. v)),
      (''mapped_file'', \<lambda>v. cm_MappedFile_update (\<lambda>_. v)),
      (''pgpgin'', \<lambda>v. cm_Pgpgin_update (\<lambda>_. v)),
      (''pgpgout'', \<lambda>v. cm_Pgpgout_update (\<lambda>_. v)),
      (''pgfault'', \<lambda>v. cm_Pgfault_update (\<lambda>_. v)),
      (''pgmajfault'', \<lambda>v. cm_Pgmajfault_update (\<lambda>_. v)),
      (''inactiveAnon'', \<lambda>v. cm_InactiveAnon_update (\<lambda>_. v)),
      (''inactive_anon'', \<lambda>v. cm_InactiveAnon_update (\<lambda>_. v)),
      (''activeAnon'', \<lambda>v. cm_ActiveAnon_update (\<lambda>_. v)),
      (''active_anon'', \<lambda>v. cm_ActiveAnon_update (\<lambda>_. v)),
      (''inactiveFile'', \<lambda>v. cm_InactiveFile_update (\<lambda>_. v)),
      (''inactive_file'', \<lambda>v. cm_InactiveFile_update (\<lambda>_. v)),
      (''activeFile'', \<lambda>v. cm_ActiveFile_update (\<lambda>_. v)),
      (''active_file'', \<lambda>v. cm_ActiveFile_update (\<lambda>_. v)),
      (''unevictable'', \<lambda>v. cm_Unevictable_update (\<lambda>_. v)),
      (''hierarchicalMemoryLimit'', \<lambda>v. cm_HierarchicalMemoryLimit_update (\<lambda>_. v)),
      (''hierarchical_memory_limit'', \<lambda>v. cm_HierarchicalMemoryLimit_update (\<lambda>_. v)),
      (''totalCache'', \<lambda>v. cm_TotalCache_update (\<lambda>_. v)),
      (''total_cache'', \<lambda>v. cm_TotalCache_update (\<lambda>_. v)),
      (''totalRss'', \<lambda>v. cm_TotalRSS_update (\<lambda>_. v)),
      (''total_rss'', \<lambda>v. cm_TotalRSS_update (\<lambda>_. v)),
      (''totalRssHuge'', \<lambda>v. cm_TotalRSSHuge_update (\<lambda>_. v)),
      (''total_rss_huge'', \<lambda>v. cm_TotalRSSHuge_update (\<lambda>_. v)),
      (''totalMappedFile'', \<lambda>v. cm_TotalMappedFile_update (\<lambda>_. v)),
      (''total_mapped_file'', \<lambda>v. cm_TotalMappedFile_update (\<lambda>_. v)),
      (''totalPgpgin'', \<lambda>v. cm_TotalPgpgIn_update (\<lambda>_. v)),
      (''total_pgpgin'', \<lambda>v. cm_TotalPgpgIn_update (\<lambda>_. v)),
      (''totalPgpgout'', \<lambda>v. cm_TotalPgpgOut_update (\<lambda>_. v)),
      (''total_pgpgout'', \<lambda>v. cm_TotalPgpgOut_update (\<lambda>_. v)),
      (''totalPgfault'', \<lambda>v. cm_TotalPgFault_update (\<lambda>_. v)),
      (''total_pgfault'', \<lambda>v. cm_TotalPgFault_update (\<lambda>_. v)),
      (''totalPgmajfault'', \<lambda>v. cm_TotalPgMajFault_update (\<lambda>_. v)),
      (''total_pgmajfault'', \<lambda>v. cm_TotalPgMajFault_update (\<lambda>_. v)),
      (''totalInactiveAnon'', \<lambda>v. cm_TotalInactiveAnon_update (\<lambda>_. v)),
      (''total_inactive_anon'', \<lambda>v. cm_TotalInactiveAnon_update (\<lambda>_. v)),
      (''totalActiveAnon'', \<lambda>v. cm_TotalActiveAnon_update (\<lambda>_. v)),
      (''total_active_anon'', \<lambda>v. cm_TotalActiveAnon_update (\<lambda>_. v)),
      (''totalInactiveFile'', \<lambda>v. cm_TotalInactiveFile_update (\<lambda>_. v)),
      (''total_inactive_file'', \<lambda>v. cm_TotalInactiveFile_update (\<lambda>_. v)),
      (''totalActiveFile'', \<lambda>v. cm_TotalActiveFile_update (\<lambda>_. v)),
      (''total_active_file'', \<lambda>v. cm_TotalActiveFile_update (\<lambda>_. v)),
      (''totalUnevictable'', \<lambda>v. cm_TotalUnevictable_update (\<lambda>_. v)),
      (''total_unevictable'', \<lambda>v. cm_TotalUnevictable_update (\<lambda>_. v))]"

text \<open>A line of the version 1 file is split at spaces and its second field is taken: a line without a
  space panics.\<close>

definition memV1_line :: "string \<Rightarrow> cgroup_mem_stat \<Rightarrow> cgroup_mem_stat result" where
  "memV1_line line ret =
     (let fs = split_char CHR '' '' line in
      rbind (idx fs 1) (\<lambda>f1. Ok (case parse_u64 f1 of
          Ok v \<Rightarrow> (case map_of memV1_fields (hd fs) of Some assign \<Rightarrow> assign v ret | None \<Rightarrow> ret)
        | _ \<Rightarrow> ret)))"

definition getCgroupMemFile :: "host \<Rightarrow> string \<Rightarrow> string \<Rightarrow> string \<Rightarrow> u64 result" where
  "getCgroupMemFile h containerID base file =
     rbind (getCgroupFilePath h containerID base ''memory'' file) (\<lambda>statfile.
     rbind (ReadLines h statfile) (\<lambda>lines.
       case lines of [l] \<Rightarrow> parse_u64 l | _ \<Rightarrow> Err (ErrMsg (''wrong format file: '' @ statfile))))"

definition getCgroupMemFileV2 :: "host \<Rightarrow> string \<Rightarrow> string \<Rightarrow> string \<Rightarrow> u64 result" where
  "getCgroupMemFileV2 h containerID base file =
     rbind (getCgroupFilePath h containerID base ''memory'' file) (\<lambda>statfile.
     rbind (ReadLines h statfile) (\<lambda>lines.
       case lines of
         [l] \<Rightarrow> (let value = trim_space l in if value = ''max'' then Ok (- 1) else parse_u64 value)
       | _ \<Rightarrow> Err (ErrMsg (''wrong format file: '' @ statfile))))"

text \<open>The first line of two fields whose key is \<^verbatim>\<open>max\<close>.\<close>

definition getCgroupMemFailCntV2 :: "host \<Rightarrow> string \<Rightarrow> string \<Rightarrow> u64 result" where
  "getCgroupMemFailCntV2 h containerID base =
     rbind (getCgroupFilePath h containerID base ''memory'' ''memory.events'') (\<lambda>statfile.
     rbind (ReadLines h statfile) (\<lambda>lines.
       case find (\<lambda>line. length (str_fields line) = 2 \<and> str_fields line ! 0 = ''max'') lines of
         Some line \<Rightarrow> parse_u64 (str_fields line ! 1)
       | None \<Rightarrow> Err (ErrMsg (''no max event in '' @ statfile))))"

text \<open>The assignment after a read that succeeded.\<close>

definition set_ok :: "u64 result \<Rightarrow> (u64 \<Rightarrow> cgroup_mem_stat \<Rightarrow> cgroup_mem_stat) \<Rightarrow> cgroup_mem_stat \<Rightarrow> cgroup_mem_stat" where
  "set_ok r assign ret = (case r of Ok v \<Rightarrow> assign v ret | _ \<Rightarrow> ret)"

definition memV2_fields :: "(string \<times> (u64 \<Rightarrow> cgroup_mem_stat \<Rightarrow> cgroup_mem_stat)) list" where
  "memV2_fields =
     [(''anon'', \<lambda>v m. m\<lparr>cm_RSS := v, cm_TotalRSS := v\<rparr>),
      (''file'', \<lambda>v m. m\<lparr>cm_Cache := v, cm_TotalCache := v\<rparr>),
      (''anon_thp'', \<lambda>v m. m\<lparr>cm_RSSHuge := v, cm_TotalRSSHuge := v\<rparr>),
      (''file_mapped'', \<lambda>v m. m\<lparr>cm_MappedFile := v, cm_TotalMappedFile := v\<rparr>),
      (''pgfault'', \<lambda>v m. m\<lparr>cm_Pgfault := v, cm_TotalPgFault := v\<rparr>),
      (''pgmajfault'', \<lambda>v m. m\<lparr>cm_Pgmajfault := v, cm_TotalPgMajFault := v\<rparr>),
      (''inactive_anon'', \<lambda>v m. m\<lparr>cm_InactiveAnon := v, cm_TotalInactiveAnon := v\<rparr>),
      (''active_anon'', \<lambda>v m. m\<lparr>cm_ActiveAnon := v, cm_TotalActiveAnon := v\<rparr>),
      (''inactive_file'', \<lambda>v m. m\<lparr>cm_InactiveFile := v, cm_TotalInactiveFile := v\<rparr>),
      (''active_file'', \<lambda>v m. m\<lparr>cm_ActiveFile := v, cm_TotalActiveFile := v\<rparr>),
      (''unevictable'', \<lambda>v m. m\<lparr>cm_Unevictable := v, cm_TotalUnevictable := v\<rparr>)]"

definition memV2_line :: "string \<Rightarrow> cgroup_mem_stat \<Rightarrow> cgroup_mem_stat" where
  "memV2_line line ret = (case str_fields line of
     f0 # f1 # _ \<Rightarrow> (case parse_u64 f1 of
       Ok v \<Rightarrow> (case map_of memV2_fields f0 of Some assign \<Rightarrow> assign v ret | None \<Rightarrow> ret)
     | _ \<Rightarrow> ret)
   | _ \<Rightarrow> ret)"

definition cgroupMemV2WithContext :: "host \<Rightarrow> string \<Rightarrow> string \<Rightarrow> cgroup_mem_stat result" where
  "cgroupMemV2WithContext h containerID base =
     rbind (getCgroupFilePath h containerID base ''memory'' ''memory.stat'') (\<lambda>statfile.
     rbind (ReadLines h statfile) (\<lambda>lines.
       let ret = fold memV2_line lines (empty_cgroup_mem containerID);
           ret = set_ok (getCgroupMemFileV2 h containerID base ''memory.current'') (\<lambda>r m. m\<lparr>cm_MemUsageInBytes := r\<rparr>) ret;
           ret = set_ok (getCgroupMemFileV2 h containerID base ''memory.peak'') (\<lambda>r m. m\<lparr>cm_MemMaxUsageInBytes := r\<rparr>) ret;
           ret = set_ok (getCgroupMemFileV2 h containerID base ''memory.max'') (\<lambda>r m. m\<lparr>cm_MemLimitInBytes := r\<rparr>) ret;
           ret = set_ok (getCgroupMemFailCntV2 h containerID base) (\<lambda>r m. m\<lparr>cm_MemFailCnt := r\<rparr>) ret
       in Ok ret))"

definition CgroupMemWithContext :: "host \<Rightarrow> string \<Rightarrow> string \<Rightarrow> cgroup_mem_stat result" where
  "CgroupMemWithContext h containerID base =
     (if isCgroupV2 h then cgroupMemV2WithContext h containerID base
      else rbind (getCgroupFilePath h containerID base ''memory'' ''memory.stat'') (\<lambda>statfile.
           rbind (ReadLines h statfile) (\<lambda>lines.
           rbind (rfold memV1_line lines (empty_cgroup_mem containerID)) (\<lambda>ret.
             let ret = set_ok (getCgroupMemFile h containerID base ''memory.usage_in_bytes'') (\<lambda>r m. m\<lparr>cm_MemUsageInBytes := r\<rparr>) ret;
                 ret = set_ok (getCgroupMemFile h containerID base ''memory.max_usage_in_bytes'') (\<lambda>r m. m\<lparr>cm_MemMaxUsageInBytes := r\<rparr>) ret;
                 ret = set_ok (getCgroupMemFile h containerID base ''memory.limit_in_bytes'') (\<lambda>r m. m\<lparr>cm_MemLimitInBytes := r\<rparr>) ret;
                 ret = set_ok (getCgroupMemFile h containerID base ''memory.failcnt'') (\<lambda>r m. m\<lparr>cm_MemFailCnt := r\<rparr>) ret
             in Ok ret))))"

definition CgroupMemDockerWithContext :: "host \<Rightarrow> string \<Rightarrow> cgroup_mem_stat result" where
  "CgroupMemDockerWithContext h containerID = CgroupMemWithContext h containerID []"

definition CgroupMemOwnWithContext :: "host \<Rightarrow> cgroup_mem_stat result" where
  "CgroupMemOwnWithContext h = rbind (cgroupOwnDir h ''memory'') (\<lambda>base.
     rbind (CgroupMemWithContext h [] base) (\<lambda>ret. Ok (ret\<lparr>cm_ContainerID := ''own''\<rparr>)))"

section \<open>Containment\<close>

text \<open>A directory given by its components.\<close>

definition proper_name :: "string \<Rightarrow> bool" where
  "proper_name c \<longleftrightarrow> c \<notin> {[], ''.'', ''..''} \<and> slash \<notin> set c"

definition abs_path :: "string list \<Rightarrow> string" where
  "abs_path cs = slash # join [slash] cs"

lemma clean_comps_proper: "list_all proper_name cs \<Longrightarrow> clean_comps rooted acc (cs @ ds) = clean_comps rooted (rev cs @ acc) ds"
  by (induction cs arbitrary: acc) (auto simp: proper_name_def)

lemma split_abs_path:
  assumes "cs \<noteq> []" and "list_all (\<lambda>c. slash \<notin> set c) cs"
  shows "split_char slash (abs_path cs) = [] # cs"
  using assms split_char_join [of cs slash] by (simp add: abs_path_def list_all_iff)

text \<open>Joining a container id that holds no separator and is not a parent directory, and a file name,
  appends to the directory.\<close>

lemma path_join_below:
  assumes "cs \<noteq> []" and "list_all proper_name cs" and "slash \<notin> set i" and "i \<noteq> ''..''" and "proper_name f"
  shows "path_join [abs_path cs, i, f] = abs_path (cs @ (if i = [] \<or> i = ''.'' then [] else [i]) @ [f])"
proof -
  have "join [slash] [abs_path cs, i, f] = abs_path (cs @ [i, f])"
    using assms(1) by (induction cs rule: induct_list012) (simp_all add: abs_path_def)
  moreover have "split_char slash (abs_path (cs @ [i, f])) = [] # cs @ [i, f]"
    using assms by (intro split_abs_path) (auto simp: proper_name_def list_all_iff)
  moreover have "clean_comps True [] ([] # cs @ [i, f]) = cs @ (if i = [] \<or> i = ''.'' then [] else [i]) @ [f]"
    using assms(4,5) by (simp add: clean_comps_proper [OF assms(2)] proper_name_def)
  ultimately show ?thesis
    by (simp add: path_join_def path_clean_def Let_def) (simp add: abs_path_def)
qed

lemma abs_path_append: "cs \<noteq> [] \<Longrightarrow> ds \<noteq> [] \<Longrightarrow> abs_path (cs @ ds) = abs_path cs @ slash # join [slash] ds"
  by (induction cs rule: induct_list012) (auto simp: abs_path_def join_Cons)

lemma bad_container_id: "contains_any i [slash, CHR 0x5C] \<longleftrightarrow> slash \<in> set i \<or> CHR 0x5C \<in> set i"
  by (auto simp: contains_any_def list_ex_iff)

text \<open>The directory of a container below the base: an empty id and a single dot name the base itself.\<close>

definition container_dir :: "string \<Rightarrow> string list" where
  "container_dir i = (if i = [] \<or> i = ''.'' then [] else [i])"

definition refused_id :: "string \<Rightarrow> bool" where
  "refused_id i \<longleftrightarrow> slash \<in> set i \<or> CHR 0x5C \<in> set i \<or> str_contains i ''..''"

lemma refused_id_iff: "contains_any i [slash, CHR 0x5C] \<or> str_contains i ''..'' \<longleftrightarrow> refused_id i"
  by (auto simp: refused_id_def bad_container_id)

lemma accepted_id:
  assumes "\<not> refused_id i"
  shows "slash \<notin> set i \<and> i \<noteq> ''..'' \<and> list_all proper_name (container_dir i @ [''docker-'' @ i @ ''.scope''])"
  using assms by (auto simp: refused_id_def container_dir_def proper_name_def str_contains_def)

text \<open>C1: the path that \<^verbatim>\<open>getCgroupFilePath\<close> returns, for every container id and for the default base as well as for a given one:
  ids with a separator or two dots in a row are refused; every other id gives the file in the directory of that name below the base (in the
  base itself for the empty id and for a single dot), or, when that file does not exist, the file in the container's scope below
  \<^verbatim>\<open>system.slice\<close>. No component that is added to these two directories is empty, a dot, two dots or holds a separator: the id cannot
  escape them.\<close>

theorem getCgroupFilePath_confined:
  assumes "(if base = [] then cgroupDir h (isCgroupV2 h) target ''docker'' else base) = abs_path cs"
    and "cs \<noteq> []" and "list_all proper_name cs" and "proper_name file"
    and "cgroupDir h (isCgroupV2 h) target ''system.slice'' = abs_path ds" and "ds \<noteq> []" and "list_all proper_name ds"
  shows "getCgroupFilePath h i base target file =
      (if refused_id i then Err (ErrMsg (''invalid container ID '' @ quote i))
       else let own = abs_path (cs @ container_dir i @ [file]) in
         Ok (case h_stat h own of
             Inl e \<Rightarrow> if is_not_exist e then abs_path (ds @ [''docker-'' @ i @ ''.scope'', file]) else own
           | Inr _ \<Rightarrow> own)) \<and>
    (refused_id i \<or> list_all proper_name (container_dir i @ [''docker-'' @ i @ ''.scope'', file]))"
proof (cases "refused_id i")
  case True
  then show ?thesis by (simp add: getCgroupFilePath_def refused_id_iff)
next
  case False
  note i = accepted_id [OF this]
  have "path_join [abs_path cs, i, file] = abs_path (cs @ container_dir i @ [file])"
    using assms(2-4) i by (simp add: path_join_below container_dir_def)
  moreover have "path_join [abs_path ds, ''docker-'' @ i @ ''.scope'', file] = abs_path (ds @ [''docker-'' @ i @ ''.scope'', file])"
    using path_join_below [OF assms(6,7), of "''docker-'' @ i @ ''.scope''" "file"] i assms(4) by simp
  moreover have "list_all proper_name (container_dir i @ [''docker-'' @ i @ ''.scope'', file])"
    using i assms(4) by simp
  ultimately show ?thesis
    using False unfolding getCgroupFilePath_def refused_id_iff Let_def assms(1,5) by (simp split: sum.splits)
qed

theorem getCgroupFilePath_confined_witness:
  "getCgroupFilePath no_files ''a1'' [] ''memory'' ''f'' = Ok ''/sys/fs/cgroup/memory/system.slice/docker-a1.scope/f'' \<and>
   getCgroupFilePath (with_files [(''/g/a1/f'', [])]) ''a1'' ''/g'' ''memory'' ''f'' = Ok ''/g/a1/f'' \<and>
   getCgroupFilePath (with_files [(''/g/f'', [])]) ''.'' ''/g'' ''memory'' ''f'' = Ok ''/g/f''"
proof (intro conjI)
  let ?ds = "[''sys'', ''fs'', ''cgroup'', ''memory'', ''system.slice'']"
  have slice: "cgroupDir no_files (isCgroupV2 no_files) ''memory'' ''system.slice'' = abs_path ?ds"
    "cgroupDir no_files (isCgroupV2 no_files) ''memory'' ''docker'' = abs_path [''sys'', ''fs'', ''cgroup'', ''memory'', ''docker'']"
    "cgroupDir (with_files [(''/g/a1/f'', [])]) (isCgroupV2 (with_files [(''/g/a1/f'', [])])) ''memory'' ''system.slice'' = abs_path ?ds"
    "cgroupDir (with_files [(''/g/f'', [])]) (isCgroupV2 (with_files [(''/g/f'', [])])) ''memory'' ''system.slice'' = abs_path ?ds"
    by code_simp+
  have ids: "\<not> refused_id ''a1''" "\<not> refused_id ''.''" by code_simp+
  have ok: "list_all proper_name ?ds" "proper_name ''f''" "list_all proper_name [''g'']"
    "list_all proper_name [''sys'', ''fs'', ''cgroup'', ''memory'', ''docker'']" by code_simp+
  have stats: "h_stat no_files ''/sys/fs/cgroup/memory/docker/a1/f'' = Inl ENOENT" "is_not_exist ENOENT"
    "h_stat (with_files [(''/g/a1/f'', [])]) ''/g/a1/f'' = Inr (0, False)" "h_stat (with_files [(''/g/f'', [])]) ''/g/f'' = Inr (0, False)"
    by code_simp+
  show "getCgroupFilePath no_files ''a1'' [] ''memory'' ''f'' = Ok ''/sys/fs/cgroup/memory/system.slice/docker-a1.scope/f''"
    using getCgroupFilePath_confined [of "[]" no_files "''memory''", OF _ _ ok(4,2) slice(1) _ ok(1), of "''a1''"] slice(2) ids stats(1,2)
    by (simp add: container_dir_def abs_path_def Let_def)
  show "getCgroupFilePath (with_files [(''/g/a1/f'', [])]) ''a1'' ''/g'' ''memory'' ''f'' = Ok ''/g/a1/f''"
    using getCgroupFilePath_confined [of "''/g''" "with_files [(''/g/a1/f'', [])]" "''memory''", OF _ _ ok(3,2) slice(3) _ ok(1), of "''a1''"] ids stats(3)
    by (simp add: container_dir_def abs_path_def Let_def)
  show "getCgroupFilePath (with_files [(''/g/f'', [])]) ''.'' ''/g'' ''memory'' ''f'' = Ok ''/g/f''"
    using getCgroupFilePath_confined [of "''/g''" "with_files [(''/g/f'', [])]" "''memory''", OF _ _ ok(3,2) slice(4) _ ok(1), of "''.''"] ids stats(4)
    by (simp add: container_dir_def abs_path_def Let_def)
qed

section \<open>Version 2 counters\<close>

definition totals_agree :: "cgroup_mem_stat \<Rightarrow> bool" where
  "totals_agree m \<longleftrightarrow> cm_TotalRSS m = cm_RSS m \<and> cm_TotalCache m = cm_Cache m \<and> cm_TotalRSSHuge m = cm_RSSHuge m \<and>
     cm_TotalMappedFile m = cm_MappedFile m \<and> cm_TotalPgFault m = cm_Pgfault m \<and> cm_TotalPgMajFault m = cm_Pgmajfault m \<and>
     cm_TotalInactiveAnon m = cm_InactiveAnon m \<and> cm_TotalActiveAnon m = cm_ActiveAnon m \<and>
     cm_TotalInactiveFile m = cm_InactiveFile m \<and> cm_TotalActiveFile m = cm_ActiveFile m \<and>
     cm_TotalUnevictable m = cm_Unevictable m \<and> cm_Pgpgin m = 0 \<and> cm_Pgpgout m = 0 \<and> cm_HierarchicalMemoryLimit m = 0"

lemma memV2_fields_agree: "map_of memV2_fields k = Some assign \<Longrightarrow> totals_agree m \<Longrightarrow> totals_agree (assign v m)"
  by (auto simp: memV2_fields_def totals_agree_def split: if_splits)

lemma memV2_line_agree: "totals_agree m \<Longrightarrow> totals_agree (memV2_line l m)"
  by (auto simp: memV2_line_def memV2_fields_agree split: list.splits result.splits option.splits)

lemma memV2_lines_agree: "totals_agree m \<Longrightarrow> totals_agree (fold memV2_line ls m)"
  by (induction ls arbitrary: m) (simp_all add: memV2_line_agree)

lemma set_ok_agree:
  assumes "totals_agree m"
  shows "totals_agree (set_ok r (\<lambda>r m. m\<lparr>cm_MemUsageInBytes := r\<rparr>) m)"
    "totals_agree (set_ok r (\<lambda>r m. m\<lparr>cm_MemMaxUsageInBytes := r\<rparr>) m)"
    "totals_agree (set_ok r (\<lambda>r m. m\<lparr>cm_MemLimitInBytes := r\<rparr>) m)"
    "totals_agree (set_ok r (\<lambda>r m. m\<lparr>cm_MemFailCnt := r\<rparr>) m)"
  using assms by (simp_all add: set_ok_def totals_agree_def split: result.splits)

text \<open>On the version 2 hierarchy the memory figures of a group and its hierarchical totals agree,
  and the counters that version 2 does not have are 0.\<close>

theorem CgroupMemV2_totals:
  assumes "isCgroupV2 h" and "CgroupMemWithContext h i base = Ok m"
  shows "totals_agree m"
proof -
  have "totals_agree (empty_cgroup_mem i)" by (simp add: totals_agree_def empty_cgroup_mem_def)
  then have "totals_agree (fold memV2_line ls (empty_cgroup_mem i))" for ls by (rule memV2_lines_agree)
  with assms show ?thesis
    by (auto simp: CgroupMemWithContext_def cgroupMemV2WithContext_def outcome_iff Let_def intro!: set_ok_agree)
qed

definition cgroup2_host :: host where
  "cgroup2_host = with_files [(''/sys/fs/cgroup/cgroup.controllers'', ''memory''),
     (''/sys/fs/cgroup/docker/a1/memory.stat'', unlines [''anon 4096'', ''file 8192'', ''pgpgin 7'']),
     (''/sys/fs/cgroup/docker/a1/memory.max'', unlines [''max''])]"

lemma cgroup2_files:
  "isCgroupV2 cgroup2_host"
  "getCgroupFilePath cgroup2_host ''a1'' [] ''memory'' ''memory.stat'' = Ok ''/sys/fs/cgroup/docker/a1/memory.stat''"
  "ReadLines cgroup2_host ''/sys/fs/cgroup/docker/a1/memory.stat'' = Ok [''anon 4096'', ''file 8192'', ''pgpgin 7'']"
  "getCgroupMemFileV2 cgroup2_host ''a1'' [] ''memory.max'' = Ok (- 1)"
  "getCgroupMemFileV2 cgroup2_host ''a1'' [] ''memory.peak'' = Err ENOENT"
  "getCgroupMemFileV2 cgroup2_host ''a1'' [] ''memory.current'' = Err ENOENT"
  "getCgroupMemFailCntV2 cgroup2_host ''a1'' [] = Err ENOENT"
  by code_simp+

theorem CgroupMemV2_totals_witness:
  "\<exists>m. CgroupMemWithContext cgroup2_host ''a1'' [] = Ok m \<and> cm_TotalRSS m = 4096 \<and> cm_Pgpgin m = 0 \<and>
     cm_MemLimitInBytes m = - 1 \<and> totals_agree m"
proof -
  let ?m = "(empty_cgroup_mem ''a1'')\<lparr>cm_RSS := 4096, cm_TotalRSS := 4096, cm_Cache := 8192, cm_TotalCache := 8192,
    cm_MemLimitInBytes := - 1\<rparr>"
  have "str_fields ''anon 4096'' = [''anon'', ''4096'']" "parse_u64 ''4096'' = Ok 4096"
    "str_fields ''file 8192'' = [''file'', ''8192'']" "parse_u64 ''8192'' = Ok 8192"
    "str_fields ''pgpgin 7'' = [''pgpgin'', ''7'']" "parse_u64 ''7'' = Ok 7"
    by code_simp+
  then have "CgroupMemWithContext cgroup2_host ''a1'' [] = Ok ?m"
    by (simp add: CgroupMemWithContext_def cgroupMemV2WithContext_def cgroup2_files set_ok_def memV2_line_def memV2_fields_def Let_def)
  with CgroupMemV2_totals [OF cgroup2_files(1) this] show ?thesis by (simp add: empty_cgroup_mem_def)
qed

text \<open>On version 1 a line without a space makes the read panic.\<close>

lemma memV1_blank_line: "CHR '' '' \<notin> set l \<Longrightarrow> memV1_line l m = Panic"
  by (simp add: memV1_line_def)

end
