(* ===== verification/Go_Unquote.thy ===== *)
theory Go_Unquote
  imports Go_Strconv
begin

text \<open>
  \<^verbatim>\<open>strconv.Unquote\<close> on a text put between double quotes: escapes of one letter, \<^verbatim>\<open>\xhh\<close>, \<^verbatim>\<open>\uhhhh\<close>,
  \<^verbatim>\<open>\Uhhhhhhhh\<close> and \<^verbatim>\<open>\ooo\<close>. A quote in the text ends the literal early, which is an error, as is a
  newline. A byte that does not start a UTF-8 sequence becomes the replacement character.
\<close>

abbreviation dquote :: char where
  "dquote \<equiv> CHR 0x22"

abbreviation backslash :: char where
  "backslash \<equiv> CHR 0x5C"

definition take_digits :: "nat \<Rightarrow> nat \<Rightarrow> string \<Rightarrow> (nat \<times> string) option" where
  "take_digits base n s =
     (if length s < n \<or> \<not> list_all (\<lambda>c. case digit_of c of Some d \<Rightarrow> d < base | None \<Rightarrow> False) (take n s) then None
      else Some (foldl (\<lambda>v c. v * base + (case digit_of c of Some d \<Rightarrow> d | None \<Rightarrow> 0)) 0 (take n s), drop n s))"

definition encode_rune :: "nat \<Rightarrow> string" where
  "encode_rune r = map char_of
     (if r < 128 then [r]
      else if r < 2048 then [192 + r div 64, 128 + r mod 64]
      else if r < 65536 then [224 + r div 4096, 128 + r div 64 mod 64, 128 + r mod 64]
      else [240 + r div 262144, 128 + r div 4096 mod 64, 128 + r div 64 mod 64, 128 + r mod 64])"

definition valid_rune :: "nat \<Rightarrow> bool" where
  "valid_rune r \<longleftrightarrow> r < 55296 \<or> 57343 < r \<and> r \<le> 1114111"

definition escape_rune :: "nat \<Rightarrow> string \<Rightarrow> (string \<times> string) option" where
  "escape_rune n t = (case take_digits 16 n t of
     Some (r, t') \<Rightarrow> if valid_rune r then Some (encode_rune r, t') else None | None \<Rightarrow> None)"

definition simple_escapes :: "(char \<times> char) list" where
  "simple_escapes = [(CHR ''a'', CHR 0x07), (CHR ''b'', CHR 0x08), (CHR ''f'', CHR 0x0C), (CHR ''n'', CHR 0x0A),
     (CHR ''r'', CHR 0x0D), (CHR ''t'', CHR 0x09), (CHR ''v'', CHR 0x0B), (backslash, backslash), (dquote, dquote)]"

definition octal_digit :: "char \<Rightarrow> bool" where
  "octal_digit c \<longleftrightarrow> c \<in> set ''01234567''"

text \<open>\<^verbatim>\<open>UnquoteChar\<close>: the bytes of the next character and the rest.\<close>

definition unquote_char :: "string \<Rightarrow> (string \<times> string) option" where
  "unquote_char s = (case s of [] \<Rightarrow> None
     | c # t \<Rightarrow>
        if 128 \<le> (of_char c :: nat) then
          (let n = rune_len s in if 1 < n then Some (take n s, drop n s) else Some (encode_rune 65533, t))
        else if c \<noteq> backslash then Some ([c], t)
        else (case t of [] \<Rightarrow> None
          | e # u \<Rightarrow> (case map_of simple_escapes e of Some b \<Rightarrow> Some ([b], u)
              | None \<Rightarrow>
                  if e = CHR ''x'' then (case take_digits 16 2 u of Some (v, r) \<Rightarrow> Some ([char_of v], r) | None \<Rightarrow> None)
                  else if e = CHR ''u'' then escape_rune 4 u
                  else if e = CHR ''U'' then escape_rune 8 u
                  else if octal_digit e then
                    (case take_digits 8 3 t of
                       Some (v, r) \<Rightarrow> if v \<le> 255 then Some ([char_of v], r) else None | None \<Rightarrow> None)
                  else None)))"

lemma take_digits_shorter: "take_digits base n s = Some (v, r) \<Longrightarrow> length r \<le> length s"
  by (auto simp: take_digits_def split: if_splits)

lemma escape_rune_shorter: "escape_rune n s = Some (b, r) \<Longrightarrow> length r \<le> length s"
  by (auto simp: escape_rune_def split: option.splits if_splits dest: take_digits_shorter)

lemma unquote_char_shorter: "unquote_char s = Some (b, r) \<Longrightarrow> length r < length s"
  by (auto simp: unquote_char_def Let_def less_Suc_eq_le split: list.splits if_splits option.splits
      dest!: take_digits_shorter escape_rune_shorter)

function unquote_loop :: "string \<Rightarrow> string \<Rightarrow> (string \<times> string) option" where
  "unquote_loop acc s =
     (if s = [] then None
      else if hd s = dquote then Some (acc, tl s)
      else if hd s = CHR 0x0A then None
      else case unquote_char s of None \<Rightarrow> None | Some (b, r) \<Rightarrow> unquote_loop (acc @ b) r)"
  by pat_completeness auto
termination
  by (relation "measure (length \<circ> snd)") (auto simp: unquote_char_shorter)

declare unquote_loop.simps [simp del]

text \<open>\<open>None\<close> is \<^verbatim>\<open>ErrSyntax\<close>.\<close>

definition unquote :: "string \<Rightarrow> string option" where
  "unquote s = (case unquote_loop [] (s @ [dquote]) of Some (out, []) \<Rightarrow> Some out | _ \<Rightarrow> None)"

section \<open>Texts with escaped blanks\<close>

text \<open>How the kernel prints a mount point: blank, tab, newline and backslash in octal.\<close>

definition octal_escape :: "char \<Rightarrow> string" where
  "octal_escape c = (let n = (of_char c :: nat) in
     [backslash, digit_char (n div 64), digit_char (n div 8 mod 8), digit_char (n mod 8)])"

definition mangle :: "string \<Rightarrow> string" where
  "mangle p = concat (map (\<lambda>c. if c \<in> set '' '' \<union> {CHR 0x09, CHR 0x0A, backslash} then octal_escape c else [c]) p)"

lemma mangle_append [simp]: "mangle [] = []" "mangle (p @ q) = mangle p @ mangle q"
  by (simp_all add: mangle_def)

lemma octal_escapes:
  "octal_escape CHR '' '' = backslash # ''040''" "octal_escape CHR 0x09 = backslash # ''011''"
  "octal_escape CHR 0x0A = backslash # ''012''" "octal_escape backslash = backslash # ''134''"
  by code_simp+

lemma octal_digits: "digit_of CHR ''0'' = Some 0" "digit_of CHR ''1'' = Some 1" "digit_of CHR ''2'' = Some 2"
  "digit_of CHR ''3'' = Some 3" "digit_of CHR ''4'' = Some 4"
  by code_simp+

lemma unquote_escaped:
  assumes "c \<in> {CHR '' '', CHR 0x09, CHR 0x0A, backslash}"
  shows "unquote_char (octal_escape c @ t) = Some ([c], t)"
proof -
  consider "c = CHR '' ''" | "c = CHR 0x09" | "c = CHR 0x0A" | "c = backslash" using assms by blast
  then show ?thesis
    by cases (simp_all add: octal_escapes octal_digits octal_digit_def unquote_char_def simple_escapes_def take_digits_def char_of_def bit_Suc_0_iff)
qed

lemma unquote_loop_mangle1:
  assumes "(of_char c :: nat) < 128" and "c \<noteq> dquote"
  shows "unquote_loop acc (mangle [c] @ t) = unquote_loop (acc @ [c]) t"
proof (cases "c \<in> {CHR '' '', CHR 0x09, CHR 0x0A, backslash}")
  case True
  then have "mangle [c] = octal_escape c" by (auto simp: mangle_def)
  moreover obtain r where r: "octal_escape c = backslash # r" by (simp add: octal_escape_def Let_def)
  moreover from r have "unquote_char (backslash # r @ t) = Some ([c], t)" using unquote_escaped [OF True, of t] by simp
  ultimately show ?thesis by (subst unquote_loop.simps) simp
next
  case False
  then have "mangle [c] = [c]" by (auto simp: mangle_def)
  moreover have "unquote_char (c # t) = Some ([c], t)" using False assms by (simp add: unquote_char_def)
  ultimately show ?thesis using False assms by (subst unquote_loop.simps) auto
qed

lemma unquote_loop_mangle:
  assumes "\<And>c. c \<in> set p \<Longrightarrow> (of_char c :: nat) < 128 \<and> c \<noteq> dquote"
  shows "unquote_loop acc (mangle p @ s) = unquote_loop (acc @ p) s"
  using assms
proof (induction p arbitrary: acc)
  case (Cons c p)
  have "mangle (c # p) = mangle [c] @ mangle p" by (simp add: mangle_def)
  with Cons unquote_loop_mangle1 [of c acc "mangle p @ s"] show ?case by simp
qed simp

lemma unquote_loop_quote: "unquote_loop acc (dquote # s) = Some (acc, s)"
  by (subst unquote_loop.simps) simp

lemma unquote_mangle:
  assumes "\<And>c. c \<in> set p \<Longrightarrow> (of_char c :: nat) < 128"
  shows "unquote (mangle p) = (if dquote \<in> set p then None else Some p)"
proof (cases "dquote \<in> set p")
  case True
  then obtain a b where p: "p = a @ [dquote] @ b" and a: "dquote \<notin> set a" by (metis append_Cons append_Nil split_list_first)
  have "mangle [dquote] = [dquote]" by (simp add: mangle_def)
  then have m: "mangle p @ [dquote] = mangle a @ dquote # mangle b @ [dquote]" unfolding p mangle_append by simp
  have "unquote_loop [] (mangle a @ dquote # mangle b @ [dquote]) = unquote_loop ([] @ a) (dquote # mangle b @ [dquote])"
    by (rule unquote_loop_mangle) (use assms a p in auto)
  with m True show ?thesis by (simp add: unquote_def unquote_loop_quote split: list.splits)
next
  case False
  have "unquote_loop [] (mangle p @ [dquote]) = unquote_loop ([] @ p) [dquote]"
    by (rule unquote_loop_mangle) (use assms False in auto)
  then show ?thesis using False by (simp add: unquote_def unquote_loop_quote)
qed

end
