(* ===== verification/Disk_Linux.thy ===== *)
theory Disk_Linux
  imports Common_Linux Go_Unquote
begin

text \<open>
  Package \<^verbatim>\<open>disk\<close> on Linux (\<^verbatim>\<open>disk.go\<close>, \<^verbatim>\<open>disk_linux.go\<close>, \<^verbatim>\<open>disk_unix.go\<close>): the usage of a file system, the
  mounted file systems from \<^verbatim>\<open>mountinfo\<close> or \<^verbatim>\<open>mounts\<close>, and the counters of \<^verbatim>\<open>/proc/diskstats\<close> with serial
  numbers and labels. \<^verbatim>\<open>statfs\<close>, the major and minor number of a device and \<^verbatim>\<open>filepath.EvalSymlinks\<close> are
  part of the environment.
\<close>

section \<open>Data\<close>

record usage_stat =
  us_Path :: string
  us_Fstype :: string
  us_Total :: u64
  us_Free :: u64
  us_Used :: u64
  us_UsedPercent :: float64
  us_InodesTotal :: u64
  us_InodesUsed :: u64
  us_InodesFree :: u64
  us_InodesUsedPercent :: float64

record partition_stat =
  pt_Device :: string
  pt_Mountpoint :: string
  pt_Fstype :: string
  pt_Opts :: "string list"

record disk_io_stat =
  d_ReadCount :: u64
  d_MergedReadCount :: u64
  d_WriteCount :: u64
  d_MergedWriteCount :: u64
  d_ReadBytes :: u64
  d_WriteBytes :: u64
  d_ReadTime :: u64
  d_WriteTime :: u64
  d_IopsInProgress :: u64
  d_IoTime :: u64
  d_WeightedIO :: u64
  d_Name :: string
  d_SerialNumber :: string
  d_Label :: string

definition empty_disk_io :: disk_io_stat where
  "empty_disk_io = \<lparr>d_ReadCount = 0, d_MergedReadCount = 0, d_WriteCount = 0, d_MergedWriteCount = 0, d_ReadBytes = 0,
     d_WriteBytes = 0, d_ReadTime = 0, d_WriteTime = 0, d_IopsInProgress = 0, d_IoTime = 0, d_WeightedIO = 0,
     d_Name = [], d_SerialNumber = [], d_Label = []\<rparr>"

text \<open>The result of \<^verbatim>\<open>unix.Statfs\<close>, and the environment: \<open>de_rdev\<close> gives the major and minor number of a
  special file.\<close>

record statfs =
  sf_Type :: int
  sf_Bsize :: int
  sf_Blocks :: u64
  sf_Bfree :: u64
  sf_Bavail :: u64
  sf_Files :: u64
  sf_Ffree :: u64

record disk_env =
  de_host :: host
  de_statfs :: "string \<Rightarrow> gerr + statfs"
  de_rdev :: "string \<Rightarrow> gerr + (u32 \<times> u32)"
  de_evalSymlinks :: "string \<Rightarrow> gerr + string"

section \<open>File systems\<close>

text \<open>The table of magic numbers, in the order of the source.\<close>

definition fsTypeMap_1 :: "(int \<times> string) list" where
  "fsTypeMap_1 =
     [(44533, ''adfs''), (44543, ''affs''), (1397113167, ''afs''), (151263540, ''anon-inode FS''),
      (1635083891, ''aufs''), (3393526350, ''bcachefs''), (1111905073, ''befs''), (1650746742, ''bdevfs''),
      (464386766, ''bfs''), (1112100429, ''binfmt_misc''), (3405662737, ''bpf''), (2435016766, ''btrfs''),
      (12805120, ''ceph''), (2613483, ''cgroupfs''), (1667723888, ''cgroup2fs''), (4283649346, ''cifs''),
      (1937076805, ''coda''), (19920823, ''coh''), (1650812272, ''configfs''), (684539205, ''cramfs''),
      (1684170528, ''debugfs''), (4979, ''devfs''), (7377, ''devpts''), (61791, ''ecryptfs''),
      (3730735588, ''efivarfs''), (4278867, ''efs''), (4989, ''ext''), (61267, ''ext2/ext3''),
      (61265, ''ext2''), (4076150800, ''f2fs''), (16390, ''fat''), (428016422, ''fhgfs''),
      (1702057286, ''fuseblk''), (1702057283, ''fusectl''), (195894762, ''futexfs''),
      (18225520, ''gfs/gfs2''), (1196443219, ''gpfs''), (16964, ''hfs''), (18475, ''hfsplus''),
      (4187351113, ''hpfs''), (2508478710, ''hugetlbfs''), (288389204, ''inodefs''),
      (732765674, ''inotifyfs''), (38496, ''isofs''), (16388, ''isofs''), (16384, ''isofs''),
      (1984, ''jffs''), (29366, ''jffs2''), (827541066, ''jfs'')]"

definition fsTypeMap_2 :: "(int \<times> string) list" where
  "fsTypeMap_2 =
     [(1799439955, ''k-afs''), (198183888, ''lustre''), (4991, ''minix''), (5007, ''minix (30 char.)''),
      (9320, ''minix v2''), (9336, ''minix v2 (30 char.)''), (19802, ''minix3''), (427819522, ''mqueue''),
      (19780, ''msdos''), (22092, ''novell''), (26985, ''nfs''), (1852207972, ''nfsd''),
      (13364, ''nilfs''), (1853056627, ''nsfs''), (1397118030, ''ntfs''), (40865, ''openprom''),
      (1952539503, ''ocfs2''), (2866260714, ''panfs''), (1346981957, ''pipefs''), (40864, ''proc''),
      (1634035564, ''pstorefs''), (47, ''qnx4''), (1746473250, ''qnx6''), (2240043254, ''ramfs''),
      (1382369651, ''reiserfs''), (29301, ''romfs''), (1733912937, ''rpc_pipefs''),
      (1935894131, ''securityfs''), (4185718668, ''selinux''), (20859, ''smb''), (1397703499, ''sockfs''),
      (1936814952, ''squashfs''), (1650812274, ''sysfs''), (19920822, ''sysv2''), (19920821, ''sysv4''),
      (16914836, ''tmpfs''), (1953653091, ''tracefs''), (352400198, ''udf''), (72020, ''ufs''),
      (1410924800, ''ufs''), (40866, ''usbdevfs''), (16914839, ''v9fs''), (3133910204, ''vmhgfs''),
      (2768370933, ''vxfs''), (1448756819, ''vzfs''), (2881100148, ''xenfs''), (19920820, ''xenix''),
      (1481003842, ''xfs''), (19911021, ''xia''), (801189825, ''zfs'')]"

definition getFsType :: "int \<Rightarrow> string" where
  "getFsType t = (case map_of (fsTypeMap_1 @ fsTypeMap_2) t of Some r \<Rightarrow> r | None \<Rightarrow> [])"

definition unescapeFstab :: "string \<Rightarrow> string" where
  "unescapeFstab path = (case unquote path of Some escaped \<Rightarrow> escaped | None \<Rightarrow> path)"

definition UsageWithContext :: "disk_env \<Rightarrow> string \<Rightarrow> usage_stat result" where
  "UsageWithContext env path = rbind (of_sum (de_statfs env path)) (\<lambda>stat.
     let bsize = word_of_int (sf_Bsize stat);
         used = (sf_Blocks stat - sf_Bfree stat) * bsize;
         free = sf_Bavail stat * bsize;
         ret = \<lparr>us_Path = unescapeFstab path, us_Fstype = getFsType (sf_Type stat),
           us_Total = sf_Blocks stat * bsize, us_Free = free, us_Used = used,
           us_UsedPercent = (if used + free = 0 then 0 else f_of_u64 used / f_of_u64 (used + free) * Fin 100),
           us_InodesTotal = sf_Files stat, us_InodesUsed = 0, us_InodesFree = sf_Ffree stat, us_InodesUsedPercent = 0\<rparr>
     in if us_InodesTotal ret < us_InodesFree ret then Ok ret
        else let inodesUsed = us_InodesTotal ret - us_InodesFree ret in
          Ok (ret\<lparr>us_InodesUsed := inodesUsed, us_InodesUsedPercent :=
            (if us_InodesTotal ret = 0 then 0 else f_of_u64 inodesUsed / f_of_u64 (us_InodesTotal ret) * Fin 100)\<rparr>))"

definition getFileSystems :: "host \<Rightarrow> string list result" where
  "getFileSystems h = rbind (ReadLines h (HostProcWithContext h [''filesystems''])) (\<lambda>lines.
     Ok (List.map_filter (\<lambda>line.
       if \<not> has_prefix line ''nodev'' then Some (trim_space line)
       else (case split_char CHR 0x09 line of [_, t1] \<Rightarrow> if t1 = ''zfs'' then Some (trim_space t1) else None | _ \<Rightarrow> None))
       lines))"

section \<open>Mounts\<close>

text \<open>Every error of \<^verbatim>\<open>ReadLines\<close> comes from \<^verbatim>\<open>os.Open\<close> and is an \<^verbatim>\<open>os.PathError\<close>, so the older file is always
  tried. The result is the lines, whether they are those of \<^verbatim>\<open>mounts\<close>, and the file name.\<close>

definition readMountFile :: "host \<Rightarrow> string \<Rightarrow> (string list \<times> bool \<times> string) result" where
  "readMountFile h base =
     (let filename = path_join [base, ''mountinfo''] in
      case ReadLines h filename of
        Ok lines \<Rightarrow> Ok (lines, False, filename)
      | Panic \<Rightarrow> Panic
      | Err _ \<Rightarrow> (let filename = path_join [base, ''mounts''] in
          rbind (ReadLines h filename) (\<lambda>lines. Ok (lines, True, filename))))"

definition mounts_line :: "bool \<Rightarrow> string list \<Rightarrow> string \<Rightarrow> partition_stat option" where
  "mounts_line all fs line = (case str_fields line of
     f0 # f1 # f2 # f3 # _ \<Rightarrow>
       (if \<not> all \<and> (f0 = ''none'' \<or> \<not> StringsHas fs f2) then None
        else Some \<lparr>pt_Device = f0, pt_Mountpoint = unescapeFstab f1, pt_Fstype = f2, pt_Opts = split_char CHR '','' f3\<rparr>)
   | _ \<Rightarrow> None)"

definition parseFieldsOnMounts :: "string list \<Rightarrow> bool \<Rightarrow> string list \<Rightarrow> partition_stat list" where
  "parseFieldsOnMounts lines all fs = List.map_filter (mounts_line all fs) lines"

definition effectiveReadWriteMode :: "string list \<Rightarrow> string list \<Rightarrow> string" where
  "effectiveReadWriteMode mountOpts superOpts =
     (if ''ro'' \<in> set mountOpts \<or> ''ro'' \<in> set superOpts then ''ro''
      else if ''rw'' \<in> set mountOpts \<and> ''rw'' \<in> set superOpts then ''rw'' else [])"

fun mode_loop :: "string \<Rightarrow> string list \<Rightarrow> string list \<Rightarrow> bool \<Rightarrow> string list \<times> bool" where
  "mode_loop mode [] updated modeSet = (updated, modeSet)"
| "mode_loop mode (opt # opts) updated modeSet =
     (if opt = ''ro'' \<or> opt = ''rw'' then
        (if modeSet then mode_loop mode opts updated modeSet else mode_loop mode opts (updated @ [mode]) True)
      else mode_loop mode opts (updated @ [opt]) modeSet)"

definition effectiveMountOpts :: "string list \<Rightarrow> string list \<Rightarrow> string list" where
  "effectiveMountOpts mountOpts superOpts =
     (let mode = effectiveReadWriteMode mountOpts superOpts in
      if mode = [] then mountOpts
      else case mode_loop mode mountOpts [] False of (updated, modeSet) \<Rightarrow>
        if modeSet then updated else mode # updated)"

text \<open>\<^verbatim>\<open>strings.SplitN(s, sep, 2)\<close> with a separator that occurs.\<close>

fun cut_str :: "string \<Rightarrow> string \<Rightarrow> (string \<times> string) option" where
  "cut_str sep [] = None"
| "cut_str sep (c # s) = (if prefix sep (c # s) then Some ([], drop (length sep) (c # s))
     else map_option (\<lambda>(a, b). (c # a, b)) (cut_str sep s))"

text \<open>The first \<^verbatim>\<open>subvol=\<close> option decides.\<close>

definition is_subvol :: "string \<Rightarrow> string list \<Rightarrow> bool" where
  "is_subvol rootDir superOpts = (case find (\<lambda>opt. has_prefix opt ''subvol='') superOpts of
     Some opt \<Rightarrow> drop 7 opt = rootDir | None \<Rightarrow> False)"

text \<open>Device mapper names are resolved to the device they link to, and \<^verbatim>\<open>/dev/root\<close> to the device with
  the number of the mount.\<close>

definition real_device :: "disk_env \<Rightarrow> string \<Rightarrow> string \<Rightarrow> string" where
  "real_device env blockDeviceID device =
     (let device = (if has_prefix device ''/dev/mapper/'' then
        (case de_evalSymlinks env (HostDevWithContext (de_host env) [replace_first ''/dev'' [] device]) of
           Inr devpath \<Rightarrow> devpath | Inl _ \<Rightarrow> device) else device)
      in if device = ''/dev/root'' then
        (case h_readlink (de_host env) (HostSysWithContext (de_host env) [''/dev/block/'' @ blockDeviceID]) of
           Inr devpath \<Rightarrow> replace_first ''root'' (path_base devpath) device | Inl _ \<Rightarrow> device)
      else device)"

record mount_line =
  ml_blockDeviceID :: string
  ml_rootDir :: string
  ml_mountPoint :: string
  ml_mountOpts :: "string list"
  ml_fsType :: string
  ml_mntSrc :: string
  ml_superOpts :: "string list"

definition mountinfo_fields :: "string \<Rightarrow> string \<Rightarrow> mount_line result" where
  "mountinfo_fields filename line =
     (let bad = (\<lambda>what. Err (ErrMsg (''found invalid mountinfo line in file '' @ filename @ '' (bad '' @ what @ '' len): '' @ line @ '' ''))) in
      case cut_str '' - '' line of
        None \<Rightarrow> bad ''parts''
      | Some (part0, part1) \<Rightarrow>
          (let f = str_fields part0; g = str_fields part1 in
           if length f < 5 then bad ''fields(1)''
           else if length g < 2 then bad ''fields(2)''
           else Ok \<lparr>ml_blockDeviceID = f ! 2, ml_rootDir = f ! 3, ml_mountPoint = f ! 4,
             ml_mountOpts = (if 6 \<le> length f then split_char CHR '','' (f ! 5) else []),
             ml_fsType = g ! 0, ml_mntSrc = g ! 1,
             ml_superOpts = (if 3 \<le> length g then split_char CHR '','' (g ! 2) else [])\<rparr>))"

text \<open>One round of the loop: the devices seen so far, by number, and the results.\<close>

definition mountinfo_line :: "disk_env \<Rightarrow> bool \<Rightarrow> string list \<Rightarrow> string \<Rightarrow> string \<Rightarrow>
    (string \<times> string) list \<times> partition_stat list \<Rightarrow> ((string \<times> string) list \<times> partition_stat list) result" where
  "mountinfo_line env all fs filename line = (\<lambda>(seenDevIDs, ret).
     rbind (mountinfo_fields filename line) (\<lambda>m.
       if \<not> all \<and> \<not> StringsHas fs (ml_fsType m) then Ok (seenDevIDs, ret)
       else
         let opts = effectiveMountOpts (ml_mountOpts m) (ml_superOpts m);
             device = (if has_prefix (ml_mntSrc m) ''/'' \<or> ml_rootDir m = ''/'' then ml_mntSrc m else ml_rootDir m);
             device = (case map_of seenDevIDs (ml_blockDeviceID m) of Some firstDev \<Rightarrow> firstDev | None \<Rightarrow> device);
             isBind = (has_prefix (ml_mntSrc m) ''/'' \<and> ml_rootDir m \<noteq> ''/'' \<and> \<not> is_subvol (ml_rootDir m) (ml_superOpts m));
             opts = (if isBind then opts @ [''bind''] else opts);
             seenDevIDs = (if map_of seenDevIDs (ml_blockDeviceID m) = None
               then alist_put (ml_blockDeviceID m) device seenDevIDs else seenDevIDs)
         in if \<not> all \<and> isBind then Ok (seenDevIDs, ret)
            else Ok (seenDevIDs, ret @ [\<lparr>pt_Device = real_device env (ml_blockDeviceID m) device,
              pt_Mountpoint = unescapeFstab (ml_mountPoint m), pt_Fstype = ml_fsType m, pt_Opts = opts\<rparr>])))"

definition parseFieldsOnMountinfo :: "disk_env \<Rightarrow> string list \<Rightarrow> bool \<Rightarrow> string list \<Rightarrow> string \<Rightarrow> partition_stat list result" where
  "parseFieldsOnMountinfo env lines all fs filename =
     rbind (rfold (mountinfo_line env all fs filename) lines ([], [])) (\<lambda>(_, ret). Ok ret)"

text \<open>The mount table that is read: that of process 1, or of the file named in the environment, or else of the calling process.\<close>

definition mount_table :: "host \<Rightarrow> (string list \<times> bool \<times> string) result" where
  "mount_table h =
     (let hpmPath = HostProcMountInfoWithContext h [];
          base = (if hpmPath \<noteq> [] then path_dir hpmPath else HostProcWithContext h [''1''])
      in case readMountFile h base of
        Err e \<Rightarrow> (if hpmPath \<noteq> [] then Err e else readMountFile h (HostProcWithContext h [''self'']))
      | r \<Rightarrow> r)"

definition PartitionsWithContext :: "disk_env \<Rightarrow> bool \<Rightarrow> partition_stat list result" where
  "PartitionsWithContext env all =
     (let h = de_host env
      in rbind (mount_table h) (\<lambda>(lines, useMounts, filename).
         rbind (case getFileSystems h of Err e \<Rightarrow> if all then Ok [] else Err e | r \<Rightarrow> r) (\<lambda>fs.
           if useMounts then Ok (parseFieldsOnMounts lines all fs)
           else case parseFieldsOnMountinfo env lines all fs filename of
             Err e \<Rightarrow> Err (ErrWrap (''error parsing mountinfo file '' @ filename) e)
           | r \<Rightarrow> r)))"

section \<open>Counters\<close>

definition udev_value :: "string \<Rightarrow> string \<Rightarrow> string option" where
  "udev_value name line = (case split_char_n CHR ''='' 3 line of
     [k, v] \<Rightarrow> if k = name then Some v else None | _ \<Rightarrow> None)"

text \<open>The first line of the key; a missing file is an empty value.\<close>

definition udevData :: "host \<Rightarrow> u32 \<Rightarrow> u32 \<Rightarrow> string \<Rightarrow> string result" where
  "udevData h major minor name =
     (case h_open h (HostRunWithContext h [''udev/data/b'' @ fmt_nat (unat major) @ '':'' @ fmt_nat (unat minor)]) of
        Inl e \<Rightarrow> if is_not_exist e then Ok [] else Err e
      | Inr (d, fin) \<Rightarrow> (case scan_lines fin d of (lines, err) \<Rightarrow>
          (case List.map_filter (udev_value name) lines of
             v # _ \<Rightarrow> Ok v
           | [] \<Rightarrow> (case err of None \<Rightarrow> Ok [] | Some e \<Rightarrow> Err e))))"

definition SerialNumberWithContext :: "disk_env \<Rightarrow> string \<Rightarrow> string result" where
  "SerialNumberWithContext env name = rbind (of_sum (de_rdev env name)) (\<lambda>(major, minor).
     let h = de_host env;
         sserial = (case udevData h major minor ''E:ID_SERIAL'' of Ok v \<Rightarrow> v | _ \<Rightarrow> []);
         devicePath = HostSysWithContext h [''dev/block/'' @ fmt_nat (unat major) @ '':0/device''];
         model = (case ReadFile h (path_join [devicePath, ''model'']) of Ok d \<Rightarrow> d | _ \<Rightarrow> []);
         serial = (case ReadFile h (path_join [devicePath, ''serial'']) of Ok d \<Rightarrow> d | _ \<Rightarrow> [])
     in if sserial \<noteq> [] then Ok sserial
        else if model \<noteq> [] \<and> serial \<noteq> [] then Ok (model @ ''_'' @ serial) else Ok [])"

definition LabelWithContext :: "disk_env \<Rightarrow> string \<Rightarrow> string result" where
  "LabelWithContext env name =
     (let h = de_host env; dmname = HostSysWithContext h [''block/'' @ name @ ''/dm/name''];
          udev = rbind (of_sum (de_rdev env (HostDevWithContext h [name]))) (\<lambda>(major, minor).
            udevData h major minor ''E:ID_FS_LABEL'')
      in if PathExists h dmname then (case ReadFile h dmname of Ok d \<Rightarrow> Ok (trim_space d) | _ \<Rightarrow> udev) else udev)"

text \<open>\<^verbatim>\<open>nvmeXcYnZ\<close> becomes \<^verbatim>\<open>nvmeXnZ\<close>.\<close>

definition getDeviceName :: "string \<Rightarrow> string" where
  "getDeviceName name =
     (if \<not> has_prefix name ''nvme'' then name
      else case index_byte name CHR ''c'' of
        Some cIdx \<Rightarrow> (if 4 < cIdx then (case index_byte (drop cIdx name) CHR ''n'' of
            Some nIdx \<Rightarrow> if 0 < nIdx then take cIdx name @ drop (cIdx + nIdx) name else name
          | None \<Rightarrow> name) else name)
      | None \<Rightarrow> name)"

text \<open>A row of \<^verbatim>\<open>diskstats\<close> of at least 14 fields; sectors have 512 bytes.\<close>

definition diskstats_counters :: "string list \<Rightarrow> disk_io_stat result" where
  "diskstats_counters f =
     rbind (parse_u64 (f ! 3)) (\<lambda>reads. rbind (parse_u64 (f ! 4)) (\<lambda>mergedReads.
     rbind (parse_u64 (f ! 5)) (\<lambda>rbytes. rbind (parse_u64 (f ! 6)) (\<lambda>rtime.
     rbind (parse_u64 (f ! 7)) (\<lambda>writes. rbind (parse_u64 (f ! 8)) (\<lambda>mergedWrites.
     rbind (parse_u64 (f ! 9)) (\<lambda>wbytes. rbind (parse_u64 (f ! 10)) (\<lambda>wtime.
     rbind (parse_u64 (f ! 11)) (\<lambda>iopsInProgress. rbind (parse_u64 (f ! 12)) (\<lambda>iotime.
     rbind (parse_u64 (f ! 13)) (\<lambda>weightedIO.
       Ok (empty_disk_io\<lparr>d_ReadBytes := rbytes * 512, d_WriteBytes := wbytes * 512, d_ReadCount := reads,
         d_WriteCount := writes, d_MergedReadCount := mergedReads, d_MergedWriteCount := mergedWrites,
         d_ReadTime := rtime, d_WriteTime := wtime, d_IopsInProgress := iopsInProgress, d_IoTime := iotime,
         d_WeightedIO := weightedIO\<rparr>))))))))))))"

definition with_names :: "disk_env \<Rightarrow> string \<Rightarrow> disk_io_stat \<Rightarrow> disk_io_stat" where
  "with_names env name d =
     (let deviceName = getDeviceName name in
      d\<lparr>d_Name := name,
        d_SerialNumber := (case SerialNumberWithContext env (HostDevWithContext (de_host env) [deviceName]) of Ok v \<Rightarrow> v | _ \<Rightarrow> []),
        d_Label := (case LabelWithContext env deviceName of Ok v \<Rightarrow> v | _ \<Rightarrow> [])\<rparr>)"

text \<open>A counter that does not parse ends the loop; the devices read so far are returned with the error.
  A device whose counters are all zero is left out.\<close>

fun diskstats_loop :: "disk_env \<Rightarrow> string list \<Rightarrow> string list \<Rightarrow> (string \<times> disk_io_stat) list \<Rightarrow>
    ((string \<times> disk_io_stat) list \<times> gerr option) result" where
  "diskstats_loop env names [] ret = Ok (ret, None)"
| "diskstats_loop env names (line # lines) ret =
     (let f = str_fields line in
      if length f < 14 \<or> names \<noteq> [] \<and> \<not> StringsHas names (f ! 2) then diskstats_loop env names lines ret
      else case diskstats_counters f of
        Ok d \<Rightarrow> diskstats_loop env names lines
          (if d = empty_disk_io then ret else alist_put (f ! 2) (with_names env (f ! 2) d) ret)
      | Err e \<Rightarrow> Ok (ret, Some e)
      | Panic \<Rightarrow> Panic)"

text \<open>The names of the caller's slice are replaced by their base names; the slice is the second
  component.\<close>

definition disk_IOCountersWithContext :: "disk_env \<Rightarrow> string list \<Rightarrow>
    ((string \<times> disk_io_stat) list \<times> gerr option) result \<times> string list" where
  "disk_IOCountersWithContext env names =
     (case ReadLines (de_host env) (HostProcWithContext (de_host env) [''diskstats'']) of
        Err e \<Rightarrow> (Err e, names)
      | Panic \<Rightarrow> (Panic, names)
      | Ok lines \<Rightarrow> (diskstats_loop env (map path_base names) lines [], map path_base names))"

section \<open>Mount options\<close>

definition is_mode :: "string \<Rightarrow> bool" where
  "is_mode opt \<longleftrightarrow> opt = ''ro'' \<or> opt = ''rw''"

lemma mode_loop_spec:
  assumes "is_mode mode"
  shows "fst (mode_loop mode opts upd b) =
      upd @ (if b then filter (\<lambda>opt. \<not> is_mode opt) opts
        else takeWhile (\<lambda>opt. \<not> is_mode opt) opts @ (if list_ex is_mode opts then [mode] else []) @
          filter (\<lambda>opt. \<not> is_mode opt) (dropWhile (\<lambda>opt. \<not> is_mode opt) opts))"
    and "snd (mode_loop mode opts upd b) \<longleftrightarrow> b \<or> list_ex is_mode opts"
  using assms by (induction mode opts upd b rule: mode_loop.induct) (auto simp: is_mode_def)

text \<open>C2: the options reported for a mount are those of the mount point in their order, but read-only
  when the mount point or the file system is read-only, and with a single mode when one applies.\<close>

theorem effectiveMountOpts_spec:
  "filter (\<lambda>opt. \<not> is_mode opt) (effectiveMountOpts mo so) = filter (\<lambda>opt. \<not> is_mode opt) mo \<and>
   (''ro'' \<in> set (effectiveMountOpts mo so) \<longleftrightarrow> ''ro'' \<in> set mo \<union> set so) \<and>
   (''rw'' \<in> set (effectiveMountOpts mo so) \<longleftrightarrow> ''ro'' \<notin> set mo \<union> set so \<and> ''rw'' \<in> set mo) \<and>
   length (filter is_mode (effectiveMountOpts mo so)) =
     (if effectiveReadWriteMode mo so = [] then length (filter is_mode mo) else 1)"
proof (cases "effectiveReadWriteMode mo so = []")
  case True
  then show ?thesis by (auto simp: effectiveMountOpts_def effectiveReadWriteMode_def split: if_splits)
next
  case False
  let ?mode = "effectiveReadWriteMode mo so" and ?rest = "filter (\<lambda>opt. \<not> is_mode opt)"
  have mode: "is_mode ?mode" using False by (auto simp: effectiveReadWriteMode_def is_mode_def split: if_splits)
  define pre post where "pre = takeWhile (\<lambda>opt. \<not> is_mode opt) mo" and "post = ?rest (dropWhile (\<lambda>opt. \<not> is_mode opt) mo)"
  obtain upd b where loop: "mode_loop ?mode mo [] False = (upd, b)" by fastforce
  with mode_loop_spec [OF mode, of mo "[]" False]
  have upd: "upd = pre @ (if list_ex is_mode mo then [?mode] else []) @ post" and b: "b = list_ex is_mode mo"
    by (simp_all add: pre_def post_def)
  have pre: "?rest pre = pre" "filter is_mode pre = []" "filter is_mode post = []"
    by (auto simp: pre_def post_def filter_id_conv filter_empty_conv dest: set_takeWhileD)
  have split: "pre @ post = ?rest mo"
    unfolding pre_def post_def by (metis (no_types, lifting) filter_append pre(1) pre_def takeWhile_dropWhile_id)
  have eff: "effectiveMountOpts mo so = (if b then upd else ?mode # upd)"
    using False loop by (simp add: effectiveMountOpts_def)
  have rest: "?rest (effectiveMountOpts mo so) = ?rest mo"
    using mode split pre upd b eff by (auto simp: post_def)
  have one: "filter is_mode (effectiveMountOpts mo so) = [?mode]"
    using mode pre upd b eff by auto
  then have "set (filter is_mode (effectiveMountOpts mo so)) = {?mode}" by simp
  then have "opt \<in> set (effectiveMountOpts mo so) \<longleftrightarrow> opt = ?mode" if "is_mode opt" for opt
    using that mode unfolding set_filter by blast
  from this [of "''ro''"] this [of "''rw''"] rest one False show ?thesis
    by (auto simp: is_mode_def effectiveReadWriteMode_def split: if_splits)
qed

section \<open>Escaped mount points\<close>

text \<open>A mount point that the kernel printed with blanks and backslashes in octal is reported as it
  is, for every ASCII path without a double quote; with a double quote in the path the escapes stay.\<close>

theorem unescapeFstab_mangle:
  assumes "list_all (\<lambda>c. (of_char c :: nat) < 128) path"
  shows "unescapeFstab (mangle path) = (if dquote \<in> set path then mangle path else path)"
  using assms unquote_mangle [of path] by (simp add: unescapeFstab_def list_all_iff)

theorem unescapeFstab_mangle_witness:
  "unescapeFstab (mangle ''/mnt/a b'') = ''/mnt/a b'' \<and> mangle ''/mnt/a b'' = ''/mnt/a'' @ [backslash] @ ''040b''"
proof -
  have "mangle ''/mnt/a b'' = ''/mnt/a'' @ [backslash] @ ''040b''" by code_simp
  moreover have "list_all (\<lambda>c. (of_char c :: nat) < 128) ''/mnt/a b''" by simp
  ultimately show ?thesis using unescapeFstab_mangle [of "''/mnt/a b''"] by simp
qed

section \<open>Physical partitions\<close>

definition bind_mount :: "mount_line \<Rightarrow> bool" where
  "bind_mount m \<longleftrightarrow> has_prefix (ml_mntSrc m) ''/'' \<and> ml_rootDir m \<noteq> ''/'' \<and> \<not> is_subvol (ml_rootDir m) (ml_superOpts m)"

text \<open>The types of file systems as \<^verbatim>\<open>/proc/filesystems\<close> prints them, with the mark of those that need no device; \<^verbatim>\<open>zfs\<close>
  has the mark and counts as one that does.\<close>

type_synonym fs_types = "(bool \<times> string) list"

definition fs_row :: "bool \<times> string \<Rightarrow> string" where
  "fs_row = (\<lambda>(nodev, t). (if nodev then ''nodev'' else []) @ CHR 0x09 # t)"

definition fs_types_ok :: "fs_types \<Rightarrow> bool" where
  "fs_types_ok types \<longleftrightarrow> list_all (\<lambda>(_, t). plain t \<and> t \<noteq> []) types"

definition on_device :: "fs_types \<Rightarrow> string \<Rightarrow> bool" where
  "on_device types t \<longleftrightarrow> (False, t) \<in> set types \<or> t = ''zfs'' \<and> (True, t) \<in> set types"

lemma map_filter_image:
  "(\<And>x. x \<in> set xs \<Longrightarrow> f (g x) = k x) \<Longrightarrow> List.map_filter f (map g xs) = List.map_filter k xs"
  by (induction xs) (simp_all split: option.split)

lemma getFileSystems_types:
  assumes "ReadLines h (HostProcWithContext h [''filesystems'']) = Ok (map fs_row types)" and "fs_types_ok types"
  shows "\<exists>fs. getFileSystems h = Ok fs \<and> StringsHas fs = on_device types"
proof -
  let ?kept = "\<lambda>(nodev, t). if nodev \<and> t \<noteq> ''zfs'' then None else Some t"
  let ?read = "\<lambda>line. if \<not> has_prefix line ''nodev'' then Some (trim_space line)
       else (case split_char CHR 0x09 line of [_, t1] \<Rightarrow> if t1 = ''zfs'' then Some (trim_space t1) else None | _ \<Rightarrow> None)"
  have row: "?read (fs_row r) = ?kept r" if "plain (snd r)" for r
  proof -
    have "CHR 0x09 \<notin> set (snd r)" using that plain_no_space [of "snd r" "CHR 0x09"] by (auto simp: is_ascii_space_def)
    then have "split_char CHR 0x09 (''nodev'' @ CHR 0x09 # snd r) = [''nodev'', snd r]"
      using split_char_join [of "[''nodev'', snd r]" "CHR 0x09"] by simp
    then show ?thesis
      using that by (cases r) (auto simp: fs_row_def has_prefix_def is_ascii_space_def)
  qed
  have "List.map_filter ?read (map fs_row types) = List.map_filter ?kept types"
    using assms(2) by (intro map_filter_image row) (auto simp: fs_types_ok_def list_all_iff)
  moreover have "StringsHas (List.map_filter ?kept types) t = on_device types t" for t
    using assms(2) by (induction types) (auto simp: fs_types_ok_def on_device_def split: if_splits)
  ultimately show ?thesis using assms(1) by (auto simp: getFileSystems_def)
qed

text \<open>The lines of the table, and the device of a mount: the source of the first mount of the same device number.\<close>

definition mount_lines_of :: "string \<Rightarrow> string list \<Rightarrow> mount_line list" where
  "mount_lines_of filename lines = List.map_filter (\<lambda>l. case mountinfo_fields filename l of Ok m \<Rightarrow> Some m | _ \<Rightarrow> None) lines"

definition own_device :: "mount_line \<Rightarrow> string" where
  "own_device m = (if has_prefix (ml_mntSrc m) ''/'' \<or> ml_rootDir m = ''/'' then ml_mntSrc m else ml_rootDir m)"

definition first_device :: "mount_line list \<Rightarrow> string \<Rightarrow> string" where
  "first_device ms i = (case find (\<lambda>m. ml_blockDeviceID m = i) ms of Some m \<Rightarrow> own_device m | None \<Rightarrow> [])"

definition mount_entry :: "disk_env \<Rightarrow> mount_line list \<Rightarrow> mount_line \<Rightarrow> partition_stat" where
  "mount_entry env ms m = \<lparr>pt_Device = real_device env (ml_blockDeviceID m) (first_device ms (ml_blockDeviceID m)),
     pt_Mountpoint = unescapeFstab (ml_mountPoint m), pt_Fstype = ml_fsType m,
     pt_Opts = effectiveMountOpts (ml_mountOpts m) (ml_superOpts m)\<rparr>"

lemma mountinfo_loop:
  assumes "rfold (mountinfo_line env False fs filename) lines (seen, ret) = Ok (seen', ret')"
  shows "ret' = ret @ (let ms = filter (\<lambda>m. StringsHas fs (ml_fsType m)) (mount_lines_of filename lines) in
    map (\<lambda>m. (mount_entry env ms m)\<lparr>pt_Device := real_device env (ml_blockDeviceID m)
        (case map_of seen (ml_blockDeviceID m) of Some d \<Rightarrow> d | None \<Rightarrow> first_device ms (ml_blockDeviceID m))\<rparr>)
      (filter (\<lambda>m. \<not> bind_mount m) ms))"
  using assms
proof (induction lines arbitrary: seen ret)
  case Nil
  then show ?case by (simp add: mount_lines_of_def)
next
  case (Cons l lines)
  from Cons.prems obtain u where u: "mountinfo_line env False fs filename l (seen, ret) = Ok u"
    and rest: "rfold (mountinfo_line env False fs filename) lines u = Ok (seen', ret')"
    by (auto simp: outcome_iff)
  from u obtain m where m: "mountinfo_fields filename l = Ok m"
    by (cases "mountinfo_fields filename l") (auto simp: mountinfo_line_def)
  have ls: "mount_lines_of filename (l # lines) = m # mount_lines_of filename lines"
    by (simp add: mount_lines_of_def m)
  show ?case
  proof (cases "StringsHas fs (ml_fsType m)")
    case False
    with u m have "u = (seen, ret)" by (simp add: mountinfo_line_def)
    with Cons.IH rest False show ?thesis by (simp add: ls)
  next
    case True
    let ?i = "ml_blockDeviceID m"
    let ?d = "case map_of seen ?i of Some d \<Rightarrow> d | None \<Rightarrow> own_device m"
    have seen: "fst u = (if map_of seen ?i = None then alist_put ?i ?d seen else seen)"
      and ret: "snd u = ret @ (if bind_mount m then [] else [(mount_entry env [] m)\<lparr>pt_Device := real_device env ?i ?d\<rparr>])"
      using u m True
      by (auto simp: mountinfo_line_def Let_def bind_mount_def own_device_def mount_entry_def split: if_splits option.splits)
    have "rfold (mountinfo_line env False fs filename) lines (fst u, snd u) = Ok (seen', ret')" using rest by simp
    note IH = Cons.IH [OF this]
    have map: "map_of (fst u) j = (if j = ?i then Some ?d else map_of seen j)" for j
      by (auto simp: seen split: option.splits)
    show ?thesis
      unfolding IH ls
      by (auto simp: ret map True Let_def first_device_def mount_entry_def split: option.splits)
  qed
qed

lemma mountinfo_line_Ok:
  "mountinfo_fields filename l = Ok m \<Longrightarrow> \<exists>u. mountinfo_line env all fs filename l st = Ok u"
  by (cases st) (simp add: mountinfo_line_def Let_def)

lemma mountinfo_loop_Ok:
  "list_all (\<lambda>l. \<exists>m. mountinfo_fields filename l = Ok m) lines \<Longrightarrow> \<exists>r. rfold (mountinfo_line env all fs filename) lines st = Ok r"
proof (induction lines arbitrary: st)
  case (Cons l lines)
  then obtain m where "mountinfo_fields filename l = Ok m" by auto
  from mountinfo_line_Ok [OF this] obtain u where "mountinfo_line env all fs filename l st = Ok u" by blast
  with Cons.IH [of u] Cons.prems show ?case by simp
qed simp

text \<open>C36: what \<^verbatim>\<open>Partitions\<close> reports without \<^verbatim>\<open>all\<close>. From \<^verbatim>\<open>mountinfo\<close>, when its lines can be parsed: exactly the mounts, in order, whose
  type \<^verbatim>\<open>/proc/filesystems\<close> lists as one on a device (or \<^verbatim>\<open>zfs\<close>) and that are not bind mounts, each with its unescaped mount point, its type, its
  effective options and the device first seen under its device number. From the older \<^verbatim>\<open>mounts\<close> file, which cannot tell bind mounts: the
  mounts of such types with a device, as they are.\<close>

theorem Partitions_physical:
  assumes "mount_table (de_host env) = Ok (lines, useMounts, filename)"
    and "useMounts \<or> list_all (\<lambda>l. \<exists>m. mountinfo_fields filename l = Ok m) lines"
    and "ReadLines (de_host env) (HostProcWithContext (de_host env) [''filesystems'']) = Ok (map fs_row types)" and "fs_types_ok types"
  shows "PartitionsWithContext env False = Ok
    (if useMounts then filter (\<lambda>p. pt_Device p \<noteq> ''none'' \<and> on_device types (pt_Fstype p)) (parseFieldsOnMounts lines True [])
     else let ms = filter (\<lambda>m. on_device types (ml_fsType m)) (mount_lines_of filename lines)
       in map (mount_entry env ms) (filter (\<lambda>m. \<not> bind_mount m) ms))"
proof -
  obtain fs where fs: "getFileSystems (de_host env) = Ok fs" "StringsHas fs = on_device types"
    using getFileSystems_types [OF assms(3,4)] by blast
  show ?thesis
  proof (cases useMounts)
    case True
    have "List.map_filter (mounts_line False fs) lines =
        filter (\<lambda>p. pt_Device p \<noteq> ''none'' \<and> on_device types (pt_Fstype p)) (List.map_filter (mounts_line True []) lines)"
      by (induction lines) (auto simp: mounts_line_def fs(2) split: list.splits)
    with True assms(1) fs(1) show ?thesis by (simp add: PartitionsWithContext_def parseFieldsOnMounts_def)
  next
    case False
    with assms(2) mountinfo_loop_Ok obtain seen ps
      where loop: "rfold (mountinfo_line env False fs filename) lines ([], []) = Ok (seen, ps)"
      by (metis surj_pair)
    from False assms(1) fs(1) loop have "PartitionsWithContext env False = Ok ps"
      by (simp add: PartitionsWithContext_def parseFieldsOnMountinfo_def)
    with mountinfo_loop [OF loop] False show ?thesis
      by (simp add: fs(2) Let_def mount_entry_def cong: map_cong)
  qed
qed

definition mount_lines :: "string list" where
  "mount_lines = [''21 1 8:1 / / rw,noatime - ext4 /dev/a ro'', ''22 21 0:5 / /run rw - tmpfs tmpfs rw'',
     ''23 21 8:1 /s /d rw - ext4 /dev/a rw'']"

definition mount_types :: fs_types where
  "mount_types = [(True, ''tmpfs''), (False, ''ext4'')]"

definition mount_env :: disk_env where
  "mount_env = \<lparr>de_host = with_files [(''/proc/1/mountinfo'', unlines mount_lines), (''/proc/filesystems'', unlines (map fs_row mount_types))],
     de_statfs = (\<lambda>_. Inl ENOENT), de_rdev = (\<lambda>_. Inl ENOENT), de_evalSymlinks = (\<lambda>_. Inl ENOENT)\<rparr>"

lemma mount_env_files:
  "mount_table (de_host mount_env) = Ok (mount_lines, False, ''/proc/1/mountinfo'')"
  "ReadLines (de_host mount_env) (HostProcWithContext (de_host mount_env) [''filesystems'']) = Ok (map fs_row mount_types)"
  "fs_types_ok mount_types"
proof -
  let ?h = "de_host mount_env"
  have files: "h_open ?h ''/proc/1/mountinfo'' = Inr (unlines mount_lines, None)"
    "h_open ?h ''/proc/filesystems'' = Inr (unlines (map fs_row mount_types), None)"
    by (simp_all add: mount_env_def with_files_def)
  have paths: "HostProcMountInfoWithContext ?h [] = []" "HostProcWithContext ?h [''1''] = ''/proc/1''"
    "HostProcWithContext ?h [''filesystems''] = ''/proc/filesystems''" "path_join [''/proc/1'', ''mountinfo''] = ''/proc/1/mountinfo''"
    by code_simp+
  have "no_nl mount_lines" "no_nl (map fs_row mount_types)" by code_simp+
  note read = ReadLines_lines [of ?h _ _ "[]", simplified, OF files(1) this(1)] ReadLines_lines [of ?h _ _ "[]", simplified, OF files(2) this(2)]
  show "mount_table ?h = Ok (mount_lines, False, ''/proc/1/mountinfo'')"
    by (simp add: mount_table_def paths readMountFile_def read(1))
  show "ReadLines ?h (HostProcWithContext ?h [''filesystems'']) = Ok (map fs_row mount_types)" by (simp add: paths read(2))
  show "fs_types_ok mount_types" by code_simp
qed

definition ext4_mount :: mount_line where
  "ext4_mount = \<lparr>ml_blockDeviceID = ''8:1'', ml_rootDir = ''/'', ml_mountPoint = ''/'', ml_mountOpts = [''rw'', ''noatime''], ml_fsType = ''ext4'',
     ml_mntSrc = ''/dev/a'', ml_superOpts = [''ro'']\<rparr>"

lemma mount_lines_fields:
  "mountinfo_fields ''/proc/1/mountinfo'' ''21 1 8:1 / / rw,noatime - ext4 /dev/a ro'' = Ok ext4_mount"
  "mountinfo_fields ''/proc/1/mountinfo'' ''22 21 0:5 / /run rw - tmpfs tmpfs rw'' = Ok (ext4_mount\<lparr>ml_blockDeviceID := ''0:5'',
     ml_mountPoint := ''/run'', ml_mountOpts := [''rw''], ml_fsType := ''tmpfs'', ml_mntSrc := ''tmpfs'', ml_superOpts := [''rw'']\<rparr>)"
  "mountinfo_fields ''/proc/1/mountinfo'' ''23 21 8:1 /s /d rw - ext4 /dev/a rw'' =
     Ok (ext4_mount\<lparr>ml_rootDir := ''/s'', ml_mountPoint := ''/d'', ml_mountOpts := [''rw''], ml_superOpts := [''rw'']\<rparr>)"
proof -
  have "cut_str '' - '' ''21 1 8:1 / / rw,noatime - ext4 /dev/a ro'' = Some (''21 1 8:1 / / rw,noatime'', ''ext4 /dev/a ro'')"
    "cut_str '' - '' ''22 21 0:5 / /run rw - tmpfs tmpfs rw'' = Some (''22 21 0:5 / /run rw'', ''tmpfs tmpfs rw'')"
    "cut_str '' - '' ''23 21 8:1 /s /d rw - ext4 /dev/a rw'' = Some (''23 21 8:1 /s /d rw'', ''ext4 /dev/a rw'')"
    by code_simp+
  moreover have "str_fields ''21 1 8:1 / / rw,noatime'' = [''21'', ''1'', ''8:1'', ''/'', ''/'', ''rw,noatime'']"
    "str_fields ''ext4 /dev/a ro'' = [''ext4'', ''/dev/a'', ''ro'']"
    "str_fields ''22 21 0:5 / /run rw'' = [''22'', ''21'', ''0:5'', ''/'', ''/run'', ''rw'']"
    "str_fields ''tmpfs tmpfs rw'' = [''tmpfs'', ''tmpfs'', ''rw'']"
    "str_fields ''23 21 8:1 /s /d rw'' = [''23'', ''21'', ''8:1'', ''/s'', ''/d'', ''rw'']"
    "str_fields ''ext4 /dev/a rw'' = [''ext4'', ''/dev/a'', ''rw'']"
    by code_simp+
  ultimately show
    "mountinfo_fields ''/proc/1/mountinfo'' ''21 1 8:1 / / rw,noatime - ext4 /dev/a ro'' = Ok ext4_mount"
    "mountinfo_fields ''/proc/1/mountinfo'' ''22 21 0:5 / /run rw - tmpfs tmpfs rw'' = Ok (ext4_mount\<lparr>ml_blockDeviceID := ''0:5'',
       ml_mountPoint := ''/run'', ml_mountOpts := [''rw''], ml_fsType := ''tmpfs'', ml_mntSrc := ''tmpfs'', ml_superOpts := [''rw'']\<rparr>)"
    "mountinfo_fields ''/proc/1/mountinfo'' ''23 21 8:1 /s /d rw - ext4 /dev/a rw'' =
       Ok (ext4_mount\<lparr>ml_rootDir := ''/s'', ml_mountPoint := ''/d'', ml_mountOpts := [''rw''], ml_superOpts := [''rw'']\<rparr>)"
    by (simp_all add: mountinfo_fields_def ext4_mount_def)
qed

theorem Partitions_physical_witness:
  "PartitionsWithContext mount_env False = Ok [\<lparr>pt_Device = ''/dev/a'', pt_Mountpoint = ''/'', pt_Fstype = ''ext4'', pt_Opts = [''ro'', ''noatime'']\<rparr>]"
proof -
  let ?f = "''/proc/1/mountinfo''"
  have "list_all (\<lambda>l. \<exists>m. mountinfo_fields ?f l = Ok m) mount_lines" by (simp add: mount_lines_def mount_lines_fields)
  note P = Partitions_physical [OF mount_env_files(1) disjI2 [OF this] mount_env_files(2,3)]
  have "\<not> is_subvol ''/s'' [''rw'']" "unescapeFstab ''/'' = ''/''" "effectiveMountOpts [''rw'', ''noatime''] [''ro''] = [''ro'', ''noatime'']"
    by code_simp+
  then show ?thesis
    unfolding P mount_lines_of_def
    by (simp add: mount_lines_def mount_lines_fields ext4_mount_def on_device_def mount_types_def bind_mount_def mount_entry_def first_device_def own_device_def
        real_device_def has_prefix_def Let_def)
qed

section \<open>Usage\<close>

text \<open>When the used and the free size in bytes add up to less than 2 to the 64, the used percentage and
  the inode percentage are finite numbers in [0, 100], also when the file system reports more free inodes than
  it has.\<close>

theorem Usage_percent:
  assumes "UsageWithContext env path = Ok u" and "unat (us_Used u) + unat (us_Free u) < 2 ^ 64"
  shows "(\<exists>r. us_UsedPercent u = Fin r \<and> 0 \<le> r \<and> r \<le> 100) \<and>
    (\<exists>r. us_InodesUsedPercent u = Fin r \<and> 0 \<le> r \<and> r \<le> 100)"
proof -
  have zero: "\<exists>r. (0 :: float64) = Fin r \<and> 0 \<le> r \<and> r \<le> 100" by (auto simp: zero_float64_def)
  have used: "us_UsedPercent u = (if us_Used u + us_Free u = 0 then 0
      else f_of_u64 (us_Used u) / f_of_u64 (us_Used u + us_Free u) * Fin 100)"
    and inodes: "us_InodesUsedPercent u = (if us_InodesTotal u < us_InodesFree u \<or> us_InodesTotal u = 0 then 0
      else f_of_u64 (us_InodesTotal u - us_InodesFree u) / f_of_u64 (us_InodesTotal u) * Fin 100)"
    using assms(1) by (auto simp: UsageWithContext_def outcome_iff Let_def split: if_splits)
  have sum: "us_Free u \<le> us_Used u + us_Free u"
    using assms(2) by (simp add: word_le_nat_alt unat_add_lem [THEN iffD1])
  have "\<exists>r. us_UsedPercent u = Fin r \<and> 0 \<le> r \<and> r \<le> 100"
    using percent_u64_diff(2) [OF sum] zero by (auto simp: used)
  moreover have "\<exists>r. us_InodesUsedPercent u = Fin r \<and> 0 \<le> r \<and> r \<le> 100"
    using percent_u64_diff(2) [of "us_InodesFree u" "us_InodesTotal u"] zero by (auto simp: inodes)
  ultimately show ?thesis by blast
qed

section \<open>diskstats\<close>

text \<open>A row: device numbers, name and eleven counters, and what they mean.\<close>

type_synonym disk_row = "string \<times> u64 list"

definition disk_row_text :: "disk_row \<Rightarrow> string" where
  "disk_row_text = (\<lambda>(name, cs). join '' '' ([''8'', ''0'', name] @ map (\<lambda>c. fmt_nat (unat c)) cs))"

definition disk_row_ok :: "disk_row \<Rightarrow> bool" where
  "disk_row_ok = (\<lambda>(name, cs). plain name \<and> name \<noteq> [] \<and> 11 \<le> length cs)"

definition disk_meaning :: "u64 list \<Rightarrow> disk_io_stat" where
  "disk_meaning cs = empty_disk_io\<lparr>d_ReadCount := cs ! 0, d_MergedReadCount := cs ! 1, d_ReadBytes := cs ! 2 * 512,
     d_ReadTime := cs ! 3, d_WriteCount := cs ! 4, d_MergedWriteCount := cs ! 5, d_WriteBytes := cs ! 6 * 512,
     d_WriteTime := cs ! 7, d_IopsInProgress := cs ! 8, d_IoTime := cs ! 9, d_WeightedIO := cs ! 10\<rparr>"

lemma disk_row_fields:
  "disk_row_ok (name, cs) \<Longrightarrow> str_fields (disk_row_text (name, cs)) = [''8'', ''0'', name] @ map (\<lambda>c. fmt_nat (unat c)) cs"
  unfolding disk_row_text_def prod.case
  by (rule fields_join) (auto simp: disk_row_ok_def is_ascii_space_def)

lemma diskstats_counters_row:
  assumes "11 \<le> length cs"
  shows "diskstats_counters ([''8'', ''0'', name] @ map (\<lambda>c. fmt_nat (unat c)) cs) = Ok (disk_meaning cs)"
proof -
  have "([''8'', ''0'', name] @ map (\<lambda>c. fmt_nat (unat c)) cs) ! (k + 3) = fmt_nat (unat (cs ! k))" if "k < 11" for k
    using that assms by (simp add: nth_append)
  note nth = this [of 0] this [of 1] this [of 2] this [of 3] this [of 4] this [of 5] this [of 6] this [of 7]
    this [of 8] this [of 9] this [of 10]
  show ?thesis
    using nth unfolding diskstats_counters_def by (simp add: disk_meaning_def)
qed

text \<open>\<^verbatim>\<open>IOCounters\<close> reads back the table the kernel prints: one entry per device with a counter that is
  not 0, sizes in bytes, under its name.\<close>

theorem DiskIOCounters_roundtrip:
  assumes "ReadLines (de_host env) (HostProcWithContext (de_host env) [''diskstats'']) = Ok (map disk_row_text rows)"
    and "list_all disk_row_ok rows" and "distinct (map fst rows)"
  shows "disk_IOCountersWithContext env [] =
    (Ok (map (\<lambda>(name, cs). (name, with_names env name (disk_meaning cs)))
       (filter (\<lambda>(name, cs). disk_meaning cs \<noteq> empty_disk_io) rows), None), [])"
proof -
  have "diskstats_loop env [] (map disk_row_text rows) acc =
      Ok (acc @ map (\<lambda>(name, cs). (name, with_names env name (disk_meaning cs)))
        (filter (\<lambda>(name, cs). disk_meaning cs \<noteq> empty_disk_io) rows), None)"
    if "distinct (map fst acc @ map fst rows)" for acc
    using assms(2) that
  proof (induction rows arbitrary: acc)
    case (Cons row rows)
    obtain name cs where row: "row = (name, cs)" by (cases row)
    have len: "11 \<le> length cs" and ok: "disk_row_ok (name, cs)" using Cons.prems(1) row by (auto simp: disk_row_ok_def)
    have "alist_put name v acc = acc @ [(name, v)]" for v
      using Cons.prems(2) row by (intro alist_put_fresh) auto
    with Cons row len disk_row_fields [OF ok] diskstats_counters_row [OF len, of name] show ?case
      by (simp add: Let_def)
  qed simp
  from this [of "[]"] assms(1,3) show ?thesis by (simp add: disk_IOCountersWithContext_def)
qed

text \<open>A file system of 100 blocks, and a table of two devices.\<close>

definition disk_env1 :: disk_env where
  "disk_env1 = mount_env\<lparr>de_statfs := (\<lambda>_. Inr \<lparr>sf_Type = 61267, sf_Bsize = 4096, sf_Blocks = 100, sf_Bfree = 60, sf_Bavail = 50,
     sf_Files = 10, sf_Ffree = 4\<rparr>), de_host := with_files [(''/proc/diskstats'', unlines (map disk_row_text
       [(''sda'', [1, 2, 3, 4, 5, 6, 7, 8, 9, 10, 11]), (''ram0'', replicate 11 0)]))]\<rparr>"

theorem Usage_percent_witness:
  "\<exists>u r. UsageWithContext disk_env1 ''/'' = Ok u \<and> us_Used u = 40 * 4096 \<and> us_UsedPercent u = Fin r \<and> 0 \<le> r \<and> r \<le> 100"
proof -
  obtain u where u: "UsageWithContext disk_env1 ''/'' = Ok u" "us_Used u = 40 * 4096" "us_Free u = 50 * 4096"
    by (simp add: UsageWithContext_def disk_env1_def mount_env_def Let_def)
  then have "unat (us_Used u) + unat (us_Free u) < 2 ^ 64" by simp
  from Usage_percent [OF u(1) this] u show ?thesis by auto
qed

theorem DiskIOCounters_roundtrip_witness:
  "\<exists>d. disk_IOCountersWithContext disk_env1 [] = (Ok ([(''sda'', d)], None), []) \<and> d_ReadBytes d = 3 * 512"
proof -
  let ?rows = "[(''sda'', [1, 2, 3, 4, 5, 6, 7, 8, 9, 10, 11]), (''ram0'', replicate 11 0)]"
  have nl: "nl \<notin> set (disk_row_text r)" if "r \<in> set ?rows" for r
    using that by auto (code_simp)+
  have "h_open (de_host disk_env1) ''/proc/diskstats'' = Inr (unlines (map disk_row_text ?rows) @ [], None)"
    by (simp add: disk_env1_def with_files_def no_files_def)
  from ReadLines_lines [OF this] nl have "ReadLines (de_host disk_env1) ''/proc/diskstats'' = Ok (map disk_row_text ?rows)"
    by simp
  moreover have "HostProcWithContext (de_host disk_env1) [''diskstats''] = ''/proc/diskstats''" by code_simp
  ultimately have l: "ReadLines (de_host disk_env1) (HostProcWithContext (de_host disk_env1) [''diskstats'']) = Ok (map disk_row_text ?rows)"
    by simp
  have "list_all disk_row_ok ?rows" "distinct (map fst ?rows)" by (simp_all add: disk_row_ok_def is_ascii_space_def)
  from DiskIOCounters_roundtrip [OF l this] show ?thesis
    by (simp add: disk_meaning_def empty_disk_io_def with_names_def Let_def eval_nat_numeral)
qed

end
