(* ===== verification/Host_Linux.thy ===== *)
theory Host_Linux
  imports Common_Linux
begin

text \<open>
  Package \<^verbatim>\<open>host\<close> on Linux (\<^verbatim>\<open>host.go\<close>, \<^verbatim>\<open>host_linux.go\<close>, \<^verbatim>\<open>host_linux_amd64.go\<close>, \<^verbatim>\<open>host_posix.go\<close>): the identity
  of the machine, logged-in users from \<^verbatim>\<open>utmp\<close>, the Linux distribution, and the summary \<^verbatim>\<open>Info\<close>. The host
  name and \<^verbatim>\<open>uname\<close> are part of the environment; the caches of the boot time and the virtualization
  system are threaded through. The regular expressions are searches for a literal followed by
  characters of a class.
\<close>

section \<open>Data\<close>

record host_info_stat =
  hi_Hostname :: string
  hi_Uptime :: u64
  hi_BootTime :: u64
  hi_Procs :: u64
  hi_OS :: string
  hi_Platform :: string
  hi_PlatformFamily :: string
  hi_PlatformVersion :: string
  hi_KernelVersion :: string
  hi_KernelArch :: string
  hi_VirtualizationSystem :: string
  hi_VirtualizationRole :: string
  hi_HostID :: string

record user_stat =
  u_User :: string
  u_Terminal :: string
  u_Host :: string
  u_Started :: int

record lsb_struct =
  lsb_ID :: string
  lsb_Release :: string
  lsb_Codename :: string
  lsb_Description :: string

definition empty_lsb :: lsb_struct where
  "empty_lsb = \<lparr>lsb_ID = [], lsb_Release = [], lsb_Codename = [], lsb_Description = []\<rparr>"

text \<open>\<open>he_uname\<close> gives the release and the machine.\<close>

record host_env =
  he_host :: host
  he_hostname :: "gerr + string"
  he_uname :: "gerr + (string \<times> string)"
  he_bootCache :: bool

section \<open>Identity\<close>

definition first_line :: "host \<Rightarrow> string \<Rightarrow> string option" where
  "first_line h f = (case ReadLines h f of Ok (l # _) \<Rightarrow> Some l | _ \<Rightarrow> None)"

definition dashed :: "string \<Rightarrow> string" where
  "dashed st = take 8 st @ ''-'' @ take 4 (drop 8 st) @ ''-'' @ take 4 (drop 12 st) @ ''-'' @
     take 4 (drop 16 st) @ ''-'' @ take 12 (drop 20 st)"

text \<open>The cases fall through: an unusable file leads to the next one.\<close>

definition hostID_boot :: "host \<Rightarrow> string" where
  "hostID_boot h = (case first_line h (HostProcWithContext h [''sys/kernel/random/boot_id'']) of
     Some l \<Rightarrow> if l \<noteq> [] then to_lower l else [] | None \<Rightarrow> [])"

definition hostID_machine :: "host \<Rightarrow> string" where
  "hostID_machine h = (case first_line h (HostEtcWithContext h [''machine-id'']) of
     Some st \<Rightarrow> if length st = 32 then dashed st else hostID_boot h | None \<Rightarrow> hostID_boot h)"

definition HostIDWithContext :: "host \<Rightarrow> string" where
  "HostIDWithContext h =
     (let sysProductUUID = HostSysWithContext h [''class/dmi/id/product_uuid''];
          machineID = HostEtcWithContext h [''machine-id'']
      in if PathExists h sysProductUUID then
           (case first_line h sysProductUUID of Some l \<Rightarrow> if l \<noteq> [] then to_lower l else hostID_machine h
            | None \<Rightarrow> hostID_machine h)
         else if PathExists h machineID then hostID_machine h
         else hostID_boot h)"

definition UptimeWithContext :: "host \<Rightarrow> u64 result" where
  "UptimeWithContext h = rbind (of_sum (h_sysinfo h)) (\<lambda>info. Ok (word_of_int (si_uptime info)))"

definition KernelVersionWithContext :: "host_env \<Rightarrow> string result" where
  "KernelVersionWithContext env = rbind (of_sum (he_uname env)) (\<lambda>(release, _). Ok release)"

definition KernelArch :: "host_env \<Rightarrow> string result" where
  "KernelArch env = rbind (of_sum (he_uname env)) (\<lambda>(_, machine). Ok machine)"

section \<open>Users\<close>

text \<open>An entry of \<^verbatim>\<open>utmp\<close> has 384 bytes, read as little-endian: the type in bytes 0 and 1, then 2 bytes of
  padding, the pid, the line (32 bytes), an id (4), the user (32), the host (256), the exit status
  (4), the session (4) and the seconds. The record holds the fields the code uses.\<close>

definition sizeOfUtmp :: nat where
  "sizeOfUtmp = 384"

record utmp =
  ut_Type :: int
  ut_Line :: "int list"
  ut_User :: "int list"
  ut_Host :: "int list"
  ut_Sec :: int

definition le_int :: "string \<Rightarrow> int" where
  "le_int bs = wrap_signed (8 * length bs) (foldr (\<lambda>b v. int (of_char b) + 256 * v) bs 0)"

definition int8s :: "string \<Rightarrow> int list" where
  "int8s bs = map (\<lambda>b. wrap_signed 8 (int (of_char b))) bs"

definition read_utmp :: "string \<Rightarrow> utmp" where
  "read_utmp b = \<lparr>ut_Type = le_int (take 2 b), ut_Line = int8s (take 32 (drop 8 b)), ut_User = int8s (take 32 (drop 44 b)),
     ut_Host = int8s (take 256 (drop 76 b)), ut_Sec = le_int (take 4 (drop 340 b))\<rparr>"

definition utmp_user :: "utmp \<Rightarrow> user_stat option" where
  "utmp_user u = (if ut_Type u \<noteq> 7 then None
     else Some \<lparr>u_User = IntToString (ut_User u), u_Terminal = IntToString (ut_Line u), u_Host = IntToString (ut_Host u),
       u_Started = ut_Sec u\<rparr>)"

definition UsersWithContext :: "host \<Rightarrow> user_stat list result" where
  "UsersWithContext h = rbind (ReadFile h (HostVarWithContext h [''run/utmp''])) (\<lambda>buf.
     Ok (List.map_filter (\<lambda>i. utmp_user (read_utmp (take sizeOfUtmp (drop (i * sizeOfUtmp) buf))))
       [0..<length buf div sizeOfUtmp]))"

section \<open>Distribution\<close>

definition no_quotes :: "string \<Rightarrow> string" where
  "no_quotes s = replace_all [CHR 0x22] [] s"

definition lsb_line :: "char \<Rightarrow> string \<Rightarrow> string \<Rightarrow> string \<Rightarrow> string \<Rightarrow> string \<Rightarrow> lsb_struct \<Rightarrow> lsb_struct" where
  "lsb_line sep kID kRelease kCodename kDescription line ret = (case split_char sep line of
     f0 # f1 # _ \<Rightarrow>
       (if f0 = kID then ret\<lparr>lsb_ID := no_quotes f1\<rparr>
        else if f0 = kRelease then ret\<lparr>lsb_Release := no_quotes f1\<rparr>
        else if f0 = kCodename then ret\<lparr>lsb_Codename := no_quotes f1\<rparr>
        else if f0 = kDescription then ret\<lparr>lsb_Description := no_quotes f1\<rparr> else ret)
   | _ \<Rightarrow> ret)"

definition getlsbStruct :: "host \<Rightarrow> lsb_struct result" where
  "getlsbStruct h =
     (let f = HostEtcWithContext h [''lsb-release''] in
      if PathExists h f then
        rbind (ReadLines h f) (\<lambda>contents. Ok (fold
          (lsb_line CHR ''='' ''DISTRIB_ID'' ''DISTRIB_RELEASE'' ''DISTRIB_CODENAME'' ''DISTRIB_DESCRIPTION'') contents empty_lsb))
      else if PathExists h ''/usr/bin/lsb_release'' then
        (case h_command h ''/usr/bin/lsb_release'' [] of
           (out, Some e) \<Rightarrow> Err e
         | (out, None) \<Rightarrow> Ok (fold (lsb_line CHR '':'' ''Distributor ID'' ''Release'' ''Codename'' ''Description'')
             (split_char nl out) empty_lsb))
      else Ok empty_lsb)"

text \<open>The first submatch of a literal followed by a group that starts with a character of one class and
  goes on with characters of another.\<close>

fun match_after :: "string \<Rightarrow> (char \<Rightarrow> bool) \<Rightarrow> (char \<Rightarrow> bool) \<Rightarrow> string \<Rightarrow> string option" where
  "match_after lit start follow [] = None"
| "match_after lit start follow (c # s) =
     (case drop (length lit) (c # s) of
        d # t \<Rightarrow> (if prefix lit (c # s) \<and> start d then Some (d # takeWhile follow t) else match_after lit start follow s)
      | [] \<Rightarrow> match_after lit start follow s)"

definition is_word :: "char \<Rightarrow> bool" where
  "is_word c \<longleftrightarrow> is_digit c \<or> c = CHR ''_'' \<or> (let n = (of_char c :: nat) in 65 \<le> n \<and> n \<le> 90 \<or> 97 \<le> n \<and> n \<le> 122)"

definition is_version :: "char \<Rightarrow> bool" where
  "is_version c \<longleftrightarrow> is_digit c \<or> c = CHR ''.''"

definition getSlackwareVersion :: "string list \<Rightarrow> string" where
  "getSlackwareVersion contents = replace_first ''slackware '' [] (to_lower (join [] contents))"

definition getRedhatishVersion :: "string list \<Rightarrow> string" where
  "getRedhatishVersion contents =
     (let c = to_lower (join [] contents) in
      if str_contains c ''rawhide'' then ''rawhide''
      else case match_after ''release '' is_word is_version c of Some v \<Rightarrow> v | None \<Rightarrow> [])"

definition getRedhatishPlatform :: "string list \<Rightarrow> string" where
  "getRedhatishPlatform contents =
     (let c = to_lower (join [] contents) in
      if str_contains c ''red hat'' then ''redhat'' else hd (split_char CHR '' '' c))"

definition suse_line :: "string \<Rightarrow> string \<Rightarrow> string" where
  "suse_line line version = (case match_after ''VERSION = '' is_version is_version line of
     Some v \<Rightarrow> v
   | None \<Rightarrow> (case match_after ''PATCHLEVEL = '' is_digit is_digit line of
       Some v \<Rightarrow> version @ ''.'' @ v | None \<Rightarrow> version))"

definition getSuseVersion :: "string list \<Rightarrow> string" where
  "getSuseVersion contents = fold suse_line contents []"

definition getSusePlatform :: "string list \<Rightarrow> string" where
  "getSusePlatform contents = (if str_contains (to_lower (join [] contents)) ''opensuse'' then ''opensuse'' else ''suse'')"

text \<open>The platform and the version of a release file, given how its contents are read.\<close>

definition on_contents :: "host \<Rightarrow> string \<Rightarrow> string \<Rightarrow> (string list \<Rightarrow> string \<times> string) \<Rightarrow> string \<times> string" where
  "on_contents h name platform f = (case ReadLines h (HostEtcWithContext h [name]) of Ok contents \<Rightarrow> f contents | _ \<Rightarrow> (platform, []))"

definition first_version :: "string \<Rightarrow> string list \<Rightarrow> string \<times> string" where
  "first_version platform contents = (platform, case contents of l # _ \<Rightarrow> l | [] \<Rightarrow> [])"

definition debian_platform :: "host \<Rightarrow> lsb_struct \<Rightarrow> string \<times> string" where
  "debian_platform h lsb =
     (case map_of [(''Ubuntu'', ''ubuntu''), (''LinuxMint'', ''linuxmint''), (''Kylin'', ''Kylin''),
         (CHR 0x22 # ''Cumulus Linux'' @ [CHR 0x22], ''cumuluslinux''), (''uos'', ''uos''), (''Deepin'', ''Deepin'')] (lsb_ID lsb) of
        Some platform \<Rightarrow> (platform, lsb_Release lsb)
      | None \<Rightarrow>
          (let platform = (if PathExistsWithContents h ''/usr/bin/raspi-config'' then ''raspbian'' else ''debian'')
           in on_contents h ''debian_version'' platform (first_version platform)))"

definition redhatish :: "string list \<Rightarrow> string \<times> string" where
  "redhatish contents = (getRedhatishPlatform contents, getRedhatishVersion contents)"

definition lsb_platform :: "lsb_struct \<Rightarrow> string \<times> string" where
  "lsb_platform lsb =
     (case map_of [(''RedHat'', ''redhat''), (''Amazon'', ''amazon''), (''ScientificSL'', ''scientific''), (''XenServer'', ''xenserver'')]
         (lsb_ID lsb) of
        Some platform \<Rightarrow> (platform, lsb_Release lsb)
      | None \<Rightarrow> if lsb_ID lsb \<noteq> [] then (to_lower (lsb_ID lsb), lsb_Release lsb) else ([], []))"

definition detect_platform :: "host \<Rightarrow> lsb_struct \<Rightarrow> string \<times> string" where
  "detect_platform h lsb =
     (let has = (\<lambda>name. PathExistsWithContents h (HostEtcWithContext h [name])) in
      if has ''oracle-release'' then
        on_contents h ''oracle-release'' ''oracle'' (\<lambda>c. (''oracle'', getRedhatishVersion c))
      else if has ''enterprise-release'' then
        on_contents h ''enterprise-release'' ''oracle'' (\<lambda>c. (''oracle'', getRedhatishVersion c))
      else if has ''slackware-version'' then
        on_contents h ''slackware-version'' ''slackware'' (\<lambda>c. (''slackware'', getSlackwareVersion c))
      else if has ''debian_version'' then debian_platform h lsb
      else if has ''neokylin-release'' then on_contents h ''neokylin-release'' [] redhatish
      else if has ''redhat-release'' then on_contents h ''redhat-release'' [] redhatish
      else if has ''system-release'' then on_contents h ''system-release'' [] redhatish
      else if has ''gentoo-release'' then
        on_contents h ''gentoo-release'' ''gentoo'' (\<lambda>c. (''gentoo'', getRedhatishVersion c))
      else if has ''SuSE-release'' then
        on_contents h ''SuSE-release'' [] (\<lambda>c. (getSusePlatform c, getSuseVersion c))
      else if has ''arch-release'' then (''arch'', lsb_Release lsb)
      else if has ''alpine-release'' then on_contents h ''alpine-release'' ''alpine'' (first_version ''alpine'')
      else if has ''os-release'' then GetOSReleaseWithContext h
      else lsb_platform lsb)"

definition families :: "(string list \<times> string) list" where
  "families =
     [([''debian'', ''ubuntu'', ''linuxmint'', ''raspbian'', ''Kylin'', ''cumuluslinux'', ''uos'', ''Deepin''], ''debian''),
      ([''fedora''], ''fedora''),
      ([''oracle'', ''centos'', ''redhat'', ''scientific'', ''enterpriseenterprise'', ''amazon'', ''xenserver'', ''cloudlinux'',
        ''ibm_powerkvm'', ''rocky'', ''almalinux''], ''rhel''),
      ([''suse'', ''opensuse'', ''opensuse-leap'', ''opensuse-tumbleweed'', ''opensuse-tumbleweed-kubic'', ''sles'', ''sled'', ''caasp''], ''suse''),
      ([''gentoo''], ''gentoo''), ([''slackware''], ''slackware''), ([''arch''], ''arch''), ([''exherbo''], ''exherbo''),
      ([''alpine''], ''alpine''), ([''coreos''], ''coreos''), ([''solus''], ''solus''), ([''neokylin''], ''neokylin''),
      ([''anolis''], ''anolis''), ([''nixos''], ''nixos'')]"

definition family_of :: "string \<Rightarrow> string" where
  "family_of platform = (case find (\<lambda>(ps, _). platform \<in> set ps) families of Some (_, family) \<Rightarrow> family | None \<Rightarrow> [])"

text \<open>Platform, family and version; there is never an error.\<close>

definition PlatformInformationWithContext :: "host \<Rightarrow> string \<times> string \<times> string" where
  "PlatformInformationWithContext h =
     (let lsb = (case getlsbStruct h of Ok l \<Rightarrow> l | _ \<Rightarrow> empty_lsb) in
      case detect_platform h lsb of (platform, version) \<Rightarrow>
        let platform = trim_set [CHR 0x22] platform in (platform, family_of platform, version))"

section \<open>Summary\<close>

text \<open>A value with the error of its reader; what is not implemented is no error.\<close>

definition info_error :: "string \<Rightarrow> 'a result \<Rightarrow> gerr list" where
  "info_error what r = (case r of Err e \<Rightarrow> if err_is e ErrNotImplemented then [] else [ErrWrap (''getting '' @ what) e] | _ \<Rightarrow> [])"

definition value_or :: "'a \<Rightarrow> 'a result \<Rightarrow> 'a" where
  "value_or d r = (case r of Ok v \<Rightarrow> v | _ \<Rightarrow> d)"

text \<open>\<open>Inl\<close> holds the errors that \<^verbatim>\<open>errors.Join\<close> puts together. The boot time is the only reader that can
  panic.\<close>

definition host_InfoWithContext :: "host_env \<Rightarrow> caches \<Rightarrow> (gerr list + host_info_stat) result \<times> caches" where
  "host_InfoWithContext env c =
     (let h = he_host env; hostname = of_sum (he_hostname env); kernelVersion = KernelVersionWithContext env;
          kernelArch = KernelArch env
      in case PlatformInformationWithContext h of (platform, family, version) \<Rightarrow>
         case VirtualizationWithContext h (c_virt c) of ((system, role), virt) \<Rightarrow>
         case BootTimeWithContext h (he_bootCache env) (c\<lparr>c_virt := virt\<rparr>) of (bootTime, c') \<Rightarrow>
           let uptime = UptimeWithContext h; procs = NumProcsWithContext h;
               errs = info_error ''hostname'' hostname @ info_error ''kernel version'' kernelVersion @
                 info_error ''kernel architecture'' kernelArch @ info_error ''boot time'' bootTime @
                 info_error ''uptime'' uptime @ info_error ''number of procs'' procs
           in (if bootTime = Panic then Panic
               else if errs \<noteq> [] then Ok (Inl errs)
               else Ok (Inr \<lparr>hi_Hostname = value_or [] hostname, hi_Uptime = value_or 0 uptime,
                 hi_BootTime = value_or 0 bootTime, hi_Procs = value_or 0 procs, hi_OS = ''linux'', hi_Platform = platform,
                 hi_PlatformFamily = family, hi_PlatformVersion = version,
                 hi_KernelVersion = value_or [] kernelVersion, hi_KernelArch = value_or [] kernelArch,
                 hi_VirtualizationSystem = system, hi_VirtualizationRole = role, hi_HostID = HostIDWithContext h\<rparr>), c'))"

section \<open>The entries of utmp\<close>

text \<open>An entry as \<^verbatim>\<open>login\<close> writes it; the bytes in between are arbitrary.\<close>

record utmp_entry =
  ue_type :: int
  ue_line :: string
  ue_user :: string
  ue_host :: string
  ue_sec :: int
  ue_between :: "string \<times> string \<times> string \<times> string"

fun le_bytes :: "nat \<Rightarrow> int \<Rightarrow> string" where
  "le_bytes 0 v = []"
| "le_bytes (Suc n) v = char_of (nat (v mod 256)) # le_bytes n (v div 256)"

definition nul_padded :: "nat \<Rightarrow> string \<Rightarrow> string" where
  "nul_padded n s = s @ replicate (n - length s) (CHR 0x00)"

definition utmp_bytes :: "utmp_entry \<Rightarrow> string" where
  "utmp_bytes e = (case ue_between e of (b1, b2, b3, b4) \<Rightarrow>
     le_bytes 2 (ue_type e) @ b1 @ nul_padded 32 (ue_line e) @ b2 @ nul_padded 32 (ue_user e) @
     nul_padded 256 (ue_host e) @ b3 @ le_bytes 4 (ue_sec e) @ b4)"

definition utmp_entry_ok :: "utmp_entry \<Rightarrow> bool" where
  "utmp_entry_ok e \<longleftrightarrow> (case ue_between e of (b1, b2, b3, b4) \<Rightarrow>
       length b1 = 6 \<and> length b2 = 4 \<and> length b3 = 8 \<and> length b4 = 40) \<and>
     - (2 ^ 15) \<le> ue_type e \<and> ue_type e < 2 ^ 15 \<and> - (2 ^ 31) \<le> ue_sec e \<and> ue_sec e < 2 ^ 31 \<and>
     length (ue_line e) \<le> 32 \<and> length (ue_user e) \<le> 32 \<and> length (ue_host e) \<le> 256 \<and>
     CHR 0x00 \<notin> set (ue_line e @ ue_user e @ ue_host e)"

definition utmp_meaning :: "utmp_entry \<Rightarrow> user_stat" where
  "utmp_meaning e = \<lparr>u_User = ue_user e, u_Terminal = ue_line e, u_Host = ue_host e, u_Started = ue_sec e\<rparr>"

lemma length_le_bytes [simp]: "length (le_bytes n v) = n"
  by (induction n arbitrary: v) simp_all

lemma le_bytes_value: "foldr (\<lambda>b v. int (of_char b) + 256 * v) (le_bytes n v) 0 = v mod 256 ^ n"
proof (induction n arbitrary: v)
  case (Suc n)
  have "v mod (256 * 256 ^ n) = 256 * (v div 256 mod 256 ^ n) + v mod 256" by (rule zmod_zmult2_eq) simp
  with Suc show ?case by (simp add: of_char_of)
qed simp

lemma le_int_bytes:
  assumes "0 < n" and "- (2 ^ (8 * n - 1)) \<le> v" and "v < 2 ^ (8 * n - 1)"
  shows "le_int (le_bytes n v) = v"
proof -
  have "(256 :: int) ^ n = 2 ^ (8 * n)" by (simp add: power_mult)
  then have "le_int (le_bytes n v) = wrap_signed (8 * n) (v mod 2 ^ (8 * n))" by (simp add: le_int_def le_bytes_value)
  also have "\<dots> = wrap_signed (8 * n) v" by (rule wrap_signed_mod)
  also have "\<dots> = v" by (rule wrap_signed_id) (use assms in simp_all)
  finally show ?thesis .
qed

lemma int8_char: "char_of (nat (wrap_signed 8 (int (of_char b)) mod 256)) = b" (is "?l = b")
  "wrap_signed 8 (int (of_char b)) = 0 \<longleftrightarrow> b = CHR 0x00"
proof -
  have m: "wrap_signed 8 x mod 256 = x mod 256" for x
    by (simp add: wrap_signed_def mod_simps)
  have lt: "(of_char b :: nat) < 256" by simp
  then have small: "wrap_signed 8 (int (of_char b)) mod 256 = int (of_char b)" unfolding m by simp
  then show "?l = b" by simp
  have "wrap_signed 8 (int (of_char b)) = 0 \<longleftrightarrow> (of_char b :: nat) = 0"
    using lt small by (auto simp: wrap_signed_def)
  also have "\<dots> \<longleftrightarrow> b = CHR 0x00"
  proof -
    have "(of_char (CHR 0x00) :: nat) = 0" by simp
    then show ?thesis by (metis char_of_char)
  qed
  finally show "wrap_signed 8 (int (of_char b)) = 0 \<longleftrightarrow> b = CHR 0x00" .
qed

lemma IntToString_padded:
  assumes "CHR 0x00 \<notin> set s"
  shows "IntToString (int8s (nul_padded n s)) = s"
proof -
  have nul: "IntToString (int8s (replicate k (CHR 0x00))) = []" for k
    by (cases k) (simp_all add: int8s_def wrap_signed_def)
  show ?thesis
    using assms
  proof (induction s arbitrary: n)
    case (Cons a s)
    then show ?case using Cons.IH [of "n - 1"] by (auto simp: nul_padded_def int8s_def int8_char)
  qed (simp add: nul_padded_def nul)
qed

lemma read_utmp_bytes:
  assumes "utmp_entry_ok e"
  shows "length (utmp_bytes e) = sizeOfUtmp"
    and "utmp_user (read_utmp (utmp_bytes e)) = (if ue_type e = 7 then Some (utmp_meaning e) else None)"
proof -
  obtain b1 b2 b3 b4 where b: "ue_between e = (b1, b2, b3, b4)" by (cases "ue_between e")
  have len: "length b1 = 6" "length b2 = 4" "length b3 = 8" "length b4 = 40" and
    ok: "length (ue_line e) \<le> 32" "length (ue_user e) \<le> 32" "length (ue_host e) \<le> 256"
      "CHR 0x00 \<notin> set (ue_line e)" "CHR 0x00 \<notin> set (ue_user e)" "CHR 0x00 \<notin> set (ue_host e)"
    using assms by (auto simp: utmp_entry_ok_def b)
  have pad: "length (nul_padded n x) = n" if "length x \<le> n" for n x using that by (simp add: nul_padded_def)
  note pads = pad [OF ok(1)] pad [OF ok(2)] pad [OF ok(3)]
  show "length (utmp_bytes e) = sizeOfUtmp"
    using len pads by (simp add: utmp_bytes_def b sizeOfUtmp_def)
  have t: "le_int (le_bytes 2 (ue_type e)) = ue_type e" "le_int (le_bytes 4 (ue_sec e)) = ue_sec e"
    using assms by (auto simp: utmp_entry_ok_def intro!: le_int_bytes)
  have "take 2 (utmp_bytes e) = le_bytes 2 (ue_type e)" "take 32 (drop 8 (utmp_bytes e)) = nul_padded 32 (ue_line e)"
    "take 32 (drop 44 (utmp_bytes e)) = nul_padded 32 (ue_user e)" "take 256 (drop 76 (utmp_bytes e)) = nul_padded 256 (ue_host e)"
    "take 4 (drop 340 (utmp_bytes e)) = le_bytes 4 (ue_sec e)"
    using len pads by (simp_all add: utmp_bytes_def b)
  then show "utmp_user (read_utmp (utmp_bytes e)) = (if ue_type e = 7 then Some (utmp_meaning e) else None)"
    by (simp add: read_utmp_def utmp_user_def t IntToString_padded ok utmp_meaning_def)
qed

lemma chunk_concat:
  assumes "\<And>x. x \<in> set xs \<Longrightarrow> length (f x) = k" and "i < length xs"
  shows "take k (drop (i * k) (concat (map f xs) @ tail)) = f (xs ! i)"
  using assms
proof (induction xs arbitrary: i)
  case (Cons x xs)
  show ?case
  proof (cases i)
    case (Suc j)
    with Cons.prems have "drop (i * k) (concat (map f (x # xs)) @ tail) = drop (j * k) (concat (map f xs) @ tail)" by simp
    with Cons Suc show ?thesis by simp
  qed (use Cons.prems in simp)
qed simp

text \<open>C37: \<^verbatim>\<open>Users\<close> returns the user, terminal, host and login time of exactly the entries of type 7 of
  \<^verbatim>\<open>utmp\<close>, in order, whatever the unused bytes hold; an incomplete last entry is ignored.\<close>

theorem Users_roundtrip:
  assumes "ReadFile h (HostVarWithContext h [''run/utmp'']) = Ok (concat (map utmp_bytes es) @ tail)"
    and "list_all utmp_entry_ok es" and "length tail < sizeOfUtmp"
  shows "UsersWithContext h = Ok (map utmp_meaning (filter (\<lambda>e. ue_type e = 7) es))"
proof -
  have ok: "utmp_entry_ok e" if "e \<in> set es" for e using assms(2) that by (simp add: list_all_iff)
  have "length (concat (map utmp_bytes es)) = length es * sizeOfUtmp"
    using ok read_utmp_bytes(1) by (induction es) simp_all
  then have n: "length (concat (map utmp_bytes es) @ tail) div sizeOfUtmp = length es"
    using assms(3) by (simp add: sizeOfUtmp_def)
  let ?f = "\<lambda>i. utmp_user (read_utmp (take sizeOfUtmp (drop (i * sizeOfUtmp) (concat (map utmp_bytes es) @ tail))))"
  have "?f i = (if ue_type (es ! i) = 7 then Some (utmp_meaning (es ! i)) else None)" if "i < length es" for i
    using that ok read_utmp_bytes chunk_concat [of es utmp_bytes sizeOfUtmp i tail] by simp
  then have "List.map_filter ?f [0..<length es] =
      List.map_filter (\<lambda>i. if ue_type (es ! i) = 7 then Some (utmp_meaning (es ! i)) else None) [0..<length es]"
    by (auto simp: List.map_filter_def intro!: map_cong filter_cong split: if_splits)
  also have "\<dots> = List.map_filter (\<lambda>e. if ue_type e = 7 then Some (utmp_meaning e) else None) (map ((!) es) [0..<length es])"
    by (simp add: List.map_filter_def filter_map comp_def)
  also have "\<dots> = map utmp_meaning (filter (\<lambda>e. ue_type e = 7) es)"
    unfolding map_nth by (induction es) simp_all
  finally show ?thesis using assms(1) n by (simp add: UsersWithContext_def)
qed

section \<open>Identity and distribution\<close>

definition utmp_entries :: "utmp_entry list" where
  "utmp_entries =
     [\<lparr>ue_type = 2, ue_line = ''~'', ue_user = ''reboot'', ue_host = ''6.1'', ue_sec = 5,
        ue_between = (''......'', ''~~..'', ''........'', replicate 40 (CHR ''.''))\<rparr>,
      \<lparr>ue_type = 7, ue_line = ''pts/0'', ue_user = ''root'', ue_host = ''10.0.0.1'', ue_sec = 9,
        ue_between = (''......'', ''ts/0'', ''........'', replicate 40 (CHR ''.''))\<rparr>]"

definition utmp_host :: host where
  "utmp_host = with_files [(''/var/run/utmp'', concat (map utmp_bytes utmp_entries) @ ''xyz'')]"

theorem Users_roundtrip_witness:
  "UsersWithContext utmp_host = Ok [\<lparr>u_User = ''root'', u_Terminal = ''pts/0'', u_Host = ''10.0.0.1'', u_Started = 9\<rparr>]"
proof -
  have p: "HostVarWithContext utmp_host [''run/utmp''] = ''/var/run/utmp''" by code_simp
  have "ReadFile utmp_host (HostVarWithContext utmp_host [''run/utmp'']) = Ok (concat (map utmp_bytes utmp_entries) @ ''xyz'')"
    unfolding p by (simp add: utmp_host_def with_files_def ReadFile_def)
  moreover have "list_all utmp_entry_ok utmp_entries" by (simp add: utmp_entries_def utmp_entry_ok_def)
  ultimately have "UsersWithContext utmp_host = Ok (map utmp_meaning (filter (\<lambda>e. ue_type e = 7) utmp_entries))"
    by (rule Users_roundtrip) (simp add: sizeOfUtmp_def)
  then show ?thesis by (simp add: utmp_entries_def utmp_meaning_def)
qed

text \<open>On a machine without a product UUID file, a machine id of 32 characters is returned in the
  form of a UUID: without the four dashes it is the id.\<close>

theorem HostID_machine:
  assumes "\<not> PathExists h (HostSysWithContext h [''class/dmi/id/product_uuid''])"
    and "PathExists h (HostEtcWithContext h [''machine-id''])"
    and "ReadLines h (HostEtcWithContext h [''machine-id'']) = Ok (i # rest)" and "length i = 32" and "CHR ''-'' \<notin> set i"
  shows "length (HostIDWithContext h) = 36 \<and> filter (\<lambda>c. c \<noteq> CHR ''-'') (HostIDWithContext h) = i"
proof -
  have id: "HostIDWithContext h = dashed i"
    using assms(1-4) by (simp add: HostIDWithContext_def hostID_machine_def first_line_def)
  have f: "filter (\<lambda>c. c \<noteq> CHR ''-'') x = x" if "set x \<subseteq> set i" for x
    using that assms(5) by (auto simp: filter_id_conv)
  have sub: "set (take n (drop m i)) \<subseteq> set i" "set (take n i) \<subseteq> set i" for n m
    by (auto dest: in_set_takeD in_set_dropD)
  have "filter (\<lambda>c. c \<noteq> CHR ''-'') (dashed i) = take 8 i @ take 4 (drop 8 i) @ take 4 (drop 12 i) @ take 4 (drop 16 i) @ take 12 (drop 20 i)"
    by (simp add: dashed_def f sub)
  also have "\<dots> = take 8 i @ take (4 + (4 + (4 + 12))) (drop 8 i)"
    by (simp only: take_add drop_drop) simp
  also have "\<dots> = take (8 + (4 + (4 + (4 + 12)))) i" by (simp only: take_add)
  finally show ?thesis using assms(4) by (simp add: id dashed_def)
qed

definition machine_host :: host where
  "machine_host = with_files [(''/etc/machine-id'', ''0123456789abcdef0123456789abcdef'' @ [nl])]"

theorem HostID_machine_witness:
  "length (HostIDWithContext machine_host) = 36 \<and>
   filter (\<lambda>c. c \<noteq> CHR ''-'') (HostIDWithContext machine_host) = ''0123456789abcdef0123456789abcdef''"
proof (rule HostID_machine)
  show "\<not> PathExists machine_host (HostSysWithContext machine_host [''class/dmi/id/product_uuid''])" by code_simp
  show "PathExists machine_host (HostEtcWithContext machine_host [''machine-id''])" by code_simp
  show "ReadLines machine_host (HostEtcWithContext machine_host [''machine-id'']) = Ok (''0123456789abcdef0123456789abcdef'' # [])"
    by code_simp
qed simp_all

lemma no_quotes_clean: "CHR 0x22 \<notin> set (no_quotes s)"
  unfolding no_quotes_def
proof (induction "[CHR 0x22]" "[] :: string" s rule: replace_all.induct)
  case (1 s)
  then show ?case by (cases s; subst replace_all.simps) auto
qed

lemma lsb_line_clean: "CHR 0x22 \<notin> set (lsb_ID l) \<Longrightarrow> CHR 0x22 \<notin> set (lsb_ID (lsb_line sep a b c d line l))"
  by (simp add: lsb_line_def no_quotes_clean split: list.splits)

text \<open>Cumulus Linux is never recognised in the Debian branch: its case compares with a name in quotes,
  and the names of \<^verbatim>\<open>lsb-release\<close> have lost their quotes.\<close>

theorem Cumulus_not_detected:
  assumes "getlsbStruct h = Ok lsb"
  shows "fst (debian_platform h lsb) \<noteq> ''cumuluslinux''"
proof -
  have "CHR 0x22 \<notin> set (lsb_ID (fold (lsb_line sep a b c d) ls l))" if "CHR 0x22 \<notin> set (lsb_ID l)" for ls l sep a b c d
    using that by (induction ls arbitrary: l) (simp_all add: lsb_line_clean)
  then have "CHR 0x22 \<notin> set (lsb_ID lsb)"
    using assms by (auto simp: getlsbStruct_def Let_def outcome_iff empty_lsb_def split: if_splits prod.splits option.splits)
  then have "lsb_ID lsb \<noteq> CHR 0x22 # ''Cumulus Linux'' @ [CHR 0x22]" by auto
  then show ?thesis
    by (auto simp: debian_platform_def on_contents_def first_version_def Let_def split: option.splits result.splits if_splits)
qed

theorem Cumulus_not_detected_witness:
  "getlsbStruct (with_files [(''/etc/lsb-release'', ''DISTRIB_ID='' @ quote ''Cumulus Linux'' @ [nl])]) =
     Ok (empty_lsb\<lparr>lsb_ID := ''Cumulus Linux''\<rparr>) \<and>
   fst (debian_platform (with_files [(''/etc/lsb-release'', ''DISTRIB_ID='' @ quote ''Cumulus Linux'' @ [nl])])
     (empty_lsb\<lparr>lsb_ID := ''Cumulus Linux''\<rparr>)) \<noteq> ''cumuluslinux''"
proof -
  have "getlsbStruct (with_files [(''/etc/lsb-release'', ''DISTRIB_ID='' @ quote ''Cumulus Linux'' @ [nl])]) =
     Ok (empty_lsb\<lparr>lsb_ID := ''Cumulus Linux''\<rparr>)"
    by code_simp
  with Cumulus_not_detected show ?thesis by blast
qed

end
