(* ===== verification/Sensors_Linux.thy ===== *)
theory Sensors_Linux
  imports Common_Warnings
begin

text \<open>
  Package \<^verbatim>\<open>sensors\<close> on Linux (\<^verbatim>\<open>sensors.go\<close>, \<^verbatim>\<open>sensors_linux.go\<close>, \<^verbatim>\<open>ex_linux.go\<close>): the temperatures of
  the \<^verbatim>\<open>hwmon\<close> devices, or of the thermal zones when there is no such device. A sensor that cannot be
  read is reported as a warning beside the readings of the others.
\<close>

record temperature_stat =
  t_SensorKey :: string
  t_Temperature :: float64
  t_High :: float64
  t_Critical :: float64

record ex_temperature =
  x_SensorKey :: string
  x_Min :: float64
  x_Lowest :: float64
  x_Highest :: float64

definition hostTemperatureScale :: float64 where
  "hostTemperatureScale = f_of_nat 1000"

definition getTemperatureFiles :: "host \<Rightarrow> string list result" where
  "getTemperatureFiles h =
     rbind (of_sum (h_glob h (HostSysWithContext h [''/class/hwmon/hwmon*/temp*_input'']))) (\<lambda>files.
       if files = [] then of_sum (h_glob h (HostSysWithContext h [''/class/hwmon/hwmon*/device/temp*_input'']))
       else Ok files)"

definition optionalValueReadFromFile :: "host \<Rightarrow> string \<Rightarrow> float64" where
  "optionalValueReadFromFile h filename =
     (if (case h_stat h filename of Inl e \<Rightarrow> is_not_exist e | Inr _ \<Rightarrow> False) then 0
      else case ReadFile h filename of
        Ok raw \<Rightarrow> (case parse_f64 (trim_space raw) of Ok value \<Rightarrow> value | _ \<Rightarrow> 0)
      | _ \<Rightarrow> 0)"

text \<open>\<^verbatim>\<open>raw, _ = os.ReadFile(f)\<close>: the bytes read before a possible error.\<close>

definition read_raw :: "host \<Rightarrow> string \<Rightarrow> string" where
  "read_raw h filename = (case h_open h filename of Inr (d, _) \<Rightarrow> d | Inl _ \<Rightarrow> [])"

text \<open>The path of a sensor without its suffix, \<^verbatim>\<open><dir>/temp1\<close>, and the key of a sensor: the name of the device and its
  label, if it has one.\<close>

definition basepath :: "string \<Rightarrow> string" where
  "basepath filename = path_join [path_dir filename, hd (split_char (CHR ''_'') (path_base filename))]"

definition sensor_label :: "host \<Rightarrow> string \<Rightarrow> string" where
  "sensor_label h filename =
     (let raw = read_raw h (basepath filename @ ''_label'')
      in if raw \<noteq> [] then join ''_'' (split_char (CHR '' '') (trim_space (to_lower raw))) else [])"

definition sensor_key :: "host \<Rightarrow> string \<Rightarrow> string result" where
  "sensor_key h filename =
     (let label = sensor_label h filename
      in rbind (ReadFile h (path_join [path_dir filename, ''name''])) (\<lambda>raw.
         let name = trim_space raw in Ok (if label \<noteq> [] then name @ ''_'' @ label else name)))"

text \<open>One iteration of each of the three loops.\<close>

definition hwmon_reading :: "host \<Rightarrow> string \<Rightarrow> temperature_stat result" where
  "hwmon_reading h filename =
     rbind (sensor_key h filename) (\<lambda>name.
     rbind (ReadFile h filename) (\<lambda>raw.
     rbind (parse_f64 (trim_space raw)) (\<lambda>temperature.
       Ok \<lparr>t_SensorKey = name, t_Temperature = temperature / hostTemperatureScale,
           t_High = optionalValueReadFromFile h (basepath filename @ ''_max'') / hostTemperatureScale,
           t_Critical = optionalValueReadFromFile h (basepath filename @ ''_crit'') / hostTemperatureScale\<rparr>)))"

definition zone_reading :: "host \<Rightarrow> string \<Rightarrow> temperature_stat result" where
  "zone_reading h filename =
     rbind (ReadFile h (path_join [filename, ''type''])) (\<lambda>name.
     rbind (ReadFile h (path_join [filename, ''temp''])) (\<lambda>current.
     rbind (parse_i64 (trim_space current)) (\<lambda>temperature.
       Ok \<lparr>t_SensorKey = trim_space name, t_Temperature = f_of_int temperature / f_of_nat 1000,
           t_High = 0, t_Critical = 0\<rparr>)))"

definition ex_reading :: "host \<Rightarrow> string \<Rightarrow> ex_temperature result" where
  "ex_reading h filename =
     rbind (sensor_key h filename) (\<lambda>name.
       Ok \<lparr>x_SensorKey = name,
           x_Min = optionalValueReadFromFile h (basepath filename @ ''_min'') / hostTemperatureScale,
           x_Lowest = optionalValueReadFromFile h (basepath filename @ ''_lowest'') / hostTemperatureScale,
           x_Highest = optionalValueReadFromFile h (basepath filename @ ''_highest'') / hostTemperatureScale\<rparr>)"

text \<open>The loop over the files: a reading is appended, an error is added to the warnings.\<close>

fun reading_loop :: "(string \<Rightarrow> 'a result) \<Rightarrow> string list \<Rightarrow> 'a list \<Rightarrow> warnings \<Rightarrow> ('a list \<times> warnings option) result" where
  "reading_loop reading [] temperatures warns = Ok (temperatures, Warnings_Reference warns)"
| "reading_loop reading (filename # files) temperatures warns = (case reading filename of
       Ok t \<Rightarrow> reading_loop reading files (temperatures @ [t]) warns
     | Err e \<Rightarrow> reading_loop reading files temperatures (Warnings_Add e warns)
     | Panic \<Rightarrow> Panic)"

definition TemperaturesWithContext :: "host \<Rightarrow> (temperature_stat list \<times> warnings option) result" where
  "TemperaturesWithContext h = (case getTemperatureFiles h of
       Ok files \<Rightarrow>
         if files = [] then
           rbind (of_sum (h_glob h (HostSysWithContext h [''/class/thermal/thermal_zone*/'']))) (\<lambda>zones.
             reading_loop (zone_reading h) zones [] (new_warnings False))
         else reading_loop (hwmon_reading h) files [] (new_warnings False)
     | Err e \<Rightarrow> Err (ErrWrap ''failed to get temperature files, '' e)
     | Panic \<Rightarrow> Panic)"

definition ex_TemperatureWithContext :: "host \<Rightarrow> (ex_temperature list \<times> warnings option) result" where
  "ex_TemperatureWithContext h = (case getTemperatureFiles h of
       Ok files \<Rightarrow> reading_loop (ex_reading h) files [] (new_warnings False)
     | Err e \<Rightarrow> Err (ErrWrap ''failed to get temperature files, '' e)
     | Panic \<Rightarrow> Panic)"

section \<open>The loop splits readings from errors\<close>

primrec ok_of :: "'a result \<Rightarrow> 'a option" where
  "ok_of (Ok x) = Some x"
| "ok_of (Err e) = None"
| "ok_of Panic = None"

primrec err_of :: "'a result \<Rightarrow> gerr option" where
  "err_of (Ok x) = None"
| "err_of (Err e) = Some e"
| "err_of Panic = None"

abbreviation readings :: "(string \<Rightarrow> 'a result) \<Rightarrow> string list \<Rightarrow> 'a list" where
  "readings reading files \<equiv> List.map_filter (\<lambda>f. ok_of (reading f)) files"

abbreviation reading_errors :: "(string \<Rightarrow> 'a result) \<Rightarrow> string list \<Rightarrow> gerr list" where
  "reading_errors reading files \<equiv> List.map_filter (\<lambda>f. err_of (reading f)) files"

text \<open>What the loops rely on: an iteration reads or fails, it never panics.\<close>

locale reader =
  fixes reading :: "string \<Rightarrow> 'a result"
  assumes no_panic: "reading f \<noteq> Panic"
begin

lemma loop_eq:
  "reading_loop reading files ts w =
    Ok (ts @ readings reading files, Warnings_Reference (fold Warnings_Add (reading_errors reading files) w))"
proof (induction files arbitrary: ts w)
  case (Cons f files)
  then show ?case using no_panic [of f] by (cases "reading f") simp_all
qed simp

lemma complete: "length (readings reading files) + length (reading_errors reading files) = length files"
proof (induction files)
  case (Cons f files)
  then show ?case using no_panic [of f] by (cases "reading f") simp_all
qed simp

lemma outcome:
  "\<exists>ts w. reading_loop reading files [] (new_warnings v) = Ok (ts, w) \<and> ts = readings reading files \<and>
     (w = None) = (length ts = length files) \<and>
     map_option w_list w = (if length ts = length files then None else Some (take maxWarnings (reading_errors reading files)))"
  using complete [of files]
  by (auto simp: loop_eq fold_Add_state new_warnings_def Warnings_Reference_def maxWarnings_def)

end

lemma parse_not_panic [simp]: "parse_f64 s \<noteq> Panic" "parse_i64 s \<noteq> Panic"
  by (simp_all add: parse_f64_def parse_i64_def split: prod.splits option.splits)

lemma ReadFile_not_panic [simp]: "ReadFile h f \<noteq> Panic"
  by (simp add: ReadFile_def split: sum.splits prod.splits option.splits)

lemma reading_not_panic:
  "sensor_key h f \<noteq> Panic" "hwmon_reading h f \<noteq> Panic" "zone_reading h f \<noteq> Panic" "ex_reading h f \<noteq> Panic"
proof -
  show k: "sensor_key h f \<noteq> Panic" by (auto simp: sensor_key_def Let_def outcome_iff)
  from k show "hwmon_reading h f \<noteq> Panic" "ex_reading h f \<noteq> Panic"
    by (auto simp: hwmon_reading_def ex_reading_def outcome_iff)
  show "zone_reading h f \<noteq> Panic" by (auto simp: zone_reading_def outcome_iff)
qed

interpretation hwmon: reader "hwmon_reading h" for h
  by unfold_locales (rule reading_not_panic)

interpretation zone: reader "zone_reading h" for h
  by unfold_locales (rule reading_not_panic)

interpretation extremes: reader "ex_reading h" for h
  by unfold_locales (rule reading_not_panic)

section \<open>Properties\<close>

text \<open>The sensors a call reads: the \<^verbatim>\<open>hwmon\<close> inputs, or the thermal zones when there are none.\<close>

definition sensor_source :: "host \<Rightarrow> string list \<Rightarrow> string list \<Rightarrow> temperature_stat result list" where
  "sensor_source h files zones = (if files = [] then map (zone_reading h) zones else map (hwmon_reading h) files)"

lemma map_filter_map: "List.map_filter f (map g xs) = List.map_filter (\<lambda>x. f (g x)) xs"
  by (induction xs) (simp_all split: option.splits)

text \<open>C38: \<^verbatim>\<open>TemperaturesWithContext\<close> loses no sensor: it returns the readings of all sensors that can be read, in
  order, and a nil error exactly when these are all sensors; otherwise the error holds the first hundred errors of the others.\<close>

theorem Temperatures_complete:
  assumes "getTemperatureFiles h = Ok files"
    and "h_glob h (HostSysWithContext h [''/class/thermal/thermal_zone*/'']) = Inr zones"
  shows "\<exists>ts w. TemperaturesWithContext h = Ok (ts, w) \<and>
    ts = List.map_filter ok_of (sensor_source h files zones) \<and>
    (w = None) = (length ts = length (sensor_source h files zones)) \<and>
    map_option w_list w = (if length ts = length (sensor_source h files zones) then None
      else Some (take maxWarnings (List.map_filter err_of (sensor_source h files zones))))"
  using assms hwmon.outcome [of h files False] zone.outcome [of h zones False]
  by (cases "files = []") (simp_all only: TemperaturesWithContext_def sensor_source_def map_filter_map
      length_map result.simps of_sum.simps rbind.simps if_True if_False simp_thms)

definition sensor_host :: host where
  "sensor_host = with_files
     [(''/sys/class/hwmon/hwmon0/temp1_input'', ''42000'' @ [nl]), (''/sys/class/hwmon/hwmon0/temp1_label'', ''Core 0'' @ [nl]),
      (''/sys/class/hwmon/hwmon0/name'', ''coretemp'' @ [nl])]
     \<lparr>h_glob := (\<lambda>p. if p = ''/sys/class/hwmon/hwmon*/temp*_input''
        then Inr [''/sys/class/hwmon/hwmon0/temp1_input'', ''/sys/class/hwmon/hwmon0/temp2_input''] else Inr [])\<rparr>"

lemma sensor_host_files:
  "getTemperatureFiles sensor_host =
     Ok [''/sys/class/hwmon/hwmon0/temp1_input'', ''/sys/class/hwmon/hwmon0/temp2_input'']"
  "h_glob sensor_host (HostSysWithContext sensor_host [''/class/thermal/thermal_zone*/'']) = Inr []"
  by code_simp+

lemma sensor_host_readings:
  "map_option t_SensorKey (ok_of (hwmon_reading sensor_host ''/sys/class/hwmon/hwmon0/temp1_input'')) = Some ''coretemp_core_0''"
  "hwmon_reading sensor_host ''/sys/class/hwmon/hwmon0/temp2_input'' = Err ENOENT"
  by code_simp+

theorem Temperatures_complete_witness:
  "\<exists>t w. TemperaturesWithContext sensor_host = Ok ([t], Some w) \<and> t_SensorKey t = ''coretemp_core_0'' \<and> w_list w = [ENOENT]"
proof -
  obtain t where t: "hwmon_reading sensor_host ''/sys/class/hwmon/hwmon0/temp1_input'' = Ok t" "t_SensorKey t = ''coretemp_core_0''"
    using sensor_host_readings(1) by (cases "hwmon_reading sensor_host ''/sys/class/hwmon/hwmon0/temp1_input''") auto
  have "sensor_source sensor_host
      [''/sys/class/hwmon/hwmon0/temp1_input'', ''/sys/class/hwmon/hwmon0/temp2_input''] [] = [Ok t, Err ENOENT]"
    by (simp add: sensor_source_def t sensor_host_readings)
  with Temperatures_complete [OF sensor_host_files] t(2) show ?thesis by (auto simp: maxWarnings_def)
qed

text \<open>The sensors of \<^verbatim>\<open>TemperaturesWithContext\<close> are, in order, among those of the extended call, which also lists the
  sensors whose current value cannot be read.\<close>

theorem Temperatures_among_extremes:
  assumes "getTemperatureFiles h = Ok files" and "files \<noteq> []"
  shows "\<exists>ts w xs w'. TemperaturesWithContext h = Ok (ts, w) \<and> ex_TemperatureWithContext h = Ok (xs, w') \<and>
    subseq (map t_SensorKey ts) (map x_SensorKey xs)"
proof -
  have "subseq (map t_SensorKey (readings (hwmon_reading h) fs)) (map x_SensorKey (readings (ex_reading h) fs))" for fs
  proof (induction fs)
    case (Cons f fs)
    then show ?case
      by (cases "sensor_key h f"; cases "hwmon_reading h f")
        (auto simp: ex_reading_def hwmon_reading_def outcome_iff)
  qed simp
  then show ?thesis
    using assms by (simp add: TemperaturesWithContext_def ex_TemperatureWithContext_def hwmon.loop_eq extremes.loop_eq)
qed

theorem Temperatures_among_extremes_witness:
  "\<exists>ts w xs w'. TemperaturesWithContext sensor_host = Ok (ts, w) \<and> ex_TemperatureWithContext sensor_host = Ok (xs, w') \<and>
    subseq (map t_SensorKey ts) (map x_SensorKey xs)"
  using Temperatures_among_extremes [OF sensor_host_files(1)] by simp

end
