(* ===== verification/Solaris_System.thy ===== *)
theory Solaris_System
  imports Cpu Load_Linux Mem_Linux "HOL-Library.Char_ord" "HOL-Library.List_Lexorder"
begin

text \<open>
  The readers of \<^verbatim>\<open>kstat\<close> and other commands on Solaris and illumos: \<^verbatim>\<open>cpu/cpu_solaris.go\<close> (times and instruction set
  flags), \<^verbatim>\<open>load/load_solaris.go\<close>, \<^verbatim>\<open>mem/mem_solaris.go\<close> and \<^verbatim>\<open>host/host_solaris.go\<close>. The commands are run through
  \<open>h_command\<close>; \<^verbatim>\<open>sysconf\<close>, the host name and the order in which Go ranges over a map are parameters.
\<close>

section \<open>Commands and regular expressions\<close>

text \<open>\<^verbatim>\<open>regexp.Split\<close> around the runs of a class: a run at an end leaves an empty part.\<close>

definition kstat_sep :: "char \<Rightarrow> bool" where
  "kstat_sep c \<longleftrightarrow> c = CHR '':'' \<or> re_space c"

function split_runs :: "(char \<Rightarrow> bool) \<Rightarrow> string \<Rightarrow> string list" where
  "split_runs P s = (case dropWhile (\<lambda>c. \<not> P c) s of [] \<Rightarrow> [s]
     | _ # t \<Rightarrow> takeWhile (\<lambda>c. \<not> P c) s # split_runs P (dropWhile P t))"
  by pat_completeness auto
termination
proof (relation "measure (\<lambda>(P, s). length s)")
  fix P and s t :: string and c
  assume "dropWhile (\<lambda>c. \<not> P c) s = c # t"
  then have "Suc (length t) \<le> length s" using length_dropWhile_le [of "\<lambda>c. \<not> P c" s] by simp
  moreover have "length (dropWhile P t) \<le> length t" by (rule length_dropWhile_le)
  ultimately show "((P, dropWhile P t), P, s) \<in> measure (\<lambda>(P, s). length s)" by simp
qed simp

declare split_runs.simps [simp del]

definition kstatSplit :: "string \<Rightarrow> string list" where
  "kstatSplit s = split_runs kstat_sep s"

text \<open>All matches of \<^verbatim>\<open>(\S+)\s+(\S*)\<close> with their two groups. A last word without a space after it is no match.\<close>

fun pair_words :: "string list \<Rightarrow> bool \<Rightarrow> (string \<times> string) list" where
  "pair_words (v # w # ws) ends = (v, w) # pair_words ws ends"
| "pair_words [v] ends = (if ends then [(v, [])] else [])"
| "pair_words [] ends = []"

definition kstatMatch :: "string \<Rightarrow> (string \<times> string) list" where
  "kstatMatch s = pair_words (fields_func re_space [] s) (s \<noteq> [] \<and> re_space (last s))"

section \<open>cpu\<close>

text \<open>Maps from \<^verbatim>\<open>float64\<close>: keys are compared as floats, so that every NaN is a new key.\<close>

type_synonym fmap64 = "(float64 \<times> float64) list"

fun fput :: "float64 \<Rightarrow> float64 \<Rightarrow> fmap64 \<Rightarrow> fmap64" where
  "fput k v [] = [(k, v)]"
| "fput k v ((k', v') # m) = (if f_eq k k' then (k, v) # m else (k', v') # fput k v m)"

definition fget :: "fmap64 \<Rightarrow> float64 \<Rightarrow> float64" where
  "fget m k = (case find (\<lambda>(k', _). f_eq k k') m of Some (_, v) \<Rightarrow> v | None \<Rightarrow> 0)"

definition msum :: "(fmap64 \<Rightarrow> fmap64) \<Rightarrow> fmap64 \<Rightarrow> float64" where
  "msum order x = fold (\<lambda>(_, y) total. total + y) (order x) 0"

record kstat_times =
  ks_cpu :: fmap64
  ks_idle :: fmap64
  ks_user :: fmap64
  ks_kern :: fmap64
  ks_iowt :: fmap64

definition kstat_labels :: "(string \<times> (float64 \<Rightarrow> float64 \<Rightarrow> kstat_times \<Rightarrow> kstat_times)) list" where
  "kstat_labels =
     [(''idle'', \<lambda>n v st. st\<lparr>ks_idle := fput n v (ks_idle st)\<rparr>),
      (''user'', \<lambda>n v st. st\<lparr>ks_user := fput n v (ks_user st)\<rparr>),
      (''kernel'', \<lambda>n v st. st\<lparr>ks_kern := fput n v (ks_kern st)\<rparr>),
      (''iowait'', \<lambda>n v st. st\<lparr>ks_iowt := fput n v (ks_iowt st)\<rparr>)]"

definition kstat_times_line :: "string \<Rightarrow> kstat_times \<Rightarrow> kstat_times result" where
  "kstat_times_line line st =
     (let f = kstatSplit line in
      rbind (idx f 0) (\<lambda>f0. if f0 \<noteq> ''cpu_stat'' then Ok st
      else rbind (idx f 1) (\<lambda>f1. rbind (wrap_err ''cannot parse cpu number: '' (parse_f64 f1)) (\<lambda>cpuNumber.
        let st = st\<lparr>ks_cpu := fput cpuNumber cpuNumber (ks_cpu st)\<rparr>
        in rbind (idx f 3) (\<lambda>label. case map_of kstat_labels label of
             None \<Rightarrow> Ok st
           | Some upd \<Rightarrow> rbind (idx f 4) (\<lambda>f4.
               rbind (wrap_err (''cannot parse '' @ label @ '': '') (parse_f64 f4)) (\<lambda>v. Ok (upd cpuNumber v st))))))))"

text \<open>\<^verbatim>\<open>int(f)\<close> for a float64; \<open>oob\<close> is the platform's result when it does not fit.\<close>

definition f_to_int :: "(float64 \<Rightarrow> int) \<Rightarrow> float64 \<Rightarrow> int" where
  "f_to_int oob x = (if finite_float x \<and> - (2 ^ 63) \<le> rat_trunc (fval x) \<and> rat_trunc (fval x) < 2 ^ 63
     then rat_trunc (fval x) else oob x)"

definition solaris_times :: "string \<Rightarrow> float64 \<Rightarrow> float64 \<Rightarrow> float64 \<Rightarrow> float64 \<Rightarrow> times_stat" where
  "solaris_times name idle user system iowait =
     \<lparr>t_CPU = name, t_User = user, t_System = system, t_Idle = idle, t_Nice = 0, t_Iowait = iowait, t_Irq = 0,
      t_Softirq = 0, t_Steal = 0, t_Guest = 0, t_GuestNice = 0\<rparr>"

definition kstat_filter :: string where
  "kstat_filter = ''cpu_stat:*:*:/^idle$|^user$|^kernel$|^iowait$|^swap$/''"

definition solaris_TimesWithContext :: "host \<Rightarrow> (fmap64 \<Rightarrow> fmap64) \<Rightarrow> (float64 \<Rightarrow> int) \<Rightarrow> float64 \<Rightarrow> bool \<Rightarrow> times_stat list result" where
  "solaris_TimesWithContext h order oob clk percpu =
     rbind (wrap_err ''cannot execute kstat: '' (run_command h ''kstat'' [''-p'', kstat_filter])) (\<lambda>out.
     rbind (rfold kstat_times_line (split_char nl out)
         \<lparr>ks_cpu = [], ks_idle = [], ks_user = [], ks_kern = [], ks_iowt = []\<rparr>) (\<lambda>st.
       Ok (if percpu then
             map (\<lambda>(_, c). solaris_times (''cpu'' @ itoa (f_to_int oob (fget (ks_cpu st) c)))
               (fget (ks_idle st) c / clk) (fget (ks_user st) c / clk) (fget (ks_kern st) c / clk) (fget (ks_iowt st) c / clk))
               (order (ks_cpu st))
           else [solaris_times ''cpu-total'' (msum order (ks_idle st) / clk) (msum order (ks_user st) / clk)
             (msum order (ks_kern st) / clk) (msum order (ks_iowt st) / clk)])))"

text \<open>The maximal runs of \<^verbatim>\<open>[\w.]\<close>.\<close>

definition isa_char :: "char \<Rightarrow> bool" where
  "isa_char c \<longleftrightarrow> is_digit c \<or> c = CHR ''_'' \<or> c = CHR ''.'' \<or>
     (let n = (of_char c :: nat) in 65 \<le> n \<and> n \<le> 90 \<or> 97 \<le> n \<and> n \<le> 122)"

definition parseISAInfo :: "string \<Rightarrow> string list result" where
  "parseISAInfo cmdOutput =
     (let words = fields_func (\<lambda>c. \<not> isa_char c) [] cmdOutput in
      if length words < 4 \<or> words ! 1 \<noteq> ''bit'' \<or> words ! 3 \<noteq> ''applications''
      then Err (ErrMsg ''attempted to parse invalid isainfo output'')
      else Ok (sort (drop 4 words)))"

section \<open>load\<close>

definition avenrun_line :: "string \<Rightarrow> avg_stat \<Rightarrow> avg_stat result" where
  "avenrun_line line avg =
     (let flds = str_fields line in
      if length flds < 2 then Ok avg
      else let upd = (if has_suffix (flds ! 0) '':avenrun_1min'' then Some (\<lambda>v. avg\<lparr>l_Load1 := v\<rparr>)
             else if has_suffix (flds ! 0) '':avenrun_5min'' then Some (\<lambda>v. avg\<lparr>l_Load5 := v\<rparr>)
             else if has_suffix (flds ! 0) '':avenrun_15min'' then Some (\<lambda>v. avg\<lparr>l_Load15 := v\<rparr>) else None)
        in case upd of None \<Rightarrow> Ok avg
           | Some f \<Rightarrow> rbind (parse_i64 (flds ! 1)) (\<lambda>v. Ok (f (f_of_int v / Fin 256))))"

definition solaris_AvgWithContext :: "host \<Rightarrow> avg_stat result" where
  "solaris_AvgWithContext h =
     rbind (run_command h ''kstat'' [''-p'', ''unix:0:system_misc:avenrun_*'']) (\<lambda>out.
       case scan_lines None out of (lines, err) \<Rightarrow>
         rbind (rfold avenrun_line lines \<lparr>l_Load1 = 0, l_Load5 = 0, l_Load15 = 0\<rparr>) (\<lambda>avg.
           case err of Some e \<Rightarrow> Err e | None \<Rightarrow> Ok avg))"

definition solaris_MiscWithContext :: "host \<Rightarrow> misc_stat result" where
  "solaris_MiscWithContext h = rbind (run_command h ''ps'' [''-efo'', ''s'']) (\<lambda>out.
     Ok (fold (\<lambda>l ret. if l = ''O'' then ret\<lparr>ms_ProcsRunning := ms_ProcsRunning ret + 1\<rparr> else ret)
       (split_char nl out) empty_misc))"

section \<open>mem\<close>

definition zoneName :: "host \<Rightarrow> string result" where
  "zoneName h = rbind (run_command h ''zonename'' []) (\<lambda>out. Ok (trim_space out))"

text \<open>All matches of \<^verbatim>\<open>[Mm]emory size: (\d+) Megabytes\<close>; the search goes on after a match.\<close>

definition memory_size_at :: "string \<Rightarrow> (string \<times> string) option" where
  "memory_size_at s =
     (let rest = drop 13 s; ds = takeWhile is_digit rest; rest' = drop (length ds) rest in
      if (prefix ''Memory size: '' s \<or> prefix ''memory size: '' s) \<and> ds \<noteq> [] \<and> prefix '' Megabytes'' rest'
      then Some (ds, drop 10 rest') else None)"

function memory_sizes :: "string \<Rightarrow> string list" where
  "memory_sizes s = (if s = [] then [] else case memory_size_at s of
     Some (ds, rest) \<Rightarrow> ds # memory_sizes rest | None \<Rightarrow> memory_sizes (tl s))"
  by pat_completeness auto
termination
  by (relation "measure length") (auto simp: memory_size_at_def Let_def split: if_splits)

declare memory_sizes.simps [simp del]

definition globalZoneMemoryCapacity :: "host \<Rightarrow> u64 result" where
  "globalZoneMemoryCapacity h = rbind (run_command h ''prtconf'' []) (\<lambda>out. case memory_sizes out of
     [m] \<Rightarrow> rbind (parse_u64 m) (\<lambda>totalMB. Ok (totalMB * 1024 * 1024))
   | _ \<Rightarrow> Err (ErrMsg ''memory size not contained in output of prtconf''))"

definition globalZoneFreeMemory :: "host \<Rightarrow> int result \<Rightarrow> u64 result" where
  "globalZoneFreeMemory h avphys = rbind (run_command h ''pagesize'' []) (\<lambda>output.
     rbind (parse_u64 (trim_space output)) (\<lambda>pagesize. rbind avphys (\<lambda>free. Ok (word_of_int free * pagesize))))"

definition nonGlobalZoneMemoryCapacity :: "host \<Rightarrow> u64 result" where
  "nonGlobalZoneMemoryCapacity h =
     rbind (run_command h ''kstat'' [''-p'', ''-c'', ''zone_memory_cap'', ''memory_cap:*:*:physcap'']) (\<lambda>out.
       case kstatMatch out of [(_, v)] \<Rightarrow> parse_u64 v
       | kstats \<Rightarrow> Err (ErrMsg (''expected 1 kstat, found '' @ fmt_nat (length kstats))))"

definition solaris_VirtualMemoryWithContext :: "host \<Rightarrow> int result \<Rightarrow> virtual_memory_stat result" where
  "solaris_VirtualMemoryWithContext h avphys = rbind (zoneName h) (\<lambda>zone.
     if zone = ''global'' then
       rbind (globalZoneMemoryCapacity h) (\<lambda>capacity. rbind (globalZoneFreeMemory h avphys) (\<lambda>freemem.
         Ok (empty_vm\<lparr>v_Total := capacity, v_Available := freemem, v_Free := freemem, v_Used := capacity - freemem\<rparr>)))
     else rbind (nonGlobalZoneMemoryCapacity h) (\<lambda>capacity. Ok (empty_vm\<lparr>v_Total := capacity\<rparr>)))"

text \<open>The columns of \<^verbatim>\<open>swap -l\<close>: the guard asks for four fields, the code then indexes the fifth.\<close>

definition swap_l_header :: "string \<Rightarrow> unit result" where
  "swap_l_header line =
     (let hf = str_fields line;
          expect = (\<lambda>c w. rbind (idx hf c) (\<lambda>f. if f = w then Ok ()
            else Err (ErrMsg (''couldn't parse '' @ quote ''swap'' @ '': expected '' @ quote f @ '' to be '' @ quote w))))
      in if length hf < 4 then Err (ErrMsg (''couldn't parse '' @ quote ''swap'' @ '': too few fields in header '' @ quote line))
         else rbind (expect 0 ''swapfile'') (\<lambda>_. rbind (expect 3 ''blocks'') (\<lambda>_. expect 4 ''free'')))"

definition swap_l_row :: "string \<Rightarrow> swap_device list \<Rightarrow> swap_device list result" where
  "swap_l_row line swapDevices =
     (if line = [] then Ok swapDevices
      else let f = str_fields line in
        if length f < 4 then Err (ErrMsg (''couldn't parse '' @ quote ''swap'' @ '': too few fields''))
        else rbind (idx f 3) (\<lambda>f3. rbind (wrap_err ''couldn't parse 'Size' column in swap: '' (parse_u64 f3)) (\<lambda>totalBlocks.
          rbind (idx f 4) (\<lambda>f4. rbind (wrap_err ''couldn't parse 'Used' column in swap: '' (parse_u64 f4)) (\<lambda>freeBlocks.
            Ok (swapDevices @ [\<lparr>sd_Name = f ! 0, sd_UsedBytes = (totalBlocks - freeBlocks) * 512,
              sd_FreeBytes = freeBlocks * 512\<rparr>]))))))"

definition parseSwapsCommandOutput :: "string \<Rightarrow> swap_device list result" where
  "parseSwapsCommandOutput output = (case split_char nl output of
       [] \<Rightarrow> Err (ErrMsg (''could not parse output of '' @ quote ''swap'' @ '': no lines in '' @ quote output))
     | header # rows \<Rightarrow> rbind (swap_l_header header) (\<lambda>_. rfold swap_l_row rows []))"

definition solaris_SwapDevicesWithContext :: "host \<Rightarrow> swap_device list result" where
  "solaris_SwapDevicesWithContext h =
     rbind (wrap_err (''could not execute '' @ quote ''swap'' @ '': '') (run_command h ''swap'' [''-l''])) parseSwapsCommandOutput"

section \<open>host\<close>

definition release_names :: "(string \<times> string) list" where
  "release_names = [(''SmartOS'', ''SmartOS''), (''OpenIndiana'', ''OpenIndiana''), (''OmniOS'', ''OmniOS''),
     (''Open Storage'', ''NexentaStor''), (''Solaris'', ''Solaris''), (''Oracle Solaris'', ''Solaris'')]"

definition parseReleaseFile :: "host \<Rightarrow> string result" where
  "parseReleaseFile h = rbind (ReadFile h ''/etc/release'') (\<lambda>b.
     let s = trim_space b in case find (\<lambda>(p, _). has_prefix s p) release_names of
       Some (_, platform) \<Rightarrow> Ok platform | None \<Rightarrow> idx (str_fields s) 0)"

fun zone_host_id :: "gerr + string \<Rightarrow> string list \<Rightarrow> string option" where
  "zone_host_id hostname [] = None"
| "zone_host_id hostname (line # lines) =
     (if line \<noteq> ''global'' then Some (trim_space line)
      else case hostname of Inr n \<Rightarrow> Some n | Inl _ \<Rightarrow> zone_host_id hostname lines)"

definition solaris_HostIDWithContext :: "host \<Rightarrow> gerr + string \<Rightarrow> string result" where
  "solaris_HostIDWithContext h hostname = rbind (parseReleaseFile h) (\<lambda>platform.
     let zone = (if platform = ''SmartOS'' then
            (case run_command h ''zonename'' [] of Ok out \<Rightarrow> zone_host_id hostname (fst (scan_lines None out)) | _ \<Rightarrow> None)
          else None)
     in Ok (case zone of Some i \<Rightarrow> i
        | None \<Rightarrow> (case run_command h ''hostid'' [] of
            Ok out \<Rightarrow> (case fst (scan_lines None out) of line # _ \<Rightarrow> trim_space line | [] \<Rightarrow> []) | _ \<Rightarrow> [])))"

definition solaris_numProcs :: "host \<Rightarrow> u64 result" where
  "solaris_numProcs h = rbind (of_sum (h_readdir h ''/proc'')) (\<lambda>dirs. Ok (word_of_nat (length dirs)))"

definition solaris_BootTimeWithContext :: "host \<Rightarrow> u64 result" where
  "solaris_BootTimeWithContext h = rbind (run_command h ''kstat'' [''-p'', ''unix:0:system_misc:boot_time'']) (\<lambda>out.
     case kstatMatch out of [(_, v)] \<Rightarrow> parse_u64 v
     | kstats \<Rightarrow> Err (ErrMsg (''expected 1 kstat, found '' @ fmt_nat (length kstats))))"

definition solaris_UptimeWithContext :: "host \<Rightarrow> u64 result" where
  "solaris_UptimeWithContext h = rbind (solaris_BootTimeWithContext h) (\<lambda>bootTime. Ok (TimeSince h bootTime))"

definition parseUnameOutput :: "host \<Rightarrow> (string \<times> string \<times> string) result" where
  "parseUnameOutput h = rbind (run_command h ''uname'' [''-srv'']) (\<lambda>out. case str_fields out of
     f0 # f1 # f2 # _ \<Rightarrow> Ok (f0, f1, f2) | _ \<Rightarrow> Err (ErrMsg ''malformed `uname` output''))"

definition solaris_KernelVersionWithContext :: "host \<Rightarrow> string result" where
  "solaris_KernelVersionWithContext h = rbind (parseUnameOutput h) (\<lambda>(_, kernelVersion, _). Ok kernelVersion)"

definition solaris_PlatformInformationWithContext :: "host \<Rightarrow> (string \<times> string \<times> string) result" where
  "solaris_PlatformInformationWithContext h = rbind (parseReleaseFile h) (\<lambda>platform.
     rbind (parseUnameOutput h) (\<lambda>(platformFamily, _, platformVersion). Ok (platform, platformFamily, platformVersion)))"

section \<open>Splitting what kstat prints\<close>

lemma split_runs_none: "(\<And>c. c \<in> set w \<Longrightarrow> \<not> P c) \<Longrightarrow> split_runs P w = [w]"
  by (subst split_runs.simps) (simp add: dropWhile_eq_Nil_conv [THEN iffD2])

lemma split_runs_word:
  assumes "\<And>c. c \<in> set w \<Longrightarrow> \<not> P c" and "P x" and "s = [] \<or> \<not> P (hd s)"
  shows "split_runs P (w @ x # s) = w # split_runs P s"
proof -
  have "dropWhile P s = s" using assms(3) by (cases s) simp_all
  with assms(1,2) takeWhile_append_stop [of w "\<lambda>c. \<not> P c" x s] show ?thesis by (subst split_runs.simps) simp
qed

text \<open>A line of \<^verbatim>\<open>kstat -p\<close>: \<^verbatim>\<open>module:instance:name:statistic\<close>, a tab and the value.\<close>

definition kstat_text :: "string \<Rightarrow> string \<Rightarrow> string \<Rightarrow> string \<Rightarrow> string \<Rightarrow> string" where
  "kstat_text m i n l v = m @ '':'' @ i @ '':'' @ n @ '':'' @ l @ [CHR 0x09] @ v"

definition kstat_word :: "string \<Rightarrow> bool" where
  "kstat_word w \<longleftrightarrow> w \<noteq> [] \<and> list_all (\<lambda>c. \<not> kstat_sep c) w"

lemma kstat_word_hd: "kstat_word w \<Longrightarrow> \<not> kstat_sep (hd (w @ s))"
  by (cases w) (simp_all add: kstat_word_def)

lemma kstatSplit_last: "kstat_word w \<Longrightarrow> kstatSplit w = [w]"
  by (simp add: kstatSplit_def split_runs_none kstat_word_def list_all_iff)

lemma kstatSplit_word: "kstat_word w \<Longrightarrow> kstat_sep x \<Longrightarrow> \<not> kstat_sep (hd s) \<Longrightarrow> kstatSplit (w @ x # s) = w # kstatSplit s"
  by (simp add: kstatSplit_def split_runs_word kstat_word_def list_all_iff)

lemma kstatSplit_text:
  assumes "list_all kstat_word [m, i, n, l, v]"
  shows "kstatSplit (kstat_text m i n l v) = [m, i, n, l, v]"
proof -
  have "kstat_sep CHR '':''" "kstat_sep (CHR 0x09)" by (simp_all add: kstat_sep_def re_space_def)
  with assms show ?thesis
    using kstat_word_hd [of i "'':'' @ n @ '':'' @ l @ [CHR 0x09] @ v"] kstat_word_hd [of n "'':'' @ l @ [CHR 0x09] @ v"]
      kstat_word_hd [of l "[CHR 0x09] @ v"] kstat_word_hd [of v "[]"]
    by (simp add: kstat_text_def kstatSplit_word kstatSplit_last)
qed

section \<open>Properties\<close>

text \<open>The columns of \<^verbatim>\<open>swap -l\<close>.\<close>

record swap_l_entry =
  sl_name :: string
  sl_dev :: string
  sl_swaplo :: string
  sl_blocks :: u64
  sl_free :: u64

definition swap_l_fields :: "swap_l_entry \<Rightarrow> string list" where
  "swap_l_fields e = [sl_name e, sl_dev e, sl_swaplo e, fmt_nat (unat (sl_blocks e)), fmt_nat (unat (sl_free e))]"

definition swap_l_meaning :: "swap_l_entry \<Rightarrow> swap_device" where
  "swap_l_meaning e = \<lparr>sd_Name = sl_name e, sd_UsedBytes = (sl_blocks e - sl_free e) * 512, sd_FreeBytes = sl_free e * 512\<rparr>"

lemma swap_l_rows:
  "map str_fields lines = map swap_l_fields es \<Longrightarrow> rfold swap_l_row lines ds = Ok (ds @ map swap_l_meaning es)"
proof (induction lines arbitrary: es ds)
  case (Cons l lines)
  then obtain e es' where es: "es = e # es'" and f: "str_fields l = swap_l_fields e" and rest: "map str_fields lines = map swap_l_fields es'"
    by (cases es) auto
  have "l \<noteq> []" using f by (auto simp: swap_l_fields_def)
  with f Cons.IH [OF rest] show ?case
    by (simp add: es swap_l_row_def swap_l_fields_def swap_l_meaning_def Let_def wrap_err_def idx_def)
qed simp

text \<open>On Solaris, \<^verbatim>\<open>SwapDevices\<close> reads back the table of \<^verbatim>\<open>swap -l\<close>, however its columns are spaced: one device per
  row, with its used and free blocks in bytes. A header of only four columns makes it panic.\<close>

theorem solaris_SwapDevices_table:
  assumes "run_command h ''swap'' [''-l''] = Ok (unlines (header # lines))" and "no_nl (header # lines)"
  shows "(str_fields header = [''swapfile'', x, y, ''blocks'', ''free''] \<and> map str_fields lines = map swap_l_fields es \<longrightarrow>
      solaris_SwapDevicesWithContext h = Ok (map swap_l_meaning es)) \<and>
    (str_fields header = [''swapfile'', x, y, ''blocks''] \<longrightarrow> solaris_SwapDevicesWithContext h = Panic)"
proof -
  have split: "split_char nl (unlines (header # lines)) = header # lines @ [[]]"
    using split_char_unlines [OF assms(2)] by simp
  then have *: "solaris_SwapDevicesWithContext h =
      rbind (swap_l_header header) (\<lambda>_. rbind (rfold swap_l_row lines []) (rfold swap_l_row [[]]))"
    using assms(1) by (simp add: solaris_SwapDevicesWithContext_def parseSwapsCommandOutput_def wrap_err_def rfold_append cong: rbind_cong)
  show ?thesis
    unfolding * using swap_l_rows [of lines es "[]"]
    by (auto simp: swap_l_header_def Let_def swap_l_row_def idx_def)
qed

definition swap_l_host :: host where
  "swap_l_host = no_files\<lparr>h_command := (\<lambda>name args. if name = ''swap''
     then (unlines [''swapfile dev swaplo blocks free'', ''/dev/zvol/dsk/rpool/swap 256,1 16 1058800 1000000''], None) else ([], Some ErrNotFound))\<rparr>"

theorem solaris_SwapDevices_table_witness:
  "solaris_SwapDevicesWithContext swap_l_host =
     Ok [\<lparr>sd_Name = ''/dev/zvol/dsk/rpool/swap'', sd_UsedBytes = 58800 * 512, sd_FreeBytes = 1000000 * 512\<rparr>]"
proof -
  let ?e = "\<lparr>sl_name = ''/dev/zvol/dsk/rpool/swap'', sl_dev = ''256,1'', sl_swaplo = ''16'', sl_blocks = 1058800, sl_free = 1000000\<rparr>"
  have r: "run_command swap_l_host ''swap'' [''-l''] =
      Ok (unlines [''swapfile dev swaplo blocks free'', ''/dev/zvol/dsk/rpool/swap 256,1 16 1058800 1000000''])"
    by (simp add: run_command_def swap_l_host_def)
  have "str_fields ''swapfile dev swaplo blocks free'' = [''swapfile'', ''dev'', ''swaplo'', ''blocks'', ''free'']" by code_simp
  moreover have "str_fields ''/dev/zvol/dsk/rpool/swap 256,1 16 1058800 1000000'' = swap_l_fields ?e" by code_simp
  ultimately show ?thesis
    using solaris_SwapDevices_table [OF r, of "''dev''" "''swaplo''" "[?e]"] by (simp add: swap_l_meaning_def)
qed

end
