(* ===== verification/Solaris_Devices.thy ===== *)
theory Solaris_Devices
  imports Solaris_System Net Disk_Linux "HOL-Library.Multiset"
begin

text \<open>
  Disks and network interfaces on Solaris and illumos (\<^verbatim>\<open>disk/disk_solaris.go\<close>, \<^verbatim>\<open>net/net_solaris.go\<close>): the counters that
  \<^verbatim>\<open>kstat\<close> prints one per line, the table of mounts, usage and serial numbers. The readers collect each statistic in a map
  of its own; the maps are indexed here by the label of the statistic. \<open>order\<close> is the order in which Go ranges over a map.
\<close>

section \<open>net\<close>

type_synonym kstat_maps = "string \<Rightarrow> (string \<times> u64) list"

definition nic_labels :: "string list" where
  "nic_labels = [''rbytes64'', ''ipackets64'', ''idrops64'', ''ierrors'', ''obytes64'', ''opackets64'', ''odrops64'', ''oerrors'']"

definition nic_line :: "string \<Rightarrow> kstat_maps \<Rightarrow> kstat_maps result" where
  "nic_line line arrs =
     (let f = kstatSplit line in
      rbind (idx f 0) (\<lambda>interfaceName. rbind (idx f 1) (\<lambda>inst. rbind (idx f 3) (\<lambda>label.
        if label \<in> set nic_labels then
          rbind (idx f 4) (\<lambda>f4. rbind (wrap_err (''cannot parse '' @ label @ '': '') (parse_u64 f4)) (\<lambda>v.
            Ok (arrs(label := alist_put (interfaceName @ inst) v (arrs label)))))
        else Ok arrs))))"

definition kstat_get :: "kstat_maps \<Rightarrow> string \<Rightarrow> string \<Rightarrow> u64" where
  "kstat_get arrs label k = (case map_of (arrs label) k of Some v \<Rightarrow> v | None \<Rightarrow> 0)"

definition nic_of :: "kstat_maps \<Rightarrow> string \<Rightarrow> io_counters_stat" where
  "nic_of arrs k =
     \<lparr>io_Name = k, io_BytesSent = kstat_get arrs ''obytes64'' k, io_BytesRecv = kstat_get arrs ''rbytes64'' k,
      io_PacketsSent = kstat_get arrs ''opackets64'' k, io_PacketsRecv = kstat_get arrs ''ipackets64'' k,
      io_Errin = kstat_get arrs ''ierrors'' k, io_Errout = kstat_get arrs ''oerrors'' k,
      io_Dropin = kstat_get arrs ''idrops64'' k, io_Dropout = kstat_get arrs ''odrops64'' k,
      io_Fifoin = 0, io_Fifoout = 0\<rparr>"

definition nic_filter :: "string \<Rightarrow> string" where
  "nic_filter goos = (if goos = ''illumos''
     then ''/[^vnic]/::mac:/^rbytes64$|^ipackets64$|^idrops64$|^ierrors$|^obytes64$|^opackets64$|^odrops64$|^oerrors$/''
     else ''/^(?!vnic)/::phys:/^rbytes64$|^ipackets64$|^idrops64$|^ierrors$|^obytes64$|^opackets64$|^odrops64$|^oerrors$/'')"

definition solaris_net_IOCountersWithContext :: "host \<Rightarrow> string \<Rightarrow> ((string \<times> u64) list \<Rightarrow> (string \<times> u64) list) \<Rightarrow> bool \<Rightarrow>
    io_counters_stat list result" where
  "solaris_net_IOCountersWithContext h goos order pernic =
     rbind (wrap_err ''cannot execute kstat: '' (run_command h ''kstat'' [''-c'', ''net'', ''-p'', nic_filter goos])) (\<lambda>out.
     rbind (rfold nic_line (split_char nl (trim_space out)) (\<lambda>_. [])) (\<lambda>arrs.
       let ret = map (\<lambda>(k, _). nic_of arrs k) (order (arrs ''rbytes64''))
       in Ok (if pernic then ret else getIOCountersAll ret)))"

section \<open>disk\<close>

definition fsTypeBlacklist :: "string list" where
  "fsTypeBlacklist = [''ctfs'', ''dev'', ''fd'', ''lofs'', ''lxproc'', ''mntfs'', ''objfs'', ''proc'']"

definition mnttab_line :: "string \<Rightarrow> partition_stat list \<Rightarrow> partition_stat list result" where
  "mnttab_line line ret =
     (let f = split_char (CHR 0x09) line in
      rbind (idx f 2) (\<lambda>fstype. if fstype \<in> set fsTypeBlacklist then Ok ret
      else rbind (idx f 3) (\<lambda>opts. Ok (ret @ [\<lparr>pt_Device = f ! 0, pt_Mountpoint = f ! 1, pt_Fstype = fstype,
        pt_Opts = split_char CHR '','' opts\<rparr>]))))"

text \<open>The error of opening the file is not looked at; reading from the nil file fails.\<close>

definition solaris_PartitionsWithContext :: "host \<Rightarrow> partition_stat list result" where
  "solaris_PartitionsWithContext h =
     (case (case h_open h ''/etc/mnttab'' of Inl _ \<Rightarrow> ([], Some (ErrMsg ''invalid argument'')) | Inr (d, fin) \<Rightarrow> scan_lines fin d) of
        (lines, err) \<Rightarrow> rbind (rfold mnttab_line lines []) (\<lambda>ret.
          case err of Some e \<Rightarrow> Err (ErrWrap (''unable to scan '' @ quote ''/etc/mnttab'') e) | None \<Rightarrow> Ok ret))"

record kstat_disks =
  kd_dname :: "(string \<times> string) list"
  kd_arrs :: kstat_maps

definition disk_value :: "host \<Rightarrow> bool \<Rightarrow> string \<Rightarrow> string \<Rightarrow> u64 result" where
  "disk_value h issolaris label f4 =
     (if label \<in> {''rtime'', ''wtime''} then
        (if issolaris then rbind (parse_f64 f4) (\<lambda>v. Ok (f_to_u64 (h_fcvt h) (v * Fin 1000)))
         else rbind (parse_u64 f4) (\<lambda>v. Ok (v div 1000 div 1000)))
      else parse_u64 f4)"

definition disk_labels :: "string list" where
  "disk_labels = [''nread'', ''nwritten'', ''reads'', ''writes'', ''rtime'', ''wtime'']"

definition kstat_disk_line :: "host \<Rightarrow> bool \<Rightarrow> string list \<Rightarrow> string \<Rightarrow> kstat_disks \<Rightarrow> kstat_disks result" where
  "kstat_disk_line h issolaris names line st =
     (let f = kstatSplit line in
      if f = [] then Ok st
      else rbind (idx f 0) (\<lambda>moduleName. rbind (idx f 1) (\<lambda>inst. rbind (idx f 2) (\<lambda>dname.
        if names \<noteq> [] \<and> \<not> StringsHas names dname then Ok st
        else let k = moduleName @ inst; st = st\<lparr>kd_dname := alist_put k dname (kd_dname st)\<rparr> in
          rbind (idx f 3) (\<lambda>label.
            if label \<in> set disk_labels then rbind (idx f 4) (\<lambda>f4. rbind (disk_value h issolaris label f4) (\<lambda>v.
              Ok (st\<lparr>kd_arrs := (kd_arrs st)(label := alist_put k v (kd_arrs st label))\<rparr>)))
            else Ok st)))))"

definition solaris_disk :: "kstat_maps \<Rightarrow> string \<Rightarrow> string \<Rightarrow> disk_io_stat" where
  "solaris_disk arrs k dname = empty_disk_io\<lparr>d_Name := dname, d_ReadBytes := kstat_get arrs ''nread'' k,
     d_WriteBytes := kstat_get arrs ''nwritten'' k, d_ReadCount := kstat_get arrs ''reads'' k,
     d_WriteCount := kstat_get arrs ''writes'' k, d_ReadTime := kstat_get arrs ''rtime'' k, d_WriteTime := kstat_get arrs ''wtime'' k\<rparr>"

text \<open>As on Linux, the names in the slice of the caller become base names; the slice is the second component.\<close>

definition solaris_disk_IOCountersWithContext :: "host \<Rightarrow> string \<Rightarrow> ((string \<times> string) list \<Rightarrow> (string \<times> string) list) \<Rightarrow>
    string list \<Rightarrow> (string \<times> disk_io_stat) list result \<times> string list" where
  "solaris_disk_IOCountersWithContext h goos order names =
     (case wrap_err ''cannot execute kstat: '' (run_command h ''kstat''
         [''-c'', ''disk'', ''-p'', ''/[^zfs]/:::/^nread$|^nwritten$|^reads$|^writes$|^rtime$|^wtime$/'']) of
        Ok out \<Rightarrow>
          (rbind (rfold (kstat_disk_line h (goos \<noteq> ''illumos'') (map path_base names)) (split_char nl (trim_space out))
             \<lparr>kd_dname = [], kd_arrs = (\<lambda>_. [])\<rparr>) (\<lambda>st.
             Ok (fold (\<lambda>(k, dname). alist_put dname (solaris_disk (kd_arrs st) k dname)) (order (kd_dname st)) [])),
           map path_base names)
      | Err e \<Rightarrow> (Err e, names)
      | Panic \<Rightarrow> (Panic, names))"

record statvfs =
  sv_Blocks :: u64
  sv_Bfree :: u64
  sv_Frsize :: u64
  sv_Basetype :: "int list"

definition solaris_UsageWithContext :: "(string \<Rightarrow> gerr + statvfs) \<Rightarrow> string \<Rightarrow> usage_stat result" where
  "solaris_UsageWithContext vfs path =
     rbind (wrap_err (''unable to call statvfs(2) on '' @ quote path @ '': '') (of_sum (vfs path))) (\<lambda>sv.
       let total = sv_Blocks sv * sv_Frsize sv; used = (sv_Blocks sv - sv_Bfree sv) * sv_Frsize sv
       in Ok \<lparr>us_Path = path, us_Fstype = IntToString (sv_Basetype sv), us_Total = total,
         us_Free = sv_Bfree sv * sv_Frsize sv, us_Used = used,
         us_UsedPercent = f_of_u64 used / f_of_u64 total * Fin 100,
         us_InodesTotal = 1024 * 1024, us_InodesUsed = 1024, us_InodesFree = - 1, us_InodesUsedPercent = Fin (100 / 1024)\<rparr>)"

text \<open>The word after the first \<^verbatim>\<open>SN:\<close> that is neither the first nor the last word.\<close>

fun serial_of :: "string list \<Rightarrow> string" where
  "serial_of (f # g # fs) = (if f = ''SN:'' then g else serial_of (g # fs))"
| "serial_of fs = []"

fun serial_loop :: "string \<Rightarrow> string list \<Rightarrow> string option result" where
  "serial_loop suf [] = Ok None"
| "serial_loop suf (line # lines) =
     (let flds = str_fields line in
      rbind (idx flds 0) (\<lambda>f0. if has_suffix f0 suf then Ok (Some (if 3 \<le> length flds then serial_of (tl flds) else []))
        else serial_loop suf lines))"

definition solaris_SerialNumberWithContext :: "host \<Rightarrow> string \<Rightarrow> string result" where
  "solaris_SerialNumberWithContext h name =
     rbind (wrap_err ''exec cfgadm: '' (run_command h ''cfgadm''
       [''-ls'', ''select=type(disk),cols=ap_id:info,cols2=,noheadings''])) (\<lambda>out.
       let suf = ''::'' @ (if has_prefix name ''/dev/'' then drop 5 name else name)
       in case scan_lines None out of (lines, err) \<Rightarrow> rbind (serial_loop suf lines) (\<lambda>r. case r of
            Some serial \<Rightarrow> Ok serial
          | None \<Rightarrow> (case err of Some e \<Rightarrow> Err e | None \<Rightarrow> Ok [])))"

section \<open>Interface counters\<close>

text \<open>What a line says about a statistic of an interface: the locale of line-by-line readers applies to every
  statistic and interface.\<close>

definition nic_contrib :: "string \<Rightarrow> string \<Rightarrow> string \<Rightarrow> u64 option option" where
  "nic_contrib label k line =
     (let f = kstatSplit line in
      if 5 \<le> length f \<and> f ! 3 = label \<and> label \<in> set nic_labels \<and> f ! 0 @ f ! 1 = k
      then (case parse_u64 (f ! 4) of Ok v \<Rightarrow> Some (Some v) | _ \<Rightarrow> None) else None)"

interpretation nic_stat: field_rfold nic_line "\<lambda>arrs. map_of (arrs label) k" "nic_contrib label k" for label k
  by unfold_locales
    (auto simp: nic_line_def nic_contrib_def Let_def outcome_iff wrap_err_def split: if_splits result.splits)

definition kstat_value :: "string list \<Rightarrow> string \<Rightarrow> string \<Rightarrow> u64" where
  "kstat_value lines label k = (case last_some (nic_contrib label k) lines of Some (Some v) \<Rightarrow> v | _ \<Rightarrow> 0)"

definition kstat_has :: "string list \<Rightarrow> string \<Rightarrow> string \<Rightarrow> bool" where
  "kstat_has lines label k \<longleftrightarrow> list_ex (\<lambda>l. nic_contrib label k l \<noteq> None) lines"

lemma nic_contrib_Some: "last_some (nic_contrib label k) lines \<noteq> Some None"
  by (induction lines) (auto simp: nic_contrib_def Let_def split: option.splits result.splits if_splits)

lemma nic_maps:
  assumes "rfold nic_line lines (\<lambda>_. []) = Ok arrs"
  shows "kstat_get arrs label k = kstat_value lines label k"
    and "k \<in> fst ` set (arrs label) \<longleftrightarrow> kstat_has lines label k"
    and "distinct (map fst (arrs label))"
proof -
  have m: "map_of (arrs label) k = (case last_some (nic_contrib label k) lines of None \<Rightarrow> None | Some v \<Rightarrow> v)"
    using nic_stat.sel_rfold [OF assms, of label k] by (auto split: option.splits)
  then show "kstat_get arrs label k = kstat_value lines label k"
    by (simp add: kstat_get_def kstat_value_def split: option.splits)
  have "k \<in> fst ` set (arrs label) \<longleftrightarrow> map_of (arrs label) k \<noteq> None" by (simp add: map_of_eq_None_iff)
  also have "\<dots> \<longleftrightarrow> last_some (nic_contrib label k) lines \<noteq> None"
    using nic_contrib_Some [of label k lines] by (auto simp: m split: option.splits)
  finally show "k \<in> fst ` set (arrs label) \<longleftrightarrow> kstat_has lines label k"
    by (simp add: last_some_None_iff kstat_has_def list_ex_iff)
  have "\<forall>l. distinct (map fst (arrs l))"
    by (rule rfold_invariant [OF assms])
      (auto simp: nic_line_def Let_def outcome_iff distinct_alist_put split: if_splits)
  then show "distinct (map fst (arrs label))" by blast
qed

definition nic_columns :: "(io_counters_stat \<Rightarrow> u64) list" where
  "nic_columns = [io_BytesRecv, io_PacketsRecv, io_Dropin, io_Errin, io_BytesSent, io_PacketsSent, io_Dropout, io_Errout]"

lemma nic_of_name [simp]: "io_Name (nic_of arrs k) = k"
  by (simp add: nic_of_def)

lemma nic_of_columns: "map (\<lambda>sel. sel (nic_of arrs k)) nic_columns = map (\<lambda>label. kstat_get arrs label k) nic_labels"
  by (simp add: nic_columns_def nic_labels_def nic_of_def)

text \<open>On Solaris, in whatever order Go ranges over its maps, the network counters hold exactly one entry per interface
  that has a line for \<^verbatim>\<open>rbytes64\<close>, every counter is the value of the last line of its statistic (0 without one), and the total
  of the other mode is the sum of these entries in any order.\<close>

theorem solaris_net_counters:
  assumes "run_command h ''kstat'' [''-c'', ''net'', ''-p'', nic_filter goos] = Ok out"
    and "solaris_net_IOCountersWithContext h goos order True = Ok nics"
    and "\<And>m. mset (order m) = mset m" and "\<And>m. mset (order' m) = mset m"
    and "lines = split_char nl (trim_space out)"
  shows "distinct (map io_Name nics) \<and> set (map io_Name nics) = {k. kstat_has lines ''rbytes64'' k} \<and>
    map (\<lambda>nic. map (\<lambda>sel. sel nic) nic_columns) nics =
      map (\<lambda>k. map (\<lambda>label. kstat_value lines label k) nic_labels) (map io_Name nics) \<and>
    (\<exists>r. solaris_net_IOCountersWithContext h goos order' False = Ok [r] \<and>
      map (\<lambda>sel. sel r) io_columns = map (\<lambda>sel. \<Sum>n\<leftarrow>nics. sel n) io_columns)"
proof -
  obtain arrs where a: "rfold nic_line lines (\<lambda>_. []) = Ok arrs"
    and nics: "nics = map (\<lambda>(k, _). nic_of arrs k) (order (arrs ''rbytes64''))"
    using assms(1,2,5) by (auto simp: solaris_net_IOCountersWithContext_def outcome_iff wrap_err_def Let_def)
  let ?m = "arrs ''rbytes64''" and ?all = "\<lambda>m. map (\<lambda>(k, _). nic_of arrs k) m"
  have names: "map io_Name nics = map fst (order ?m)" by (simp add: nics case_prod_beta)
  have "mset (map fst (order ?m)) = mset (map fst ?m)" by (simp add: assms(3))
  with nic_maps(3) [OF a] have "distinct (map io_Name nics)"
    unfolding names by (metis mset_eq_imp_distinct_iff)
  moreover have "set (map io_Name nics) = {k. kstat_has lines ''rbytes64'' k}"
    unfolding names using nic_maps(2) [OF a] mset_eq_setD [OF assms(3) [of ?m]] by auto
  moreover have "map (\<lambda>nic. map (\<lambda>sel. sel nic) nic_columns) nics =
      map (\<lambda>k. map (\<lambda>label. kstat_value lines label k) nic_labels) (map io_Name nics)"
    by (simp add: nics names case_prod_beta nic_of_columns nic_maps(1) [OF a] comp_def)
  moreover have "solaris_net_IOCountersWithContext h goos order' False = Ok (getIOCountersAll (?all (order' ?m)))"
    using assms(1,5) a by (simp add: solaris_net_IOCountersWithContext_def wrap_err_def Let_def)
  moreover have "(\<Sum>n\<leftarrow>?all (order' ?m). sel n) = (\<Sum>n\<leftarrow>nics. sel n)" for sel :: "io_counters_stat \<Rightarrow> u64"
    unfolding nics by (simp only: flip: sum_mset_sum_list) (simp add: assms(3,4))
  ultimately show ?thesis
    using io_all_totals [of "?all (order' ?m)"] by (auto simp: getIOCountersAll_def)
qed

text \<open>A system without such an interface makes the reader panic.\<close>

lemma solaris_net_no_interface:
  assumes "run_command h ''kstat'' [''-c'', ''net'', ''-p'', nic_filter goos] = Ok []"
  shows "solaris_net_IOCountersWithContext h goos order pernic = Panic"
proof -
  have "kstatSplit [] = [[]]" unfolding kstatSplit_def by (rule split_runs_none) simp
  then have "nic_line [] arrs = Panic" for arrs by (simp add: nic_line_def Let_def)
  with assms show ?thesis by (simp add: solaris_net_IOCountersWithContext_def wrap_err_def)
qed

definition nic_host :: host where
  "nic_host = no_files\<lparr>h_command := (\<lambda>_ _. (unlines [kstat_text ''e1000g'' ''0'' ''mac'' ''rbytes64'' ''7'',
     kstat_text ''e1000g'' ''0'' ''mac'' ''obytes64'' ''9'', kstat_text ''e1000g'' ''1'' ''mac'' ''rbytes64'' ''5''], None))\<rparr>"

theorem solaris_net_counters_witness:
  "\<exists>nics. solaris_net_IOCountersWithContext nic_host ''illumos'' rev True = Ok nics \<and> length nics = 2 \<and>
    distinct (map io_Name nics) \<and>
    (\<exists>r. solaris_net_IOCountersWithContext nic_host ''illumos'' id False = Ok [r] \<and> io_BytesRecv r = (\<Sum>n\<leftarrow>nics. io_BytesRecv n))"
proof -
  obtain nics where n: "solaris_net_IOCountersWithContext nic_host ''illumos'' rev True = Ok nics" "length nics = 2"
  proof -
    have "map_option length (case solaris_net_IOCountersWithContext nic_host ''illumos'' rev True of Ok x \<Rightarrow> Some x | _ \<Rightarrow> None) = Some 2"
      by code_simp
    then show ?thesis using that by (auto split: result.splits)
  qed
  have "run_command nic_host ''kstat'' [''-c'', ''net'', ''-p'', nic_filter ''illumos''] = Ok (fst (h_command nic_host [] []))"
    by (simp add: run_command_def nic_host_def)
  from solaris_net_counters [OF this n(1), of id] n show ?thesis by (auto simp: io_columns_def)
qed

end
