(* ===== verification/Nfs_Aix.thy ===== *)
theory Nfs_Aix
  imports Common
begin

text \<open>
  Package \<^verbatim>\<open>nfs\<close> (\<^verbatim>\<open>nfs.go\<close>, \<^verbatim>\<open>nfs_aix.go\<close>): the counters in the output of \<^verbatim>\<open>nfsstat\<close> on AIX. The parser is a machine over
  lines: it remembers the section, the protocol version and the last row of column names, and applies the next row of
  values to those names. Counters with the same name in one section are added up.
\<close>

section \<open>Data\<close>

record rpc_client_stat =
  rc_Calls :: u64
  rc_BadCalls :: u64
  rc_BadXIDs :: u64
  rc_Timeouts :: u64
  rc_NewCreds :: u64
  rc_BadVerfs :: u64
  rc_Timers :: u64
  rc_NoMem :: u64
  rc_CantConn :: u64
  rc_Interrupts :: u64
  rc_Retrans :: u64
  rc_CantSend :: u64

record rpc_server_stat =
  rs_Calls :: u64
  rs_BadCalls :: u64
  rs_NullRecv :: u64
  rs_BadLen :: u64
  rs_XdrCall :: u64
  rs_DupChecks :: u64
  rs_DupReqs :: u64

record nfs_client_stat =
  nc_Calls :: u64
  nc_BadCalls :: u64
  nc_ClGets :: u64
  nc_ClTooMany :: u64
  nc_Operations :: "(string \<times> u64) list"

record nfs_server_stat =
  nv_Calls :: u64
  nv_BadCalls :: u64
  nv_PublicV2 :: u64
  nv_PublicV3 :: u64
  nv_Operations :: "(string \<times> u64) list"

record nfs_stats =
  st_RPCClientStats :: rpc_client_stat
  st_RPCServerStats :: rpc_server_stat
  st_NFSClientStats :: nfs_client_stat
  st_NFSServerStats :: nfs_server_stat

definition empty_nfs_stats :: nfs_stats where
  "empty_nfs_stats =
     \<lparr>st_RPCClientStats = \<lparr>rc_Calls = 0, rc_BadCalls = 0, rc_BadXIDs = 0, rc_Timeouts = 0, rc_NewCreds = 0, rc_BadVerfs = 0,
        rc_Timers = 0, rc_NoMem = 0, rc_CantConn = 0, rc_Interrupts = 0, rc_Retrans = 0, rc_CantSend = 0\<rparr>,
      st_RPCServerStats = \<lparr>rs_Calls = 0, rs_BadCalls = 0, rs_NullRecv = 0, rs_BadLen = 0, rs_XdrCall = 0, rs_DupChecks = 0,
        rs_DupReqs = 0\<rparr>,
      st_NFSClientStats = \<lparr>nc_Calls = 0, nc_BadCalls = 0, nc_ClGets = 0, nc_ClTooMany = 0, nc_Operations = []\<rparr>,
      st_NFSServerStats = \<lparr>nv_Calls = 0, nv_BadCalls = 0, nv_PublicV2 = 0, nv_PublicV3 = 0, nv_Operations = []\<rparr>\<rparr>"

section \<open>Counters by name\<close>

definition setRPCServer_table :: "(string \<times> (u64 \<Rightarrow> rpc_server_stat \<Rightarrow> rpc_server_stat)) list" where
  "setRPCServer_table =
     [(''calls'', \<lambda>v. rs_Calls_update (\<lambda>x. x + v)), (''badcalls'', \<lambda>v. rs_BadCalls_update (\<lambda>x. x + v)),
      (''nullrecv'', \<lambda>v. rs_NullRecv_update (\<lambda>x. x + v)), (''badlen'', \<lambda>v. rs_BadLen_update (\<lambda>x. x + v)),
      (''xdrcall'', \<lambda>v. rs_XdrCall_update (\<lambda>x. x + v)), (''dupchecks'', \<lambda>v. rs_DupChecks_update (\<lambda>x. x + v)),
      (''dupreqs'', \<lambda>v. rs_DupReqs_update (\<lambda>x. x + v))]"

definition setRPCClient_table :: "(string \<times> (u64 \<Rightarrow> rpc_client_stat \<Rightarrow> rpc_client_stat)) list" where
  "setRPCClient_table =
     [(''calls'', \<lambda>v. rc_Calls_update (\<lambda>x. x + v)), (''badcalls'', \<lambda>v. rc_BadCalls_update (\<lambda>x. x + v)),
      (''badxids'', \<lambda>v. rc_BadXIDs_update (\<lambda>x. x + v)), (''timeouts'', \<lambda>v. rc_Timeouts_update (\<lambda>x. x + v)),
      (''newcreds'', \<lambda>v. rc_NewCreds_update (\<lambda>x. x + v)), (''badverfs'', \<lambda>v. rc_BadVerfs_update (\<lambda>x. x + v)),
      (''timers'', \<lambda>v. rc_Timers_update (\<lambda>x. x + v)), (''nomem'', \<lambda>v. rc_NoMem_update (\<lambda>x. x + v)),
      (''cantconn'', \<lambda>v. rc_CantConn_update (\<lambda>x. x + v)), (''interrupts'', \<lambda>v. rc_Interrupts_update (\<lambda>x. x + v)),
      (''retrans'', \<lambda>v. rc_Retrans_update (\<lambda>x. x + v)), (''cantsend'', \<lambda>v. rc_CantSend_update (\<lambda>x. x + v))]"

definition setNFSServerHeader_table :: "(string \<times> (u64 \<Rightarrow> nfs_server_stat \<Rightarrow> nfs_server_stat)) list" where
  "setNFSServerHeader_table =
     [(''calls'', \<lambda>v. nv_Calls_update (\<lambda>x. x + v)), (''badcalls'', \<lambda>v. nv_BadCalls_update (\<lambda>x. x + v)),
      (''public_v2'', \<lambda>v. nv_PublicV2_update (\<lambda>x. x + v)), (''public_v3'', \<lambda>v. nv_PublicV3_update (\<lambda>x. x + v))]"

definition setNFSClientHeader_table :: "(string \<times> (u64 \<Rightarrow> nfs_client_stat \<Rightarrow> nfs_client_stat)) list" where
  "setNFSClientHeader_table =
     [(''calls'', \<lambda>v. nc_Calls_update (\<lambda>x. x + v)), (''badcalls'', \<lambda>v. nc_BadCalls_update (\<lambda>x. x + v)),
      (''clgets'', \<lambda>v. nc_ClGets_update (\<lambda>x. x + v)), (''cltoomany'', \<lambda>v. nc_ClTooMany_update (\<lambda>x. x + v))]"

definition set_by :: "(string \<times> (u64 \<Rightarrow> 's \<Rightarrow> 's)) list \<Rightarrow> string \<Rightarrow> u64 \<Rightarrow> 's \<Rightarrow> 's" where
  "set_by table name v s = (case map_of table name of Some f \<Rightarrow> f v s | None \<Rightarrow> s)"

definition setRPCServer :: "string \<Rightarrow> u64 \<Rightarrow> rpc_server_stat \<Rightarrow> rpc_server_stat" where
  "setRPCServer = set_by setRPCServer_table"

definition setRPCClient :: "string \<Rightarrow> u64 \<Rightarrow> rpc_client_stat \<Rightarrow> rpc_client_stat" where
  "setRPCClient = set_by setRPCClient_table"

definition setNFSServerHeader :: "string \<Rightarrow> u64 \<Rightarrow> nfs_server_stat \<Rightarrow> nfs_server_stat" where
  "setNFSServerHeader = set_by setNFSServerHeader_table"

definition setNFSClientHeader :: "string \<Rightarrow> u64 \<Rightarrow> nfs_client_stat \<Rightarrow> nfs_client_stat" where
  "setNFSClientHeader = set_by setNFSClientHeader_table"

section \<open>The parser\<close>

definition isNumericField :: "string \<Rightarrow> bool" where
  "isNumericField s = (snd (parse_uint (trim_suffix s ''%'') 10 64) = None)"

definition parseUint64 :: "string \<Rightarrow> u64" where
  "parseUint64 s = word_of_nat (fst (parse_uint (trim_space (trim_suffix s ''%'')) 10 64))"

definition set_counter :: "string \<Rightarrow> string \<Rightarrow> u64 \<Rightarrow> nfs_stats \<Rightarrow> nfs_stats" where
  "set_counter sect name v stats =
     (if sect = ''server_rpc'' then stats\<lparr>st_RPCServerStats := setRPCServer name v (st_RPCServerStats stats)\<rparr>
      else if sect = ''client_rpc'' then stats\<lparr>st_RPCClientStats := setRPCClient name v (st_RPCClientStats stats)\<rparr>
      else if sect = ''server_nfs'' then stats\<lparr>st_NFSServerStats := setNFSServerHeader name v (st_NFSServerStats stats)\<rparr>
      else if sect = ''client_nfs'' then stats\<lparr>st_NFSClientStats := setNFSClientHeader name v (st_NFSClientStats stats)\<rparr>
      else stats)"

fun applyNamedValues :: "string \<Rightarrow> string list \<Rightarrow> string list \<Rightarrow> nfs_stats \<Rightarrow> nfs_stats" where
  "applyNamedValues sect (name # names) (x # xs) stats =
     applyNamedValues sect names xs (set_counter sect name (parseUint64 x) stats)"
| "applyNamedValues sect names xs stats = stats"

text \<open>The count of operation \<open>i\<close> is the token at twice its index.\<close>

fun operation_loop :: "string \<Rightarrow> nat \<Rightarrow> string list \<Rightarrow> string list \<Rightarrow> (string \<times> u64) list \<Rightarrow> (string \<times> u64) list" where
  "operation_loop version i [] tokens ops = ops"
| "operation_loop version i (name # names) tokens ops =
     (if length tokens \<le> i * 2 then ops
      else operation_loop version (Suc i) names tokens
        (alist_put (if version \<noteq> [] then version @ ''_'' @ name else name) (parseUint64 (tokens ! (i * 2))) ops))"

definition applyOperationCounts :: "string \<Rightarrow> string \<Rightarrow> string list \<Rightarrow> string list \<Rightarrow> nfs_stats \<Rightarrow> nfs_stats" where
  "applyOperationCounts sect version names tokens stats =
     (if sect = ''server_nfs'' then stats\<lparr>st_NFSServerStats :=
        nv_Operations_update (operation_loop version 0 names tokens) (st_NFSServerStats stats)\<rparr>
      else if sect = ''client_nfs'' then stats\<lparr>st_NFSClientStats :=
        nc_Operations_update (operation_loop version 0 names tokens) (st_NFSClientStats stats)\<rparr>
      else stats)"

text \<open>The state of the loop; without pending names the list is empty.\<close>

record nfs_state =
  np_section :: string
  np_version :: string
  np_pending :: "string list"
  np_stats :: nfs_stats

definition nfs_titles :: "(string \<times> string) list" where
  "nfs_titles = [(''Server rpc:'', ''server_rpc''), (''Server nfs:'', ''server_nfs''), (''Client rpc:'', ''client_rpc''),
     (''Client nfs:'', ''client_nfs'')]"

definition nfs_line :: "string \<Rightarrow> nfs_state \<Rightarrow> nfs_state" where
  "nfs_line raw p =
     (let line = trim_space raw in
      if line = [] then p\<lparr>np_pending := []\<rparr>
      else case find (\<lambda>(title, _). str_contains line title) nfs_titles of
        Some (_, sect) \<Rightarrow> p\<lparr>np_section := sect, np_version := [], np_pending := []\<rparr>
      | None \<Rightarrow>
          if str_contains line ''Connection oriented'' \<or> str_contains line ''Connectionless'' then p\<lparr>np_pending := []\<rparr>
          else if has_prefix line ''Version 2'' then p\<lparr>np_version := ''v2'', np_pending := []\<rparr>
          else if has_prefix line ''Version 3'' then p\<lparr>np_version := ''v3'', np_pending := []\<rparr>
          else let f = str_fields line in
            if f = [] then p
            else if \<not> isNumericField (hd f) then p\<lparr>np_pending := f\<rparr>
            else if np_pending p = [] then p
            else p\<lparr>np_pending := [], np_stats :=
              (if str_contains line ''%'' then applyOperationCounts (np_section p) (np_version p) (np_pending p) f (np_stats p)
               else applyNamedValues (np_section p) (np_pending p) f (np_stats p))\<rparr>)"

definition parseNfsstat :: "string \<Rightarrow> nfs_stats \<Rightarrow> nfs_stats" where
  "parseNfsstat output stats = np_stats (fold nfs_line (split_char nl output)
     \<lparr>np_section = [], np_version = [], np_pending = [], np_stats = stats\<rparr>)"

definition statsWithContext :: "host \<Rightarrow> nfs_stats result" where
  "statsWithContext h = (case h_command h ''nfsstat'' [] of
     (_, Some e) \<Rightarrow> Err e | (output, None) \<Rightarrow> Ok (parseNfsstat output empty_nfs_stats))"

definition ClientStatsWithContext :: "host \<Rightarrow> nfs_client_stat result" where
  "ClientStatsWithContext h = rbind (statsWithContext h) (\<lambda>stats. Ok (st_NFSClientStats stats))"

definition ServerStatsWithContext :: "host \<Rightarrow> nfs_server_stat result" where
  "ServerStatsWithContext h = rbind (statsWithContext h) (\<lambda>stats. Ok (st_NFSServerStats stats))"

section \<open>The counters of a section\<close>

text \<open>The counters of the four sections with their selectors, and the law of one assignment.\<close>

definition rpc_server_sels :: "(string \<times> (rpc_server_stat \<Rightarrow> u64)) list" where
  "rpc_server_sels = [(''calls'', rs_Calls), (''badcalls'', rs_BadCalls), (''nullrecv'', rs_NullRecv), (''badlen'', rs_BadLen),
     (''xdrcall'', rs_XdrCall), (''dupchecks'', rs_DupChecks), (''dupreqs'', rs_DupReqs)]"

definition rpc_client_sels :: "(string \<times> (rpc_client_stat \<Rightarrow> u64)) list" where
  "rpc_client_sels = [(''calls'', rc_Calls), (''badcalls'', rc_BadCalls), (''badxids'', rc_BadXIDs), (''timeouts'', rc_Timeouts),
     (''newcreds'', rc_NewCreds), (''badverfs'', rc_BadVerfs), (''timers'', rc_Timers), (''nomem'', rc_NoMem),
     (''cantconn'', rc_CantConn), (''interrupts'', rc_Interrupts), (''retrans'', rc_Retrans), (''cantsend'', rc_CantSend)]"

definition nfs_server_sels :: "(string \<times> (nfs_server_stat \<Rightarrow> u64)) list" where
  "nfs_server_sels = [(''calls'', nv_Calls), (''badcalls'', nv_BadCalls), (''public_v2'', nv_PublicV2), (''public_v3'', nv_PublicV3)]"

definition nfs_client_sels :: "(string \<times> (nfs_client_stat \<Rightarrow> u64)) list" where
  "nfs_client_sels = [(''calls'', nc_Calls), (''badcalls'', nc_BadCalls), (''clgets'', nc_ClGets), (''cltoomany'', nc_ClTooMany)]"

definition nfs_counters :: "(string \<times> string \<times> (nfs_stats \<Rightarrow> u64)) list" where
  "nfs_counters =
     map (\<lambda>(n, sel). (''server_rpc'', n, \<lambda>s. sel (st_RPCServerStats s))) rpc_server_sels @
     map (\<lambda>(n, sel). (''client_rpc'', n, \<lambda>s. sel (st_RPCClientStats s))) rpc_client_sels @
     map (\<lambda>(n, sel). (''server_nfs'', n, \<lambda>s. sel (st_NFSServerStats s))) nfs_server_sels @
     map (\<lambda>(n, sel). (''client_nfs'', n, \<lambda>s. sel (st_NFSClientStats s))) nfs_client_sels"

text \<open>The contract of a table of setters and the selectors of its columns.\<close>

locale counter_table =
  fixes table :: "(string \<times> (u64 \<Rightarrow> 's \<Rightarrow> 's)) list" and sels :: "(string \<times> ('s \<Rightarrow> u64)) list"
  assumes names: "map fst sels = map fst table"
    and adds: "list_all (\<lambda>(name, f). list_all (\<lambda>(n, sel). sel (f v s) = sel s + (if n = name then v else 0)) sels) table"
begin

lemma sel_set:
  assumes "(n, sel) \<in> set sels"
  shows "sel (set_by table name v s) = sel s + (if n = name then v else 0)"
proof (cases "map_of table name")
  case None
  have "n \<in> fst ` set sels" using assms by force
  then have "n \<noteq> name" using None names by (metis list.set_map map_of_eq_None_iff)
  with None show ?thesis by (simp add: set_by_def)
next
  case (Some f)
  then have "(name, f) \<in> set table" by (rule map_of_SomeD)
  with adds [of v s] have "list_all (\<lambda>(n, sel). sel (f v s) = sel s + (if n = name then v else 0)) sels"
    unfolding list_all_iff by blast
  with assms Some show ?thesis by (auto simp: set_by_def list_all_iff)
qed

end

interpretation rpc_server: counter_table setRPCServer_table rpc_server_sels
  by unfold_locales (simp_all add: setRPCServer_table_def rpc_server_sels_def)

interpretation rpc_client: counter_table setRPCClient_table rpc_client_sels
  by unfold_locales (simp_all add: setRPCClient_table_def rpc_client_sels_def)

interpretation nfs_server: counter_table setNFSServerHeader_table nfs_server_sels
  by unfold_locales (simp_all add: setNFSServerHeader_table_def nfs_server_sels_def)

interpretation nfs_client: counter_table setNFSClientHeader_table nfs_client_sels
  by unfold_locales (simp_all add: setNFSClientHeader_table_def nfs_client_sels_def)

lemma sel_set_counter:
  assumes "(sect, n, sel) \<in> set nfs_counters"
  shows "sel (set_counter sect' name v s) = sel s + (if sect = sect' \<and> n = name then v else 0)"
proof -
  note sets = setRPCServer_def setRPCClient_def setNFSServerHeader_def setNFSClientHeader_def
  consider (a) x where "sect = ''server_rpc''" "(n, x) \<in> set rpc_server_sels" "sel = (\<lambda>s. x (st_RPCServerStats s))"
    | (b) x where "sect = ''client_rpc''" "(n, x) \<in> set rpc_client_sels" "sel = (\<lambda>s. x (st_RPCClientStats s))"
    | (c) x where "sect = ''server_nfs''" "(n, x) \<in> set nfs_server_sels" "sel = (\<lambda>s. x (st_NFSServerStats s))"
    | (d) x where "sect = ''client_nfs''" "(n, x) \<in> set nfs_client_sels" "sel = (\<lambda>s. x (st_NFSClientStats s))"
    using assms by (auto simp only: nfs_counters_def set_append set_map)
  then show ?thesis
  proof cases
    case a
    then show ?thesis by (simp add: set_counter_def sets rpc_server.sel_set [OF a(2)])
  next
    case b
    then show ?thesis by (simp add: set_counter_def sets rpc_client.sel_set [OF b(2)])
  next
    case c
    then show ?thesis by (simp add: set_counter_def sets nfs_server.sel_set [OF c(2)])
  next
    case d
    then show ?thesis by (simp add: set_counter_def sets nfs_client.sel_set [OF d(2)])
  qed
qed

definition row_sum :: "string \<Rightarrow> (string \<times> u64) list \<Rightarrow> u64" where
  "row_sum n row = (\<Sum>(name, v)\<leftarrow>row. if name = n then v else 0)"

lemma sel_applyNamedValues:
  assumes "(sect, n, sel) \<in> set nfs_counters"
  shows "sel (applyNamedValues sect' names xs s) =
    sel s + (if sect = sect' then row_sum n (zip names (map parseUint64 xs)) else 0)"
proof (induction sect' names xs s rule: applyNamedValues.induct)
  case (1 sect' name names x xs stats)
  then show ?case by (simp add: sel_set_counter [OF assms] row_sum_def)
qed (simp_all add: row_sum_def)

section \<open>What nfsstat prints\<close>

text \<open>
  A section has a title and then, in any order and number: blank lines, the lines that name a transport, the lines that open a version with the
  number of its calls, and pairs of rows, names and values. The values of a row of counters are numbers; those of a row of operations are a count
  and a percentage each. A row is printed in columns: every cell is followed by at least one blank, the number of which is an arbitrary
  function \<open>pad\<close> of its text (\<^verbatim>\<open>nfsstat\<close> fills cells to 11 characters). Names are lower-case words, as \<^verbatim>\<open>public_v2\<close> and \<^verbatim>\<open>readdir+\<close>.
\<close>

datatype nfs_item =
    Blank
  | Transport string
  | Version nat u64
  | Counters "(string \<times> u64) list"
  | Operations "(string \<times> u64 \<times> nat) list"

definition transports :: "string list" where
  "transports = [''Connection oriented'', ''Connectionless'']"

definition version_names :: "(nat \<times> string) list" where
  "version_names = [(2, ''v2''), (3, ''v3'')]"

definition name_char :: "char \<Rightarrow> bool" where
  "name_char c \<longleftrightarrow> 97 \<le> (of_char c :: nat) \<and> (of_char c :: nat) \<le> 122 \<or> is_digit c \<or> c = CHR ''_'' \<or> c = CHR ''+''"

definition counter_name :: "string \<Rightarrow> bool" where
  "counter_name n \<longleftrightarrow> n \<noteq> [] \<and> 97 \<le> (of_char (hd n) :: nat) \<and> (of_char (hd n) :: nat) \<le> 122 \<and> list_all name_char n"

fun item_ok :: "nfs_item \<Rightarrow> bool" where
  "item_ok Blank \<longleftrightarrow> True"
| "item_ok (Transport l) \<longleftrightarrow> l \<in> set transports"
| "item_ok (Version v calls) \<longleftrightarrow> v \<in> {2, 3}"
| "item_ok (Counters row) \<longleftrightarrow> row \<noteq> [] \<and> list_all (\<lambda>(n, _). counter_name n) row"
| "item_ok (Operations row) \<longleftrightarrow> row \<noteq> [] \<and> list_all (\<lambda>(n, _). counter_name n) row"

text \<open>The words of each cell, and the printed row.\<close>

definition print_cell :: "(string \<Rightarrow> nat) \<Rightarrow> string list \<Rightarrow> string" where
  "print_cell pad ws = join '' '' ws @ replicate (Suc (pad (join '' '' ws))) (CHR '' '')"

definition print_row :: "(string \<Rightarrow> nat) \<Rightarrow> string list list \<Rightarrow> string" where
  "print_row pad cells = concat (map (print_cell pad) cells)"

abbreviation number :: "u64 \<Rightarrow> string" where
  "number v \<equiv> fmt_nat (unat v)"

fun item_lines :: "(string \<Rightarrow> nat) \<Rightarrow> nfs_item \<Rightarrow> string list" where
  "item_lines pad Blank = [[]]"
| "item_lines pad (Transport l) = [l]"
| "item_lines pad (Version v calls) = [''Version '' @ fmt_nat v @ '': ('' @ number calls @ '' calls)'']"
| "item_lines pad (Counters row) = [print_row pad (map (\<lambda>(n, _). [n]) row), print_row pad (map (\<lambda>(_, v). [number v]) row)]"
| "item_lines pad (Operations row) =
     [print_row pad (map (\<lambda>(n, _). [n]) row), print_row pad (map (\<lambda>(_, c, pct). [number c, fmt_nat pct @ ''%'']) row)]"

definition section_lines :: "(string \<Rightarrow> nat) \<Rightarrow> string \<times> nfs_item list \<Rightarrow> string list" where
  "section_lines pad = (\<lambda>(title, items). title # concat (map (item_lines pad) items))"

definition section_ok :: "string \<times> nfs_item list \<Rightarrow> bool" where
  "section_ok = (\<lambda>(title, items). map_of nfs_titles title \<noteq> None \<and> list_all item_ok items)"

definition nfsstat_text :: "(string \<Rightarrow> nat) \<Rightarrow> nat \<Rightarrow> (string \<times> nfs_item list) list \<Rightarrow> string" where
  "nfsstat_text pad lead secs = join [nl] (replicate lead [] @ concat (map (section_lines pad) secs))"

text \<open>What the counters and the operations of a section should be: the sums of the values printed under a name, and the counts under
  the names with the version that was opened last.\<close>

fun item_sum :: "string \<Rightarrow> nfs_item \<Rightarrow> u64" where
  "item_sum n (Counters row) = row_sum n row"
| "item_sum n _ = 0"

fun item_version :: "string \<Rightarrow> nfs_item \<Rightarrow> string" where
  "item_version ver (Version v calls) = (case map_of version_names v of Some name \<Rightarrow> name | None \<Rightarrow> ver)"
| "item_version ver _ = ver"

definition operation_key :: "string \<Rightarrow> string \<Rightarrow> string" where
  "operation_key ver n = (if ver \<noteq> [] then ver @ ''_'' @ n else n)"

fun item_operations :: "string \<Rightarrow> nfs_item \<Rightarrow> (string \<times> u64) list" where
  "item_operations ver (Operations row) = map (\<lambda>(n, c, _). (operation_key ver n, c)) row"
| "item_operations ver _ = []"

fun items_operations :: "string \<Rightarrow> nfs_item list \<Rightarrow> (string \<times> u64) list" where
  "items_operations ver [] = []"
| "items_operations ver (it # items) = item_operations ver it @ items_operations (item_version ver it) items"

definition sections_sum :: "string \<Rightarrow> string \<Rightarrow> (string \<times> nfs_item list) list \<Rightarrow> u64" where
  "sections_sum sect n secs = (\<Sum>(title, items)\<leftarrow>secs.
     if map_of nfs_titles title = Some sect then \<Sum>it\<leftarrow>items. item_sum n it else 0)"

definition sections_operations :: "string \<Rightarrow> (string \<times> nfs_item list) list \<Rightarrow> (string \<times> u64) list" where
  "sections_operations sect secs = concat (map (\<lambda>(title, items).
     if map_of nfs_titles title = Some sect then items_operations [] items else []) secs)"

section \<open>Printed rows\<close>

lemma trim_right_space_snoc: "is_ascii_space c \<Longrightarrow> trim_right_space (s @ [c]) = trim_right_space s"
  by (subst trim_right_space.simps) (simp add: space_suffix_len_ascii ascii_space_low)

lemma trim_space_blanks:
  assumes "t \<noteq> []" and "plain [hd t]" and "plain [last t]"
  shows "trim_space (t @ replicate k (CHR '' '')) = t"
proof -
  have "trim_right_space (t @ replicate k (CHR '' '')) = t"
  proof (induction k)
    case 0
    then show ?case using assms by (simp add: trim_right_space_last)
  next
    case (Suc k)
    then show ?case
      using trim_right_space_snoc [of "CHR '' ''" "t @ replicate k (CHR '' '')"] by (simp add: replicate_append_same)
  qed
  moreover have "trim_left_space (t @ replicate k (CHR '' '')) = t @ replicate k (CHR '' '')"
    using assms by (intro trim_left_space_hd) simp_all
  ultimately show ?thesis by (simp add: trim_space_def)
qed

lemma fields_blanks: "str_fields (replicate k (CHR '' '') @ s) = str_fields s"
  by (induction k) simp_all

lemma fields_join_space:
  assumes "ws \<noteq> []" and "\<And>w. w \<in> set ws \<Longrightarrow> plain w \<and> w \<noteq> []"
  shows "str_fields (join '' '' ws @ CHR '' '' # s) = ws @ str_fields s"
  using assms by (induction "'' ''" ws rule: join.induct) (simp_all add: fields_word_space)

definition cells_ok :: "string list list \<Rightarrow> bool" where
  "cells_ok cells \<longleftrightarrow> cells \<noteq> [] \<and> list_all (\<lambda>ws. ws \<noteq> [] \<and> list_all (\<lambda>w. plain w \<and> w \<noteq> []) ws) cells"

text \<open>A row without the blanks at its end: its fields are the words of its cells, and its characters are theirs and blanks.\<close>

definition row_core :: "string list list \<Rightarrow> string \<Rightarrow> bool" where
  "row_core cells t \<longleftrightarrow> t \<noteq> [] \<and> plain [hd t] \<and> plain [last t] \<and> str_fields t = concat cells \<and>
     (\<forall>c. c \<noteq> CHR '' '' \<longrightarrow> (c \<in> set t \<longleftrightarrow> (\<exists>w \<in> set (concat cells). c \<in> set w)))"

lemma row_text:
  assumes "cells_ok cells"
  shows "\<exists>t k. print_row pad cells = t @ replicate k (CHR '' '') \<and> row_core cells t"
  using assms
proof (induction cells)
  case (Cons ws cells)
  let ?c = "join '' '' ws"
  have ws: "ws \<noteq> []" "\<And>w. w \<in> set ws \<Longrightarrow> plain w \<and> w \<noteq> []" using Cons.prems by (auto simp: cells_ok_def list_all_iff)
  have ends: "w \<noteq> [] \<and> plain [hd w] \<and> plain [last w]" if "w \<in> set ws" for w
    using ws(2) [OF that] by (auto simp: plain_def)
  have "last ?c = last (last ws)" using ws by (intro last_join) blast+
  then have "plain [hd ?c]" "plain [last ?c]"
    using ends [of "hd ws"] ends [of "last ws"] ws(1) by (simp_all add: hd_join)
  moreover have "?c \<noteq> []" using ws by (intro join_not_Nil) blast+
  moreover have "\<forall>c. c \<noteq> CHR '' '' \<longrightarrow> (c \<in> set ?c \<longleftrightarrow> (\<exists>w \<in> set ws. c \<in> set w))"
    by (induction "'' ''" ws rule: join.induct) auto
  moreover note fields_join [OF ws(2)]
  ultimately have c: "?c \<noteq> []" "plain [hd ?c]" "plain [last ?c]" "str_fields ?c = ws"
    "\<forall>c. c \<noteq> CHR '' '' \<longrightarrow> (c \<in> set ?c \<longleftrightarrow> (\<exists>w \<in> set ws. c \<in> set w))" by blast+
  show ?case
  proof (cases "cells = []")
    case True
    with c show ?thesis
      by (intro exI [of _ ?c] exI [of _ "Suc (pad ?c)"]) (simp add: print_row_def print_cell_def row_core_def)
  next
    case False
    then have "cells_ok cells" using Cons.prems by (simp add: cells_ok_def)
    from Cons.IH [OF this] obtain t k where row: "print_row pad cells = t @ replicate k (CHR '' '')" and "row_core cells t" by blast
    then have t: "t \<noteq> []" "plain [last t]" "str_fields t = concat cells"
      "(\<forall>c. c \<noteq> CHR '' '' \<longrightarrow> (c \<in> set t \<longleftrightarrow> (\<exists>w \<in> set (concat cells). c \<in> set w)))" by (simp_all add: row_core_def)
    let ?t = "?c @ replicate (Suc (pad ?c)) (CHR '' '') @ t"
    have "print_row pad (ws # cells) = ?t @ replicate k (CHR '' '')"
      using row by (simp add: print_row_def print_cell_def)
    moreover have "str_fields ?t = concat (ws # cells)"
      using fields_join_space [OF ws, of "replicate (pad ?c) (CHR '' '') @ t"] by (simp add: fields_blanks t(3))
    moreover have "\<forall>c. c \<noteq> CHR '' '' \<longrightarrow> (c \<in> set ?t \<longleftrightarrow> (\<exists>w \<in> set (concat (ws # cells)). c \<in> set w))"
      using c(5) t(4) by (simp add: bex_Un)
    ultimately show ?thesis
      using c(1,2) t(1,2) by (intro exI [of _ ?t] exI [of _ k]) (simp add: row_core_def)
  qed
qed (simp add: cells_ok_def)

lemma contains_char: "str_contains s [c] \<longleftrightarrow> c \<in> set s"
  by (auto simp: str_contains_def sublist_def in_set_conv_decomp)

lemma no_header:
  assumes "CHR ''S'' \<notin> set l" and "CHR ''C'' \<notin> set l"
  shows "find (\<lambda>(title, _). str_contains l title) nfs_titles = None"
    and "\<not> str_contains l ''Connection oriented''" and "\<not> str_contains l ''Connectionless''"
    and "CHR ''V'' \<notin> set l \<Longrightarrow> \<not> has_prefix l ''Version 2''" and "CHR ''V'' \<notin> set l \<Longrightarrow> \<not> has_prefix l ''Version 3''"
  using assms
  by (auto simp: nfs_titles_def str_contains_def has_prefix_def dest!: set_mono_sublist set_mono_prefix)

text \<open>A row is read by the words of its cells: names, or values for the names before.\<close>

lemma nfs_row:
  assumes "cells_ok cells" and "list_all (\<lambda>w. CHR ''S'' \<notin> set w \<and> CHR ''C'' \<notin> set w \<and> CHR ''V'' \<notin> set w) (concat cells)"
  shows "nfs_line (print_row pad cells) p =
    (if \<not> isNumericField (hd (concat cells)) then p\<lparr>np_pending := concat cells\<rparr>
     else if np_pending p = [] then p
     else p\<lparr>np_pending := [], np_stats :=
       (if list_ex (\<lambda>w. CHR ''%'' \<in> set w) (concat cells)
        then applyOperationCounts (np_section p) (np_version p) (np_pending p) (concat cells) (np_stats p)
        else applyNamedValues (np_section p) (np_pending p) (concat cells) (np_stats p))\<rparr>)"
proof -
  obtain t k where row: "print_row pad cells = t @ replicate k (CHR '' '')" and core: "row_core cells t"
    using row_text [OF assms(1)] by blast
  have tr: "trim_space (print_row pad cells) = t" and t: "t \<noteq> []" "str_fields t = concat cells"
    using core by (simp_all add: row row_core_def trim_space_blanks)
  have chars: "c \<in> set t \<longleftrightarrow> (\<exists>w \<in> set (concat cells). c \<in> set w)" if "c \<noteq> CHR '' ''" for c
    using core that unfolding row_core_def by blast
  have "CHR ''S'' \<notin> set t" "CHR ''C'' \<notin> set t" "CHR ''V'' \<notin> set t"
    using assms(2) by (auto simp: chars list_all_iff)
  note quiet = no_header [OF this(1,2)] no_header(4,5) [OF this]
  have "str_contains t ''%'' \<longleftrightarrow> list_ex (\<lambda>w. CHR ''%'' \<in> set w) (concat cells)"
    by (auto simp: contains_char chars list_ex_iff)
  moreover have "concat cells \<noteq> []"
    using assms(1) by (cases cells) (auto simp: cells_ok_def)
  ultimately show ?thesis
    by (simp only: nfs_line_def tr t quiet Let_def if_False if_True HOL.simp_thms option.case)
qed

lemma name_char_range: "name_char c \<Longrightarrow> (of_char c :: nat) < 128 \<and> \<not> is_ascii_space c \<and> c \<notin> {CHR ''S'', CHR ''C'', CHR ''V'', CHR ''%'', nl}"
  by (auto simp: name_char_def is_digit_def is_ascii_space_def)

lemma counter_name_word:
  assumes "counter_name n"
  shows "plain n" "n \<noteq> []" "CHR ''S'' \<notin> set n" "CHR ''C'' \<notin> set n" "CHR ''V'' \<notin> set n" "CHR ''%'' \<notin> set n" "nl \<notin> set n"
  using assms by (auto simp: counter_name_def plain_def list_all_iff dest!: name_char_range)

lemma counter_name_not_numeric: "counter_name n \<Longrightarrow> \<not> isNumericField n"
proof -
  assume n: "counter_name n"
  then obtain c t where ct: "n = c # t" "97 \<le> (of_char c :: nat)" "(of_char c :: nat) \<le> 122"
    by (cases n) (auto simp: counter_name_def)
  have "trim_suffix n ''%'' = n" using counter_name_word(6) [OF n] by (auto simp: trim_suffix_def dest: set_mono_suffix)
  then show ?thesis
    using ct by (auto simp: isNumericField_def parse_uint_def base_prefix_def digit_of_def Let_def)
qed

lemma fmt_nat_digits: "c \<in> set (fmt_nat n) \<Longrightarrow> is_digit c"
  using decimal_chars decimal_fmt_nat by blast

lemma fmt_nat_quiet [simp]:
  "CHR ''S'' \<notin> set (fmt_nat n)" "CHR ''C'' \<notin> set (fmt_nat n)" "CHR ''V'' \<notin> set (fmt_nat n)" "CHR ''%'' \<notin> set (fmt_nat n)" "nl \<notin> set (fmt_nat n)"
  by (auto simp: is_digit_def dest!: fmt_nat_digits)

lemma numeric_number [simp]: "isNumericField (number v)" "parseUint64 (number v) = v"
proof -
  have t: "trim_suffix (number v) ''%'' = number v" by (auto simp: trim_suffix_def dest: set_mono_suffix)
  have p: "parse_uint (number v) 10 64 = (unat v, None)"
    using unsigned_less [of v, where 'a=nat] by (intro parse_uint_fmt_nat) simp
  show "isNumericField (number v)" "parseUint64 (number v) = v"
    by (simp_all add: isNumericField_def parseUint64_def t p)
qed

lemma nfs_names:
  assumes "row \<noteq> []" and "list_all (\<lambda>(n, _). counter_name n) row"
  shows "nfs_line (print_row pad (map (\<lambda>(n, _). [n]) row)) p = p\<lparr>np_pending := map fst row\<rparr>"
proof -
  have words: "concat (map (\<lambda>(n, _). [n]) row) = map fst row" by (induction row) auto
  have n: "counter_name n" if "n \<in> set (map fst row)" for n using that assms(2) by (auto simp: list_all_iff)
  have "cells_ok (map (\<lambda>(n, _). [n]) row)"
    using assms by (auto simp: cells_ok_def list_all_iff dest: counter_name_word(1,2))
  moreover have "list_all (\<lambda>w. CHR ''S'' \<notin> set w \<and> CHR ''C'' \<notin> set w \<and> CHR ''V'' \<notin> set w) (map fst row)"
    unfolding list_all_iff using counter_name_word [OF n] by blast
  moreover have "\<not> isNumericField (hd (map fst row))"
    using assms(1) by (intro counter_name_not_numeric n hd_in_set) simp
  ultimately show ?thesis by (subst nfs_row) (simp_all only: words if_True HOL.simp_thms)
qed

lemma nfs_values:
  assumes "row \<noteq> []" and "np_pending p \<noteq> []"
  shows "nfs_line (print_row pad (map (\<lambda>(_, v). [number v]) row)) p =
    p\<lparr>np_pending := [], np_stats := applyNamedValues (np_section p) (np_pending p) (map (\<lambda>(_, v). number v) row) (np_stats p)\<rparr>"
proof -
  have words: "concat (map (\<lambda>(_, v). [number v]) row) = map (\<lambda>(_, v). number v) row" by (induction row) auto
  have "cells_ok (map (\<lambda>(_, v). [number v]) row)"
    using assms(1) by (auto simp: cells_ok_def list_all_iff)
  moreover have "list_all (\<lambda>w. CHR ''S'' \<notin> set w \<and> CHR ''C'' \<notin> set w \<and> CHR ''V'' \<notin> set w) (map (\<lambda>(_, v). number v) row)"
    "\<not> list_ex (\<lambda>w. CHR ''%'' \<in> set w) (map (\<lambda>(_, v). number v) row)"
    by (auto simp: list_all_iff list_ex_iff)
  moreover have "isNumericField (hd (map (\<lambda>(_, v). number v) row))"
    using assms(1) by (cases row) auto
  ultimately show ?thesis using assms(2) by (subst nfs_row) (simp_all only: words if_True if_False HOL.simp_thms)
qed

definition operation_tokens :: "(string \<times> u64 \<times> nat) list \<Rightarrow> string list" where
  "operation_tokens row = concat (map (\<lambda>(_, c, pct). [number c, fmt_nat pct @ ''%'']) row)"

lemma nfs_operations:
  assumes "row \<noteq> []" and "np_pending p \<noteq> []"
  shows "nfs_line (print_row pad (map (\<lambda>(_, c, pct). [number c, fmt_nat pct @ ''%'']) row)) p =
    p\<lparr>np_pending := [], np_stats := applyOperationCounts (np_section p) (np_version p) (np_pending p) (operation_tokens row) (np_stats p)\<rparr>"
proof -
  obtain n c pct rest where row: "row = (n, c, pct) # rest" using assms(1) by (cases row) auto
  have "cells_ok (map (\<lambda>(_, c, pct). [number c, fmt_nat pct @ ''%'']) row)"
    using assms(1) by (auto simp: cells_ok_def list_all_iff is_ascii_space_def)
  moreover have "list_all (\<lambda>w. CHR ''S'' \<notin> set w \<and> CHR ''C'' \<notin> set w \<and> CHR ''V'' \<notin> set w) (operation_tokens row)"
    by (auto simp: operation_tokens_def list_all_iff)
  moreover have "list_ex (\<lambda>w. CHR ''%'' \<in> set w) (operation_tokens row)" "isNumericField (hd (operation_tokens row))"
    by (simp_all add: row operation_tokens_def)
  ultimately show ?thesis
    using assms(2) by (subst nfs_row) (simp_all only: operation_tokens_def [symmetric] if_True if_False HOL.simp_thms)
qed

abbreviation put_all :: "(string \<times> u64) list \<Rightarrow> (string \<times> u64) list \<Rightarrow> (string \<times> u64) list" where
  "put_all kvs \<equiv> fold (\<lambda>(k, v). alist_put k v) kvs"

lemma map_of_put_all: "map_of (put_all kvs m) = map_of m ++ map_of (rev kvs)"
  by (induction kvs arbitrary: m) (auto simp: fun_eq_iff map_add_def split: option.splits)

text \<open>The count of every operation is taken, and the percentages are skipped.\<close>

lemma operation_loop_row:
  assumes "length pre = i * 2"
  shows "operation_loop ver i (map fst row) (pre @ operation_tokens row) ops = put_all (item_operations ver (Operations row)) ops"
  using assms
proof (induction row arbitrary: i pre ops)
  case (Cons r row)
  obtain n c pct where r: "r = (n, c, pct)" by (cases r)
  have "operation_loop ver (Suc i) (map fst row) ((pre @ [number c, fmt_nat pct @ ''%'']) @ operation_tokens row)
      (alist_put (operation_key ver n) c ops) = put_all (item_operations ver (Operations row)) (alist_put (operation_key ver n) c ops)"
    using Cons.prems by (intro Cons.IH) simp
  then show ?case
    using Cons.prems by (simp add: r operation_tokens_def operation_key_def nth_append)
qed simp

section \<open>The machine on printed sections\<close>

lemma nfs_blank: "nfs_line [] p = p\<lparr>np_pending := []\<rparr>"
  by (simp add: nfs_line_def)

lemma nfs_transport:
  assumes "l \<in> set transports"
  shows "nfs_line l p = p\<lparr>np_pending := []\<rparr>"
proof -
  have "list_all (\<lambda>l. trim_space l = l \<and> l \<noteq> [] \<and> find (\<lambda>(title, _). str_contains l title) nfs_titles = None \<and>
      (str_contains l ''Connection oriented'' \<or> str_contains l ''Connectionless'')) transports"
    by code_simp
  then show ?thesis using assms by (auto simp: list_all_iff nfs_line_def Let_def)
qed

lemma nfs_version:
  assumes "map_of version_names v = Some ver"
  shows "nfs_line (''Version '' @ fmt_nat v @ '': ('' @ number calls @ '' calls)'') p = p\<lparr>np_version := ver, np_pending := []\<rparr>"
proof -
  let ?l = "''Version '' @ fmt_nat v @ '': ('' @ number calls @ '' calls)''"
  have "trim_space ?l = ?l" by (intro trim_space_ends) (simp_all add: is_ascii_space_def)
  moreover have "CHR ''S'' \<notin> set ?l" "CHR ''C'' \<notin> set ?l" by simp_all
  note no_header(1-3) [OF this]
  moreover have "(v, ver) = (2, ''v2'') \<or> (v, ver) = (3, ''v3'')" using assms by (auto simp: version_names_def split: if_splits)
  moreover have "fmt_nat 2 = ''2''" "fmt_nat 3 = ''3''" by code_simp+
  ultimately show ?thesis by (auto simp: nfs_line_def Let_def has_prefix_def)
qed

lemma nfs_title:
  assumes "map_of nfs_titles title = Some sect"
  shows "nfs_line title p = p\<lparr>np_section := sect, np_version := [], np_pending := []\<rparr>"
proof -
  have "list_all (\<lambda>(t, sec). trim_space t = t \<and> t \<noteq> [] \<and> find (\<lambda>(title, _). str_contains t title) nfs_titles = Some (t, sec)) nfs_titles"
    by code_simp
  then have "trim_space title = title" "title \<noteq> []" "find (\<lambda>(t, _). str_contains title t) nfs_titles = Some (title, sect)"
    using map_of_SomeD [OF assms] by (auto simp: list_all_iff)
  then show ?thesis by (simp add: nfs_line_def Let_def)
qed

text \<open>What an item does to the statistics.\<close>

fun item_stats :: "string \<Rightarrow> string \<Rightarrow> nfs_item \<Rightarrow> nfs_stats \<Rightarrow> nfs_stats" where
  "item_stats sect ver (Counters row) stats = applyNamedValues sect (map fst row) (map (\<lambda>(_, v). number v) row) stats"
| "item_stats sect ver (Operations row) stats = applyOperationCounts sect ver (map fst row) (operation_tokens row) stats"
| "item_stats sect ver _ stats = stats"

lemma nfs_item:
  assumes "item_ok it"
  shows "\<exists>pending. fold nfs_line (item_lines pad it) p = p\<lparr>np_version := item_version (np_version p) it, np_pending := pending,
    np_stats := item_stats (np_section p) (np_version p) it (np_stats p)\<rparr>"
proof (cases it)
  case Blank
  then show ?thesis by (auto simp: nfs_blank)
next
  case (Transport l)
  with assms show ?thesis by (auto simp: nfs_transport)
next
  case (Version v calls)
  with assms obtain ver where ver: "map_of version_names v = Some ver" by (auto simp: version_names_def)
  with Version nfs_version [OF ver, of calls p] show ?thesis by auto
next
  case (Counters row)
  with assms have "row \<noteq> []" "list_all (\<lambda>(n, _). counter_name n) row" by simp_all
  with Counters nfs_values [of row "p\<lparr>np_pending := map fst row\<rparr>"] show ?thesis by (auto simp: nfs_names)
next
  case (Operations row)
  with assms have "row \<noteq> []" "list_all (\<lambda>(n, _). counter_name n) row" by simp_all
  with Operations nfs_operations [of row "p\<lparr>np_pending := map fst row\<rparr>"] show ?thesis by (auto simp: nfs_names)
qed

text \<open>Observations of the statistics that an item changes in its own section only: the counters add up what the item has, the operations of the
  two NFS sections are entered in order.\<close>

lemma sel_item_stats:
  assumes "(sect, n, sel) \<in> set nfs_counters"
  shows "sel (item_stats sect' ver it s) = sel s + (if sect = sect' then item_sum n it else 0)"
proof (cases it)
  case (Counters row)
  have "map parseUint64 (map (\<lambda>(_, v). number v) row) = map snd row" by (simp add: comp_def case_prod_beta)
  then have "zip (map fst row) (map parseUint64 (map (\<lambda>(_, v). number v) row)) = row" by (simp only: zip_map_fst_snd)
  then show ?thesis by (simp only: Counters item_stats.simps item_sum.simps sel_applyNamedValues [OF assms])
next
  case (Operations row)
  have "sel (applyOperationCounts sect' ver ns ts s) = sel s" for ns ts
    using assms
    by (auto simp: nfs_counters_def rpc_server_sels_def rpc_client_sels_def nfs_server_sels_def nfs_client_sels_def applyOperationCounts_def)
  with Operations show ?thesis by simp
qed simp_all

definition operations_of :: "string \<Rightarrow> nfs_stats \<Rightarrow> (string \<times> u64) list" where
  "operations_of sect s = (if sect = ''server_nfs'' then nv_Operations (st_NFSServerStats s) else nc_Operations (st_NFSClientStats s))"

lemma header_keeps_operations:
  "nv_Operations (setNFSServerHeader n v s) = nv_Operations s" "nc_Operations (setNFSClientHeader n v t) = nc_Operations t"
  by (auto simp: setNFSServerHeader_def setNFSClientHeader_def set_by_def setNFSServerHeader_table_def setNFSClientHeader_table_def
      split: option.splits if_splits)

lemma operations_item_stats:
  assumes "sect \<in> {''server_nfs'', ''client_nfs''}"
  shows "operations_of sect (item_stats sect' ver it s) =
    put_all (if sect = sect' then item_operations ver it else []) (operations_of sect s)"
proof (cases it)
  case (Counters row)
  have "operations_of sect (applyNamedValues sect' ns xs s) = operations_of sect s" for ns xs
    by (induction sect' ns xs s rule: applyNamedValues.induct) (simp_all add: operations_of_def set_counter_def header_keeps_operations)
  with Counters show ?thesis by simp
next
  case (Operations row)
  then show ?thesis
    using assms operation_loop_row [of "[]" 0 ver row] by (auto simp: operations_of_def applyOperationCounts_def)
qed simp_all

lemma nfs_items:
  assumes "list_all item_ok items"
  shows "let p' = fold nfs_line (concat (map (item_lines pad) items)) p in
    ((sect, n, sel) \<in> set nfs_counters \<longrightarrow>
      sel (np_stats p') = sel (np_stats p) + (if sect = np_section p then \<Sum>it\<leftarrow>items. item_sum n it else 0)) \<and>
    (sect \<in> {''server_nfs'', ''client_nfs''} \<longrightarrow> operations_of sect (np_stats p') =
      put_all (if sect = np_section p then items_operations (np_version p) items else []) (operations_of sect (np_stats p)))"
  using assms
proof (induction items arbitrary: p)
  case (Cons it items)
  from Cons.prems obtain q where q: "fold nfs_line (item_lines pad it) p = q" "np_section q = np_section p"
    "np_version q = item_version (np_version p) it" "np_stats q = item_stats (np_section p) (np_version p) it (np_stats p)"
    using nfs_item [of it pad p] by auto
  from Cons.prems have "list_all item_ok items" by simp
  note IH = Cons.IH [OF this, of q, unfolded Let_def q(2-4)]
  show ?case
    using IH sel_item_stats [of sect n sel] operations_item_stats [of sect]
    by (auto simp: Let_def q(1) add.assoc)
qed simp

lemma nfs_sections:
  assumes "list_all section_ok secs"
  shows "let p' = fold nfs_line (concat (map (section_lines pad) secs)) p in
    ((sect, n, sel) \<in> set nfs_counters \<longrightarrow> sel (np_stats p') = sel (np_stats p) + sections_sum sect n secs) \<and>
    (sect \<in> {''server_nfs'', ''client_nfs''} \<longrightarrow>
      operations_of sect (np_stats p') = put_all (sections_operations sect secs) (operations_of sect (np_stats p)))"
  using assms
proof (induction secs arbitrary: p)
  case (Cons s secs)
  obtain title items where s: "s = (title, items)" by (cases s)
  obtain sect' where t: "map_of nfs_titles title = Some sect'" and it: "list_all item_ok items"
    using Cons.prems by (auto simp: s section_ok_def)
  let ?p = "p\<lparr>np_section := sect', np_version := [], np_pending := []\<rparr>"
  have "list_all section_ok secs" using Cons.prems by simp
  note IH = Cons.IH [OF this, of "fold nfs_line (concat (map (item_lines pad) items)) ?p", unfolded Let_def]
  show ?case
    using IH nfs_items [OF it, of pad ?p sect n sel, unfolded Let_def]
    by (auto simp: s section_lines_def nfs_title [OF t] sections_sum_def sections_operations_def t Let_def)
qed (simp add: sections_sum_def sections_operations_def)

lemma row_no_nl:
  assumes "\<And>ws w. ws \<in> set cells \<Longrightarrow> w \<in> set ws \<Longrightarrow> nl \<notin> set w"
  shows "nl \<notin> set (print_row pad cells)"
proof -
  have "nl \<notin> set (join '' '' ws)" if "ws \<in> set cells" for ws
    using assms [OF that] set_join [of "'' ''" ws] by auto
  then show ?thesis by (auto simp: print_row_def print_cell_def)
qed

lemma counter_names_no_nl: "list_all (\<lambda>(n, _). counter_name n) row \<Longrightarrow> nl \<notin> set (print_row pad (map (\<lambda>(n, _). [n]) row))"
  by (intro row_no_nl) (use counter_name_word(7) in \<open>fastforce simp: list_all_iff\<close>)

lemma item_lines_no_nl:
  assumes "item_ok it" and "l \<in> set (item_lines pad it)"
  shows "nl \<notin> set l"
proof -
  have "nl \<notin> set (print_row pad (map (\<lambda>(_, v). [number v]) row))"
    "nl \<notin> set (print_row pad (map (\<lambda>(_, c, pct). [number c, fmt_nat pct @ ''%'']) row'))" for row :: "(string \<times> u64) list" and row'
    by (intro row_no_nl; auto)+
  with assms show ?thesis
    by (cases it) (auto simp: transports_def counter_names_no_nl)
qed

lemma section_lines_no_nl: "section_ok s \<Longrightarrow> l \<in> set (section_lines pad s) \<Longrightarrow> nl \<notin> set l"
  using item_lines_no_nl by (cases s) (auto simp: section_ok_def section_lines_def list_all_iff nfs_titles_def split: if_splits)

text \<open>C39: on every output of \<^verbatim>\<open>nfsstat\<close>, whatever sections, transports, versions, rows and widths of columns it has and in whatever order, each of
  the 27 counters is the sum modulo 2 to the 64 of the values printed under its name in its sections (the two transports together), and the operations
  of the server and of the client are exactly those printed in their sections under their version, each with its count, the last one where a
  name is printed twice. Counts of operations do not leak into counters, nor percentages into either.\<close>

theorem nfsstat_counters:
  assumes "h_command h ''nfsstat'' [] = (nfsstat_text pad lead secs, None)"
    and "secs \<noteq> []" and "list_all section_ok secs"
  shows "\<exists>stats. statsWithContext h = Ok stats \<and>
    map (\<lambda>(sect, n, sel). sel stats) nfs_counters = map (\<lambda>(sect, n, sel). sections_sum sect n secs) nfs_counters \<and>
    map_of (nv_Operations (st_NFSServerStats stats)) = map_of (rev (sections_operations ''server_nfs'' secs)) \<and>
    map_of (nc_Operations (st_NFSClientStats stats)) = map_of (rev (sections_operations ''client_nfs'' secs))"
proof -
  let ?ls = "replicate lead [] @ concat (map (section_lines pad) secs)"
  let ?p = "\<lparr>np_section = [], np_version = [], np_pending = [], np_stats = empty_nfs_stats\<rparr>"
  have "?ls \<noteq> []" using assms(2) by (cases secs) (auto simp: section_lines_def split: prod.splits)
  moreover have "nl \<notin> set l" if "l \<in> set ?ls" for l
    using that assms(3) section_lines_no_nl by (auto simp: list_all_iff split: if_splits)
  ultimately have "split_char nl (nfsstat_text pad lead secs) = ?ls" unfolding nfsstat_text_def by (rule split_char_join)
  moreover have "fold nfs_line (replicate lead []) ?p = ?p" by (induction lead) (simp_all add: nfs_blank)
  ultimately have stats: "statsWithContext h = Ok (np_stats (fold nfs_line (concat (map (section_lines pad) secs)) ?p))"
    using assms(1) by (simp add: statsWithContext_def parseNfsstat_def)
  note secs = nfs_sections [OF assms(3), of pad ?p, unfolded Let_def]
  have zero: "list_all (\<lambda>(sect, n, sel). sel empty_nfs_stats = 0) nfs_counters"
    by (simp add: nfs_counters_def empty_nfs_stats_def rpc_server_sels_def rpc_client_sels_def nfs_server_sels_def nfs_client_sels_def)
  have "sel (np_stats (fold nfs_line (concat (map (section_lines pad) secs)) ?p)) = sections_sum sect n secs"
    if "(sect, n, sel) \<in> set nfs_counters" for sect n sel
    using secs [of sect n sel] that zero by (auto simp: list_all_iff)
  moreover have "operations_of ''server_nfs'' empty_nfs_stats = []" "operations_of ''client_nfs'' empty_nfs_stats = []"
    by (simp_all add: operations_of_def empty_nfs_stats_def)
  ultimately show ?thesis
    using stats secs [of "''server_nfs''"] secs [of "''client_nfs''"] by (auto simp: operations_of_def map_of_put_all)
qed

text \<open>An excerpt of an output of \<^verbatim>\<open>nfsstat\<close>: both transports of a section, a counter row of several lines and the tables of two versions.\<close>

definition nfs_example :: "(string \<times> nfs_item list) list" where
  "nfs_example = [(''Client rpc:'', [Transport ''Connection oriented'', Counters [(''calls'', 5), (''badcalls'', 1)], Counters [(''nomem'', 2)],
       Transport ''Connectionless'', Counters [(''calls'', 12)], Blank]),
     (''Server nfs:'', [Counters [(''calls'', 9), (''public_v2'', 4)], Version 2 3, Operations [(''null'', 1, 33), (''read'', 2, 66)],
       Version 3 6, Operations [(''null'', 6, 100), (''readdir+'', 0, 0)], Blank])]"

lemma nfs_example_text:
  "nfsstat_text (\<lambda>t. 10 - length t) 1 nfs_example = unlines [[], ''Client rpc:'', ''Connection oriented'',
     ''calls      badcalls   '', ''5          1          '', ''nomem      '', ''2          '', ''Connectionless'',
     ''calls      '', ''12         '', [], ''Server nfs:'', ''calls      public_v2  '', ''9          4          '',
     ''Version 2: (3 calls)'', ''null       read       '', ''1 33%      2 66%      '',
     ''Version 3: (6 calls)'', ''null       readdir+   '', ''6 100%     0 0%       '']"
  by code_simp

theorem nfsstat_counters_witness:
  "\<exists>stats. statsWithContext (no_files\<lparr>h_command := (\<lambda>_ _. (nfsstat_text (\<lambda>t. 10 - length t) 1 nfs_example, None))\<rparr>) = Ok stats \<and>
    rc_Calls (st_RPCClientStats stats) = 17 \<and> nv_Calls (st_NFSServerStats stats) = 9 \<and>
    map_of (nv_Operations (st_NFSServerStats stats)) ''v2_null'' = Some 1 \<and>
    map_of (nv_Operations (st_NFSServerStats stats)) ''v3_readdir+'' = Some 0"
proof -
  let ?h = "no_files\<lparr>h_command := (\<lambda>_ _. (nfsstat_text (\<lambda>t. 10 - length t) 1 nfs_example, None))\<rparr>"
  have "list_all section_ok nfs_example" by code_simp
  then obtain stats where s: "statsWithContext ?h = Ok stats"
    and c: "map (\<lambda>(sect, n, sel). sel stats) nfs_counters = map (\<lambda>(sect, n, sel). sections_sum sect n nfs_example) nfs_counters"
    and ops: "map_of (nv_Operations (st_NFSServerStats stats)) = map_of (rev (sections_operations ''server_nfs'' nfs_example))"
    using nfsstat_counters [of ?h "\<lambda>t. 10 - length t" 1 nfs_example] by (auto simp: nfs_example_def)
  from c have "rc_Calls (st_RPCClientStats stats) = sections_sum ''client_rpc'' ''calls'' nfs_example"
    "nv_Calls (st_NFSServerStats stats) = sections_sum ''server_nfs'' ''calls'' nfs_example"
    by (simp_all add: nfs_counters_def rpc_server_sels_def rpc_client_sels_def nfs_server_sels_def)
  then show ?thesis
    using s ops by (simp add: sections_sum_def sections_operations_def operation_key_def version_names_def nfs_example_def nfs_titles_def row_sum_def)
qed

end
