(* ===== verification/Go_Binary.thy ===== *)
theory Go_Binary
  imports Common
begin

text \<open>
  \<^verbatim>\<open>encoding/binary\<close>: structs in big-endian byte order. A struct type is the list of its fields in order, nested structs
  spliced in under the name of their field; every field is an array of integers of one width and sign (of length 1 for a
  scalar). \<open>read_struct\<close> is \<^verbatim>\<open>binary.Read\<close> on an open file. The lemmas give the value of a field from the bytes at its offset,
  that whatever was read has the declared type, and that reading inverts writing.
\<close>

section \<open>Layouts\<close>

record field_ty =
  ft_signed :: bool
  ft_width :: nat
  ft_count :: nat

type_synonym layout = "(string \<times> field_ty) list"
type_synonym struct = "(string \<times> int list) list"

definition bytes_f :: "nat \<Rightarrow> field_ty" where
  "bytes_f n = \<lparr>ft_signed = False, ft_width = 1, ft_count = n\<rparr>"

definition u64s_f :: "nat \<Rightarrow> field_ty" where
  "u64s_f n = \<lparr>ft_signed = False, ft_width = 8, ft_count = n\<rparr>"

definition u8_f :: field_ty where "u8_f = bytes_f 1"
definition u16_f :: field_ty where "u16_f = \<lparr>ft_signed = False, ft_width = 2, ft_count = 1\<rparr>"
definition u32_f :: field_ty where "u32_f = \<lparr>ft_signed = False, ft_width = 4, ft_count = 1\<rparr>"
definition u64_f :: field_ty where "u64_f = u64s_f 1"
definition i16_f :: field_ty where "i16_f = \<lparr>ft_signed = True, ft_width = 2, ft_count = 1\<rparr>"
definition i32_f :: field_ty where "i32_f = \<lparr>ft_signed = True, ft_width = 4, ft_count = 1\<rparr>"
definition i64_f :: field_ty where "i64_f = \<lparr>ft_signed = True, ft_width = 8, ft_count = 1\<rparr>"

lemmas field_ty_defs = bytes_f_def u64s_f_def u8_f_def u16_f_def u32_f_def u64_f_def i16_f_def i32_f_def i64_f_def

definition nested :: "string \<Rightarrow> layout \<Rightarrow> layout" where
  "nested name fs = map (\<lambda>(n, f). (name @ ''.'' @ n, f)) fs"

definition field_size :: "field_ty \<Rightarrow> nat" where
  "field_size f = ft_width f * ft_count f"

definition layout_size :: "layout \<Rightarrow> nat" where
  "layout_size fs = sum_list (map (field_size \<circ> snd) fs)"

section \<open>Decoding\<close>

definition be_nat :: "string \<Rightarrow> nat" where
  "be_nat bs = foldl (\<lambda>v b. 256 * v + of_char b) 0 bs"

definition be_val :: "bool \<Rightarrow> string \<Rightarrow> int" where
  "be_val sg bs = (if sg then wrap_signed (8 * length bs) (int (be_nat bs)) else int (be_nat bs))"

fun be_vals :: "bool \<Rightarrow> nat \<Rightarrow> nat \<Rightarrow> string \<Rightarrow> int list" where
  "be_vals sg w 0 bs = []"
| "be_vals sg w (Suc k) bs = be_val sg (take w bs) # be_vals sg w k (drop w bs)"

definition field_vals :: "field_ty \<Rightarrow> string \<Rightarrow> int list" where
  "field_vals f bs = be_vals (ft_signed f) (ft_width f) (ft_count f) bs"

fun decode :: "layout \<Rightarrow> string \<Rightarrow> struct" where
  "decode [] bs = []"
| "decode ((n, f) # fs) bs = (n, field_vals f bs) # decode fs (drop (field_size f) bs)"

text \<open>\<^verbatim>\<open>binary.Read\<close> of one struct, with what is left of the stream. \<^verbatim>\<open>io.ReadFull\<close> reports \<^verbatim>\<open>EOF\<close> only when nothing could be read.\<close>

definition read_struct :: "layout \<Rightarrow> stream \<Rightarrow> (struct \<times> stream) result" where
  "read_struct fs = (\<lambda>(d, fin).
     if layout_size fs \<le> length d then Ok (decode fs d, (drop (layout_size fs) d, fin))
     else Err (case fin of Some e \<Rightarrow> e | None \<Rightarrow> if d = [] then EOF else ErrMsg ''unexpected EOF''))"

text \<open>Fields of a struct: an array, its first element, its bytes as a string.\<close>

definition arr_of :: "struct \<Rightarrow> string \<Rightarrow> int list" where
  "arr_of s n = (case map_of s n of Some vs \<Rightarrow> vs | None \<Rightarrow> [])"

definition val_of :: "struct \<Rightarrow> string \<Rightarrow> int" where
  "val_of s n = (case arr_of s n of v # _ \<Rightarrow> v | [] \<Rightarrow> 0)"

definition str_of :: "struct \<Rightarrow> string \<Rightarrow> string" where
  "str_of s n = map char_of (arr_of s n)"

text \<open>The zero value of a struct type.\<close>

definition zero_struct :: "layout \<Rightarrow> struct" where
  "zero_struct fs = map (\<lambda>(n, f). (n, replicate (ft_count f) 0)) fs"

section \<open>Types\<close>

definition in_width :: "bool \<Rightarrow> nat \<Rightarrow> int \<Rightarrow> bool" where
  "in_width sg w v = (if sg then - (2 ^ (8 * w - 1)) \<le> v \<and> v < 2 ^ (8 * w - 1) else 0 \<le> v \<and> v < 2 ^ (8 * w))"

definition field_ok :: "field_ty \<Rightarrow> int list \<Rightarrow> bool" where
  "field_ok f vs \<longleftrightarrow> length vs = ft_count f \<and> list_all (in_width (ft_signed f) (ft_width f)) vs"

definition has_layout :: "layout \<Rightarrow> struct \<Rightarrow> bool" where
  "has_layout fs s \<longleftrightarrow> list_all2 (\<lambda>(n, f) (m, vs). n = m \<and> field_ok f vs) fs s"

section \<open>Encoding\<close>

fun be_bytes :: "nat \<Rightarrow> nat \<Rightarrow> string" where
  "be_bytes 0 v = []"
| "be_bytes (Suc w) v = be_bytes w (v div 256) @ [char_of (v mod 256)]"

definition encode_val :: "nat \<Rightarrow> int \<Rightarrow> string" where
  "encode_val w v = be_bytes w (nat (v mod 2 ^ (8 * w)))"

definition encode_field :: "field_ty \<Rightarrow> int list \<Rightarrow> string" where
  "encode_field f vs = concat (map (encode_val (ft_width f)) vs)"

definition encode :: "layout \<Rightarrow> struct \<Rightarrow> string" where
  "encode fs s = concat (map2 (\<lambda>(_, f) (_, vs). encode_field f vs) fs s)"

section \<open>Integers\<close>

lemma be_nat_Nil [simp]: "be_nat [] = 0"
  by (simp add: be_nat_def)

lemma be_nat_snoc [simp]: "be_nat (bs @ [b]) = 256 * be_nat bs + of_char b"
  by (simp add: be_nat_def)

lemma length_be_bytes [simp]: "length (be_bytes w v) = w"
  by (induction w arbitrary: v) simp_all

lemma be_nat_be_bytes: "v < 256 ^ w \<Longrightarrow> be_nat (be_bytes w v) = v"
proof (induction w arbitrary: v)
  case 0
  then show ?case by simp
next
  case (Suc w)
  then have "v div 256 < 256 ^ w" by (simp add: less_mult_imp_div_less mult.commute)
  with Suc.IH show ?case by simp
qed

lemma be_nat_bound: "be_nat bs < 256 ^ length bs"
proof (induction bs rule: rev_induct)
  case (snoc b bs)
  have "(of_char b :: nat) < 256" by simp
  with snoc have "256 * be_nat bs + of_char b < 256 * (be_nat bs + 1)" by simp
  also have "\<dots> \<le> 256 * 256 ^ length bs" using snoc by (intro mult_le_mono2) simp
  finally show ?case by simp
qed simp

lemma be_bytes_be_nat: "be_bytes (length bs) (be_nat bs) = bs"
  by (induction bs rule: rev_induct) simp_all

lemma be_val_in_width: "0 < length bs \<Longrightarrow> in_width sg (length bs) (be_val sg bs)"
proof -
  have "int (be_nat bs) < 2 ^ (8 * length bs)"
    using be_nat_bound [of bs] by (simp add: power_mult flip: of_nat_power)
  moreover assume "0 < length bs"
  ultimately show ?thesis
    using wrap_signed_bounds [of "8 * length bs" "int (be_nat bs)"] by (simp add: in_width_def be_val_def)
qed

lemma length_encode_val [simp]: "length (encode_val w v) = w"
  by (simp add: encode_val_def)

lemma be_val_encode_val:
  assumes "0 < w" and "in_width sg w v"
  shows "be_val sg (encode_val w v) = v"
proof -
  have "nat (v mod 2 ^ (8 * w)) < 256 ^ w"
    by (simp add: nat_less_iff power_mult)
  then have "int (be_nat (encode_val w v)) = v mod 2 ^ (8 * w)"
    by (simp add: encode_val_def be_nat_be_bytes)
  with assms show ?thesis
    by (auto simp: be_val_def in_width_def wrap_signed_mod wrap_signed_id)
qed

section \<open>Fields\<close>

lemma length_be_vals [simp]: "length (be_vals sg w k bs) = k"
  by (induction k arbitrary: bs) simp_all

lemma be_vals_in_width:
  "0 < w \<Longrightarrow> w * k \<le> length bs \<Longrightarrow> list_all (in_width sg w) (be_vals sg w k bs)"
proof (induction k arbitrary: bs)
  case (Suc k)
  then show ?case using be_val_in_width [of "take w bs" sg] by simp
qed simp

lemma be_vals_encode:
  "0 < w \<Longrightarrow> list_all (in_width sg w) vs \<Longrightarrow>
    be_vals sg w (length vs) (concat (map (encode_val w) vs) @ rest) = vs"
  by (induction vs) (simp_all add: be_val_encode_val)

lemma length_encode_field: "length (encode_field f vs) = ft_width f * length vs"
  by (induction vs) (simp_all add: encode_field_def)

lemma field_vals_encode:
  "0 < ft_width f \<Longrightarrow> field_ok f vs \<Longrightarrow> field_vals f (encode_field f vs @ rest) = vs"
  using be_vals_encode [of "ft_width f" "ft_signed f" vs rest]
  by (simp add: field_vals_def field_ok_def encode_field_def)

section \<open>Structs\<close>

definition widths_pos :: "layout \<Rightarrow> bool" where
  "widths_pos fs \<longleftrightarrow> list_all (\<lambda>(_, f). 0 < ft_width f) fs"

lemma layout_size_simps [simp]:
  "layout_size [] = 0" "layout_size ((n, f) # fs) = field_size f + layout_size fs"
  "layout_size (fs @ gs) = layout_size fs + layout_size gs"
  by (simp_all add: layout_size_def)

lemma layout_size_nested [simp]: "layout_size (nested name fs) = layout_size fs"
  by (induction fs) (auto simp: nested_def)

text \<open>Whatever the bytes are, what is decoded has the declared type.\<close>

lemma decode_typed: "widths_pos fs \<Longrightarrow> layout_size fs \<le> length bs \<Longrightarrow> has_layout fs (decode fs bs)"
proof (induction fs bs rule: decode.induct)
  case (2 n f fs bs)
  then have "field_ok f (field_vals f bs)"
    by (simp add: field_ok_def field_vals_def be_vals_in_width field_size_def widths_pos_def)
  with 2 show ?case by (simp add: has_layout_def widths_pos_def)
qed (simp add: has_layout_def)

lemma length_encode: "has_layout fs s \<Longrightarrow> length (encode fs s) = layout_size fs"
  unfolding has_layout_def
  by (induction fs s rule: list_all2_induct)
    (auto simp: encode_def length_encode_field field_size_def field_ok_def)

lemma decode_encode: "widths_pos fs \<Longrightarrow> has_layout fs s \<Longrightarrow> decode fs (encode fs s @ rest) = s"
  unfolding has_layout_def
proof (rotate_tac, induction fs s rule: list_all2_induct)
  case (Cons p fs q s)
  obtain n f m vs where [simp]: "p = (n, f)" "q = (m, vs)" by (cases p; cases q) auto
  have e: "encode (p # fs) (q # s) @ rest = encode_field f vs @ encode fs s @ rest"
    by (simp add: encode_def)
  have "length (encode_field f vs) = field_size f"
    using Cons.hyps by (simp add: length_encode_field field_size_def field_ok_def)
  with Cons show ?case unfolding e by (simp add: field_vals_encode widths_pos_def)
qed simp

lemma read_struct_encode:
  "widths_pos fs \<Longrightarrow> has_layout fs s \<Longrightarrow> read_struct fs (encode fs s @ rest, fin) = Ok (s, (rest, fin))"
  by (simp add: read_struct_def length_encode decode_encode)

lemma read_struct_Ok_iff [outcome_iff]:
  "read_struct fs (d, fin) = Ok r \<longleftrightarrow>
    layout_size fs \<le> length d \<and> r = (decode fs d, (drop (layout_size fs) d, fin))"
  by (auto simp: read_struct_def)

lemma read_struct_not_Panic [simp]: "read_struct fs s \<noteq> Panic"
  by (simp add: read_struct_def split: prod.splits)

text \<open>Where a field lies: names are not repeated.\<close>

fun offset_of :: "layout \<Rightarrow> string \<Rightarrow> nat" where
  "offset_of [] n = 0"
| "offset_of ((m, f) # fs) n = (if m = n then 0 else field_size f + offset_of fs n)"

lemma arr_of_decode:
  "arr_of (decode fs bs) n = (case map_of fs n of Some f \<Rightarrow> field_vals f (drop (offset_of fs n) bs) | None \<Rightarrow> [])"
  by (induction fs bs rule: decode.induct) (auto simp: arr_of_def add.commute split: option.splits)

lemma map_of_has_layout:
  "has_layout fs s \<Longrightarrow> map_of fs n = Some f \<Longrightarrow> field_ok f (arr_of s n)"
  unfolding has_layout_def
  by (induction fs s rule: list_all2_induct) (auto simp: arr_of_def split: if_splits)

lemma has_layout_zero: "has_layout fs (zero_struct fs)"
  by (induction fs) (auto simp: has_layout_def zero_struct_def field_ok_def in_width_def list_all_iff)

end
