(* ===== verification/Common_Aix.thy ===== *)
theory Common_Aix
  imports Go_Binary
begin

text \<open>
  Package \<^verbatim>\<open>internal/common\<close> on AIX: the uptime that \<^verbatim>\<open>ps\<close> prints (\<^verbatim>\<open>common_aix.go\<close>) and the calls into \<^verbatim>\<open>libperfstat\<close> and
  \<^verbatim>\<open>libc\<close> (\<^verbatim>\<open>perfstat_aix.go\<close>). The C functions are the fields of the record \<open>aix_lib\<close>: what they return in the result
  register, the errno, and what they write into the buffer or through the cursor they are given. Everything the Go code
  does with them is modelled: the two calls of an enumeration, the batches of the process table, the growing buffer of
  the environment and the decoding of the mount table.
\<close>

section \<open>Uptime\<close>

definition sum_uptime :: "u64 \<Rightarrow> u64 \<Rightarrow> u64 \<Rightarrow> u64 \<Rightarrow> u64" where
  "sum_uptime days hours mins secs = (days * 24 * 60 * 60) + (hours * 60 * 60) + (mins * 60) + secs"

definition or_zero :: "u64 result \<Rightarrow> u64" where
  "or_zero r = (case r of Ok v \<Rightarrow> v | _ \<Rightarrow> 0)"

definition hms :: "u64 \<Rightarrow> string list \<Rightarrow> u64 result" where
  "hms days timeParts = (case timeParts of [hh, mm, ss] \<Rightarrow>
       rbind (parse_u64 hh) (\<lambda>hours. rbind (parse_u64 mm) (\<lambda>mins. rbind (parse_u64 ss) (\<lambda>secs.
         Ok (sum_uptime days hours mins secs))))
     | _ \<Rightarrow> Ok 0)"

definition ParseUptime :: "string \<Rightarrow> u64" where
  "ParseUptime etimes =
     (if CHR ''-'' \<in> set etimes then
        (case split_char CHR ''-'' etimes of
           [d, t] \<Rightarrow> or_zero (rbind (parse_u64 d) (\<lambda>days. hms days (split_char CHR '':'' t)))
         | _ \<Rightarrow> 0)
      else (case split_char CHR '':'' etimes of
           [mm, ss] \<Rightarrow> or_zero (rbind (parse_u64 mm) (\<lambda>mins. rbind (parse_u64 ss) (\<lambda>secs. Ok (sum_uptime 0 0 mins secs))))
         | timeParts \<Rightarrow> or_zero (hms 0 timeParts)))"

definition aix_UptimeWithContext :: "host \<Rightarrow> u64 result" where
  "aix_UptimeWithContext h = rbind (run_command h ''ps'' [''-o'', ''etimes'', ''-p'', ''1'']) (\<lambda>out.
     case split_char nl (trim_space out) of
       _ # l # _ \<Rightarrow> Ok (ParseUptime (trim_space l))
     | _ \<Rightarrow> Err (ErrMsg ''ps output has fewer than 2 rows''))"

definition aix_BootTimeWithContext :: "host \<Rightarrow> u64 result" where
  "aix_BootTimeWithContext h = rbind (aix_UptimeWithContext h) (\<lambda>ut.
     if ut = 0 then Err (ErrMsg ''uptime was not set, so cannot calculate boot time from it'') else Ok (TimeSince h ut))"

section \<open>Data of the libraries\<close>

text \<open>The fields the package reads; names are buffers of 64 bytes.\<close>

record perfstat_cpu =
  c_Name :: string
  c_User :: u64
  c_Sys :: u64
  c_Idle :: u64
  c_Wait :: u64

record perfstat_cpu_total =
  ct_NCPUsCfg :: int
  ct_User :: u64
  ct_Sys :: u64
  ct_Idle :: u64
  ct_Wait :: u64
  ct_PSwitch :: u64
  ct_Syscall :: u64
  ct_DevIntrs :: u64
  ct_Lbolt :: int
  ct_LoadAvg1 :: u64
  ct_LoadAvg5 :: u64
  ct_LoadAvg15 :: u64

record perfstat_disk =
  pd_Name :: string
  pd_BSize :: u64
  pd_XRate :: u64
  pd_Xfers :: u64
  pd_WBlks :: u64
  pd_RBlks :: u64
  pd_QDepth :: u64
  pd_Time :: u64
  pd_RServ :: u64
  pd_WServ :: u64
  pd_WQTime :: u64

record perfstat_netinterface =
  ni_Name :: string
  ni_IPackets :: u64
  ni_IBytes :: u64
  ni_IErrors :: u64
  ni_OPackets :: u64
  ni_OBytes :: u64
  ni_OErrors :: u64
  ni_XmitDrops :: u64
  ni_IfIqDrops :: u64

record perfstat_memory_total =
  mt_RealTotal :: u64
  mt_RealFree :: u64
  mt_RealInUse :: u64
  mt_PgIns :: u64
  mt_PgOuts :: u64
  mt_PgSpIns :: u64
  mt_PgSpOuts :: u64
  mt_PgSpTotal :: u64
  mt_PgSpFree :: u64
  mt_VirtActive :: u64
  mt_RealAvail :: u64

record perfstat_pagingspace =
  ps_Name :: string
  ps_MBSize :: int
  ps_MBUsed :: int

record perfstat_partition_total =
  pt_Name :: string
  pt_LparID :: int

record aix_mount =
  am_Object :: string
  am_Stub :: string
  am_Host :: string
  am_Args :: string
  am_GfsType :: int

record aix_process =
  ap_Pid :: int
  ap_State :: u32
  ap_Flags :: u32
  ap_MajFlt :: int
  ap_IOChars :: int

record aix_thread =
  at_Tid :: u64
  at_Pid :: int
  at_State :: u32
  at_Flags :: u32
  at_WaitType :: u32

section \<open>Calls\<close>

text \<open>A call leaves the result register and the errno. An enumeration is called with the number of entries wanted, 0 to
  count; \<^verbatim>\<open>mntctl\<close> and \<^verbatim>\<open>getevars\<close> with the size of the buffer; the two tables with a cursor.\<close>

type_synonym lib_ret = "u64 \<times> nat"
type_synonym 'a enum_fn = "nat \<Rightarrow> lib_ret \<times> 'a list"
type_synonym 'a cursor_fn = "int \<Rightarrow> lib_ret \<times> 'a list \<times> int"

record aix_lib =
  al_cpu :: "perfstat_cpu enum_fn"
  al_cpu_total :: "lib_ret \<times> perfstat_cpu_total"
  al_disk :: "perfstat_disk enum_fn"
  al_netinterface :: "perfstat_netinterface enum_fn"
  al_memory_total :: "lib_ret \<times> perfstat_memory_total"
  al_pagingspace :: "perfstat_pagingspace enum_fn"
  al_partition_total :: "lib_ret \<times> perfstat_partition_total"
  al_mntctl :: "nat \<Rightarrow> lib_ret \<times> string"
  al_getevars :: "int \<Rightarrow> nat \<Rightarrow> lib_ret \<times> string"
  al_getprocs64 :: "aix_process cursor_fn"
  al_getthrds64 :: "aix_thread cursor_fn"

definition callLib :: "lib_ret \<Rightarrow> nat result" where
  "callLib = (\<lambda>(r, e). let n = to_i32 (uint r) in
     if 0 \<le> n then Ok (nat n) else if e \<noteq> 0 then Err (Errno e) else Err (ErrMsg ''libperfstat call failed''))"

text \<open>A buffer of \<open>n\<close> zero entries after a C function wrote \<open>ws\<close> from its start; \<^verbatim>\<open>buf[:n]\<close>.\<close>

definition buffer :: "'a \<Rightarrow> nat \<Rightarrow> 'a list \<Rightarrow> 'a list" where
  "buffer zero n ws = take n (ws @ replicate n zero)"

definition slice_to :: "'a list \<Rightarrow> nat \<Rightarrow> 'a list result" where
  "slice_to xs n = (if n \<le> length xs then Ok (take n xs) else Panic)"

definition stat_call :: "lib_ret \<times> 'a \<Rightarrow> 'a result" where
  "stat_call = (\<lambda>(r, t). rbind (callLib r) (\<lambda>_. Ok t))"

definition PerfstatCPUTotalStat :: "aix_lib \<Rightarrow> perfstat_cpu_total result" where
  "PerfstatCPUTotalStat lib = stat_call (al_cpu_total lib)"

definition PerfstatMemoryTotalStat :: "aix_lib \<Rightarrow> perfstat_memory_total result" where
  "PerfstatMemoryTotalStat lib = stat_call (al_memory_total lib)"

definition PerfstatPartitionTotalStat :: "aix_lib \<Rightarrow> perfstat_partition_total result" where
  "PerfstatPartitionTotalStat lib = stat_call (al_partition_total lib)"

definition perfstatEnumerate :: "'a \<Rightarrow> 'a enum_fn \<Rightarrow> 'a list result" where
  "perfstatEnumerate zero fn = rbind (callLib (fst (fn 0))) (\<lambda>n.
     if n = 0 then Ok []
     else rbind (callLib (fst (fn n))) (\<lambda>m. slice_to (buffer zero n (snd (fn n))) m))"

definition zero_name :: string where
  "zero_name = replicate 64 (CHR 0x00)"

definition zero_cpu :: perfstat_cpu where
  "zero_cpu = \<lparr>c_Name = zero_name, c_User = 0, c_Sys = 0, c_Idle = 0, c_Wait = 0\<rparr>"

definition zero_disk :: perfstat_disk where
  "zero_disk = \<lparr>pd_Name = zero_name, pd_BSize = 0, pd_XRate = 0, pd_Xfers = 0, pd_WBlks = 0, pd_RBlks = 0, pd_QDepth = 0,
     pd_Time = 0, pd_RServ = 0, pd_WServ = 0, pd_WQTime = 0\<rparr>"

definition zero_netinterface :: perfstat_netinterface where
  "zero_netinterface = \<lparr>ni_Name = zero_name, ni_IPackets = 0, ni_IBytes = 0, ni_IErrors = 0, ni_OPackets = 0, ni_OBytes = 0,
     ni_OErrors = 0, ni_XmitDrops = 0, ni_IfIqDrops = 0\<rparr>"

definition zero_pagingspace :: perfstat_pagingspace where
  "zero_pagingspace = \<lparr>ps_Name = zero_name, ps_MBSize = 0, ps_MBUsed = 0\<rparr>"

definition zero_process :: aix_process where
  "zero_process = \<lparr>ap_Pid = 0, ap_State = 0, ap_Flags = 0, ap_MajFlt = 0, ap_IOChars = 0\<rparr>"

definition zero_thread :: aix_thread where
  "zero_thread = \<lparr>at_Tid = 0, at_Pid = 0, at_State = 0, at_Flags = 0, at_WaitType = 0\<rparr>"

definition PerfstatCPUStats :: "aix_lib \<Rightarrow> perfstat_cpu list result" where
  "PerfstatCPUStats lib = perfstatEnumerate zero_cpu (al_cpu lib)"

definition PerfstatDiskStats :: "aix_lib \<Rightarrow> perfstat_disk list result" where
  "PerfstatDiskStats lib = perfstatEnumerate zero_disk (al_disk lib)"

definition PerfstatNetInterfaceStats :: "aix_lib \<Rightarrow> perfstat_netinterface list result" where
  "PerfstatNetInterfaceStats lib = perfstatEnumerate zero_netinterface (al_netinterface lib)"

definition PerfstatPagingSpaceStats :: "aix_lib \<Rightarrow> perfstat_pagingspace list result" where
  "PerfstatPagingSpaceStats lib = perfstatEnumerate zero_pagingspace (al_pagingspace lib)"

definition CString :: "string \<Rightarrow> string" where
  "CString b = takeWhile (\<lambda>c. c \<noteq> CHR 0x00) b"

definition AIXVMMWait :: "u32 \<Rightarrow> bool" where
  "AIXVMMWait waitType \<longleftrightarrow> waitType \<in> {5, 6, 8, 9}"

section \<open>Mounts\<close>

text \<open>\<^verbatim>\<open>binary.BigEndian.Uint32(b[i:])\<close> and \<^verbatim>\<open>Uint16\<close>, which panic on a short slice.\<close>

definition uint_at :: "nat \<Rightarrow> string \<Rightarrow> nat \<Rightarrow> nat result" where
  "uint_at w b i = (if i + w \<le> length b then Ok (be_nat (take w (drop i b))) else Panic)"

definition vmount_str :: "string \<Rightarrow> nat \<Rightarrow> string result" where
  "vmount_str rec i = rbind (uint_at 2 rec (44 + 4 * i)) (\<lambda>off. rbind (uint_at 2 rec (44 + 4 * i + 2)) (\<lambda>len.
     if length rec < off + len then Ok [] else Ok (CString (take len (drop off rec)))))"

definition vmount_record :: "string \<Rightarrow> aix_mount result" where
  "vmount_record rec = rbind (vmount_str rec 0) (\<lambda>object. rbind (vmount_str rec 1) (\<lambda>stub.
     rbind (vmount_str rec 2) (\<lambda>hst. rbind (vmount_str rec 5) (\<lambda>args. rbind (uint_at 4 rec 40) (\<lambda>gfs.
       Ok \<lparr>am_Object = object, am_Stub = stub, am_Host = hst, am_Args = args, am_GfsType = to_i32 (int gfs)\<rparr>)))))"

function parseVmounts :: "string \<Rightarrow> nat \<Rightarrow> nat \<Rightarrow> aix_mount list \<Rightarrow> aix_mount list result" where
  "parseVmounts buf n off ret =
     (if length ret < n \<and> off + 44 + 6 * 4 \<le> length buf then
        (case uint_at 4 (drop off buf) 4 of
           Ok len \<Rightarrow> if len = 0 \<or> length buf < off + len then Ok ret
             else (case vmount_record (take len (drop off buf)) of
                     Ok m \<Rightarrow> parseVmounts buf n (off + len) (ret @ [m])
                   | Err e \<Rightarrow> Err e | Panic \<Rightarrow> Panic)
         | Err e \<Rightarrow> Err e | Panic \<Rightarrow> Panic)
      else Ok ret)"
  by pat_completeness auto
termination
  by (relation "measure (\<lambda>(buf, n, off, ret). n - length ret)") auto

declare parseVmounts.simps [simp del]

text \<open>A buffer of size 0 cannot be passed: \<^verbatim>\<open>&buf[0]\<close> panics.\<close>

definition AIXMounts :: "aix_lib \<Rightarrow> aix_mount list result" where
  "AIXMounts lib =
     (let (r, ws) = al_mntctl lib 8192; buf = buffer (CHR 0x00) 8192 ws in
      rbind (callLib r) (\<lambda>n.
        if n = 0 then rbind (uint_at 4 buf 0) (\<lambda>sz.
          if sz = 0 then Panic
          else let (r', ws') = al_mntctl lib sz in
            rbind (callLib r') (\<lambda>n'. parseVmounts (buffer (CHR 0x00) sz ws') n' 0 []))
        else parseVmounts buf n 0 []))"

section \<open>Processes and threads\<close>

text \<open>The loop over batches of 256 entries may not end; then it has no result.\<close>

partial_function (option) batches :: "'a cursor_fn \<Rightarrow> 'a \<Rightarrow> int \<Rightarrow> 'a list \<Rightarrow> 'a list result option" where
  "batches call zero index ret =
     (case call index of (r, ws, index') \<Rightarrow>
        (case callLib r of
           Ok n \<Rightarrow> (case slice_to (buffer zero 256 ws) n of
               Ok part \<Rightarrow> if n < 256 then Some (Ok (ret @ part)) else batches call zero index' (ret @ part)
             | Err e \<Rightarrow> Some (Err e) | Panic \<Rightarrow> Some Panic)
         | Err e \<Rightarrow> Some (Err e) | Panic \<Rightarrow> Some Panic))"

definition AIXProcesses :: "aix_lib \<Rightarrow> aix_process list result option" where
  "AIXProcesses lib = batches (al_getprocs64 lib) zero_process 0 []"

definition AIXThreads :: "aix_lib \<Rightarrow> aix_thread list result option" where
  "AIXThreads lib = batches (al_getthrds64 lib) zero_thread 0 []"

section \<open>Environment of a process\<close>

text \<open>\<^verbatim>\<open>bytes.Index(buf, []byte{0, 0})\<close>.\<close>

fun index_nul2 :: "string \<Rightarrow> nat option" where
  "index_nul2 (a # b # s) = (if a = CHR 0x00 \<and> b = CHR 0x00 then Some 0 else map_option Suc (index_nul2 (b # s)))"
| "index_nul2 s = None"

function env_loop :: "(nat \<Rightarrow> lib_ret \<times> string) \<Rightarrow> nat \<Rightarrow> string list result" where
  "env_loop getevars sz =
     (if sz = 0 then Panic
      else case getevars sz of (r, ws) \<Rightarrow> (case callLib r of
          Err e \<Rightarrow> Err e | Panic \<Rightarrow> Panic
        | Ok _ \<Rightarrow> let buf = buffer (CHR 0x00) sz ws in
            (case index_nul2 buf of
               None \<Rightarrow> if sz < 4194304 then env_loop getevars (sz * 2) else Ok (split_char (CHR 0x00) buf)
             | Some e \<Rightarrow> if e = 0 then Ok [] else Ok (split_char (CHR 0x00) (take e buf)))))"
  by pat_completeness auto
termination
  by (relation "measure (\<lambda>(getevars, sz). 4194304 - sz)") auto

declare env_loop.simps [simp del]

definition AIXProcessEnv :: "aix_lib \<Rightarrow> int \<Rightarrow> string list result" where
  "AIXProcessEnv lib pid = env_loop (al_getevars lib pid) 16384"

section \<open>What ps prints is read back\<close>

text \<open>The elapsed time as \<^verbatim>\<open>ps\<close> prints it: \<^verbatim>\<open>[[dd-]hh:]mm:ss\<close>.\<close>

definition pad2 :: "nat \<Rightarrow> string" where
  "pad2 n = (if n < 10 then ''0'' else []) @ fmt_nat n"

definition print_etime :: "nat \<Rightarrow> string" where
  "print_etime t =
     (let d = t div 86400; h = t div 3600 mod 24; ms = pad2 (t div 60 mod 60) @ '':'' @ pad2 (t mod 60)
      in if 0 < d then fmt_nat d @ ''-'' @ pad2 h @ '':'' @ ms else if 0 < h then pad2 h @ '':'' @ ms else ms)"

lemma decimal_pad2: "decimal (pad2 n)" "dec_val (pad2 n) = n"
  using decimal_fmt_nat [of n] dec_val_fmt_nat [of n]
  by (auto simp: pad2_def decimal_def dec_val_def is_digit_def simp del: decimal_fmt_nat dec_val_fmt_nat)

lemma parse_u64_decimal: "decimal s \<Longrightarrow> dec_val s < 2 ^ 64 \<Longrightarrow> parse_u64 s = Ok (word_of_nat (dec_val s))"
  by (simp add: parse_u64_def parse_uint_decimal)

lemma parse_u64_pad2 [simp]: "n < 2 ^ 64 \<Longrightarrow> parse_u64 (pad2 n) = Ok (word_of_nat n)"
  using parse_u64_decimal [of "pad2 n"] by (simp add: decimal_pad2)

lemma decimal_no_sep: "decimal s \<Longrightarrow> CHR '':'' \<notin> set s \<and> CHR ''-'' \<notin> set s"
  by (auto dest: decimal_chars simp: is_digit_def)

lemmas no_sep [simp] = decimal_no_sep [OF decimal_pad2(1)] decimal_no_sep [OF decimal_fmt_nat]

lemma hms_parts:
  "d * 86400 + h * 3600 + m * 60 + s < 2 ^ 64 \<Longrightarrow>
    hms (word_of_nat d) [pad2 h, pad2 m, pad2 s] = Ok (word_of_nat (d * 86400 + h * 3600 + m * 60 + s))"
  by (simp add: hms_def sum_uptime_def)

lemma split_etime: "(t::nat) = t div 86400 * 86400 + t div 3600 mod 24 * 3600 + t div 60 mod 60 * 60 + t mod 60"
proof -
  have "t div 3600 = t div 60 div 60" "t div 86400 = t div 3600 div 24" by (simp_all add: div_mult2_eq [symmetric])
  then show ?thesis
    using div_mult_mod_eq [of t 60] div_mult_mod_eq [of "t div 60" 60] div_mult_mod_eq [of "t div 3600" 24] by linarith
qed

text \<open>Every elapsed time that \<^verbatim>\<open>ps\<close> prints, below a minute or after years, is parsed to the same number of seconds.\<close>

theorem ParseUptime_roundtrip:
  assumes "t < 2 ^ 64"
  shows "ParseUptime (print_etime t) = word_of_nat t"
proof -
  define d h m s where dhms: "d = t div 86400" "h = t div 3600 mod 24" "m = t div 60 mod 60" "s = t mod 60"
  have t: "t = d * 86400 + h * 3600 + m * 60 + s" unfolding dhms by (rule split_etime)
  have sm: "split_char CHR '':'' (pad2 m @ '':'' @ pad2 s) = [pad2 m, pad2 s]"
    and sh: "split_char CHR '':'' (pad2 h @ '':'' @ pad2 m @ '':'' @ pad2 s) = [pad2 h, pad2 m, pad2 s]"
    by (simp_all add: split_char_append)
  have hm: "hms (word_of_nat d) [pad2 h, pad2 m, pad2 s] = Ok (word_of_nat t)"
    using hms_parts [of d h m s] assms t by simp
  have lt: "d < 2 ^ 64" "m < 2 ^ 64" "s < 2 ^ 64" using assms t by linarith+
  have p: "print_etime t = (if 0 < d then fmt_nat d @ ''-'' @ pad2 h @ '':'' @ pad2 m @ '':'' @ pad2 s
      else if 0 < h then pad2 h @ '':'' @ pad2 m @ '':'' @ pad2 s else pad2 m @ '':'' @ pad2 s)"
    by (simp add: print_etime_def dhms Let_def)
  consider "0 < d" | "d = 0" "0 < h" | "d = 0" "h = 0" by blast
  then show ?thesis
  proof cases
    case 1
    have "split_char CHR ''-'' (fmt_nat d @ ''-'' @ pad2 h @ '':'' @ pad2 m @ '':'' @ pad2 s) =
        [fmt_nat d, pad2 h @ '':'' @ pad2 m @ '':'' @ pad2 s]"
      by (simp add: split_char_append)
    with 1 sh hm lt show ?thesis by (simp add: p ParseUptime_def or_zero_def)
  next
    case 2
    with sh hm show ?thesis by (simp add: p ParseUptime_def or_zero_def)
  next
    case 3
    then have w: "(word_of_nat t :: u64) = word_of_nat m * 60 + word_of_nat s" using t by simp
    from 3 sm lt show ?thesis unfolding w by (simp add: p ParseUptime_def or_zero_def sum_uptime_def)
  qed
qed

theorem ParseUptime_roundtrip_witness: "print_etime 10719639 = ''124-01:40:39'' \<and> ParseUptime ''124-01:40:39'' = 10719639"
proof -
  have "print_etime 10719639 = ''124-01:40:39''" by code_simp
  with ParseUptime_roundtrip [of 10719639] show ?thesis by simp
qed

section \<open>Tables read in batches\<close>

text \<open>What the documentation says of \<^verbatim>\<open>getprocs64\<close> and \<^verbatim>\<open>getthrds64\<close>: from the cursor they return the next entries of the
  table, at most 256, and move the cursor behind them. \<open>pos\<close> is the position a cursor stands for.\<close>

definition reads_table :: "'a cursor_fn \<Rightarrow> 'a list \<Rightarrow> (int \<Rightarrow> nat) \<Rightarrow> bool" where
  "reads_table call tbl pos \<longleftrightarrow> pos 0 = 0 \<and>
     (\<forall>i. let part = take 256 (drop (pos i) tbl) in
        fst (fst (call i)) = word_of_nat (length part) \<and> fst (snd (call i)) = part \<and>
        pos (snd (snd (call i))) = pos i + length part)"

lemma callLib_nat:
  assumes "n < 2 ^ 31"
  shows "callLib (word_of_nat n, e) = Ok n"
proof -
  have "uint (word_of_nat n :: u64) = int n"
    using assms by (simp add: unsigned_of_nat take_bit_nat_eq_self)
  moreover have "to_i32 (int n) = int n" using assms by (intro wrap_signed_id) auto
  ultimately show ?thesis by (simp add: callLib_def)
qed

lemma slice_buffer: "length ws = n \<Longrightarrow> n \<le> m \<Longrightarrow> slice_to (buffer zero m ws) n = Ok ws"
  by (simp add: slice_to_def buffer_def)

lemma batches_table:
  assumes "reads_table call tbl pos" and "pos i \<le> length tbl"
  shows "batches call zero i ret = Some (Ok (ret @ drop (pos i) tbl))"
  using assms(2)
proof (induction "length tbl - pos i" arbitrary: i ret rule: less_induct)
  case less
  let ?part = "take 256 (drop (pos i) tbl)"
  obtain r e ws i' where c: "call i = ((r, e), ws, i')" by (metis surj_pair)
  then have call: "call i = ((word_of_nat (length ?part), e), ?part, i')" and i': "pos i' = pos i + length ?part"
    using assms(1) [unfolded reads_table_def Let_def, THEN conjunct2, rule_format, of i] by simp_all
  have step: "batches call zero i ret =
      (if length ?part < 256 then Some (Ok (ret @ ?part)) else batches call zero i' (ret @ ?part))"
    by (subst batches.simps) (simp add: call callLib_nat slice_buffer)
  show ?case
  proof (cases "length ?part < 256")
    case True
    then have "?part = drop (pos i) tbl" by simp
    with True step show ?thesis by simp
  next
    case False
    then have "batches call zero i' (ret @ ?part) = Some (Ok ((ret @ ?part) @ drop (pos i') tbl))"
      using less.prems i' by (intro less.hyps) auto
    moreover have "?part @ drop (pos i') tbl = drop (pos i) tbl"
      using i' False append_take_drop_id [of 256 "drop (pos i) tbl"] by (simp add: add.commute)
    ultimately show ?thesis using False step by simp
  qed
qed

text \<open>C16: reading the process table ends for every finite table, however many batches it takes, and returns every process
  once and in order.\<close>

theorem AIXProcesses_complete:
  assumes "reads_table (al_getprocs64 lib) procs pos"
  shows "AIXProcesses lib = Some (Ok procs)"
  using batches_table [OF assms, of 0] assms by (simp add: AIXProcesses_def reads_table_def)

lemma AIXThreads_complete:
  assumes "reads_table (al_getthrds64 lib) threads pos"
  shows "AIXThreads lib = Some (Ok threads)"
  using batches_table [OF assms, of 0] assms by (simp add: AIXThreads_def reads_table_def)

text \<open>A library over a fixed table, whose cursor is the index of the next entry.\<close>

definition table_call :: "'a list \<Rightarrow> 'a cursor_fn" where
  "table_call tbl i = (let part = take 256 (drop (nat i) tbl) in
     ((word_of_nat (length part), 0), part, int (nat i + length part)))"

lemma reads_table_call: "reads_table (table_call tbl) tbl nat"
  by (simp add: reads_table_def table_call_def Let_def nat_add_distrib)

definition no_lib :: aix_lib where
  "no_lib = \<lparr>al_cpu = (\<lambda>_. ((0, 0), [])), al_cpu_total = ((- 1, 1), \<lparr>ct_NCPUsCfg = 0, ct_User = 0, ct_Sys = 0, ct_Idle = 0,
     ct_Wait = 0, ct_PSwitch = 0, ct_Syscall = 0, ct_DevIntrs = 0, ct_Lbolt = 0, ct_LoadAvg1 = 0, ct_LoadAvg5 = 0,
     ct_LoadAvg15 = 0\<rparr>), al_disk = (\<lambda>_. ((0, 0), [])), al_netinterface = (\<lambda>_. ((0, 0), [])), al_memory_total = ((- 1, 1),
     \<lparr>mt_RealTotal = 0, mt_RealFree = 0, mt_RealInUse = 0, mt_PgIns = 0, mt_PgOuts = 0, mt_PgSpIns = 0, mt_PgSpOuts = 0,
      mt_PgSpTotal = 0, mt_PgSpFree = 0, mt_VirtActive = 0, mt_RealAvail = 0\<rparr>), al_pagingspace = (\<lambda>_. ((0, 0), [])),
     al_partition_total = ((- 1, 1), \<lparr>pt_Name = [], pt_LparID = 0\<rparr>), al_mntctl = (\<lambda>_. ((0, 0), [])),
     al_getevars = (\<lambda>_ _. ((0, 0), [])), al_getprocs64 = table_call [], al_getthrds64 = table_call []\<rparr>"

theorem AIXProcesses_complete_witness:
  "AIXProcesses (no_lib\<lparr>al_getprocs64 := table_call (map (\<lambda>i. zero_process\<lparr>ap_Pid := i\<rparr>) [0..1000])\<rparr>) =
    Some (Ok (map (\<lambda>i. zero_process\<lparr>ap_Pid := i\<rparr>) [0..1000]))"
  by (rule AIXProcesses_complete [of _ _ nat]) (simp add: reads_table_call)

section \<open>The environment is read back\<close>

text \<open>What \<^verbatim>\<open>getevars\<close> writes: the variables, each with a terminating NUL, and one more NUL, cut at the size of the buffer.\<close>

definition env_block :: "string list \<Rightarrow> string" where
  "env_block env = concat (map (\<lambda>v. v @ [CHR 0x00]) env) @ [CHR 0x00]"

lemma index_nul2_word:
  assumes "CHR 0x00 \<notin> set v" and "s = [] \<or> hd s \<noteq> CHR 0x00"
  shows "index_nul2 (v @ CHR 0x00 # s) = map_option (\<lambda>i. Suc (length v) + i) (index_nul2 s)"
  using assms
proof (induction v)
  case Nil
  then show ?case by (cases s) (simp_all add: option.map_comp comp_def)
next
  case (Cons c v)
  then have "c \<noteq> CHR 0x00" by auto
  with Cons show ?case by (cases "v @ CHR 0x00 # s") (simp_all add: option.map_comp comp_def)
qed

lemma index_nul2_end:
  assumes "CHR 0x00 \<notin> set v"
  shows "index_nul2 (v @ CHR 0x00 # CHR 0x00 # s) = Some (length v)"
  using assms
proof (induction v)
  case (Cons c v)
  then have "c \<noteq> CHR 0x00" by auto
  with Cons show ?case by (cases "v @ CHR 0x00 # CHR 0x00 # s") simp_all
qed simp

lemma index_nul2_take: "index_nul2 s = None \<Longrightarrow> index_nul2 (take n s) = None"
proof (induction s arbitrary: n rule: index_nul2.induct)
  case (1 a b s)
  then have nz: "\<not> (a = CHR 0x00 \<and> b = CHR 0x00)" and IH: "index_nul2 (take m (b # s)) = None" for m
    by (auto split: if_splits)
  show ?case
  proof (cases n)
    case (Suc m)
    with nz IH [of m] show ?thesis by (cases m) auto
  qed simp
qed (auto simp: take_Cons')

lemma env_block_hd:
  assumes "list_all (\<lambda>v. v \<noteq> [] \<and> CHR 0x00 \<notin> set v) env"
  shows "concat (map (\<lambda>v. v @ [CHR 0x00]) env) = [] \<or> hd (concat (map (\<lambda>v. v @ [CHR 0x00]) env)) \<noteq> CHR 0x00"
    and "env \<noteq> [] \<Longrightarrow> hd (env_block env @ s) \<noteq> CHR 0x00"
proof -
  have "hd v \<noteq> CHR 0x00" if "v \<noteq> []" "CHR 0x00 \<notin> set v" for v :: string
    using that by (metis hd_in_set)
  then show "concat (map (\<lambda>v. v @ [CHR 0x00]) env) = [] \<or> hd (concat (map (\<lambda>v. v @ [CHR 0x00]) env)) \<noteq> CHR 0x00"
    and "env \<noteq> [] \<Longrightarrow> hd (env_block env @ s) \<noteq> CHR 0x00"
    using assms by (cases env; simp add: env_block_def)+
qed

lemma env_block_scan:
  assumes "list_all (\<lambda>v. v \<noteq> [] \<and> CHR 0x00 \<notin> set v) env"
  shows "index_nul2 (concat (map (\<lambda>v. v @ [CHR 0x00]) env)) = None"
    and "env \<noteq> [] \<Longrightarrow> index_nul2 (env_block env @ s) = Some (length (join [CHR 0x00] env))"
proof -
  show "index_nul2 (concat (map (\<lambda>v. v @ [CHR 0x00]) env)) = None"
    using assms
  proof (induction env)
    case (Cons v env)
    then show ?case
      using env_block_hd(1) [of env] index_nul2_word [of v "concat (map (\<lambda>v. v @ [CHR 0x00]) env)"] by simp
  qed simp
  show "env \<noteq> [] \<Longrightarrow> index_nul2 (env_block env @ s) = Some (length (join [CHR 0x00] env))"
    using assms
  proof (induction "[CHR 0x00]" env rule: join.induct)
    case (2 w)
    then show ?case by (simp add: env_block_def index_nul2_end)
  next
    case (3 w v ws)
    then have "index_nul2 (w @ CHR 0x00 # (env_block (v # ws) @ s)) =
        map_option (\<lambda>i. Suc (length w) + i) (index_nul2 (env_block (v # ws) @ s))"
      using env_block_hd(2) [of "v # ws" s] by (intro index_nul2_word) auto
    with 3 show ?case by (simp add: env_block_def)
  qed simp
qed

lemma env_block_join:
  "env \<noteq> [] \<Longrightarrow> env_block env = join [CHR 0x00] env @ [CHR 0x00, CHR 0x00]"
  unfolding env_block_def by (induction "[CHR 0x00]" env rule: join.induct) simp_all

text \<open>The environment of a process is read back, whatever its size below 4 MB: a buffer that is too small is noticed and
  doubled, and no variable is cut or lost.\<close>

theorem AIXProcessEnv_roundtrip:
  assumes "list_all (\<lambda>v. v \<noteq> [] \<and> CHR 0x00 \<notin> set v) env"
    and "al_getevars lib pid = (\<lambda>sz. ((0, 0), take sz (env_block env)))"
    and "length (env_block env) \<le> 4194304"
  shows "AIXProcessEnv lib pid = Ok env"
proof (cases "env = []")
  case True
  then have "buffer (CHR 0x00) 16384 (take 16384 (env_block env)) = CHR 0x00 # CHR 0x00 # replicate 16382 (CHR 0x00)"
    by (simp add: buffer_def env_block_def flip: replicate_Suc)
  with True assms(2) show ?thesis
    by (simp add: AIXProcessEnv_def env_loop.simps callLib_def Let_def wrap_signed_def)
next
  case False
  let ?L = "length (join [CHR 0x00] env)"
  have L: "0 < ?L" using False assms(1) join_not_Nil [of env "[CHR 0x00]"] by (simp add: list_all_iff)
  have len: "length (env_block env) = ?L + 2" using False by (simp add: env_block_join)
  have call: "callLib (0, 0) = Ok 0" by (simp add: callLib_def wrap_signed_def)
  have "env_loop (al_getevars lib pid) sz = Ok env" if "0 < sz" for sz
    using that
  proof (induction "4194304 - sz" arbitrary: sz rule: less_induct)
    case less
    let ?buf = "buffer (CHR 0x00) sz (take sz (env_block env))"
    show ?case
    proof (cases "sz < length (env_block env)")
      case True
      then have "?buf = take sz (concat (map (\<lambda>v. v @ [CHR 0x00]) env))"
        by (simp add: buffer_def env_block_def)
      then have "index_nul2 ?buf = None" by (simp add: index_nul2_take env_block_scan(1) assms(1))
      moreover have "env_loop (al_getevars lib pid) (sz * 2) = Ok env"
        using less.prems True assms(3) by (intro less.hyps) auto
      ultimately show ?thesis
        using less.prems True assms(2,3) by (subst env_loop.simps) (simp add: call Let_def)
    next
      case False
      then have buf: "?buf = env_block env @ replicate (sz - length (env_block env)) (CHR 0x00)"
        by (simp add: buffer_def)
      then have "index_nul2 ?buf = Some ?L"
        using env_block_scan(2) [OF assms(1) \<open>env \<noteq> []\<close>] by simp
      moreover have "take ?L ?buf = join [CHR 0x00] env" using \<open>env \<noteq> []\<close> unfolding buf by (simp add: env_block_join)
      ultimately show ?thesis
        using less.prems assms(1,2) L \<open>env \<noteq> []\<close>
        by (subst env_loop.simps) (simp add: call Let_def split_char_join list_all_iff)
    qed
  qed
  then show ?thesis by (simp add: AIXProcessEnv_def)
qed

theorem AIXProcessEnv_roundtrip_witness:
  "AIXProcessEnv (no_lib\<lparr>al_getevars := (\<lambda>_ sz. ((0, 0), take sz (env_block [''HOME=/'', ''LANG=C''])))\<rparr>) 7 =
    Ok [''HOME=/'', ''LANG=C'']"
  by (rule AIXProcessEnv_roundtrip) (simp_all add: env_block_def)

section \<open>The mount table is read back\<close>

text \<open>A \<^verbatim>\<open>vmount\<close> record: 68 bytes with the length, the type and the table that locates the six strings, then the
  strings with their NUL and padding.\<close>

definition vmount_strs :: "aix_mount \<Rightarrow> string list" where
  "vmount_strs m = map (\<lambda>s. s @ [CHR 0x00]) [am_Object m, am_Stub m, am_Host m, [], [], am_Args m]"

definition vmount_size :: "aix_mount \<Rightarrow> string \<Rightarrow> nat" where
  "vmount_size m pad = 68 + length (concat (vmount_strs m)) + length pad"

fun vmount_slots :: "nat \<Rightarrow> string list \<Rightarrow> string" where
  "vmount_slots off [] = []"
| "vmount_slots off (s # ss) = be_bytes 2 off @ be_bytes 2 (length s) @ vmount_slots (off + length s) ss"

definition vmount_bytes :: "aix_mount \<Rightarrow> string \<Rightarrow> string" where
  "vmount_bytes m pad = be_bytes 4 0 @ be_bytes 4 (vmount_size m pad) @ replicate 32 (CHR 0x00) @
     encode_val 4 (am_GfsType m) @ vmount_slots 68 (vmount_strs m) @ concat (vmount_strs m) @ pad"

definition vmount_ok :: "aix_mount \<Rightarrow> string \<Rightarrow> bool" where
  "vmount_ok m pad \<longleftrightarrow> vmount_size m pad < 65536 \<and> in_width True 4 (am_GfsType m) \<and>
     list_all (\<lambda>s. CHR 0x00 \<notin> set s) [am_Object m, am_Stub m, am_Host m, am_Args m]"

lemma uint_at_mid:
  "length a = i \<Longrightarrow> length b = w \<Longrightarrow> uint_at w (a @ b @ c) i = Ok (be_nat b)"
  by (simp add: uint_at_def)

lemma length_vmount_slots [simp]: "length (vmount_slots off ss) = 4 * length ss"
  by (induction ss arbitrary: off) simp_all

lemma vmount_slots_append:
  "vmount_slots off (ss @ ts) = vmount_slots off ss @ vmount_slots (off + length (concat ss)) ts"
  by (induction ss arbitrary: off) (simp_all add: add.assoc)

lemma CString_nul [simp]: "CHR 0x00 \<notin> set s \<Longrightarrow> CString (s @ CHR 0x00 # t) = s"
  unfolding CString_def by (rule takeWhile_append_stop) auto

text \<open>The slot of each string leads to it.\<close>

lemma vmount_str_slot:
  assumes "ss = us @ (s @ [CHR 0x00]) # vs" and "CHR 0x00 \<notin> set s" and "length pre = 44"
    and "length ss = 6" and "68 + length (concat ss) < 65536"
  shows "vmount_str (pre @ vmount_slots 68 ss @ concat ss @ pad) (length us) = Ok s"
proof -
  let ?rec = "pre @ vmount_slots 68 ss @ concat ss @ pad"
  let ?off = "68 + length (concat us)" and ?t = "s @ [CHR 0x00]"
  let ?pre = "pre @ vmount_slots 68 us"
  have slots: "?rec = ?pre @ be_bytes 2 ?off @ be_bytes 2 (length ?t) @ vmount_slots (?off + length ?t) vs @ concat ss @ pad"
    by (simp add: assms(1) vmount_slots_append)
  have "uint_at 2 ?rec (44 + 4 * length us) = Ok (be_nat (be_bytes 2 ?off))"
    unfolding slots by (rule uint_at_mid) (simp_all add: assms(3))
  then have o: "uint_at 2 ?rec (44 + 4 * length us) = Ok ?off"
    using assms(1,5) by (simp add: be_nat_be_bytes)
  have "uint_at 2 ?rec (44 + 4 * length us + 2) = Ok (be_nat (be_bytes 2 (length ?t)))"
    unfolding slots append_assoc [symmetric, of ?pre] by (rule uint_at_mid) (simp_all add: assms(3))
  then have l: "uint_at 2 ?rec (44 + 4 * length us + 2) = Ok (length ?t)"
    using assms(1,5) by (simp add: be_nat_be_bytes)
  have strs: "?rec = (pre @ vmount_slots 68 ss @ concat us) @ ?t @ concat vs @ pad" by (simp add: assms(1))
  have tk: "take (length ?t) (drop ?off ?rec) = ?t"
    unfolding strs using assms(3,4) by simp
  have le: "?off + length ?t \<le> length ?rec" unfolding strs using assms(3,4) by simp
  show ?thesis
    unfolding vmount_str_def o l rbind.simps if_not_P [OF leD [OF le]] tk using assms(2) by simp
qed

lemma vmount_record_bytes:
  assumes "vmount_ok m pad"
  shows "vmount_record (vmount_bytes m pad) = Ok m" and "length (vmount_bytes m pad) = vmount_size m pad"
    and "uint_at 4 (vmount_bytes m pad @ rest) 4 = Ok (vmount_size m pad)"
proof -
  let ?pre = "be_bytes 4 0 @ be_bytes 4 (vmount_size m pad) @ replicate 32 (CHR 0x00) @ encode_val 4 (am_GfsType m)"
  let ?nul = "\<lambda>s. s @ [CHR 0x00]"
  have b: "vmount_bytes m pad = ?pre @ vmount_slots 68 (vmount_strs m) @ concat (vmount_strs m) @ pad"
    by (simp add: vmount_bytes_def)
  have ss: "vmount_strs m = [?nul (am_Object m), ?nul (am_Stub m), ?nul (am_Host m), ?nul [], ?nul [], ?nul (am_Args m)]"
    by (simp add: vmount_strs_def)
  have lens: "length ?pre = 44" "length (vmount_strs m) = 6" "68 + length (concat (vmount_strs m)) < 65536"
    using assms by (simp_all add: vmount_strs_def vmount_ok_def vmount_size_def)
  have nonul: "CHR 0x00 \<notin> set (am_Object m)" "CHR 0x00 \<notin> set (am_Stub m)" "CHR 0x00 \<notin> set (am_Host m)" "CHR 0x00 \<notin> set (am_Args m)"
    using assms by (simp_all add: vmount_ok_def)
  note slot = vmount_str_slot [OF _ _ lens, of _ _ _ pad, folded b]
  have strs: "vmount_str (vmount_bytes m pad) 0 = Ok (am_Object m)" "vmount_str (vmount_bytes m pad) 1 = Ok (am_Stub m)"
    "vmount_str (vmount_bytes m pad) 2 = Ok (am_Host m)" "vmount_str (vmount_bytes m pad) 5 = Ok (am_Args m)"
    using slot [of "[]"] slot [of "take 1 (vmount_strs m)"] slot [of "take 2 (vmount_strs m)"] slot [of "take 5 (vmount_strs m)"] nonul
    by (simp_all add: ss eval_nat_numeral)
  have "uint_at 4 (vmount_bytes m pad) 40 = Ok (be_nat (encode_val 4 (am_GfsType m)))"
    unfolding vmount_bytes_def append_assoc [symmetric, of "be_bytes 4 0"]
      append_assoc [symmetric, of "be_bytes 4 0 @ be_bytes 4 (vmount_size m pad)"]
    by (rule uint_at_mid) simp_all
  moreover have "to_i32 (int (be_nat (encode_val 4 (am_GfsType m)))) = am_GfsType m"
    using be_val_encode_val [of 4 True "am_GfsType m"] assms by (simp add: vmount_ok_def be_val_def)
  ultimately show "vmount_record (vmount_bytes m pad) = Ok m" by (simp add: vmount_record_def strs [simplified])
  show "length (vmount_bytes m pad) = vmount_size m pad"
    using lens by (simp add: vmount_bytes_def vmount_size_def)
  show "uint_at 4 (vmount_bytes m pad @ rest) 4 = Ok (vmount_size m pad)"
    unfolding vmount_bytes_def append_assoc using assms
    by (subst uint_at_mid) (simp_all add: be_nat_be_bytes vmount_ok_def)
qed

lemma parseVmounts_records:
  assumes "list_all (\<lambda>(m, pad). vmount_ok m pad) ms"
  shows "parseVmounts (pre @ concat (map (\<lambda>(m, pad). vmount_bytes m pad) ms) @ rest) (length ret + length ms) (length pre) ret =
    Ok (ret @ map fst ms)"
  using assms
proof (induction ms arbitrary: pre ret)
  case Nil
  then show ?case by (simp add: parseVmounts.simps)
next
  case (Cons p ms)
  obtain m pad where p: "p = (m, pad)" by (cases p)
  have ok: "vmount_ok m pad" using Cons.prems p by simp
  let ?b = "vmount_bytes m pad"
  let ?tail = "concat (map (\<lambda>(m, pad). vmount_bytes m pad) ms) @ rest"
  have n: "68 \<le> vmount_size m pad" by (simp add: vmount_size_def)
  have "parseVmounts ((pre @ ?b) @ ?tail) (length (ret @ [m]) + length ms) (length (pre @ ?b)) (ret @ [m]) =
      Ok ((ret @ [m]) @ map fst ms)"
    using Cons.prems by (intro Cons.IH) simp
  with n show ?case
    by (subst parseVmounts.simps)
       (simp add: p vmount_record_bytes(1,2) [OF ok] vmount_record_bytes(3) [OF ok] add.commute)
qed

text \<open>Every table of mounts that \<^verbatim>\<open>mntctl\<close> can deliver in the first buffer is read back: the mounts in order, with their
  device, mount point, host, options and file system type, whatever padding follows the records.\<close>

theorem AIXMounts_roundtrip:
  assumes "list_all (\<lambda>(m, pad). vmount_ok m pad) ms" and "ms \<noteq> []" and "length ms < 2 ^ 31"
    and "bytes = concat (map (\<lambda>(m, pad). vmount_bytes m pad) ms)" and "length bytes \<le> 8192"
    and "al_mntctl lib 8192 = ((word_of_nat (length ms), 0), bytes)"
  shows "AIXMounts lib = Ok (map fst ms)"
proof -
  have "buffer (CHR 0x00) 8192 bytes = [] @ bytes @ replicate (8192 - length bytes) (CHR 0x00)"
    using assms(5) by (simp add: buffer_def)
  with assms parseVmounts_records [OF assms(1), of "[]" "replicate (8192 - length bytes) (CHR 0x00)" "[]"]
  show ?thesis by (simp add: AIXMounts_def callLib_nat)
qed

definition root_mount :: aix_mount where
  "root_mount = \<lparr>am_Object = ''/dev/hd4'', am_Stub = ''/'', am_Host = ''-'', am_Args = ''rw,log=/dev/hd8'', am_GfsType = 0\<rparr>"

theorem AIXMounts_roundtrip_witness:
  "AIXMounts (no_lib\<lparr>al_mntctl := (\<lambda>_. ((1, 0), vmount_bytes root_mount ''pad''))\<rparr>) = Ok [root_mount]"
proof -
  have ok: "vmount_ok root_mount ''pad''" by (simp add: vmount_ok_def vmount_size_def vmount_strs_def in_width_def root_mount_def)
  have len: "length (vmount_bytes root_mount ''pad'') \<le> 8192"
    unfolding vmount_record_bytes(2) [OF ok] by (simp add: vmount_size_def vmount_strs_def root_mount_def)
  show ?thesis
    using AIXMounts_roundtrip [of "[(root_mount, ''pad'')]" _ "no_lib\<lparr>al_mntctl := (\<lambda>_. ((1, 0), vmount_bytes root_mount ''pad''))\<rparr>"] ok len
    by simp
qed

end
