(* ===== verification/Aix_System.thy ===== *)
theory Aix_System
  imports Common_Aix Cpu_Linux Mem_Linux Load_Linux Disk_Linux Host_Linux
begin

text \<open>
  Packages \<^verbatim>\<open>cpu\<close>, \<^verbatim>\<open>mem\<close>, \<^verbatim>\<open>load\<close>, \<^verbatim>\<open>disk\<close> and \<^verbatim>\<open>host\<close> on AIX without cgo (\<^verbatim>\<open>cpu_aix_nocgo.go\<close>, \<^verbatim>\<open>mem_aix_nocgo.go\<close>,
  \<^verbatim>\<open>load_aix_nocgo.go\<close>, \<^verbatim>\<open>disk_aix.go\<close>, \<^verbatim>\<open>disk_aix_nocgo.go\<close>, \<^verbatim>\<open>host_aix.go\<close>, \<^verbatim>\<open>host_aix_nocgo.go\<close>), over the library calls of
  \<open>aix_lib\<close> and the commands of \<open>host\<close>. The package variables that a \<^verbatim>\<open>sync.Once\<close> guards are the records
  \<open>prtconf_vars\<close> and \<open>aix_once\<close>, passed through the calls, with the flag of each \<^verbatim>\<open>Once\<close>.
\<close>

section \<open>Cached values\<close>

text \<open>\<^verbatim>\<open>sync.Once.Do\<close>: the flag of the \<^verbatim>\<open>Once\<close> is read, the function runs when it is not set, and then the flag is set. What the
  function assigns are package variables of their own, the value and the error; a function that returns early leaves the others as they are.\<close>

definition once_do :: "('c \<Rightarrow> bool) \<Rightarrow> ('c \<Rightarrow> 'c) \<Rightarrow> ('c \<Rightarrow> 'c) \<Rightarrow> 'c \<Rightarrow> 'c" where
  "once_do is_done set_done body c = (if is_done c then c else set_done (body c))"

record prtconf_vars =
  prtconfOnce :: bool
  prtconfOutput :: string
  prtconfErr :: "gerr option"

record aix_once =
  hostIDOnce :: bool
  hostIDVal :: string
  hostIDErr :: "gerr option"
  platformOnce :: bool
  platformVal :: string
  familyVal :: string
  versionVal :: string
  platformErr :: "gerr option"
  kernelVerOnce :: bool
  kernelVerVal :: string
  kernelVerErr :: "gerr option"
  kernelArchOnce :: bool
  kernelArchVal :: string
  kernelArchErr :: "gerr option"

definition init_prtconf :: prtconf_vars where
  "init_prtconf = \<lparr>prtconfOnce = False, prtconfOutput = [], prtconfErr = None\<rparr>"

definition init_once :: aix_once where
  "init_once = \<lparr>hostIDOnce = False, hostIDVal = [], hostIDErr = None,
     platformOnce = False, platformVal = [], familyVal = [], versionVal = [], platformErr = None,
     kernelVerOnce = False, kernelVerVal = [], kernelVerErr = None,
     kernelArchOnce = False, kernelArchVal = [], kernelArchErr = None\<rparr>"

section \<open>cpu\<close>

definition aix_seconds :: "u64 \<Rightarrow> float64" where
  "aix_seconds n = f_of_u64 n / Fin 100"

definition aix_times :: "string \<Rightarrow> u64 \<Rightarrow> u64 \<Rightarrow> u64 \<Rightarrow> u64 \<Rightarrow> times_stat" where
  "aix_times name user sys idle wait =
     \<lparr>t_CPU = name, t_User = aix_seconds user, t_System = aix_seconds sys, t_Idle = aix_seconds idle, t_Nice = 0,
      t_Iowait = aix_seconds wait, t_Irq = 0, t_Softirq = 0, t_Steal = 0, t_Guest = 0, t_GuestNice = 0\<rparr>"

definition aix_TimesWithContext :: "aix_lib \<Rightarrow> bool \<Rightarrow> times_stat list result" where
  "aix_TimesWithContext lib percpu =
     (if \<not> percpu then rbind (PerfstatCPUTotalStat lib) (\<lambda>t.
        Ok [aix_times ''cpu-total'' (ct_User t) (ct_Sys t) (ct_Idle t) (ct_Wait t)])
      else rbind (PerfstatCPUStats lib) (\<lambda>cpus.
        Ok (map (\<lambda>c. aix_times (CString (c_Name c)) (c_User c) (c_Sys c) (c_Idle c) (c_Wait c)) cpus)))"

definition to_upper_ascii :: "string \<Rightarrow> string" where
  "to_upper_ascii = map (\<lambda>c. let n = (of_char c :: nat) in if 97 \<le> n \<and> n \<le> 122 then char_of (n - 32) else c)"

definition prtconf_cores :: "string \<Rightarrow> info_stat \<Rightarrow> info_stat" where
  "prtconf_cores line ret = (let p = str_fields line in
     if 3 < length p then (case parse_u64 (p ! 3) of Ok t \<Rightarrow> ret\<lparr>i_Cores := to_i32 (uint t)\<rparr> | _ \<Rightarrow> ret) else ret)"

definition prtconf_mhz :: "string \<Rightarrow> info_stat \<Rightarrow> info_stat" where
  "prtconf_mhz line ret = (let p = str_fields line in
     if 4 < length p then (case parse_f64 (p ! 3) of
         Ok t \<Rightarrow> let unit_name = to_upper_ascii (p ! 4) in
           ret\<lparr>i_Mhz := (if unit_name = ''GHZ'' then t * Fin 1000 else if unit_name = ''KHZ'' then t / Fin 1000 else t)\<rparr>
       | _ \<Rightarrow> ret) else ret)"

definition prtconf_line :: "string \<Rightarrow> info_stat \<Rightarrow> info_stat result" where
  "prtconf_line line ret =
     (if has_prefix line ''Number Of Processors:'' then Ok (prtconf_cores line ret)
      else if has_prefix line ''Processor Clock Speed:'' then Ok (prtconf_mhz line ret)
      else if has_prefix line ''System Model:'' then
        rbind (idx (split_char CHR '':'' line) 1) (\<lambda>p1. Ok (ret\<lparr>i_VendorID := trim_space p1\<rparr>))
      else if has_prefix line ''Processor Type:'' then
        rbind (idx (split_char CHR '':'' line) 1) (\<lambda>p1.
          let c = split_char CHR ''_'' p1 in
          rbind (idx c 0) (\<lambda>c0. rbind (idx c 1) (\<lambda>c1.
            Ok (ret\<lparr>i_ModelName := trim_space p1, i_Family := trim_space c0, i_Model := trim_space c1\<rparr>))))
      else Ok ret)"

definition prtconf_body :: "host \<Rightarrow> prtconf_vars \<Rightarrow> prtconf_vars" where
  "prtconf_body h c = (case h_command h ''prtconf'' [] of (out, err) \<Rightarrow> c\<lparr>prtconfOutput := out, prtconfErr := err\<rparr>)"

definition aix_InfoWithContext :: "host \<Rightarrow> prtconf_vars \<Rightarrow> info_stat list result \<times> prtconf_vars" where
  "aix_InfoWithContext h c =
     (let c' = once_do prtconfOnce (prtconfOnce_update (\<lambda>_. True)) (prtconf_body h) c in
      (case prtconfErr c' of Some e \<Rightarrow> Err e
       | None \<Rightarrow> rbind (rfold prtconf_line (split_char nl (prtconfOutput c')) (empty_info 0 0 [])) (\<lambda>ret. Ok [ret]), c'))"

definition aix_CountsWithContext :: "host \<Rightarrow> aix_lib \<Rightarrow> bool \<Rightarrow> prtconf_vars \<Rightarrow> int result \<times> prtconf_vars" where
  "aix_CountsWithContext h lib logical c =
     (if logical then (rbind (PerfstatCPUTotalStat lib) (\<lambda>t. Ok (ct_NCPUsCfg t)), c)
      else case aix_InfoWithContext h c of (r, c') \<Rightarrow> (rbind r (\<lambda>info. rbind (idx info 0) (\<lambda>i. Ok (i_Cores i))), c'))"

section \<open>mem\<close>

definition perfstatPage :: u64 where
  "perfstatPage = 4096"

definition aix_VirtualMemoryWithContext :: "aix_lib \<Rightarrow> virtual_memory_stat result" where
  "aix_VirtualMemoryWithContext lib = rbind (PerfstatMemoryTotalStat lib) (\<lambda>m.
     if mt_RealTotal m = 0 then Err ErrNotImplemented
     else Ok (empty_vm\<lparr>v_Total := mt_RealTotal m * perfstatPage, v_Available := mt_RealAvail m * perfstatPage,
       v_Free := mt_RealFree m * perfstatPage, v_Used := mt_RealInUse m * perfstatPage,
       v_UsedPercent := Fin 100 * f_of_u64 (mt_RealInUse m) / f_of_u64 (mt_RealTotal m),
       v_Active := mt_VirtActive m * perfstatPage, v_SwapTotal := mt_PgSpTotal m * perfstatPage,
       v_SwapFree := mt_PgSpFree m * perfstatPage\<rparr>))"

definition aix_SwapMemoryWithContext :: "aix_lib \<Rightarrow> swap_memory_stat result" where
  "aix_SwapMemoryWithContext lib = rbind (PerfstatMemoryTotalStat lib) (\<lambda>m.
     if mt_PgSpTotal m = 0 then Err ErrNotImplemented
     else let used = mt_PgSpTotal m - mt_PgSpFree m in
       Ok \<lparr>sw_Total = mt_PgSpTotal m * perfstatPage, sw_Used = used * perfstatPage, sw_Free = mt_PgSpFree m * perfstatPage,
         sw_UsedPercent = Fin 100 * f_of_u64 used / f_of_u64 (mt_PgSpTotal m), sw_Sin = mt_PgSpIns m, sw_Sout = mt_PgSpOuts m,
         sw_PgIn = mt_PgIns m, sw_PgOut = mt_PgOuts m, sw_PgFault = 0, sw_PgMajFault = 0\<rparr>)"

definition aix_SwapDevicesWithContext :: "aix_lib \<Rightarrow> swap_device list result" where
  "aix_SwapDevicesWithContext lib = rbind (PerfstatPagingSpaceStats lib) (\<lambda>spaces.
     Ok (map (\<lambda>sp. \<lparr>sd_Name = CString (ps_Name sp), sd_UsedBytes = push_bit 20 (word_of_int (ps_MBUsed sp)),
       sd_FreeBytes = push_bit 20 (word_of_int (to_i64 (ps_MBSize sp - ps_MBUsed sp)))\<rparr>) spaces))"

section \<open>load\<close>

definition aix_AvgWithContext :: "aix_lib \<Rightarrow> avg_stat result" where
  "aix_AvgWithContext lib = rbind (PerfstatCPUTotalStat lib) (\<lambda>t.
     Ok \<lparr>l_Load1 = f_of_u64 (ct_LoadAvg1 t) / Fin 65536, l_Load5 = f_of_u64 (ct_LoadAvg5 t) / Fin 65536,
         l_Load15 = f_of_u64 (ct_LoadAvg15 t) / Fin 65536\<rparr>)"

text \<open>Which of the two sets of pids a thread enters: \<open>Some True\<close> running, \<open>Some False\<close> blocked. Bit 12 marks a thread of the
  kernel, bit 9 a process of the kernel.\<close>

definition thread_state :: "aix_thread \<Rightarrow> bool option" where
  "thread_state th =
     (if bit (at_Flags th) 12 then None else if at_State th = 2 then Some True
      else if at_State th = 3 \<and> AIXVMMWait (at_WaitType th) then Some False else None)"

definition pids_in :: "bool \<Rightarrow> aix_thread list \<Rightarrow> int list" where
  "pids_in b threads = remdups (map at_Pid (filter (\<lambda>th. thread_state th = Some b) threads))"

definition user_processes :: "aix_process list \<Rightarrow> aix_process list" where
  "user_processes procs = filter (\<lambda>p. \<not> bit (ap_Flags p) 9) procs"

definition misc_counts :: "aix_lib \<Rightarrow> aix_process list \<Rightarrow> aix_thread list \<Rightarrow> misc_stat result" where
  "misc_counts lib procs threads = rbind (PerfstatCPUTotalStat lib) (\<lambda>t.
     Ok (empty_misc\<lparr>ms_ProcsTotal := int (length (user_processes procs)),
       ms_ProcsRunning := int (length (pids_in True threads)), ms_ProcsBlocked := int (length (pids_in False threads)),
       ms_Ctxt := to_i64 (uint (ct_PSwitch t)), ms_SysCalls := to_i64 (uint (ct_Syscall t)),
       ms_Interrupts := to_i64 (uint (ct_DevIntrs t))\<rparr>))"

definition aix_MiscWithContext :: "aix_lib \<Rightarrow> misc_stat result option" where
  "aix_MiscWithContext lib = (case AIXProcesses lib of
     None \<Rightarrow> None | Some (Err e) \<Rightarrow> Some (Err e) | Some Panic \<Rightarrow> Some Panic
   | Some (Ok procs) \<Rightarrow> map_option (\<lambda>r. rbind r (misc_counts lib procs)) (AIXThreads lib))"

section \<open>disk\<close>

definition FSType :: "(int \<times> string) list" where
  "FSType = [(0, ''jfs2''), (1, ''namefs''), (2, ''nfs''), (3, ''jfs''), (5, ''cdrom''), (6, ''proc''),
     (16, ''special-fs''), (17, ''cache-fs''), (18, ''nfs3''), (19, ''automount-fs''), (20, ''pool-fs''), (32, ''vxfs''),
     (33, ''veritas-fs''), (34, ''udfs''), (35, ''nfs4''), (36, ''nfs4-pseudo''), (37, ''smbfs''), (38, ''mcr-pseudofs''),
     (39, ''ahafs''), (40, ''sterm-nfs''), (41, ''asmfs'')]"

definition aix_getFsType :: "int \<Rightarrow> string" where
  "aix_getFsType vfstype = (case map_of FSType vfstype of Some s \<Rightarrow> s | None \<Rightarrow> [])"

definition serial_prefix :: string where
  "serial_prefix = ''Serial Number...............''"

definition aix_SerialNumberWithContext :: "host \<Rightarrow> string \<Rightarrow> string result" where
  "aix_SerialNumberWithContext h name =
     (if has_prefix name ''/dev/'' then Err (ErrMsg ''devices on /dev are not physical disks on aix'')
      else if has_prefix name ''-'' then Err (ErrMsg ''invalid device name'')
      else rbind (run_command h ''lscfg'' [''-vl'', name]) (\<lambda>out.
        case find (\<lambda>v. has_prefix v serial_prefix) (map trim_space (tl (split_char nl out))) of
          None \<Rightarrow> Err (ErrMsg ''serial entry not found for disk'')
        | Some v \<Rightarrow> (let ret = drop (length serial_prefix) v in
            if ret = [] then Err (ErrMsg ''empty serial for disk'') else Ok ret)))"

definition aix_disk_io :: "perfstat_disk \<Rightarrow> disk_io_stat" where
  "aix_disk_io d = empty_disk_io\<lparr>d_Name := CString (pd_Name d), d_ReadCount := pd_XRate d,
     d_WriteCount := pd_Xfers d - pd_XRate d, d_ReadBytes := pd_RBlks d * pd_BSize d, d_WriteBytes := pd_WBlks d * pd_BSize d,
     d_ReadTime := pd_RServ d div 1000000, d_WriteTime := pd_WServ d div 1000000, d_IoTime := pd_Time d * 1000 div 100,
     d_WeightedIO := pd_WQTime d div 1000000, d_IopsInProgress := pd_QDepth d\<rparr>"

definition aix_disk_IOCountersWithContext :: "aix_lib \<Rightarrow> string list \<Rightarrow> (string \<times> disk_io_stat) list result" where
  "aix_disk_IOCountersWithContext lib names = rbind (PerfstatDiskStats lib) (\<lambda>disks.
     Ok (fold (\<lambda>d. alist_put (CString (pd_Name d)) (aix_disk_io d))
       (filter (\<lambda>d. names = [] \<or> StringsHas names (CString (pd_Name d))) disks) []))"

definition vfs_line :: "string \<Rightarrow> (int \<times> string) list \<Rightarrow> (int \<times> string) list" where
  "vfs_line line names = (case str_fields line of
     f0 # f1 # _ \<Rightarrow> if has_prefix f0 ''#'' \<or> has_prefix f0 ''%'' then names
       else (case parse_i32 f1 of Ok n \<Rightarrow> alist_put n f0 names | _ \<Rightarrow> names)
   | _ \<Rightarrow> names)"

definition vfsNames :: "host \<Rightarrow> (int \<times> string) list" where
  "vfsNames h = (case ReadLines h (HostEtcWithContext h [''vfs'']) of Ok lines \<Rightarrow> fold vfs_line lines [] | _ \<Rightarrow> [])"

definition vfs_name :: "(int \<times> string) list \<Rightarrow> int \<Rightarrow> string" where
  "vfs_name names n = (case map_of names n of Some s \<Rightarrow> s | None \<Rightarrow> [])"

definition ignoreFSType :: "string list" where
  "ignoreFSType = [''procfs'']"

definition aix_PartitionsWithContext :: "host \<Rightarrow> aix_lib \<Rightarrow> partition_stat list result" where
  "aix_PartitionsWithContext h lib = rbind (AIXMounts lib) (\<lambda>mounts.
     Ok (map (\<lambda>m. \<lparr>pt_Device = am_Object m, pt_Mountpoint = am_Stub m, pt_Fstype = vfs_name (vfsNames h) (am_GfsType m),
         pt_Opts = split_char CHR '','' (am_Args m)\<rparr>)
       (filter (\<lambda>m. vfs_name (vfsNames h) (am_GfsType m) \<notin> set ignoreFSType) mounts)))"

definition GetMountFSTypeWithContext :: "host \<Rightarrow> aix_lib \<Rightarrow> string \<Rightarrow> string result" where
  "GetMountFSTypeWithContext h lib mp = rbind (AIXMounts lib) (\<lambda>mounts.
     Ok (case find (\<lambda>m. am_Stub m = mp) mounts of Some m \<Rightarrow> vfs_name (vfsNames h) (am_GfsType m) | None \<Rightarrow> []))"

section \<open>host\<close>

definition hostID_body :: "host \<Rightarrow> aix_once \<Rightarrow> aix_once" where
  "hostID_body h c = (case h_command h ''uname'' [''-u''] of
     (_, Some e) \<Rightarrow> c\<lparr>hostIDErr := Some e\<rparr> | (out, None) \<Rightarrow> c\<lparr>hostIDVal := hd (split_char nl out)\<rparr>)"

definition aix_HostIDWithContext :: "host \<Rightarrow> aix_once \<Rightarrow> (string \<times> gerr option) \<times> aix_once" where
  "aix_HostIDWithContext h c =
     (let c' = once_do hostIDOnce (hostIDOnce_update (\<lambda>_. True)) (hostID_body h) c in ((hostIDVal c', hostIDErr c'), c'))"

text \<open>When \<^verbatim>\<open>oslevel\<close> fails the platform and family are already set.\<close>

definition platform_body :: "host \<Rightarrow> aix_once \<Rightarrow> aix_once" where
  "platform_body h c = (case h_command h ''uname'' [''-s''] of
     (_, Some e) \<Rightarrow> c\<lparr>platformErr := Some e\<rparr>
   | (out, None) \<Rightarrow> (let c = c\<lparr>platformVal := trim_right_set [nl] out\<rparr>; c = c\<lparr>familyVal := platformVal c\<rparr> in
       case h_command h ''oslevel'' [] of
         (_, Some e) \<Rightarrow> c\<lparr>platformErr := Some e\<rparr>
       | (out2, None) \<Rightarrow> c\<lparr>versionVal := trim_right_set [nl] out2\<rparr>))"

definition aix_PlatformInformationWithContext :: "host \<Rightarrow> aix_once \<Rightarrow> ((string \<times> string \<times> string) \<times> gerr option) \<times> aix_once" where
  "aix_PlatformInformationWithContext h c =
     (let c' = once_do platformOnce (platformOnce_update (\<lambda>_. True)) (platform_body h) c
      in (((platformVal c', familyVal c', versionVal c'), platformErr c'), c'))"

definition kernelVer_body :: "host \<Rightarrow> aix_once \<Rightarrow> aix_once" where
  "kernelVer_body h c = (case h_command h ''oslevel'' [''-s''] of
     (_, Some e) \<Rightarrow> c\<lparr>kernelVerErr := Some e\<rparr> | (out, None) \<Rightarrow> c\<lparr>kernelVerVal := trim_right_set [nl] out\<rparr>)"

definition aix_KernelVersionWithContext :: "host \<Rightarrow> aix_once \<Rightarrow> (string \<times> gerr option) \<times> aix_once" where
  "aix_KernelVersionWithContext h c =
     (let c' = once_do kernelVerOnce (kernelVerOnce_update (\<lambda>_. True)) (kernelVer_body h) c in ((kernelVerVal c', kernelVerErr c'), c'))"

definition kernelArch_body :: "host \<Rightarrow> aix_once \<Rightarrow> aix_once" where
  "kernelArch_body h c = (case h_command h ''getconf'' [''KERNEL_BITMODE''] of
     (out, None) \<Rightarrow> c\<lparr>kernelArchVal := trim_right_set [nl] out\<rparr>
   | (_, Some _) \<Rightarrow> (case h_command h ''bootinfo'' [''-y''] of
         (_, Some e) \<Rightarrow> c\<lparr>kernelArchErr := Some e\<rparr> | (out, None) \<Rightarrow> c\<lparr>kernelArchVal := trim_right_set [nl] out\<rparr>))"

definition aix_KernelArch :: "host \<Rightarrow> aix_once \<Rightarrow> (string \<times> gerr option) \<times> aix_once" where
  "aix_KernelArch h c =
     (let c' = once_do kernelArchOnce (kernelArchOnce_update (\<lambda>_. True)) (kernelArch_body h) c in ((kernelArchVal c', kernelArchErr c'), c'))"

definition aix_VirtualizationWithContext :: "host \<Rightarrow> aix_lib \<Rightarrow> string \<times> string" where
  "aix_VirtualizationWithContext h lib =
     (let wpar = (case run_command h ''uname'' [''-W''] of Ok out \<Rightarrow> trim_space out | _ \<Rightarrow> [])
      in if wpar \<noteq> [] \<and> wpar \<noteq> ''0'' then (''wpar'', ''guest'')
         else case PerfstatPartitionTotalStat lib of
           Ok p \<Rightarrow> (let name = CString (pt_Name p) in if name \<noteq> [] \<and> name \<noteq> ''NULL'' then (''powervm'', ''guest'') else ([], []))
         | _ \<Rightarrow> ([], []))"

definition aix_host_UptimeWithContext :: "aix_lib \<Rightarrow> u64 result" where
  "aix_host_UptimeWithContext lib = rbind (PerfstatCPUTotalStat lib) (\<lambda>t. Ok (word_of_int (ct_Lbolt t) div 100))"

definition aix_host_BootTimeWithContext :: "host \<Rightarrow> aix_lib \<Rightarrow> u64 result" where
  "aix_host_BootTimeWithContext h lib = rbind (aix_host_UptimeWithContext lib) (\<lambda>up. Ok (TimeSince h up))"

definition aixUtmp :: layout where
  "aixUtmp = [(''User'', bytes_f 256), (''ID'', bytes_f 14), (''Line'', bytes_f 64), (''Pid'', i32_f), (''Type'', i16_f),
     (''Time'', i64_f), (''Exit'', bytes_f 4), (''Host'', bytes_f 256), (''Pad'', bytes_f 4), (''Reserved'', bytes_f 32)]"

definition aix_user :: "struct \<Rightarrow> user_stat list" where
  "aix_user entry =
     (if val_of entry ''Type'' \<noteq> 7 then []
      else let user = trim_right_set '' '' (trim_right_set [CHR 0x00] (str_of entry ''User'')) in
        if user = [] then []
        else [\<lparr>u_User = user, u_Terminal = trim_right_set [CHR 0x00] (str_of entry ''Line''),
               u_Host = trim_right_set [CHR 0x00] (str_of entry ''Host''), u_Started = val_of entry ''Time''\<rparr>])"

function users_loop :: "stream \<Rightarrow> user_stat list" where
  "users_loop f = (case read_struct aixUtmp f of
     Ok (entry, f') \<Rightarrow> aix_user entry @ users_loop f' | _ \<Rightarrow> [])"
  by pat_completeness auto
termination
proof (relation "measure (\<lambda>(d, fin). length d)")
  fix f x entry f' assume a: "read_struct aixUtmp f = Ok x" "(entry, f') = x"
  obtain d fin where f: "f = (d, fin)" by (cases f)
  from a show "(f', f) \<in> measure (\<lambda>(d, fin). length d)"
    by (auto simp: f read_struct_Ok_iff aixUtmp_def field_size_def field_ty_defs)
qed simp

declare users_loop.simps [simp del]

definition aix_UsersWithContext :: "host \<Rightarrow> user_stat list result" where
  "aix_UsersWithContext h = rbind (of_sum (h_open h ''/etc/utmp'')) (\<lambda>f. Ok (users_loop f))"

section \<open>Values that are queried once\<close>

text \<open>The contract of an operation behind a \<^verbatim>\<open>sync.Once\<close>: it sets the flag, it returns what its variables hold afterwards, and
  with the flag set it changes nothing.\<close>

locale queried_once =
  fixes op :: "host \<Rightarrow> 'c \<Rightarrow> 'r \<times> 'c"
    and is_done :: "'c \<Rightarrow> bool"
    and vars :: "'c \<Rightarrow> 'r"
  assumes returns: "fst (op h c) = vars (snd (op h c))"
    and sets: "is_done (snd (op h c))"
    and skips: "is_done c \<Longrightarrow> snd (op h c) = c"
begin

lemma answer_after:
  assumes "\<And>c. is_done c \<Longrightarrow> is_done (step c) \<and> vars (step c) = vars c"
  shows "fst (op h' (step (snd (op h c)))) = fst (op h c)"
  using assms [OF sets, of h c] skips [of "step (snd (op h c))" h'] by (simp add: returns)

end

lemmas once_defs = aix_HostIDWithContext_def aix_PlatformInformationWithContext_def
  aix_KernelVersionWithContext_def aix_KernelArch_def once_do_def Let_def

lemmas body_defs = hostID_body_def platform_body_def kernelVer_body_def kernelArch_body_def Let_def

interpretation hostID: queried_once aix_HostIDWithContext hostIDOnce "\<lambda>c. (hostIDVal c, hostIDErr c)"
  by unfold_locales (simp_all add: once_defs)

interpretation platform: queried_once aix_PlatformInformationWithContext platformOnce
  "\<lambda>c. ((platformVal c, familyVal c, versionVal c), platformErr c)"
  by unfold_locales (simp_all add: once_defs)

interpretation kernelVer: queried_once aix_KernelVersionWithContext kernelVerOnce "\<lambda>c. (kernelVerVal c, kernelVerErr c)"
  by unfold_locales (simp_all add: once_defs)

interpretation kernelArch: queried_once aix_KernelArch kernelArchOnce "\<lambda>c. (kernelArchVal c, kernelArchErr c)"
  by unfold_locales (simp_all add: once_defs)

text \<open>The calls that go through the caches, each on the system as it is at the time.\<close>

datatype once_op = OpHostID | OpPlatform | OpKernelVersion | OpKernelArch

definition once_step :: "once_op \<times> host \<Rightarrow> aix_once \<Rightarrow> aix_once" where
  "once_step = (\<lambda>(op, h) c. case op of
     OpHostID \<Rightarrow> snd (aix_HostIDWithContext h c)
   | OpPlatform \<Rightarrow> snd (aix_PlatformInformationWithContext h c)
   | OpKernelVersion \<Rightarrow> snd (aix_KernelVersionWithContext h c) | OpKernelArch \<Rightarrow> snd (aix_KernelArch h c))"

lemma once_step_keeps:
  "hostIDOnce c \<Longrightarrow> hostIDOnce (once_step o1 c) \<and> (hostIDVal (once_step o1 c), hostIDErr (once_step o1 c)) = (hostIDVal c, hostIDErr c)"
  "platformOnce c \<Longrightarrow> platformOnce (once_step o1 c) \<and> ((platformVal (once_step o1 c), familyVal (once_step o1 c),
     versionVal (once_step o1 c)), platformErr (once_step o1 c)) = ((platformVal c, familyVal c, versionVal c), platformErr c)"
  "kernelVerOnce c \<Longrightarrow> kernelVerOnce (once_step o1 c) \<and>
     (kernelVerVal (once_step o1 c), kernelVerErr (once_step o1 c)) = (kernelVerVal c, kernelVerErr c)"
  "kernelArchOnce c \<Longrightarrow> kernelArchOnce (once_step o1 c) \<and>
     (kernelArchVal (once_step o1 c), kernelArchErr (once_step o1 c)) = (kernelArchVal c, kernelArchErr c)"
  by (cases o1; auto simp: once_step_def once_defs body_defs split: once_op.splits prod.splits option.splits)+

lemma once_steps_keep:
  assumes "\<And>c op. is_done c \<Longrightarrow> is_done (once_step op c) \<and> vars (once_step op c) = vars c" and "is_done c"
  shows "is_done (fold once_step ops c) \<and> vars (fold once_step ops c) = vars c"
  using assms(2) by (induction ops arbitrary: c) (simp_all add: assms(1))

text \<open>After the first call, the host id, the platform and the version and width of the kernel are answered as then (an error too), whatever calls
  come in between and however the system has changed.\<close>

lemma aix_identity_fixed:
  "fst (aix_HostIDWithContext h' (fold once_step ops (snd (aix_HostIDWithContext h c)))) = fst (aix_HostIDWithContext h c) \<and>
   fst (aix_PlatformInformationWithContext h' (fold once_step ops (snd (aix_PlatformInformationWithContext h c)))) =
     fst (aix_PlatformInformationWithContext h c) \<and>
   fst (aix_KernelVersionWithContext h' (fold once_step ops (snd (aix_KernelVersionWithContext h c)))) =
     fst (aix_KernelVersionWithContext h c) \<and>
   fst (aix_KernelArch h' (fold once_step ops (snd (aix_KernelArch h c)))) = fst (aix_KernelArch h c)"
  by (intro conjI hostID.answer_after platform.answer_after kernelVer.answer_after kernelArch.answer_after
      once_steps_keep once_step_keeps)

section \<open>Memory\<close>

lemma r64_exact: "n < 2 ^ 53 \<Longrightarrow> r64 n = of_nat n"
  using rnd_of_int [of "int n" 53 "- 1074"] by (cases "n = 0") (simp_all add: r64_def)

lemma percent_first_nat:
  assumes "a \<le> b" and "0 < b" and "b \<le> 2 ^ 46"
  shows "\<exists>r. Fin 100 * Fin (of_nat a) / Fin (of_nat b) = Fin r \<and> 0 \<le> r \<and> r \<le> 100"
proof -
  have "(100 * of_nat a :: rat) \<le> of_int (100 * 2 ^ 46)"
    using assms of_nat_mono [of "100 * a" "100 * 2 ^ 46", where 'a=rat] by simp
  moreover have "rnd 53 (- 1074) (100 * of_nat a) = (100 * of_nat a)"
    using assms r64_exact [of "100 * a"] by (simp add: r64_def)
  ultimately have "Fin 100 * Fin (of_nat a) = Fin (100 * of_nat a)"
    using fl_bounded [of "100 * of_nat a" "100 * 2 ^ 46"] by (auto simp: mul_Fin_nonneg)
  moreover have "(100 * of_nat a / of_nat b :: rat) \<le> of_int 100"
    using assms by (simp add: divide_le_eq)
  ultimately show ?thesis
    using fl_bounded [of "100 * of_nat a / of_nat b" 100] assms by (auto simp: div_Fin_nonneg)
qed

lemma percent_first_u64:
  assumes "x \<le> y" and "y \<noteq> 0" and "y \<le> 2 ^ 46"
  shows "\<exists>r. Fin 100 * f_of_u64 x / f_of_u64 y = Fin r \<and> 0 \<le> r \<and> r \<le> 100"
proof -
  have y: "0 < unat y" "unat y \<le> 2 ^ 46" "unat x \<le> unat y"
    using assms by (simp_all add: unat_gt_0 word_le_nat_alt)
  then have "unat x < 2 ^ 53" "unat y < 2 ^ 53" by simp_all
  note this [THEN r64_exact]
  with percent_first_nat [OF y(3,1,2)] show ?thesis by (simp only: f_of_u64)
qed

text \<open>The used percentages of memory and paging space are finite and between 0 and 100 for every machine of at most
  2 ^ 46 pages whose used pages do not exceed the total.\<close>

theorem aix_memory_percent:
  assumes "PerfstatMemoryTotalStat lib = Ok m"
    and "mt_RealTotal m \<noteq> 0" and "mt_RealInUse m \<le> mt_RealTotal m" and "mt_RealTotal m \<le> 2 ^ 46"
    and "mt_PgSpTotal m \<noteq> 0" and "mt_PgSpFree m \<le> mt_PgSpTotal m" and "mt_PgSpTotal m \<le> 2 ^ 46"
  shows "\<exists>vm r sw q. aix_VirtualMemoryWithContext lib = Ok vm \<and> v_UsedPercent vm = Fin r \<and> 0 \<le> r \<and> r \<le> 100 \<and>
    aix_SwapMemoryWithContext lib = Ok sw \<and> sw_UsedPercent sw = Fin q \<and> 0 \<le> q \<and> q \<le> 100"
proof -
  have "mt_PgSpTotal m - mt_PgSpFree m \<le> mt_PgSpTotal m" using assms(6) by (simp add: word_sub_le)
  from percent_first_u64 [OF this assms(5,7)] percent_first_u64 [OF assms(3,2,4)] assms(1,2,5) show ?thesis
    by (auto simp: aix_VirtualMemoryWithContext_def aix_SwapMemoryWithContext_def Let_def)
qed

definition mem_lib :: aix_lib where
  "mem_lib = no_lib\<lparr>al_memory_total := ((1, 0), (snd (al_memory_total no_lib))\<lparr>mt_RealTotal := 1000, mt_RealInUse := 400,
     mt_PgSpTotal := 100, mt_PgSpFree := 75\<rparr>)\<rparr>"

theorem aix_memory_percent_witness:
  "\<exists>vm r. aix_VirtualMemoryWithContext mem_lib = Ok vm \<and> v_UsedPercent vm = Fin r \<and> 0 \<le> r \<and> r \<le> 100"
proof -
  let ?m = "snd (al_memory_total mem_lib)"
  have "PerfstatMemoryTotalStat mem_lib = Ok ?m"
    by (simp add: PerfstatMemoryTotalStat_def stat_call_def mem_lib_def callLib_def wrap_signed_def)
  moreover have "mt_RealTotal ?m = 1000" "mt_RealInUse ?m = 400" "mt_PgSpTotal ?m = 100" "mt_PgSpFree ?m = 75"
    by (simp_all add: mem_lib_def)
  ultimately show ?thesis using aix_memory_percent [of mem_lib ?m] by (auto simp: word_le_nat_alt)
qed

section \<open>Process counts\<close>

text \<open>For every table of processes and threads, whatever its size, \<^verbatim>\<open>Misc\<close> returns; it counts the processes that are
  not of the kernel, and as running or blocked the processes that have a runnable thread, or one that waits for paging,
  each once.\<close>

theorem aix_Misc_counts:
  assumes "reads_table (al_getprocs64 lib) procs pos" and "reads_table (al_getthrds64 lib) threads pos'"
    and "PerfstatCPUTotalStat lib = Ok t"
  shows "\<exists>m. aix_MiscWithContext lib = Some (Ok m) \<and>
    ms_ProcsTotal m = int (length (filter (\<lambda>p. \<not> bit (ap_Flags p) 9) procs)) \<and>
    ms_ProcsRunning m = int (card {pid. \<exists>th \<in> set threads. at_Pid th = pid \<and> thread_state th = Some True}) \<and>
    ms_ProcsBlocked m = int (card {pid. \<exists>th \<in> set threads. at_Pid th = pid \<and> thread_state th = Some False})"
proof -
  have "AIXProcesses lib = Some (Ok procs)"
    using batches_table [OF assms(1), of 0] assms(1) by (simp add: AIXProcesses_def reads_table_def)
  moreover have "length (pids_in b threads) = card {pid. \<exists>th \<in> set threads. at_Pid th = pid \<and> thread_state th = Some b}" for b
  proof -
    have "set (map at_Pid (filter (\<lambda>th. thread_state th = Some b) threads)) =
        {pid. \<exists>th \<in> set threads. at_Pid th = pid \<and> thread_state th = Some b}" by auto
    then show ?thesis unfolding pids_in_def length_remdups_card_conv by simp
  qed
  ultimately show ?thesis
    using assms(3) by (simp add: aix_MiscWithContext_def AIXThreads_complete [OF assms(2)] misc_counts_def user_processes_def)
qed

definition misc_lib :: aix_lib where
  "misc_lib = no_lib\<lparr>al_cpu_total := ((1, 0), snd (al_cpu_total no_lib)),
     al_getprocs64 := table_call [zero_process\<lparr>ap_Pid := 1\<rparr>, zero_process\<lparr>ap_Pid := 2, ap_Flags := 512\<rparr>],
     al_getthrds64 := table_call [zero_thread\<lparr>at_Pid := 1, at_State := 2\<rparr>, zero_thread\<lparr>at_Pid := 1, at_State := 2\<rparr>]\<rparr>"

theorem aix_Misc_counts_witness:
  "\<exists>m. aix_MiscWithContext misc_lib = Some (Ok m) \<and> ms_ProcsTotal m = 1 \<and> ms_ProcsRunning m = 1"
proof -
  let ?procs = "[zero_process\<lparr>ap_Pid := 1\<rparr>, zero_process\<lparr>ap_Pid := 2, ap_Flags := 512\<rparr>]"
  let ?threads = "[zero_thread\<lparr>at_Pid := 1, at_State := 2\<rparr>, zero_thread\<lparr>at_Pid := 1, at_State := 2\<rparr>]"
  have "PerfstatCPUTotalStat misc_lib = Ok (snd (al_cpu_total no_lib))"
    by (simp add: PerfstatCPUTotalStat_def stat_call_def misc_lib_def callLib_def wrap_signed_def)
  from aix_Misc_counts [OF _ _ this, of ?procs nat ?threads nat]
  obtain m where m: "aix_MiscWithContext misc_lib = Some (Ok m)"
    "ms_ProcsTotal m = int (length (filter (\<lambda>p. \<not> bit (ap_Flags p) 9) ?procs))"
    "ms_ProcsRunning m = int (card {pid. \<exists>th \<in> set ?threads. at_Pid th = pid \<and> thread_state th = Some True})"
    by (auto simp: misc_lib_def reads_table_call)
  have "bit (0x200 :: u32) 9" by code_simp
  moreover have "{pid. \<exists>th \<in> set ?threads. at_Pid th = pid \<and> thread_state th = Some True} = {1}"
    by (auto simp: thread_state_def zero_thread_def)
  ultimately show ?thesis using m by (simp add: zero_process_def)
qed

section \<open>Users\<close>

text \<open>A login of \<^verbatim>\<open>utmp\<close> with its names padded by NUL bytes.\<close>

record aix_login =
  lg_user :: string
  lg_line :: string
  lg_host :: string
  lg_pid :: int
  lg_type :: int
  lg_time :: int

definition byte_field :: "nat \<Rightarrow> string \<Rightarrow> int list" where
  "byte_field n s = map of_char (nul_padded n s)"

definition login_struct :: "aix_login \<Rightarrow> struct" where
  "login_struct l = [(''User'', byte_field 256 (lg_user l)), (''ID'', byte_field 14 []), (''Line'', byte_field 64 (lg_line l)),
     (''Pid'', [lg_pid l]), (''Type'', [lg_type l]), (''Time'', [lg_time l]), (''Exit'', byte_field 4 []),
     (''Host'', byte_field 256 (lg_host l)), (''Pad'', byte_field 4 []), (''Reserved'', byte_field 32 [])]"

definition unpadded :: "nat \<Rightarrow> string \<Rightarrow> bool" where
  "unpadded n s \<longleftrightarrow> length s \<le> n \<and> (s = [] \<or> last s \<noteq> CHR 0x00)"

definition login_ok :: "aix_login \<Rightarrow> bool" where
  "login_ok l \<longleftrightarrow> unpadded 256 (lg_user l) \<and> (lg_user l = [] \<or> last (lg_user l) \<noteq> CHR '' '') \<and> unpadded 64 (lg_line l) \<and>
     unpadded 256 (lg_host l) \<and> in_width True 4 (lg_pid l) \<and> in_width True 2 (lg_type l) \<and> in_width True 8 (lg_time l)"

definition login_meaning :: "aix_login \<Rightarrow> user_stat" where
  "login_meaning l = \<lparr>u_User = lg_user l, u_Terminal = lg_line l, u_Host = lg_host l, u_Started = lg_time l\<rparr>"

lemma trim_right_set_pad: "s = [] \<or> last s \<notin> set cs \<Longrightarrow> c \<in> set cs \<Longrightarrow> trim_right_set cs (s @ replicate k c) = s"
  by (cases s rule: rev_cases) (auto simp: trim_right_set_def dropWhile_append)

lemma of_char_byte: "0 \<le> (of_char c :: int) \<and> (of_char c :: int) < 256"
proof -
  have "(of_char c :: int) = int (of_char c)" by (rule of_nat_of_char [symmetric])
  moreover have "(of_char c :: nat) < 256" by simp
  ultimately show ?thesis by linarith
qed

lemma field_ok_bytes: "length s \<le> n \<Longrightarrow> field_ok (bytes_f n) (byte_field n s)"
  using of_char_byte by (auto simp: field_ok_def bytes_f_def byte_field_def nul_padded_def in_width_def list_all_iff)

lemma str_of_bytes: "map char_of (byte_field n s) = nul_padded n s"
  by (simp add: byte_field_def comp_def)

lemma aixUtmp_widths: "widths_pos aixUtmp" "layout_size aixUtmp = 644"
  by (simp_all add: aixUtmp_def widths_pos_def field_ty_defs field_size_def)

lemma login_has_layout: "login_ok l \<Longrightarrow> has_layout aixUtmp (login_struct l)"
  by (simp add: has_layout_def aixUtmp_def login_struct_def login_ok_def unpadded_def field_ok_bytes)
     (simp add: field_ok_def i32_f_def i16_f_def i64_f_def)

lemma aix_user_login:
  assumes "login_ok l"
  shows "aix_user (login_struct l) = (if lg_type l = 7 \<and> lg_user l \<noteq> [] then [login_meaning l] else [])"
proof -
  have f: "str_of (login_struct l) ''User'' = nul_padded 256 (lg_user l)" "str_of (login_struct l) ''Line'' = nul_padded 64 (lg_line l)"
    "str_of (login_struct l) ''Host'' = nul_padded 256 (lg_host l)" "val_of (login_struct l) ''Type'' = lg_type l"
    "val_of (login_struct l) ''Time'' = lg_time l"
    by (simp_all add: str_of_def val_of_def arr_of_def login_struct_def str_of_bytes)
  have t: "trim_right_set [CHR 0x00] (nul_padded n s) = s" if "unpadded n s" for n s
    unfolding nul_padded_def using that by (intro trim_right_set_pad) (auto simp: unpadded_def)
  have "trim_right_set '' '' (lg_user l) = lg_user l"
    using trim_right_set_pad [of "lg_user l" "'' ''" "CHR '' ''" 0] assms by (simp add: login_ok_def)
  with assms show ?thesis by (auto simp: aix_user_def f t login_ok_def login_meaning_def Let_def)
qed

text \<open>The users reported on AIX are exactly the login entries of \<^verbatim>\<open>utmp\<close> with a name, in order, with their terminal, host
  and time of login; a last, incomplete record is ignored.\<close>

theorem aix_Users_roundtrip:
  assumes "list_all login_ok ls" and "length rest < 644"
    and "h_open h ''/etc/utmp'' = Inr (concat (map (\<lambda>l. encode aixUtmp (login_struct l)) ls) @ rest, fin)"
  shows "aix_UsersWithContext h = Ok (map login_meaning (filter (\<lambda>l. lg_type l = 7 \<and> lg_user l \<noteq> []) ls))"
proof -
  have "users_loop (concat (map (\<lambda>l. encode aixUtmp (login_struct l)) ls) @ rest, fin) =
      map login_meaning (filter (\<lambda>l. lg_type l = 7 \<and> lg_user l \<noteq> []) ls)"
    using assms(1)
  proof (induction ls)
    case Nil
    then show ?case using assms(2) by (simp add: users_loop.simps read_struct_def aixUtmp_widths)
  next
    case (Cons l ls)
    then have "read_struct aixUtmp (encode aixUtmp (login_struct l) @ (concat (map (\<lambda>l. encode aixUtmp (login_struct l)) ls) @ rest), fin) =
        Ok (login_struct l, (concat (map (\<lambda>l. encode aixUtmp (login_struct l)) ls) @ rest, fin))"
      by (intro read_struct_encode aixUtmp_widths login_has_layout) simp
    with Cons show ?case by (subst users_loop.simps) (simp add: aix_user_login)
  qed
  with assms(3) show ?thesis by (simp add: aix_UsersWithContext_def)
qed

definition root_login :: aix_login where
  "root_login = \<lparr>lg_user = ''root'', lg_line = ''pts/0'', lg_host = ''10.0.0.1'', lg_pid = 77, lg_type = 7, lg_time = 1700000000\<rparr>"

theorem aix_Users_roundtrip_witness:
  "aix_UsersWithContext (no_files\<lparr>h_open := (\<lambda>_. Inr (concat (map (\<lambda>l. encode aixUtmp (login_struct l))
     [root_login, root_login\<lparr>lg_type := 8\<rparr>]) @ ''cut'', None))\<rparr>) = Ok [login_meaning root_login]"
proof -
  have "list_all login_ok [root_login, root_login\<lparr>lg_type := 8\<rparr>]"
    by (simp add: login_ok_def unpadded_def root_login_def in_width_def)
  then show ?thesis
    by (subst aix_Users_roundtrip [of "[root_login, root_login\<lparr>lg_type := 8\<rparr>]" "''cut''"]) (simp_all add: root_login_def)
qed

section \<open>prtconf\<close>

text \<open>A processor type without an underscore makes \<^verbatim>\<open>Info\<close> panic.\<close>

lemma prtconf_type_without_underscore:
  assumes "CHR '':'' \<notin> set s" and "CHR ''_'' \<notin> set s"
  shows "prtconf_line (''Processor Type:'' @ s) ret = Panic"
proof -
  have "split_char CHR '':'' (''Processor Type'' @ CHR '':'' # s) = [''Processor Type'', s]"
    using assms(1) by (subst split_char_append) simp_all
  with assms(2) show ?thesis by (simp add: prtconf_line_def has_prefix_def)
qed

end
