(* ===== verification/Process_Aix.thy ===== *)
theory Process_Aix
  imports Common_Aix Process_Api
begin

text \<open>
  Package \<^verbatim>\<open>process\<close> on AIX (\<^verbatim>\<open>process_aix.go\<close>): the binary structures under \<^verbatim>\<open>/proc/<pid>\<close>, the snapshot of the process table shared
  by all processes, the caches of pointer sizes and terminals, and the readers of status, memory, names and arguments, the
  latter from the memory of the process. The caches are passed explicitly; an action may fail to return, because reading the
  process table may.
\<close>

section \<open>Structures\<close>

definition i32s_f :: "nat \<Rightarrow> field_ty" where "i32s_f n = \<lparr>ft_signed = True, ft_width = 4, ft_count = n\<rparr>"
definition u32s_f :: "nat \<Rightarrow> field_ty" where "u32s_f n = \<lparr>ft_signed = False, ft_width = 4, ft_count = n\<rparr>"

definition PrTimestruc64T :: layout where
  "PrTimestruc64T = [(''TvSec'', i64_f), (''TvNsec'', i32_f), (''Pad'', u32_f)]"

definition Fltset :: layout where "Fltset = [(''FltSet'', u64s_f 4)]"

definition PrSigset :: layout where "PrSigset = [(''SsSet'', u64s_f 4)]"

definition PrSiginfo64 :: layout where
  "PrSiginfo64 = [(''SiSigno'', i32_f), (''SiErrno'', i32_f), (''SiCode'', i32_f), (''SiImm'', i32_f), (''SiStatus'', i32_f),
     (''Pad1'', u32_f), (''SiUID'', u64_f), (''SiPid'', u64_f), (''SiAddr'', u64_f), (''SiBand'', i64_f), (''SiValue'', u64_f),
     (''Pad'', u32s_f 4)]"

definition PrSigaction64 :: layout where
  "PrSigaction64 = [(''SaUnion'', u64_f)] @ nested ''SaMask'' PrSigset @ [(''SaFlags'', i32_f), (''Pad'', i32s_f 5)]"

definition PrStack64 :: layout where
  "PrStack64 = [(''SsSp'', u64_f), (''SsSize'', u64_f), (''SsFlags'', i32_f), (''Pad'', i32s_f 5)]"

definition Prgregset :: layout where
  "Prgregset = [(''Iar'', u64_f), (''Msr'', u64_f), (''Cr'', u64_f), (''Lr'', u64_f), (''Ctr'', u64_f), (''Xer'', u64_f),
     (''Fpscr'', u64_f), (''Fpscrx'', u64_f), (''Gpr'', u64s_f 32), (''Usprg3'', u64_f), (''Pad1'', u64s_f 7)]"

text \<open>Floating-point registers are kept as their bits.\<close>

definition Prfpregset :: layout where "Prfpregset = [(''Fpr'', u64s_f 32)]"

definition Pfamily :: layout where "Pfamily = [(''ExtOff'', u64_f), (''ExtSize'', u64_f), (''Pad'', u64s_f 14)]"

definition LwpStatus :: layout where
  "LwpStatus = [(''LwpId'', u64_f), (''Flags'', u32_f), (''Pad1'', bytes_f 1), (''State'', u8_f), (''CurSig'', u16_f), (''Why'', u16_f),
     (''What'', u16_f), (''Policy'', u32_f), (''ClName'', bytes_f 8)] @ nested ''LwpPend'' PrSigset @ nested ''LwpHold'' PrSigset @
     nested ''Info'' PrSiginfo64 @ nested ''AltStack'' PrStack64 @ nested ''Action'' PrSigaction64 @
     [(''Pad2'', u32_f), (''Syscall'', u16_f), (''NsysArg'', u16_f), (''SysArg'', u64s_f 8), (''Errno'', i32_f), (''Ptid'', u32_f),
     (''Pad'', u64s_f 9)] @ nested ''Reg'' Prgregset @ nested ''Fpreg'' Prfpregset @ nested ''Family'' Pfamily"

definition AIXStat :: layout where
  "AIXStat = [(''Flag'', u32_f), (''Flag2'', u32_f), (''Flags'', u32_f), (''Nlwp'', u32_f), (''Stat'', u8_f), (''Dmodel'', u8_f),
     (''Pad1'', bytes_f 6)] @ nested ''SigPend'' PrSigset @ [(''BrkBase'', u64_f), (''BrkSize'', u64_f), (''StkBase'', u64_f),
     (''StkSize'', u64_f), (''Pid'', u64_f), (''Ppid'', u64_f), (''Pgid'', u64_f), (''Sid'', u64_f)] @ nested ''Utime'' PrTimestruc64T @
     nested ''Stime'' PrTimestruc64T @ nested ''Cutime'' PrTimestruc64T @ nested ''Cstime'' PrTimestruc64T @ nested ''SigTrace'' PrSigset @
     nested ''FltTrace'' Fltset @ [(''SysentryOffset'', u32_f), (''SysexitOffset'', u32_f), (''Pad'', u64s_f 8)] @ nested ''Lwp'' LwpStatus"

definition LwpsInfo :: layout where
  "LwpsInfo = [(''LwpId'', u64_f), (''Addr'', u64_f), (''Wchan'', u64_f), (''Flag'', u32_f), (''Wtype'', u8_f), (''State'', u8_f),
     (''Sname'', u8_f), (''Nice'', u8_f), (''Pri'', i32_f), (''Policy'', u32_f), (''Clname'', bytes_f 8), (''Onpro'', i32_f),
     (''Bindpro'', i32_f), (''Ptid'', u32_f), (''Pad1'', u32_f), (''Pad'', u64s_f 7)]"

definition AIXPSInfo :: layout where
  "AIXPSInfo = [(''Flag'', u32_f), (''Flag2'', u32_f), (''Nlwp'', u32_f), (''Pad1'', u32_f), (''UID'', u64_f), (''Euid'', u64_f),
     (''Gid'', u64_f), (''Egid'', u64_f), (''Pid'', u64_f), (''Ppid'', u64_f), (''Pgid'', u64_f), (''Sid'', u64_f), (''Ttydev'', u64_f),
     (''Addr'', u64_f), (''Size'', u64_f), (''Rssize'', u64_f)] @ nested ''Start'' PrTimestruc64T @ nested ''Time'' PrTimestruc64T @
     [(''Cid'', u16_f), (''Pad2'', u16_f), (''Argc'', u32_f), (''Argv'', u64_f), (''Envp'', u64_f), (''Fname'', bytes_f 16),
     (''Psargs'', bytes_f 80), (''Pad'', u64s_f 8)] @ nested ''Lwp'' LwpsInfo"

section \<open>Environment and caches\<close>

text \<open>\<open>ae_taken\<close> is the clock once the process table has been read; \<open>ae_as\<close> opens the memory of a process and gives \<^verbatim>\<open>pread\<close> by
  offset and size; \<open>ae_ReadDir\<close> lists a directory in order, without its error; \<open>ae_chardev\<close> is the device number of a
  character device; \<open>ae_LookupId\<close> the name of a user.\<close>

record aix_env =
  ae_proc :: proc_env
  ae_lib :: aix_lib
  ae_taken :: int
  ae_as :: "string \<Rightarrow> gerr + (int \<Rightarrow> nat \<Rightarrow> gerr + string)"
  ae_ReadDir :: "string \<Rightarrow> string list"
  ae_chardev :: "string \<Rightarrow> u64 option"
  ae_LookupId :: "string \<Rightarrow> gerr + string"

abbreviation ae_host :: "aix_env \<Rightarrow> host" where
  "ae_host env \<equiv> pe_host (ae_proc env)"

record aixPSEntry =
  pse_majorFaults :: u64
  pse_ioChars :: u64

record aixPS =
  ps_taken :: int
  ps_byPID :: "(int \<times> aixPSEntry) list"
  ps_loaded :: bool

record aix_state =
  as_PS :: aixPS
  as_bitness :: "(int \<times> int) list"
  as_ttys :: "(u64 \<times> string) list"

type_synonym 'a act = "aix_state \<Rightarrow> ('a result \<times> aix_state) option"

definition aret :: "'a result \<Rightarrow> 'a act" where
  "aret r = (\<lambda>st. Some (r, st))"

definition abind :: "'a act \<Rightarrow> ('a \<Rightarrow> 'b act) \<Rightarrow> 'b act" where
  "abind m f = (\<lambda>st. case m st of
     None \<Rightarrow> None
   | Some (Ok x, st') \<Rightarrow> f x st'
   | Some (Err e, st') \<Rightarrow> Some (Err e, st')
   | Some (Panic, st') \<Rightarrow> Some (Panic, st'))"

section \<open>The snapshot of the process table\<close>

definition aixPSMaxAge :: int where "aixPSMaxAge = 10 ^ 9"

definition resetAIXPS :: "aix_state \<Rightarrow> aix_state" where
  "resetAIXPS st = st\<lparr>as_PS := \<lparr>ps_taken = 0, ps_byPID = [], ps_loaded = False\<rparr>\<rparr>"

definition ps_entry :: "aix_process \<Rightarrow> aixPSEntry" where
  "ps_entry pr = \<lparr>pse_majorFaults = word_of_int (ap_MajFlt pr), pse_ioChars = word_of_int (ap_IOChars pr)\<rparr>"

definition ps_table :: "aix_process list \<Rightarrow> (int \<times> aixPSEntry) list" where
  "ps_table procs = fold (\<lambda>pr m. alist_put (ap_Pid pr) (ps_entry pr) m) procs []"

definition refreshAIXPS :: "aix_env \<Rightarrow> unit act" where
  "refreshAIXPS env = (\<lambda>st. case AIXProcesses (ae_lib env) of
     None \<Rightarrow> None
   | Some (Ok procs) \<Rightarrow> Some (Ok (), st\<lparr>as_PS := \<lparr>ps_taken = ae_taken env, ps_byPID = ps_table procs, ps_loaded = True\<rparr>\<rparr>)
   | Some (Err e) \<Rightarrow> Some (Err e, st)
   | Some Panic \<Rightarrow> Some (Panic, st))"

definition ps_lookup :: "int \<Rightarrow> aixPSEntry act" where
  "ps_lookup pid = (\<lambda>st. aret (case map_of (ps_byPID (as_PS st)) pid of Some e \<Rightarrow> Ok e | None \<Rightarrow> Err ErrProcessNotRunning) st)"

definition aixPSFor :: "aix_env \<Rightarrow> int \<Rightarrow> aixPSEntry act" where
  "aixPSFor env pid = (\<lambda>st. let ps = as_PS st in
     if \<not> ps_loaded ps \<or> aixPSMaxAge \<le> dur_sub (h_now (ae_host env)) (ps_taken ps)
     then abind (refreshAIXPS env) (\<lambda>_. ps_lookup pid) st
     else (case map_of (ps_byPID ps) pid of
         Some e \<Rightarrow> Some (Ok e, st)
       | None \<Rightarrow> abind (refreshAIXPS env) (\<lambda>_. ps_lookup pid) st))"

definition aix_getPageFaults :: "aix_env \<Rightarrow> int \<Rightarrow> page_faults_stat act" where
  "aix_getPageFaults env pid = abind (aixPSFor env pid) (\<lambda>e.
     aret (Ok \<lparr>pf_MinorFaults = 0, pf_MajorFaults = pse_majorFaults e, pf_ChildMinorFaults = 0, pf_ChildMajorFaults = 0\<rparr>))"

definition aix_proc_IOCountersWithContext :: "aix_env \<Rightarrow> process \<Rightarrow> proc_io_stat act" where
  "aix_proc_IOCountersWithContext env p = abind (aixPSFor env (p_Pid p)) (\<lambda>e.
     aret (Ok \<lparr>pi_ReadCount = 0, pi_WriteCount = 0, pi_ReadBytes = pse_ioChars e, pi_WriteBytes = 0, pi_DiskReadBytes = 0,
       pi_DiskWriteBytes = 0\<rparr>))"

section \<open>Terminals\<close>

definition scan_ttys :: "aix_env \<Rightarrow> (u64 \<times> string) list" where
  "scan_ttys env = fold (\<lambda>pre m. fold (\<lambda>n m. case ae_chardev env (''/dev/'' @ pre @ n) of
       Some dev \<Rightarrow> alist_put dev (pre @ n) m | None \<Rightarrow> m) (ae_ReadDir env (''/dev/'' @ pre)) m) [''pts/'', []] []"

definition lookupAIXTTY :: "aix_env \<Rightarrow> u64 \<Rightarrow> aix_state \<Rightarrow> string \<times> aix_state" where
  "lookupAIXTTY env dev st = (case map_of (as_ttys st) dev of
     Some name \<Rightarrow> (name, st)
   | None \<Rightarrow> (let m = scan_ttys env in (case map_of m dev of Some n \<Rightarrow> n | None \<Rightarrow> [], st\<lparr>as_ttys := m\<rparr>)))"

definition read_file_struct :: "layout \<Rightarrow> host \<Rightarrow> string \<Rightarrow> struct result" where
  "read_file_struct l h path = rbind (of_sum (h_open h path)) (\<lambda>f. rbind (read_struct l f) (\<lambda>(s, _). Ok s))"

definition read_psinfo :: "host \<Rightarrow> int \<Rightarrow> struct result" where
  "read_psinfo h pid = read_file_struct AIXPSInfo h (proc_file h pid [''psinfo''])"

definition aix_TerminalWithContext :: "aix_env \<Rightarrow> process \<Rightarrow> aix_state \<Rightarrow> string result \<times> aix_state" where
  "aix_TerminalWithContext env p st = (case read_psinfo (ae_host env) (p_Pid p) of
     Ok info \<Rightarrow>
       if val_of info ''Ttydev'' = 0 then (Ok ''-'', st)
       else (case lookupAIXTTY env (word_of_int (val_of info ''Ttydev'')) st of (name, st') \<Rightarrow>
         (Ok (if name \<noteq> [] then name else ''-''), st'))
   | Err e \<Rightarrow> (Err e, st) | Panic \<Rightarrow> (Panic, st))"

section \<open>Status\<close>

definition aix_status_name :: "int \<Rightarrow> string" where
  "aix_status_name b =
     (let s = convertStatusChar [char_of (nat b)] in
      if s \<noteq> [] then s
      else case map_of [(0, ''NONE''), (4, ''idle''), (5, ''zombie''), (6, ''stop''), (7, ''running''), (8, ''sleep'')] b of
        Some n \<Rightarrow> n | None \<Rightarrow> [])"

definition status_fields :: "struct \<Rightarrow> process \<Rightarrow> process" where
  "status_fields s p = p\<lparr>p_sigInfo := Some (empty_sig_info\<lparr>sg_PendingProcess := word_of_int (val_of s ''SigPend.SsSet'')\<rparr>),
     p_status := aix_status_name (val_of s ''Stat''), p_parent := to_i32 (val_of s ''Ppid''), p_tgid := to_i32 (val_of s ''Pid'')\<rparr>"

definition psinfo_fields :: "struct \<Rightarrow> process \<Rightarrow> process" where
  "psinfo_fields s p =
     (let w = (\<lambda>n. word_of_int (val_of s n) :: u32) in
      p\<lparr>p_uids := [w ''UID'', w ''Euid'', w ''Euid'', w ''Euid''], p_gids := [w ''Gid'', w ''Egid'', w ''Egid'', w ''Egid''],
        p_numThreads := to_i32 (val_of s ''Nlwp''),
        p_parent := (if p_parent p = 0 then to_i32 (val_of s ''Ppid'') else p_parent p),
        p_tgid := (if p_tgid p = 0 then to_i32 (val_of s ''Pid'') else p_tgid p)\<rparr>)"

definition psinfo_step :: "host \<Rightarrow> process \<Rightarrow> process" where
  "psinfo_step h p = (case read_psinfo h (p_Pid p) of Ok s \<Rightarrow> psinfo_fields s p | _ \<Rightarrow> p)"

definition aix_fillFromStatusWithContext :: "aix_env \<Rightarrow> process \<Rightarrow> aix_state \<Rightarrow> gerr option \<times> process \<times> aix_state" where
  "aix_fillFromStatusWithContext env p st =
     (let h = ae_host env;
          p0 = p\<lparr>p_numCtxSwitches := Some empty_ctx, p_memInfo := Some empty_mem_info, p_sigInfo := Some empty_sig_info\<rparr>
      in case h_open h (proc_file h (p_Pid p) [''status'']) of
        Inl e \<Rightarrow> if \<not> is_not_exist e then (Some e, p0, st) else (None, psinfo_step h (p0\<lparr>p_status := ''zombie''\<rparr>), st)
      | Inr f \<Rightarrow> (case read_struct AIXStat f of
          Ok (s, _) \<Rightarrow> (None, psinfo_step h (status_fields s p0),
            st\<lparr>as_bitness := alist_put (p_Pid p) (if val_of s ''Dmodel'' = 0 then 4 else 8) (as_bitness st)\<rparr>)
        | Err e \<Rightarrow> (Some e, p0, st)
        | Panic \<Rightarrow> (None, p0, st)))"

definition after_status :: "aix_env \<Rightarrow> process \<Rightarrow> aix_state \<Rightarrow> (process \<Rightarrow> 'a) \<Rightarrow> 'a result \<times> process \<times> aix_state" where
  "after_status env p st sel = (case aix_fillFromStatusWithContext env p st of
     (Some e, p', st') \<Rightarrow> (Err e, p', st') | (None, p', st') \<Rightarrow> (Ok (sel p'), p', st'))"

definition aix_StatusWithContext :: "aix_env \<Rightarrow> process \<Rightarrow> aix_state \<Rightarrow> string list result \<times> process \<times> aix_state" where
  "aix_StatusWithContext env p st = after_status env p st (\<lambda>p. [p_status p])"

definition aix_UidsWithContext :: "aix_env \<Rightarrow> process \<Rightarrow> aix_state \<Rightarrow> u32 list result \<times> process \<times> aix_state" where
  "aix_UidsWithContext env p st = after_status env p st p_uids"

definition aix_GidsWithContext :: "aix_env \<Rightarrow> process \<Rightarrow> aix_state \<Rightarrow> u32 list result \<times> process \<times> aix_state" where
  "aix_GidsWithContext env p st = after_status env p st p_gids"

definition aix_GroupsWithContext :: "aix_env \<Rightarrow> process \<Rightarrow> aix_state \<Rightarrow> u32 list result \<times> process \<times> aix_state" where
  "aix_GroupsWithContext env p st = after_status env p st p_groups"

definition aix_NumThreadsWithContext :: "aix_env \<Rightarrow> process \<Rightarrow> aix_state \<Rightarrow> int result \<times> process \<times> aix_state" where
  "aix_NumThreadsWithContext env p st = after_status env p st p_numThreads"

definition aix_SignalsPendingWithContext :: "aix_env \<Rightarrow> process \<Rightarrow> aix_state \<Rightarrow> signal_info_stat result \<times> process \<times> aix_state" where
  "aix_SignalsPendingWithContext env p st = after_status env p st (\<lambda>p. case p_sigInfo p of Some s \<Rightarrow> s | None \<Rightarrow> empty_sig_info)"

definition aix_TgidWithContext :: "aix_env \<Rightarrow> process \<Rightarrow> aix_state \<Rightarrow> int result \<times> process \<times> aix_state" where
  "aix_TgidWithContext env p st = (if p_tgid p = 0 then after_status env p st p_tgid else (Ok (p_tgid p), p, st))"

section \<open>Times\<close>

definition aix_time :: "struct \<Rightarrow> string \<Rightarrow> float64" where
  "aix_time s n = f_of_int (val_of s (n @ ''.TvSec'')) + f_of_int (val_of s (n @ ''.TvNsec'')) / Fin (10 ^ 9)"

definition aix_cpu_times :: "struct option \<Rightarrow> times_stat" where
  "aix_cpu_times status = \<lparr>t_CPU = ''cpu'', t_User = (case status of Some s \<Rightarrow> aix_time s ''Utime'' | None \<Rightarrow> 0),
     t_System = (case status of Some s \<Rightarrow> aix_time s ''Stime'' | None \<Rightarrow> 0), t_Idle = 0, t_Nice = 0, t_Iowait = 0, t_Irq = 0,
     t_Softirq = 0, t_Steal = 0, t_Guest = 0, t_GuestNice = 0\<rparr>"

text \<open>Division of Go rounds toward zero.\<close>

definition quot :: "int \<Rightarrow> int \<Rightarrow> int" where
  "quot a b = sgn a * sgn b * (\<bar>a\<bar> div \<bar>b\<bar>)"

definition aix_create_time :: "struct \<Rightarrow> int" where
  "aix_create_time info = to_i64 (to_i64 (val_of info ''Start.TvSec'' * 1000) + quot (val_of info ''Start.TvNsec'') 1000000)"

text \<open>The status file is missing for zombies and kernel processes.\<close>

definition status_if_exists :: "host \<Rightarrow> int \<Rightarrow> struct option result" where
  "status_if_exists h pid = (case h_open h (proc_file h pid [''status'']) of
     Inl e \<Rightarrow> if is_not_exist e then Ok None else Err e
   | Inr f \<Rightarrow> rbind (read_struct AIXStat f) (\<lambda>(s, _). Ok (Some s)))"

text \<open>The information of a thread, when both of its files can be opened.\<close>

definition lwp_info :: "host \<Rightarrow> int \<Rightarrow> int \<Rightarrow> struct option result" where
  "lwp_info h pid tid =
     (case (h_open h (proc_file h pid [''lwp'', itoa tid, ''lwpstatus'']), h_open h (proc_file h pid [''lwp'', itoa tid, ''lwpsinfo''])) of
        (Inr f, Inr g) \<Rightarrow> rbind (read_struct LwpStatus f) (\<lambda>_. rbind (read_struct LwpsInfo g) (\<lambda>(s, _). Ok (Some s)))
      | _ \<Rightarrow> Ok None)"

definition tid_stat_of :: "struct \<Rightarrow> struct option \<Rightarrow> struct option \<Rightarrow> page_faults_stat \<Rightarrow> tid_stat" where
  "tid_stat_of info status lwp faults = \<lparr>ts_terminal = 0,
     ts_ppid = to_i32 (val_of (case status of Some s \<Rightarrow> s | None \<Rightarrow> info) ''Ppid''),
     ts_cpuTimes = aix_cpu_times status, ts_createTime = aix_create_time info,
     ts_rtpriority = (case lwp of Some l \<Rightarrow> word_of_int (val_of l ''Pri'') | None \<Rightarrow> 0),
     ts_nice = (case lwp of Some l \<Rightarrow> val_of l ''Nice'' | None \<Rightarrow> 0), ts_faults = faults\<rparr>"

definition aix_fillFromTIDStatWithContext :: "aix_env \<Rightarrow> int \<Rightarrow> int \<Rightarrow> tid_stat act" where
  "aix_fillFromTIDStatWithContext env pid tid = (let h = ae_host env in
     abind (aret (read_psinfo h pid)) (\<lambda>info. abind (aret (status_if_exists h pid)) (\<lambda>status.
     abind (aret (if - 1 < tid \<and> status \<noteq> None then lwp_info h pid tid else Ok None)) (\<lambda>lwp.
     abind (aix_getPageFaults env pid) (\<lambda>faults. aret (Ok (tid_stat_of info status lwp faults)))))))"

definition aix_fillFromStatWithContext :: "aix_env \<Rightarrow> int \<Rightarrow> tid_stat act" where
  "aix_fillFromStatWithContext env pid = aix_fillFromTIDStatWithContext env pid (- 1)"

text \<open>\<^verbatim>\<open>Ppid\<close>, \<^verbatim>\<open>createTime\<close>, \<^verbatim>\<open>Nice\<close>, \<^verbatim>\<open>Times\<close> and \<^verbatim>\<open>PageFaults\<close>.\<close>

definition of_stat :: "(tid_stat \<Rightarrow> 'a) \<Rightarrow> aix_env \<Rightarrow> process \<Rightarrow> 'a act" where
  "of_stat sel env p = abind (aix_fillFromStatWithContext env (p_Pid p)) (\<lambda>s. aret (Ok (sel s)))"

definition aix_PpidWithContext :: "aix_env \<Rightarrow> process \<Rightarrow> int act" where "aix_PpidWithContext = of_stat ts_ppid"
definition aix_createTimeWithContext :: "aix_env \<Rightarrow> process \<Rightarrow> int act" where "aix_createTimeWithContext = of_stat ts_createTime"
definition aix_NiceWithContext :: "aix_env \<Rightarrow> process \<Rightarrow> int act" where "aix_NiceWithContext = of_stat ts_nice"
definition aix_proc_TimesWithContext :: "aix_env \<Rightarrow> process \<Rightarrow> times_stat act" where "aix_proc_TimesWithContext = of_stat ts_cpuTimes"
definition aix_PageFaultsWithContext :: "aix_env \<Rightarrow> process \<Rightarrow> page_faults_stat act" where "aix_PageFaultsWithContext = of_stat ts_faults"

section \<open>The memory of a process\<close>

type_synonym pread = "int \<Rightarrow> nat \<Rightarrow> gerr + string"

definition isValidProcessName :: "string \<Rightarrow> bool" where
  "isValidProcessName s \<longleftrightarrow> list_all (\<lambda>b. 0x20 \<le> (of_char b :: nat) \<and> (of_char b :: nat) \<le> 0x7e) s \<and> s \<noteq> []"

definition extractPsargsString :: "struct \<Rightarrow> string" where
  "extractPsargsString info = trim_right_set [CHR 0x00] (str_of info ''Psargs'')"

definition extractFnameString :: "struct \<Rightarrow> string" where
  "extractFnameString info = trim_left_set [CHR 0x00] (trim_right_set [CHR 0x00] (str_of info ''Fname''))"

definition extractString :: "string \<Rightarrow> string" where
  "extractString b = (case index_byte b (CHR 0x00) of Some i \<Rightarrow> take i b | None \<Rightarrow> trim_right_set [CHR 0x00] b)"

definition getProcessBitness :: "host \<Rightarrow> int \<Rightarrow> aix_state \<Rightarrow> int result \<times> aix_state" where
  "getProcessBitness h pid st = (case map_of (as_bitness st) pid of
     Some w \<Rightarrow> (Ok w, st)
   | None \<Rightarrow> (case ReadFile h (proc_file h pid [''status'']) of
       Ok d \<Rightarrow> (let w = (if 17 < length d \<and> d ! 17 = CHR 0x00 then 4 else 8) in
         (Ok w, st\<lparr>as_bitness := alist_put pid w (as_bitness st)\<rparr>))
     | Err e \<Rightarrow> (Err e, st) | Panic \<Rightarrow> (Panic, st)))"

definition readStringFromAddressSpace :: "pread \<Rightarrow> int \<Rightarrow> string result" where
  "readStringFromAddressSpace rd addr =
     (let pageStart = quot addr 4096 * 4096; off = addr - pageStart in
      case rd pageStart 8192 of
        Inl e \<Rightarrow> Err e
      | Inr bs \<Rightarrow>
          if bs = [] then Ok []
          else if off < 0 \<or> 8192 \<le> off then Err ErrNotImplemented
          else Ok (takeWhile (\<lambda>c. c \<noteq> CHR 0x00) (take 32768 (drop (nat off) (buffer (CHR 0x00) 8192 bs)))))"

text \<open>A pointer of the process, unless the read fails or is short; 32-bit pointers are zero-extended.\<close>

definition read_ptr :: "pread \<Rightarrow> int \<Rightarrow> int \<Rightarrow> (gerr option, int) sum" where
  "read_ptr rd w off = (case rd off (nat w) of
     Inl e \<Rightarrow> Inl (Some e)
   | Inr bs \<Rightarrow> if length bs \<noteq> nat w then Inl None else Inr (to_i64 (int (be_nat bs))))"

fun read_argv :: "pread \<Rightarrow> int \<Rightarrow> int \<Rightarrow> nat \<Rightarrow> nat \<Rightarrow> int list" where
  "read_argv rd w base i 0 = []"
| "read_argv rd w base i (Suc n) = (case read_ptr rd w (to_i64 (base + to_i64 (int i * w))) of
     Inl _ \<Rightarrow> replicate (Suc n) 0 | Inr v \<Rightarrow> v # read_argv rd w base (Suc i) n)"

fun read_args :: "pread \<Rightarrow> int list \<Rightarrow> string list" where
  "read_args rd [] = []"
| "read_args rd (a # argv) = (if a = 0 then [] else case readStringFromAddressSpace rd a of
     Ok s \<Rightarrow> (if s \<noteq> [] then [s] else []) @ read_args rd argv | _ \<Rightarrow> [])"

definition args_from :: "pread \<Rightarrow> int \<Rightarrow> struct \<Rightarrow> nat \<Rightarrow> string list result" where
  "args_from rd w info maxArgs = (case read_ptr rd w (to_i64 (val_of info ''Argv'')) of
     Inl (Some e) \<Rightarrow> Err e
   | Inl None \<Rightarrow> Ok []
   | Inr argvBase \<Rightarrow>
       (let argc = nat (val_of info ''Argc''); n = (if maxArgs < argc \<and> 0 < maxArgs then maxArgs else argc)
        in Ok (read_args rd (read_argv rd w argvBase 0 n))))"

definition readArgsFromAddressSpace :: "aix_env \<Rightarrow> int \<Rightarrow> struct \<Rightarrow> nat \<Rightarrow> aix_state \<Rightarrow> string list result \<times> aix_state" where
  "readArgsFromAddressSpace env pid info maxArgs st =
     (if val_of info ''Argc'' = 0 \<or> 10000 < val_of info ''Argc'' then (Err ErrNotImplemented, st)
      else case ae_as env (proc_file (ae_host env) pid [''as'']) of
        Inl e \<Rightarrow> (Err e, st)
      | Inr rd \<Rightarrow> (case getProcessBitness (ae_host env) pid st of (r, st') \<Rightarrow>
          (args_from rd (case r of Ok w \<Rightarrow> w | _ \<Rightarrow> 8) info maxArgs, st')))"

definition with_psinfo :: "aix_env \<Rightarrow> process \<Rightarrow> nat \<Rightarrow> (string list \<Rightarrow> 'a) \<Rightarrow> (struct \<Rightarrow> 'a) \<Rightarrow> aix_state \<Rightarrow> 'a result \<times> aix_state" where
  "with_psinfo env p maxArgs use_args fallback st = (case read_psinfo (ae_host env) (p_Pid p) of
     Err e \<Rightarrow> (Err e, st) | Panic \<Rightarrow> (Panic, st)
   | Ok info \<Rightarrow> (case readArgsFromAddressSpace env (p_Pid p) info maxArgs st of
       (r, st') \<Rightarrow> (Ok (case r of Ok (a # as) \<Rightarrow> if isValidProcessName a then use_args (a # as) else fallback info
         | _ \<Rightarrow> fallback info), st')))"

definition aix_fillFromExeWithContext :: "aix_env \<Rightarrow> process \<Rightarrow> aix_state \<Rightarrow> string result \<times> aix_state" where
  "aix_fillFromExeWithContext env p = with_psinfo env p 1 (\<lambda>args. path_base (hd args)) (\<lambda>info.
     let fname = extractFnameString info in if fname \<noteq> [] then fname
     else (case str_fields (extractPsargsString info) of w # _ \<Rightarrow> path_base w | [] \<Rightarrow> []))"

definition aix_fillFromCmdlineWithContext :: "aix_env \<Rightarrow> process \<Rightarrow> aix_state \<Rightarrow> string result \<times> aix_state" where
  "aix_fillFromCmdlineWithContext env p = with_psinfo env p 0 (join '' '') extractPsargsString"

definition aix_fillSliceFromCmdlineWithContext :: "aix_env \<Rightarrow> process \<Rightarrow> aix_state \<Rightarrow> string list result \<times> aix_state" where
  "aix_fillSliceFromCmdlineWithContext env p = with_psinfo env p 0 (\<lambda>args. args) (\<lambda>info. str_fields (extractPsargsString info))"

text \<open>\<^verbatim>\<open>Name\<close> and \<^verbatim>\<open>fillFromComm\<close>: the name is kept in the object.\<close>

definition aix_NameWithContext :: "aix_env \<Rightarrow> process \<Rightarrow> aix_state \<Rightarrow> string result \<times> process \<times> aix_state" where
  "aix_NameWithContext env p st =
     (if p_name p \<noteq> [] then (Ok (p_name p), p, st)
      else case aix_fillFromExeWithContext env p st of
        (Ok exe, st') \<Rightarrow> (Ok exe, p\<lparr>p_name := exe\<rparr>, st')
      | (r, st') \<Rightarrow> (r, p, st'))"

definition aix_fillFromStatmWithContext :: "host \<Rightarrow> process \<Rightarrow> (memory_info_stat \<times> memory_info_ex_stat) result" where
  "aix_fillFromStatmWithContext h p = rbind (read_psinfo h (p_Pid p)) (\<lambda>info.
     let vms = word_of_int (val_of info ''Size'') * 1024; rss = word_of_int (val_of info ''Rssize'') * 1024
     in Ok (empty_mem_info\<lparr>mi_RSS := rss, mi_VMS := vms\<rparr>,
        \<lparr>me_RSS = rss, me_VMS = vms, me_Shared = 0, me_Text = 0, me_Lib = 0, me_Data = 0, me_Dirty = 0\<rparr>))"

definition aix_fillFromCwdWithContext :: "host \<Rightarrow> process \<Rightarrow> string result" where
  "aix_fillFromCwdWithContext h p = (case h_readlink h (proc_file h (p_Pid p) [''cwd'']) of
     Inr cwd \<Rightarrow> Ok cwd | Inl e \<Rightarrow> if is_not_exist e then Ok [] else Err e)"

section \<open>The snapshot is fresh\<close>

lemma abind_simps [simp]:
  "m st = None \<Longrightarrow> abind m f st = None"
  "m st = Some (Ok x, st') \<Longrightarrow> abind m f st = f x st'"
  "m st = Some (Err e, st') \<Longrightarrow> abind m f st = Some (Err e, st')"
  "m st = Some (Panic, st') \<Longrightarrow> abind m f st = Some (Panic, st')"
  by (simp_all add: abind_def)

lemma abind_aret [simp]:
  "abind (aret (Ok x)) f = f x" "abind (aret (Err e)) f = aret (Err e)" "abind (aret Panic) f = aret Panic"
  by (simp_all add: abind_def aret_def fun_eq_iff)

lemma abind_OkE:
  assumes "abind m f st = Some (Ok y, st'')"
  obtains x st' where "m st = Some (Ok x, st')" and "f x st' = Some (Ok y, st'')"
  using assms by (auto simp: abind_def split: option.splits prod.splits result.splits)

lemma ps_table_cases:
  "case map_of (ps_table procs) pid of
     Some e \<Rightarrow> \<exists>pr \<in> set procs. ap_Pid pr = pid \<and> e = ps_entry pr
   | None \<Rightarrow> pid \<notin> ap_Pid ` set procs"
proof (induction procs rule: rev_induct)
  case Nil
  then show ?case by (simp add: ps_table_def)
next
  case (snoc pr procs)
  have "ps_table (procs @ [pr]) = alist_put (ap_Pid pr) (ps_entry pr) (ps_table procs)" by (simp add: ps_table_def)
  with snoc show ?case by (cases "map_of (ps_table procs) pid") auto
qed

text \<open>What a call says of the process table: an answer is its entry in a table that a call of \<open>envs\<close> has read.\<close>

definition ps_answer :: "aix_env list \<Rightarrow> aix_env \<Rightarrow> int \<Rightarrow> aixPSEntry result \<Rightarrow> bool" where
  "ps_answer envs env pid r = (case r of
     Ok e \<Rightarrow> \<exists>env0 \<in> set (env # envs). \<exists>procs. \<exists>pr \<in> set procs. AIXProcesses (ae_lib env0) = Some (Ok procs) \<and> ap_Pid pr = pid \<and>
       e = ps_entry pr \<and> (env0 = env \<or> dur_sub (h_now (ae_host env)) (ae_taken env0) < aixPSMaxAge)
   | Err e \<Rightarrow> AIXProcesses (ae_lib env) = Some (Err e) \<or>
       e = ErrProcessNotRunning \<and> (\<exists>procs. AIXProcesses (ae_lib env) = Some (Ok procs) \<and> pid \<notin> ap_Pid ` set procs)
   | Panic \<Rightarrow> AIXProcesses (ae_lib env) = Some Panic)"

text \<open>The states that calls lead to, with their environments, the last first; anything else leaves the snapshot alone or
  drops it.\<close>

inductive ps_calls :: "aix_env list \<Rightarrow> aix_state \<Rightarrow> bool" where
  start: "\<not> ps_loaded (as_PS st) \<Longrightarrow> ps_calls [] st"
| call: "ps_calls envs st \<Longrightarrow> aixPSFor env pid st = Some (r, st') \<Longrightarrow> ps_calls (env # envs) st'"
| other: "ps_calls envs st \<Longrightarrow> as_PS st' = as_PS st \<Longrightarrow> ps_calls envs st'"
| reset: "ps_calls envs st \<Longrightarrow> ps_calls envs (resetAIXPS st)"

definition ps_origin :: "aix_env list \<Rightarrow> aixPS \<Rightarrow> bool" where
  "ps_origin envs ps \<longleftrightarrow> (ps_loaded ps \<longrightarrow> (\<exists>env \<in> set envs. \<exists>procs. AIXProcesses (ae_lib env) = Some (Ok procs) \<and>
     ps_byPID ps = ps_table procs \<and> ps_taken ps = ae_taken env))"

lemma ps_origin_Cons: "ps_origin envs ps \<Longrightarrow> ps_origin (env # envs) ps"
  unfolding ps_origin_def by auto

lemma refresh_lookup:
  assumes "abind (refreshAIXPS env) (\<lambda>_. ps_lookup pid) st = Some (r, st')" and "ps_origin envs (as_PS st)"
  shows "ps_origin (env # envs) (as_PS st') \<and> ps_answer envs env pid r"
proof (cases "\<exists>procs. AIXProcesses (ae_lib env) = Some (Ok procs)")
  case True
  then obtain procs where t: "AIXProcesses (ae_lib env) = Some (Ok procs)" by blast
  with assms(1) have r: "r = (case map_of (ps_table procs) pid of Some e \<Rightarrow> Ok e | None \<Rightarrow> Err ErrProcessNotRunning)"
    and "as_PS st' = \<lparr>ps_taken = ae_taken env, ps_byPID = ps_table procs, ps_loaded = True\<rparr>"
    by (auto simp: abind_def refreshAIXPS_def ps_lookup_def aret_def)
  with t show ?thesis using ps_table_cases [where procs = procs and pid = pid]
    by (auto simp: ps_origin_def ps_answer_def split: option.splits)
next
  case False
  then have "as_PS st' = as_PS st" and "ps_answer envs env pid r"
    using assms(1) by (auto simp: abind_def refreshAIXPS_def ps_answer_def split: option.splits result.splits)
  then show ?thesis using assms(2) by (simp add: ps_origin_Cons)
qed

lemma aixPSFor_step:
  assumes "aixPSFor env pid st = Some (r, st')" and "ps_origin envs (as_PS st)"
  shows "ps_origin (env # envs) (as_PS st') \<and> ps_answer envs env pid r"
proof (cases "\<not> ps_loaded (as_PS st) \<or> aixPSMaxAge \<le> dur_sub (h_now (ae_host env)) (ps_taken (as_PS st)) \<or>
    map_of (ps_byPID (as_PS st)) pid = None")
  case True
  then have "abind (refreshAIXPS env) (\<lambda>_. ps_lookup pid) st = Some (r, st')"
    using assms(1) by (auto simp: aixPSFor_def Let_def split: if_splits)
  then show ?thesis using assms(2) by (rule refresh_lookup)
next
  case False
  then obtain e where e: "map_of (ps_byPID (as_PS st)) pid = Some e" by auto
  with False assms(1) have r: "r = Ok e" "st' = st" by (auto simp: aixPSFor_def Let_def)
  from False assms(2) obtain env0 procs where o: "env0 \<in> set envs" "AIXProcesses (ae_lib env0) = Some (Ok procs)"
    "ps_byPID (as_PS st) = ps_table procs" "ps_taken (as_PS st) = ae_taken env0"
    by (auto simp: ps_origin_def)
  then obtain pr where pr: "pr \<in> set procs" "ap_Pid pr = pid" "e = ps_entry pr"
    using ps_table_cases [where procs = procs and pid = pid] e by auto
  have "ps_answer envs env pid (Ok e)"
    unfolding ps_answer_def result.case
    by (rule bexI [of _ env0], rule exI [of _ procs], rule bexI [of _ pr]) (use o pr False in auto)
  with assms(2) show ?thesis by (simp add: r ps_origin_Cons)
qed

lemma ps_calls_origin: "ps_calls envs st \<Longrightarrow> ps_origin envs (as_PS st)"
proof (induction rule: ps_calls.induct)
  case (call envs st env pid r st')
  then show ?case using aixPSFor_step by blast
qed (auto simp: ps_origin_def resetAIXPS_def)

text \<open>C15: after any sequence of calls, the counters reported for a process are its entry in the process table as this call
  has read it, or as a call at most one second before did; a process that is in the table now is never reported as gone.\<close>

theorem aix_snapshot_fresh:
  assumes "ps_calls envs st" and "aixPSFor env pid st = Some (r, st')"
  shows "ps_answer envs env pid r"
  using aixPSFor_step [OF assms(2) ps_calls_origin [OF assms(1)]] by blast

definition no_aix :: aix_env where
  "no_aix = \<lparr>ae_proc = \<lparr>pe_host = no_files, pe_clockTicks = 100, pe_priority = (\<lambda>_. 0), pe_lstat = (\<lambda>_. Inl ENOENT),
     pe_rdev = (\<lambda>_. Inl ENOENT), pe_signal = (\<lambda>_ _. None), pe_numcpu = 1, pe_bootCache = False\<rparr>, ae_lib = no_lib, ae_taken = 0,
     ae_as = (\<lambda>_. Inl ENOENT), ae_ReadDir = (\<lambda>_. []), ae_chardev = (\<lambda>_. None), ae_LookupId = (\<lambda>_. Inl ENOENT)\<rparr>"

definition no_state :: aix_state where
  "no_state = \<lparr>as_PS = \<lparr>ps_taken = 0, ps_byPID = [], ps_loaded = False\<rparr>, as_bitness = [], as_ttys = []\<rparr>"

definition one_process :: aix_env where
  "one_process = no_aix\<lparr>ae_lib := no_lib\<lparr>al_getprocs64 := table_call [zero_process\<lparr>ap_Pid := 7, ap_MajFlt := 3\<rparr>]\<rparr>\<rparr>"

lemma one_process_table: "AIXProcesses (ae_lib one_process) = Some (Ok [zero_process\<lparr>ap_Pid := 7, ap_MajFlt := 3\<rparr>])"
  using batches_table [OF reads_table_call, of 0 "[zero_process\<lparr>ap_Pid := 7, ap_MajFlt := 3\<rparr>]" zero_process "[]"]
  by (simp add: AIXProcesses_def one_process_def no_aix_def)

text \<open>The first call reads the table, the second one, of a system whose table is empty by then, is answered from it.\<close>

theorem aix_snapshot_fresh_witness:
  "\<exists>st r st'. ps_calls [one_process] st \<and> aixPSFor no_aix 7 st = Some (r, st') \<and> ps_answer [one_process] no_aix 7 r \<and>
    r = Ok \<lparr>pse_majorFaults = 3, pse_ioChars = 0\<rparr>"
proof -
  let ?e = "\<lparr>pse_majorFaults = 3, pse_ioChars = 0\<rparr>"
  let ?st = "no_state\<lparr>as_PS := \<lparr>ps_taken = 0, ps_byPID = [(7, ?e)], ps_loaded = True\<rparr>\<rparr>"
  have "ps_calls [] no_state" by (rule ps_calls.start) (simp add: no_state_def)
  moreover have "aixPSFor one_process 7 no_state = Some (Ok ?e, ?st)"
    using one_process_table
    by (simp add: aixPSFor_def no_state_def abind_def refreshAIXPS_def ps_lookup_def aret_def ps_table_def ps_entry_def
        zero_process_def one_process_def no_aix_def)
  ultimately have c: "ps_calls [one_process] ?st" by (rule ps_calls.call)
  have a: "aixPSFor no_aix 7 ?st = Some (Ok ?e, ?st)"
    by (simp add: aixPSFor_def no_aix_def no_files_def aixPSMaxAge_def dur_sub_def)
  from aix_snapshot_fresh [OF c a] c a show ?thesis by blast
qed

section \<open>Structures are read back\<close>

lemmas aix_layout_defs = AIXStat_def AIXPSInfo_def LwpStatus_def LwpsInfo_def PrTimestruc64T_def Fltset_def PrSigset_def PrSiginfo64_def
  PrSigaction64_def PrStack64_def Prgregset_def Prfpregset_def Pfamily_def i32s_f_def u32s_f_def field_ty_defs nested_def

lemma aix_widths: "widths_pos AIXStat" "widths_pos AIXPSInfo" "widths_pos LwpStatus" "widths_pos LwpsInfo"
  by (simp_all add: widths_pos_def aix_layout_defs)

lemma aix_sizes: "layout_size AIXStat = 1520" "layout_size AIXPSInfo = 448" "layout_size LwpStatus = 1200" "layout_size LwpsInfo = 120"
  by (simp_all add: aix_layout_defs field_size_def)

lemma read_psinfo_encode:
  assumes "has_layout AIXPSInfo info" and "h_open h (proc_file h pid [''psinfo'']) = Inr (encode AIXPSInfo info @ rest, fin)"
  shows "read_psinfo h pid = Ok info"
  using assms read_struct_encode [OF aix_widths(2) assms(1)] by (simp add: read_psinfo_def read_file_struct_def)

text \<open>C26: The status and the information of a process are read back from the bytes of their structures: parent, state, pending
  signals, users, groups, threads and memory, and the pointer size is remembered.\<close>

theorem aix_status_roundtrip:
  assumes "has_layout AIXStat s" and "has_layout AIXPSInfo info" and "h = ae_host env"
    and "h_open h (proc_file h (p_Pid p) [''status'']) = Inr (encode AIXStat s @ rest, fin)"
    and "h_open h (proc_file h (p_Pid p) [''psinfo'']) = Inr (encode AIXPSInfo info @ rest', fin')"
    and "0 < val_of s ''Ppid''" and "val_of s ''Ppid'' < 2 ^ 31" and "0 < val_of s ''Pid''" and "val_of s ''Pid'' < 2 ^ 31"
    and "val_of info ''Nlwp'' < 2 ^ 31"
  shows "\<exists>p' st' m ex. aix_fillFromStatusWithContext env p st = (None, p', st') \<and>
    p_parent p' = val_of s ''Ppid'' \<and> p_tgid p' = val_of s ''Pid'' \<and> p_status p' = aix_status_name (val_of s ''Stat'') \<and>
    p_numThreads p' = val_of info ''Nlwp'' \<and> map_option sg_PendingProcess (p_sigInfo p') = Some (word_of_int (val_of s ''SigPend.SsSet'')) \<and>
    p_uids p' = map (\<lambda>n. word_of_int (val_of info n)) [''UID'', ''Euid'', ''Euid'', ''Euid''] \<and>
    p_gids p' = map (\<lambda>n. word_of_int (val_of info n)) [''Gid'', ''Egid'', ''Egid'', ''Egid''] \<and>
    map_of (as_bitness st') (p_Pid p) = Some (if val_of s ''Dmodel'' = 0 then 4 else 8) \<and>
    aix_fillFromStatmWithContext h p = Ok (m, ex) \<and> mi_VMS m = word_of_int (1024 * val_of info ''Size'') \<and>
    mi_RSS m = word_of_int (1024 * val_of info ''Rssize'')"
proof -
  have "field_ok u32_f (arr_of info ''Nlwp'')"
    by (rule map_of_has_layout [OF assms(2)]) (simp add: AIXPSInfo_def)
  then have "0 \<le> val_of info ''Nlwp''"
    by (auto simp: field_ok_def val_of_def in_width_def field_ty_defs split: list.splits)
  then have w: "to_i32 (val_of info ''Nlwp'') = val_of info ''Nlwp''" "to_i32 (val_of s ''Ppid'') = val_of s ''Ppid''"
    "to_i32 (val_of s ''Pid'') = val_of s ''Pid''"
    using assms(6-10) by (auto intro!: wrap_signed_id)
  have i: "read_psinfo h (p_Pid p) = Ok info" by (rule read_psinfo_encode [OF assms(2,5)])
  show ?thesis
    using assms(4,6,8) read_struct_encode [OF aix_widths(1) assms(1)] i
    by (simp add: aix_fillFromStatusWithContext_def Let_def psinfo_step_def status_fields_def psinfo_fields_def w
        aix_fillFromStatmWithContext_def assms(3) empty_mem_info_def mult.commute)
qed

text \<open>A structure that is zero but for some fields.\<close>

definition struct_with :: "layout \<Rightarrow> (string \<times> int) list \<Rightarrow> struct" where
  "struct_with l vs = map (\<lambda>(n, zs). case map_of vs n of Some v \<Rightarrow> (n, [v]) | None \<Rightarrow> (n, zs)) (zero_struct l)"

definition file_env :: "(string \<times> string) list \<Rightarrow> aix_env" where
  "file_env fs = no_aix\<lparr>ae_proc := (ae_proc no_aix)\<lparr>pe_host := with_files fs\<rparr>\<rparr>"

lemma file_env_paths:
  "proc_file (ae_host (file_env fs)) 7 [''status''] = ''/proc/7/status''"
  "proc_file (ae_host (file_env fs)) 7 [''psinfo''] = ''/proc/7/psinfo''"
proof -
  have h: "ae_host (file_env fs) = with_files fs" by (simp add: file_env_def)
  have "proc_file (with_files fs) 7 r = proc_file no_files 7 r" for r
    by (simp add: proc_file_def HostProcWithContext_def GetEnvWithContext_def GetEnv_def with_files_def Let_def)
  moreover have "proc_file no_files 7 [''status''] = ''/proc/7/status''" "proc_file no_files 7 [''psinfo''] = ''/proc/7/psinfo''"
    by code_simp+
  ultimately show "proc_file (ae_host (file_env fs)) 7 [''status''] = ''/proc/7/status''"
    "proc_file (ae_host (file_env fs)) 7 [''psinfo''] = ''/proc/7/psinfo''"
    by (simp_all only: h)
qed

theorem aix_status_roundtrip_witness:
  "\<exists>p' st'. aix_fillFromStatusWithContext (file_env
      [(''/proc/7/status'', encode AIXStat (struct_with AIXStat [(''Pid'', 7), (''Ppid'', 1), (''Stat'', 7)])),
       (''/proc/7/psinfo'', encode AIXPSInfo (struct_with AIXPSInfo [(''Nlwp'', 3)]))]) (new_process 7) no_state = (None, p', st') \<and>
    p_parent p' = 1 \<and> p_numThreads p' = 3"
proof -
  let ?s = "struct_with AIXStat [(''Pid'', 7), (''Ppid'', 1), (''Stat'', 7)]"
  let ?i = "struct_with AIXPSInfo [(''Nlwp'', 3)]"
  let ?env = "file_env [(''/proc/7/status'', encode AIXStat ?s), (''/proc/7/psinfo'', encode AIXPSInfo ?i)]"
  have l: "has_layout AIXStat ?s" "has_layout AIXPSInfo ?i"
    by (simp_all add: has_layout_def struct_with_def zero_struct_def aix_layout_defs field_ok_def in_width_def list_all_iff)
  have v: "val_of ?s ''Pid'' = 7" "val_of ?s ''Ppid'' = 1" "val_of ?i ''Nlwp'' = 3"
    by (simp_all add: val_of_def arr_of_def struct_with_def zero_struct_def aix_layout_defs)
  have f: "h_open (ae_host ?env) (proc_file (ae_host ?env) 7 [''status'']) = Inr (encode AIXStat ?s @ [], None)"
    "h_open (ae_host ?env) (proc_file (ae_host ?env) 7 [''psinfo'']) = Inr (encode AIXPSInfo ?i @ [], None)"
    unfolding file_env_paths by (simp_all add: file_env_def with_files_def)
  have p: "p_Pid (new_process 7) = 7" by (simp add: new_process_def)
  from aix_status_roundtrip [OF l refl, of ?env "new_process 7" "[]" None "[]" None no_state] f
  show ?thesis unfolding p v by fastforce
qed

section \<open>Arguments are read back\<close>

text \<open>The memory of a process as a function of the address, and what it means that a NUL-terminated string or a pointer of \<open>w\<close>
  bytes is stored at an address.\<close>

definition image_pread :: "(int \<Rightarrow> char) \<Rightarrow> pread" where
  "image_pread mem off n = Inr (map (\<lambda>i. mem (off + int i)) [0..<n])"

definition stored_string :: "(int \<Rightarrow> char) \<Rightarrow> nat \<Rightarrow> string \<Rightarrow> bool" where
  "stored_string mem a s \<longleftrightarrow> map (\<lambda>i. mem (int a + int i)) [0..<Suc (length s)] = s @ [CHR 0x00]"

definition stored_ptr :: "(int \<Rightarrow> char) \<Rightarrow> nat \<Rightarrow> nat \<Rightarrow> nat \<Rightarrow> bool" where
  "stored_ptr mem w a v \<longleftrightarrow> v < 256 ^ w \<and> v < 2 ^ 63 \<and> map (\<lambda>i. mem (int a + int i)) [0..<w] = be_bytes w v"

definition stored_args :: "(int \<Rightarrow> char) \<Rightarrow> nat \<Rightarrow> nat \<Rightarrow> nat \<Rightarrow> nat list \<Rightarrow> string list \<Rightarrow> bool" where
  "stored_args mem w p base addrs args \<longleftrightarrow> (w = 4 \<or> w = 8) \<and> p < 2 ^ 63 \<and> stored_ptr mem w p base \<and>
     base + length args * w < 2 ^ 63 \<and> length addrs = length args \<and>
     (\<forall>i < length args. stored_ptr mem w (base + i * w) (addrs ! i) \<and> addrs ! i \<noteq> 0 \<and> stored_string mem (addrs ! i) (args ! i) \<and>
        args ! i \<noteq> [] \<and> CHR 0x00 \<notin> set (args ! i) \<and> length (args ! i) \<le> 4096)"

lemma read_ptr_image:
  assumes "stored_ptr mem w a v"
  shows "read_ptr (image_pread mem) (int w) (int a) = Inr (int v)"
proof -
  have "to_i64 (int v) = int v" using assms by (intro wrap_signed_id) (auto simp: stored_ptr_def)
  then show ?thesis
    using assms be_nat_be_bytes [of v w] by (simp add: stored_ptr_def read_ptr_def image_pread_def)
qed

lemma read_argv_image:
  assumes "w = 4 \<or> w = 8" and "base + (i + length addrs) * w < 2 ^ 63"
    and "\<And>j. j < length addrs \<Longrightarrow> stored_ptr mem w (base + (i + j) * w) (addrs ! j)"
  shows "read_argv (image_pread mem) (int w) (int base) i (length addrs) = map int addrs"
  using assms(2,3)
proof (induction addrs arbitrary: i)
  case (Cons a addrs)
  have i: "base + i * w < 2 ^ 63" using Cons.prems(1) assms(1) by (auto simp: algebra_simps)
  have wrap: "to_i64 (int n) = int n" if "n < 2 ^ 63" for n using that by (intro wrap_signed_id) auto
  have "to_i64 (int i * int w) = int (i * w)" using wrap [of "i * w"] i by simp
  moreover have "to_i64 (int base + int (i * w)) = int (base + i * w)" using wrap [OF i] by simp
  moreover have "stored_ptr mem w (base + i * w) a" using Cons.prems(2) [of 0] by simp
  moreover have "read_argv (image_pread mem) (int w) (int base) (Suc i) (length addrs) = map int addrs"
    using Cons.prems(1) Cons.prems(2) [of "Suc _"] by (intro Cons.IH) simp_all
  ultimately show ?case by (simp add: read_ptr_image del: of_nat_mult of_nat_add)
qed simp

lemma quot_nat: "quot (int a) (int b) = int (a div b)"
  by (cases "a = 0"; cases "b = 0") (simp_all add: quot_def zdiv_int)

lemma read_string_image:
  assumes "stored_string mem a s" and "CHR 0x00 \<notin> set s" and "length s \<le> 4096"
  shows "readStringFromAddressSpace (image_pread mem) (int a) = Ok s"
proof -
  define ps off where o: "ps = a div 4096 * 4096" "off = a mod 4096"
  have a: "a = ps + off" and off: "off < 4096" by (simp_all add: o div_mult_mod_eq)
  have q: "quot (int a) 4096 * 4096 = int ps" using quot_nat [of a 4096] by (simp add: o)
  let ?bs = "map (\<lambda>i. mem (int ps + int i)) [0..<8192]"
  have "drop off ?bs = map (\<lambda>i. mem (int a + int i)) [0..<8192 - off]"
    using off by (intro nth_equalityI) (auto simp: a less_diff_conv ac_simps)
  also have "[0..<8192 - off] = [0..<Suc (length s)] @ [Suc (length s)..<8192 - off]"
    using upt_add_eq_append [of 0 "Suc (length s)" "8192 - off - Suc (length s)"] assms(3) off
    by (simp add: Suc_diff_le [symmetric] del: upt_Suc)
  finally have "drop off ?bs = s @ CHR 0x00 # map (\<lambda>i. mem (int a + int i)) [Suc (length s)..<8192 - off]"
    using assms(1) by (simp only: map_append stored_string_def) simp
  moreover have "takeWhile (\<lambda>c. c \<noteq> CHR 0x00) (s @ CHR 0x00 # rest) = s" for rest
    using assms(2) by (subst takeWhile_append2) auto
  moreover have "take 32768 (drop off ?bs) = drop off ?bs" by simp
  moreover have "buffer (CHR 0x00) 8192 ?bs = ?bs" by (simp add: buffer_def)
  moreover have "int a - int ps = int off" by (simp add: a)
  ultimately show ?thesis
    using off by (simp add: readStringFromAddressSpace_def q image_pread_def del: upt_Suc)
qed

lemma read_args_image:
  assumes "length addrs = length args"
    and "\<And>i. i < length args \<Longrightarrow> addrs ! i \<noteq> 0 \<and> stored_string mem (addrs ! i) (args ! i) \<and> args ! i \<noteq> [] \<and>
      CHR 0x00 \<notin> set (args ! i) \<and> length (args ! i) \<le> 4096"
  shows "read_args (image_pread mem) (map int addrs) = args"
  using assms
proof (induction addrs args rule: list_induct2)
  case (Cons a addrs s args)
  have "read_args (image_pread mem) (map int addrs) = args" by (rule Cons.IH) (use Cons.prems [of "Suc _"] in simp)
  moreover have "readStringFromAddressSpace (image_pread mem) (int a) = Ok s"
    using Cons.prems [of 0] by (intro read_string_image) simp_all
  ultimately show ?case using Cons.prems [of 0] by simp
qed simp

text \<open>C25: the argument vector of a process is read back from its memory, through two levels of 32-bit or 64-bit pointers: every
  argument of at most 4096 bytes completely, when none is empty and the first one is printable.\<close>

theorem aix_cmdline_roundtrip:
  assumes "stored_args mem w ptr base addrs args" and "args \<noteq> []" and "length args \<le> 10000" and "isValidProcessName (hd args)"
    and "has_layout AIXPSInfo info" and "val_of info ''Argc'' = int (length args)" and "val_of info ''Argv'' = int ptr"
    and "h = ae_host env" and "h_open h (proc_file h (p_Pid p) [''psinfo'']) = Inr (encode AIXPSInfo info @ rest, fin)"
    and "ae_as env (proc_file h (p_Pid p) [''as'']) = Inr (image_pread mem)"
    and "getProcessBitness h (p_Pid p) st = (Ok (int w), st')"
  shows "aix_fillSliceFromCmdlineWithContext env p st = (Ok args, st') \<and>
    aix_fillFromCmdlineWithContext env p st = (Ok (join '' '' args), st')"
proof -
  note st = assms(1) [unfolded stored_args_def]
  have "to_i64 (int ptr) = int ptr" using st by (intro wrap_signed_id) auto
  moreover have "read_argv (image_pread mem) (int w) (int base) 0 (length addrs) = map int addrs"
    using st by (intro read_argv_image) auto
  moreover have "read_args (image_pread mem) (map int addrs) = args" using st by (intro read_args_image) auto
  ultimately have "args_from (image_pread mem) (int w) info 0 = Ok args"
    using st assms(6,7) read_ptr_image [of mem w ptr base] by (simp add: args_from_def)
  then have r: "readArgsFromAddressSpace env (p_Pid p) info 0 st = (Ok args, st')"
    using assms(2,3,6,8,10,11) by (simp add: readArgsFromAddressSpace_def)
  moreover have "read_psinfo h (p_Pid p) = Ok info" by (rule read_psinfo_encode [OF assms(5,9)])
  ultimately show ?thesis
    using assms(2,4,8)
    by (cases args) (simp_all add: aix_fillSliceFromCmdlineWithContext_def aix_fillFromCmdlineWithContext_def with_psinfo_def)
qed

definition ls_image :: "int \<Rightarrow> char" where
  "ls_image a = (case map_of [(103, CHR 0xC8), (202, CHR 0x01), (203, CHR 0x2C), (300, CHR ''l''), (301, CHR ''s'')] a of
     Some c \<Rightarrow> c | None \<Rightarrow> CHR 0x00)"

lemma ls_image_args: "stored_args ls_image 4 100 200 [300] [''ls'']"
proof -
  have u: "[0..<4] = [0, 1, 2, 3]" "[0..<3] = [0, 1, 2]" by (simp_all add: upt_rec)
  have four: "(4 :: nat) = Suc (Suc (Suc (Suc 0)))" by simp
  have c: "char_of (0 :: nat) = CHR 0x00" "char_of (200 :: nat) = CHR 0xC8" "char_of (1 :: nat) = CHR 0x01" "char_of (44 :: nat) = CHR 0x2C"
    by code_simp+
  have "be_bytes 4 200 = [CHR 0x00, CHR 0x00, CHR 0x00, CHR 0xC8]" "be_bytes 4 300 = [CHR 0x00, CHR 0x00, CHR 0x01, CHR 0x2C]"
    unfolding four be_bytes.simps by (simp_all add: c [simplified])
  then show ?thesis
    by (simp add: stored_args_def stored_ptr_def stored_string_def ls_image_def u)
qed

theorem aix_cmdline_roundtrip_witness:
  "aix_fillSliceFromCmdlineWithContext (file_env [(''/proc/7/psinfo'',
      encode AIXPSInfo (struct_with AIXPSInfo [(''Argc'', 1), (''Argv'', 100)]))]\<lparr>ae_as := (\<lambda>_. Inr (image_pread ls_image))\<rparr>)
    (new_process 7) (no_state\<lparr>as_bitness := [(7, 4)]\<rparr>) = (Ok [''ls''], no_state\<lparr>as_bitness := [(7, 4)]\<rparr>)"
proof -
  let ?i = "struct_with AIXPSInfo [(''Argc'', 1), (''Argv'', 100)]" and ?st = "no_state\<lparr>as_bitness := [(7, 4)]\<rparr>"
  let ?fenv = "file_env [(''/proc/7/psinfo'', encode AIXPSInfo ?i)]"
  let ?env = "?fenv\<lparr>ae_as := (\<lambda>_. Inr (image_pread ls_image))\<rparr>"
  have l: "has_layout AIXPSInfo ?i"
    by (simp add: has_layout_def struct_with_def zero_struct_def aix_layout_defs field_ok_def in_width_def list_all_iff)
  have v: "val_of ?i ''Argc'' = int (length [''ls''])" "val_of ?i ''Argv'' = int 100"
    by (simp_all add: val_of_def arr_of_def struct_with_def zero_struct_def aix_layout_defs)
  have n: "[''ls''] \<noteq> []" "length [''ls''] \<le> 10000" "isValidProcessName (hd [''ls''])" by (simp_all add: isValidProcessName_def)
  have p: "p_Pid (new_process 7) = 7" by (simp add: new_process_def)
  have h: "ae_host ?env = ae_host ?fenv" by simp
  have f: "h_open (ae_host ?fenv) (proc_file (ae_host ?fenv) 7 [''psinfo'']) = Inr (encode AIXPSInfo ?i @ [], None)"
    unfolding file_env_paths by (simp add: file_env_def with_files_def)
  have b: "getProcessBitness (ae_host ?fenv) 7 ?st = (Ok (int 4), ?st)" by (simp add: getProcessBitness_def)
  show ?thesis
    using aix_cmdline_roundtrip [OF ls_image_args n l v h [symmetric], where p = "new_process 7" and rest = "[]" and fin = None
        and st = ?st and st' = ?st] f b unfolding p by simp
qed

section \<open>Limits of the readers\<close>

text \<open>The two pages that are read bound an argument, although the code allows 32768 bytes; empty arguments are dropped; the
  priority of a process is only looked for at thread level and is always 0.\<close>

lemma args_at_most_two_pages: "readStringFromAddressSpace rd a = Ok s \<Longrightarrow> length s \<le> 8192"
proof -
  have b: "length (buffer z n bs) = n" for z n and bs :: string by (simp add: buffer_def)
  have "length (takeWhile P (take n (drop k (buffer z 8192 bs)))) \<le> 8192" for P n k z and bs :: string
    by (rule order_trans [OF length_takeWhile_le]) (simp add: b)
  then show "readStringFromAddressSpace rd a = Ok s \<Longrightarrow> length s \<le> 8192"
    by (auto simp: readStringFromAddressSpace_def Let_def split: sum.splits if_splits)
qed

lemma empty_args_dropped: "[] \<notin> set (read_args rd argv)"
proof (induction argv)
  case (Cons a argv)
  then show ?case by (cases "readStringFromAddressSpace rd a") auto
qed simp

lemma aix_nice_zero: "aix_NiceWithContext env p st = Some (Ok n, st') \<Longrightarrow> n = 0"
  by (auto simp: aix_NiceWithContext_def of_stat_def aix_fillFromStatWithContext_def aix_fillFromTIDStatWithContext_def Let_def
      tid_stat_of_def elim!: abind_OkE) (auto simp: aret_def)

end
