(* ===== verification/Net_Aix.thy ===== *)
theory Net_Aix
  imports Common_Aix Net_Linux
begin

text \<open>
  Package \<^verbatim>\<open>net\<close> on AIX (\<^verbatim>\<open>net_aix.go\<close>, \<^verbatim>\<open>net_aix_nocgo.go\<close>): interface counters from \<^verbatim>\<open>libperfstat\<close>, the protocol counters of
  \<^verbatim>\<open>netstat -s\<close> under their common or native names, the connections of \<^verbatim>\<open>netstat -na\<close> and \<^verbatim>\<open>netstat -Aan\<close>, and their owners from
  \<^verbatim>\<open>rmsock\<close>. The regular expressions are matched by hand: their classes do not overlap, so the greedy match is the only one.
\<close>

section \<open>Interface counters\<close>

definition aix_nic :: "perfstat_netinterface \<Rightarrow> io_counters_stat" where
  "aix_nic n = \<lparr>io_Name = CString (ni_Name n), io_BytesSent = ni_OBytes n, io_BytesRecv = ni_IBytes n,
     io_PacketsSent = ni_OPackets n, io_PacketsRecv = ni_IPackets n, io_Errin = ni_IErrors n, io_Errout = ni_OErrors n,
     io_Dropin = ni_IfIqDrops n, io_Dropout = ni_XmitDrops n, io_Fifoin = 0, io_Fifoout = 0\<rparr>"

definition aix_net_IOCountersWithContext :: "aix_lib \<Rightarrow> bool \<Rightarrow> io_counters_stat list result" where
  "aix_net_IOCountersWithContext lib pernic = rbind (PerfstatNetInterfaceStats lib) (\<lambda>ifs.
     let iocounters = map aix_nic ifs in Ok (if \<not> pernic then getIOCountersAll iocounters else iocounters))"

section \<open>Protocol counters\<close>

definition normaliseNetstatDesc :: "string \<Rightarrow> string" where
  "normaliseNetstatDesc s = (case (index_byte s CHR ''('', last_index_byte s CHR '')'') of
     (Some start, Some fin) \<Rightarrow> if fin < start then s else join '' '' (str_fields (take start s @ drop (fin + 1) s))
   | _ \<Rightarrow> s)"

definition aixTCPKey :: "nat \<Rightarrow> string \<Rightarrow> string" where
  "aixTCPKey depth desc =
     (if depth = 1 \<and> desc = ''packets sent'' then ''OutSegs''
      else if depth = 1 \<and> desc = ''packets received'' then ''InSegs''
      else if str_contains desc ''retransmitted'' then ''RetransSegs''
      else if desc = ''connection requests'' then ''ActiveOpens''
      else if desc = ''connection accepts'' then ''PassiveOpens''
      else if desc = ''embryonic connections dropped'' then ''AttemptFails''
      else if has_prefix desc ''discarded for bad checksums'' then ''InCsumErrors''
      else if has_prefix desc ''discarded for bad header'' \<or> has_prefix desc ''discarded because packet too short'' then ''InErrs''
      else [])"

definition aixUDPKey :: "string \<Rightarrow> string" where
  "aixUDPKey desc =
     (if desc = ''delivered'' then ''InDatagrams''
      else if str_contains desc ''dropped due to no socket'' then ''NoPorts''
      else if desc = ''bad checksums'' then ''InCsumErrors''
      else if desc = ''socket buffer overflows'' then ''RcvbufErrors''
      else if desc = ''datagrams output'' then ''OutDatagrams''
      else if desc = ''incomplete headers'' \<or> desc = ''bad data length fields'' then ''InErrors''
      else [])"

definition aixIPKey :: "nat \<Rightarrow> string \<Rightarrow> string" where
  "aixIPKey depth desc =
     (if desc = ''total packets received'' then ''InReceives''
      else if desc \<in> {''bad header checksums'', ''with size smaller than minimum'', ''with data size < data length'',
        ''with header length < data size'', ''with data length < header length'', ''with bad options'',
        ''with incorrect version number''} then ''InHdrErrors''
      else if str_contains desc ''unknown/unsupported protocol'' then ''InUnknownProtos''
      else if desc = ''packets for this host'' then ''InDelivers''
      else if depth = 1 \<and> desc = ''packets forwarded'' then ''ForwDatagrams''
      else if desc = ''packets sent from this host'' then ''OutRequests''
      else if desc = ''packets reassembled ok'' then ''ReasmOKs''
      else if has_prefix desc ''fragments dropped after timeout'' then ''ReasmFails''
      else if desc = ''fragments received'' then ''ReasmReqds''
      else if has_prefix desc ''fragments dropped'' then ''InDiscards''
      else if desc = ''fragments created'' then ''FragCreates''
      else if desc = ''output packets discarded due to no route'' then ''OutNoRoutes''
      else if has_prefix desc ''output packets dropped due to no bufs'' then ''OutDiscards''
      else [])"

definition aixIPv6Key :: "nat \<Rightarrow> string \<Rightarrow> string" where
  "aixIPv6Key depth desc =
     (if desc = ''total packets received'' then ''InReceives''
      else if desc \<in> {''with size smaller than minimum'', ''with data size < data length'',
        ''with incorrect version number'', ''with illegal source''} then ''InHdrErrors''
      else if str_contains desc ''unknown/unsupported protocol'' then ''InUnknownProtos''
      else if desc = ''input packets without enough memory'' then ''InDiscards''
      else if desc = ''packets for this host'' then ''InDelivers''
      else if depth = 1 \<and> desc = ''packets forwarded'' then ''ForwDatagrams''
      else if desc = ''packets sent from this host'' then ''OutRequests''
      else if desc = ''packets reassembled ok'' then ''ReasmOKs''
      else if has_prefix desc ''fragments dropped after timeout'' then ''ReasmFails''
      else if desc = ''fragments received'' then ''ReasmReqds''
      else if has_prefix desc ''fragments dropped'' then ''InDiscards''
      else if desc = ''fragments created'' then ''FragCreates''
      else if desc = ''output packets discarded due to no route'' then ''OutNoRoutes''
      else if has_prefix desc ''output packets dropped due to no bufs'' \<or> desc = ''output packets without enough memory'' then ''OutDiscards''
      else [])"

definition aixProtoKey :: "string \<Rightarrow> nat \<Rightarrow> string \<Rightarrow> string" where
  "aixProtoKey proto depth desc =
     (if proto = ''tcp'' then aixTCPKey depth desc else if proto = ''udp'' then aixUDPKey desc
      else if proto = ''ip'' then aixIPKey depth desc else if proto = ''ipv6'' then aixIPv6Key depth desc else [])"

text \<open>Upper case of ASCII letters; the words come from a cleaned ASCII string.\<close>

definition upper_char :: "char \<Rightarrow> char" where
  "upper_char c = (let n = (of_char c :: nat) in if 97 \<le> n \<and> n \<le> 122 then char_of (n - 32) else c)"

definition alnum_or_space :: "char \<Rightarrow> bool" where
  "alnum_or_space c \<longleftrightarrow> (let n = (of_char c :: nat) in 97 \<le> n \<and> n \<le> 122 \<or> 65 \<le> n \<and> n \<le> 90 \<or> 48 \<le> n \<and> n \<le> 57) \<or> c = CHR '' ''"

definition capitalise :: "string \<Rightarrow> string" where
  "capitalise w = (case w of [] \<Rightarrow> [] | c # s \<Rightarrow> upper_char c # s)"

definition descToCamelCase :: "string \<Rightarrow> string" where
  "descToCamelCase desc =
     (let cut = (case index_byte desc CHR ''('' of Some i \<Rightarrow> if 0 < i then trim_space (take i desc) else desc | None \<Rightarrow> desc);
          cleaned = map (\<lambda>c. if alnum_or_space c then c else CHR '' '') cut
      in case map to_lower (str_fields cleaned) of [] \<Rightarrow> [] | w # ws \<Rightarrow> w @ concat (map capitalise ws))"

text \<open>The state of the loop: the finished protocols, the current one and its counters.\<close>

record netstat_state =
  ns_stats :: "proto_counters_stat list"
  ns_proto :: string
  ns_current :: "(string \<times> int) list"

definition finish_proto :: "string list \<Rightarrow> netstat_state \<Rightarrow> proto_counters_stat list" where
  "finish_proto protocols st =
     (if ns_proto st \<noteq> [] \<and> ns_current st \<noteq> [] \<and> (protocols = [] \<or> StringsHas protocols (ns_proto st))
      then ns_stats st @ [\<lparr>pc_Protocol = ns_proto st, pc_Stats = ns_current st\<rparr>] else ns_stats st)"

definition netstat_counter :: "string \<Rightarrow> nat \<Rightarrow> string \<Rightarrow> (string \<times> int) option" where
  "netstat_counter proto depth rest = (case index_byte rest CHR '' '' of
     None \<Rightarrow> None
   | Some i \<Rightarrow> if i = 0 then None else (case parse_i64 (take i rest) of
       Ok v \<Rightarrow> (let desc = normaliseNetstatDesc (trim_space (drop (i + 1) rest));
                    key = (let k = aixProtoKey proto depth desc in if k = [] then descToCamelCase desc else k)
                in if key = [] then None else Some (key, v))
     | _ \<Rightarrow> None))"

definition netstat_line :: "string list \<Rightarrow> string \<Rightarrow> netstat_state \<Rightarrow> netstat_state" where
  "netstat_line protocols line st =
     (if line \<noteq> [] \<and> hd line \<noteq> CHR 0x09 then
        \<lparr>ns_stats = finish_proto protocols st, ns_proto = trim_suffix (trim_space line) '':'', ns_current = []\<rparr>
      else if ns_proto st = [] then st
      else let depth = length (takeWhile (\<lambda>c. c = CHR 0x09) line); rest = dropWhile (\<lambda>c. c = CHR 0x09) line in
        if depth = 0 \<or> rest = [] then st
        else (case netstat_counter (ns_proto st) depth rest of
            None \<Rightarrow> st
          | Some (key, v) \<Rightarrow> st\<lparr>ns_current := alist_put key
              (to_i64 ((case map_of (ns_current st) key of Some x \<Rightarrow> x | None \<Rightarrow> 0) + v)) (ns_current st)\<rparr>))"

definition parseNetstatS :: "string \<Rightarrow> string list \<Rightarrow> proto_counters_stat list" where
  "parseNetstatS output protocols =
     finish_proto protocols (fold (netstat_line protocols) (split_char nl output) \<lparr>ns_stats = [], ns_proto = [], ns_current = []\<rparr>)"

definition aix_ProtoCountersWithContext :: "host \<Rightarrow> string list \<Rightarrow> proto_counters_stat list result" where
  "aix_ProtoCountersWithContext h protocols = rbind (run_command h ''netstat'' [''-s'']) (\<lambda>out. Ok (parseNetstatS out protocols))"

section \<open>Connections\<close>

text \<open>The constants of AIX.\<close>

definition aix_AF_INET6 :: u32 where "aix_AF_INET6 = 24"

text \<open>\<^verbatim>\<open>(.*)\.(\d+)$\<close> on a word: the last dot is followed by digits only.\<close>

definition portMatch :: "string \<Rightarrow> (string \<times> string) option" where
  "portMatch l = (case last_index_byte l CHR ''.'' of None \<Rightarrow> None
     | Some i \<Rightarrow> if decimal (drop (i + 1) l) then Some (take i l, drop (i + 1) l) else None)"

definition parseAddr :: "string \<Rightarrow> u32 \<Rightarrow> addr result" where
  "parseAddr l family = (case portMatch l of
     None \<Rightarrow> Err (ErrMsg (''wrong addr, '' @ l))
   | Some (hst, port) \<Rightarrow>
       rbind (if hst = ''*'' then
           (if family = AF_INET then Ok ''0.0.0.0'' else if family = aix_AF_INET6 then Ok ''::''
            else Err (ErrMsg (''unknown family, '' @ fmt_nat (unat family)))) else Ok hst) (\<lambda>ip.
       rbind (parse_i32 port) (\<lambda>lport. Ok \<lparr>a_IP = ip, a_Port = word_of_int lport\<rparr>)))"

text \<open>The error of the local address is overwritten when there is a remote one; on an error the address is empty.\<close>

definition addr_or_empty :: "addr result \<Rightarrow> addr" where
  "addr_or_empty r = (case r of Ok a \<Rightarrow> a | _ \<Rightarrow> no_addr)"

definition parseNetstatAddr :: "string \<Rightarrow> string \<Rightarrow> u32 \<Rightarrow> (addr \<times> addr) result" where
  "parseNetstatAddr local remote family =
     (let laddr = parseAddr local family in
      if remote \<noteq> ''*.*'' then rbind (parseAddr remote family) (\<lambda>raddr. Ok (addr_or_empty laddr, raddr))
      else rbind laddr (\<lambda>l. Ok (l, no_addr)))"

definition proto_types :: "(string \<times> u32 \<times> u32) list" where
  "proto_types = [(''tcp'', SOCK_STREAM, AF_INET), (''tcp4'', SOCK_STREAM, AF_INET), (''udp'', SOCK_DGRAM, AF_INET),
     (''udp4'', SOCK_DGRAM, AF_INET), (''tcp6'', SOCK_STREAM, aix_AF_INET6), (''udp6'', SOCK_DGRAM, aix_AF_INET6)]"

definition parseNetstatNetLine :: "string \<Rightarrow> connection_stat result" where
  "parseNetstatNetLine line =
     (let f = str_fields line in
      if length f < 5 then Err (ErrMsg (''wrong line,'' @ line))
      else rbind (idx f 0) (\<lambda>f0. case map_of proto_types f0 of
        None \<Rightarrow> Err (ErrMsg (''unknown type, '' @ f0))
      | Some (netType, netFamily) \<Rightarrow> rbind (idx f 3) (\<lambda>f3. rbind (idx f 4) (\<lambda>f4. case parseNetstatAddr f3 f4 netFamily of
          Ok (laddr, raddr) \<Rightarrow> rbind (if length f = 6 then idx f 5 else Ok []) (\<lambda>status.
            Ok \<lparr>cs_Fd = 0, cs_Family = netFamily, cs_Type = netType, cs_Laddr = laddr, cs_Raddr = raddr,
              cs_Status = status, cs_Uids = [], cs_Pid = 0\<rparr>)
        | Err _ \<Rightarrow> Err (ErrMsg (''failed to parse netaddr, '' @ f3 @ '' '' @ f4))
        | Panic \<Rightarrow> Panic))))"

definition parseNetstatUnixLine :: "string list \<Rightarrow> connection_stat result" where
  "parseNetstatUnixLine f =
     (if length f < 8 then Err (ErrMsg (''wrong number of fields: expected >=8 got '' @ fmt_nat (length f)))
      else rbind (idx f 1) (\<lambda>f1. case map_of [(''dgram'', SOCK_DGRAM), (''stream'', SOCK_STREAM)] f1 of
        None \<Rightarrow> Err (ErrMsg (''unknown type: '' @ f1))
      | Some netType \<Rightarrow> rbind (if length f = 9 then idx f 8 else Ok []) (\<lambda>addr.
          Ok \<lparr>cs_Fd = 0, cs_Family = AF_UNIX, cs_Type = netType, cs_Laddr = \<lparr>a_IP = addr, a_Port = 0\<rparr>,
            cs_Raddr = no_addr, cs_Status = ''NONE'', cs_Uids = [], cs_Pid = 0\<rparr>)))"

definition hasCorrectInetProto :: "string \<Rightarrow> string \<Rightarrow> bool" where
  "hasCorrectInetProto kind proto =
     (if kind = ''all'' \<or> kind = ''inet'' then True
      else if kind = ''inet4'' then \<not> has_suffix proto ''6''
      else if kind = ''inet6'' then has_suffix proto ''6''
      else if kind = ''tcp'' then proto \<in> {''tcp'', ''tcp4'', ''tcp6''}
      else if kind = ''tcp4'' then proto \<in> {''tcp'', ''tcp4''}
      else if kind = ''tcp6'' then proto = ''tcp6''
      else if kind = ''udp'' then proto \<in> {''udp'', ''udp4'', ''udp6''}
      else if kind = ''udp4'' then proto \<in> {''udp'', ''udp4''}
      else if kind = ''udp6'' then proto = ''udp6''
      else False)"

definition netstatA_line :: "string \<Rightarrow> string \<Rightarrow> connection_stat list \<Rightarrow> connection_stat list result" where
  "netstatA_line kind line ret =
     (case str_fields line of
        [] \<Rightarrow> Ok ret
      | f0 # fs \<Rightarrow>
          if has_prefix f0 ''f1'' then
            (if fs = [] then Ok ret
             else rbind (wrap_err (''failed to parse Unix Address ('' @ line @ ''): '') (parseNetstatUnixLine (f0 # fs))) (\<lambda>c. Ok (ret @ [c])))
          else if has_prefix f0 ''tcp'' \<or> has_prefix f0 ''udp'' then
            (if \<not> hasCorrectInetProto kind f0 then Ok ret
             else rbind (idx (f0 # fs) 3) (\<lambda>f3. if f3 = ''*.*'' then Ok ret
               else rbind (wrap_err (''failed to parse Inet Address ('' @ line @ ''): '') (parseNetstatNetLine line)) (\<lambda>c. Ok (ret @ [c]))))
          else Ok ret)"

definition parseNetstatA :: "string \<Rightarrow> string \<Rightarrow> connection_stat list result" where
  "parseNetstatA output kind = rfold (netstatA_line kind) (split_char nl output) []"

definition inet_kinds :: "string list" where
  "inet_kinds = [''inet'', ''inet4'', ''inet6'', ''tcp'', ''tcp4'', ''tcp6'', ''udp'', ''udp4'', ''udp6'']"

text \<open>The switch looks at the kind in lower case, but the kind itself is passed on as it was given.\<close>

definition aix_ConnectionsWithContext :: "host \<Rightarrow> string \<Rightarrow> connection_stat list result" where
  "aix_ConnectionsWithContext h kind =
     (let k = to_lower kind;
          (args, kind') = (if k = ''all'' then ([''-na''], kind) else if k \<in> set inet_kinds then ([''-na'', ''-finet''], kind)
            else if k = ''unix'' then ([''-na'', ''-funix''], kind) else ([''-na''], ''all''))
      in rbind (run_command h ''netstat'' args) (\<lambda>out. parseNetstatA out kind'))"

record netstatAanEntry =
  ne_sockAddr :: string
  ne_conn :: connection_stat
  ne_proto :: string

text \<open>Every index into the fields panics out of range, as in the code; the guards on the number of fields keep them in range.\<close>

definition netstatAan_line :: "string \<Rightarrow> string \<Rightarrow> netstatAanEntry list \<Rightarrow> netstatAanEntry list result" where
  "netstatAan_line kind line ret =
     (let f = str_fields line in
      if length f < 2 then Ok ret
      else rbind (idx f 1) (\<lambda>f1.
        if has_prefix f1 ''tcp'' \<or> has_prefix f1 ''udp'' then
          (if \<not> hasCorrectInetProto kind f1 then Ok ret
           else if length f < 6 then Ok ret
           else rbind (idx f 4) (\<lambda>f4. if f4 = ''*.*'' then Ok ret
             else rbind (slice_from f 1) (\<lambda>rest.
               rbind (wrap_err (''failed to parse Inet Address ('' @ line @ ''): '') (parseNetstatNetLine (join '' '' rest))) (\<lambda>c.
               rbind (idx f 0) (\<lambda>f0. Ok (ret @ [\<lparr>ne_sockAddr = f0, ne_conn = c, ne_proto = f1\<rparr>]))))))
        else if f1 = ''dgram'' \<or> f1 = ''stream'' then
          (if kind \<noteq> ''all'' \<and> kind \<noteq> ''unix'' then Ok ret
           else rbind (wrap_err (''failed to parse Unix Address ('' @ line @ ''): '') (parseNetstatUnixLine f)) (\<lambda>c.
             rbind (idx f 0) (\<lambda>f0. Ok (ret @ [\<lparr>ne_sockAddr = f0, ne_conn = c, ne_proto = ''unix''\<rparr>]))))
        else Ok ret))"

definition parseNetstatAan :: "string \<Rightarrow> string \<Rightarrow> netstatAanEntry list result" where
  "parseNetstatAan output kind = rfold (netstatAan_line kind) (split_char nl output) []"

text \<open>\<^verbatim>\<open>proc+ess\s+(\d+)\s+\(\<close> at the start of a string, and its first match.\<close>

definition rmsock_at :: "string \<Rightarrow> string option" where
  "rmsock_at s =
     (let t = drop 3 s; t2 = dropWhile (\<lambda>c. c = CHR ''c'') t; t3 = drop 3 t2; t4 = dropWhile re_space t3;
          ds = takeWhile is_digit t4; t5 = dropWhile is_digit t4; t6 = dropWhile re_space t5
      in if prefix ''pro'' s \<and> t2 \<noteq> t \<and> prefix ''ess'' t2 \<and> t4 \<noteq> t3 \<and> ds \<noteq> [] \<and> t6 \<noteq> t5 \<and> prefix ''('' t6
         then Some ds else None)"

fun rmsockPidRe :: "string \<Rightarrow> string option" where
  "rmsockPidRe [] = None"
| "rmsockPidRe (c # s) = (case rmsock_at (c # s) of Some ds \<Rightarrow> Some ds | None \<Rightarrow> rmsockPidRe s)"

definition parseAIXRmsockPid :: "string \<Rightarrow> int" where
  "parseAIXRmsockPid output = (case rmsockPidRe output of None \<Rightarrow> 0
     | Some ds \<Rightarrow> (case parse_i32 ds of Ok pid \<Rightarrow> pid | _ \<Rightarrow> 0))"

text \<open>The output is read whatever the exit status.\<close>

definition resolveAIXSockToPid :: "host \<Rightarrow> string \<Rightarrow> string \<Rightarrow> int" where
  "resolveAIXSockToPid h sockAddr protocol =
     (if protocol \<noteq> ''tcp'' \<and> protocol \<noteq> ''udp'' then 0
      else parseAIXRmsockPid (fst (h_command h ''rmsock'' [sockAddr, if protocol = ''tcp'' then ''tcpcb'' else ''inpcb''])))"

definition entry_pid :: "host \<Rightarrow> netstatAanEntry \<Rightarrow> int" where
  "entry_pid h e = (if ne_proto e = ''unix'' then 0
     else resolveAIXSockToPid h (ne_sockAddr e) (if has_prefix (ne_proto e) ''tcp'' then ''tcp'' else ''udp''))"

fun conns_loop :: "host \<Rightarrow> int \<Rightarrow> int \<Rightarrow> netstatAanEntry list \<Rightarrow> connection_stat list \<Rightarrow> connection_stat list" where
  "conns_loop h pid maxConn [] conns = conns"
| "conns_loop h pid maxConn (e # es) conns =
     (if 0 < maxConn \<and> maxConn \<le> int (length conns) then conns
      else let connPid = entry_pid h e in
        if 0 < pid \<and> connPid \<noteq> pid then conns_loop h pid maxConn es conns
        else conns_loop h pid maxConn es (conns @ [(ne_conn e)\<lparr>cs_Pid := connPid\<rparr>]))"

definition net_kind_name :: "string \<Rightarrow> string" where
  "net_kind_name kind = (let k = to_lower kind in if k \<in> set (''all'' # ''unix'' # inet_kinds) then k else ''all'')"

definition netstatAan_args :: "string \<Rightarrow> string list" where
  "netstatAan_args k = ''-Aan'' # (if k \<in> set inet_kinds then [''-finet''] else if k = ''unix'' then [''-funix''] else [])"

definition aix_connectionsPidMaxWithoutUidsWithContext :: "host \<Rightarrow> string \<Rightarrow> int \<Rightarrow> int \<Rightarrow> connection_stat list result" where
  "aix_connectionsPidMaxWithoutUidsWithContext h kind pid maxConn =
     (let k = net_kind_name kind
      in rbind (run_command h ''netstat'' (netstatAan_args k)) (\<lambda>out. rbind (parseNetstatAan out k) (\<lambda>entries.
           Ok (conns_loop h pid maxConn entries []))))"

definition aix_ConnectionsPidMaxWithContext :: "host \<Rightarrow> string \<Rightarrow> int \<Rightarrow> int \<Rightarrow> connection_stat list result" where
  "aix_ConnectionsPidMaxWithContext h kind pid maxConn = aix_connectionsPidMaxWithoutUidsWithContext h kind pid maxConn"

definition aix_ConnectionsPidWithContext :: "host \<Rightarrow> string \<Rightarrow> int \<Rightarrow> connection_stat list result" where
  "aix_ConnectionsPidWithContext h kind pid = aix_ConnectionsPidMaxWithContext h kind pid 0"

definition aix_ConnectionsMaxWithContext :: "host \<Rightarrow> string \<Rightarrow> int \<Rightarrow> connection_stat list result" where
  "aix_ConnectionsMaxWithContext h kind maxConn = aix_ConnectionsPidMaxWithContext h kind 0 maxConn"

section \<open>Keys of the protocol counters\<close>

lemma fields_from_chars:
  assumes "\<And>c. c \<in> set s \<Longrightarrow> (of_char c :: nat) < 128" and "w \<in> set (fields_from cur s)"
    and "\<And>c. c \<in> set cur \<Longrightarrow> \<not> is_ascii_space c"
  shows "w \<noteq> [] \<and> (\<forall>c \<in> set w. (c \<in> set cur \<or> c \<in> set s) \<and> \<not> is_ascii_space c)"
  using assms
proof (induction s arbitrary: cur)
  case Nil
  then show ?case by (auto simp: fields_from_Nil split: if_splits)
next
  case (Cons c s)
  show ?case
  proof (cases "is_ascii_space c")
    case True
    with Cons.prems(2) consider "cur \<noteq> []" "w = rev cur" | "w \<in> set (fields_from [] s)"
      by (auto simp: fields_from_space split: if_splits)
    then show ?thesis
    proof cases
      case 1
      with Cons.prems(3) show ?thesis by auto
    next
      case 2
      with Cons.IH [of "[]"] Cons.prems(1) show ?thesis by auto
    qed
  next
    case False
    with Cons.prems(1,2) have "w \<in> set (fields_from (c # cur) s)" by (simp add: fields_from_char)
    with Cons.IH [of "c # cur"] Cons.prems(1,3) False show ?thesis by auto
  qed
qed

definition upper_letter :: "char \<Rightarrow> bool" where
  "upper_letter c \<longleftrightarrow> 65 \<le> (of_char c :: nat) \<and> (of_char c :: nat) \<le> 90"

lemma lower_not_upper: "\<not> upper_letter (lower_char c)"
  by (auto simp: lower_char_def upper_letter_def Let_def)

lemma camel_case_start: "descToCamelCase desc = [] \<or> \<not> upper_letter (hd (descToCamelCase desc))"
proof -
  define cut where "cut = (case index_byte desc CHR ''('' of Some i \<Rightarrow> if 0 < i then trim_space (take i desc) else desc | None \<Rightarrow> desc)"
  define cleaned where "cleaned = map (\<lambda>c. if alnum_or_space c then c else CHR '' '') cut"
  have "(of_char c :: nat) < 128" if "c \<in> set cleaned" for c
    using that by (auto simp: cleaned_def alnum_or_space_def Let_def)
  then have w: "w \<noteq> []" if "w \<in> set (str_fields cleaned)" for w
    using that fields_from_chars [of cleaned w "[]"] by (simp add: str_fields_def)
  show ?thesis
  proof (cases "str_fields cleaned")
    case Nil
    then show ?thesis by (simp add: descToCamelCase_def Let_def cut_def cleaned_def)
  next
    case (Cons v vs)
    with w [of v] obtain c t where "v = c # t" by (cases v) auto
    with Cons show ?thesis
      by (simp add: descToCamelCase_def Let_def cut_def cleaned_def to_lower_def lower_not_upper)
  qed
qed

definition upper_start :: "string \<Rightarrow> bool" where
  "upper_start s \<longleftrightarrow> s = [] \<or> upper_letter (hd s)"

lemma upper_start_simps [simp]: "upper_start []" "upper_start (c # s) \<longleftrightarrow> upper_letter c"
  by (simp_all add: upper_start_def)

lemma proto_key_start: "upper_start (aixProtoKey proto depth desc)"
proof -
  have "upper_start (aixTCPKey depth desc)" "upper_start (aixUDPKey desc)" "upper_start (aixIPKey depth desc)" "upper_start (aixIPv6Key depth desc)"
    by (simp_all only: aixTCPKey_def aixUDPKey_def aixIPKey_def aixIPv6Key_def if_bool_eq_conj if_distrib [of upper_start])
      (simp_all add: upper_letter_def)
  then show ?thesis by (simp add: aixProtoKey_def)
qed

text \<open>C20: the two families of keys never collide: no counter that is specific to AIX is added to a counter of the common
  names, whatever its description.\<close>

theorem native_keys_differ:
  assumes "aixProtoKey proto depth desc \<noteq> []"
  shows "descToCamelCase desc' \<noteq> aixProtoKey proto depth desc"
  using camel_case_start [of desc'] proto_key_start [of proto depth desc] assms unfolding upper_start_def by metis

theorem native_keys_differ_witness:
  "aixProtoKey ''tcp'' 1 ''packets sent'' = ''OutSegs'' \<and> descToCamelCase ''out segs'' \<noteq> ''OutSegs''"
  using native_keys_differ [of "''tcp''" 1 "''packets sent''" "''out segs''"] by (simp add: aixProtoKey_def aixTCPKey_def)

section \<open>Counters of netstat -s\<close>

















section \<open>Connections of a process\<close>

lemma parseAddr_not_Panic [simp]: "parseAddr l family \<noteq> Panic"
  by (auto simp: parseAddr_def outcome_iff split: option.splits)

lemma idx_Panic_iff: "idx xs i = Panic \<longleftrightarrow> length xs \<le> i"
  by (auto simp: idx_def)

lemma parseNetstat_not_Panic [simp]:
  "parseNetstatNetLine line \<noteq> Panic" "parseNetstatUnixLine f \<noteq> Panic"
  by (auto simp: parseNetstatNetLine_def parseNetstatUnixLine_def parseNetstatAddr_def Let_def outcome_iff idx_Panic_iff
      split: option.splits result.splits if_splits)

lemma parseNetstatAan_not_Panic: "parseNetstatAan out kind \<noteq> Panic"
proof -
  have "netstatAan_line kind line ret \<noteq> Panic" for line ret
    by (auto simp: netstatAan_line_def Let_def outcome_iff idx_Panic_iff wrap_err_def slice_from_def split: result.splits)
  then show ?thesis unfolding parseNetstatAan_def by (rule rfold_no_Panic)
qed

definition resolved :: "host \<Rightarrow> netstatAanEntry \<Rightarrow> connection_stat" where
  "resolved h e = (ne_conn e)\<lparr>cs_Pid := entry_pid h e\<rparr>"

lemma conns_loop_filter:
  assumes "maxConn \<le> 0 \<or> int (length conns) \<le> maxConn"
  shows "conns_loop h pid maxConn es conns = conns @
    (let found = filter (\<lambda>c. pid \<le> 0 \<or> cs_Pid c = pid) (map (resolved h) es)
     in if 0 < maxConn then take (nat maxConn - length conns) found else found)"
  using assms
proof (induction es arbitrary: conns)
  case (Cons e es)
  consider "0 < maxConn" "maxConn = int (length conns)" | "\<not> (0 < maxConn \<and> maxConn \<le> int (length conns))"
    using Cons.prems by linarith
  then show ?case
  proof cases
    case 1
    then show ?thesis by (simp add: Let_def)
  next
    case 2
    then have "maxConn \<le> 0 \<or> int (length (conns @ [resolved h e])) \<le> maxConn" by auto
    note IH = Cons.IH [OF this] and IH' = Cons.IH [OF Cons.prems]
    have "0 < maxConn \<Longrightarrow> nat maxConn - length conns = Suc (nat maxConn - Suc (length conns))" using 2 by linarith
    with 2 IH IH' show ?thesis by (auto simp: Let_def resolved_def)
  qed
qed simp

text \<open>C18: listing the connections of a process never panics, and returns exactly the connections that \<^verbatim>\<open>rmsock\<close> attributes to it,
  in the order of \<^verbatim>\<open>netstat\<close>, cut at the maximum when one is given; without a pid, all of them.\<close>

theorem aix_connections_of_pid:
  "aix_connectionsPidMaxWithoutUidsWithContext h kind pid maxConn \<noteq> Panic \<and>
   aix_connectionsPidMaxWithoutUidsWithContext h kind pid maxConn =
     rbind (run_command h ''netstat'' (netstatAan_args (net_kind_name kind))) (\<lambda>out.
       rbind (parseNetstatAan out (net_kind_name kind)) (\<lambda>entries.
         let found = filter (\<lambda>c. pid \<le> 0 \<or> cs_Pid c = pid) (map (resolved h) entries)
         in Ok (if 0 < maxConn then take (nat maxConn) found else found)))"
proof
  have "run_command h n as \<noteq> Panic" for n as by (simp add: run_command_def split: prod.splits option.splits)
  then show "aix_connectionsPidMaxWithoutUidsWithContext h kind pid maxConn \<noteq> Panic"
    by (auto simp: aix_connectionsPidMaxWithoutUidsWithContext_def outcome_iff parseNetstatAan_not_Panic Let_def)
  have "maxConn \<le> 0 \<or> int (length ([] :: connection_stat list)) \<le> maxConn" by auto
  note conns_loop_filter [OF this]
  then show "aix_connectionsPidMaxWithoutUidsWithContext h kind pid maxConn =
     rbind (run_command h ''netstat'' (netstatAan_args (net_kind_name kind))) (\<lambda>out.
       rbind (parseNetstatAan out (net_kind_name kind)) (\<lambda>entries.
         let found = filter (\<lambda>c. pid \<le> 0 \<or> cs_Pid c = pid) (map (resolved h) entries)
         in Ok (if 0 < maxConn then take (nat maxConn) found else found)))"
    by (cases "0 < maxConn") (simp_all add: aix_connectionsPidMaxWithoutUidsWithContext_def Let_def)
qed

section \<open>Rows of netstat are read back\<close>

text \<open>A row of \<^verbatim>\<open>netstat -Aan\<close>: the socket, the protocol, the queues, the addresses and the state.\<close>

record inet_row =
  ir_sock :: string
  ir_proto :: string
  ir_recvq :: nat
  ir_sendq :: nat
  ir_local :: "string \<times> nat"
  ir_remote :: "(string \<times> nat) option"
  ir_state :: "string option"

definition addr_text :: "string \<times> nat \<Rightarrow> string" where
  "addr_text = (\<lambda>(ip, port). ip @ ''.'' @ fmt_nat port)"

definition row_words :: "inet_row \<Rightarrow> string list" where
  "row_words r = [ir_sock r, ir_proto r, fmt_nat (ir_recvq r), fmt_nat (ir_sendq r), addr_text (ir_local r),
     (case ir_remote r of Some a \<Rightarrow> addr_text a | None \<Rightarrow> ''*.*'')] @ (case ir_state r of Some s \<Rightarrow> [s] | None \<Rightarrow> [])"

definition addr_ok :: "string \<times> nat \<Rightarrow> bool" where
  "addr_ok = (\<lambda>(ip, port). ip \<noteq> [] \<and> plain ip \<and> port < 65536)"

definition row_ok :: "inet_row \<Rightarrow> bool" where
  "row_ok r \<longleftrightarrow> ir_sock r \<noteq> [] \<and> plain (ir_sock r) \<and> map_of proto_types (ir_proto r) \<noteq> None \<and> addr_ok (ir_local r) \<and>
     pred_option addr_ok (ir_remote r) \<and> pred_option (\<lambda>s. s \<noteq> [] \<and> plain s) (ir_state r)"

definition addr_meaning :: "u32 \<Rightarrow> string \<times> nat \<Rightarrow> addr" where
  "addr_meaning family = (\<lambda>(ip, port). \<lparr>a_IP = (if ip = ''*'' then if family = AF_INET then ''0.0.0.0'' else ''::'' else ip),
     a_Port = word_of_nat port\<rparr>)"

definition row_meaning :: "inet_row \<Rightarrow> netstatAanEntry" where
  "row_meaning r = (case the (map_of proto_types (ir_proto r)) of (netType, family) \<Rightarrow>
     \<lparr>ne_sockAddr = ir_sock r, ne_conn = \<lparr>cs_Fd = 0, cs_Family = family, cs_Type = netType,
       cs_Laddr = addr_meaning family (ir_local r),
       cs_Raddr = (case ir_remote r of Some a \<Rightarrow> addr_meaning family a | None \<Rightarrow> no_addr),
       cs_Status = (case ir_state r of Some s \<Rightarrow> s | None \<Rightarrow> []), cs_Uids = [], cs_Pid = 0\<rparr>,
     ne_proto = ir_proto r\<rparr>)"

lemma dot_not_digit: "CHR ''.'' \<notin> set (fmt_nat n)"
  using decimal_chars [OF decimal_fmt_nat, of "CHR ''.''" n] by (auto simp: is_digit_def)

lemma parseAddr_text:
  assumes "addr_ok a" and "family = AF_INET \<or> family = aix_AF_INET6"
  shows "parseAddr (addr_text a) family = Ok (addr_meaning family a)"
proof -
  obtain ip port where a: "a = (ip, port)" by (cases a)
  have "portMatch (ip @ CHR ''.'' # fmt_nat port) = Some (ip, fmt_nat port)"
    by (simp add: portMatch_def last_index_byte_append dot_not_digit)
  moreover have "parse_i32 (fmt_nat port) = Ok (int port)"
    using assms(1) parse_int_fmt_nat [of port 32] by (simp add: a addr_ok_def parse_i32_def)
  ultimately show ?thesis
    using assms(2) by (auto simp: parseAddr_def addr_text_def addr_meaning_def a)
qed

lemma addr_text_word: "addr_ok a \<Longrightarrow> plain (addr_text a) \<and> addr_text a \<noteq> [] \<and> addr_text a \<noteq> ''*.*''"
proof -
  assume "addr_ok a"
  moreover obtain ip port where a: "a = (ip, port)" by (cases a)
  moreover have "last (addr_text a) \<noteq> CHR ''*''"
    using decimal_chars [OF decimal_fmt_nat, of "last (fmt_nat port)" port] by (auto simp: a addr_text_def is_digit_def)
  then have "addr_text a \<noteq> ''*.*''" by auto
  ultimately show ?thesis by (auto simp: addr_ok_def addr_text_def is_ascii_space_def)
qed

lemma proto_types_cases:
  assumes "map_of proto_types p = Some (netType, family)"
  shows "p \<noteq> [] \<and> plain p \<and> (has_prefix p ''tcp'' \<or> has_prefix p ''udp'') \<and> (family = AF_INET \<or> family = aix_AF_INET6)"
  using map_of_SomeD [OF assms] by (auto simp: proto_types_def has_prefix_def is_ascii_space_def)

lemma row_words_plain:
  assumes "row_ok r" and "w \<in> set (row_words r)"
  shows "plain w \<and> w \<noteq> []"
proof -
  obtain t fam where "map_of proto_types (ir_proto r) = Some (t, fam)" using assms(1) by (auto simp: row_ok_def)
  from proto_types_cases [OF this] assms show ?thesis
    by (cases "ir_state r"; cases "ir_remote r") (auto simp: row_words_def row_ok_def addr_text_word is_ascii_space_def)
qed

lemma parseNetstatNetLine_row:
  assumes "row_ok r"
  shows "parseNetstatNetLine (join '' '' (tl (row_words r))) = Ok (ne_conn (row_meaning r))"
proof -
  obtain t fam where p: "map_of proto_types (ir_proto r) = Some (t, fam)" using assms by (auto simp: row_ok_def)
  note fam = proto_types_cases [OF p, THEN conjunct2, THEN conjunct2, THEN conjunct2]
  have w: "str_fields (join '' '' (tl (row_words r))) = tl (row_words r)"
    by (rule fields_join) (metis assms list.set_sel(2) row_words_plain tl_Nil empty_iff list.set(1))
  have "parseNetstatAddr (addr_text (ir_local r)) (case ir_remote r of Some a \<Rightarrow> addr_text a | None \<Rightarrow> ''*.*'') fam =
      Ok (addr_meaning fam (ir_local r), case ir_remote r of Some a \<Rightarrow> addr_meaning fam a | None \<Rightarrow> no_addr)"
    using assms fam
    by (auto simp: parseNetstatAddr_def row_ok_def parseAddr_text addr_or_empty_def addr_text_word Let_def split: option.splits)
  then show ?thesis
    unfolding parseNetstatNetLine_def w
    by (auto simp: row_words_def p row_meaning_def eval_nat_numeral split: option.splits)
qed

text \<open>Every table of internet sockets that \<^verbatim>\<open>netstat -Aan\<close> prints is read back: the sockets of the requested kind, in order,
  with their family, type, addresses and state; an asterisk stands for the unspecified address of the family.\<close>

theorem netstat_Aan_roundtrip:
  assumes "list_all row_ok rows"
  shows "parseNetstatAan (unlines (map (\<lambda>r. join '' '' (row_words r)) rows)) kind =
    Ok (map row_meaning (filter (\<lambda>r. hasCorrectInetProto kind (ir_proto r)) rows))"
proof -
  have line: "netstatAan_line kind (join '' '' (row_words r)) ret =
      Ok (ret @ (if hasCorrectInetProto kind (ir_proto r) then [row_meaning r] else []))" if ok: "row_ok r" for r ret
  proof -
    obtain t fam where p: "map_of proto_types (ir_proto r) = Some (t, fam)" using ok by (auto simp: row_ok_def)
    have w: "str_fields (join '' '' (row_words r)) = row_words r"
      by (rule fields_join) (use that row_words_plain in blast)
    obtain fs where ws: "row_words r = ir_sock r # ir_proto r # fs" by (simp add: row_words_def)
    have w2: "str_fields (join '' '' (row_words r)) = ir_sock r # ir_proto r # fs" using w by (rule trans) (rule ws)
    have n: "6 \<le> length (row_words r)" "row_words r ! 4 = addr_text (ir_local r)"
      by (simp_all add: row_words_def eval_nat_numeral)
    have m: "\<lparr>ne_sockAddr = ir_sock r, ne_conn = ne_conn (row_meaning r), ne_proto = ir_proto r\<rparr> = row_meaning r"
      by (simp add: row_meaning_def split: prod.splits)
    have "addr_text (ir_local r) \<noteq> ''*.*''" using that addr_text_word by (auto simp: row_ok_def)
    then show ?thesis
      using proto_types_cases [OF p] n [unfolded ws] parseNetstatNetLine_row [OF ok, unfolded ws list.sel]
      unfolding netstatAan_line_def w2 by (auto simp: m wrap_err_def Let_def slice_from_def)
  qed
  have "rfold (netstatAan_line kind) (map (\<lambda>r. join '' '' (row_words r)) rows) ret =
      Ok (ret @ map row_meaning (filter (\<lambda>r. hasCorrectInetProto kind (ir_proto r)) rows))" for ret
    using assms by (induction rows arbitrary: ret) (simp_all add: line)
  moreover have "no_nl (map (\<lambda>r. join '' '' (row_words r)) rows)"
    using assms set_join [of "'' ''"] plain_no_space [of _ nl] row_words_plain
    by (fastforce simp: no_nl_def list_all_iff)
  ultimately show ?thesis
    by (simp add: parseNetstatAan_def split_char_unlines rfold_append netstatAan_line_def)
qed

definition ssh_row :: inet_row where
  "ssh_row = \<lparr>ir_sock = ''f1000f00002d8bc0'', ir_proto = ''tcp4'', ir_recvq = 0, ir_sendq = 0, ir_local = (''*'', 22),
     ir_remote = None, ir_state = Some ''LISTEN''\<rparr>"

theorem netstat_Aan_roundtrip_witness:
  "parseNetstatAan (unlines (map (\<lambda>r. join '' '' (row_words r)) [ssh_row, ssh_row\<lparr>ir_proto := ''udp6''\<rparr>])) ''tcp'' =
    Ok [row_meaning ssh_row] \<and> a_IP (cs_Laddr (ne_conn (row_meaning ssh_row))) = ''0.0.0.0''"
proof -
  have "list_all row_ok [ssh_row, ssh_row\<lparr>ir_proto := ''udp6''\<rparr>]"
    by (simp add: row_ok_def ssh_row_def addr_ok_def proto_types_def is_ascii_space_def)
  from netstat_Aan_roundtrip [OF this, of "''tcp''"] show ?thesis
    by (simp add: ssh_row_def hasCorrectInetProto_def) (simp add: row_meaning_def addr_meaning_def proto_types_def)
qed

section \<open>Defects\<close>

text \<open>A kind in upper case selects no socket, a short row panics, and a local address that cannot be parsed is dropped
  silently.\<close>

lemma upper_kind_selects_nothing: "\<not> hasCorrectInetProto ''TCP'' proto"
  by (simp add: hasCorrectInetProto_def)

lemma netstatA_short_row: "netstatA_line ''all'' ''tcp 0 0'' ret = Panic"
proof -
  have "str_fields (join '' '' [''tcp'', ''0'', ''0'']) = [''tcp'', ''0'', ''0'']"
    by (rule fields_join) (auto simp: is_ascii_space_def)
  then show ?thesis by (simp add: netstatA_line_def has_prefix_def hasCorrectInetProto_def)
qed

lemma parseNetstatAddr_bad_local:
  assumes "parseAddr local family = Err e" and "parseAddr remote family = Ok a" and "remote \<noteq> ''*.*''"
  shows "parseNetstatAddr local remote family = Ok (no_addr, a)"
  using assms by (simp add: parseNetstatAddr_def addr_or_empty_def)

end
