(* ===== verification/Process_Aix_Api.thy ===== *)
theory Process_Aix_Api
  imports Process_Aix Net_Aix
begin

text \<open>
  The rest of \<^verbatim>\<open>process_aix.go\<close>: listing processes, children and threads, memory maps from \<^verbatim>\<open>procmap\<close>, resource limits from \<^verbatim>\<open>lsuser\<close>,
  open files from \<^verbatim>\<open>procfiles\<close>, connections and environment; and what \<^verbatim>\<open>process.go\<close> does over it. \<^verbatim>\<open>PidExists\<close> is the one of
  \<^verbatim>\<open>process_posix.go\<close>.
\<close>

section \<open>Listing\<close>

definition add_pid :: "string \<Rightarrow> int list \<Rightarrow> int list" where
  "add_pid fname ret = (case parse_i32 fname of Ok pid \<Rightarrow> if pid \<in> set ret then ret else ret @ [pid] | _ \<Rightarrow> ret)"

definition aix_readPidsFromDir :: "host \<Rightarrow> string \<Rightarrow> int list result" where
  "aix_readPidsFromDir h path = rbind (of_sum (h_readdir h path)) (\<lambda>fnames. Ok (fold add_pid fnames []))"

definition aix_pidsWithContext :: "host \<Rightarrow> int list result" where
  "aix_pidsWithContext h = aix_readPidsFromDir h (HostProcWithContext h [])"

definition aix_PidsWithContext :: "host \<Rightarrow> int list result" where
  "aix_PidsWithContext h = rbind (aix_pidsWithContext h) (\<lambda>pids. Ok (sort pids))"

text \<open>The number of processes that package \<^verbatim>\<open>host\<close> reports.\<close>

definition aix_numProcs :: "host \<Rightarrow> u64 result" where
  "aix_numProcs h = rbind (aix_PidsWithContext h) (\<lambda>pids. Ok (word_of_nat (length pids)))"

text \<open>The start time is kept in the object, 0 after an error.\<close>

definition aix_CreateTimeWithContext :: "aix_env \<Rightarrow> process \<Rightarrow> ((int \<times> gerr option) \<times> process) act" where
  "aix_CreateTimeWithContext env p =
     (if p_createTime p \<noteq> 0 then aret (Ok ((p_createTime p, None), p))
      else (\<lambda>st. case aix_createTimeWithContext env p st of
        None \<Rightarrow> None
      | Some (Ok t, st') \<Rightarrow> Some (Ok ((t, None), p\<lparr>p_createTime := t\<rparr>), st')
      | Some (Err e, st') \<Rightarrow> Some (Ok ((0, Some e), p\<lparr>p_createTime := 0\<rparr>), st')
      | Some (Panic, st') \<Rightarrow> Some (Panic, st')))"

definition aix_NewProcessWithContext :: "aix_env \<Rightarrow> int \<Rightarrow> (process \<times> gerr option) act" where
  "aix_NewProcessWithContext env pid =
     (let p = new_process pid in
      case PidExistsWithContext (ae_proc env) pid of
        Err e \<Rightarrow> aret (Ok (p, Some e))
      | Panic \<Rightarrow> aret Panic
      | Ok False \<Rightarrow> aret (Ok (p, Some ErrProcessNotRunning))
      | Ok True \<Rightarrow> abind (aix_CreateTimeWithContext env p) (\<lambda>(_, p'). aret (Ok (p', None))))"

fun aix_new_processes :: "aix_env \<Rightarrow> int list \<Rightarrow> process list \<Rightarrow> process list act" where
  "aix_new_processes env [] out = aret (Ok out)"
| "aix_new_processes env (pid # pids) out = abind (aix_NewProcessWithContext env pid) (\<lambda>(p, err).
     aix_new_processes env pids (if err = None then out @ [p] else out))"

definition aix_ProcessesWithContext :: "aix_env \<Rightarrow> process list act" where
  "aix_ProcessesWithContext env = abind (aret (aix_PidsWithContext (ae_host env))) (\<lambda>pids. aix_new_processes env pids [])"

definition readPpidFromPSInfo :: "host \<Rightarrow> int \<Rightarrow> int result" where
  "readPpidFromPSInfo h pid = rbind (read_psinfo h pid) (\<lambda>info. Ok (to_i32 (val_of info ''Ppid'')))"

definition readPpidFromStatus :: "host \<Rightarrow> int \<Rightarrow> int result" where
  "readPpidFromStatus h pid = (case h_open h (proc_file h pid [''status'']) of
     Inl e \<Rightarrow> if \<not> is_not_exist e then Err e else readPpidFromPSInfo h pid
   | Inr f \<Rightarrow> rbind (read_struct AIXStat f) (\<lambda>(s, _). Ok (to_i32 (val_of s ''Ppid''))))"

definition aix_ChildrenWithContext :: "aix_env \<Rightarrow> process \<Rightarrow> process list act" where
  "aix_ChildrenWithContext env p = abind (aret (aix_PidsWithContext (ae_host env))) (\<lambda>pids.
     abind (aix_new_processes env (filter (\<lambda>pid. readPpidFromStatus (ae_host env) pid = Ok (p_Pid p)) pids) []) (\<lambda>ret.
       aret (Ok (sort_key p_Pid ret))))"

fun aix_threads_loop :: "aix_env \<Rightarrow> int \<Rightarrow> int list \<Rightarrow> (int \<times> times_stat) list \<Rightarrow> (int \<times> times_stat) list act" where
  "aix_threads_loop env pid [] ret = aret (Ok ret)"
| "aix_threads_loop env pid (tid # tids) ret = abind (aix_fillFromTIDStatWithContext env pid tid) (\<lambda>s.
     aix_threads_loop env pid tids (alist_put tid (ts_cpuTimes s) ret))"

definition aix_ThreadsWithContext :: "aix_env \<Rightarrow> process \<Rightarrow> (int \<times> times_stat) list act" where
  "aix_ThreadsWithContext env p =
     abind (aret (aix_readPidsFromDir (ae_host env) (proc_file (ae_host env) (p_Pid p) [''lwp'']))) (\<lambda>tids.
       aix_threads_loop env (p_Pid p) tids [])"

section \<open>Memory maps\<close>

definition size_unit :: "string \<Rightarrow> u64" where
  "size_unit s = (if has_suffix s ''K'' \<or> has_suffix s ''k'' then 1024 else if has_suffix s ''M'' \<or> has_suffix s ''m'' then 1024 * 1024
     else if has_suffix s ''G'' \<or> has_suffix s ''g'' then 1024 * 1024 * 1024 else 0)"

definition parseSizeField :: "string \<Rightarrow> u64" where
  "parseSizeField sizeStr =
     (let s = trim_space sizeStr; plainNum = (case parse_u64 s of Ok n \<Rightarrow> n | _ \<Rightarrow> 0) in
      if size_unit s = 0 then plainNum
      else (case parse_u64 (take (length s - 1) s) of Ok n \<Rightarrow> n * size_unit s | _ \<Rightarrow> plainNum))"

definition procmap_line :: "string \<Rightarrow> memory_maps_stat list" where
  "procmap_line l =
     (let line = trim_space l; fs = str_fields line in
      if line = [] \<or> has_prefix line ''Start-ADD'' \<or> str_contains line '':'' \<and> \<not> has_prefix line ''Start'' \<or> length fs < 6 then []
      else case (parse_hex64 (fs ! 0), parse_hex64 (fs ! 1)) of
        (Ok _, Ok _) \<Rightarrow> (let sz = parseSizeField (fs ! 2); path = (if 7 < length fs then join '' '' (drop 7 fs) else []) in
          [empty_maps\<lparr>mm_Path := (if path = [] then ''['' @ to_lower (fs ! 5) @ '']'' else path), mm_Rss := sz, mm_Size := sz\<rparr>])
      | _ \<Rightarrow> [])"

definition aix_parseMemoryMaps :: "string \<Rightarrow> memory_maps_stat list" where
  "aix_parseMemoryMaps output = concat (map procmap_line (split_char nl output))"

definition aix_MemoryMapsWithContext :: "host \<Rightarrow> process \<Rightarrow> bool \<Rightarrow> memory_maps_stat list result" where
  "aix_MemoryMapsWithContext h p grouped = rbind (run_command h ''procmap'' [''-X'', itoa (p_Pid p)]) (\<lambda>output.
     let maps = aix_parseMemoryMaps output in
     Ok (if grouped then [fold (\<lambda>m g. g\<lparr>mm_Size := mm_Size g + mm_Size m, mm_Rss := mm_Rss g + mm_Rss m\<rparr>) maps empty_maps]
         else maps))"

section \<open>Limits\<close>

definition aix_limitToUint :: "string \<Rightarrow> u64 result" where
  "aix_limitToUint v = (if v = ''unlimited'' then Ok (- 1) else parse_u64 v)"

definition limit_attrs :: "string list" where
  "limit_attrs = [''fsize'', ''fsize_hard'', ''core'', ''core_hard'', ''cpu'', ''cpu_hard'', ''data'', ''data_hard'', ''stack'', ''stack_hard'',
     ''rss'', ''rss_hard'', ''nofiles'', ''nofiles_hard'']"

definition limit_val :: "string \<Rightarrow> (string \<times> int) list \<Rightarrow> (string \<times> int) list" where
  "limit_val fld vals = (case split_char_n CHR ''='' 2 fld of
     [k, s] \<Rightarrow> (case parse_i64 s of Ok v \<Rightarrow> alist_put k v vals | _ \<Rightarrow> vals) | _ \<Rightarrow> vals)"

definition limit_toBytes :: "int \<Rightarrow> bool \<Rightarrow> u64" where
  "limit_toBytes v isBytes = (if v = - 1 then - 1 else if isBytes then word_of_int v * 512 else word_of_int v)"

definition hardDefault :: "(string \<times> int) list \<Rightarrow> int \<Rightarrow> string \<Rightarrow> int \<Rightarrow> int" where
  "hardDefault vals soft hardKey defaultHard = (case map_of vals hardKey of Some v \<Rightarrow> v
     | None \<Rightarrow> if defaultHard = 0 then soft else defaultHard)"

text \<open>The resource, the attributes of its soft and hard limit, the default of the latter, and whether the unit is a block.\<close>

definition limit_defs :: "(int \<times> string \<times> string \<times> int \<times> bool) list" where
  "limit_defs = [(1, ''fsize'', ''fsize_hard'', 0, True), (4, ''core'', ''core_hard'', - 1, True), (0, ''cpu'', ''cpu_hard'', 0, False),
     (2, ''data'', ''data_hard'', - 1, True), (3, ''stack'', ''stack_hard'', 8388608, True), (5, ''rss'', ''rss_hard'', - 1, True),
     (7, ''nofiles'', ''nofiles_hard'', - 1, False)]"

definition limit_stat :: "(string \<times> int) list \<Rightarrow> int \<times> string \<times> string \<times> int \<times> bool \<Rightarrow> rlimit_stat option" where
  "limit_stat vals = (\<lambda>(resource, softKey, hardKey, defaultHard, isBytes). case map_of vals softKey of
     None \<Rightarrow> None
   | Some soft \<Rightarrow> (let hardVal = limit_toBytes (hardDefault vals soft hardKey defaultHard) isBytes; softVal = limit_toBytes soft isBytes
       in Some \<lparr>rl_Resource = resource, rl_Soft = (if hardVal < softVal then hardVal else softVal), rl_Hard = hardVal, rl_Used = 0\<rparr>))"

definition parse_limits :: "string \<Rightarrow> rlimit_stat list" where
  "parse_limits output = (let vals = fold limit_val (str_fields (trim_space output)) [] in List.map_filter (limit_stat vals) limit_defs)"

definition aix_fillFromLimitsWithContext :: "aix_env \<Rightarrow> process \<Rightarrow> aix_state \<Rightarrow> rlimit_stat list result \<times> process \<times> aix_state" where
  "aix_fillFromLimitsWithContext env p st = (case aix_UidsWithContext env p st of (r, p', st') \<Rightarrow>
     (rbind r (\<lambda>uids. case uids of
        [] \<Rightarrow> Err (ErrMsg ''no UID available for process'')
      | uid # _ \<Rightarrow> rbind (of_sum (ae_LookupId env (itoa (uint uid)))) (\<lambda>username.
          rbind (run_command (ae_host env) ''lsuser'' (''-a'' # limit_attrs @ [username])) (\<lambda>output. Ok (parse_limits output)))), p', st'))"

definition aix_RlimitUsageWithContext :: "aix_env \<Rightarrow> process \<Rightarrow> aix_state \<Rightarrow> rlimit_stat list result \<times> process \<times> aix_state" where
  "aix_RlimitUsageWithContext env p st = aix_fillFromLimitsWithContext env p st"

section \<open>Descriptors\<close>

definition aix_fillFromfdListWithContext :: "host \<Rightarrow> process \<Rightarrow> string list \<times> gerr option" where
  "aix_fillFromfdListWithContext h p = (case h_readdir h (proc_file h (p_Pid p) [''fd'']) of
     Inr names \<Rightarrow> (names, None) | Inl e \<Rightarrow> ([], if is_not_exist e then None else Some e))"

definition aix_NumFDsWithContext :: "host \<Rightarrow> process \<Rightarrow> int \<times> gerr option" where
  "aix_NumFDsWithContext h p = (case aix_fillFromfdListWithContext h p of (names, err) \<Rightarrow> (to_i32 (int (length names)), err))"

text \<open>\<^verbatim>\<open>strings.Index\<close>.\<close>

fun str_index :: "string \<Rightarrow> string \<Rightarrow> nat option" where
  "str_index [] p = (if p = [] then Some 0 else None)"
| "str_index (c # s) p = (if prefix p (c # s) then Some 0 else map_option Suc (str_index s p))"

text \<open>The current descriptor, if its name has not been seen yet, and the files found.\<close>

definition procfiles_fd :: "string \<Rightarrow> u64 option" where
  "procfiles_fd l = (case index_byte l CHR '':'' of
     Some i \<Rightarrow> if 0 < i \<and> str_contains (drop i l) ''S_IF'' then (case parse_u64 (take i l) of Ok fd \<Rightarrow> Some fd | _ \<Rightarrow> None) else None
   | None \<Rightarrow> None)"

definition procfiles_line :: "string \<Rightarrow> u64 option \<times> open_files_stat list \<Rightarrow> u64 option \<times> open_files_stat list" where
  "procfiles_line line = (\<lambda>(cur, fs). let l = trim_space line in
     case procfiles_fd l of
       Some fd \<Rightarrow> (Some fd, fs)
     | None \<Rightarrow> (case (cur, str_index l ''name:'') of
         (Some fd, Some i) \<Rightarrow> (let name = trim_space (drop (i + 5) l) in
           (None, if name = [] \<or> str_contains name ''Cannot be retrieved'' then fs else fs @ [\<lparr>of_Path = path_clean name, of_Fd = fd\<rparr>]))
       | _ \<Rightarrow> (cur, fs)))"

definition openFilesFromProcfiles :: "host \<Rightarrow> process \<Rightarrow> open_files_stat list result" where
  "openFilesFromProcfiles h p = rbind (run_command h ''procfiles'' [''-n'', itoa (p_Pid p)]) (\<lambda>output.
     Ok (snd (fold procfiles_line (split_char nl output) (None, []))))"

definition aix_fillFromfdWithContext :: "host \<Rightarrow> process \<Rightarrow> (int \<times> open_files_stat list) result" where
  "aix_fillFromfdWithContext h p = (case aix_fillFromfdListWithContext h p of
     (_, Some e) \<Rightarrow> Err e
   | (names, None) \<Rightarrow> rbind (openFilesFromProcfiles h p) (\<lambda>fs. Ok (to_i32 (int (length names)), fs)))"

definition aix_OpenFilesWithContext :: "host \<Rightarrow> process \<Rightarrow> open_files_stat list result" where
  "aix_OpenFilesWithContext h p = rbind (aix_fillFromfdWithContext h p) (\<lambda>(_, ofs). Ok ofs)"

section \<open>Connections, environment, stat lines\<close>

definition aix_proc_ConnectionsWithContext :: "host \<Rightarrow> process \<Rightarrow> connection_stat list result" where
  "aix_proc_ConnectionsWithContext h p = aix_ConnectionsPidWithContext h ''all'' (p_Pid p)"

definition aix_proc_ConnectionsMaxWithContext :: "host \<Rightarrow> process \<Rightarrow> int \<Rightarrow> connection_stat list result" where
  "aix_proc_ConnectionsMaxWithContext h p maxConn = aix_ConnectionsPidMaxWithContext h ''all'' (p_Pid p) maxConn"

definition aix_EnvironWithContext :: "aix_lib \<Rightarrow> process \<Rightarrow> string list result" where
  "aix_EnvironWithContext lib p = AIXProcessEnv lib (p_Pid p)"

definition aix_splitProcStat :: "string \<Rightarrow> string list" where
  "aix_splitProcStat content = (case (index_byte content CHR ''('', last_index_byte content CHR '')'') of
     (Some a, Some b) \<Rightarrow> if b \<le> a then []
       else [] # trim_space (take a content) # take (b - a - 1) (drop (a + 1) content) #
         str_fields (drop (min (b + 2) (length content)) content)
   | _ \<Rightarrow> [])"


section \<open>Pids\<close>

lemma fold_add_pid:
  "distinct ret \<Longrightarrow> distinct (fold add_pid names ret) \<and> set (fold add_pid names ret) = set ret \<union> {pid. \<exists>n \<in> set names. parse_i32 n = Ok pid}"
proof (induction names arbitrary: ret)
  case (Cons n names)
  have "distinct (add_pid n ret) \<and> set (add_pid n ret) = set ret \<union> {pid. parse_i32 n = Ok pid}"
    using Cons.prems by (auto simp: add_pid_def split: result.splits)
  with Cons.IH [of "add_pid n ret"] show ?case by auto
qed simp

lemma aix_readPids_set:
  assumes "h_readdir h d = Inr names"
  shows "\<exists>pids. aix_readPidsFromDir h d = Ok pids \<and> distinct pids \<and> set pids = {pid. \<exists>n \<in> set names. parse_i32 n = Ok pid}"
  using assms fold_add_pid [of "[]" names] by (simp add: aix_readPidsFromDir_def)

text \<open>C27: however often \<^verbatim>\<open>/proc\<close> lists a process, \<^verbatim>\<open>Pids\<close> returns every number among its names once, in ascending order, and
  nothing else.\<close>

theorem aix_Pids_once:
  assumes "h_readdir h (HostProcWithContext h []) = Inr names"
  shows "\<exists>pids. aix_PidsWithContext h = Ok pids \<and> sorted_wrt (<) pids \<and> set pids = {pid. \<exists>n \<in> set names. parse_i32 n = Ok pid}"
  using aix_readPids_set [OF assms]
  by (auto simp: aix_PidsWithContext_def aix_pidsWithContext_def strict_sorted_iff)

theorem aix_Pids_once_witness:
  "\<exists>pids. aix_PidsWithContext (no_files\<lparr>h_readdir := (\<lambda>_. Inr [''12'', ''sys'', ''12'', ''1''])\<rparr>) = Ok pids \<and> sorted_wrt (<) pids"
proof -
  let ?h = "no_files\<lparr>h_readdir := (\<lambda>_. Inr [''12'', ''sys'', ''12'', ''1''])\<rparr>"
  have "h_readdir ?h (HostProcWithContext ?h []) = Inr [''12'', ''sys'', ''12'', ''1'']" by simp
  from aix_Pids_once [OF this] show ?thesis by blast
qed

section \<open>Children\<close>

lemma set_subseq: "subseq xs ys \<Longrightarrow> set xs \<subseteq> set ys"
  by (induction rule: list_emb.induct) auto

lemma distinct_subseq: "subseq xs ys \<Longrightarrow> distinct ys \<Longrightarrow> distinct xs"
  by (induction rule: list_emb.induct) (use set_subseq in auto)

lemma aix_NewProcess_pid:
  assumes "aix_NewProcessWithContext env pid st = Some (Ok (p, err), st')"
  shows "p_Pid p = pid"
  using assms
  by (auto simp: aix_NewProcessWithContext_def aix_CreateTimeWithContext_def new_process_def aret_def Let_def
      split: result.splits bool.splits if_splits option.splits elim!: abind_OkE)

lemma aix_new_processes_pids:
  assumes "aix_new_processes env pids out st = Some (Ok ps, st')"
  shows "\<exists>qs. ps = out @ qs \<and> subseq (map p_Pid qs) pids"
  using assms
proof (induction pids arbitrary: out st)
  case (Cons pid pids)
  from Cons.prems obtain p err st1 where p: "aix_NewProcessWithContext env pid st = Some (Ok (p, err), st1)"
    and r: "aix_new_processes env pids (if err = None then out @ [p] else out) st1 = Some (Ok ps, st')"
    by (auto elim!: abind_OkE)
  obtain qs where qs: "ps = (if err = None then out @ [p] else out) @ qs" "subseq (map p_Pid qs) pids" using Cons.IH [OF r] by blast
  show ?case
  proof (cases "err = None")
    case True
    with qs aix_NewProcess_pid [OF p] show ?thesis by (intro exI [of _ "p # qs"]) auto
  next
    case False
    with qs show ?thesis by (intro exI [of _ qs]) auto
  qed
qed (simp add: aret_def)

text \<open>The children of a process are listed once each, by ascending pid, and the status of each of them, or its information
  where it has no status, names the process as the parent.\<close>

lemma aix_Children_of_parent:
  assumes "aix_ChildrenWithContext env p st = Some (Ok cs, st')"
  shows "sorted_wrt (<) (map p_Pid cs) \<and> list_all (\<lambda>c. readPpidFromStatus (ae_host env) (p_Pid c) = Ok (p_Pid p)) cs"
proof -
  obtain pids ret st1 where pids: "aix_PidsWithContext (ae_host env) = Ok pids"
    and r: "aix_new_processes env (filter (\<lambda>pid. readPpidFromStatus (ae_host env) pid = Ok (p_Pid p)) pids) [] st = Some (Ok ret, st1)"
    and cs: "cs = sort_key p_Pid ret"
    using assms by (auto simp: aix_ChildrenWithContext_def aret_def elim!: abind_OkE)
  from pids have "distinct pids"
    using aix_readPids_set [of "ae_host env" "HostProcWithContext (ae_host env) []"]
    by (auto simp: aix_PidsWithContext_def aix_pidsWithContext_def aix_readPidsFromDir_def outcome_iff split: sum.splits)
  moreover have sub: "subseq (map p_Pid ret) (filter (\<lambda>pid. readPpidFromStatus (ae_host env) pid = Ok (p_Pid p)) pids)"
    using aix_new_processes_pids [OF r] by auto
  ultimately have "distinct (map p_Pid ret)" using distinct_subseq distinct_filter by blast
  moreover have "mset (map p_Pid cs) = mset (map p_Pid ret)" by (simp add: cs)
  ultimately have "distinct (map p_Pid cs)" using mset_eq_imp_distinct_iff by blast
  moreover have "p_Pid ` set cs \<subseteq> {pid. readPpidFromStatus (ae_host env) pid = Ok (p_Pid p)}"
    using set_subseq [OF sub] by (auto simp: cs)
  ultimately show ?thesis by (auto simp: strict_sorted_iff cs list_all_iff)
qed

section \<open>Limits, maps and threads\<close>

text \<open>Whatever \<^verbatim>\<open>lsuser\<close> prints, no soft limit exceeds its hard limit and no resource is reported twice.\<close>

theorem aix_limits_ordered:
  "list_all (\<lambda>l. rl_Soft l \<le> rl_Hard l) (parse_limits output) \<and> distinct (map rl_Resource (parse_limits output))"
proof
  show "list_all (\<lambda>l. rl_Soft l \<le> rl_Hard l) (parse_limits output)"
    by (auto simp: parse_limits_def list_all_iff map_filter_def limit_stat_def Let_def split: option.splits)
  have "subseq (map rl_Resource (List.map_filter (limit_stat vals) ds)) (map fst ds)" for vals ds
    by (induction ds) (auto simp: limit_stat_def Let_def split: option.splits)
  then have "subseq (map rl_Resource (parse_limits output)) (map fst limit_defs)" by (simp add: parse_limits_def Let_def)
  moreover have "distinct (map fst limit_defs)" by (simp add: limit_defs_def)
  ultimately show "distinct (map rl_Resource (parse_limits output))" using distinct_subseq by blast
qed

lemma aix_maps_grouped:
  assumes "aix_MemoryMapsWithContext h p False = Ok maps"
  shows "\<exists>g. aix_MemoryMapsWithContext h p True = Ok [g] \<and> mm_Size g = sum_list (map mm_Size maps) \<and> mm_Rss g = sum_list (map mm_Rss maps)"
proof -
  have "mm_Size (fold (\<lambda>m g. g\<lparr>mm_Size := mm_Size g + mm_Size m, mm_Rss := mm_Rss g + mm_Rss m\<rparr>) ms g) = mm_Size g + sum_list (map mm_Size ms) \<and>
      mm_Rss (fold (\<lambda>m g. g\<lparr>mm_Size := mm_Size g + mm_Size m, mm_Rss := mm_Rss g + mm_Rss m\<rparr>) ms g) = mm_Rss g + sum_list (map mm_Rss ms)"
    for ms and g :: memory_maps_stat
    by (induction ms arbitrary: g) (simp_all add: add.assoc)
  from this [of _ empty_maps] assms show ?thesis
    by (auto simp: aix_MemoryMapsWithContext_def outcome_iff Let_def empty_maps_def)
qed

lemma alist_put_values: "snd ` set (alist_put k v m) \<subseteq> insert v (snd ` set m)"
  by (induction k v m rule: alist_put.induct) auto

text \<open>The CPU times of every thread are those of the whole process.\<close>

lemma aix_threads_same_times:
  assumes "aix_ThreadsWithContext env p st = Some (Ok ts, st')"
  shows "\<exists>status. list_all (\<lambda>(tid, t). t = aix_cpu_times status) ts"
proof -
  have one: "\<exists>status. status_if_exists (ae_host env) pid = Ok status \<and> ts_cpuTimes s = aix_cpu_times status"
    if "aix_fillFromTIDStatWithContext env pid tid st = Some (Ok s, st1)" for pid tid s st st1
    using that by (auto simp: aix_fillFromTIDStatWithContext_def Let_def tid_stat_of_def aret_def elim!: abind_OkE)
  have loop: "snd ` set ts \<subseteq> snd ` set ret \<union> {aix_cpu_times status |status. status_if_exists (ae_host env) pid = Ok status}"
    if "aix_threads_loop env pid tids ret st = Some (Ok ts, st')" for pid tids ret st
    using that
  proof (induction tids arbitrary: ret st)
    case (Cons tid tids)
    from Cons.prems obtain s st1 where t: "aix_fillFromTIDStatWithContext env pid tid st = Some (Ok s, st1)"
      "aix_threads_loop env pid tids (alist_put tid (ts_cpuTimes s) ret) st1 = Some (Ok ts, st')"
      unfolding aix_threads_loop.simps by (rule abind_OkE)
    note step = one [OF t(1)] Cons.IH [OF t(2)] alist_put_values [of tid "ts_cpuTimes s" ret]
    from step(1) have "ts_cpuTimes s \<in> {aix_cpu_times status |status. status_if_exists (ae_host env) pid = Ok status}" by auto
    moreover have "A \<subseteq> B \<union> C \<Longrightarrow> B \<subseteq> insert x D \<Longrightarrow> x \<in> C \<Longrightarrow> A \<subseteq> D \<union> C" for A B C D and x :: times_stat by blast
    ultimately show ?case using step(2,3) by simp
  qed (simp add: aret_def)
  obtain tids st1 where "aix_threads_loop env (p_Pid p) tids [] st1 = Some (Ok ts, st')"
    using assms unfolding aix_ThreadsWithContext_def by (rule abind_OkE)
  note sub = loop [OF this]
  show ?thesis
  proof (cases "\<exists>status. status_if_exists (ae_host env) (p_Pid p) = Ok status")
    case True
    then obtain status where "status_if_exists (ae_host env) (p_Pid p) = Ok status" by blast
    with sub have "snd ` set ts \<subseteq> {aix_cpu_times status}" by simp
    then show ?thesis by (intro exI [of _ status]) (auto simp: list_all_iff)
  next
    case False
    with sub show ?thesis by simp
  qed
qed

end
