(* ===== verification/Net_Bsd.thy ===== *)
theory Net_Bsd
  imports Net_Aix Process_Api
begin

text \<open>
  Package \<^verbatim>\<open>net\<close> on Darwin and the BSD family: interface counters from \<^verbatim>\<open>netstat\<close> (\<^verbatim>\<open>net_darwin.go\<close>, \<^verbatim>\<open>net_freebsd.go\<close>, \<^verbatim>\<open>net_openbsd.go\<close>,
  \<^verbatim>\<open>net_netbsd.go\<close>) and connections from \<^verbatim>\<open>lsof\<close> (\<^verbatim>\<open>net_unix.go\<close>) or \<^verbatim>\<open>netstat\<close>. \<open>look\<close> is \<^verbatim>\<open>exec.LookPath\<close>; \<open>order\<close> the order in which Go ranges
  over a map; \<open>af6\<close> the address family of IPv6, which differs between Darwin and FreeBSD.
\<close>

definition zero_io :: "string \<Rightarrow> io_counters_stat" where
  "zero_io name = io_all\<lparr>io_Name := name\<rparr>"

text \<open>A counter; a dash stands for 0.\<close>

definition nbsd_parseUint :: "string \<Rightarrow> u64 result" where
  "nbsd_parseUint s = (if s = ''-'' then Ok 0 else parse_u64 s)"

definition dash_columns :: "string list \<Rightarrow> nat list \<Rightarrow> u64 list result" where
  "dash_columns vs is = map_result (\<lambda>i. nbsd_parseUint (vs ! i)) is"

section \<open>Darwin\<close>

definition netstatLinkRegexp :: "string \<Rightarrow> string option" where
  "netstatLinkRegexp s = (let ds = take (length s - 7) (drop 6 s) in if s = ''<Link#'' @ ds @ ''>'' \<and> decimal ds then Some ds else None)"

definition darwin_stat :: "string \<Rightarrow> u64 list \<Rightarrow> io_counters_stat" where
  "darwin_stat name v = (zero_io name)\<lparr>io_PacketsRecv := v ! 0, io_Errin := v ! 1, io_BytesRecv := v ! 2, io_PacketsSent := v ! 3,
     io_Errout := v ! 4, io_BytesSent := v ! 5, io_Dropout := v ! 6\<rparr>"

definition darwin_parseNetstatLine :: "string \<Rightarrow> (io_counters_stat \<times> u64 option) result" where
  "darwin_parseNetstatLine line =
     (let columns = str_fields line; n = length columns; base = (if n < 12 then 0 else 1) in
      if 0 < n \<and> columns ! 0 = ''Name'' then Err (ErrMsg ''can't parse header of netstat output'')
      else if n < 11 \<or> 13 < n then Err (ErrMsg (''line '' @ quote line @ '' has an invalid number of columns: '' @ fmt_nat n))
      else rbind (case netstatLinkRegexp (columns ! 2) of Some ds \<Rightarrow> rbind (parse_u64 ds) (\<lambda>v. Ok (Some v)) | None \<Rightarrow> Ok None) (\<lambda>linkID.
        rbind (dash_columns columns (map ((+) base) [3, 4, 5, 6, 7, 8, 10])) (\<lambda>parsed.
          Ok (darwin_stat (trim_set ''*'' (columns ! 0)) parsed, linkID))))"

definition darwin_parseNetstatOutput :: "string \<Rightarrow> (io_counters_stat \<times> u64 option) list" where
  "darwin_parseNetstatOutput output = List.map_filter (\<lambda>line. case darwin_parseNetstatLine line of Ok r \<Rightarrow> Some r | _ \<Rightarrow> None)
     (split_char nl (trim_set [nl] output))"

text \<open>The rows of the interfaces themselves.\<close>

definition link_rows :: "(io_counters_stat \<times> u64 option) list \<Rightarrow> io_counters_stat list" where
  "link_rows ifaces = map fst (filter (\<lambda>(_, linkID). linkID \<noteq> None) ifaces)"

definition count_name :: "io_counters_stat \<Rightarrow> (string \<times> nat) list \<Rightarrow> (string \<times> nat) list" where
  "count_name s m = alist_put (io_Name s) (case map_of m (io_Name s) of Some usage \<Rightarrow> usage + 1 | None \<Rightarrow> 1) m"

definition newMapInterfaceNameUsage :: "(io_counters_stat \<times> u64 option) list \<Rightarrow> (string \<times> nat) list" where
  "newMapInterfaceNameUsage ifaces = fold count_name (link_rows ifaces) []"

definition isTruncated :: "(string \<times> nat) list \<Rightarrow> bool" where
  "isTruncated m = list_ex (\<lambda>(_, usage). 1 < usage) m"

definition notTruncated :: "(string \<times> nat) list \<Rightarrow> string list" where
  "notTruncated m = map fst (filter (\<lambda>(_, usage). usage = 1) m)"

text \<open>The result and how much of it is filled; filling more than was made panics.\<close>

definition fill_next :: "io_counters_stat \<Rightarrow> io_counters_stat list \<times> nat \<Rightarrow> (io_counters_stat list \<times> nat) result" where
  "fill_next s = (\<lambda>(ret, i). if i < length ret then Ok (ret[i := s], i + 1) else Panic)"

definition truncated_name :: "host \<Rightarrow> string \<Rightarrow> io_counters_stat list \<Rightarrow> string \<Rightarrow> io_counters_stat list \<times> nat \<Rightarrow>
    (io_counters_stat list \<times> nat) result" where
  "truncated_name h netstat rows name = (\<lambda>(ret, i). case List.find (\<lambda>s. io_Name s = name) rows of
     Some s \<Rightarrow> fill_next s (ret, i)
   | None \<Rightarrow> rbind (run_command h netstat [''-ibdnWI'' @ name]) (\<lambda>out.
       case link_rows (darwin_parseNetstatOutput out) of [] \<Rightarrow> Ok (ret, i) | s # _ \<Rightarrow> Ok (ret @ [s], i)))"

definition darwin_IOCountersWithContext :: "(string \<Rightarrow> gerr + string) \<Rightarrow> host \<Rightarrow> bool \<Rightarrow> io_counters_stat list result" where
  "darwin_IOCountersWithContext look h pernic = rbind (of_sum (look ''netstat'')) (\<lambda>netstat.
     rbind (run_command h netstat [''-ibdnW'']) (\<lambda>out.
       let nsInterfaces = darwin_parseNetstatOutput out; usage = newMapInterfaceNameUsage nsInterfaces;
           ret0 = replicate (length (notTruncated usage)) (zero_io [])
       in rbind (if \<not> isTruncated usage then rfold fill_next (link_rows nsInterfaces) (ret0, 0)
                 else rbind (run_command h ''ifconfig'' [''-l'']) (\<lambda>names.
                   rfold (truncated_name h netstat (link_rows nsInterfaces)) (str_fields (trim_right_set [nl] names)) (ret0, 0))) (\<lambda>(ret, _).
          Ok (if \<not> pernic then getIOCountersAll ret else ret))))"

section \<open>Connections from lsof\<close>

definition lsof_args :: "string \<Rightarrow> string list" where
  "lsof_args kind = (case map_of [(''inet4'', [''4'']), (''inet6'', [''6'']), (''tcp'', [''tcp'']), (''tcp4'', [''4tcp'']), (''tcp6'', [''6tcp'']),
       (''udp'', [''udp'']), (''udp4'', [''4udp'']), (''udp6'', [''6udp''])] (to_lower kind) of
     Some as \<Rightarrow> ''-i'' # as | None \<Rightarrow> if to_lower kind = ''unix'' then [''-U''] else [''-i'', ''tcp'', ''-i'', ''udp''])"

definition constMap :: "u32 \<Rightarrow> (string \<times> u32) list" where
  "constMap af6 = [(''unix'', AF_UNIX), (''TCP'', SOCK_STREAM), (''UDP'', SOCK_DGRAM), (''IPv4'', AF_INET), (''IPv6'', af6)]"

text \<open>\<^verbatim>\<open>net.SplitHostPort\<close>.\<close>

definition SplitHostPort :: "string \<Rightarrow> (string \<times> string) option" where
  "SplitHostPort s = (case last_index_byte s CHR '':'' of
     None \<Rightarrow> None
   | Some i \<Rightarrow>
       if hd s = CHR ''['' then
         (case index_byte s CHR '']'' of
            None \<Rightarrow> None
          | Some e \<Rightarrow> if e + 1 \<noteq> i \<or> CHR ''['' \<in> set (drop 1 s) \<or> CHR '']'' \<in> set (drop (e + 1) s) then None
                      else Some (take (e - 1) (drop 1 s), drop (i + 1) s))
       else if CHR '':'' \<in> set (take i s) \<or> CHR ''['' \<in> set s \<or> CHR '']'' \<in> set s then None
       else Some (take i s, drop (i + 1) s))"

definition unix_parseAddr :: "string \<Rightarrow> addr result" where
  "unix_parseAddr l = (case SplitHostPort l of
     None \<Rightarrow> Err (ErrMsg (''wrong addr, '' @ l))
   | Some (hst, port) \<Rightarrow> rbind (parse_i32 port) (\<lambda>lport. Ok \<lparr>a_IP = hst, a_Port = word_of_int lport\<rparr>))"

definition parseNetAddr :: "string \<Rightarrow> (addr \<times> addr) result" where
  "parseNetAddr line =
     (let addrs = split_str ''->'' [] line; laddr = unix_parseAddr (hd addrs) in
      if length addrs = 2 then rbind (unix_parseAddr (addrs ! 1)) (\<lambda>raddr. Ok (addr_or_empty laddr, raddr))
      else rbind laddr (\<lambda>l. Ok (l, no_addr)))"

definition parseNetLine :: "u32 \<Rightarrow> string \<Rightarrow> connection_stat result" where
  "parseNetLine af6 line =
     (let f0 = str_fields line; f = (if length f0 = 8 then take 7 f0 @ [''unix'', f0 ! 7] else f0) in
      if length f0 < 8 then Err (ErrMsg (''wrong line,'' @ line))
      else rbind (parse_i32 (f ! 1)) (\<lambda>pid.
        case parse_i32 (trim_set ''u'' (f ! 3)) of
          Ok fd \<Rightarrow> (case (map_of (constMap af6) (f ! 4), map_of (constMap af6) (f ! 7)) of
              (None, _) \<Rightarrow> Err (ErrMsg (''unknown family, '' @ f ! 4))
            | (_, None) \<Rightarrow> Err (ErrMsg (''unknown type, '' @ f ! 7))
            | (Some netFamily, Some netType) \<Rightarrow>
                (case (if f ! 7 = ''unix'' then Ok (\<lparr>a_IP = f ! 8, a_Port = 0\<rparr>, no_addr) else parseNetAddr (f ! 8)) of
                   Ok (laddr, raddr) \<Rightarrow> Ok \<lparr>cs_Fd = word_of_int fd, cs_Family = netFamily, cs_Type = netType, cs_Laddr = laddr, cs_Raddr = raddr,
                     cs_Status = (if length f = 10 then trim_set ''()'' (f ! 9) else []), cs_Uids = [], cs_Pid = pid\<rparr>
                 | _ \<Rightarrow> Err (ErrMsg (''failed to parse netaddr, '' @ f ! 8))))
        | _ \<Rightarrow> Err (ErrMsg (''unknown fd, '' @ f ! 3))))"

definition unix_ConnectionsPidWithContext :: "u32 \<Rightarrow> host \<Rightarrow> string \<Rightarrow> int \<Rightarrow> connection_stat list result" where
  "unix_ConnectionsPidWithContext af6 h kind pid = rbind (CallLsofWithContext h pid (lsof_args kind)) (\<lambda>r.
     Ok (List.map_filter (\<lambda>rr. if has_prefix rr ''COMMAND'' then None else (case parseNetLine af6 rr of Ok n \<Rightarrow> Some n | _ \<Rightarrow> None)) r))"

definition unix_ConnectionsWithContext :: "u32 \<Rightarrow> host \<Rightarrow> string \<Rightarrow> connection_stat list result" where
  "unix_ConnectionsWithContext af6 h kind = unix_ConnectionsPidWithContext af6 h kind 0"

section \<open>FreeBSD\<close>

definition fbsd_stat :: "string \<Rightarrow> u64 list \<Rightarrow> io_counters_stat" where
  "fbsd_stat name v = (zero_io name)\<lparr>io_PacketsRecv := v ! 0, io_Errin := v ! 1, io_Dropin := v ! 2, io_BytesRecv := v ! 3,
     io_PacketsSent := v ! 4, io_Errout := v ! 5, io_BytesSent := v ! 6, io_Dropout := v ! 7\<rparr>"

definition fbsd_line :: "string \<Rightarrow> string list \<times> io_counters_stat list \<Rightarrow> (string list \<times> io_counters_stat list) result" where
  "fbsd_line line = (\<lambda>(seen, ret). case str_fields line of
     [] \<Rightarrow> Ok (seen, ret)
   | name # vs \<Rightarrow>
       if name = ''Name'' \<or> StringsHas seen name then Ok (seen, ret)
       else if length (name # vs) < 12 then Ok (seen @ [name], ret)
       else let base = (if length (name # vs) < 13 then 0 else 1) in
         rbind (dash_columns (name # vs) (map ((+) base) [3, 4, 5, 6, 7, 8, 9, 11])) (\<lambda>parsed.
           Ok (seen @ [name], ret @ [fbsd_stat name parsed])))"

definition fbsd_IOCountersWithContext :: "host \<Rightarrow> bool \<Rightarrow> io_counters_stat list result" where
  "fbsd_IOCountersWithContext h pernic = rbind (run_command h ''netstat'' [''-ibdnW'']) (\<lambda>out.
     rbind (rfold fbsd_line (split_char nl out) ([], [])) (\<lambda>(_, ret).
       Ok (if \<not> pernic then getIOCountersAll ret else ret)))"

section \<open>OpenBSD\<close>

type_synonym iocs = "(string \<times> io_counters_stat) list"

text \<open>The columns of a mode behind the base, and what they set. The base is always 1: a row with fewer columns has been skipped
  by then.\<close>

definition obsd_columns :: "string \<Rightarrow> nat list" where
  "obsd_columns mode = (if mode = ''inb'' then [3, 4] else if mode = ''ind'' then [3, 4, 5, 6] else if mode = ''ine'' then [4, 6] else [])"

definition obsd_set :: "string \<Rightarrow> u64 list \<Rightarrow> io_counters_stat \<Rightarrow> io_counters_stat" where
  "obsd_set mode v n =
     (if mode = ''inb'' then n\<lparr>io_BytesRecv := v ! 0, io_BytesSent := v ! 1\<rparr>
      else if mode = ''ind'' then n\<lparr>io_PacketsRecv := v ! 0, io_Dropin := v ! 1, io_PacketsSent := v ! 2, io_Dropout := v ! 3\<rparr>
      else if mode = ''ine'' then n\<lparr>io_Errin := v ! 0, io_Errout := v ! 1\<rparr>
      else n)"

definition io_entry :: "iocs \<Rightarrow> string \<Rightarrow> io_counters_stat" where
  "io_entry iocs name = (case map_of iocs name of Some n \<Rightarrow> n | None \<Rightarrow> zero_io name)"

definition put_io :: "io_counters_stat \<Rightarrow> iocs \<Rightarrow> iocs" where
  "put_io n iocs = alist_put (io_Name n) n iocs"

definition obsd_line :: "string \<Rightarrow> string \<Rightarrow> string list \<times> iocs \<Rightarrow> (string list \<times> iocs) result" where
  "obsd_line mode line = (\<lambda>(seen, iocs). case str_fields line of
     [] \<Rightarrow> Ok (seen, iocs)
   | name # vs \<Rightarrow>
       if name = ''Name'' \<or> StringsHas seen name \<or> length (name # vs) < (if mode = ''inb'' then 6 else 9) then Ok (seen, iocs)
       else rbind (dash_columns (name # vs) (map ((+) 1) (obsd_columns mode))) (\<lambda>parsed.
         Ok (seen @ [name], put_io (obsd_set mode parsed (io_entry iocs name)) iocs)))"

definition obsd_ParseNetstat :: "string \<Rightarrow> string \<Rightarrow> iocs \<Rightarrow> iocs result" where
  "obsd_ParseNetstat output mode iocs = rbind (rfold (obsd_line mode) (split_char nl output) ([], iocs)) (\<lambda>(_, iocs'). Ok iocs')"

definition obsd_IOCountersWithContext :: "(string \<Rightarrow> gerr + string) \<Rightarrow> (iocs \<Rightarrow> iocs) \<Rightarrow> host \<Rightarrow> bool \<Rightarrow> io_counters_stat list result" where
  "obsd_IOCountersWithContext look order h pernic = rbind (of_sum (look ''netstat'')) (\<lambda>netstat.
     rbind (run_command h netstat [''-inb'']) (\<lambda>out. rbind (run_command h netstat [''-ind'']) (\<lambda>out2.
     rbind (run_command h netstat [''-ine'']) (\<lambda>out3.
     rbind (obsd_ParseNetstat out ''inb'' []) (\<lambda>iocs. rbind (obsd_ParseNetstat out2 ''ind'' iocs) (\<lambda>iocs2.
     rbind (obsd_ParseNetstat out3 ''ine'' iocs2) (\<lambda>iocs3.
       let ret = map snd (order iocs3) in Ok (if \<not> pernic then getIOCountersAll ret else ret))))))))"

text \<open>Connections: the parsers of addresses are those of AIX, with the same constants, and one protocol name less per kind.\<close>

definition obsd_types :: "(string \<times> u32 \<times> u32) list" where
  "obsd_types = [(''tcp'', SOCK_STREAM, AF_INET), (''udp'', SOCK_DGRAM, AF_INET), (''tcp6'', SOCK_STREAM, aix_AF_INET6),
     (''udp6'', SOCK_DGRAM, aix_AF_INET6)]"

definition obsd_parseAddr :: "string \<Rightarrow> u32 \<Rightarrow> addr result" where
  "obsd_parseAddr l family = parseAddr l family"

definition obsd_parseNetstatAddr :: "string \<Rightarrow> string \<Rightarrow> u32 \<Rightarrow> (addr \<times> addr) result" where
  "obsd_parseNetstatAddr local remote family =
     (let laddr = obsd_parseAddr local family in
      if remote \<noteq> ''*.*'' then rbind (obsd_parseAddr remote family) (\<lambda>raddr. Ok (addr_or_empty laddr, raddr))
      else rbind laddr (\<lambda>l. Ok (l, no_addr)))"

definition netstat_conn :: "(string \<Rightarrow> string \<Rightarrow> u32 \<Rightarrow> (addr \<times> addr) result) \<Rightarrow> string \<Rightarrow> connection_stat result" where
  "netstat_conn addrs line =
     (let f = str_fields line in
      if length f < 5 then Err (ErrMsg (''wrong line,'' @ line))
      else case map_of obsd_types (f ! 0) of
        None \<Rightarrow> Err (ErrMsg (''unknown type, '' @ f ! 0))
      | Some (netType, netFamily) \<Rightarrow> (case addrs (f ! 3) (f ! 4) netFamily of
          Ok (laddr, raddr) \<Rightarrow> Ok \<lparr>cs_Fd = 0, cs_Family = netFamily, cs_Type = netType, cs_Laddr = laddr, cs_Raddr = raddr,
            cs_Status = (if length f = 6 then f ! 5 else []), cs_Uids = [], cs_Pid = 0\<rparr>
        | _ \<Rightarrow> Err (ErrMsg (''failed to parse netaddr, '' @ f ! 3 @ '' '' @ f ! 4))))"

definition obsd_parseNetstatLine :: "string \<Rightarrow> connection_stat result" where
  "obsd_parseNetstatLine = netstat_conn obsd_parseNetstatAddr"

definition obsd_conn_args :: "string \<Rightarrow> string list option" where
  "obsd_conn_args kind = (let k = to_lower kind in if k = ''unix'' then None else Some (''-na'' # (case map_of
     [(''inet4'', [''-finet'']), (''inet6'', [''-finet6'']), (''tcp'', [''-ptcp'']), (''tcp4'', [''-ptcp'', ''-finet'']), (''tcp6'', [''-ptcp'', ''-finet6'']),
      (''udp'', [''-pudp'']), (''udp4'', [''-pudp'', ''-finet'']), (''udp6'', [''-pudp'', ''-finet6''])] k of Some as \<Rightarrow> as | None \<Rightarrow> [])))"

definition netstat_conns :: "(string \<Rightarrow> connection_stat result) \<Rightarrow> string \<Rightarrow> connection_stat list" where
  "netstat_conns parse out = List.map_filter (\<lambda>line. if has_prefix line ''tcp'' \<or> has_prefix line ''udp''
     then (case parse line of Ok n \<Rightarrow> Some n | _ \<Rightarrow> None) else None) (split_char nl out)"

definition obsd_ConnectionsWithContext :: "(string \<Rightarrow> gerr + string) \<Rightarrow> host \<Rightarrow> string \<Rightarrow> connection_stat list result" where
  "obsd_ConnectionsWithContext look h kind = (case obsd_conn_args kind of
     None \<Rightarrow> Err ErrNotImplemented
   | Some args \<Rightarrow> rbind (of_sum (look ''netstat'')) (\<lambda>netstat. rbind (run_command h netstat args) (\<lambda>out.
       Ok (netstat_conns obsd_parseNetstatLine out))))"

section \<open>NetBSD\<close>

definition nbsd_set :: "string \<Rightarrow> u64 list \<Rightarrow> io_counters_stat \<Rightarrow> io_counters_stat" where
  "nbsd_set mode v n =
     (if mode = ''inb'' then n\<lparr>io_BytesRecv := v ! 0, io_BytesSent := v ! 1\<rparr>
      else if mode = ''ind'' then n\<lparr>io_PacketsRecv := v ! 0, io_Errin := v ! 1, io_Dropin := v ! 2, io_PacketsSent := v ! 3,
        io_Errout := v ! 4, io_Dropout := v ! 5\<rparr>
      else n)"

definition nbsd_columns :: "string \<Rightarrow> nat list" where
  "nbsd_columns mode = (if mode = ''inb'' then [3, 4] else if mode = ''ind'' then [3, 4, 5, 6, 7, 9] else [])"

text \<open>The number of columns of a row without an address; a missing key of the maps counts as 0.\<close>

definition nbsd_min :: "string \<Rightarrow> nat" where
  "nbsd_min mode = (if mode = ''inb'' then 5 else if mode = ''ind'' then 10 else 0)"

definition nbsd_addr :: "string \<Rightarrow> nat" where
  "nbsd_addr mode = (if mode = ''inb'' then 6 else if mode = ''ind'' then 11 else 0)"

definition nbsd_line :: "string \<Rightarrow> string \<Rightarrow> string list \<times> iocs \<Rightarrow> (string list \<times> iocs) result" where
  "nbsd_line mode line = (\<lambda>(seen, iocs). case str_fields line of
     [] \<Rightarrow> Ok (seen, iocs)
   | name # vs \<Rightarrow>
       if name = ''Name'' \<or> StringsHas seen name \<or> length (name # vs) < nbsd_min mode then Ok (seen, iocs)
       else let base = (if nbsd_addr mode \<le> length (name # vs) then 1 else 0) in
         rbind (dash_columns (name # vs) (map ((+) base) (nbsd_columns mode))) (\<lambda>parsed.
           Ok (seen @ [name], put_io (nbsd_set mode parsed (io_entry iocs name)) iocs)))"

definition nbsd_parseNetstat :: "string \<Rightarrow> string \<Rightarrow> iocs \<Rightarrow> iocs result" where
  "nbsd_parseNetstat output mode iocs = rbind (rfold (nbsd_line mode) (split_char nl output) ([], iocs)) (\<lambda>(_, iocs'). Ok iocs')"

definition nbsd_IOCountersWithContext :: "(string \<Rightarrow> gerr + string) \<Rightarrow> (iocs \<Rightarrow> iocs) \<Rightarrow> host \<Rightarrow> bool \<Rightarrow> io_counters_stat list result" where
  "nbsd_IOCountersWithContext look order h pernic = rbind (of_sum (look ''netstat'')) (\<lambda>netstat.
     rbind (run_command h netstat [''-inb'']) (\<lambda>outBytes. rbind (run_command h netstat [''-ind'']) (\<lambda>outPackets.
     rbind (nbsd_parseNetstat outBytes ''inb'' []) (\<lambda>iocs. rbind (nbsd_parseNetstat outPackets ''ind'' iocs) (\<lambda>iocs2.
       let ret = map snd (order iocs2) in Ok (if \<not> pernic then getIOCountersAll ret else ret))))))"

definition nbsd_parseNetstatAddr :: "string \<Rightarrow> string \<Rightarrow> u32 \<Rightarrow> (addr \<times> addr) result" where
  "nbsd_parseNetstatAddr local remote family = rbind (parseAddr local family) (\<lambda>laddr.
     if remote \<noteq> ''*.*'' then rbind (parseAddr remote family) (\<lambda>raddr. Ok (laddr, raddr)) else Ok (laddr, no_addr))"

definition nbsd_parseNetstatLine :: "string \<Rightarrow> connection_stat result" where
  "nbsd_parseNetstatLine = netstat_conn nbsd_parseNetstatAddr"

definition nbsd_ConnectionsWithContext :: "(string \<Rightarrow> gerr + string) \<Rightarrow> host \<Rightarrow> string \<Rightarrow> connection_stat list result" where
  "nbsd_ConnectionsWithContext look h kind = (case obsd_conn_args kind of
     None \<Rightarrow> Err ErrNotImplemented
   | Some args \<Rightarrow> rbind (of_sum (look ''netstat'')) (\<lambda>netstat. rbind (run_command h netstat args) (\<lambda>out.
       Ok (netstat_conns nbsd_parseNetstatLine out))))"

section \<open>Darwin: every interface once\<close>

lemma count_distinct:
  assumes "distinct (map io_Name rows)"
  shows "fold count_name rows [] = map (\<lambda>s. (io_Name s, 1)) rows"
  using assms
proof (induction rows rule: rev_induct)
  case (snoc s rows)
  have "io_Name s \<notin> io_Name ` set rows" using snoc.prems by simp
  then have "map_of (map (\<lambda>s. (io_Name s, 1 :: nat)) rows) (io_Name s) = None" by (force simp: map_of_eq_None_iff)
  with snoc \<open>io_Name s \<notin> io_Name ` set rows\<close> show ?case by (simp add: count_name_def alist_put_fresh image_image)
qed simp

lemma rfold_fill:
  assumes "i + length rows \<le> length ret"
  shows "rfold fill_next rows (ret, i) = Ok (take i ret @ rows @ drop (i + length rows) ret, i + length rows)"
  using assms
proof (induction rows arbitrary: ret i)
  case (Cons s rows)
  then have "take (Suc i) (ret[i := s]) = take i ret @ [s]" by (simp add: take_Suc_conv_app_nth)
  with Cons.prems Cons.IH [of "Suc i" "ret[i := s]"] show ?case by (simp add: fill_next_def)
qed simp

text \<open>A row of \<^verbatim>\<open>netstat -ibdnW\<close>: the name, perhaps with an asterisk, the size, the link number, perhaps an address, and the eight
  counters.\<close>

record netstat_if =
  nif_name :: string
  nif_down :: bool
  nif_mtu :: nat
  nif_link :: nat
  nif_addr :: "string option"
  nif_counters :: "u64 list"

definition if_words :: "netstat_if \<Rightarrow> string list" where
  "if_words r = [nif_name r @ (if nif_down r then ''*'' else []), fmt_nat (nif_mtu r), ''<Link#'' @ fmt_nat (nif_link r) @ ''>''] @
     (case nif_addr r of Some a \<Rightarrow> [a] | None \<Rightarrow> []) @ map (fmt_nat \<circ> unat) (nif_counters r)"

definition if_ok :: "netstat_if \<Rightarrow> bool" where
  "if_ok r \<longleftrightarrow> plain (nif_name r) \<and> nif_name r \<noteq> [] \<and> nif_name r \<noteq> ''Name'' \<and> CHR ''*'' \<notin> set (nif_name r) \<and> nif_link r < 2 ^ 64 \<and>
     pred_option (\<lambda>a. plain a \<and> a \<noteq> []) (nif_addr r) \<and> length (nif_counters r) = 8"

definition if_meaning :: "netstat_if \<Rightarrow> io_counters_stat" where
  "if_meaning r = darwin_stat (nif_name r) (take 6 (nif_counters r) @ [nif_counters r ! 7])"

lemma link_regexp: "decimal ds \<Longrightarrow> netstatLinkRegexp (''<Link#'' @ ds @ ''>'') = Some ds"
  by (simp add: netstatLinkRegexp_def)

lemma dash_unat: "nbsd_parseUint (fmt_nat (unat (w :: u64))) = Ok w"
proof -
  have "CHR ''-'' \<notin> set (fmt_nat (unat w))"
    using decimal_chars [OF decimal_fmt_nat, of "CHR ''-''" "unat w"] by (auto simp: is_digit_def)
  then have "fmt_nat (unat w) \<noteq> ''-''" by (metis list.set_intros(1))
  then show ?thesis by (simp add: nbsd_parseUint_def)
qed

lemma map_result_map: "(\<And>x. x \<in> set xs \<Longrightarrow> f x = Ok (g x)) \<Longrightarrow> map_result f xs = Ok (map g xs)"
  by (induction xs) simp_all

lemma if_words_plain: "if_ok r \<Longrightarrow> w \<in> set (if_words r) \<Longrightarrow> plain w \<and> w \<noteq> []"
  by (cases "nif_addr r") (auto simp: if_ok_def if_words_def is_ascii_space_def)

lemma darwin_line_row:
  assumes "if_ok r"
  shows "darwin_parseNetstatLine (join '' '' (if_words r)) = Ok (if_meaning r, Some (word_of_nat (nif_link r)))"
proof -
  have w: "str_fields (join '' '' (if_words r)) = if_words r" using if_words_plain [OF assms] by (intro fields_join) blast
  have len: "length (nif_counters r) = 8" and link: "parse_u64 (fmt_nat (nif_link r)) = Ok (word_of_nat (nif_link r))"
    using assms by (simp_all add: if_ok_def)
  obtain c0 c1 c2 c3 c4 c5 c6 c7 where c: "nif_counters r = [c0, c1, c2, c3, c4, c5, c6, c7]"
    using len by (auto simp: length_Suc_conv eval_nat_numeral)
  have t: "trim_set ''*'' (nif_name r @ (if nif_down r then ''*'' else [])) = nif_name r"
  proof -
    have "trim_left_set ''*'' (nif_name r @ s) = nif_name r @ s" for s
      using assms by (cases "nif_name r") (auto simp: if_ok_def trim_left_set_def)
    moreover have "trim_set ''*'' (nif_name r) = nif_name r" using assms by (intro trim_set_id) (auto simp: if_ok_def)
    moreover have "trim_right_set ''*'' (nif_name r @ ''*'') = trim_right_set ''*'' (nif_name r)" by simp
    ultimately show ?thesis unfolding trim_set_def by (metis append_Nil2)
  qed
  have nm: "nif_name r @ (if nif_down r then ''*'' else []) \<noteq> ''Name''"
    using assms by (auto simp: if_ok_def append_eq_Cons_conv dest: arg_cong [where f = rev])
  show ?thesis
    unfolding darwin_parseNetstatLine_def w
    by (cases "nif_addr r")
      (use nm t in \<open>simp_all add: if_words_def c link link_regexp [simplified] dash_columns_def dash_unat if_meaning_def Let_def\<close>)
qed

lemma unlines_join: "ls \<noteq> [] \<Longrightarrow> unlines ls = join [nl] ls @ [nl]"
  by (induction "[nl]" ls rule: join.induct) (simp_all add: unlines_def)

lemma trim_unlines:
  assumes "ls \<noteq> []" and "no_nl ls" and "[] \<notin> set ls"
  shows "split_char nl (trim_set [nl] (unlines ls)) = ls"
proof -
  have j: "join [nl] ls \<noteq> [] \<and> hd (join [nl] ls) \<noteq> nl \<and> last (join [nl] ls) \<noteq> nl"
    using assms by (induction "[nl]" ls rule: join.induct) (auto simp: no_nl_def hd_append last_append; metis hd_in_set last_in_set)+
  have "trim_set [nl] (s @ [nl]) = s" if "s \<noteq> []" "hd s \<noteq> nl" "last s \<noteq> nl" for s
  proof -
    have "trim_left_set [nl] (s @ [nl]) = s @ [nl]" using that(1,2) by (cases s) (simp_all add: trim_left_set_def)
    moreover have "trim_right_set [nl] s = s" using that(1,3) by (cases s rule: rev_cases) (simp_all add: trim_right_set_def)
    ultimately show ?thesis by (simp add: trim_set_def)
  qed
  with j assms show ?thesis by (simp add: unlines_join split_char_join no_nl_def)
qed

text \<open>Every table that \<^verbatim>\<open>netstat -ibdnW\<close> prints with distinct interface names is read back on Darwin without running another command:
  the interfaces in order, without the asterisk of those that are down, with their counters; other lines are ignored.\<close>

theorem darwin_IOCounters_roundtrip:
  assumes "look ''netstat'' = Inr netstat" and "h_command h netstat [''-ibdnW''] = (unlines (header # map (\<lambda>r. join '' '' (if_words r)) rs), None)"
    and "darwin_parseNetstatLine header = Err e" and "nl \<notin> set header" and "header \<noteq> []"
    and "list_all if_ok rs" and "distinct (map nif_name rs)"
  shows "darwin_IOCountersWithContext look h True = Ok (map if_meaning rs)"
proof -
  define ls where "ls = map (\<lambda>r. join '' '' (if_words r)) rs"
  define out where "out = unlines (header # ls)"
  have "no_nl ls"
    using assms(6) set_join [of "'' ''"] plain_no_space [of _ nl] if_words_plain
    unfolding ls_def by (fastforce simp: no_nl_def list_all_iff)
  moreover have "[] \<notin> set ls" using assms(6) by (auto simp: ls_def if_words_def if_ok_def list_all_iff)
  ultimately have s: "split_char nl (trim_set [nl] out) = header # ls"
    unfolding out_def using assms(4,5) by (intro trim_unlines) simp_all
  have "List.map_filter (\<lambda>line. case darwin_parseNetstatLine line of Ok r \<Rightarrow> Some r | _ \<Rightarrow> None) ls =
      map (\<lambda>r. (if_meaning r, Some (word_of_nat (nif_link r)))) rs"
    unfolding ls_def using assms(6) by (induction rs) (simp_all add: darwin_line_row)
  then have p: "link_rows (darwin_parseNetstatOutput out) = map if_meaning rs"
    unfolding darwin_parseNetstatOutput_def s by (simp add: assms(3) link_rows_def comp_def)
  have nm: "map io_Name (map if_meaning rs) = map nif_name rs" by (simp add: if_meaning_def darwin_stat_def zero_io_def)
  have "fold count_name (map if_meaning rs) [] = map (\<lambda>s. (io_Name s, 1)) (map if_meaning rs)"
    by (intro count_distinct) (simp only: nm assms(7))
  then have "\<not> isTruncated (newMapInterfaceNameUsage (darwin_parseNetstatOutput out))"
    and "length (notTruncated (newMapInterfaceNameUsage (darwin_parseNetstatOutput out))) = length rs"
    by (simp_all add: newMapInterfaceNameUsage_def p isTruncated_def notTruncated_def list_ex_iff)
  then show ?thesis
    using rfold_fill [of 0 "map if_meaning rs" "replicate (length rs) (zero_io [])"] assms(1) assms(2) [folded ls_def, folded out_def]
    by (simp add: darwin_IOCountersWithContext_def run_command_def Let_def p)
qed

definition lo0_row :: netstat_if where
  "lo0_row = \<lparr>nif_name = ''lo0'', nif_down = False, nif_mtu = 16384, nif_link = 1, nif_addr = None, nif_counters = [7, 0, 99, 7, 0, 99, 0, 2]\<rparr>"

theorem darwin_IOCounters_roundtrip_witness:
  "darwin_IOCountersWithContext Inr (no_files\<lparr>h_command := (\<lambda>_ _. (unlines (''Name Mtu'' # map (\<lambda>r. join '' '' (if_words r))
      [lo0_row, lo0_row\<lparr>nif_name := ''gif0'', nif_down := True\<rparr>]), None))\<rparr>) True =
    Ok [if_meaning lo0_row, if_meaning (lo0_row\<lparr>nif_name := ''gif0'', nif_down := True\<rparr>)]"
proof -
  have f: "str_fields (join '' '' [''Name'', ''Mtu'']) = [''Name'', ''Mtu'']" by (rule fields_join) (auto simp: is_ascii_space_def)
  then have hd: "darwin_parseNetstatLine ''Name Mtu'' = Err (ErrMsg ''can't parse header of netstat output'')"
    by (simp add: darwin_parseNetstatLine_def)
  have ok: "list_all if_ok [lo0_row, lo0_row\<lparr>nif_name := ''gif0'', nif_down := True\<rparr>]"
    "distinct (map nif_name [lo0_row, lo0_row\<lparr>nif_name := ''gif0'', nif_down := True\<rparr>])"
    by (simp_all add: if_ok_def lo0_row_def is_ascii_space_def)
  show ?thesis
    by (rule darwin_IOCounters_roundtrip [where netstat = "''netstat''" and header = "''Name Mtu''" and
          rs = "[lo0_row, lo0_row\<lparr>nif_name := ''gif0'', nif_down := True\<rparr>]", simplified list.map, OF _ _ hd _ _ ok [simplified list.map]]) simp_all
qed

text \<open>When a name is printed twice and is the full name of an interface, the result is filled beyond its length.\<close>

lemma darwin_truncated_overrun:
  assumes "look ''netstat'' = Inr netstat" and "h_command h netstat [''-ibdnW''] = (out, None)"
    and "link_rows (darwin_parseNetstatOutput out) = [a, b]" and "io_Name a = name" and "io_Name b = name"
    and "h_command h ''ifconfig'' [''-l''] = (names, None)" and "str_fields (trim_right_set [nl] names) = name # more_names"
  shows "darwin_IOCountersWithContext look h pernic = Panic"
  using assms by (simp add: darwin_IOCountersWithContext_def run_command_def Let_def newMapInterfaceNameUsage_def count_name_def
      isTruncated_def notTruncated_def truncated_name_def fill_next_def)

section \<open>Tables merged by interface\<close>

text \<open>A counter of an interface, 0 when it is not listed.\<close>

definition counter :: "(io_counters_stat \<Rightarrow> u64) \<Rightarrow> iocs \<Rightarrow> string \<Rightarrow> u64" where
  "counter sel iocs name = (case map_of iocs name of Some n \<Rightarrow> sel n | None \<Rightarrow> 0)"

text \<open>Every entry is kept under its name, once.\<close>

definition keyed :: "iocs \<Rightarrow> bool" where
  "keyed iocs \<longleftrightarrow> distinct (map fst iocs) \<and> list_all (\<lambda>(k, n). io_Name n = k) iocs"

lemma io_entry_name: "keyed iocs \<Longrightarrow> io_Name (io_entry iocs name) = name"
  by (auto simp: io_entry_def keyed_def list_all_iff zero_io_def dest: map_of_SomeD split: option.splits)

lemma keyed_put: "keyed iocs \<Longrightarrow> keyed (put_io n iocs)"
proof -
  have "list_all (\<lambda>(k, n). io_Name n = k) (alist_put (io_Name n) n m)" if "list_all (\<lambda>(k, n). io_Name n = k) m" for m
    using that by (induction "io_Name n" n m rule: alist_put.induct) auto
  then show "keyed iocs \<Longrightarrow> keyed (put_io n iocs)" by (simp add: keyed_def put_io_def distinct_alist_put)
qed

lemma counter_put: "counter sel (put_io n iocs) name = (if name = io_Name n then sel n else counter sel iocs name)"
  by (simp add: counter_def put_io_def)

lemma keys_put: "fst ` set (put_io n iocs) = insert (io_Name n) (fst ` set iocs)"
  by (simp add: put_io_def)

text \<open>A counter that a table sets whatever was there before, and one that it leaves alone. A row gives nothing, or an interface
  and an update of its entry.\<close>

type_synonym table_row = "string \<Rightarrow> string list \<Rightarrow> (string \<times> (io_counters_stat \<Rightarrow> io_counters_stat)) option result"

definition own :: "table_row \<Rightarrow> (io_counters_stat \<Rightarrow> u64) \<Rightarrow> bool" where
  "own row sel \<longleftrightarrow> (\<forall>l seen name f n m. row l seen = Ok (Some (name, f)) \<longrightarrow> sel (f n) = sel (f m))"

definition foreign :: "table_row \<Rightarrow> (io_counters_stat \<Rightarrow> u64) \<Rightarrow> bool" where
  "foreign row sel \<longleftrightarrow> (\<forall>l seen name f n. row l seen = Ok (Some (name, f)) \<longrightarrow> sel (f n) = sel n) \<and> (\<forall>name. sel (zero_io name) = 0)"

text \<open>What one line of a table contributes: nothing, or an interface and an update of its entry that keeps the name. Lines do not
  look at the entries of other tables.\<close>

locale netstat_table =
  fixes line :: "string \<Rightarrow> string list \<times> iocs \<Rightarrow> (string list \<times> iocs) result"
    and row :: table_row
  assumes line_row: "line l (seen, iocs) = rbind (row l seen) (\<lambda>r. case r of None \<Rightarrow> Ok (seen, iocs)
      | Some (name, f) \<Rightarrow> Ok (seen @ [name], put_io (f (io_entry iocs name)) iocs))"
    and keeps_name: "row l seen = Ok (Some (name, f)) \<Longrightarrow> io_Name (f n) = io_Name n"
begin

lemma keyed_fold: "rfold line ls (seen, iocs) = Ok (seen', iocs') \<Longrightarrow> keyed iocs \<Longrightarrow> keyed iocs'"
  by (induction ls arbitrary: seen iocs) (auto simp: line_row outcome_iff keyed_put split: option.splits)

lemma foreign_fold:
  assumes "rfold line ls (seen, iocs) = Ok (seen', iocs')" and "keyed iocs" and "foreign row sel"
  shows "counter sel iocs' = counter sel iocs"
  using assms(1,2)
proof (induction ls arbitrary: seen iocs)
  case (Cons l ls)
  have "counter sel (put_io (f (io_entry iocs name)) iocs) = counter sel iocs" if "row l seen = Ok (Some (name, f))" for name f
    using that assms(3) Cons.prems(2) keeps_name [OF that]
    by (auto simp: fun_eq_iff counter_put io_entry_name foreign_def) (auto simp: io_entry_def counter_def split: option.splits)
  with Cons show ?case by (auto simp: line_row outcome_iff keyed_put split: option.splits)
qed simp

lemma own_fold:
  assumes "rfold line ls (seen, iocs) = Ok (seen', iocs')" and "keyed iocs" and "keyed jocs"
    and "fst ` set iocs = A \<union> fst ` set jocs"
  shows "\<exists>jocs'. rfold line ls (seen, jocs) = Ok (seen', jocs') \<and> fst ` set iocs' = A \<union> fst ` set jocs' \<and>
    (\<forall>sel. own row sel \<longrightarrow> counter sel iocs = counter sel jocs \<longrightarrow> counter sel iocs' = counter sel jocs')"
  using assms
proof (induction ls arbitrary: seen iocs jocs)
  case (Cons l ls)
  then obtain r where r: "row l seen = Ok r" by (auto simp: line_row outcome_iff)
  show ?case
  proof (cases r)
    case None
    with r Cons.prems Cons.IH [of seen iocs jocs] show ?thesis by (simp add: line_row)
  next
    case (Some p)
    obtain name f where p: "p = (name, f)" by (cases p)
    let ?iocs = "put_io (f (io_entry iocs name)) iocs" and ?jocs = "put_io (f (io_entry jocs name)) jocs"
    have k: "keyed ?iocs" "keyed ?jocs" using Cons.prems by (simp_all add: keyed_put)
    have n: "io_Name (f (io_entry iocs name)) = name" "io_Name (f (io_entry jocs name)) = name"
      using keeps_name r Some p Cons.prems by (auto simp: io_entry_name)
    have "fst ` set ?iocs = A \<union> fst ` set ?jocs" using Cons.prems(4) by (simp add: keys_put n)
    moreover have "rfold line ls (seen @ [name], ?iocs) = Ok (seen', iocs')" using Cons.prems(1) r Some p by (simp add: line_row)
    ultimately have "\<exists>jocs'. rfold line ls (seen @ [name], ?jocs) = Ok (seen', jocs') \<and> fst ` set iocs' = A \<union> fst ` set jocs' \<and>
        (\<forall>sel. own row sel \<longrightarrow> counter sel ?iocs = counter sel ?jocs \<longrightarrow> counter sel iocs' = counter sel jocs')"
      using k by (intro Cons.IH)
    then obtain jocs' where j: "rfold line ls (seen @ [name], ?jocs) = Ok (seen', jocs')" "fst ` set iocs' = A \<union> fst ` set jocs'"
      "\<forall>sel. own row sel \<longrightarrow> counter sel ?iocs = counter sel ?jocs \<longrightarrow> counter sel iocs' = counter sel jocs'"
      by (elim exE conjE)
    have "counter sel ?iocs = counter sel ?jocs" if "own row sel" "counter sel iocs = counter sel jocs" for sel
      using that r Some p by (auto simp: fun_eq_iff counter_put n own_def)
    with j(3) have "\<forall>sel. own row sel \<longrightarrow> counter sel iocs = counter sel jocs \<longrightarrow> counter sel iocs' = counter sel jocs'" by simp
    with j(1,2) r Some p show ?thesis by (simp add: line_row)
  qed
qed auto

lemma own_from_empty:
  assumes "rfold line ls ([], iocs) = Ok (seen', iocs')" and "keyed iocs"
  shows "\<exists>t. rfold line ls ([], []) = Ok (seen', t) \<and> fst ` set iocs' = fst ` set iocs \<union> fst ` set t \<and>
    (\<forall>sel. own row sel \<longrightarrow> (\<forall>name. counter sel iocs name = 0) \<longrightarrow> counter sel iocs' = counter sel t)"
  using own_fold [OF assms(1,2), of "[]" "fst ` set iocs"] by (auto simp: keyed_def counter_def fun_eq_iff)

text \<open>Parsing a whole table into a map: the map stays keyed, counters of other tables do not change, and those of this table are
  as if it had been parsed into an empty map.\<close>

lemma parse_table:
  assumes "rbind (rfold line ls ([], iocs)) (\<lambda>(_, iocs'). Ok iocs') = Ok iocs'" and "keyed iocs"
  shows "keyed iocs' \<and> (\<forall>sel. foreign row sel \<longrightarrow> counter sel iocs' = counter sel iocs) \<and>
    (\<exists>t. rbind (rfold line ls ([], [])) (\<lambda>(_, iocs'). Ok iocs') = Ok t \<and> fst ` set iocs' = fst ` set iocs \<union> fst ` set t \<and>
      (\<forall>sel. own row sel \<longrightarrow> (\<forall>name. counter sel iocs name = 0) \<longrightarrow> counter sel iocs' = counter sel t))"
proof -
  obtain seen' where r: "rfold line ls ([], iocs) = Ok (seen', iocs')" using assms(1) by (auto simp: outcome_iff)
  show ?thesis
    using keyed_fold [OF r assms(2)] foreign_fold [OF r assms(2)] own_from_empty [OF r assms(2)] by fastforce
qed

end

definition obsd_row :: "string \<Rightarrow> table_row" where
  "obsd_row mode l seen = (case str_fields l of
     [] \<Rightarrow> Ok None
   | name # vs \<Rightarrow>
       if name = ''Name'' \<or> StringsHas seen name \<or> length (name # vs) < (if mode = ''inb'' then 6 else 9) then Ok None
       else rbind (dash_columns (name # vs) (map ((+) 1) (obsd_columns mode))) (\<lambda>parsed. Ok (Some (name, obsd_set mode parsed))))"

definition nbsd_row :: "string \<Rightarrow> table_row" where
  "nbsd_row mode l seen = (case str_fields l of
     [] \<Rightarrow> Ok None
   | name # vs \<Rightarrow>
       if name = ''Name'' \<or> StringsHas seen name \<or> length (name # vs) < nbsd_min mode then Ok None
       else rbind (dash_columns (name # vs) (map ((+) (if nbsd_addr mode \<le> length (name # vs) then 1 else 0)) (nbsd_columns mode)))
         (\<lambda>parsed. Ok (Some (name, nbsd_set mode parsed))))"

lemma obsd_row_set: "obsd_row mode l seen = Ok (Some (name, f)) \<Longrightarrow> \<exists>v. f = obsd_set mode v"
  by (auto simp: obsd_row_def outcome_iff split: list.splits if_splits)

lemma nbsd_row_set: "nbsd_row mode l seen = Ok (Some (name, f)) \<Longrightarrow> \<exists>v. f = nbsd_set mode v"
  by (auto simp: nbsd_row_def outcome_iff split: list.splits if_splits)

interpretation obsd: netstat_table "obsd_line mode" "obsd_row mode" for mode
proof unfold_locales
  show "obsd_line mode l (seen, iocs) = rbind (obsd_row mode l seen) (\<lambda>r. case r of None \<Rightarrow> Ok (seen, iocs)
      | Some (name, f) \<Rightarrow> Ok (seen @ [name], put_io (f (io_entry iocs name)) iocs))" for l seen iocs
    by (simp add: obsd_line_def obsd_row_def rbind_assoc split: list.splits)
  show "io_Name (f n) = io_Name n" if "obsd_row mode l seen = Ok (Some (name, f))" for l seen name f n
    using obsd_row_set [OF that] by (auto simp: obsd_set_def)
qed

interpretation nbsd: netstat_table "nbsd_line mode" "nbsd_row mode" for mode
proof unfold_locales
  show "nbsd_line mode l (seen, iocs) = rbind (nbsd_row mode l seen) (\<lambda>r. case r of None \<Rightarrow> Ok (seen, iocs)
      | Some (name, f) \<Rightarrow> Ok (seen @ [name], put_io (f (io_entry iocs name)) iocs))" for l seen iocs
    by (simp add: nbsd_line_def nbsd_row_def rbind_assoc Let_def split: list.splits)
  show "io_Name (f n) = io_Name n" if "nbsd_row mode l seen = Ok (Some (name, f))" for l seen name f n
    using nbsd_row_set [OF that] by (auto simp: nbsd_set_def)
qed

lemma zero_io_sel [simp]: "sel \<in> set io_columns \<Longrightarrow> sel (zero_io name) = 0"
  by (auto simp: io_columns_def zero_io_def io_all_def)

text \<open>The counters of each table.\<close>

definition obsd_fields :: "string \<Rightarrow> (io_counters_stat \<Rightarrow> u64) list" where
  "obsd_fields mode = (if mode = ''inb'' then [io_BytesRecv, io_BytesSent]
     else if mode = ''ind'' then [io_PacketsRecv, io_Dropin, io_PacketsSent, io_Dropout] else [io_Errin, io_Errout])"

lemma obsd_own: "mode \<in> {''inb'', ''ind'', ''ine''} \<Longrightarrow> sel \<in> set (obsd_fields mode) \<Longrightarrow> own (obsd_row mode) sel"
  unfolding own_def by (auto dest!: obsd_row_set simp: obsd_set_def obsd_fields_def split: if_splits)

lemma obsd_foreign:
  assumes "mode \<in> {''inb'', ''ind'', ''ine''}" and "mode' \<in> {''inb'', ''ind'', ''ine''}" and "mode \<noteq> mode'" and "sel \<in> set (obsd_fields mode')"
  shows "foreign (obsd_row mode) sel"
proof -
  have "sel (zero_io name) = 0" for name
    using assms(4) by (intro zero_io_sel) (auto simp: io_columns_def obsd_fields_def split: if_splits)
  then show ?thesis
    using assms unfolding foreign_def by (auto dest!: obsd_row_set simp: obsd_set_def obsd_fields_def)
qed

lemma obsd_parse:
  assumes "obsd_ParseNetstat out mode iocs = Ok iocs'" and "keyed iocs"
  shows "keyed iocs' \<and> (\<forall>sel. foreign (obsd_row mode) sel \<longrightarrow> counter sel iocs' = counter sel iocs) \<and>
    (\<exists>t. obsd_ParseNetstat out mode [] = Ok t \<and> fst ` set iocs' = fst ` set iocs \<union> fst ` set t \<and>
      (\<forall>sel. own (obsd_row mode) sel \<longrightarrow> (\<forall>name. counter sel iocs name = 0) \<longrightarrow> counter sel iocs' = counter sel t))"
  using obsd.parse_table [of mode "split_char nl out" iocs iocs'] assms unfolding obsd_ParseNetstat_def by blast

lemma nbsd_parse:
  assumes "nbsd_parseNetstat out mode iocs = Ok iocs'" and "keyed iocs"
  shows "keyed iocs' \<and> (\<forall>sel. foreign (nbsd_row mode) sel \<longrightarrow> counter sel iocs' = counter sel iocs) \<and>
    (\<exists>t. nbsd_parseNetstat out mode [] = Ok t \<and> fst ` set iocs' = fst ` set iocs \<union> fst ` set t \<and>
      (\<forall>sel. own (nbsd_row mode) sel \<longrightarrow> (\<forall>name. counter sel iocs name = 0) \<longrightarrow> counter sel iocs' = counter sel t))"
  using nbsd.parse_table [of mode "split_char nl out" iocs iocs'] assms unfolding nbsd_parseNetstat_def by blast

lemma keyed_Nil [simp]: "keyed []" and counter_Nil [simp]: "counter sel [] name = 0"
  by (simp_all add: keyed_def counter_def)

lemma keyed_counter: "keyed iocs \<Longrightarrow> n \<in> snd ` set iocs \<Longrightarrow> sel n = counter sel iocs (io_Name n)"
  by (auto simp: keyed_def counter_def list_all_iff)

lemma keyed_names:
  assumes "keyed iocs" and "mset (order iocs) = mset iocs"
  shows "distinct (map io_Name (map snd (order iocs))) \<and> set (map io_Name (map snd (order iocs))) = fst ` set iocs \<and>
    set (map snd (order iocs)) = snd ` set iocs"
proof -
  have s: "set (order iocs) = set iocs" using assms(2) by (rule mset_eq_setD)
  have n: "map (io_Name \<circ> snd) ps = map fst ps" if "set ps = set iocs" for ps
    using that assms(1) by (auto simp: keyed_def list_all_iff)
  have "mset (map fst (order iocs)) = mset (map fst iocs)" using assms(2) by simp
  from mset_eq_imp_distinct_iff [OF this] assms(1) have "distinct (map fst (order iocs))" unfolding keyed_def by blast
  then have "distinct (map (io_Name \<circ> snd) (order iocs))" by (simp only: n [OF s])
  moreover have "set (map (io_Name \<circ> snd) (order iocs)) = fst ` set (order iocs)" by (simp only: n [OF s] set_map)
  ultimately show ?thesis by (simp add: s flip: image_image)
qed

text \<open>C14: merging the three tables of OpenBSD by interface loses and confuses nothing: in whatever order Go ranges over its map, each
  interface of a table is reported once, its bytes are those of the first table, its packets and drops those of the second and
  its errors those of the third, each as if it were parsed alone.\<close>

theorem obsd_counters_by_table:
  assumes "obsd_IOCountersWithContext look order h True = Ok ret" and "\<And>iocs. mset (order iocs) = mset iocs"
    and "look ''netstat'' = Inr netstat"
  shows "\<exists>b d e. obsd_ParseNetstat (fst (h_command h netstat [''-inb''])) ''inb'' [] = Ok b \<and>
    obsd_ParseNetstat (fst (h_command h netstat [''-ind''])) ''ind'' [] = Ok d \<and>
    obsd_ParseNetstat (fst (h_command h netstat [''-ine''])) ''ine'' [] = Ok e \<and>
    distinct (map io_Name ret) \<and> set (map io_Name ret) = fst ` (set b \<union> set d \<union> set e) \<and>
    list_all (\<lambda>n. list_all (\<lambda>sel. sel n = counter sel b (io_Name n)) [io_BytesRecv, io_BytesSent] \<and>
      list_all (\<lambda>sel. sel n = counter sel d (io_Name n)) [io_PacketsRecv, io_Dropin, io_PacketsSent, io_Dropout] \<and>
      list_all (\<lambda>sel. sel n = counter sel e (io_Name n)) [io_Errin, io_Errout]) ret"
proof -
  obtain b iocs2 iocs3 where b: "obsd_ParseNetstat (fst (h_command h netstat [''-inb''])) ''inb'' [] = Ok b"
    and p2: "obsd_ParseNetstat (fst (h_command h netstat [''-ind''])) ''ind'' b = Ok iocs2"
    and p3: "obsd_ParseNetstat (fst (h_command h netstat [''-ine''])) ''ine'' iocs2 = Ok iocs3"
    and ret: "ret = map snd (order iocs3)"
    using assms(1,3) by (auto simp: obsd_IOCountersWithContext_def run_command_def Let_def outcome_iff split: prod.splits option.splits)
  note 1 = obsd_parse [OF b keyed_Nil]
  note 2 = obsd_parse [OF p2 1 [THEN conjunct1]]
  note 3 = obsd_parse [OF p3 2 [THEN conjunct1]]
  have fr: "foreign (obsd_row m) sel" if "sel \<in> set (obsd_fields m')" "m \<noteq> m'" "m \<in> {''inb'', ''ind'', ''ine''}" "m' \<in> {''inb'', ''ind'', ''ine''}"
    for m m' sel using that by (intro obsd_foreign)
  obtain d where d: "obsd_ParseNetstat (fst (h_command h netstat [''-ind''])) ''ind'' [] = Ok d" "fst ` set iocs2 = fst ` set b \<union> fst ` set d"
    "\<And>sel. sel \<in> set (obsd_fields ''ind'') \<Longrightarrow> counter sel iocs2 = counter sel d"
    using 2 1 fr [of _ "''ind''" "''inb''"] obsd_own [of "''ind''"] by auto
  obtain e where e: "obsd_ParseNetstat (fst (h_command h netstat [''-ine''])) ''ine'' [] = Ok e" "fst ` set iocs3 = fst ` set iocs2 \<union> fst ` set e"
    "\<And>sel. sel \<in> set (obsd_fields ''ine'') \<Longrightarrow> counter sel iocs3 = counter sel e"
    using 3 2 1 fr [of _ "''ine''" "''inb''"] fr [of _ "''ine''" "''ind''"] obsd_own [of "''ine''"] by auto
  have c1: "counter sel iocs3 = counter sel b" if "sel \<in> set (obsd_fields ''inb'')" for sel
    using that 3 2 fr [of sel "''inb''" "''ine''"] fr [of sel "''inb''" "''ind''"] by simp
  have c2: "counter sel iocs3 = counter sel d" if "sel \<in> set (obsd_fields ''ind'')" for sel
    using that 3 d(3) fr [of sel "''ind''" "''ine''"] by simp
  note k = keyed_names [OF 3 [THEN conjunct1], of order, OF assms(2)]
  have n: "sel n = counter sel iocs3 (io_Name n)" if "n \<in> set ret" for sel n
    using that k 3 by (intro keyed_counter) (auto simp: ret)
  have "list_all (\<lambda>n. list_all (\<lambda>sel. sel n = counter sel b (io_Name n)) (obsd_fields ''inb'') \<and>
      list_all (\<lambda>sel. sel n = counter sel d (io_Name n)) (obsd_fields ''ind'') \<and>
      list_all (\<lambda>sel. sel n = counter sel e (io_Name n)) (obsd_fields ''ine'')) ret"
    by (auto simp: list_all_iff n [symmetric] c1 [symmetric] c2 [symmetric] e(3) [symmetric] simp del: set_map)
  moreover have "set (map io_Name ret) = fst ` (set b \<union> set d \<union> set e)" using k d(2) e(2) by (simp add: ret image_Un)
  ultimately show ?thesis using b d(1) e(1) k by (simp add: ret obsd_fields_def)
qed

definition obsd_sample :: host where
  "obsd_sample = no_files\<lparr>h_command := (\<lambda>_ args.
     (if args = [''-inb''] then ''em0 1500 <Link> aa 10 20''
      else if args = [''-ind''] then ''em0 1500 <Link> aa 1 2 3 4 5'' else ''em0 1500 <Link> aa 1 7 3 8 5'', None))\<rparr>"

definition em0_row :: io_counters_stat where
  "em0_row = (zero_io ''em0'')\<lparr>io_BytesRecv := 10, io_BytesSent := 20, io_PacketsRecv := 1, io_Dropin := 2, io_PacketsSent := 3, io_Dropout := 4,
     io_Errin := 7, io_Errout := 8\<rparr>"

lemma obsd_sample_run: "obsd_IOCountersWithContext Inr id obsd_sample True = Ok [em0_row]"
  by code_simp

theorem obsd_counters_by_table_witness:
  "\<exists>b d e. obsd_ParseNetstat (fst (h_command obsd_sample ''netstat'' [''-inb''])) ''inb'' [] = Ok b \<and>
    obsd_ParseNetstat (fst (h_command obsd_sample ''netstat'' [''-ind''])) ''ind'' [] = Ok d \<and>
    obsd_ParseNetstat (fst (h_command obsd_sample ''netstat'' [''-ine''])) ''ine'' [] = Ok e \<and>
    {io_Name em0_row} = fst ` (set b \<union> set d \<union> set e) \<and> counter io_BytesRecv b ''em0'' = 10 \<and> counter io_Dropin d ''em0'' = 2 \<and>
    counter io_Errout e ''em0'' = 8"
proof -
  have s: "io_BytesRecv em0_row = 10" "io_Dropin em0_row = 2" "io_Errout em0_row = 8" "io_Name em0_row = ''em0''"
    by (simp_all add: em0_row_def zero_io_def)
  show ?thesis
    using obsd_counters_by_table [OF obsd_sample_run, of "''netstat''"] by (auto simp: s)
qed

text \<open>The same of the two tables of NetBSD, whose second table holds packets, errors and drops.\<close>

definition nbsd_fields :: "string \<Rightarrow> (io_counters_stat \<Rightarrow> u64) list" where
  "nbsd_fields mode = (if mode = ''inb'' then [io_BytesRecv, io_BytesSent]
     else [io_PacketsRecv, io_Errin, io_Dropin, io_PacketsSent, io_Errout, io_Dropout])"

lemma nbsd_own: "mode \<in> {''inb'', ''ind''} \<Longrightarrow> sel \<in> set (nbsd_fields mode) \<Longrightarrow> own (nbsd_row mode) sel"
  unfolding own_def by (auto dest!: nbsd_row_set simp: nbsd_set_def nbsd_fields_def split: if_splits)

lemma nbsd_foreign:
  assumes "mode \<in> {''inb'', ''ind''}" and "mode' \<in> {''inb'', ''ind''}" and "mode \<noteq> mode'" and "sel \<in> set (nbsd_fields mode')"
  shows "foreign (nbsd_row mode) sel"
proof -
  have "sel (zero_io name) = 0" for name
    using assms(4) by (intro zero_io_sel) (auto simp: io_columns_def nbsd_fields_def split: if_splits)
  then show ?thesis
    using assms unfolding foreign_def by (auto dest!: nbsd_row_set simp: nbsd_set_def nbsd_fields_def)
qed

lemma nbsd_counters_by_table:
  assumes "nbsd_IOCountersWithContext look order h True = Ok ret" and "\<And>iocs. mset (order iocs) = mset iocs"
    and "look ''netstat'' = Inr netstat"
  shows "\<exists>b d. nbsd_parseNetstat (fst (h_command h netstat [''-inb''])) ''inb'' [] = Ok b \<and>
    nbsd_parseNetstat (fst (h_command h netstat [''-ind''])) ''ind'' [] = Ok d \<and>
    distinct (map io_Name ret) \<and> set (map io_Name ret) = fst ` (set b \<union> set d) \<and>
    list_all (\<lambda>n. list_all (\<lambda>sel. sel n = counter sel b (io_Name n)) (nbsd_fields ''inb'') \<and>
      list_all (\<lambda>sel. sel n = counter sel d (io_Name n)) (nbsd_fields ''ind'')) ret"
proof -
  obtain b iocs2 where b: "nbsd_parseNetstat (fst (h_command h netstat [''-inb''])) ''inb'' [] = Ok b"
    and p2: "nbsd_parseNetstat (fst (h_command h netstat [''-ind''])) ''ind'' b = Ok iocs2"
    and ret: "ret = map snd (order iocs2)"
    using assms(1,3) by (auto simp: nbsd_IOCountersWithContext_def run_command_def Let_def outcome_iff split: prod.splits option.splits)
  note 1 = nbsd_parse [OF b keyed_Nil]
  note 2 = nbsd_parse [OF p2 1 [THEN conjunct1]]
  obtain d where d: "nbsd_parseNetstat (fst (h_command h netstat [''-ind''])) ''ind'' [] = Ok d" "fst ` set iocs2 = fst ` set b \<union> fst ` set d"
    "\<And>sel. sel \<in> set (nbsd_fields ''ind'') \<Longrightarrow> counter sel iocs2 = counter sel d"
    using 2 1 nbsd_foreign [of "''inb''" "''ind''"] nbsd_own [of "''ind''"] by auto
  have c1: "counter sel iocs2 = counter sel b" if "sel \<in> set (nbsd_fields ''inb'')" for sel
    using that 2 nbsd_foreign [of "''ind''" "''inb''" sel] by simp
  note k = keyed_names [OF 2 [THEN conjunct1], of order, OF assms(2)]
  have n: "sel n = counter sel iocs2 (io_Name n)" if "n \<in> set ret" for sel n
    using that k 2 by (intro keyed_counter) (auto simp: ret)
  have "list_all (\<lambda>n. list_all (\<lambda>sel. sel n = counter sel b (io_Name n)) (nbsd_fields ''inb'') \<and>
      list_all (\<lambda>sel. sel n = counter sel d (io_Name n)) (nbsd_fields ''ind'')) ret"
    by (auto simp: list_all_iff n [symmetric] c1 [symmetric] d(3) [symmetric] simp del: set_map)
  with b d k show ?thesis by (simp add: ret image_Un)
qed

text \<open>A row of the bytes table with an empty address column, such as that of the loopback interface, gives its counters on NetBSD and
  is skipped on OpenBSD.\<close>

lemma loopback_row:
  assumes "list_all (\<lambda>w. plain w \<and> w \<noteq> []) [name, mtu, network]" and "name \<noteq> ''Name''" and "\<not> StringsHas seen name"
    and "line = join '' '' [name, mtu, network, fmt_nat (unat recv), fmt_nat (unat sent)]"
  shows "obsd_line ''inb'' line (seen, iocs) = Ok (seen, iocs)"
    and "nbsd_line ''inb'' line (seen, iocs) =
      Ok (seen @ [name], put_io ((io_entry iocs name)\<lparr>io_BytesRecv := recv, io_BytesSent := sent\<rparr>) iocs)"
proof -
  have w: "str_fields line = [name, mtu, network, fmt_nat (unat recv), fmt_nat (unat sent)]"
    unfolding assms(4) by (rule fields_join) (use assms(1) in \<open>auto simp: is_ascii_space_def\<close>)
  show "obsd_line ''inb'' line (seen, iocs) = Ok (seen, iocs)" by (simp add: obsd_line_def w)
  show "nbsd_line ''inb'' line (seen, iocs) =
      Ok (seen @ [name], put_io ((io_entry iocs name)\<lparr>io_BytesRecv := recv, io_BytesSent := sent\<rparr>) iocs)"
    using assms(2,3) by (simp add: nbsd_line_def w nbsd_min_def nbsd_addr_def nbsd_columns_def nbsd_set_def dash_columns_def dash_unat)
qed

text \<open>An address that cannot be parsed fails a connection on NetBSD; on OpenBSD it is lost when the remote address can be parsed.\<close>

lemma bad_local_address:
  assumes "parseAddr local family = Err e" and "parseAddr remote family = Ok a" and "remote \<noteq> ''*.*''"
  shows "obsd_parseNetstatAddr local remote family = Ok (no_addr, a)" and "nbsd_parseNetstatAddr local remote family = Err e"
  using assms by (simp_all add: obsd_parseNetstatAddr_def obsd_parseAddr_def nbsd_parseNetstatAddr_def addr_or_empty_def Let_def)

section \<open>Rows of lsof are read back\<close>





















end
