(* ===== verification/Sysctl_Bsd.thy ===== *)
theory Sysctl_Bsd
  imports Go_Binary
begin

text \<open>
  Kernel values of the BSD family: the \<^verbatim>\<open>CallSyscall\<close> of \<^verbatim>\<open>common_freebsd.go\<close>, \<^verbatim>\<open>common_openbsd.go\<close> and \<^verbatim>\<open>common_netbsd.go\<close>, \<^verbatim>\<open>SysctlUint\<close>, and
  the structs the packages find in the bytes, little-endian as on the 64-bit x86 targets. A little-endian struct is the big-endian
  one of the bytes with every element reversed, so that the lemmas on layouts carry over.
\<close>

section \<open>Little-endian structs\<close>

fun rev_units :: "nat \<Rightarrow> nat \<Rightarrow> string \<Rightarrow> string" where
  "rev_units w 0 bs = []"
| "rev_units w (Suc k) bs = rev (take w bs) @ rev_units w k (drop w bs)"

fun swap_bytes :: "layout \<Rightarrow> string \<Rightarrow> string" where
  "swap_bytes [] bs = []"
| "swap_bytes ((_, f) # fs) bs = rev_units (ft_width f) (ft_count f) bs @ swap_bytes fs (drop (field_size f) bs)"

definition le_decode :: "layout \<Rightarrow> string \<Rightarrow> struct" where
  "le_decode fs bs = decode fs (swap_bytes fs bs)"

definition le_encode :: "layout \<Rightarrow> struct \<Rightarrow> string" where
  "le_encode fs s = swap_bytes fs (encode fs s)"

text \<open>\<^verbatim>\<open>binary.Read\<close> of a struct from a buffer.\<close>

definition le_read :: "layout \<Rightarrow> string \<Rightarrow> struct result" where
  "le_read fs bs = (if layout_size fs \<le> length bs then Ok (le_decode fs bs) else Err (if bs = [] then EOF else ErrMsg ''unexpected EOF''))"

text \<open>A pointer to the first byte of a buffer, read as a struct: there is no such pointer when the buffer is empty, and what follows a
  shorter buffer in memory, \<open>after\<close>, is read as well.\<close>

definition unsafe_view :: "(nat \<Rightarrow> char) \<Rightarrow> layout \<Rightarrow> string \<Rightarrow> struct result" where
  "unsafe_view after fs bs = (if bs = [] then Panic
     else Ok (le_decode fs (bs @ map after [0..<layout_size fs - length bs])))"

definition i8s_f :: "nat \<Rightarrow> field_ty" where
  "i8s_f n = \<lparr>ft_signed = True, ft_width = 1, ft_count = n\<rparr>"

definition u32s_f :: "nat \<Rightarrow> field_ty" where
  "u32s_f n = \<lparr>ft_signed = False, ft_width = 4, ft_count = n\<rparr>"

definition i64s_f :: "nat \<Rightarrow> field_ty" where
  "i64s_f n = \<lparr>ft_signed = True, ft_width = 8, ft_count = n\<rparr>"

lemmas le_field_defs = field_ty_defs i8s_f_def u32s_f_def i64s_f_def

section \<open>The kernel\<close>

text \<open>\<open>sysctl mib oldlen\<close> is the system call, on a null pointer for \<open>None\<close>: the bytes it writes, the length it reports and its error number,
  if it fails.\<close>

type_synonym kernel = "int list \<Rightarrow> nat option \<Rightarrow> string \<times> nat \<times> gerr option"

definition sys_buffer :: "nat \<Rightarrow> string \<Rightarrow> string" where
  "sys_buffer n d = take n (d @ replicate (n - length d) (CHR 0x00))"

text \<open>A length of 0 is reported with the error number 0 as an error value, which is not nil.\<close>

definition CallSyscall :: "kernel \<Rightarrow> int list \<Rightarrow> string \<times> nat \<times> gerr option" where
  "CallSyscall k mib = (case k mib None of (_, len, err) \<Rightarrow>
     (case err of
        Some e \<Rightarrow> ([], len, Some e)
      | None \<Rightarrow> if len = 0 then ([], 0, Some (Errno 0))
                else (case k mib (Some len) of (d, len', err') \<Rightarrow> (sys_buffer len d, len', err'))))"

text \<open>The other ways into the kernel: \<^verbatim>\<open>unix.SysctlRaw\<close>, \<^verbatim>\<open>unix.Sysctl\<close>, \<^verbatim>\<open>unix.SysctlUint32\<close>, \<^verbatim>\<open>unix.SysctlUint64\<close> and \<^verbatim>\<open>unix.SysctlUvmexp\<close>.\<close>

record uvmexp =
  ux_Pagesize :: int
  ux_Npages :: int
  ux_Free :: int
  ux_Active :: int
  ux_Inactive :: int
  ux_Wired :: int

record bsd =
  bs_kernel :: kernel
  bs_raw :: "string \<Rightarrow> int list \<Rightarrow> gerr + string"
  bs_str :: "string \<Rightarrow> gerr + string"
  bs_u32 :: "string \<Rightarrow> gerr + u32"
  bs_u64 :: "string \<Rightarrow> gerr + u64"
  bs_uvmexp :: "string \<Rightarrow> gerr + uvmexp"
  bs_after :: "nat \<Rightarrow> char"

definition SysctlUint :: "bsd \<Rightarrow> string \<Rightarrow> u64 result" where
  "SysctlUint sys mib = rbind (of_sum (bs_raw sys mib [])) (\<lambda>buf.
     if length buf = 8 then Ok (word_of_int (val_of (le_decode [(''v'', u64_f)] buf) ''v''))
     else if length buf = 4 then Ok (word_of_int (val_of (le_decode [(''v'', u32_f)] buf) ''v''))
     else Err (ErrMsg (''unexpected size: '' @ mib @ '', '' @ fmt_nat (length buf))))"

section \<open>Reading and writing\<close>

lemma length_rev_units: "w * k \<le> length bs \<Longrightarrow> length (rev_units w k bs) = w * k"
  by (induction k arbitrary: bs) simp_all

lemma rev_units_twice: "w * k \<le> length bs \<Longrightarrow> rev_units w k (rev_units w k bs @ rest) = take (w * k) bs"
proof (induction k arbitrary: bs)
  case (Suc k)
  then have "rev_units w k (rev_units w k (drop w bs) @ rest) = take (w * k) (drop w bs)" by simp
  moreover have "take w (rev_units w (Suc k) bs @ rest) = rev (take w bs)" "drop w (rev_units w (Suc k) bs @ rest) = rev_units w k (drop w bs) @ rest"
    using Suc.prems by simp_all
  ultimately show ?case using Suc.prems by (simp add: take_add)
qed simp

lemma length_swap_bytes: "layout_size fs \<le> length bs \<Longrightarrow> length (swap_bytes fs bs) = layout_size fs"
  by (induction fs bs rule: swap_bytes.induct) (simp_all add: length_rev_units field_size_def)

lemma swap_bytes_twice: "layout_size fs \<le> length bs \<Longrightarrow> swap_bytes fs (swap_bytes fs bs) = take (layout_size fs) bs"
proof (induction fs bs rule: swap_bytes.induct)
  case (2 n f fs bs)
  then have "length (rev_units (ft_width f) (ft_count f) bs) = field_size f" by (simp add: length_rev_units field_size_def)
  with 2 show ?case by (simp add: rev_units_twice field_size_def take_add)
qed simp

lemma rev_units_append: "w * k \<le> length bs \<Longrightarrow> rev_units w k (bs @ rest) = rev_units w k bs"
  by (induction k arbitrary: bs) simp_all

lemma swap_bytes_append: "layout_size fs \<le> length bs \<Longrightarrow> swap_bytes fs (bs @ rest) = swap_bytes fs bs"
  by (induction fs bs rule: swap_bytes.induct) (simp_all add: rev_units_append field_size_def)

lemma length_le_encode: "has_layout fs s \<Longrightarrow> length (le_encode fs s) = layout_size fs"
  by (simp add: le_encode_def length_swap_bytes length_encode)

lemma le_decode_encode: "widths_pos fs \<Longrightarrow> has_layout fs s \<Longrightarrow> le_decode fs (le_encode fs s @ rest) = s"
  using decode_encode [of fs s "[]"]
  by (simp add: le_decode_def swap_bytes_append length_le_encode) (simp add: le_encode_def swap_bytes_twice length_encode)

lemma le_decode_typed: "widths_pos fs \<Longrightarrow> layout_size fs \<le> length bs \<Longrightarrow> has_layout fs (le_decode fs bs)"
  by (simp add: le_decode_def decode_typed length_swap_bytes)

lemma le_read_encode: "widths_pos fs \<Longrightarrow> has_layout fs s \<Longrightarrow> le_read fs (le_encode fs s @ rest) = Ok s"
  by (simp add: le_read_def length_le_encode le_decode_encode)

lemma le_read_Ok_iff [outcome_iff]: "le_read fs bs = Ok s \<longleftrightarrow> layout_size fs \<le> length bs \<and> s = le_decode fs bs"
  by (auto simp: le_read_def)

lemma le_read_not_Panic [simp]: "le_read fs bs \<noteq> Panic"
  by (simp add: le_read_def)

lemma unsafe_view_encode:
  "widths_pos fs \<Longrightarrow> has_layout fs s \<Longrightarrow> 0 < layout_size fs \<Longrightarrow> unsafe_view after fs (le_encode fs s @ rest) = Ok s"
  using length_le_encode [of fs s] by (auto simp: unsafe_view_def le_decode_encode)

lemma length_sys_buffer [simp]: "length (sys_buffer n d) = n"
  by (simp add: sys_buffer_def)

lemma sys_buffer_full [simp]: "sys_buffer (length d) d = d"
  by (simp add: sys_buffer_def)

text \<open>Structures one after the other: the bytes from the place of one of them on, and the structure read there.\<close>

lemma length_rows: "list_all (has_layout fs) rows \<Longrightarrow> length (concat (map (le_encode fs) rows)) = length rows * layout_size fs"
  by (induction rows) (simp_all add: length_le_encode)

lemma drop_rows:
  assumes "list_all (has_layout fs) rows" and "i < length rows"
  shows "drop (i * layout_size fs) (concat (map (le_encode fs) rows) @ rest) = le_encode fs (rows ! i) @ concat (map (le_encode fs) (drop (Suc i) rows)) @ rest"
proof -
  have "list_all (has_layout fs) (take i rows)" using assms(1) by (auto simp: list_all_iff dest: in_set_takeD)
  from length_rows [OF this] have "length (concat (map (le_encode fs) (take i rows))) = i * layout_size fs" using assms(2) by simp
  then show ?thesis by (subst id_take_nth_drop [OF assms(2)]) simp
qed

lemma le_decode_rows:
  "widths_pos fs \<Longrightarrow> list_all (has_layout fs) rows \<Longrightarrow> i < length rows \<Longrightarrow>
   le_decode fs (drop (i * layout_size fs) (concat (map (le_encode fs) rows) @ rest)) = rows ! i"
  by (subst drop_rows, assumption+) (simp add: le_decode_encode list_all_length)

lemma le_word:
  assumes "n < 2 ^ 32"
  shows "has_layout [(''v'', u32_f)] [(''v'', [int n])]" and "length (le_encode [(''v'', u32_f)] [(''v'', [int n])]) = 4"
proof -
  show ok: "has_layout [(''v'', u32_f)] [(''v'', [int n])]" using assms by (simp add: has_layout_def field_ok_def field_ty_defs in_width_def)
  show "length (le_encode [(''v'', u32_f)] [(''v'', [int n])]) = 4" using length_le_encode [OF ok] by (simp add: field_ty_defs field_size_def)
qed

lemma unat_u32_length: "n < 2 ^ 32 \<Longrightarrow> unat (word_of_nat n :: u32) = n"
  by (simp add: unat_of_nat)

text \<open>A kernel that reports the same value twice hands it over; one whose value is empty gives an error.\<close>

lemma CallSyscall_value:
  assumes "k mib None = (x, length d, None)" and "k mib (Some (length d)) = (d, length d, None)" and "d \<noteq> []"
  shows "CallSyscall k mib = (d, length d, None)"
  using assms by (simp add: CallSyscall_def)

lemma CallSyscall_empty: "k mib None = (x, 0, None) \<Longrightarrow> CallSyscall k mib = ([], 0, Some (Errno 0))"
  by (simp add: CallSyscall_def)

text \<open>A kernel value of 4 or 8 bytes is widened to the number it holds.\<close>

lemma SysctlUint_value:
  assumes "w = 4 \<or> w = 8" and "n < 2 ^ (8 * w)" and "bs_raw sys mib [] = Inr (rev (encode_val w (int n)))"
  shows "SysctlUint sys mib = Ok (word_of_nat n)"
proof -
  have "be_val False (encode_val w (int n)) = int n"
    using assms(1,2) by (intro be_val_encode_val) (auto simp: in_width_def)
  with assms(1,3) show ?thesis
    by (auto simp: SysctlUint_def le_decode_def val_of_def arr_of_def field_ty_defs field_vals_def eval_nat_numeral)
qed

end
