(* ===== verification/System_Bsd.thy ===== *)
theory System_Bsd
  imports Sysctl_Bsd Mem_Linux Load_Linux Cpu Process_Api
begin

text \<open>
  Packages \<^verbatim>\<open>mem\<close>, \<^verbatim>\<open>load\<close> and \<^verbatim>\<open>cpu\<close> on the BSD family and Darwin: memory and swap from kernel values (\<^verbatim>\<open>mem_freebsd.go\<close>, \<^verbatim>\<open>mem_openbsd.go\<close>,
  \<^verbatim>\<open>mem_netbsd.go\<close>, \<^verbatim>\<open>mem_darwin.go\<close>), swap devices from \<^verbatim>\<open>swapctl\<close> (\<^verbatim>\<open>mem_bsd.go\<close>), load averages and process counts (\<^verbatim>\<open>load_bsd.go\<close>, \<^verbatim>\<open>load_darwin.go\<close>),
  and the times of the processors (\<^verbatim>\<open>cpu_freebsd.go\<close>, \<^verbatim>\<open>cpu_openbsd.go\<close>, \<^verbatim>\<open>cpu_netbsd.go\<close>, \<^verbatim>\<open>cpu_darwin.go\<close>). \<open>sys\<close> is the kernel, \<open>clk\<close> the package variable
  \<^verbatim>\<open>ClocksPerSec\<close>, and the Mach calls of Darwin are arguments.
\<close>

section \<open>Swap devices\<close>

definition swapCommand :: string where "swapCommand = ''swapctl''"

definition swapctl_expected :: "string \<Rightarrow> string \<Rightarrow> gerr" where
  "swapctl_expected got want = ErrMsg (''couldn't parse '' @ quote swapCommand @ '': expected '' @ quote got @ '' to be '' @ quote want)"

text \<open>The columns must be at least 2, not 3, before the third is looked at.\<close>

definition swapctl_header :: "string \<Rightarrow> unit result" where
  "swapctl_header line =
     (let header = filter (\<lambda>c. c \<noteq> CHR '':'') (to_lower line); headerFields = str_fields header in
      if length headerFields < 2 then Err (ErrMsg (''couldn't parse '' @ quote swapCommand @ '': too few fields in header '' @ quote header))
      else if headerFields ! 0 \<noteq> ''device'' then Err (swapctl_expected (headerFields ! 0) ''device'')
      else if headerFields ! 1 \<noteq> ''1kb-blocks'' \<and> headerFields ! 1 \<noteq> ''1k-blocks'' then Err (swapctl_expected (headerFields ! 1) ''1kb-blocks'')
      else rbind (idx headerFields 2) (\<lambda>f2. if f2 \<noteq> ''used'' then Err (swapctl_expected f2 ''used'') else Ok ()))"

definition swapctl_number :: "string \<Rightarrow> string \<Rightarrow> u64 result" where
  "swapctl_number col s = (case parse_u64 s of
     Err e \<Rightarrow> Err (ErrWrap (''couldn't parse '' @ [CHR 0x27] @ col @ [CHR 0x27] @ '' column in '' @ quote swapCommand) e) | r \<Rightarrow> r)"

definition swapctl_line :: "string \<Rightarrow> swap_device list \<Rightarrow> swap_device list result" where
  "swapctl_line line ds =
     (let fs = str_fields line in
      if line = [] then Ok ds
      else if length fs < 2 then Err (ErrMsg (''couldn't parse '' @ quote swapCommand @ '': too few fields''))
      else rbind (swapctl_number ''Size'' (fs ! 1)) (\<lambda>totalKiB. rbind (idx fs 2) (\<lambda>f2. rbind (swapctl_number ''Used'' f2) (\<lambda>usedKiB.
        Ok (ds @ [\<lparr>sd_Name = fs ! 0, sd_UsedBytes = usedKiB * 1024, sd_FreeBytes = (totalKiB - usedKiB) * 1024\<rparr>])))))"

definition parseSwapctlOutput :: "string \<Rightarrow> swap_device list result" where
  "parseSwapctlOutput output = (let ls = split_char nl output in
     rbind (swapctl_header (hd ls)) (\<lambda>_. rfold swapctl_line (tl ls) []))"

definition bsd_SwapDevicesWithContext :: "host \<Rightarrow> swap_device list result" where
  "bsd_SwapDevicesWithContext h = (case run_command h swapCommand [''-lk''] of
     Ok output \<Rightarrow> parseSwapctlOutput output
   | Err e \<Rightarrow> Err (ErrWrap (''could not execute '' @ quote swapCommand) e)
   | Panic \<Rightarrow> Panic)"

section \<open>Memory\<close>

text \<open>What every system derives from the page counts.\<close>

definition vm_totals :: "virtual_memory_stat \<Rightarrow> virtual_memory_stat" where
  "vm_totals ret = (let available = v_Inactive ret + v_Cached ret + v_Free ret + v_Laundry ret; used = v_Total ret - available in
     ret\<lparr>v_Available := available, v_Used := used, v_UsedPercent := f_of_u64 used / f_of_u64 (v_Total ret) * Fin 100\<rparr>)"

definition fbsd_VirtualMemoryWithContext :: "bsd \<Rightarrow> virtual_memory_stat result" where
  "fbsd_VirtualMemoryWithContext sys =
     rbind (SysctlUint sys ''vm.stats.vm.v_page_size'') (\<lambda>p. rbind (SysctlUint sys ''hw.physmem'') (\<lambda>physmem.
     rbind (SysctlUint sys ''vm.stats.vm.v_free_count'') (\<lambda>free. rbind (SysctlUint sys ''vm.stats.vm.v_active_count'') (\<lambda>active.
     rbind (SysctlUint sys ''vm.stats.vm.v_inactive_count'') (\<lambda>inactive. rbind (SysctlUint sys ''vfs.bufspace'') (\<lambda>buffers.
     rbind (SysctlUint sys ''vm.stats.vm.v_wire_count'') (\<lambda>wired.
     let osreldate = (case SysctlUint sys ''kern.osreldate'' of Ok v \<Rightarrow> v | _ \<Rightarrow> 0) in
     rbind (if osreldate < 1102000 then SysctlUint sys ''vm.stats.vm.v_cache_count'' else Ok 0) (\<lambda>cached.
     rbind (if osreldate < 1102000 then Ok 0 else SysctlUint sys ''vm.stats.vm.v_laundry_count'') (\<lambda>laundry.
       Ok (vm_totals (empty_vm\<lparr>v_Total := physmem, v_Free := free * p, v_Active := active * p, v_Inactive := inactive * p,
         v_Cached := cached * p, v_Buffers := buffers, v_Wired := wired * p, v_Laundry := laundry * p\<rparr>)))))))))))"

text \<open>A swap device of FreeBSD in the two versions of the kernel, with the padding of the compiler.\<close>

definition xswdev :: layout where
  "xswdev = [(''Version'', u32_f), (''pad0'', bytes_f 4), (''Dev'', u64_f), (''Flags'', i32_f), (''NBlks'', i32_f), (''Used'', i32_f),
     (''pad1'', bytes_f 4)]"

definition xswdev11 :: layout where
  "xswdev11 = [(''Version'', u32_f), (''Dev'', u32_f), (''Flags'', i32_f), (''NBlks'', i32_f), (''Used'', i32_f)]"

definition swap_blocks :: "bsd \<Rightarrow> string \<Rightarrow> (u64 \<times> u64) result" where
  "swap_blocks sys buf = rbind (unsafe_view (bs_after sys) xswdev buf) (\<lambda>xsw.
     if val_of xsw ''Version'' = 1 then rbind (unsafe_view (bs_after sys) xswdev11 buf) (\<lambda>xsw.
       if val_of xsw ''Version'' \<noteq> 1 then Err (ErrMsg ''xswdev version mismatch(11)'')
       else Ok (word_of_int (val_of xsw ''NBlks''), word_of_int (val_of xsw ''Used'')))
     else if val_of xsw ''Version'' \<noteq> 2 then Err (ErrMsg ''xswdev version mismatch'')
     else Ok (word_of_int (val_of xsw ''NBlks''), word_of_int (val_of xsw ''Used'')))"

definition add_swap :: "bsd \<Rightarrow> int \<Rightarrow> u64 \<times> u64 \<Rightarrow> (u64 \<times> u64) result" where
  "add_swap sys n = (\<lambda>(tot, used). rbind (of_sum (bs_raw sys ''vm.swap_info'' [n])) (\<lambda>buf.
     rbind (swap_blocks sys buf) (\<lambda>(t, u). Ok (tot + t, used + u))))"

definition swap_stat :: "u64 \<Rightarrow> u64 \<Rightarrow> u64 \<Rightarrow> float64 \<Rightarrow> swap_memory_stat" where
  "swap_stat tot used free percent = \<lparr>sw_Total = tot, sw_Used = used, sw_Free = free, sw_UsedPercent = percent, sw_Sin = 0, sw_Sout = 0,
     sw_PgIn = 0, sw_PgOut = 0, sw_PgFault = 0, sw_PgMajFault = 0\<rparr>"

definition fbsd_SwapMemoryWithContext :: "bsd \<Rightarrow> swap_memory_stat result" where
  "fbsd_SwapMemoryWithContext sys = rbind (SysctlUint sys ''vm.nswapdev'') (\<lambda>i.
     if i = 0 then Err (ErrMsg ''no swap devices found'')
     else rbind (SysctlUint sys ''vm.stats.vm.v_page_size'') (\<lambda>pageSize.
       rbind (rfold (add_swap sys) (map int [0..<nat (to_i64 (uint i))]) (0, 0)) (\<lambda>(tot, used).
         let percent = (if tot \<noteq> 0 then f_of_u64 used / f_of_u64 tot * Fin 100 else 0) in
         Ok (swap_stat (tot * pageSize) (used * pageSize) (tot * pageSize - used * pageSize) percent))))"

definition Bcachestats :: layout where
  "Bcachestats = [(''Numbufs'', i64_f), (''Numbufpages'', i64_f), (''Numdirtypages'', i64_f), (''Numcleanpages'', i64_f), (''Pendingwrites'', i64_f),
     (''Pendingreads'', i64_f), (''Numwrites'', i64_f), (''Numreads'', i64_f), (''Cachehits'', i64_f), (''Busymapped'', i64_f), (''Delwribufs'', i64_f),
     (''Kvaslots'', i64_f), (''Avail'', i64_f)]"

definition sizeOfBcachestats :: nat where "sizeOfBcachestats = 0x68"

definition obsd_GetPageSizeWithContext :: "bsd \<Rightarrow> u64 result" where
  "obsd_GetPageSizeWithContext sys = rbind (of_sum (bs_uvmexp sys ''vm.uvmexp'')) (\<lambda>ux. Ok (word_of_int (ux_Pagesize ux)))"

definition uvm_stat :: "uvmexp \<Rightarrow> virtual_memory_stat" where
  "uvm_stat ux = (let p = word_of_int (ux_Pagesize ux) in
     empty_vm\<lparr>v_Total := word_of_int (ux_Npages ux) * p, v_Free := word_of_int (ux_Free ux) * p, v_Active := word_of_int (ux_Active ux) * p,
       v_Inactive := word_of_int (ux_Inactive ux) * p, v_Wired := word_of_int (ux_Wired ux) * p\<rparr>)"

definition obsd_VirtualMemoryWithContext :: "bsd \<Rightarrow> virtual_memory_stat result" where
  "obsd_VirtualMemoryWithContext sys = rbind (of_sum (bs_uvmexp sys ''vm.uvmexp'')) (\<lambda>ux.
     case CallSyscall (bs_kernel sys) [10, 0, 3] of (buf, len, err) \<Rightarrow>
       (case err of
          Some e \<Rightarrow> Err e
        | None \<Rightarrow>
            if len < sizeOfBcachestats then Err (ErrMsg (''short syscall ret '' @ fmt_nat len @ '' bytes''))
            else rbind (le_read Bcachestats buf) (\<lambda>bcs.
              let bcache = word_of_int (val_of bcs ''Numbufpages'') * word_of_int (ux_Pagesize ux) in
              Ok (vm_totals ((uvm_stat ux)\<lparr>v_Cached := bcache, v_Buffers := bcache\<rparr>)))))"

definition nbsd_GetPageSizeWithContext :: "bsd \<Rightarrow> u64 result" where
  "nbsd_GetPageSizeWithContext sys = rbind (of_sum (bs_uvmexp sys ''vm.uvmexp2'')) (\<lambda>ux. Ok (word_of_int (ux_Pagesize ux)))"

definition nbsd_VirtualMemoryWithContext :: "bsd \<Rightarrow> virtual_memory_stat result" where
  "nbsd_VirtualMemoryWithContext sys = rbind (of_sum (bs_uvmexp sys ''vm.uvmexp2'')) (\<lambda>ux.
     rbind (of_sum (bs_u64 sys ''vm.bufmem'')) (\<lambda>buffers. Ok ((vm_totals (uvm_stat ux))\<lparr>v_Buffers := buffers\<rparr>)))"

text \<open>\<^verbatim>\<open>fmt.Sscanf\<close> on ASCII for formats of literals, blanks and \<^verbatim>\<open>%d\<close> into unsigned numbers: a blank needs a blank of the input and takes all of them, a
  number may be preceded by blanks, and input behind the format is left.\<close>

datatype scan_item = ScanBlank | ScanLit char | ScanUint

definition blank :: "char \<Rightarrow> bool" where
  "blank c \<longleftrightarrow> is_ascii_space c \<and> c \<noteq> nl"

fun scan_uints :: "scan_item list \<Rightarrow> string \<Rightarrow> u64 list option" where
  "scan_uints [] s = Some []"
| "scan_uints (ScanBlank # is) s = (case s of [] \<Rightarrow> scan_uints is [] | c # _ \<Rightarrow> if blank c then scan_uints is (dropWhile blank s) else None)"
| "scan_uints (ScanLit c # is) s = (case s of d # s' \<Rightarrow> if c = d then scan_uints is s' else None | [] \<Rightarrow> None)"
| "scan_uints (ScanUint # is) s = (let s' = dropWhile blank s in
     case parse_u64 (takeWhile is_digit s') of
       Ok v \<Rightarrow> map_option ((#) v) (scan_uints is (dropWhile is_digit s')) | _ \<Rightarrow> None)"

text \<open>A format, with \<open>#\<close> for \<^verbatim>\<open>%d\<close>.\<close>

definition scan_format :: "string \<Rightarrow> scan_item list" where
  "scan_format f = map (\<lambda>c. if c = CHR '' '' then ScanBlank else if c = CHR ''#'' then ScanUint else ScanLit c) f"

definition swapctl_total :: "string \<Rightarrow> host \<Rightarrow> swap_memory_stat result" where
  "swapctl_total form h = (case run_command h ''swapctl'' [''-sk''] of
     Ok line \<Rightarrow> (case scan_uints (scan_format form) line of
         Some [tot, used, free] \<Rightarrow> Ok (swap_stat (tot * 1024) (used * 1024) (free * 1024) (f_of_u64 used / f_of_u64 tot * Fin 100))
       | _ \<Rightarrow> Err (ErrMsg ''failed to parse swapctl output''))
   | Err _ \<Rightarrow> Ok (swap_stat 0 0 0 0)
   | Panic \<Rightarrow> Panic)"

definition obsd_SwapMemoryWithContext :: "host \<Rightarrow> swap_memory_stat result" where
  "obsd_SwapMemoryWithContext = swapctl_total ''total: # 1K-blocks allocated, # used, # available''"

definition nbsd_SwapMemoryWithContext :: "host \<Rightarrow> swap_memory_stat result" where
  "nbsd_SwapMemoryWithContext = swapctl_total ''total: # KBytes allocated, # KBytes used, # KBytes available''"

text \<open>Darwin. \<open>vmstat\<close> is what \<^verbatim>\<open>host_statistics\<close> returns, the page counts in the order free, active, inactive, wired, with its status; \<open>pageSize\<close> is read
  through a symbol of the system library. Counts of pages are 32-bit numbers.\<close>

definition swapUsage :: layout where
  "swapUsage = [(''Total'', u64_f), (''Avail'', u64_f), (''Used'', u64_f), (''Pagesize'', i32_f), (''Encrypted'', u8_f), (''pad'', bytes_f 3)]"

definition darwin_SwapMemoryWithContext :: "bsd \<Rightarrow> swap_memory_stat result" where
  "darwin_SwapMemoryWithContext sys = rbind (of_sum (bs_raw sys ''vm.swapusage'' [])) (\<lambda>value.
     if length value \<noteq> 32 then Err (ErrMsg (''unexpected output of sysctl vm.swapusage: ['' @ join '' '' (map (\<lambda>c. fmt_nat (of_char c)) value) @
         ''] (len: '' @ fmt_nat (length value) @ '')''))
     else rbind (unsafe_view (bs_after sys) swapUsage value) (\<lambda>swap.
       let tot = word_of_int (val_of swap ''Total''); avail = word_of_int (val_of swap ''Avail'');
           u = (if tot \<noteq> 0 then (f_of_u64 tot - f_of_u64 avail) / f_of_u64 tot * Fin 100 else 0)
       in Ok (swap_stat tot (word_of_int (val_of swap ''Used'')) avail u)))"

definition getHwMemsize :: "bsd \<Rightarrow> u64 result" where
  "getHwMemsize sys = of_sum (bs_u64 sys ''hw.memsize'')"

record vm_statistics =
  vs_free :: u32
  vs_active :: u32
  vs_inactive :: u32
  vs_wire :: u32

definition darwin_VirtualMemoryWithContext :: "bsd \<Rightarrow> int \<times> vm_statistics \<Rightarrow> u64 \<Rightarrow> virtual_memory_stat result" where
  "darwin_VirtualMemoryWithContext sys = (\<lambda>(status, vmstat) pageSize.
     if status \<noteq> 0 then Err (ErrMsg (''host_statistics error='' @ itoa status))
     else rbind (getHwMemsize sys) (\<lambda>tot.
       if pageSize = 0 then Panic
       else let totalCount = (ucast (tot div pageSize) :: u32); availableCount = vs_inactive vmstat + vs_free vmstat;
                usedCount = totalCount - availableCount
         in Ok (empty_vm\<lparr>v_Total := tot, v_Available := pageSize * ucast availableCount, v_Used := pageSize * ucast usedCount,
              v_UsedPercent := Fin 100 * f_of_nat (unat usedCount) / f_of_nat (unat totalCount), v_Free := pageSize * ucast (vs_free vmstat),
              v_Active := pageSize * ucast (vs_active vmstat), v_Inactive := pageSize * ucast (vs_inactive vmstat),
              v_Wired := pageSize * ucast (vs_wire vmstat)\<rparr>)))"

section \<open>Load\<close>

definition loadavg :: layout where
  "loadavg = [(''load'', u32s_f 3), (''pad'', bytes_f 4), (''scale'', i64_f)]"

definition bsd_AvgWithContext :: "bsd \<Rightarrow> avg_stat result" where
  "bsd_AvgWithContext sys = rbind (of_sum (bs_raw sys ''vm.loadavg'' [])) (\<lambda>b. rbind (unsafe_view (bs_after sys) loadavg b) (\<lambda>l.
     let scale = f_of_int (val_of l ''scale''); ld = arr_of l ''load'' in
     Ok \<lparr>l_Load1 = f_of_int (ld ! 0) / scale, l_Load5 = f_of_int (ld ! 1) / scale, l_Load15 = f_of_int (ld ! 2) / scale\<rparr>))"

definition darwin_AvgWithContext :: "bsd \<Rightarrow> avg_stat result" where
  "darwin_AvgWithContext = bsd_AvgWithContext"

definition forkstat :: layout where
  "forkstat = [(''forks'', i64_f), (''vforks'', i64_f), (''tforks'', i64_f)]"

definition fbsd_getForkStat :: "struct result" where
  "fbsd_getForkStat = Ok (zero_struct forkstat)"

definition obsd_getForkStat :: "bsd \<Rightarrow> struct result" where
  "obsd_getForkStat sys = rbind (of_sum (bs_raw sys ''kern.forkstat'' [])) (\<lambda>b.
     if length b < layout_size forkstat then Err (ErrMsg (''unexpected size: kern.forkstat, '' @ fmt_nat (length b)))
     else unsafe_view (bs_after sys) forkstat b)"

text \<open>The letter of blocked processes differs: \<^verbatim>\<open>D\<close>, and \<^verbatim>\<open>U\<close> on Darwin.\<close>

definition state_line :: "char \<Rightarrow> string \<Rightarrow> misc_stat \<Rightarrow> misc_stat" where
  "state_line blocked l ret =
     (if CHR ''R'' \<in> set l then ret\<lparr>ms_ProcsRunning := ms_ProcsRunning ret + 1\<rparr>
      else if blocked \<in> set l then ret\<lparr>ms_ProcsBlocked := ms_ProcsBlocked ret + 1\<rparr> else ret)"

definition bsd_MiscWithContext :: "struct result \<Rightarrow> host \<Rightarrow> misc_stat result" where
  "bsd_MiscWithContext getForkStat h = rbind (run_command h ''ps'' [''axo'', ''state'']) (\<lambda>out.
     rbind getForkStat (\<lambda>f. Ok ((fold (state_line CHR ''D'') (split_char nl out) empty_misc)\<lparr>ms_ProcsCreated := val_of f ''forks''\<rparr>)))"

definition darwin_MiscWithContext :: "host \<Rightarrow> misc_stat result" where
  "darwin_MiscWithContext h = rbind (run_command h ''ps'' [''axo'', ''state'']) (\<lambda>out.
     Ok (fold (state_line CHR ''U'') (split_char nl out) empty_misc))"

section \<open>Processor times\<close>

definition cpuTimes :: layout where
  "cpuTimes = [(''User'', u64_f), (''Nice'', u64_f), (''Sys'', u64_f), (''Intr'', u64_f), (''Idle'', u64_f)]"

definition obsd_cpuTimes :: layout where
  "obsd_cpuTimes = [(''User'', u64_f), (''Nice'', u64_f), (''Sys'', u64_f), (''Spin'', u64_f), (''Intr'', u64_f), (''Idle'', u64_f)]"

definition cpuStats :: layout where
  "cpuStats = obsd_cpuTimes @ [(''Flags'', u64_f)]"

definition timeStat :: "float64 \<Rightarrow> string \<Rightarrow> struct \<Rightarrow> times_stat" where
  "timeStat clk name t = \<lparr>t_CPU = name, t_User = f_of_int (val_of t ''User'') / clk, t_System = f_of_int (val_of t ''Sys'') / clk,
     t_Idle = f_of_int (val_of t ''Idle'') / clk, t_Nice = f_of_int (val_of t ''Nice'') / clk, t_Iowait = 0,
     t_Irq = f_of_int (val_of t ''Intr'') / clk, t_Softirq = 0, t_Steal = 0, t_Guest = 0, t_GuestNice = 0\<rparr>"

text \<open>The times of NetBSD are not divided by the clock rate.\<close>

definition tick_stat :: "string \<Rightarrow> struct \<Rightarrow> times_stat" where
  "tick_stat name t = \<lparr>t_CPU = name, t_User = f_of_int (val_of t ''User''), t_System = f_of_int (val_of t ''Sys''),
     t_Idle = f_of_int (val_of t ''Idle''), t_Nice = f_of_int (val_of t ''Nice''), t_Iowait = 0,
     t_Irq = f_of_int (val_of t ''Intr''), t_Softirq = 0, t_Steal = 0, t_Guest = 0, t_GuestNice = 0\<rparr>"

definition cpu_name :: "nat \<Rightarrow> string" where
  "cpu_name i = ''cpu'' @ fmt_nat i"

definition fbsd_per_cpu :: "float64 \<Rightarrow> string \<Rightarrow> nat \<Rightarrow> times_stat list \<Rightarrow> times_stat list" where
  "fbsd_per_cpu clk buf i ret = (let t = le_decode cpuTimes (drop (i * layout_size cpuTimes) buf) in
     if t = zero_struct cpuTimes then ret else ret @ [timeStat clk (cpu_name (length ret)) t])"

definition fbsd_TimesWithContext :: "bsd \<Rightarrow> float64 \<Rightarrow> bool \<Rightarrow> times_stat list result" where
  "fbsd_TimesWithContext sys clk percpu =
     (if percpu then rbind (of_sum (bs_raw sys ''kern.cp_times'' [])) (\<lambda>buf.
        Ok (fold (fbsd_per_cpu clk buf) [0..<length buf div layout_size cpuTimes] []))
      else rbind (of_sum (bs_raw sys ''kern.cp_time'' [])) (\<lambda>buf.
        if length buf < layout_size cpuTimes then Err (ErrMsg (''unexpected size: kern.cp_time, '' @ fmt_nat (length buf)))
        else rbind (unsafe_view (bs_after sys) cpuTimes buf) (\<lambda>t. Ok [timeStat clk ''cpu-total'' t])))"

text \<open>One value of the kernel per processor: an error ends the loop, a short value is skipped.\<close>

definition kernel_times :: "bsd \<Rightarrow> int list \<Rightarrow> layout \<Rightarrow> (string \<Rightarrow> struct \<Rightarrow> times_stat) \<Rightarrow> times_stat list result" where
  "kernel_times sys mib fs conv = (case CallSyscall (bs_kernel sys) mib of (buf, _, err) \<Rightarrow>
     (case err of Some e \<Rightarrow> Err e
      | None \<Rightarrow> if length buf < layout_size fs then Err (ErrMsg (''unexpected size: kern.cp_time, '' @ fmt_nat (length buf)))
                else rbind (unsafe_view (bs_after sys) fs buf) (\<lambda>t. Ok [conv ''cpu-total'' t])))"

definition kernel_cpu :: "bsd \<Rightarrow> (int \<Rightarrow> int list) \<Rightarrow> layout \<Rightarrow> (struct \<Rightarrow> bool) \<Rightarrow> (string \<Rightarrow> struct \<Rightarrow> times_stat) \<Rightarrow> nat \<Rightarrow> times_stat list \<Rightarrow>
    times_stat list result" where
  "kernel_cpu sys mib fs online conv i ret = (case CallSyscall (bs_kernel sys) (mib (to_i32 (int i))) of (buf, _, err) \<Rightarrow>
     (case err of Some e \<Rightarrow> Err e
      | None \<Rightarrow> if length buf < layout_size fs then Ok ret
                else rbind (unsafe_view (bs_after sys) fs buf) (\<lambda>stats. Ok (if online stats then ret @ [conv (cpu_name i) stats] else ret))))"

definition obsd_TimesWithContext :: "bsd \<Rightarrow> float64 \<Rightarrow> bool \<Rightarrow> times_stat list result" where
  "obsd_TimesWithContext sys clk percpu =
     (if \<not> percpu then kernel_times sys [1, 40] obsd_cpuTimes (timeStat clk)
      else rbind (of_sum (bs_u32 sys ''hw.ncpu'')) (\<lambda>ncpu.
        rfold (kernel_cpu sys (\<lambda>i. [1, 85, i]) cpuStats (\<lambda>stats. odd (val_of stats ''Flags'')) (timeStat clk)) [0..<unat ncpu] []))"

definition nbsd_TimesWithContext :: "bsd \<Rightarrow> bool \<Rightarrow> times_stat list result" where
  "nbsd_TimesWithContext sys percpu =
     (if \<not> percpu then kernel_times sys [1, 51] cpuTimes tick_stat
      else rbind (of_sum (bs_u32 sys ''hw.ncpu'')) (\<lambda>ncpu.
        rfold (kernel_cpu sys (\<lambda>i. [1, 51, i]) cpuTimes (\<lambda>_. True) tick_stat) [0..<unat ncpu] []))"

text \<open>Darwin: the loads \<open>(user, system, idle, nice)\<close> that \<^verbatim>\<open>host_processor_info\<close> and \<^verbatim>\<open>host_statistics\<close> return, with their status; a nil pointer is \<open>None\<close>.\<close>

definition darwin_load :: "float64 \<Rightarrow> string \<Rightarrow> u32 \<times> u32 \<times> u32 \<times> u32 \<Rightarrow> times_stat" where
  "darwin_load clk name = (\<lambda>(user, system, idle, nice). \<lparr>t_CPU = name, t_User = f_of_nat (unat user) / clk, t_System = f_of_nat (unat system) / clk,
     t_Idle = f_of_nat (unat idle) / clk, t_Nice = f_of_nat (unat nice) / clk, t_Iowait = 0, t_Irq = 0, t_Softirq = 0, t_Steal = 0, t_Guest = 0,
     t_GuestNice = 0\<rparr>)"

definition perCPUTimes :: "int \<times> (u32 \<times> u32 \<times> u32 \<times> u32) list option \<Rightarrow> float64 \<Rightarrow> times_stat list result" where
  "perCPUTimes = (\<lambda>(status, loads) clk.
     if status \<noteq> 0 then Err (ErrMsg (''host_processor_info error='' @ itoa status))
     else (case loads of None \<Rightarrow> Err (ErrMsg ''host_processor_info returned nil cpuload'')
       | Some ls \<Rightarrow> Ok (map (\<lambda>(i, l). darwin_load clk (cpu_name i) l) (List.enumerate 0 ls))))"

definition allCPUTimes :: "int \<times> u32 \<times> u32 \<times> u32 \<times> u32 \<Rightarrow> float64 \<Rightarrow> times_stat list result" where
  "allCPUTimes = (\<lambda>(status, l) clk.
     if status \<noteq> 0 then Err (ErrMsg (''host_statistics error='' @ itoa status)) else Ok [darwin_load clk ''cpu-total'' l])"

definition darwin_CountsWithContext :: "bsd \<Rightarrow> bool \<Rightarrow> int result" where
  "darwin_CountsWithContext sys logical = rbind (of_sum (bs_u32 sys (if logical then ''hw.logicalcpu'' else ''hw.physicalcpu''))) (\<lambda>n. Ok (uint n))"

section \<open>Processor information\<close>

definition sys_str :: "bsd \<Rightarrow> string \<Rightarrow> string" where
  "sys_str sys name = (case bs_str sys name of Inr s \<Rightarrow> s | Inl _ \<Rightarrow> [])"

definition sys_u32 :: "bsd \<Rightarrow> string \<Rightarrow> u32" where
  "sys_u32 sys name = (case bs_u32 sys name of Inr v \<Rightarrow> v | Inl _ \<Rightarrow> 0)"

definition zero_info :: info_stat where
  "zero_info = \<lparr>i_CPU = 0, i_VendorID = [], i_Family = [], i_Model = [], i_Stepping = 0, i_PhysicalID = [], i_CoreID = [], i_Cores = 0,
     i_ModelName = [], i_Mhz = 0, i_CacheSize = 0, i_Flags = [], i_Microcode = []\<rparr>"

text \<open>The strings are empty and the numbers 0 when the kernel does not have them. \<open>freq\<close> is \<^verbatim>\<open>getFrequency\<close>, which depends on the processor.\<close>

definition darwin_InfoWithContext :: "bsd \<Rightarrow> float64 result \<Rightarrow> info_stat list result" where
  "darwin_InfoWithContext sys freq = Ok [zero_info\<lparr>i_VendorID := sys_str sys ''machdep.cpu.vendor'',
     i_Family := fmt_nat (unat (sys_u32 sys ''machdep.cpu.family'')), i_Model := fmt_nat (unat (sys_u32 sys ''machdep.cpu.model'')),
     i_Stepping := sint (sys_u32 sys ''machdep.cpu.stepping''), i_Cores := sint (sys_u32 sys ''machdep.cpu.core_count''),
     i_ModelName := sys_str sys ''machdep.cpu.brand_string'', i_Mhz := (case freq of Ok v \<Rightarrow> v | _ \<Rightarrow> 0),
     i_CacheSize := sint (sys_u32 sys ''machdep.cpu.cache.size''),
     i_Flags := map to_lower (concat (map (\<lambda>name. str_fields (sys_str sys name))
       [''machdep.cpu.features'', ''machdep.cpu.leaf7_features'', ''machdep.cpu.extfeatures'']))\<rparr>]"

definition obsd_InfoWithContext :: "bsd \<Rightarrow> info_stat list result" where
  "obsd_InfoWithContext sys = rbind (of_sum (bs_u32 sys ''hw.cpuspeed'')) (\<lambda>mhz. rbind (of_sum (bs_u32 sys ''hw.ncpuonline'')) (\<lambda>ncpu.
     rbind (of_sum (bs_str sys ''hw.model'')) (\<lambda>model.
       Ok [zero_info\<lparr>i_Cores := sint ncpu, i_ModelName := model, i_Mhz := f_of_nat (unat mhz)\<rparr>])))"

section \<open>Swap devices are read back\<close>

text \<open>The table of \<^verbatim>\<open>swapctl -lk\<close>: devices with their size and use in kilobytes.\<close>

definition swapctl_row :: "string \<times> nat \<times> nat \<Rightarrow> string" where
  "swapctl_row = (\<lambda>(name, tot, used). join '' '' [name, fmt_nat tot, fmt_nat used])"

definition swapctl_ok :: "string \<times> nat \<times> nat \<Rightarrow> bool" where
  "swapctl_ok = (\<lambda>(name, tot, used). plain name \<and> name \<noteq> [] \<and> used \<le> tot \<and> tot < 2 ^ 54)"

definition swapctl_device :: "string \<times> nat \<times> nat \<Rightarrow> swap_device" where
  "swapctl_device = (\<lambda>(name, tot, used). \<lparr>sd_Name = name, sd_UsedBytes = word_of_nat (used * 1024), sd_FreeBytes = word_of_nat ((tot - used) * 1024)\<rparr>)"

lemma swapctl_line_row:
  assumes "swapctl_ok r"
  shows "swapctl_line (swapctl_row r) ds = Ok (ds @ [swapctl_device r])"
proof -
  obtain name tot used where r: "r = (name, tot, used)" by (cases r)
  have w: "str_fields (swapctl_row r) = [name, fmt_nat tot, fmt_nat used]"
    using assms unfolding r swapctl_row_def prod.case by (intro fields_join) (auto simp: swapctl_ok_def)
  moreover have "swapctl_row r \<noteq> []" using assms by (simp add: r swapctl_row_def swapctl_ok_def)
  moreover have "parse_u64 (fmt_nat tot) = Ok (word_of_nat tot)" "parse_u64 (fmt_nat used) = Ok (word_of_nat used)"
    using assms by (simp_all add: r swapctl_ok_def)
  moreover have "(word_of_nat tot - word_of_nat used) * 1024 = (word_of_nat ((tot - used) * 1024) :: u64)"
    using assms by (simp add: r swapctl_ok_def of_nat_diff)
  ultimately show ?thesis
    by (simp add: swapctl_line_def swapctl_number_def swapctl_device_def r idx_def Let_def)
qed

text \<open>Every table of swap devices that \<^verbatim>\<open>swapctl -lk\<close> prints is read back, the devices in order with their used and free bytes, with either
  spelling of the heading.\<close>

theorem swapctl_roundtrip:
  assumes "h_command h ''swapctl'' [''-lk''] = (unlines (header # map swapctl_row rows), None)"
    and "nl \<notin> set header" and "swapctl_header header = Ok ()" and "list_all swapctl_ok rows"
  shows "bsd_SwapDevicesWithContext h = Ok (map swapctl_device rows)"
proof -
  define ls where "ls = map swapctl_row rows"
  define out where "out = unlines (header # ls)"
  have "no_nl ls"
  proof -
    have "nl \<notin> set (swapctl_row r)" if "swapctl_ok r" for r
    proof -
      obtain name tot used where r: "r = (name, tot, used)" by (cases r)
      have "plain w" if "w \<in> set [name, fmt_nat tot, fmt_nat used]" for w
        using that \<open>swapctl_ok r\<close> by (auto simp: r swapctl_ok_def)
      then show ?thesis
        using set_join [of "'' ''" "[name, fmt_nat tot, fmt_nat used]"] plain_no_space [of _ nl]
        unfolding r swapctl_row_def prod.case by fastforce
    qed
    with assms(4) show ?thesis by (auto simp: no_nl_def ls_def list_all_iff)
  qed
  then have s: "split_char nl out = header # ls @ [[]]"
    unfolding out_def using assms(2) by (subst split_char_unlines) (simp_all add: no_nl_def)
  have "rfold swapctl_line ls ds = Ok (ds @ map swapctl_device rows)" for ds
    unfolding ls_def using assms(4) by (induction rows arbitrary: ds) (simp_all add: swapctl_line_row)
  then show ?thesis
    using assms(1) [folded ls_def, folded out_def] assms(3)
    by (simp add: bsd_SwapDevicesWithContext_def swapCommand_def run_command_def parseSwapctlOutput_def s rfold_append swapctl_line_def)
qed

theorem swapctl_roundtrip_witness:
  "bsd_SwapDevicesWithContext (no_files\<lparr>h_command := (\<lambda>_ _. (unlines (''Device: 1K-blocks Used'' # map swapctl_row
      [(''/dev/da0p2'', 2048, 512), (''/dev/md1'', 10, 0)]), None))\<rparr>) =
    Ok (map swapctl_device [(''/dev/da0p2'', 2048, 512), (''/dev/md1'', 10, 0)])"
proof -
  have "str_fields (join '' '' [''device'', ''1k-blocks'', ''used'']) = [''device'', ''1k-blocks'', ''used'']"
    by (rule fields_join) (auto simp: is_ascii_space_def)
  moreover have "filter (\<lambda>c. c \<noteq> CHR '':'') (to_lower ''Device: 1K-blocks Used'') = join '' '' [''device'', ''1k-blocks'', ''used'']"
    by code_simp
  ultimately have h: "swapctl_header ''Device: 1K-blocks Used'' = Ok ()" by (simp add: swapctl_header_def idx_def)
  show ?thesis
    by (rule swapctl_roundtrip [OF _ _ h]) (simp_all add: swapctl_ok_def is_ascii_space_def)
qed

text \<open>The guards allow two columns where three are used.\<close>

lemma swapctl_two_columns:
  assumes "plain name" and "name \<noteq> []" and "tot < 2 ^ 64"
  shows "swapctl_line (join '' '' [name, fmt_nat tot]) ds = Panic"
proof -
  have "str_fields (join '' '' [name, fmt_nat tot]) = [name, fmt_nat tot]" using assms by (intro fields_join) auto
  with assms show ?thesis by (simp add: swapctl_line_def swapctl_number_def idx_def)
qed

section \<open>Totals\<close>

text \<open>C23: on FreeBSD used and available memory add up to the total, and the percentage is a number between 0 and 100, whenever the pages
  that the kernel calls inactive, cached, free or in the laundry fit in the machine.\<close>

theorem fbsd_memory_accounts:
  assumes "fbsd_VirtualMemoryWithContext sys = Ok vm" and "v_Available vm \<le> v_Total vm" and "v_Total vm \<noteq> 0"
  shows "unat (v_Used vm) + unat (v_Available vm) = unat (v_Total vm) \<and>
    v_Available vm = v_Inactive vm + v_Cached vm + v_Free vm + v_Laundry vm \<and>
    (\<exists>r. v_UsedPercent vm = Fin r \<and> 0 \<le> r \<and> r \<le> 100)"
proof -
  obtain v where vm: "vm = vm_totals v"
    using assms(1) by (auto simp: fbsd_VirtualMemoryWithContext_def outcome_iff Let_def)
  then show ?thesis
    using percent_u64_diff [of "v_Available vm" "v_Total vm"] assms(2,3) by (simp add: vm_totals_def Let_def)
qed

definition fbsd_sample :: bsd where
  "fbsd_sample = \<lparr>bs_kernel = (\<lambda>_ _. ([], 0, Some ENOENT)), bs_raw = (\<lambda>name _. Inr (if name = ''kern.osreldate'' then rev (encode_val 4 1400000)
       else if name = ''hw.physmem'' then rev (encode_val 8 1000000) else rev (encode_val 4 7))),
     bs_str = (\<lambda>_. Inl ENOENT), bs_u32 = (\<lambda>_. Inl ENOENT), bs_u64 = (\<lambda>_. Inl ENOENT), bs_uvmexp = (\<lambda>_. Inl ENOENT), bs_after = (\<lambda>_. CHR 0x00)\<rparr>"

theorem fbsd_memory_accounts_witness:
  "\<exists>vm r. fbsd_VirtualMemoryWithContext fbsd_sample = Ok vm \<and> unat (v_Used vm) + unat (v_Available vm) = 1000000 \<and> v_UsedPercent vm = Fin r \<and> 0 \<le> r \<and> r \<le> 100"
proof -
  have v: "SysctlUint fbsd_sample name = Ok (if name = ''kern.osreldate'' then 1400000 else if name = ''hw.physmem'' then 1000000 else 7)" for name
  proof -
    have raw: "bs_raw fbsd_sample name [] = Inr (if name = ''kern.osreldate'' then rev (encode_val 4 1400000)
       else if name = ''hw.physmem'' then rev (encode_val 8 1000000) else rev (encode_val 4 7))" by (simp add: fbsd_sample_def)
    show ?thesis
      using SysctlUint_value [of 4 1400000 fbsd_sample name] SysctlUint_value [of 8 1000000 fbsd_sample name] SysctlUint_value [of 4 7 fbsd_sample name]
      by (auto simp: raw)
  qed
  let ?vm = "vm_totals (empty_vm\<lparr>v_Total := 1000000, v_Free := 49, v_Active := 49, v_Inactive := 49, v_Cached := 0, v_Buffers := 7, v_Wired := 49, v_Laundry := 49\<rparr>)"
  have vm: "fbsd_VirtualMemoryWithContext fbsd_sample = Ok ?vm" by (simp add: fbsd_VirtualMemoryWithContext_def v)
  have "v_Total ?vm = 1000000" "v_Available ?vm = 147" by (simp_all add: vm_totals_def empty_vm_def)
  with fbsd_memory_accounts [OF vm] vm show ?thesis by auto
qed

lemma scan_uint_fmt:
  assumes "n < 2 ^ 64" and "s = [] \<or> \<not> is_digit (hd s)"
  shows "scan_uints (ScanUint # is) (fmt_nat n @ s) = map_option ((#) (word_of_nat n)) (scan_uints is s)"
proof -
  have d: "list_all is_digit (fmt_nat n)" using decimal_chars [OF decimal_fmt_nat, of _ n] by (auto simp: list_all_iff)
  then have "dropWhile blank (fmt_nat n @ s) = fmt_nat n @ s"
    by (cases "fmt_nat n") (auto simp: blank_def is_digit_def is_ascii_space_def)
  moreover have "takeWhile is_digit (fmt_nat n @ s) = fmt_nat n" "dropWhile is_digit (fmt_nat n @ s) = s"
    using d assms(2) by (cases s; simp add: list_all_iff)+
  ultimately show ?thesis using assms(1) by simp
qed

lemma scan_blank_fmt: "scan_uints (ScanBlank # is) (CHR '' '' # fmt_nat n @ s) = scan_uints is (fmt_nat n @ s)"
proof -
  have "\<not> blank (hd (fmt_nat n))"
    using decimal_chars [OF decimal_fmt_nat, of "hd (fmt_nat n)" n] by (auto simp: blank_def is_digit_def is_ascii_space_def)
  then have "dropWhile blank (fmt_nat n @ s) = fmt_nat n @ s" by (cases "fmt_nat n") auto
  then show ?thesis by (simp add: blank_def is_ascii_space_def)
qed

lemma scan_blank_lit: "\<not> blank c \<Longrightarrow> scan_uints (ScanBlank # is) (CHR '' '' # c # s) = scan_uints is (c # s)"
  by (auto simp: blank_def is_ascii_space_def)

text \<open>The summary that \<^verbatim>\<open>swapctl -sk\<close> prints is read back on OpenBSD, in bytes.\<close>

theorem obsd_swap_roundtrip:
  assumes "h_command h ''swapctl'' [''-sk''] =
      (''total: '' @ fmt_nat t @ '' 1K-blocks allocated, '' @ fmt_nat u @ '' used, '' @ fmt_nat f @ '' available'' @ rest, None)"
    and "t < 2 ^ 54" and "u < 2 ^ 54" and "f < 2 ^ 54"
  shows "\<exists>sw. obsd_SwapMemoryWithContext h = Ok sw \<and> unat (sw_Total sw) = t * 1024 \<and> unat (sw_Used sw) = u * 1024 \<and>
    unat (sw_Free sw) = f * 1024"
proof -
  have n: "unat (word_of_nat x * 1024 :: u64) = x * 1024" if "x < 2 ^ 54" for x
  proof -
    have "unat (word_of_nat (x * 1024) :: u64) = x * 1024" using that by (subst unat_of_nat) simp
    then show ?thesis by simp
  qed
  have "scan_uints (scan_format ''total: # 1K-blocks allocated, # used, # available'')
      (''total: '' @ fmt_nat t @ '' 1K-blocks allocated, '' @ fmt_nat u @ '' used, '' @ fmt_nat f @ '' available'' @ rest) =
      Some [word_of_nat t, word_of_nat u, word_of_nat f]"
    using assms(2-4)
    by (simp add: scan_format_def scan_uint_fmt scan_blank_fmt scan_blank_lit is_digit_def blank_def is_ascii_space_def del: scan_uints.simps(2,4))
  with assms(1) show ?thesis
    by (simp add: obsd_SwapMemoryWithContext_def swapctl_total_def run_command_def swap_stat_def n [OF assms(2)] n [OF assms(3)] n [OF assms(4)])
qed

theorem obsd_swap_roundtrip_witness:
  "\<exists>sw. obsd_SwapMemoryWithContext (no_files\<lparr>h_command := (\<lambda>_ _.
      (''total: '' @ fmt_nat 2048 @ '' 1K-blocks allocated, '' @ fmt_nat 48 @ '' used, '' @ fmt_nat 2000 @ '' available'' @ [nl], None))\<rparr>) = Ok sw \<and>
    unat (sw_Total sw) = 2048 * 1024 \<and> unat (sw_Used sw) = 48 * 1024 \<and> unat (sw_Free sw) = 2000 * 1024"
  by (rule obsd_swap_roundtrip [where rest = "[nl]"]) simp_all

text \<open>Without swap the percentage is not a number.\<close>

lemma obsd_no_swap:
  assumes "scan_uints (scan_format ''total: # 1K-blocks allocated, # used, # available'') line = Some [0, 0, 0]" and "h_command h ''swapctl'' [''-sk''] = (line, None)"
  shows "\<exists>sw. obsd_SwapMemoryWithContext h = Ok sw \<and> sw_UsedPercent sw = NaN"
  using assms percent_u64_zero [of 0] by (simp add: obsd_SwapMemoryWithContext_def swapctl_total_def run_command_def swap_stat_def)

text \<open>The blocks of all devices of FreeBSD are added, in pages.\<close>

lemma fbsd_swap_sum:
  assumes "\<And>n. n < k \<Longrightarrow> add_swap sys (int n) = (\<lambda>(tot, used). Ok (tot + word_of_nat (blks n), used + word_of_nat (usd n)))"
  shows "rfold (add_swap sys) (map int [0..<k]) (0, 0) = Ok (word_of_nat (\<Sum>n<k. blks n), word_of_nat (\<Sum>n<k. usd n))"
  using assms by (induction k) (simp_all add: rfold_append)

lemma widths_pos_bsd [simp]:
  "widths_pos xswdev" "widths_pos xswdev11" "widths_pos loadavg" "widths_pos cpuTimes" "widths_pos obsd_cpuTimes" "widths_pos cpuStats"
  "widths_pos swapUsage" "widths_pos forkstat" "widths_pos Bcachestats"
  by (simp_all add: widths_pos_def xswdev_def xswdev11_def loadavg_def cpuTimes_def obsd_cpuTimes_def cpuStats_def swapUsage_def forkstat_def
      Bcachestats_def le_field_defs)

lemma layout_sizes_bsd [simp]:
  "layout_size xswdev = 32" "layout_size xswdev11 = 20" "layout_size loadavg = 24" "layout_size cpuTimes = 40" "layout_size obsd_cpuTimes = 48"
  "layout_size cpuStats = 56" "layout_size swapUsage = 32" "layout_size forkstat = 24" "layout_size Bcachestats = sizeOfBcachestats"
  by (simp_all add: xswdev_def xswdev11_def loadavg_def cpuTimes_def obsd_cpuTimes_def cpuStats_def swapUsage_def forkstat_def Bcachestats_def
      sizeOfBcachestats_def le_field_defs field_size_def)

section \<open>Processors\<close>

text \<open>The per-processor times of FreeBSD are those of the processors that are present, in order, under consecutive names from \<^verbatim>\<open>cpu0\<close>: every
  table of counters that the kernel hands over is read back.\<close>

theorem fbsd_cpu_times_roundtrip:
  assumes "bs_raw sys ''kern.cp_times'' [] = Inr (concat (map (le_encode cpuTimes) ts))" and "list_all (has_layout cpuTimes) ts"
  shows "fbsd_TimesWithContext sys clk True =
    Ok (map (\<lambda>(i, t). timeStat clk (cpu_name i) t) (List.enumerate 0 (filter (\<lambda>t. t \<noteq> zero_struct cpuTimes) ts)))"
proof -
  define buf where "buf = concat (map (le_encode cpuTimes) ts)"
  have z: "layout_size cpuTimes = 40" "widths_pos cpuTimes" by simp_all
  have d: "le_decode cpuTimes (drop (i * 40) buf) = ts ! i" if "i < length ts" for i
    using le_decode_rows [OF z(2) assms(2) that, of "[]"] by (simp add: buf_def z)
  let ?res = "\<lambda>us. map (\<lambda>(i, t). timeStat clk (cpu_name i) t) (List.enumerate 0 (filter (\<lambda>t. t \<noteq> zero_struct cpuTimes) us))"
  have "fold (fbsd_per_cpu clk buf) [0..<n] [] = ?res (take n ts)" if "n \<le> length ts" for n
    using that by (induction n) (simp_all add: fbsd_per_cpu_def d take_Suc_conv_app_nth enumerate_append_eq Let_def)
  from this [of "length ts"] show ?thesis
    using assms(1) length_rows [OF assms(2)] by (simp add: fbsd_TimesWithContext_def buf_def)
qed

definition cpu_sample :: "u64 \<Rightarrow> struct" where
  "cpu_sample n = [(''User'', [uint n]), (''Nice'', [0]), (''Sys'', [1]), (''Intr'', [2]), (''Idle'', [3])]"

theorem fbsd_cpu_times_roundtrip_witness:
  "fbsd_TimesWithContext (fbsd_sample\<lparr>bs_raw := (\<lambda>_ _. Inr (concat (map (le_encode cpuTimes) [cpu_sample 5, zero_struct cpuTimes, cpu_sample 6])))\<rparr>) (Fin 128) True =
    Ok (map (\<lambda>(i, t). timeStat (Fin 128) (cpu_name i) t) (List.enumerate 0 (filter (\<lambda>t. t \<noteq> zero_struct cpuTimes) [cpu_sample 5, zero_struct cpuTimes, cpu_sample 6])))"
  by (rule fbsd_cpu_times_roundtrip)
    (simp_all add: has_layout_zero, simp_all add: cpu_sample_def cpuTimes_def has_layout_def field_ok_def in_width_def field_ty_defs)

text \<open>The counts of processes by state: each line counts once, a runnable process is not blocked.\<close>

lemma state_lines_counts:
  "ms_ProcsRunning (fold (state_line b) ls ret) = ms_ProcsRunning ret + int (length (filter (\<lambda>l. CHR ''R'' \<in> set l) ls)) \<and>
   ms_ProcsBlocked (fold (state_line b) ls ret) = ms_ProcsBlocked ret + int (length (filter (\<lambda>l. CHR ''R'' \<notin> set l \<and> b \<in> set l) ls))"
  by (induction ls arbitrary: ret) (simp_all add: state_line_def)

end
