(* ===== verification/Process_Bsd.thy ===== *)
theory Process_Bsd
  imports System_Bsd Net_Bsd "HOL-Library.Signed_Division"
begin

text \<open>
  Package \<^verbatim>\<open>process\<close> on FreeBSD and OpenBSD (\<^verbatim>\<open>process_freebsd.go\<close>, \<^verbatim>\<open>process_openbsd.go\<close>, \<^verbatim>\<open>process_bsd.go\<close>, with the structs of the 64-bit x86 files): a process
  is described by the kernel's \<^verbatim>\<open>kinfo_proc\<close>. What the two systems do alike is written once, over the function that fetches the struct. The
  lemmas hold for every kernel: a value may change between the two system calls that fetch it.
\<close>

section \<open>The structs\<close>

definition Timeval :: layout where
  "Timeval = [(''Sec'', i64_f), (''Usec'', i64_f)]"

definition Rusage :: layout where
  "Rusage = nested ''Utime'' Timeval @ nested ''Stime'' Timeval @ map (\<lambda>n. (n, i64_f)) [''Maxrss'', ''Ixrss'', ''Idrss'', ''Isrss'', ''Minflt'', ''Majflt'', ''Nswap'',
     ''Inblock'', ''Oublock'', ''Msgsnd'', ''Msgrcv'', ''Nsignals'', ''Nvcsw'', ''Nivcsw'']"

definition Priority :: layout where
  "Priority = map (\<lambda>n. (n, u8_f)) [''Class'', ''Level'', ''Native'', ''User'']"

definition i8_f :: field_ty where "i8_f = i8s_f 1"

definition fbsd_KinfoProc :: layout where
  "fbsd_KinfoProc = [(''Structsize'', i32_f), (''Layout'', i32_f), (''Args'', i64_f), (''Paddr'', i64_f), (''Addr'', i64_f), (''Tracep'', i64_f), (''Textvp'', i64_f),
     (''Fd'', i64_f), (''Vmspace'', i64_f), (''Wchan'', i64_f), (''Pid'', i32_f), (''Ppid'', i32_f), (''Pgid'', i32_f), (''Tpgid'', i32_f), (''Sid'', i32_f), (''Tsid'', i32_f),
     (''Jobc'', i16_f), (''Spare_short1'', i16_f), (''Tdev_freebsd11'', u32_f), (''Siglist'', bytes_f 16), (''Sigmask'', bytes_f 16), (''Sigignore'', bytes_f 16),
     (''Sigcatch'', bytes_f 16), (''Uid'', u32_f), (''Ruid'', u32_f), (''Svuid'', u32_f), (''Rgid'', u32_f), (''Svgid'', u32_f), (''Ngroups'', i16_f), (''Spare_short2'', i16_f),
     (''Groups'', u32s_f 16), (''Size'', u64_f), (''Rssize'', i64_f), (''Swrss'', i64_f), (''Tsize'', i64_f), (''Dsize'', i64_f), (''Ssize'', i64_f), (''Xstat'', u16_f),
     (''Acflag'', u16_f), (''Pctcpu'', u32_f), (''Estcpu'', u32_f), (''Slptime'', u32_f), (''Swtime'', u32_f), (''Cow'', u32_f), (''Runtime'', u64_f)] @
     nested ''Start'' Timeval @ nested ''Childtime'' Timeval @
     [(''Flag'', i64_f), (''Kiflag'', i64_f), (''Traceflag'', i32_f), (''Stat'', i8_f), (''Nice'', i8_f), (''Lock'', i8_f), (''Rqindex'', i8_f), (''Oncpu_old'', u8_f),
     (''Lastcpu_old'', u8_f), (''Tdname'', i8s_f 17), (''Wmesg'', i8s_f 9), (''Login'', i8s_f 18), (''Lockname'', i8s_f 9), (''Comm'', i8s_f 20), (''Emul'', i8s_f 17),
     (''Loginclass'', i8s_f 18), (''Moretdname'', i8s_f 4), (''Sparestrings'', i8s_f 46), (''Spareints'', \<lparr>ft_signed = True, ft_width = 4, ft_count = 2\<rparr>), (''Tdev'', u64_f),
     (''Oncpu'', i32_f), (''Lastcpu'', i32_f), (''Tracer'', i32_f), (''Flag2'', i32_f), (''Fibnum'', i32_f), (''Cr_flags'', u32_f), (''Jid'', i32_f), (''Numthreads'', i32_f),
     (''Tid'', i32_f)] @ nested ''Pri'' Priority @ nested ''Rusage'' Rusage @ nested ''Rusage_ch'' Rusage @
     [(''Pcb'', i64_f), (''Kstack'', i64_f), (''Udata'', i64_f), (''Tdaddr'', i64_f), (''Pd'', i64_f), (''Spareptrs'', i64s_f 5), (''Sparelongs'', i64s_f 12), (''Sflag'', i64_f),
     (''Tdflags'', i64_f)]"

definition kinfoFile :: layout where
  "kinfoFile = [(''Structsize'', i32_f), (''Type'', i32_f), (''Fd'', i32_f), (''Ref_count'', i32_f), (''Flags'', i32_f), (''Pad0'', i32_f), (''Offset'', i64_f),
     (''Anon0'', bytes_f 304), (''Status'', u16_f), (''Pad1'', u16_f), (''X_kf_ispare0'', i32_f)] @ nested ''Cap_rights'' [(''Rights'', u64s_f 2)] @
     [(''X_kf_cap_spare'', u64_f), (''Path'', i8s_f 1024)]"

definition obsd_KinfoProc :: layout where
  "obsd_KinfoProc = map (\<lambda>n. (n, u64_f)) [''Forw'', ''Back'', ''Paddr'', ''Addr'', ''Fd'', ''Stats'', ''Limit'', ''Vmspace'', ''Sigacts'', ''Sess'', ''Tsess'', ''Ru''] @
     map (\<lambda>n. (n, i32_f)) [''Eflag'', ''Exitsig'', ''Flag'', ''Pid'', ''Ppid'', ''Sid'', ''X_pgid'', ''Tpgid''] @
     map (\<lambda>n. (n, u32_f)) [''Uid'', ''Ruid'', ''Gid'', ''Rgid''] @
     [(''Groups'', u32s_f 16), (''Ngroups'', i16_f), (''Jobc'', i16_f), (''Tdev'', u32_f), (''Estcpu'', u32_f), (''Rtime_sec'', u32_f), (''Rtime_usec'', u32_f), (''Cpticks'', i32_f),
     (''Pctcpu'', u32_f), (''Swtime'', u32_f), (''Slptime'', u32_f), (''Schedflags'', i32_f), (''Uticks'', u64_f), (''Sticks'', u64_f), (''Iticks'', u64_f), (''Tracep'', u64_f),
     (''Traceflag'', i32_f), (''Holdcnt'', i32_f), (''Siglist'', i32_f), (''Sigmask'', u32_f), (''Sigignore'', u32_f), (''Sigcatch'', u32_f), (''Stat'', i8_f), (''Priority'', u8_f),
     (''Usrpri'', u8_f), (''Nice'', u8_f), (''Xstat'', u16_f), (''Acflag'', u16_f), (''Comm'', i8s_f 24), (''Wmesg'', i8s_f 8), (''Wchan'', u64_f), (''Login'', i8s_f 32),
     (''Vm_rssize'', i32_f), (''Vm_tsize'', i32_f), (''Vm_dsize'', i32_f), (''Vm_ssize'', i32_f), (''Uvalid'', i64_f), (''Ustart_sec'', u64_f), (''Ustart_usec'', u32_f),
     (''Uutime_sec'', u32_f), (''Uutime_usec'', u32_f), (''Ustime_sec'', u32_f), (''Ustime_usec'', u32_f), (''Pad_cgo_0'', bytes_f 4)] @
     map (\<lambda>n. (n, u64_f)) [''Uru_maxrss'', ''Uru_ixrss'', ''Uru_idrss'', ''Uru_isrss'', ''Uru_minflt'', ''Uru_majflt'', ''Uru_nswap'', ''Uru_inblock'', ''Uru_oublock'',
       ''Uru_msgsnd'', ''Uru_msgrcv'', ''Uru_nsignals'', ''Uru_nvcsw'', ''Uru_nivcsw''] @
     [(''Uctime_sec'', u32_f), (''Uctime_usec'', u32_f), (''Psflags'', i32_f), (''Spare'', i32_f), (''Svuid'', u32_f), (''Svgid'', u32_f), (''Emul'', i8s_f 8),
     (''Rlim_rss_cur'', u64_f), (''Cpuid'', u64_f), (''Vm_map_size'', u64_f), (''Tid'', i32_f), (''Rtableid'', u32_f)]"

lemmas kinfo_defs = fbsd_KinfoProc_def obsd_KinfoProc_def kinfoFile_def Rusage_def Timeval_def Priority_def i8_f_def le_field_defs nested_def

text \<open>The sizes that the sources give.\<close>

definition fbsd_sizeOfKinfoProc :: nat where "fbsd_sizeOfKinfoProc = 0x440"
definition sizeOfKinfoFile :: nat where "sizeOfKinfoFile = 0x570"
definition obsd_sizeOfKinfoProc :: nat where "obsd_sizeOfKinfoProc = 0x268"

lemma kinfo_sizes [simp]:
  "layout_size fbsd_KinfoProc = fbsd_sizeOfKinfoProc" "layout_size kinfoFile = sizeOfKinfoFile" "layout_size obsd_KinfoProc = obsd_sizeOfKinfoProc"
  by (simp_all add: kinfo_defs field_size_def fbsd_sizeOfKinfoProc_def sizeOfKinfoFile_def obsd_sizeOfKinfoProc_def)

lemma kinfo_widths [simp]: "widths_pos fbsd_KinfoProc" "widths_pos kinfoFile" "widths_pos obsd_KinfoProc"
  by (simp_all add: widths_pos_def kinfo_defs)

section \<open>The system calls\<close>

text \<open>\<open>be_addr\<close> is the address of the buffer that a call of the OpenBSD command line fills; the pointers in the reply point into it.\<close>

record bsd_env =
  be_proc :: proc_env
  be_sys :: bsd
  be_addr :: u64

abbreviation be_host :: "bsd_env \<Rightarrow> host" where
  "be_host env \<equiv> pe_host (be_proc env)"

definition fbsd_syscall :: "bsd_env \<Rightarrow> int \<Rightarrow> int \<Rightarrow> string \<times> nat \<times> gerr option" where
  "fbsd_syscall env op arg = CallSyscall (bs_kernel (be_sys env)) [1, 14, op, arg]"

definition parseKinfoProc :: "layout \<Rightarrow> string \<Rightarrow> struct result" where
  "parseKinfoProc fs buf = le_read fs buf"

definition fbsd_getKProc :: "bsd_env \<Rightarrow> process \<Rightarrow> struct result" where
  "fbsd_getKProc env p = (case fbsd_syscall env 1 (p_Pid p) of (buf, len, err) \<Rightarrow>
     (case err of Some e \<Rightarrow> Err e
      | None \<Rightarrow> if len \<noteq> fbsd_sizeOfKinfoProc then Err (ErrMsg ''unexpected size of KinfoProc'') else parseKinfoProc fbsd_KinfoProc buf))"

definition callKernProcSyscall :: "bsd_env \<Rightarrow> int \<Rightarrow> int \<Rightarrow> (string \<times> nat) result" where
  "callKernProcSyscall env op arg =
     (let k = bs_kernel (be_sys env); sz = int obsd_sizeOfKinfoProc in
      case k [1, 66, op, arg, sz, 0] None of (_, len, err) \<Rightarrow>
        (case err of Some e \<Rightarrow> Err e
         | None \<Rightarrow>
             if len = 0 then Err (ErrMsg ''empty KinfoProc'')
             else (case k [1, 66, op, arg, sz, to_i32 (int (len div obsd_sizeOfKinfoProc))] (Some len) of (d, len', err') \<Rightarrow>
               (case err' of Some e \<Rightarrow> Err e | None \<Rightarrow> Ok (sys_buffer len d, len')))))"

definition obsd_getKProc :: "bsd_env \<Rightarrow> process \<Rightarrow> struct result" where
  "obsd_getKProc env p = rbind (callKernProcSyscall env 1 (p_Pid p)) (\<lambda>(buf, len).
     if len \<noteq> obsd_sizeOfKinfoProc then Err (ErrMsg ''unexpected size of KinfoProc'') else parseKinfoProc obsd_KinfoProc buf)"

section \<open>What the struct gives\<close>

definition kinfo_Ppid :: "(process \<Rightarrow> struct result) \<Rightarrow> process \<Rightarrow> int result" where
  "kinfo_Ppid kproc p = rbind (kproc p) (\<lambda>k. Ok (val_of k ''Ppid''))"

text \<open>A long name is replaced by that of the command line. The prefix that is compared is \<^verbatim>\<open>p.name\<close>, not the name that was just read.\<close>

definition kinfo_Name :: "(process \<Rightarrow> struct result) \<Rightarrow> (process \<Rightarrow> string list result) \<Rightarrow> process \<Rightarrow> string result" where
  "kinfo_Name kproc cmdlineSlice p = rbind (kproc p) (\<lambda>k.
     let name = IntToString (arr_of k ''Comm'') in
     if length name < 15 then Ok name
     else rbind (cmdlineSlice p) (\<lambda>args. Ok (case args of
       [] \<Rightarrow> name | arg0 # _ \<Rightarrow> if has_prefix (path_base arg0) (p_name p) then path_base arg0 else name)))"

definition kinfo_Uids :: "(process \<Rightarrow> struct result) \<Rightarrow> process \<Rightarrow> u32 list result" where
  "kinfo_Uids kproc p = rbind (kproc p) (\<lambda>k. Ok (map (\<lambda>n. word_of_int (val_of k n)) [''Ruid'', ''Uid'', ''Svuid'']))"

definition kinfo_Gids :: "(process \<Rightarrow> struct result) \<Rightarrow> process \<Rightarrow> u32 list result" where
  "kinfo_Gids kproc p = rbind (kproc p) (\<lambda>k. Ok (map (\<lambda>n. word_of_int (val_of k n)) [''Rgid'', ''Ngroups'', ''Svgid'']))"

text \<open>A negative number of groups cannot be made, and the array of groups ends after 16.\<close>

definition kinfo_Groups :: "(process \<Rightarrow> struct result) \<Rightarrow> process \<Rightarrow> u32 list result" where
  "kinfo_Groups kproc p = rbind (kproc p) (\<lambda>k.
     if val_of k ''Ngroups'' < 0 then Panic
     else map_result (\<lambda>i. rbind (idx (arr_of k ''Groups'') i) (\<lambda>g. Ok (word_of_int g))) [0..<nat (val_of k ''Ngroups'')])"

definition kinfo_Terminal :: "(process \<Rightarrow> struct result) \<Rightarrow> bsd_env \<Rightarrow> process \<Rightarrow> string result" where
  "kinfo_Terminal kproc env p = rbind (kproc p) (\<lambda>k. rbind (getTerminalMap (be_proc env)) (\<lambda>termmap.
     Ok (case map_of termmap (word_of_int (val_of k ''Tdev'')) of Some t \<Rightarrow> t | None \<Rightarrow> [])))"

definition kinfo_Nice :: "(process \<Rightarrow> struct result) \<Rightarrow> process \<Rightarrow> int result" where
  "kinfo_Nice kproc p = rbind (kproc p) (\<lambda>k. Ok (val_of k ''Nice''))"

definition bsd_Foreground :: "bsd_env \<Rightarrow> process \<Rightarrow> bool result" where
  "bsd_Foreground env p = rbind (run_command (be_host env) ''ps'' [''-o'', ''stat='', ''-p'', itoa (p_Pid p)]) (\<lambda>out. Ok (CHR ''+'' \<in> set out))"

text \<open>Seconds and microseconds as seconds.\<close>

definition usec_time :: "int \<Rightarrow> int \<Rightarrow> float64" where
  "usec_time sec usec = f_of_int sec + f_of_int usec / Fin 1000000"

definition bsd_times :: "float64 \<Rightarrow> float64 \<Rightarrow> times_stat" where
  "bsd_times user sys = \<lparr>t_CPU = ''cpu'', t_User = user, t_System = sys, t_Idle = 0, t_Nice = 0, t_Iowait = 0, t_Irq = 0, t_Softirq = 0,
     t_Steal = 0, t_Guest = 0, t_GuestNice = 0\<rparr>"

section \<open>FreeBSD\<close>

definition fbsd_createTimeWithContext :: "bsd_env \<Rightarrow> process \<Rightarrow> int result" where
  "fbsd_createTimeWithContext env p = rbind (fbsd_getKProc env p) (\<lambda>k.
     Ok (to_i64 (to_i64 (val_of k ''Start.Sec'' * 1000) + val_of k ''Start.Usec'' sdiv 1000)))"

definition fbsd_CwdWithContext :: "bsd_env \<Rightarrow> process \<Rightarrow> string result" where
  "fbsd_CwdWithContext env p = (case fbsd_syscall env 42 (p_Pid p) of (buf, len, err) \<Rightarrow>
     (case err of Some e \<Rightarrow> Err e
      | None \<Rightarrow> if len \<noteq> sizeOfKinfoFile then Err (ErrMsg ''unexpected size of KinfoFile'')
                else rbind (le_read kinfoFile buf) (\<lambda>k. Ok (IntToString (arr_of k ''Path'')))))"

definition fbsd_ExeWithContext :: "bsd_env \<Rightarrow> process \<Rightarrow> string result" where
  "fbsd_ExeWithContext env p = (case fbsd_syscall env 12 (p_Pid p) of (buf, _, err) \<Rightarrow>
     (case err of Some e \<Rightarrow> Err e | None \<Rightarrow> Ok (trim_set [CHR 0x00] buf)))"

definition fbsd_CmdlineWithContext :: "bsd_env \<Rightarrow> process \<Rightarrow> string result" where
  "fbsd_CmdlineWithContext env p = (case fbsd_syscall env 7 (p_Pid p) of (buf, _, err) \<Rightarrow>
     (case err of Some e \<Rightarrow> Err e | None \<Rightarrow> Ok (join '' '' (fields_func (\<lambda>ch. ch = CHR 0x00) [] buf))))"

definition fbsd_CmdlineSliceWithContext :: "bsd_env \<Rightarrow> process \<Rightarrow> string list result" where
  "fbsd_CmdlineSliceWithContext env p = (case fbsd_syscall env 7 (p_Pid p) of (buf, _, err) \<Rightarrow>
     (case err of Some e \<Rightarrow> Err e
      | None \<Rightarrow> if buf = [] then Ok [] else Ok (split_char (CHR 0x00) (if last buf = CHR 0x00 then butlast buf else buf))))"

definition fbsd_StatusWithContext :: "bsd_env \<Rightarrow> process \<Rightarrow> string list result" where
  "fbsd_StatusWithContext env p = rbind (fbsd_getKProc env p) (\<lambda>k.
     Ok [case map_of [(1, ''idle''), (2, ''running''), (3, ''sleep''), (4, ''stop''), (5, ''zombie''), (6, ''wait''), (7, ''lock'')] (val_of k ''Stat'') of
       Some s \<Rightarrow> s | None \<Rightarrow> []])"

definition fbsd_PpidWithContext :: "bsd_env \<Rightarrow> process \<Rightarrow> int result" where
  "fbsd_PpidWithContext env = kinfo_Ppid (fbsd_getKProc env)"

definition fbsd_NameWithContext :: "bsd_env \<Rightarrow> process \<Rightarrow> string result" where
  "fbsd_NameWithContext env = kinfo_Name (fbsd_getKProc env) (fbsd_CmdlineSliceWithContext env)"

definition fbsd_ForegroundWithContext :: "bsd_env \<Rightarrow> process \<Rightarrow> bool result" where
  "fbsd_ForegroundWithContext = bsd_Foreground"

definition fbsd_UidsWithContext :: "bsd_env \<Rightarrow> process \<Rightarrow> u32 list result" where
  "fbsd_UidsWithContext env = kinfo_Uids (fbsd_getKProc env)"

definition fbsd_GidsWithContext :: "bsd_env \<Rightarrow> process \<Rightarrow> u32 list result" where
  "fbsd_GidsWithContext env = kinfo_Gids (fbsd_getKProc env)"

definition fbsd_GroupsWithContext :: "bsd_env \<Rightarrow> process \<Rightarrow> u32 list result" where
  "fbsd_GroupsWithContext env = kinfo_Groups (fbsd_getKProc env)"

definition fbsd_TerminalWithContext :: "bsd_env \<Rightarrow> process \<Rightarrow> string result" where
  "fbsd_TerminalWithContext env = kinfo_Terminal (fbsd_getKProc env) env"

definition fbsd_NiceWithContext :: "bsd_env \<Rightarrow> process \<Rightarrow> int result" where
  "fbsd_NiceWithContext env = kinfo_Nice (fbsd_getKProc env)"

definition fbsd_proc_IOCountersWithContext :: "bsd_env \<Rightarrow> process \<Rightarrow> proc_io_stat result" where
  "fbsd_proc_IOCountersWithContext env p = rbind (fbsd_getKProc env p) (\<lambda>k.
     Ok (empty_io\<lparr>pi_ReadCount := word_of_int (val_of k ''Rusage.Inblock''), pi_WriteCount := word_of_int (val_of k ''Rusage.Oublock'')\<rparr>))"

definition fbsd_NumThreadsWithContext :: "bsd_env \<Rightarrow> process \<Rightarrow> int result" where
  "fbsd_NumThreadsWithContext env p = rbind (fbsd_getKProc env p) (\<lambda>k. Ok (val_of k ''Numthreads''))"

definition fbsd_proc_TimesWithContext :: "bsd_env \<Rightarrow> process \<Rightarrow> times_stat result" where
  "fbsd_proc_TimesWithContext env p = rbind (fbsd_getKProc env p) (\<lambda>k.
     Ok (bsd_times (usec_time (val_of k ''Rusage.Utime.Sec'') (val_of k ''Rusage.Utime.Usec''))
       (usec_time (val_of k ''Rusage.Stime.Sec'') (val_of k ''Rusage.Stime.Usec''))))"

text \<open>The page size is read as a number of 16 bits from the bytes of the kernel's value.\<close>

definition fbsd_MemoryInfoWithContext :: "bsd_env \<Rightarrow> process \<Rightarrow> memory_info_stat result" where
  "fbsd_MemoryInfoWithContext env p = rbind (fbsd_getKProc env p) (\<lambda>k.
     rbind (of_sum (bs_str (be_sys env) ''vm.stats.vm.v_page_size'')) (\<lambda>v.
       if length v < 2 then Panic
       else let pageSize = word_of_int (val_of (le_decode [(''v'', u16_f)] v) ''v'') in
         Ok (empty_mem_info\<lparr>mi_RSS := word_of_int (val_of k ''Rssize'') * pageSize, mi_VMS := word_of_int (val_of k ''Size'')\<rparr>)))"

definition fbsd_proc_ConnectionsWithContext :: "bsd_env \<Rightarrow> process \<Rightarrow> connection_stat list result" where
  "fbsd_proc_ConnectionsWithContext env p = unix_ConnectionsPidWithContext 28 (be_host env) ''all'' (p_Pid p)"

section \<open>Listing\<close>

text \<open>\<^verbatim>\<open>CreateTimeWithContext\<close> and \<^verbatim>\<open>NewProcessWithContext\<close> of \<^verbatim>\<open>process.go\<close>, over the start time of the system.\<close>

definition bsd_CreateTime :: "(process \<Rightarrow> int result) \<Rightarrow> process \<Rightarrow> (int \<times> gerr option) result \<times> process" where
  "bsd_CreateTime createTime p =
     (if p_createTime p \<noteq> 0 then (Ok (p_createTime p, None), p)
      else case createTime p of
        Ok t \<Rightarrow> (Ok (t, None), p\<lparr>p_createTime := t\<rparr>)
      | Err e \<Rightarrow> (Ok (0, Some e), p\<lparr>p_createTime := 0\<rparr>)
      | Panic \<Rightarrow> (Panic, p))"

definition bsd_NewProcess :: "(process \<Rightarrow> int result) \<Rightarrow> bsd_env \<Rightarrow> int \<Rightarrow> (process \<times> gerr option) result" where
  "bsd_NewProcess createTime env pid = (let p = new_process pid in
     case PidExistsWithContext (be_proc env) pid of
       Err e \<Rightarrow> Ok (p, Some e)
     | Panic \<Rightarrow> Panic
     | Ok False \<Rightarrow> Ok (p, Some ErrProcessNotRunning)
     | Ok True \<Rightarrow> (case bsd_CreateTime createTime p of (Panic, _) \<Rightarrow> Panic | (_, p') \<Rightarrow> Ok (p', None)))"

text \<open>The slice of the buffer that holds a struct; a slice behind the buffer panics. Processes that are gone by now are left out.\<close>

definition kinfo_entry :: "layout \<Rightarrow> (int \<Rightarrow> (process \<times> gerr option) result) \<Rightarrow> string \<Rightarrow> nat \<Rightarrow> process list \<Rightarrow> process list result" where
  "kinfo_entry fs new buf i ret =
     (if length buf < (i + 1) * layout_size fs then Panic
      else case parseKinfoProc fs (take (layout_size fs) (drop (i * layout_size fs) buf)) of
        Ok k \<Rightarrow> rbind (new (val_of k ''Pid'')) (\<lambda>(p, err). Ok (if err = None then ret @ [p] else ret))
      | Err _ \<Rightarrow> Ok ret
      | Panic \<Rightarrow> Panic)"

definition kinfo_processes :: "layout \<Rightarrow> (int \<Rightarrow> (process \<times> gerr option) result) \<Rightarrow> string \<Rightarrow> nat \<Rightarrow> process list result" where
  "kinfo_processes fs new buf len = rfold (kinfo_entry fs new buf) [0..<len div layout_size fs] []"

definition fbsd_ProcessesWithContext :: "bsd_env \<Rightarrow> process list result" where
  "fbsd_ProcessesWithContext env = (case fbsd_syscall env 8 0 of (buf, len, err) \<Rightarrow>
     (case err of Some e \<Rightarrow> Err e
      | None \<Rightarrow> kinfo_processes fbsd_KinfoProc (bsd_NewProcess (fbsd_createTimeWithContext env) env) buf len))"

text \<open>A list that cannot be fetched is an empty one.\<close>

definition kinfo_pids :: "process list result \<Rightarrow> int list result" where
  "kinfo_pids procs = (case procs of Ok ps \<Rightarrow> Ok (map p_Pid ps) | Err _ \<Rightarrow> Ok [] | Panic \<Rightarrow> Panic)"

definition kinfo_Children :: "process list result \<Rightarrow> (process \<Rightarrow> int result) \<Rightarrow> process \<Rightarrow> process list result" where
  "kinfo_Children procs ppid p = (case procs of
     Ok ps \<Rightarrow> rbind (rfold (\<lambda>q ret. case ppid q of Ok pp \<Rightarrow> Ok (if pp = p_Pid p then ret @ [q] else ret) | Err _ \<Rightarrow> Ok ret | Panic \<Rightarrow> Panic) ps [])
         (\<lambda>ret. Ok (sort_key p_Pid ret))
   | Err _ \<Rightarrow> Ok []
   | Panic \<Rightarrow> Panic)"

definition fbsd_pidsWithContext :: "bsd_env \<Rightarrow> int list result" where
  "fbsd_pidsWithContext env = kinfo_pids (fbsd_ProcessesWithContext env)"

definition fbsd_ChildrenWithContext :: "bsd_env \<Rightarrow> process \<Rightarrow> process list result" where
  "fbsd_ChildrenWithContext env = kinfo_Children (fbsd_ProcessesWithContext env) (fbsd_PpidWithContext env)"

section \<open>OpenBSD\<close>

definition obsd_CwdWithContext :: "bsd_env \<Rightarrow> process \<Rightarrow> string result" where
  "obsd_CwdWithContext env p = (case CallSyscall (bs_kernel (be_sys env)) [1, 78, p_Pid p] of (buf, _, err) \<Rightarrow>
     (case err of Some e \<Rightarrow> Err e | None \<Rightarrow> Ok (ByteToString buf)))"

text \<open>\<^verbatim>\<open>readPtr\<close>: a pointer of 8 bytes, and what is left of the reader.\<close>

definition readPtr :: "string \<Rightarrow> (u64 \<times> string) result" where
  "readPtr r = rbind (le_read [(''p'', u64_f)] r) (\<lambda>s. Ok (word_of_int (val_of s ''p''), drop 8 r))"

definition argv_error :: "int \<Rightarrow> string \<Rightarrow> gerr" where
  "argv_error pid what = ErrMsg (''malformed KERN_PROC_ARGV reply for pid '' @ itoa pid @ '': '' @ what)"

text \<open>\<^verbatim>\<open>xs[i:j]\<close>, which panics unless \<open>i \<le> j\<close> and \<open>j\<close> is at most the length.\<close>

definition slice_range :: "'a list \<Rightarrow> nat \<Rightarrow> nat \<Rightarrow> 'a list result" where
  "slice_range xs i j = (if i \<le> j \<and> j \<le> length xs then Ok (take (j - i) (drop i xs)) else Panic)"

text \<open>Both slices of the loop panic out of range; the guards of the code are what keeps them in range.\<close>

function argv_loop :: "int \<Rightarrow> u64 \<Rightarrow> string \<Rightarrow> string \<Rightarrow> string list \<Rightarrow> string list result" where
  "argv_loop pid base buf r strParts = (case readPtr r of
     Ok (argvp, r') \<Rightarrow>
       if argvp = 0 then Ok strParts
       else let offset = unat (argvp - base) in
         if length buf \<le> offset then Err (argv_error pid ''argv pointer out of bounds'')
         else (case slice_from buf offset of
             Ok tail \<Rightarrow>
               (case index_byte tail (CHR 0x00) of
                  None \<Rightarrow> Err (argv_error pid ''argv string not NUL-terminated'')
                | Some n \<Rightarrow>
                    (case slice_range buf offset (offset + n) of
                       Ok str \<Rightarrow> argv_loop pid base buf r' (strParts @ [str])
                     | Err e \<Rightarrow> Err e
                     | Panic \<Rightarrow> Panic))
           | Err e \<Rightarrow> Err e
           | Panic \<Rightarrow> Panic)
   | Err e \<Rightarrow> Err e
   | Panic \<Rightarrow> Panic)"
  by pat_completeness auto
termination
  by (relation "measure (\<lambda>(_, _, _, r, _). length r)")
    (auto simp: readPtr_def outcome_iff le_field_defs field_size_def)

declare argv_loop.simps [simp del]

definition obsd_CmdlineSliceWithContext :: "bsd_env \<Rightarrow> process \<Rightarrow> string list result" where
  "obsd_CmdlineSliceWithContext env p = (case CallSyscall (bs_kernel (be_sys env)) [1, 55, p_Pid p, 1] of (buf, _, err) \<Rightarrow>
     (case err of Some e \<Rightarrow> Err e
      | None \<Rightarrow> if buf = [] then Ok [] else argv_loop (p_Pid p) (be_addr env) buf buf []))"

definition obsd_CmdlineWithContext :: "bsd_env \<Rightarrow> process \<Rightarrow> string result" where
  "obsd_CmdlineWithContext env p = rbind (obsd_CmdlineSliceWithContext env p) (\<lambda>argv. Ok (join '' '' argv))"

text \<open>The cases of idle and runnable processes are empty.\<close>

definition obsd_StatusWithContext :: "bsd_env \<Rightarrow> process \<Rightarrow> string list result" where
  "obsd_StatusWithContext env p = rbind (obsd_getKProc env p) (\<lambda>k.
     Ok [case map_of [(1, []), (2, []), (7, ''running''), (3, ''sleep''), (4, ''stop''), (6, ''zombie'')] (val_of k ''Stat'') of Some s \<Rightarrow> s | None \<Rightarrow> []])"

definition obsd_PpidWithContext :: "bsd_env \<Rightarrow> process \<Rightarrow> int result" where
  "obsd_PpidWithContext env = kinfo_Ppid (obsd_getKProc env)"

definition obsd_NameWithContext :: "bsd_env \<Rightarrow> process \<Rightarrow> string result" where
  "obsd_NameWithContext env = kinfo_Name (obsd_getKProc env) (obsd_CmdlineSliceWithContext env)"

definition obsd_ForegroundWithContext :: "bsd_env \<Rightarrow> process \<Rightarrow> bool result" where
  "obsd_ForegroundWithContext = bsd_Foreground"

definition obsd_UidsWithContext :: "bsd_env \<Rightarrow> process \<Rightarrow> u32 list result" where
  "obsd_UidsWithContext env = kinfo_Uids (obsd_getKProc env)"

definition obsd_GidsWithContext :: "bsd_env \<Rightarrow> process \<Rightarrow> u32 list result" where
  "obsd_GidsWithContext env = kinfo_Gids (obsd_getKProc env)"

definition obsd_GroupsWithContext :: "bsd_env \<Rightarrow> process \<Rightarrow> u32 list result" where
  "obsd_GroupsWithContext env = kinfo_Groups (obsd_getKProc env)"

definition obsd_TerminalWithContext :: "bsd_env \<Rightarrow> process \<Rightarrow> string result" where
  "obsd_TerminalWithContext env = kinfo_Terminal (obsd_getKProc env) env"

definition obsd_NiceWithContext :: "bsd_env \<Rightarrow> process \<Rightarrow> int result" where
  "obsd_NiceWithContext env = kinfo_Nice (obsd_getKProc env)"

definition obsd_proc_IOCountersWithContext :: "bsd_env \<Rightarrow> process \<Rightarrow> proc_io_stat result" where
  "obsd_proc_IOCountersWithContext env p = rbind (obsd_getKProc env p) (\<lambda>k.
     Ok (empty_io\<lparr>pi_ReadCount := word_of_int (val_of k ''Uru_inblock''), pi_WriteCount := word_of_int (val_of k ''Uru_oublock'')\<rparr>))"

definition obsd_NumThreadsWithContext :: "int result" where
  "obsd_NumThreadsWithContext = Ok 1"

definition obsd_proc_TimesWithContext :: "bsd_env \<Rightarrow> process \<Rightarrow> times_stat result" where
  "obsd_proc_TimesWithContext env p = rbind (obsd_getKProc env p) (\<lambda>k.
     Ok (bsd_times (usec_time (val_of k ''Uutime_sec'') (val_of k ''Uutime_usec'')) (usec_time (val_of k ''Ustime_sec'') (val_of k ''Ustime_usec''))))"

definition obsd_MemoryInfoWithContext :: "bsd_env \<Rightarrow> process \<Rightarrow> memory_info_stat result" where
  "obsd_MemoryInfoWithContext env p = rbind (obsd_getKProc env p) (\<lambda>k. rbind (obsd_GetPageSizeWithContext (be_sys env)) (\<lambda>pageSize.
     Ok (empty_mem_info\<lparr>mi_RSS := word_of_int (val_of k ''Vm_rssize'') * pageSize,
       mi_VMS := word_of_int (val_of k ''Vm_tsize'') + word_of_int (val_of k ''Vm_dsize'') + word_of_int (val_of k ''Vm_ssize'')\<rparr>)))"

definition obsd_createTimeWithContext :: "process \<Rightarrow> int result" where
  "obsd_createTimeWithContext p = Err ErrNotImplemented"

definition obsd_ProcessesWithContext :: "bsd_env \<Rightarrow> process list result" where
  "obsd_ProcessesWithContext env = rbind (callKernProcSyscall env 0 0) (\<lambda>(buf, len).
     kinfo_processes obsd_KinfoProc (bsd_NewProcess obsd_createTimeWithContext env) buf len)"

definition obsd_pidsWithContext :: "bsd_env \<Rightarrow> int list result" where
  "obsd_pidsWithContext env = kinfo_pids (obsd_ProcessesWithContext env)"

definition obsd_ChildrenWithContext :: "bsd_env \<Rightarrow> process \<Rightarrow> process list result" where
  "obsd_ChildrenWithContext env = kinfo_Children (obsd_ProcessesWithContext env) (obsd_PpidWithContext env)"

section \<open>What the struct promises\<close>

text \<open>A system that describes its processes by a struct with groups.\<close>

locale kinfo_system =
  fixes kproc :: "process \<Rightarrow> struct result" and fs :: layout
  assumes kproc_typed: "kproc p = Ok k \<Longrightarrow> has_layout fs k"
    and kproc_no_panic: "kproc p \<noteq> Panic"
    and group_fields: "map_of fs ''Groups'' = Some (u32s_f 16)" "map_of fs ''Ngroups'' = Some i16_f" "map_of fs ''Ppid'' = Some i32_f"
begin

lemma groups_array: "kproc p = Ok k \<Longrightarrow> length (arr_of k ''Groups'') = 16"
  using map_of_has_layout [OF kproc_typed group_fields(1)] by (simp add: field_ok_def u32s_f_def)

lemma groups_value:
  assumes "kproc p = Ok k" and "0 \<le> val_of k ''Ngroups''" and "val_of k ''Ngroups'' \<le> 16"
  shows "kinfo_Groups kproc p = Ok (map word_of_int (take (nat (val_of k ''Ngroups'')) (arr_of k ''Groups'')))"
proof -
  let ?gs = "arr_of k ''Groups''" and ?n = "nat (val_of k ''Ngroups'')"
  have len: "?n \<le> length ?gs" using assms groups_array [OF assms(1)] by simp
  then have "map_result (\<lambda>i. rbind (idx ?gs i) (\<lambda>g. Ok (word_of_int g :: u32))) [0..<?n] = Ok (map (\<lambda>i. word_of_int (?gs ! i)) [0..<?n])"
    by (intro map_result_map) (simp add: idx_def)
  moreover have "map (\<lambda>i. word_of_int (?gs ! i) :: u32) [0..<?n] = map word_of_int (take ?n ?gs)"
    using len by (intro nth_equalityI) simp_all
  ultimately show ?thesis using assms(1,2) by (simp add: kinfo_Groups_def)
qed

lemma groups_panic:
  assumes "kproc p = Ok k" and "val_of k ''Ngroups'' < 0 \<or> 16 < val_of k ''Ngroups''"
  shows "kinfo_Groups kproc p = Panic"
proof (cases "val_of k ''Ngroups'' < 0")
  case False
  let ?gs = "arr_of k ''Groups''" and ?n = "nat (val_of k ''Ngroups'')"
  let ?f = "\<lambda>i. rbind (idx ?gs i) (\<lambda>g. Ok (word_of_int g :: u32))"
  have pan: "map_result g (xs @ x # ys) = Panic" if "\<And>y. y \<in> set xs \<Longrightarrow> \<exists>z. g y = Ok z" "g x = Panic" for g :: "nat \<Rightarrow> u32 result" and xs x ys
    using that by (induction xs) force+
  have "[0..<?n] = [0..<16] @ 16 # [17..<?n]"
    using assms(2) False upt_add_eq_append [of 0 16 "?n - 16"] by (simp add: upt_conv_Cons)
  moreover have "map_result ?f ([0..<16] @ 16 # [17..<?n]) = Panic"
    using groups_array [OF assms(1)] by (intro pan) (auto simp: idx_def)
  ultimately show ?thesis using assms(1) False by (simp add: kinfo_Groups_def)
qed (use assms(1) in \<open>simp add: kinfo_Groups_def\<close>)

lemma ppid_no_panic: "kinfo_Ppid kproc p \<noteq> Panic"
  using kproc_no_panic by (simp add: kinfo_Ppid_def outcome_iff)

lemma ppid_range: "kinfo_Ppid kproc p = Ok pp \<Longrightarrow> - (2 ^ 31) \<le> pp \<and> pp < 2 ^ 31"
proof -
  assume "kinfo_Ppid kproc p = Ok pp"
  then obtain k where k: "kproc p = Ok k" "pp = val_of k ''Ppid''" by (auto simp: kinfo_Ppid_def outcome_iff)
  then have "field_ok i32_f (arr_of k ''Ppid'')" using map_of_has_layout [OF kproc_typed group_fields(3)] by blast
  with k(2) show ?thesis by (cases "arr_of k ''Ppid''") (auto simp: field_ok_def i32_f_def val_of_def in_width_def)
qed

text \<open>The children of a process: sorted by process number, and exactly the listed processes with that parent.\<close>

lemma children_loop:
  "rfold (\<lambda>q ret. case kinfo_Ppid kproc q of Ok pp \<Rightarrow> Ok (if pp = x then ret @ [q] else ret) | Err _ \<Rightarrow> Ok ret | Panic \<Rightarrow> Panic) ps ret =
    Ok (ret @ filter (\<lambda>q. kinfo_Ppid kproc q = Ok x) ps)"
proof (induction ps arbitrary: ret)
  case (Cons q ps)
  then show ?case using ppid_no_panic [of q] by (cases "kinfo_Ppid kproc q") auto
qed simp

lemma children_sorted:
  "kinfo_Children (Ok ps) (kinfo_Ppid kproc) p = Ok (sort_key p_Pid (filter (\<lambda>q. kinfo_Ppid kproc q = Ok (p_Pid p)) ps))"
  by (simp add: kinfo_Children_def children_loop)

end

lemma le_read_typed: "widths_pos fs \<Longrightarrow> le_read fs buf = Ok k \<Longrightarrow> has_layout fs k"
  by (auto simp: outcome_iff le_decode_typed)

lemma CallSyscall_cases: "\<exists>buf len err. CallSyscall k mib = (buf, len, err)"
  by (metis prod_cases3)

interpretation fbsd: kinfo_system "fbsd_getKProc env" fbsd_KinfoProc for env
proof unfold_locales
  show "has_layout fbsd_KinfoProc k" if "fbsd_getKProc env p = Ok k" for p k
    using that by (auto simp: fbsd_getKProc_def parseKinfoProc_def intro: le_read_typed split: prod.splits option.splits if_splits)
  show "fbsd_getKProc env p \<noteq> Panic" for p
    by (simp add: fbsd_getKProc_def parseKinfoProc_def split: prod.splits option.splits)
qed (simp_all add: kinfo_defs)

interpretation obsd_kp: kinfo_system "obsd_getKProc env" obsd_KinfoProc for env
proof unfold_locales
  show "has_layout obsd_KinfoProc k" if "obsd_getKProc env p = Ok k" for p k
    using that by (auto simp: obsd_getKProc_def parseKinfoProc_def outcome_iff intro: le_decode_typed split: if_splits)
  have "callKernProcSyscall env op arg \<noteq> Panic" for op arg
    by (simp add: callKernProcSyscall_def Let_def split: prod.splits option.splits)
  then show "obsd_getKProc env p \<noteq> Panic" for p
    by (auto simp: obsd_getKProc_def parseKinfoProc_def outcome_iff split: prod.splits)
qed (simp_all add: kinfo_defs)

section \<open>Command lines\<close>

text \<open>The reply of OpenBSD for a command line: the pointers to the arguments, a null pointer, and the arguments.\<close>

definition le_ptr :: "u64 \<Rightarrow> string" where
  "le_ptr p = rev (encode_val 8 (uint p))"

fun argv_ptrs :: "nat \<Rightarrow> string list \<Rightarrow> nat list" where
  "argv_ptrs off [] = []"
| "argv_ptrs off (a # as) = off # argv_ptrs (off + length a + 1) as"

definition argv_reply :: "u64 \<Rightarrow> string list \<Rightarrow> string" where
  "argv_reply base argv = concat (map (\<lambda>off. le_ptr (base + word_of_nat off)) (argv_ptrs (8 * (length argv + 1)) argv)) @ le_ptr 0 @ argv_text argv"

lemma readPtr_ptr: "readPtr (le_ptr p @ r) = Ok (p, r)"
proof -
  let ?fs = "[(''p'', u64_f)]" and ?s = "[(''p'', [uint p])]"
  have "le_ptr p = le_encode ?fs ?s"
    by (simp add: le_ptr_def le_encode_def encode_def encode_field_def field_ty_defs)
  moreover have "widths_pos ?fs" "has_layout ?fs ?s"
    by (simp_all add: widths_pos_def has_layout_def field_ok_def in_width_def field_ty_defs uint_lt2p [where x = p, simplified])
  ultimately have "le_read ?fs (le_ptr p @ r) = Ok ?s" by (simp add: le_read_encode)
  then show ?thesis by (simp add: readPtr_def val_of_def arr_of_def le_ptr_def)
qed

lemma argv_loop_reply:
  assumes "buf = pre @ argv_text as" and "length pre = off" and "list_all (\<lambda>a. CHR 0x00 \<notin> set a) as"
    and "base \<noteq> 0" and "unat base + length buf < 2 ^ 64"
  shows "argv_loop pid base buf (concat (map (\<lambda>off. le_ptr (base + word_of_nat off)) (argv_ptrs off as)) @ le_ptr 0 @ rest) acc = Ok (acc @ as)"
  using assms
proof (induction as arbitrary: off pre acc)
  case Nil
  then show ?case by (subst argv_loop.simps) (simp add: readPtr_ptr)
next
  case (Cons a as)
  let ?r = "concat (map (\<lambda>off. le_ptr (base + word_of_nat off)) (argv_ptrs (off + length a + 1) as)) @ le_ptr 0 @ rest"
  have off: "off < length buf" using Cons.prems by (simp add: argv_text_def)
  have d: "drop off buf = a @ CHR 0x00 # argv_text as" using Cons.prems by (simp add: argv_text_def)
  have u: "unat (word_of_nat off :: u64) = off" using off Cons.prems(5) by (simp add: unat_of_nat)
  have "unat (base + word_of_nat off) = unat base + off"
    using off Cons.prems(5) u by (subst unat_add_lem [THEN iffD1]) simp_all
  then have "base + word_of_nat off \<noteq> 0" using Cons.prems(4) by (metis add_is_0 unat_0 unat_eq_zero)
  moreover have "index_byte (drop off buf) (CHR 0x00) = Some (length a)"
    unfolding d using Cons.prems(3) by (intro index_byte_append) simp
  moreover have "argv_loop pid base buf ?r (acc @ [a]) = Ok ((acc @ [a]) @ as)"
    using Cons.prems by (intro Cons.IH [of "pre @ a @ [CHR 0x00]"]) (simp_all add: argv_text_def)
  moreover have "slice_range buf off (off + length a) = Ok a"
    using off d Cons.prems(1,2) by (simp add: slice_range_def argv_text_def)
  ultimately show ?case
    using off u by (subst argv_loop.simps) (simp add: readPtr_ptr slice_from_def)
qed

text \<open>Behind its guards the loop reads a string that ends at the first zero byte.\<close>

lemma argv_slices:
  assumes "offset < length buf" and "index_byte (drop offset buf) (CHR 0x00) = Some n"
  shows "slice_range buf offset (offset + n) = Ok (take n (drop offset buf)) \<and> CHR 0x00 \<notin> set (take n (drop offset buf))"
  using index_byte_Some [OF assms(2)] assms(1) by (auto simp: slice_range_def)

text \<open>C13: every command line that the kernel of OpenBSD lays out behind an array of pointers is read back, argument by argument, empty ones
  too, wherever the buffer lies in memory.\<close>

theorem obsd_argv_roundtrip:
  assumes "list_all (\<lambda>a. CHR 0x00 \<notin> set a) argv" and "be_addr env \<noteq> 0" and "reply = argv_reply (be_addr env) argv"
    and "unat (be_addr env) + length reply < 2 ^ 64"
    and "bs_kernel (be_sys env) [1, 55, p_Pid p, 1] None = (x, length reply, None)"
    and "bs_kernel (be_sys env) [1, 55, p_Pid p, 1] (Some (length reply)) = (reply, length reply, None)"
  shows "obsd_CmdlineSliceWithContext env p = Ok argv \<and> obsd_CmdlineWithContext env p = Ok (join '' '' argv)"
proof -
  let ?ptrs = "concat (map (\<lambda>off. le_ptr (be_addr env + word_of_nat off)) (argv_ptrs (8 * (length argv + 1)) argv)) @ le_ptr 0"
  have l8: "length (le_ptr q) = 8" for q by (simp add: le_ptr_def)
  have "length (concat (map (\<lambda>off. le_ptr (be_addr env + word_of_nat off)) (argv_ptrs off as))) = 8 * length as" for off as
    by (induction off as rule: argv_ptrs.induct) (simp_all add: l8)
  then have "length ?ptrs = 8 * (length argv + 1)" by (simp add: l8)
  from argv_loop_reply [OF _ this assms(1,2), of reply "p_Pid p" "argv_text argv" "[]"] assms(3,4)
  have loop: "argv_loop (p_Pid p) (be_addr env) reply reply [] = Ok argv" by (simp add: argv_reply_def)
  moreover have ne: "reply \<noteq> []" using l8 [of 0] by (auto simp: assms(3) argv_reply_def)
  moreover note CallSyscall_value [where k = "bs_kernel (be_sys env)", OF assms(5,6) ne]
  ultimately show ?thesis by (simp add: obsd_CmdlineSliceWithContext_def obsd_CmdlineWithContext_def)
qed

text \<open>C12: no reply of the kernel, however malformed, makes the command line of OpenBSD panic, and no argument that is returned contains a zero
  byte.\<close>

theorem obsd_argv_safe:
  "obsd_CmdlineSliceWithContext env p \<noteq> Panic \<and>
   (case obsd_CmdlineSliceWithContext env p of Ok argv \<Rightarrow> list_all (\<lambda>a. CHR 0x00 \<notin> set a) argv | _ \<Rightarrow> True)"
proof -
  have ptr: "readPtr r \<noteq> Panic" for r by (simp add: readPtr_def outcome_iff)
  have "argv_loop pid base buf r acc \<noteq> Panic \<and>
      (case argv_loop pid base buf r acc of Ok argv \<Rightarrow> list_all (\<lambda>a. CHR 0x00 \<notin> set a) argv | _ \<Rightarrow> True)"
    if "list_all (\<lambda>a. CHR 0x00 \<notin> set a) acc" for pid base buf r acc
    using that
  proof (induction pid base buf r acc rule: argv_loop.induct)
    case (1 pid base buf r acc)
    show ?case
    proof (cases "readPtr r")
      case (Ok q)
      obtain argvp r' where q: "q = (argvp, r')" by (cases q)
      let ?o = "unat (argvp - base)"
      let ?d = "drop ?o buf"
      show ?thesis
      proof (cases "argvp = 0 \<or> length buf \<le> ?o \<or> index_byte ?d (CHR 0x00) = None")
        case True
        then show ?thesis
          unfolding argv_loop.simps [of pid base buf r acc]
          by (elim disjE) (simp_all add: 1(2) Ok q Let_def slice_from_def del: index_byte_None_iff)
      next
        case False
        then obtain n where n: "index_byte ?d (CHR 0x00) = Some n" by blast
        have o: "slice_from buf ?o = Ok ?d" and str: "slice_range buf ?o (?o + n) = Ok (take n ?d)" "CHR 0x00 \<notin> set (take n ?d)"
          using False argv_slices [OF _ n] by (auto simp: slice_from_def)
        have "argv_loop pid base buf r acc = argv_loop pid base buf r' (acc @ [take n ?d])"
          using False Ok q n o str(1) by (subst argv_loop.simps) (simp add: Let_def)
        with 1(1) [OF Ok q [symmetric] _ refl _ o n str(1)] False 1(2) str(2) show ?thesis by simp
      qed
    next
      case (Err e)
      then show ?thesis by (subst (1 2) argv_loop.simps) simp
    next
      case Panic
      with ptr show ?thesis by blast
    qed
  qed
  from this [of "[]"] show ?thesis
    by (simp add: obsd_CmdlineSliceWithContext_def split: prod.splits option.splits)
qed

text \<open>FreeBSD: the arguments of a command line are read back, empty ones too; a process without one gives an error that is none.\<close>

lemma fbsd_argv_roundtrip:
  assumes "list_all (\<lambda>a. CHR 0x00 \<notin> set a) argv" and "argv \<noteq> []"
    and "bs_kernel (be_sys env) [1, 14, 7, p_Pid p] None = (x, length (argv_text argv), None)"
    and "bs_kernel (be_sys env) [1, 14, 7, p_Pid p] (Some (length (argv_text argv))) = (argv_text argv, length (argv_text argv), None)"
  shows "fbsd_CmdlineSliceWithContext env p = Ok argv"
proof -
  have ne: "argv_text argv \<noteq> []" using assms(2) by (simp add: argv_text_join)
  have "split_char (CHR 0x00) (join [CHR 0x00] argv) = argv"
    using assms(1,2) by (intro split_char_join) (auto simp: list_all_iff)
  with CallSyscall_value [where k = "bs_kernel (be_sys env)", OF assms(3,4) ne] ne show ?thesis
    by (simp add: fbsd_CmdlineSliceWithContext_def fbsd_syscall_def argv_text_join [OF assms(2)])
qed

lemma fbsd_empty_cmdline:
  "bs_kernel (be_sys env) [1, 14, 7, p_Pid p] None = (x, 0, None) \<Longrightarrow> fbsd_CmdlineSliceWithContext env p = Err (Errno 0)"
  by (simp add: fbsd_CmdlineSliceWithContext_def fbsd_syscall_def CallSyscall_empty)

definition argv_env :: "int list \<Rightarrow> string \<Rightarrow> bsd_env" where
  "argv_env mib reply = \<lparr>be_proc = \<lparr>pe_host = no_files, pe_clockTicks = 128, pe_priority = (\<lambda>_. 0), pe_lstat = (\<lambda>_. Inl ENOENT), pe_rdev = (\<lambda>_. Inl ENOENT),
       pe_signal = (\<lambda>_ _. None), pe_numcpu = 1, pe_bootCache = False\<rparr>,
     be_sys = fbsd_sample\<lparr>bs_kernel := (\<lambda>m len. if m = mib then (case len of None \<Rightarrow> ([], length reply, None) | Some _ \<Rightarrow> (reply, length reply, None))
       else ([], 0, Some ENOENT))\<rparr>,
     be_addr = 4096\<rparr>"

theorem obsd_argv_roundtrip_witness:
  "obsd_CmdlineSliceWithContext (argv_env [1, 55, 71, 1] (argv_reply 4096 [''sshd'', [], ''-D''])) (new_process 71) = Ok [''sshd'', [], ''-D'']"
proof -
  let ?env = "argv_env [1, 55, 71, 1] (argv_reply 4096 [''sshd'', [], ''-D''])"
  have len: "length (argv_reply 4096 [''sshd'', [], ''-D'']) = 41" by (simp add: argv_reply_def le_ptr_def argv_text_def)
  have "obsd_CmdlineSliceWithContext ?env (new_process 71) = Ok [''sshd'', [], ''-D''] \<and>
      obsd_CmdlineWithContext ?env (new_process 71) = Ok (join '' '' [''sshd'', [], ''-D''])"
    by (rule obsd_argv_roundtrip [where x = "[]" and reply = "argv_reply 4096 [''sshd'', [], ''-D'']"])
      (use len in \<open>simp_all add: argv_env_def new_process_def\<close>)
  then show ?thesis ..
qed

section \<open>The fields of a process\<close>

lemma fbsd_getKProc_value:
  assumes "has_layout fbsd_KinfoProc s" and "bs_kernel (be_sys env) [1, 14, 1, p_Pid p] None = (x, fbsd_sizeOfKinfoProc, None)"
    and "bs_kernel (be_sys env) [1, 14, 1, p_Pid p] (Some fbsd_sizeOfKinfoProc) = (le_encode fbsd_KinfoProc s, fbsd_sizeOfKinfoProc, None)"
  shows "fbsd_getKProc env p = Ok s"
proof -
  have len: "length (le_encode fbsd_KinfoProc s) = fbsd_sizeOfKinfoProc" using assms(1) by (simp add: length_le_encode)
  moreover have "0 < fbsd_sizeOfKinfoProc" by (simp add: fbsd_sizeOfKinfoProc_def)
  ultimately have "CallSyscall (bs_kernel (be_sys env)) [1, 14, 1, p_Pid p] = (le_encode fbsd_KinfoProc s, fbsd_sizeOfKinfoProc, None)"
    using assms(2,3) by (simp add: CallSyscall_def flip: len)
  with le_read_encode [OF _ assms(1), of "[]"] show ?thesis
    by (simp add: fbsd_getKProc_def fbsd_syscall_def parseKinfoProc_def)
qed

text \<open>For every struct that the kernel of FreeBSD keeps of a process, the operations return its parent, its user ids, its groups, and the
  start in milliseconds.\<close>

theorem fbsd_kinfo_roundtrip:
  assumes "has_layout fbsd_KinfoProc s" and "bs_kernel (be_sys env) [1, 14, 1, p_Pid p] None = (x, fbsd_sizeOfKinfoProc, None)"
    and "bs_kernel (be_sys env) [1, 14, 1, p_Pid p] (Some fbsd_sizeOfKinfoProc) = (le_encode fbsd_KinfoProc s, fbsd_sizeOfKinfoProc, None)"
    and "0 \<le> val_of s ''Ngroups''" and "val_of s ''Ngroups'' \<le> 16"
    and "0 \<le> val_of s ''Start.Sec''" and "val_of s ''Start.Sec'' < 2 ^ 50" and "0 \<le> val_of s ''Start.Usec''" and "val_of s ''Start.Usec'' < 1000000"
  shows "fbsd_PpidWithContext env p = Ok (val_of s ''Ppid'') \<and>
    fbsd_UidsWithContext env p = Ok [word_of_int (val_of s ''Ruid''), word_of_int (val_of s ''Uid''), word_of_int (val_of s ''Svuid'')] \<and>
    fbsd_GroupsWithContext env p = Ok (map word_of_int (take (nat (val_of s ''Ngroups'')) (arr_of s ''Groups''))) \<and>
    fbsd_createTimeWithContext env p = Ok (val_of s ''Start.Sec'' * 1000 + val_of s ''Start.Usec'' div 1000)"
proof -
  note k = fbsd_getKProc_value [OF assms(1-3)]
  have usec: "val_of s ''Start.Usec'' sdiv 1000 = val_of s ''Start.Usec'' div 1000" "val_of s ''Start.Usec'' div 1000 < 1000"
    "0 \<le> val_of s ''Start.Usec'' div 1000"
    using assms(8,9) by (auto simp: signed_divide_int_def sgn_if)
  then have "to_i64 (to_i64 (val_of s ''Start.Sec'' * 1000) + val_of s ''Start.Usec'' sdiv 1000) = val_of s ''Start.Sec'' * 1000 + val_of s ''Start.Usec'' div 1000"
    using assms(6,7) by (simp add: wrap_signed_id)
  then show ?thesis
    using k fbsd.groups_value [OF k assms(4,5)]
    by (simp add: fbsd_PpidWithContext_def kinfo_Ppid_def fbsd_UidsWithContext_def kinfo_Uids_def fbsd_GroupsWithContext_def fbsd_createTimeWithContext_def)
qed

definition init_kinfo :: struct where
  "init_kinfo = map (\<lambda>(n, vs). (n, if n = ''Ppid'' then [1] else if n = ''Ngroups'' then [2] else if n = ''Start.Sec'' then [1700000000]
     else if n = ''Start.Usec'' then [999999] else vs)) (zero_struct fbsd_KinfoProc)"

theorem fbsd_kinfo_roundtrip_witness:
  "\<exists>env p. fbsd_PpidWithContext env p = Ok 1 \<and> fbsd_GroupsWithContext env p = Ok [0, 0] \<and> fbsd_createTimeWithContext env p = Ok 1700000000999"
proof -
  let ?env = "argv_env [1, 14, 1, 71] (le_encode fbsd_KinfoProc init_kinfo)" and ?p = "new_process 71"
  have ok: "has_layout fbsd_KinfoProc init_kinfo"
    by (simp add: has_layout_def init_kinfo_def zero_struct_def kinfo_defs field_ok_def list_all_length) (simp add: in_width_def)
  have v: "val_of init_kinfo ''Ngroups'' = 2" "val_of init_kinfo ''Start.Sec'' = 1700000000" "val_of init_kinfo ''Start.Usec'' = 999999"
      "val_of init_kinfo ''Ppid'' = 1" "take 2 (arr_of init_kinfo ''Groups'') = [0, 0]"
    by (simp_all add: init_kinfo_def zero_struct_def kinfo_defs val_of_def arr_of_def numeral_2_eq_2)
  have len: "length (le_encode fbsd_KinfoProc init_kinfo) = fbsd_sizeOfKinfoProc" using ok by (simp add: length_le_encode)
  have "bs_kernel (be_sys ?env) [1, 14, 1, p_Pid ?p] None = ([], fbsd_sizeOfKinfoProc, None)"
    "bs_kernel (be_sys ?env) [1, 14, 1, p_Pid ?p] (Some fbsd_sizeOfKinfoProc) = (le_encode fbsd_KinfoProc init_kinfo, fbsd_sizeOfKinfoProc, None)"
    using len by (simp_all add: argv_env_def new_process_def)
  from fbsd_kinfo_roundtrip [OF ok this] show ?thesis by (intro exI [of _ ?env] exI [of _ ?p]) (simp add: v)
qed

section \<open>Listing\<close>

lemma PidExists_not_Panic: "PidExistsWithContext env pid \<noteq> Panic"
  by (simp add: PidExistsWithContext_def Let_def split: sum.splits option.splits)

lemma bsd_NewProcess_pid:
  assumes "\<And>p. createTime p \<noteq> Panic"
  shows "\<exists>q err. bsd_NewProcess createTime env pid = Ok (q, err) \<and> p_Pid q = pid \<and> (err = None \<longleftrightarrow> PidExistsWithContext (be_proc env) pid = Ok True)"
proof (cases "PidExistsWithContext (be_proc env) pid")
  case (Ok b)
  have "createTime (new_process pid) = Panic \<or> (\<exists>t. createTime (new_process pid) = Ok t) \<or> (\<exists>e. createTime (new_process pid) = Err e)"
    by (cases "createTime (new_process pid)") auto
  with assms [of "new_process pid"] Ok show ?thesis
    by (cases b) (auto simp: bsd_NewProcess_def bsd_CreateTime_def new_process_def)
qed (auto simp: bsd_NewProcess_def new_process_def PidExists_not_Panic)

lemma kinfo_entries:
  assumes "0 < layout_size fs" and "widths_pos fs" and "list_all (has_layout fs) ks"
    and new: "\<And>pid. \<exists>q err. new pid = Ok (q, err) \<and> p_Pid q = pid \<and> (err = None \<longleftrightarrow> alive pid)"
    and "buf = concat (map (le_encode fs) ks) @ rest" and "n \<le> length ks"
  shows "\<exists>ps. rfold (kinfo_entry fs new buf) [0..<n] [] = Ok ps \<and> map p_Pid ps = filter alive (map (\<lambda>k. val_of k ''Pid'') (take n ks))"
  using assms(6)
proof (induction n)
  case (Suc n)
  then obtain ps where ps: "rfold (kinfo_entry fs new buf) [0..<n] [] = Ok ps" "map p_Pid ps = filter alive (map (\<lambda>k. val_of k ''Pid'') (take n ks))"
    by auto
  let ?k = "ks ! n" and ?z = "layout_size fs"
  have k: "has_layout fs ?k" and n: "n < length ks" using assms(3) Suc.prems by (simp_all add: list_all_length)
  have buf: "drop (n * ?z) buf = le_encode fs ?k @ concat (map (le_encode fs) (drop (Suc n) ks)) @ rest"
    unfolding assms(5) by (rule drop_rows [OF assms(3) n])
  then have "take ?z (drop (n * ?z) buf) = le_encode fs ?k" using length_le_encode [OF k] by simp
  moreover have "\<not> length buf < (n + 1) * ?z"
    using arg_cong [OF buf, of length] length_le_encode [OF k] assms(1) by simp
  moreover have "le_read fs (le_encode fs ?k) = Ok ?k" using le_read_encode [OF assms(2) k, of "[]"] by simp
  moreover obtain q err where "new (val_of ?k ''Pid'') = Ok (q, err)" "p_Pid q = val_of ?k ''Pid''" "err = None \<longleftrightarrow> alive (val_of ?k ''Pid'')"
    using new by blast
  ultimately have "kinfo_entry fs new buf n ps = Ok (if alive (val_of ?k ''Pid'') then ps @ [q] else ps)" "p_Pid q = val_of ?k ''Pid''"
    by (simp_all add: kinfo_entry_def parseKinfoProc_def)
  with ps Suc.prems show ?case by (auto simp: rfold_append take_Suc_conv_app_nth)
qed simp

lemma fbsd_createTime_not_Panic: "fbsd_createTimeWithContext env p \<noteq> Panic"
  using fbsd.kproc_no_panic by (simp add: fbsd_createTimeWithContext_def outcome_iff)

text \<open>C21: for every table of processes that the kernel of FreeBSD hands over, the processes listed are those of the table that still exist, in
  the order of the table.\<close>

theorem fbsd_processes_roundtrip:
  assumes "list_all (has_layout fbsd_KinfoProc) ks" and "ks \<noteq> []" and "tbl = concat (map (le_encode fbsd_KinfoProc) ks)"
    and "bs_kernel (be_sys env) [1, 14, 8, 0] None = (x, length tbl, None)"
    and "bs_kernel (be_sys env) [1, 14, 8, 0] (Some (length tbl)) = (tbl, length tbl, None)"
  shows "fbsd_pidsWithContext env =
    Ok (filter (\<lambda>pid. PidExistsWithContext (be_proc env) pid = Ok True) (map (\<lambda>k. val_of k ''Pid'') ks))"
proof -
  have pos: "0 < layout_size fbsd_KinfoProc" by (simp add: fbsd_sizeOfKinfoProc_def)
  have len: "length tbl = length ks * layout_size fbsd_KinfoProc"
    unfolding assms(3) using assms(1) by (induction ks) (simp_all add: length_le_encode)
  with assms(2) pos have ne: "tbl \<noteq> []" by auto
  have call: "CallSyscall (bs_kernel (be_sys env)) [1, 14, 8, 0] = (tbl, length tbl, None)"
    by (rule CallSyscall_value [where k = "bs_kernel (be_sys env)", OF assms(4,5) ne])
  let ?new = "bsd_NewProcess (fbsd_createTimeWithContext env) env"
  have "\<exists>ps. rfold (kinfo_entry fbsd_KinfoProc ?new tbl) [0..<length ks] [] = Ok ps \<and>
      map p_Pid ps = filter (\<lambda>pid. PidExistsWithContext (be_proc env) pid = Ok True) (map (\<lambda>k. val_of k ''Pid'') (take (length ks) ks))"
    by (rule kinfo_entries [where rest = "[]"])
      (use pos assms(1,3) bsd_NewProcess_pid [OF fbsd_createTime_not_Panic] in simp_all)
  then obtain ps where "rfold (kinfo_entry fbsd_KinfoProc ?new tbl) [0..<length ks] [] = Ok ps"
      "map p_Pid ps = filter (\<lambda>pid. PidExistsWithContext (be_proc env) pid = Ok True) (map (\<lambda>k. val_of k ''Pid'') ks)"
    by auto
  moreover have "length tbl div layout_size fbsd_KinfoProc = length ks" unfolding len using pos by simp
  ultimately show ?thesis
    by (simp add: fbsd_pidsWithContext_def fbsd_ProcessesWithContext_def fbsd_syscall_def call kinfo_processes_def kinfo_pids_def)
qed

definition child_kinfo :: struct where
  "child_kinfo = map (\<lambda>(n, vs). (n, if n = ''Pid'' then [71] else if n = ''Ppid'' then [1] else vs)) (zero_struct fbsd_KinfoProc)"

definition child_env :: bsd_env where
  "child_env = (argv_env [] [])\<lparr>be_sys := fbsd_sample\<lparr>bs_kernel := (\<lambda>_ len. (le_encode fbsd_KinfoProc child_kinfo, fbsd_sizeOfKinfoProc, None))\<rparr>\<rparr>"

lemma child_kinfo_ok: "has_layout fbsd_KinfoProc child_kinfo"
  by (simp add: has_layout_def child_kinfo_def zero_struct_def kinfo_defs field_ok_def list_all_length) (simp add: in_width_def)

lemma child_kinfo_vals: "val_of child_kinfo ''Pid'' = 71" "val_of child_kinfo ''Ppid'' = 1" "val_of child_kinfo ''Start.Sec'' = 0" "val_of child_kinfo ''Start.Usec'' = 0"
  by (simp_all add: child_kinfo_def zero_struct_def kinfo_defs val_of_def arr_of_def)

lemma child_env_kernel: "bs_kernel (be_sys child_env) mib len = (le_encode fbsd_KinfoProc child_kinfo, fbsd_sizeOfKinfoProc, None)"
  "length (le_encode fbsd_KinfoProc child_kinfo) = fbsd_sizeOfKinfoProc" "PidExistsWithContext (be_proc child_env) 71 = Ok True"
  by (simp_all add: child_env_def argv_env_def length_le_encode child_kinfo_ok PidExistsWithContext_def isMount_def)

theorem fbsd_processes_roundtrip_witness: "fbsd_pidsWithContext child_env = Ok [71]"
  using fbsd_processes_roundtrip [of "[child_kinfo]" "le_encode fbsd_KinfoProc child_kinfo" child_env]
  by (simp add: child_kinfo_ok child_env_kernel child_kinfo_vals)

text \<open>C22: the children of a process on FreeBSD are exactly the listed processes whose parent it is, sorted by number.\<close>

theorem fbsd_children:
  assumes "fbsd_ProcessesWithContext env = Ok ps" and "fbsd_ChildrenWithContext env p = Ok cs"
  shows "sorted (map p_Pid cs) \<and> mset cs = mset (filter (\<lambda>q. fbsd_PpidWithContext env q = Ok (p_Pid p)) ps)"
  using assms(2) unfolding fbsd_ChildrenWithContext_def fbsd_PpidWithContext_def assms(1) fbsd.children_sorted by auto

theorem fbsd_children_witness:
  "\<exists>cs. fbsd_ChildrenWithContext child_env (new_process 1) = Ok cs \<and> mset cs = {#new_process 71#}"
proof -
  have k: "fbsd_getKProc child_env q = Ok child_kinfo" for q
    by (rule fbsd_getKProc_value) (simp_all add: child_kinfo_ok child_env_kernel)
  have z: "0 < fbsd_sizeOfKinfoProc" "fbsd_sizeOfKinfoProc div fbsd_sizeOfKinfoProc = 1" by (simp_all add: fbsd_sizeOfKinfoProc_def)
  have "fbsd_syscall child_env 8 0 = (le_encode fbsd_KinfoProc child_kinfo, fbsd_sizeOfKinfoProc, None)"
  proof -
    have "le_encode fbsd_KinfoProc child_kinfo \<noteq> []" using z(1) child_env_kernel(2) by (metis less_irrefl list.size(3))
    then have "CallSyscall (bs_kernel (be_sys child_env)) mib = (le_encode fbsd_KinfoProc child_kinfo, length (le_encode fbsd_KinfoProc child_kinfo), None)"
      for mib by (intro CallSyscall_value) (simp_all add: child_env_kernel(1,2))
    then show ?thesis unfolding child_env_kernel(2) by (simp add: fbsd_syscall_def)
  qed
  moreover have "bsd_NewProcess (fbsd_createTimeWithContext child_env) child_env 71 = Ok (new_process 71, None)"
    by (simp add: bsd_NewProcess_def child_env_kernel bsd_CreateTime_def fbsd_createTimeWithContext_def k child_kinfo_vals new_process_def wrap_signed_id)
  moreover have "le_read fbsd_KinfoProc (le_encode fbsd_KinfoProc child_kinfo) = Ok child_kinfo"
    using le_read_encode [OF _ child_kinfo_ok, of "[]"] by simp
  ultimately have ps: "fbsd_ProcessesWithContext child_env = Ok [new_process 71]"
    using child_env_kernel(2) z
    by (simp add: fbsd_ProcessesWithContext_def kinfo_processes_def kinfo_entry_def parseKinfoProc_def child_kinfo_vals)
  have pp: "fbsd_PpidWithContext child_env q = Ok 1" for q by (simp add: fbsd_PpidWithContext_def kinfo_Ppid_def k child_kinfo_vals)
  obtain cs where cs: "fbsd_ChildrenWithContext child_env (new_process 1) = Ok cs"
    by (simp add: fbsd_ChildrenWithContext_def ps fbsd_PpidWithContext_def fbsd.children_sorted)
  from fbsd_children [OF ps cs] cs show ?thesis by (simp add: pp new_process_def)
qed

lemma obsd_children:
  "obsd_ProcessesWithContext env = Ok ps \<Longrightarrow>
    obsd_ChildrenWithContext env p = Ok (sort_key p_Pid (filter (\<lambda>q. obsd_PpidWithContext env q = Ok (p_Pid p)) ps))"
  by (simp add: obsd_ChildrenWithContext_def obsd_PpidWithContext_def obsd_kp.children_sorted)

section \<open>Deviations\<close>

text \<open>A name of 15 or more characters is replaced by the base name of the first argument, whether it extends the name or not: the objects that
  the package makes have no name.\<close>

lemma kinfo_name_replaced:
  assumes "kproc p = Ok k" and "15 \<le> length (IntToString (arr_of k ''Comm''))" and "cmdline p = Ok (arg0 # args)" and "p_name p = []"
  shows "kinfo_Name kproc cmdline p = Ok (path_base arg0)"
  using assms by (simp add: kinfo_Name_def has_prefix_def)

text \<open>The second group id is the number of groups.\<close>

lemma kinfo_gids_count: "kproc p = Ok k \<Longrightarrow> \<exists>r s. kinfo_Gids kproc p = Ok [r, word_of_int (val_of k ''Ngroups''), s]"
  by (simp add: kinfo_Gids_def)

text \<open>A runnable process of OpenBSD has no state.\<close>

lemma obsd_runnable_status: "obsd_getKProc env p = Ok k \<Longrightarrow> val_of k ''Stat'' = 2 \<Longrightarrow> obsd_StatusWithContext env p = Ok [[]]"
  by (simp add: obsd_StatusWithContext_def)

text \<open>With pages of 64 KiB the resident size of FreeBSD is 0.\<close>

lemma fbsd_large_pages:
  assumes "fbsd_getKProc env p = Ok k" and "bs_str (be_sys env) ''vm.stats.vm.v_page_size'' = Inr (take 3 (rev (encode_val 4 65536)))"
  shows "\<exists>m. fbsd_MemoryInfoWithContext env p = Ok m \<and> mi_RSS m = 0"
proof -
  have "take 3 (rev (encode_val 4 65536)) = [CHR 0x00, CHR 0x00, CHR 0x01]" by code_simp
  moreover have "val_of (le_decode [(''v'', u16_f)] [CHR 0x00, CHR 0x00, CHR 0x01]) ''v'' = 0" by code_simp
  ultimately show ?thesis using assms by (simp add: fbsd_MemoryInfoWithContext_def)
qed

end
