(* ===== verification/Disk_Bsd.thy ===== *)
theory Disk_Bsd
  imports System_Bsd Disk_Linux Host_Linux
begin

text \<open>
  Packages \<^verbatim>\<open>disk\<close> and \<^verbatim>\<open>host\<close> on the BSD family: mounts and usage from the kernel's list of file systems (\<^verbatim>\<open>disk_freebsd.go\<close>, \<^verbatim>\<open>disk_openbsd.go\<close>,
  \<^verbatim>\<open>disk_netbsd.go\<close>), device counters from its tables, the users logged in from the bytes of \<^verbatim>\<open>utmp\<close> and \<^verbatim>\<open>utmpx\<close> (\<^verbatim>\<open>host_freebsd.go\<close>, \<^verbatim>\<open>host_openbsd.go\<close>), and the boot time with its
  cache (\<^verbatim>\<open>host_bsd.go\<close>). Structs are those of the 64-bit x86 files. Which bits of a mount are set is part of what the kernel returns.
\<close>

section \<open>Tables of structs\<close>

definition table_entries :: "(layout \<Rightarrow> string \<Rightarrow> struct) \<Rightarrow> layout \<Rightarrow> string \<Rightarrow> struct list" where
  "table_entries dec fs buf = map (\<lambda>i. dec fs (take (layout_size fs) (drop (i * layout_size fs) buf))) [0..<length buf div layout_size fs]"

section \<open>Mounts\<close>

text \<open>A file system as the kernel describes it; the names are arrays of bytes, and \<open>bf_flag\<close> says whether a flag is set.\<close>

record bsd_statfs =
  bf_flag :: "string \<Rightarrow> bool"
  bf_from :: string
  bf_on :: string
  bf_fstype :: string
  bf_bsize :: u64
  bf_blocks :: u64
  bf_bfree :: u64
  bf_bavail :: u64
  bf_files :: u64
  bf_ffree :: u64

definition mount_opts :: "string \<Rightarrow> (string \<times> string) list \<Rightarrow> bsd_statfs \<Rightarrow> string list" where
  "mount_opts ro tbl stat = (if bf_flag stat ''MNT_RDONLY'' then [ro] else [''rw'']) @ map snd (filter (\<lambda>(f, _). bf_flag stat f) tbl)"

definition fbsd_opts :: "(string \<times> string) list" where
  "fbsd_opts = [(''MNT_SYNCHRONOUS'', ''sync''), (''MNT_NOEXEC'', ''noexec''), (''MNT_NOSUID'', ''nosuid''), (''MNT_UNION'', ''union''), (''MNT_ASYNC'', ''async''),
     (''MNT_SUIDDIR'', ''suiddir''), (''MNT_SOFTDEP'', ''softdep''), (''MNT_NOSYMFOLLOW'', ''nosymfollow''), (''MNT_GJOURNAL'', ''gjournal''), (''MNT_MULTILABEL'', ''multilabel''),
     (''MNT_ACLS'', ''acls''), (''MNT_NOATIME'', ''noatime''), (''MNT_NOCLUSTERR'', ''noclusterr''), (''MNT_NOCLUSTERW'', ''noclusterw''), (''MNT_NFS4ACLS'', ''nfsv4acls'')]"

definition obsd_opts :: "(string \<times> string) list" where
  "obsd_opts = [(''MNT_SYNCHRONOUS'', ''sync''), (''MNT_NOEXEC'', ''noexec''), (''MNT_NOSUID'', ''nosuid''), (''MNT_NODEV'', ''nodev''), (''MNT_ASYNC'', ''async''),
     (''MNT_SOFTDEP'', ''softdep''), (''MNT_NOATIME'', ''noatime''), (''MNT_WXALLOWED'', ''wxallowed'')]"

definition nbsd_opts :: "(string \<times> string) list" where
  "nbsd_opts = [(''MNT_SYNCHRONOUS'', ''sync''), (''MNT_NOEXEC'', ''noexec''), (''MNT_NOSUID'', ''nosuid''), (''MNT_NODEV'', ''nodev''), (''MNT_ASYNC'', ''async''),
     (''MNT_SOFTDEP'', ''softdep''), (''MNT_NOATIME'', ''noatime'')]"

definition bsd_partition :: "string \<Rightarrow> (string \<times> string) list \<Rightarrow> bsd_statfs \<Rightarrow> partition_stat" where
  "bsd_partition ro tbl stat = \<lparr>pt_Device = ByteToString (bf_from stat), pt_Mountpoint = ByteToString (bf_on stat),
     pt_Fstype = ByteToString (bf_fstype stat), pt_Opts = mount_opts ro tbl stat\<rparr>"

text \<open>\<^verbatim>\<open>Getfsstat\<close> is called twice, for the number of file systems and to fill a slice of that length.\<close>

definition fbsd_PartitionsWithContext :: "gerr + nat \<Rightarrow> (nat \<Rightarrow> gerr + bsd_statfs list) \<Rightarrow> partition_stat list result" where
  "fbsd_PartitionsWithContext mounted fsstat = rbind (of_sum mounted) (\<lambda>n. rbind (of_sum (fsstat n)) (\<lambda>fs.
     Ok (map (bsd_partition ''ro'' fbsd_opts) fs)))"

definition obsd_PartitionsWithContext :: "gerr + nat \<Rightarrow> (nat \<Rightarrow> gerr + bsd_statfs list) \<Rightarrow> partition_stat list result" where
  "obsd_PartitionsWithContext mounted fsstat = rbind (of_sum mounted) (\<lambda>n. rbind (of_sum (fsstat n)) (\<lambda>fs.
     Ok (map (bsd_partition ''rw'' obsd_opts) fs)))"

text \<open>NetBSD takes the address of the first element of the slice.\<close>

definition nbsd_PartitionsWithContext :: "gerr + nat \<Rightarrow> (nat \<Rightarrow> gerr + bsd_statfs list) \<Rightarrow> partition_stat list result" where
  "nbsd_PartitionsWithContext mounted fsstat = rbind (of_sum mounted) (\<lambda>n. if n = 0 then Panic else rbind (of_sum (fsstat n)) (\<lambda>fs.
     Ok (map (bsd_partition ''rw'' nbsd_opts) fs)))"

definition bsd_usage :: "string \<Rightarrow> bsd_statfs \<Rightarrow> usage_stat" where
  "bsd_usage path stat =
     (let tot = bf_blocks stat * bf_bsize stat; used = (bf_blocks stat - bf_bfree stat) * bf_bsize stat; inodesUsed = bf_files stat - bf_ffree stat in
      \<lparr>us_Path = path, us_Fstype = ByteToString (bf_fstype stat), us_Total = tot, us_Free = bf_bavail stat * bf_bsize stat,
       us_Used = used, us_UsedPercent = f_of_u64 used / f_of_u64 tot * Fin 100, us_InodesTotal = bf_files stat, us_InodesUsed = inodesUsed,
       us_InodesFree = bf_ffree stat, us_InodesUsedPercent = f_of_u64 inodesUsed / f_of_u64 (bf_files stat) * Fin 100\<rparr>)"

definition obsd_UsageWithContext :: "(string \<Rightarrow> gerr + bsd_statfs) \<Rightarrow> string \<Rightarrow> usage_stat result" where
  "obsd_UsageWithContext statfs path = rbind (of_sum (statfs path)) (\<lambda>stat. Ok (bsd_usage path stat))"

text \<open>On NetBSD \<open>bf_bsize\<close> is the fragment size; a path with a zero byte has no C string.\<close>

definition nbsd_UsageWithContext :: "(string \<Rightarrow> gerr + bsd_statfs) \<Rightarrow> string \<Rightarrow> usage_stat result" where
  "nbsd_UsageWithContext statvfs path = (if CHR 0x00 \<in> set path then Err EINVAL else rbind (of_sum (statvfs path)) (\<lambda>stat. Ok (bsd_usage path stat)))"

section \<open>Device counters\<close>

definition Diskstats :: layout where
  "Diskstats = [(''Name'', i8s_f 16), (''Busy'', i32_f), (''Pad_cgo_0'', bytes_f 4), (''Rxfer'', u64_f), (''Wxfer'', u64_f), (''Seek'', u64_f), (''Rbytes'', u64_f),
     (''Wbytes'', u64_f), (''Attachtime.Sec'', i64_f), (''Attachtime.Usec'', i64_f), (''Timestamp.Sec'', i64_f), (''Timestamp.Usec'', i64_f), (''Time.Sec'', i64_f),
     (''Time.Usec'', i64_f)]"

definition obsd_disk_io :: "struct \<Rightarrow> disk_io_stat" where
  "obsd_disk_io d = empty_disk_io\<lparr>d_ReadCount := word_of_int (val_of d ''Rxfer''), d_WriteCount := word_of_int (val_of d ''Wxfer''),
     d_ReadBytes := word_of_int (val_of d ''Rbytes''), d_WriteBytes := word_of_int (val_of d ''Wbytes''), d_Name := IntToString (arr_of d ''Name'')\<rparr>"

text \<open>The counters of the devices that are asked for, all when none is named; a later entry of the same name replaces the earlier one.\<close>

definition put_disk :: "string list \<Rightarrow> disk_io_stat \<Rightarrow> (string \<times> disk_io_stat) list \<Rightarrow> (string \<times> disk_io_stat) list" where
  "put_disk names ds ret = (if names \<noteq> [] \<and> \<not> StringsHas names (d_Name ds) then ret else alist_put (d_Name ds) ds ret)"

definition obsd_disk_IOCountersWithContext :: "bsd \<Rightarrow> string list \<Rightarrow> (string \<times> disk_io_stat) list result" where
  "obsd_disk_IOCountersWithContext sys names = rbind (of_sum (bs_raw sys ''hw.diskstats'' [])) (\<lambda>buf.
     Ok (fold (put_disk names) (map obsd_disk_io (table_entries le_decode Diskstats buf)) []))"

definition bintime :: layout where
  "bintime = [(''Sec'', i64_f), (''Frac'', u64_f)]"

definition devstat :: layout where
  "devstat = [(''Sequence0'', u32_f), (''Allocated'', i32_f), (''Start_count'', u32_f), (''End_count'', u32_f)] @ nested ''Busy_from'' bintime @
     [(''Dev_links.Empty'', u64_f), (''Device_number'', u32_f), (''Device_name'', i8s_f 16), (''Unit_number'', i32_f), (''Bytes'', u64s_f 4), (''Operations'', u64s_f 4)] @
     nested ''Duration0'' bintime @ nested ''Duration1'' bintime @ nested ''Duration2'' bintime @ nested ''Duration3'' bintime @ nested ''Busy_time'' bintime @
     nested ''Creation_time'' bintime @
     [(''Block_size'', u32_f), (''Pad_cgo_0'', bytes_f 4), (''Tag_types'', u64s_f 3), (''Flags'', u32_f), (''Device_type'', u32_f), (''Priority'', u32_f), (''Pad_cgo_1'', bytes_f 4),
     (''ID'', bytes_f 8), (''Sequence1'', u32_f), (''Pad_cgo_2'', bytes_f 4)]"

definition sizeOfdevstat :: nat where "sizeOfdevstat = 0x120"

text \<open>\<^verbatim>\<open>Compute\<close>: the scale is 2 to the power -64.\<close>

definition bintime_Compute :: "struct \<Rightarrow> string \<Rightarrow> float64" where
  "bintime_Compute d name = f_of_int (val_of d (name @ ''.Sec'')) + f_of_int (val_of d (name @ ''.Frac'')) * Fin (1 / 2 ^ 64)"

definition fbsd_SerialNumberWithContext :: "host \<Rightarrow> string \<Rightarrow> string result" where
  "fbsd_SerialNumberWithContext h name =
     (if has_prefix name ''-'' then Err (ErrMsg ''invalid device name'')
      else case run_command h ''geom'' [''disk'', ''list'', name] of
        Err e \<Rightarrow> Err (ErrWrap ''exec geom'' e)
      | Panic \<Rightarrow> Panic
      | Ok geomOut \<Rightarrow> (case scan_lines None geomOut of (ls, err) \<Rightarrow>
          (case find (\<lambda>l. case str_fields l of [f0, _] \<Rightarrow> f0 = ''ident:'' | _ \<Rightarrow> False) ls of
             Some l \<Rightarrow> Ok (let s = str_fields l ! 1 in if s \<noteq> ''(null)'' then s else [])
           | None \<Rightarrow> (case err of Some e \<Rightarrow> Err e | None \<Rightarrow> Ok []))))"

definition fbsd_disk_io :: "host \<Rightarrow> struct \<Rightarrow> disk_io_stat" where
  "fbsd_disk_io h d =
     (let name = IntToString (arr_of d ''Device_name'') @ itoa (val_of d ''Unit_number'');
          ms = (\<lambda>t. f_to_u64 (h_fcvt h) (bintime_Compute d t * Fin 1000))
      in empty_disk_io\<lparr>d_ReadCount := word_of_int (arr_of d ''Operations'' ! 1), d_WriteCount := word_of_int (arr_of d ''Operations'' ! 2),
        d_ReadBytes := word_of_int (arr_of d ''Bytes'' ! 1), d_WriteBytes := word_of_int (arr_of d ''Bytes'' ! 2), d_ReadTime := ms ''Duration1'',
        d_WriteTime := ms ''Duration2'', d_IoTime := ms ''Busy_time'', d_Name := name,
        d_SerialNumber := (case fbsd_SerialNumberWithContext h name of Ok s \<Rightarrow> s | _ \<Rightarrow> [])\<rparr>)"

text \<open>The value starts with a version of 8 bytes and has lost its last zero byte; the last entry is completed from the capacity of the slice,
  \<open>gocap\<close>, whose bytes behind the value are zero.\<close>

definition fbsd_disk_entry :: "(nat \<Rightarrow> nat) \<Rightarrow> host \<Rightarrow> string list \<Rightarrow> string \<Rightarrow> nat \<Rightarrow> (string \<times> disk_io_stat) list \<Rightarrow> (string \<times> disk_io_stat) list result" where
  "fbsd_disk_entry gocap h names r i ret =
     (if gocap (length r) < 8 + (i + 1) * sizeOfdevstat then Panic
      else Ok (put_disk names (fbsd_disk_io h (le_decode devstat
        (take sizeOfdevstat (drop (8 + i * sizeOfdevstat) (r @ replicate (gocap (length r) - length r) (CHR 0x00)))))) ret))"

definition fbsd_disk_IOCountersWithContext :: "(nat \<Rightarrow> nat) \<Rightarrow> host \<Rightarrow> bsd \<Rightarrow> string list \<Rightarrow> (string \<times> disk_io_stat) list result" where
  "fbsd_disk_IOCountersWithContext gocap h sys names = rbind (of_sum (bs_str sys ''kern.devstat.all'')) (\<lambda>r.
     if length r < 8 then Panic else rfold (fbsd_disk_entry gocap h names r) [0..<length r div sizeOfdevstat] [])"

section \<open>The host\<close>

definition fbsd_HostIDWithContext :: "bsd \<Rightarrow> string result" where
  "fbsd_HostIDWithContext sys = rbind (of_sum (bs_str sys ''kern.hostuuid'')) (\<lambda>uuid. Ok (to_lower uuid))"

definition fbsd_PlatformInformationWithContext :: "bsd \<Rightarrow> (string \<times> string \<times> string) result" where
  "fbsd_PlatformInformationWithContext sys = rbind (of_sum (bs_str sys ''kern.ostype'')) (\<lambda>platform.
     rbind (of_sum (bs_str sys ''kern.osrelease'')) (\<lambda>version. Ok (to_lower platform, [], to_lower version)))"

definition obsd_PlatformInformationWithContext :: "bsd \<Rightarrow> (string \<times> string \<times> string) result" where
  "obsd_PlatformInformationWithContext sys = Ok (to_lower (sys_str sys ''kern.ostype''), [], to_lower (sys_str sys ''kern.osrelease''))"

definition fbsd_KernelVersionWithContext :: "bsd \<Rightarrow> string result" where
  "fbsd_KernelVersionWithContext sys = rbind (fbsd_PlatformInformationWithContext sys) (\<lambda>(_, _, version). Ok version)"

definition obsd_KernelVersionWithContext :: "bsd \<Rightarrow> string result" where
  "obsd_KernelVersionWithContext sys = rbind (obsd_PlatformInformationWithContext sys) (\<lambda>(_, _, version). Ok version)"

text \<open>Logins. The table of FreeBSD since version 9 is big-endian, with a time in microseconds.\<close>

definition Utmpx :: layout where
  "Utmpx = [(''Type'', u8_f), (''Tv'', u64_f), (''Id'', i8s_f 8), (''Pid'', u32_f), (''User'', i8s_f 32), (''Line'', i8s_f 16), (''Host'', i8s_f 128)]"

definition fbsd_Utmp :: layout where
  "fbsd_Utmp = [(''Line'', i8s_f 8), (''Name'', i8s_f 16), (''Host'', i8s_f 16), (''Time'', i32_f)]"

definition obsd_Utmp :: layout where
  "obsd_Utmp = [(''Line'', i8s_f 8), (''Name'', i8s_f 32), (''Host'', i8s_f 256), (''Time'', i64_f)]"

definition utmpx_user :: "struct \<Rightarrow> user_stat option" where
  "utmpx_user u = (if val_of u ''Type'' \<noteq> 4 then None
     else Some \<lparr>u_User = IntToString (arr_of u ''User''), u_Terminal = IntToString (arr_of u ''Line''), u_Host = IntToString (arr_of u ''Host''),
       u_Started = \<lfloor>fval (f_of_int (val_of u ''Tv'') / Fin 1000000)\<rfloor>\<rparr>)"

definition bsd_utmp_user :: "struct \<Rightarrow> user_stat" where
  "bsd_utmp_user u = \<lparr>u_User = IntToString (arr_of u ''Name''), u_Terminal = IntToString (arr_of u ''Line''), u_Host = IntToString (arr_of u ''Host''),
     u_Started = val_of u ''Time''\<rparr>"

definition getUsersFromUtmp :: "host \<Rightarrow> string \<Rightarrow> user_stat list result" where
  "getUsersFromUtmp h utmpfile = rbind (ReadFile h utmpfile) (\<lambda>buf.
     Ok (map bsd_utmp_user (filter (\<lambda>u. val_of u ''Time'' \<noteq> 0) (table_entries le_decode fbsd_Utmp buf))))"

definition fbsd_UsersWithContext :: "host \<Rightarrow> user_stat list result" where
  "fbsd_UsersWithContext h =
     (if \<not> PathExists h ''/var/run/utx.active'' then getUsersFromUtmp h ''/var/run/utmp''
      else rbind (ReadFile h ''/var/run/utx.active'') (\<lambda>buf. Ok (List.map_filter utmpx_user (table_entries decode Utmpx buf))))"

definition obsd_UsersWithContext :: "host \<Rightarrow> user_stat list result" where
  "obsd_UsersWithContext h = rbind (ReadFile h ''/var/run/utmp'') (\<lambda>buf.
     Ok (map bsd_utmp_user (filter (\<lambda>u. val_of u ''Time'' \<noteq> 0 \<and> arr_of u ''Name'' ! 0 \<noteq> 0) (table_entries le_decode obsd_Utmp buf))))"

text \<open>The boot time, with the cache as state; \<open>timeval\<close> is the seconds of \<^verbatim>\<open>kern.boottime\<close>.\<close>

definition bsd_BootTimeWithContext :: "bool \<Rightarrow> gerr + int \<Rightarrow> u64 \<Rightarrow> u64 result \<times> u64" where
  "bsd_BootTimeWithContext enable timeval cached =
     (if enable \<and> cached \<noteq> 0 then (Ok cached, cached)
      else case timeval of
        Inl e \<Rightarrow> (Err e, cached)
      | Inr sec \<Rightarrow> (Ok (word_of_int sec), if enable then word_of_int sec else cached))"

definition bsd_UptimeWithContext :: "host \<Rightarrow> bool \<Rightarrow> gerr + int \<Rightarrow> u64 \<Rightarrow> u64 result \<times> u64" where
  "bsd_UptimeWithContext h enable timeval cached = (case bsd_BootTimeWithContext enable timeval cached of
     (r, c) \<Rightarrow> (rbind r (\<lambda>boot. Ok (TimeSince h boot)), c))"

section \<open>Tables are read back\<close>

lemma table_entries_roundtrip:
  assumes "0 < layout_size fs" and "\<And>k. k \<in> set ks \<Longrightarrow> length (enc k) = layout_size fs \<and> dec fs (enc k) = k" and "length rest < layout_size fs"
  shows "table_entries dec fs (concat (map enc ks) @ rest) = ks"
proof -
  let ?z = "layout_size fs" and ?buf = "concat (map enc ks) @ rest"
  have "length (concat (map enc us)) = length us * ?z" if "set us \<subseteq> set ks" for us
    using that assms(2) by (induction us) auto
  note len = this [of ks, simplified] this [OF set_take_subset]
  have n: "length ?buf div ?z = length ks" using len(1) assms(1,3) by simp
  have "dec fs (take ?z (drop (i * ?z) ?buf)) = ks ! i" if "i < length ks" for i
  proof -
    have split: "concat (map enc ks) = concat (map enc (take i ks)) @ enc (ks ! i) @ concat (map enc (drop (Suc i) ks))"
      by (subst id_take_nth_drop [OF that]) simp
    have "take ?z (drop (i * ?z) ?buf) = enc (ks ! i)"
      unfolding split using that len(2) [of i] assms(2) [of "ks ! i"] by (simp add: min_def)
    with assms(2) that show ?thesis by simp
  qed
  then show ?thesis unfolding table_entries_def n by (intro nth_equalityI) simp_all
qed

lemma bsd_layout_sizes [simp]:
  "layout_size Utmpx = 0xc5" "layout_size fbsd_Utmp = 44" "layout_size obsd_Utmp = 0x130" "layout_size Diskstats = 0x70" "layout_size devstat = sizeOfdevstat"
  "widths_pos Utmpx" "widths_pos fbsd_Utmp" "widths_pos obsd_Utmp" "widths_pos Diskstats" "widths_pos devstat"
  by (simp_all add: Utmpx_def fbsd_Utmp_def obsd_Utmp_def Diskstats_def devstat_def bintime_def nested_def widths_pos_def sizeOfdevstat_def le_field_defs field_size_def)

text \<open>The users reported on FreeBSD are exactly the user processes in the bytes of \<^verbatim>\<open>utx.active\<close>, in order; an incomplete last record is ignored.\<close>

theorem fbsd_Users_roundtrip:
  assumes "h_stat h ''/var/run/utx.active'' = Inr st" and "list_all (has_layout Utmpx) us" and "length rest < 0xc5"
    and "h_open h ''/var/run/utx.active'' = Inr (concat (map (encode Utmpx) us) @ rest, None)"
  shows "fbsd_UsersWithContext h = Ok (List.map_filter utmpx_user us)"
proof -
  have "table_entries decode Utmpx (concat (map (encode Utmpx) us) @ rest) = us"
    using assms(2,3) decode_encode [of Utmpx _ "[]"]
    by (intro table_entries_roundtrip) (auto simp: list_all_iff length_encode)
  with assms(1,4) show ?thesis by (simp add: fbsd_UsersWithContext_def PathExists_def ReadFile_def)
qed

definition utmpx_sample :: struct where
  "utmpx_sample = map (\<lambda>(n, vs). (n, if n = ''Type'' then [4] else if n = ''Tv'' then [1700000000000000] else vs)) (zero_struct Utmpx)"

theorem fbsd_Users_roundtrip_witness:
  "fbsd_UsersWithContext (no_files\<lparr>h_stat := (\<lambda>_. Inr (197, False)), h_open := (\<lambda>_. Inr (concat (map (encode Utmpx) [zero_struct Utmpx, utmpx_sample]) @ ''x'', None))\<rparr>) =
    Ok (List.map_filter utmpx_user [zero_struct Utmpx, utmpx_sample])"
proof -
  have ok: "has_layout Utmpx utmpx_sample"
    by (simp add: has_layout_def utmpx_sample_def zero_struct_def Utmpx_def le_field_defs field_ok_def list_all_length) (simp add: in_width_def)
  show ?thesis
    by (rule fbsd_Users_roundtrip [where st = "(197, False)" and rest = "''x''"]) (simp_all add: ok has_layout_zero)
qed

text \<open>The same of the little-endian table of OpenBSD, where unused slots are skipped.\<close>

lemma obsd_Users_roundtrip:
  assumes "list_all (has_layout obsd_Utmp) us" and "length rest < 0x130"
    and "h_open h ''/var/run/utmp'' = Inr (concat (map (le_encode obsd_Utmp) us) @ rest, None)"
  shows "obsd_UsersWithContext h = Ok (map bsd_utmp_user (filter (\<lambda>u. val_of u ''Time'' \<noteq> 0 \<and> arr_of u ''Name'' ! 0 \<noteq> 0) us))"
proof -
  have "table_entries le_decode obsd_Utmp (concat (map (le_encode obsd_Utmp) us) @ rest) = us"
    using assms(1,2) le_decode_encode [of obsd_Utmp _ "[]"]
    by (intro table_entries_roundtrip) (auto simp: list_all_iff length_le_encode)
  with assms(3) show ?thesis by (simp add: obsd_UsersWithContext_def ReadFile_def)
qed

lemma put_disk_fold:
  assumes "distinct (map d_Name ds)" and "set (map d_Name ds) \<inter> fst ` set ret = {}"
  shows "fold (put_disk names) ds ret = ret @ map (\<lambda>d. (d_Name d, d)) (filter (\<lambda>d. names = [] \<or> StringsHas names (d_Name d)) ds)"
  using assms
proof (induction ds arbitrary: ret)
  case (Cons d ds)
  have "alist_put (d_Name d) d ret = ret @ [(d_Name d, d)]" using Cons.prems by (intro alist_put_fresh) auto
  moreover have "fold (put_disk names) ds (ret @ [(d_Name d, d)]) =
      (ret @ [(d_Name d, d)]) @ map (\<lambda>d. (d_Name d, d)) (filter (\<lambda>d. names = [] \<or> StringsHas names (d_Name d)) ds)"
    using Cons.prems by (intro Cons.IH) auto
  moreover have "put_disk names d ret = (if names = [] \<or> StringsHas names (d_Name d) then alist_put (d_Name d) d ret else ret)"
    by (simp add: put_disk_def)
  ultimately show ?case using Cons.IH [of ret] Cons.prems by simp
qed simp

text \<open>Every table of disks that the kernel of OpenBSD hands over is read back: the counters of the disks that are asked for, in order.\<close>

theorem obsd_disks_roundtrip:
  assumes "bs_raw sys ''hw.diskstats'' [] = Inr (concat (map (le_encode Diskstats) ds))" and "list_all (has_layout Diskstats) ds"
    and "distinct (map (\<lambda>d. IntToString (arr_of d ''Name'')) ds)"
  shows "obsd_disk_IOCountersWithContext sys names = Ok (map (\<lambda>d. (IntToString (arr_of d ''Name''), obsd_disk_io d))
    (filter (\<lambda>d. names = [] \<or> StringsHas names (IntToString (arr_of d ''Name''))) ds))"
proof -
  have "table_entries le_decode Diskstats (concat (map (le_encode Diskstats) ds) @ []) = ds"
    using assms(2) le_decode_encode [of Diskstats _ "[]"]
    by (intro table_entries_roundtrip) (auto simp: list_all_iff length_le_encode)
  moreover have nm: "d_Name (obsd_disk_io d) = IntToString (arr_of d ''Name'')" for d by (simp add: obsd_disk_io_def)
  moreover have "fold (put_disk names) (map obsd_disk_io ds) [] =
      map (\<lambda>d. (d_Name d, d)) (filter (\<lambda>d. names = [] \<or> StringsHas names (d_Name d)) (map obsd_disk_io ds))"
    using assms(3) put_disk_fold [of "map obsd_disk_io ds" "[]" names] by (simp add: nm comp_def)
  ultimately show ?thesis
    using assms(1) by (simp add: obsd_disk_IOCountersWithContext_def filter_map comp_def)
qed

section \<open>Mounts and usage\<close>

text \<open>On FreeBSD a mount is reported as read-only exactly when it is; OpenBSD and NetBSD never report one.\<close>

lemma fbsd_read_only: "''ro'' \<in> set (pt_Opts (bsd_partition ''ro'' fbsd_opts stat)) \<longleftrightarrow> bf_flag stat ''MNT_RDONLY''"
  by (auto simp: bsd_partition_def mount_opts_def fbsd_opts_def)

lemma obsd_never_read_only:
  "''ro'' \<notin> set (pt_Opts (bsd_partition ''rw'' obsd_opts stat))" "''ro'' \<notin> set (pt_Opts (bsd_partition ''rw'' nbsd_opts stat))"
  by (auto simp: bsd_partition_def mount_opts_def obsd_opts_def nbsd_opts_def)

lemma obsd_usage_no_inodes: "bf_files stat = 0 \<Longrightarrow> bf_ffree stat = 0 \<Longrightarrow> us_InodesUsedPercent (bsd_usage path stat) = NaN"
  using percent_u64_zero [of 0] by (simp add: bsd_usage_def Let_def)

text \<open>Once the cache of the boot time is filled, the boot time does not change.\<close>

lemma bsd_boot_time_fixed:
  "bsd_BootTimeWithContext True tv c = (Ok t, c') \<Longrightarrow> t \<noteq> 0 \<Longrightarrow> c' = t \<and> bsd_BootTimeWithContext True tv' c' = (Ok t, t)"
  by (auto simp: bsd_BootTimeWithContext_def split: sum.splits if_splits)

section \<open>The last device of FreeBSD\<close>

text \<open>When the capacity of a slice is rounded up to a multiple of 8, the counters of FreeBSD never panic on a table of complete entries,
  although the kernel's value has lost its last byte, and every device is read.\<close>

theorem fbsd_disks_complete:
  assumes "r @ [CHR 0x00] = version @ concat (map (le_encode devstat) ds)" and "length version = 8" and "list_all (has_layout devstat) ds" and "ds \<noteq> []"
    and "bs_str sys ''kern.devstat.all'' = Inr r" and "\<And>n. n \<le> gocap n \<and> 8 dvd gocap n"
  shows "fbsd_disk_IOCountersWithContext gocap h sys names = Ok (fold (put_disk names) (map (fbsd_disk_io h) ds) [])"
proof -
  let ?z = sizeOfdevstat and ?full = "version @ concat (map (le_encode devstat) ds)"
  have z: "8 dvd ?z" "1 < ?z" by (simp_all add: sizeOfdevstat_def)
  have "length (concat (map (le_encode devstat) us)) = length us * ?z" if "set us \<subseteq> set ds" for us
    using that assms(3) by (induction us) (auto simp: list_all_iff length_le_encode)
  note len = this [of ds, simplified] this [OF set_take_subset]
  have lr: "length r + 1 = 8 + length ds * ?z" using arg_cong [OF assms(1), of length] assms(2) len(1) by simp
  have cap: "8 + length ds * ?z \<le> gocap (length r)"
  proof -
    have "8 dvd 8 + length ds * ?z" using z(1) by simp
    then obtain a where "8 + length ds * ?z = 8 * a" by (rule dvdE)
    moreover obtain b where "gocap (length r) = 8 * b" using assms(6) [of "length r"] by (elim conjE dvdE)
    ultimately show ?thesis using lr assms(6) [of "length r"] by presburger
  qed
  have full: "r @ replicate (gocap (length r) - length r) (CHR 0x00) = ?full @ replicate (gocap (length r) - length r - 1) (CHR 0x00)"
    using cap lr assms(1) [symmetric] by (simp flip: replicate_Suc)
  have entry: "fbsd_disk_entry gocap h names r i ret = Ok (put_disk names (fbsd_disk_io h (ds ! i)) ret)" if "i < length ds" for i ret
  proof -
    have split: "concat (map (le_encode devstat) ds) = concat (map (le_encode devstat) (take i ds)) @ le_encode devstat (ds ! i) @
        concat (map (le_encode devstat) (drop (Suc i) ds))" by (subst id_take_nth_drop [OF that]) simp
    have k: "has_layout devstat (ds ! i)" using that assms(3) by (simp add: list_all_length)
    have "take ?z (drop (8 + i * ?z) (r @ replicate (gocap (length r) - length r) (CHR 0x00))) = le_encode devstat (ds ! i)"
      unfolding full split using that len(2) [of i] assms(2) length_le_encode [OF k] by (simp add: min_def)
    moreover have "\<not> gocap (length r) < 8 + (i + 1) * ?z"
      using cap that mult_le_mono1 [of "i + 1" "length ds" ?z] by simp
    ultimately show ?thesis using le_decode_encode [OF _ k, of "[]"] by (simp add: fbsd_disk_entry_def)
  qed
  have "rfold (fbsd_disk_entry gocap h names r) [0..<n] [] = Ok (fold (put_disk names) (map (fbsd_disk_io h) (take n ds)) [])" if "n \<le> length ds" for n
    using that by (induction n) (simp_all add: rfold_append entry take_Suc_conv_app_nth)
  from this [of "length ds"] have "rfold (fbsd_disk_entry gocap h names r) [0..<length ds] [] = Ok (fold (put_disk names) (map (fbsd_disk_io h) ds) [])" by simp
  moreover have "length r div ?z = length ds"
  proof -
    have "length r = length ds * ?z + 7" using lr by simp
    then show ?thesis by (simp add: sizeOfdevstat_def)
  qed
  moreover have "8 \<le> length r"
  proof -
    have "1 \<le> length ds" using assms(4) by (cases ds) simp_all
    then have "?z \<le> length ds * ?z" by simp
    with lr show ?thesis by (simp add: sizeOfdevstat_def)
  qed
  ultimately show ?thesis using assms(5) by (simp add: fbsd_disk_IOCountersWithContext_def)
qed

theorem fbsd_disks_complete_witness:
  "fbsd_disk_IOCountersWithContext (\<lambda>n. 8 * ((n + 7) div 8)) no_files
     (fbsd_sample\<lparr>bs_str := (\<lambda>_. Inr (butlast (''version6'' @ concat (map (le_encode devstat) [zero_struct devstat]))))\<rparr>) [] =
   Ok (fold (put_disk []) (map (fbsd_disk_io no_files) [zero_struct devstat]) [])"
proof -
  have ne: "le_encode devstat (zero_struct devstat) \<noteq> []"
    using length_le_encode [OF has_layout_zero [of devstat]] by (auto simp: sizeOfdevstat_def)
  have "last (le_encode devstat (zero_struct devstat)) = CHR 0x00" by code_simp
  with ne have r: "butlast (''version6'' @ concat (map (le_encode devstat) [zero_struct devstat])) @ [CHR 0x00] =
      ''version6'' @ concat (map (le_encode devstat) [zero_struct devstat])"
    by (simp add: butlast_append) (metis append_butlast_last_id)
  have "n \<le> 8 * ((n + 7) div 8)" for n :: nat by presburger
  then show ?thesis by (intro fbsd_disks_complete [OF r]) (simp_all add: has_layout_zero)
qed

end
