(* ===== verification/Process_Darwin.thy ===== *)
theory Process_Darwin
  imports Process_Bsd
begin

text \<open>
  Package \<^verbatim>\<open>process\<close> on Darwin (\<^verbatim>\<open>process_darwin.go\<close>, with the structs of \<^verbatim>\<open>process_darwin_amd64.go\<close>): the kernel's description of a process, the functions
  of the system library, the command \<^verbatim>\<open>ps\<close>, and the area of the arguments and the environment, which the kernel hands out as one buffer. Operations
  that only return \<^verbatim>\<open>ErrNotImplementedError\<close> have no definition.
\<close>

section \<open>The structs\<close>

definition rusageInfoV2 :: layout where
  "rusageInfoV2 = [(''UUID'', bytes_f 16), (''UserTime'', u64_f), (''SystemTime'', u64_f), (''PkgIdleWkups'', u64_f), (''InterruptWkups'', u64_f), (''Pageins'', u64_f),
     (''WiredSize'', u64_f), (''ResidentSize'', u64_f), (''PhysFootprint'', u64_f), (''ProcStartAbstime'', u64_f), (''ProcExitAbstime'', u64_f), (''ChildUserTime'', u64_f),
     (''ChildSystemTime'', u64_f), (''ChildPkgIdleWkups'', u64_f), (''ChildInterruptWkups'', u64_f), (''ChildPageins'', u64_f), (''ChildElapsedAbstime'', u64_f),
     (''DiskIOBytesRead'', u64_f), (''DiskIOBytesWritten'', u64_f)]"

definition ProcTaskInfo :: layout where
  "ProcTaskInfo = [(''Virtual_size'', u64_f), (''Resident_size'', u64_f), (''Total_user'', u64_f), (''Total_system'', u64_f), (''Threads_user'', u64_f),
     (''Threads_system'', u64_f), (''Policy'', i32_f), (''Faults'', i32_f), (''Pageins'', i32_f), (''Cow_faults'', i32_f), (''Messages_sent'', i32_f),
     (''Messages_received'', i32_f), (''Syscalls_mach'', i32_f), (''Syscalls_unix'', i32_f), (''Csw'', i32_f), (''Threadnum'', i32_f), (''Numrunning'', i32_f),
     (''Priority'', i32_f)]"

definition vinfoStat :: layout where
  "vinfoStat = [(''Dev'', u32_f), (''Mode'', u16_f), (''Nlink'', u16_f), (''Ino'', u64_f), (''Uid'', u32_f), (''Gid'', u32_f), (''Atime'', i64_f), (''Atimensec'', i64_f),
     (''Mtime'', i64_f), (''Mtimensec'', i64_f), (''Ctime'', i64_f), (''Ctimensec'', i64_f), (''Birthtime'', i64_f), (''Birthtimensec'', i64_f), (''Size'', i64_f),
     (''Blocks'', i64_f), (''Blksize'', i32_f), (''Flags'', u32_f), (''Gen'', u32_f), (''Rdev'', u32_f), (''Qspare'', i64s_f 2)]"

definition vnodeInfo :: layout where
  "vnodeInfo = nested ''Stat'' vinfoStat @ [(''Type'', i32_f), (''Pad'', i32_f), (''Fsid.Val'', \<lparr>ft_signed = True, ft_width = 4, ft_count = 2\<rparr>)]"

definition vnodeInfoPath :: layout where
  "vnodeInfoPath = nested ''Vi'' vnodeInfo @ [(''Path'', i8s_f 1024)]"

definition vnodePathInfo :: layout where
  "vnodePathInfo = nested ''Cdir'' vnodeInfoPath @ nested ''Rdir'' vnodeInfoPath"

section \<open>The system\<close>

text \<open>What is used of \<^verbatim>\<open>unix.KinfoProc\<close>.\<close>

record darwin_kinfo =
  dk_pid :: int
  dk_comm :: string
  dk_start_sec :: int
  dk_start_usec :: int
  dk_nice :: int
  dk_ppid :: int
  dk_uid :: u32
  dk_group0 :: u32
  dk_rgid :: u32
  dk_svgid :: u32

text \<open>\<open>de_kinfo\<close> and \<open>de_kinfos\<close> are \<^verbatim>\<open>unix.SysctlKinfoProc\<close> and \<^verbatim>\<open>unix.SysctlKinfoProcSlice\<close>; \<open>de_lib\<close> is the error of loading the system library, if any. A
  function of the library gives its return value and the bytes that it writes into its buffer; the buffer of \<^verbatim>\<open>proc_pidinfo\<close> has a size, or there
  is none. \<open>de_errno\<close> is the error number after a call that has failed.\<close>

record darwin_env =
  de_bsd :: bsd_env
  de_kinfo :: "int \<Rightarrow> gerr + darwin_kinfo"
  de_kinfos :: "gerr + darwin_kinfo list"
  de_lib :: "gerr option"
  de_pidinfo :: "int \<Rightarrow> int \<Rightarrow> nat option \<Rightarrow> int \<times> string"
  de_pidpath :: "int \<Rightarrow> nat \<Rightarrow> int \<times> string"
  de_rusage :: "int \<Rightarrow> int \<times> string"
  de_errno :: gerr
  de_timebase :: "u32 \<times> u32"

abbreviation de_host :: "darwin_env \<Rightarrow> host" where
  "de_host env \<equiv> be_host (de_bsd env)"

section \<open>Arguments and environment\<close>

text \<open>The first four bytes are the number of arguments. A shorter reply makes the slice in \<^verbatim>\<open>procArgs\<close> or the one behind it panic.\<close>

definition procArgs :: "darwin_env \<Rightarrow> int \<Rightarrow> (string \<times> int) result" where
  "procArgs env pid = rbind (of_sum (bs_raw (be_sys (de_bsd env)) ''kern.procargs2'' [pid])) (\<lambda>procargs.
     if length procargs < 4 then Panic else Ok (procargs, val_of (le_decode [(''v'', u32_f)] procargs) ''v''))"

text \<open>The chunks from the first argument on: the path of the program and the padding behind it are skipped.\<close>

definition arg_chunks :: "string list \<Rightarrow> string list" where
  "arg_chunks chunks = dropWhile (\<lambda>ch. ch = []) (tl chunks)"

definition clamp_args :: "int \<Rightarrow> string list \<Rightarrow> nat" where
  "clamp_args nargs rest = (let n = (if nargs > int (length rest) then int (length rest) else nargs) in nat (if n < 0 then 0 else n))"

definition parseCmdline :: "string \<Rightarrow> int \<Rightarrow> string list" where
  "parseCmdline args nargs = (let chunks = split_char (CHR 0x00) args in
     if length chunks \<le> 1 then []
     else let rest = arg_chunks chunks in take (clamp_args nargs rest) rest)"

text \<open>A variable has a name before the equals sign.\<close>

definition is_variable :: "string \<Rightarrow> bool" where
  "is_variable ch = (case index_byte ch (CHR ''='') of Some i \<Rightarrow> 0 < i | None \<Rightarrow> False)"

definition parseEnviron :: "string \<Rightarrow> int \<Rightarrow> string list" where
  "parseEnviron args nargs = (let chunks = split_char (CHR 0x00) args in
     if length chunks \<le> 1 then []
     else let rest = arg_chunks chunks in
       filter is_variable (takeWhile (\<lambda>ch. ch \<noteq> []) (drop (clamp_args nargs rest) rest)))"

definition cmdlineSlice :: "darwin_env \<Rightarrow> process \<Rightarrow> string list result" where
  "cmdlineSlice env p = rbind (procArgs env (p_Pid p)) (\<lambda>(pargs, nargs). Ok (parseCmdline (drop 4 pargs) nargs))"

definition darwin_CmdlineSliceWithContext :: "darwin_env \<Rightarrow> process \<Rightarrow> string list result" where
  "darwin_CmdlineSliceWithContext env p = cmdlineSlice env p"

definition cmdNameWithContext :: "darwin_env \<Rightarrow> process \<Rightarrow> string result" where
  "cmdNameWithContext env p = rbind (cmdlineSlice env p) (\<lambda>r. Ok (case r of [] \<Rightarrow> [] | a # _ \<Rightarrow> a))"

definition darwin_CmdlineWithContext :: "darwin_env \<Rightarrow> process \<Rightarrow> string result" where
  "darwin_CmdlineWithContext env p = rbind (darwin_CmdlineSliceWithContext env p) (\<lambda>r. Ok (join '' '' r))"

definition darwin_EnvironWithContext :: "darwin_env \<Rightarrow> process \<Rightarrow> string list result" where
  "darwin_EnvironWithContext env p = rbind (procArgs env (p_Pid p)) (\<lambda>(pargs, nargs). Ok (parseEnviron (drop 4 pargs) nargs))"

section \<open>What the kernel's description gives\<close>

definition darwin_getKProc :: "darwin_env \<Rightarrow> process \<Rightarrow> darwin_kinfo result" where
  "darwin_getKProc env p = of_sum (de_kinfo env (p_Pid p))"

definition darwin_PpidWithContext :: "darwin_env \<Rightarrow> process \<Rightarrow> int result" where
  "darwin_PpidWithContext env p = rbind (darwin_getKProc env p) (\<lambda>k. Ok (dk_ppid k))"

definition darwin_NameWithContext :: "darwin_env \<Rightarrow> process \<Rightarrow> string result" where
  "darwin_NameWithContext env p = rbind (darwin_getKProc env p) (\<lambda>k.
     let name = ByteToString (dk_comm k) in
     if length name < 15 then Ok name
     else rbind (cmdNameWithContext env p) (\<lambda>cmdName.
       Ok (if cmdName \<noteq> [] \<and> has_prefix (path_base cmdName) (p_name p) then path_base cmdName else name)))"

definition darwin_createTimeWithContext :: "darwin_env \<Rightarrow> process \<Rightarrow> int result" where
  "darwin_createTimeWithContext env p = rbind (darwin_getKProc env p) (\<lambda>k.
     Ok (to_i64 (to_i64 (dk_start_sec k * 1000) + dk_start_usec k sdiv 1000)))"

definition darwin_UidsWithContext :: "darwin_env \<Rightarrow> process \<Rightarrow> u32 list result" where
  "darwin_UidsWithContext env p = rbind (darwin_getKProc env p) (\<lambda>k. Ok [dk_uid k])"

definition darwin_GidsWithContext :: "darwin_env \<Rightarrow> process \<Rightarrow> u32 list result" where
  "darwin_GidsWithContext env p = rbind (darwin_getKProc env p) (\<lambda>k. Ok [dk_rgid k, dk_group0 k, dk_svgid k])"

definition darwin_NiceWithContext :: "darwin_env \<Rightarrow> process \<Rightarrow> int result" where
  "darwin_NiceWithContext env p = rbind (darwin_getKProc env p) (\<lambda>k. Ok (dk_nice k))"

section \<open>The command ps\<close>

definition ps_args :: "string \<Rightarrow> int \<Rightarrow> bool \<Rightarrow> bool \<Rightarrow> string list" where
  "ps_args arg pid threadOption nameOption =
     (if pid = 0 then [''-ax'', ''-o'', arg]
      else if threadOption then [''-x'', ''-o'', arg, ''-M'', ''-p'', itoa pid]
      else [''-x'', ''-o'', arg, ''-p'', itoa pid]) @ (if nameOption then [''-c''] else [])"

definition ps_row :: "bool \<Rightarrow> string \<Rightarrow> string list" where
  "ps_row nameOption l = (if nameOption then [l] else map trim_space (filter (\<lambda>r. r \<noteq> []) (split_char (CHR '' '') l)))"

definition callPsWithContext :: "host \<Rightarrow> string \<Rightarrow> int \<Rightarrow> bool \<Rightarrow> bool \<Rightarrow> string list list result" where
  "callPsWithContext h arg pid threadOption nameOption =
     rbind (run_command h ''ps'' (ps_args arg pid threadOption nameOption)) (\<lambda>out.
       Ok (filter (\<lambda>lr. lr \<noteq> []) (map (ps_row nameOption) (tl (split_char nl out)))))"

definition darwin_StatusWithContext :: "darwin_env \<Rightarrow> process \<Rightarrow> string list result" where
  "darwin_StatusWithContext env p = rbind (callPsWithContext (de_host env) ''state'' (p_Pid p) False False) (\<lambda>r.
     rbind (idx r 0) (\<lambda>row. rbind (idx row 0) (\<lambda>s. rbind (idx s 0) (\<lambda>ch. Ok [convertStatusChar [ch]]))))"

definition darwin_ForegroundWithContext :: "darwin_env \<Rightarrow> process \<Rightarrow> bool result" where
  "darwin_ForegroundWithContext env = bsd_Foreground (de_bsd env)"

section \<open>The system library\<close>

definition loadProcFuncs :: "darwin_env \<Rightarrow> unit result" where
  "loadProcFuncs env = (case de_lib env of Some e \<Rightarrow> Err e | None \<Rightarrow> Ok ())"

definition darwin_proc_IOCountersWithContext :: "darwin_env \<Rightarrow> process \<Rightarrow> proc_io_stat result" where
  "darwin_proc_IOCountersWithContext env p = rbind (loadProcFuncs env) (\<lambda>_.
     case de_rusage env (p_Pid p) of (ret, d) \<Rightarrow>
       if ret \<noteq> 0 then Err (case de_errno env of
           EPERM \<Rightarrow> ErrNotPermitted | ESRCH \<Rightarrow> ErrProcessNotRunning
         | e \<Rightarrow> ErrWrap (''proc_pid_rusage failed for pid '' @ itoa (p_Pid p)) e)
       else let usage = le_decode rusageInfoV2 (sys_buffer (layout_size rusageInfoV2) d) in
         Ok (empty_io\<lparr>pi_DiskReadBytes := word_of_int (val_of usage ''DiskIOBytesRead''), pi_DiskWriteBytes := word_of_int (val_of usage ''DiskIOBytesWritten'')\<rparr>))"

definition darwin_ExeWithContext :: "darwin_env \<Rightarrow> process \<Rightarrow> string result" where
  "darwin_ExeWithContext env p = rbind (loadProcFuncs env) (\<lambda>_.
     case de_pidpath env (p_Pid p) 4096 of (ret, d) \<Rightarrow>
       if ret \<le> 0 then Err (ErrMsg (''unknown error: proc_pidpath returned '' @ itoa ret))
       else Ok (takeWhile (\<lambda>ch. ch \<noteq> CHR 0x00) (sys_buffer 4096 d)))"

text \<open>The path of the working directory ends at the first zero byte of the struct; when there is none, memory behind the struct would be read,
  which is counted as a panic.\<close>

definition darwin_CwdWithContext :: "darwin_env \<Rightarrow> process \<Rightarrow> string result" where
  "darwin_CwdWithContext env p = rbind (loadProcFuncs env) (\<lambda>_. let vpiSize = layout_size vnodePathInfo in
     case de_pidinfo env (p_Pid p) 9 (Some vpiSize) of (ret, d) \<Rightarrow>
       if ret \<le> 0 then Err (if de_errno env = EPERM then ErrNotPermitted else ErrMsg (''unknown error: proc_pidinfo returned '' @ itoa ret))
       else if ret \<noteq> int vpiSize then Err (ErrMsg (''too few bytes; expected '' @ fmt_nat vpiSize @ '', got '' @ itoa ret))
       else let path = drop (offset_of vnodePathInfo ''Cdir.Path'') (sys_buffer vpiSize d) in
         case index_byte path (CHR 0x00) of Some i \<Rightarrow> Ok (take i path) | None \<Rightarrow> Panic)"

text \<open>The result of the call is not looked at: after a failure all figures are 0.\<close>

definition task_info :: "darwin_env \<Rightarrow> process \<Rightarrow> struct" where
  "task_info env p = le_decode ProcTaskInfo (sys_buffer (layout_size ProcTaskInfo) (snd (de_pidinfo env (p_Pid p) 4 (Some (layout_size ProcTaskInfo)))))"

definition darwin_NumThreadsWithContext :: "darwin_env \<Rightarrow> process \<Rightarrow> int result" where
  "darwin_NumThreadsWithContext env p = rbind (loadProcFuncs env) (\<lambda>_. Ok (val_of (task_info env p) ''Threadnum''))"

definition getTimeScaleToNanoSeconds :: "darwin_env \<Rightarrow> float64" where
  "getTimeScaleToNanoSeconds env = (case de_timebase env of (numer, denom) \<Rightarrow> f_of_nat (unat numer) / f_of_nat (unat denom))"

definition darwin_proc_TimesWithContext :: "darwin_env \<Rightarrow> process \<Rightarrow> times_stat result" where
  "darwin_proc_TimesWithContext env p = rbind (loadProcFuncs env) (\<lambda>_.
     let ti = task_info env p; scale = getTimeScaleToNanoSeconds env in
     Ok (bsd_times (f_of_int (val_of ti ''Total_user'') * scale / Fin 1000000000) (f_of_int (val_of ti ''Total_system'') * scale / Fin 1000000000)))"

definition darwin_MemoryInfoWithContext :: "darwin_env \<Rightarrow> process \<Rightarrow> memory_info_stat result" where
  "darwin_MemoryInfoWithContext env p = rbind (loadProcFuncs env) (\<lambda>_. let ti = task_info env p in
     Ok (empty_mem_info\<lparr>mi_RSS := word_of_int (val_of ti ''Resident_size''), mi_VMS := word_of_int (val_of ti ''Virtual_size'')\<rparr>))"

text \<open>An entry of the table of descriptors has 8 bytes. The address of the first entry is taken.\<close>

definition darwin_NumFDsWithContext :: "darwin_env \<Rightarrow> process \<Rightarrow> int result" where
  "darwin_NumFDsWithContext env p = rbind (loadProcFuncs env) (\<lambda>_.
     let bufferSize = fst (de_pidinfo env (p_Pid p) 1 None) in
     if bufferSize \<le> 0 then Err (ErrMsg (''unknown error: proc_pidinfo returned '' @ itoa bufferSize))
     else if bufferSize div 8 = 0 then Panic
     else let ret = fst (de_pidinfo env (p_Pid p) 1 (Some (nat bufferSize))) in
       if ret \<le> 0 then Err (ErrMsg (''unknown error: proc_pidinfo returned '' @ itoa ret)) else Ok (ret div 8))"

section \<open>Listing\<close>

definition darwin_pidsWithContext :: "darwin_env \<Rightarrow> int list result" where
  "darwin_pidsWithContext env = rbind (of_sum (de_kinfos env)) (\<lambda>kprocs. Ok (map dk_pid kprocs))"

definition darwin_PidsWithContext :: "darwin_env \<Rightarrow> int list result" where
  "darwin_PidsWithContext env = rbind (darwin_pidsWithContext env) (\<lambda>pids. Ok (sort pids))"

definition darwin_new_process :: "darwin_env \<Rightarrow> int \<Rightarrow> process list \<Rightarrow> process list result" where
  "darwin_new_process env pid out =
     rbind (bsd_NewProcess (darwin_createTimeWithContext env) (de_bsd env) pid) (\<lambda>(p, err). Ok (if err = None then out @ [p] else out))"

definition darwin_ProcessesWithContext :: "darwin_env \<Rightarrow> process list result" where
  "darwin_ProcessesWithContext env = rbind (darwin_PidsWithContext env) (\<lambda>pids. rfold (darwin_new_process env) pids [])"

definition darwin_ChildrenWithContext :: "darwin_env \<Rightarrow> process \<Rightarrow> process list result" where
  "darwin_ChildrenWithContext env = kinfo_Children (darwin_ProcessesWithContext env) (darwin_PpidWithContext env)"

definition darwin_proc_ConnectionsWithContext :: "darwin_env \<Rightarrow> process \<Rightarrow> connection_stat list result" where
  "darwin_proc_ConnectionsWithContext env p = unix_ConnectionsPidWithContext 30 (de_host env) ''all'' (p_Pid p)"

section \<open>Arguments and environment do not mix\<close>

text \<open>The area that the kernel hands out: the number of arguments, the path of the program and padding, the arguments, the environment, padding, and the
  strings that the kernel adds.\<close>

definition procargs_area :: "string list \<Rightarrow> string \<Rightarrow> nat \<Rightarrow> string list \<Rightarrow> nat \<Rightarrow> string list \<Rightarrow> string" where
  "procargs_area argv path pad envp pad' apple =
     le_encode [(''v'', u32_f)] [(''v'', [int (length argv)])] @ path @ [CHR 0x00] @ replicate pad (CHR 0x00) @ argv_text argv @
     argv_text envp @ replicate pad' (CHR 0x00) @ argv_text apple"

lemma split_argv_text: "list_all (\<lambda>a. CHR 0x00 \<notin> set a) ws \<Longrightarrow> split_char (CHR 0x00) (argv_text ws @ s) = ws @ split_char (CHR 0x00) s"
  by (induction ws) (simp_all add: argv_text_def split_char_append)

lemma split_padding: "split_char (CHR 0x00) (replicate n (CHR 0x00) @ s) = replicate n [] @ split_char (CHR 0x00) s"
  by (induction n) simp_all

lemma dropWhile_padding: "dropWhile (\<lambda>ch. ch = []) (replicate n [] @ ws) = dropWhile (\<lambda>ch. ch = []) ws"
  by (induction n) simp_all

lemma clamp_args_take: "clamp_args (int n) (xs @ ys) = n" if "n \<le> length xs"
  using that by (simp add: clamp_args_def)

lemma procArgs_area:
  assumes "bs_raw (be_sys (de_bsd env)) ''kern.procargs2'' [pid] = Inr (procargs_area argv path pad envp pad' apple)" and "length argv < 2 ^ 32"
  shows "procArgs env pid = Ok (procargs_area argv path pad envp pad' apple, int (length argv))"
proof -
  have "le_decode [(''v'', u32_f)] (procargs_area argv path pad envp pad' apple) = [(''v'', [int (length argv)])]"
    unfolding procargs_area_def by (rule le_decode_encode [OF _ le_word(1) [OF assms(2)]]) (simp add: widths_pos_def field_ty_defs)
  with assms(1) le_word(2) [OF assms(2)] show ?thesis by (simp add: procArgs_def val_of_def arr_of_def) (simp add: procargs_area_def)
qed

lemma drop_area: "length argv < 2 ^ 32 \<Longrightarrow> drop 4 (procargs_area argv path pad envp pad' apple) =
    path @ CHR 0x00 # replicate pad (CHR 0x00) @ argv_text argv @ argv_text envp @ replicate pad' (CHR 0x00) @ argv_text apple"
  by (simp add: procargs_area_def le_word(2))

lemma area_chunks:
  assumes "list_all (\<lambda>a. CHR 0x00 \<notin> set a) (path # argv @ envp @ apple)" and "argv \<noteq> []" and "hd argv \<noteq> []" and "length argv < 2 ^ 32"
  shows "\<exists>chunks. split_char (CHR 0x00) (drop 4 (procargs_area argv path pad envp pad' apple)) = path # chunks \<and> chunks \<noteq> [] \<and>
    arg_chunks (path # chunks) = argv @ envp @ replicate pad' [] @ apple @ [[]]"
proof -
  let ?tl = "argv @ envp @ replicate pad' [] @ apple @ [[]]"
  have "split_char (CHR 0x00) (drop 4 (procargs_area argv path pad envp pad' apple)) = path # replicate pad [] @ ?tl"
    using assms(1,4) split_argv_text [of apple "[]"] by (simp add: drop_area split_char_append split_padding split_argv_text)
  moreover have "arg_chunks (path # replicate pad [] @ ?tl) = ?tl"
    using assms(2,3) by (cases argv) (simp_all add: arg_chunks_def dropWhile_padding)
  ultimately show ?thesis by auto
qed

text \<open>C11: For every process whose first argument is not empty, the command line consists of exactly its arguments, empty ones too: however much padding
  the kernel adds, nothing of the environment, where secrets are kept, gets into it and no argument is lost. The environment consists of exactly
  its variables when none of its strings is empty (an empty one hides everything behind it) and the kernel separates it from its own strings.\<close>

theorem darwin_args_roundtrip:
  assumes "bs_raw (be_sys (de_bsd env)) ''kern.procargs2'' [p_Pid p] = Inr (procargs_area argv path pad envp pad' apple)" and "length argv < 2 ^ 32"
    and "list_all (\<lambda>a. CHR 0x00 \<notin> set a) (path # argv @ envp @ apple)" and "argv \<noteq> []" and "hd argv \<noteq> []"
  shows "darwin_CmdlineSliceWithContext env p = Ok argv \<and>
    (list_all (\<lambda>e. e \<noteq> []) envp \<and> (0 < pad' \<or> apple = []) \<longrightarrow> darwin_EnvironWithContext env p = Ok (filter is_variable envp))"
proof -
  let ?area = "procargs_area argv path pad envp pad' apple" and ?tl = "envp @ replicate pad' [] @ apple @ [[]]"
  obtain chunks where ch: "split_char (CHR 0x00) (drop 4 ?area) = path # chunks" "chunks \<noteq> []" "arg_chunks (path # chunks) = argv @ ?tl"
    using area_chunks [OF assms(3-5,2)] by blast
  have n: "clamp_args (int (length argv)) (argv @ ?tl) = length argv" by (rule clamp_args_take) simp
  note args = procArgs_area [OF assms(1,2)]
  have "takeWhile (\<lambda>e. e \<noteq> []) ?tl = envp" if "list_all (\<lambda>e. e \<noteq> []) envp" "0 < pad' \<or> apple = []"
  proof -
    have "\<exists>tl'. replicate pad' [] @ apple @ [[]] = [] # tl'" using that(2) by (cases pad') auto
    then show ?thesis using that(1) by (auto simp: list_all_iff takeWhile_append2)
  qed
  with ch n args show ?thesis
    by (simp add: darwin_CmdlineSliceWithContext_def cmdlineSlice_def darwin_EnvironWithContext_def parseCmdline_def parseEnviron_def Let_def)
qed

definition args_env :: darwin_env where
  "args_env = \<lparr>de_bsd = (argv_env [] [])\<lparr>be_sys := fbsd_sample\<lparr>bs_raw :=
       (\<lambda>_ _. Inr (procargs_area [''sh'', [], ''-c''] ''/bin/sh'' 5 [''HOME=/root'', ''junk'', ''KEY=1''] 3 [''pfz=0'']))\<rparr>\<rparr>,
     de_kinfo = (\<lambda>_. Inl ESRCH), de_kinfos = Inr [], de_lib = None, de_pidinfo = (\<lambda>_ _ _. (0, [])), de_pidpath = (\<lambda>_ _. (0, [])),
     de_rusage = (\<lambda>_. (-1, [])), de_errno = ESRCH, de_timebase = (1, 1)\<rparr>"

theorem darwin_args_roundtrip_witness:
  "darwin_CmdlineSliceWithContext args_env (new_process 71) = Ok [''sh'', [], ''-c''] \<and>
   darwin_EnvironWithContext args_env (new_process 71) = Ok [''HOME=/root'', ''KEY=1'']"
proof -
  have "darwin_CmdlineSliceWithContext args_env (new_process 71) = Ok [''sh'', [], ''-c''] \<and>
    (list_all (\<lambda>e. e \<noteq> []) [''HOME=/root'', ''junk'', ''KEY=1''] \<and> (0 < (3 :: nat) \<or> [''pfz=0''] = []) \<longrightarrow>
      darwin_EnvironWithContext args_env (new_process 71) = Ok (filter is_variable [''HOME=/root'', ''junk'', ''KEY=1'']))"
    by (rule darwin_args_roundtrip [where path = "''/bin/sh''" and pad = 5]) (simp_all add: args_env_def)
  then show ?thesis by (simp add: is_variable_def)
qed

text \<open>Whatever the kernel hands out, the command line and the environment are taken from separate parts of it, in order: no argument is reported as
  a variable and no variable as an argument.\<close>

lemma darwin_args_apart:
  "\<exists>rest. arg_chunks (split_char (CHR 0x00) args) = parseCmdline args nargs @ rest \<and> subseq (parseEnviron args nargs) rest"
proof (cases "length (split_char (CHR 0x00) args) \<le> 1")
  case True
  then have "split_char (CHR 0x00) args = [hd (split_char (CHR 0x00) args)]"
    using split_char_not_Nil [of "CHR 0x00" args] by (cases "split_char (CHR 0x00) args") auto
  then have "arg_chunks (split_char (CHR 0x00) args) = []" by (metis arg_chunks_def dropWhile.simps(1) list.sel(3))
  with True show ?thesis by (simp add: parseCmdline_def parseEnviron_def)
next
  case False
  let ?rest = "arg_chunks (split_char (CHR 0x00) args)"
  have "subseq (filter is_variable (takeWhile P xs)) xs" for P xs
    by (metis subseq_filter_left subseq_order.order_trans takeWhile_dropWhile_id list_emb_append2 subseq_order.order_refl subseq_rev_drop_many)
  with False show ?thesis
    by (intro exI [where x = "drop (clamp_args nargs ?rest) ?rest"]) (simp add: parseCmdline_def parseEnviron_def Let_def)
qed

text \<open>A process whose only argument is empty: its first variable is reported as the argument.\<close>

lemma darwin_empty_argument_leaks:
  assumes "bs_raw (be_sys (de_bsd env)) ''kern.procargs2'' [p_Pid p] = Inr (procargs_area [[]] path pad (e # envp) pad' apple)"
    and "list_all (\<lambda>a. CHR 0x00 \<notin> set a) (path # (e # envp) @ apple)" and "e \<noteq> []"
  shows "darwin_CmdlineSliceWithContext env p = Ok [e]"
proof -
  let ?area = "procargs_area [[]] path pad (e # envp) pad' apple" and ?tl = "(e # envp) @ replicate pad' [] @ apple @ [[]]"
  have "split_char (CHR 0x00) (drop 4 ?area) = path # replicate pad [] @ [] # ?tl"
    using assms(2) split_argv_text [of apple "[]"] split_argv_text [of "[[]]"]
    by (simp add: drop_area split_char_append split_padding split_argv_text)
  moreover have "arg_chunks (path # replicate pad [] @ [] # ?tl) = ?tl" using assms(3) by (simp add: arg_chunks_def dropWhile_padding)
  ultimately show ?thesis using procArgs_area [OF assms(1)]
    by (simp add: darwin_CmdlineSliceWithContext_def cmdlineSlice_def parseCmdline_def Let_def clamp_args_def)
qed

section \<open>Listing and failures\<close>

lemma darwin_processes:
  assumes "de_kinfos env = Inr ks"
  shows "\<exists>ps. darwin_ProcessesWithContext env = Ok ps \<and> map p_Pid ps =
    filter (\<lambda>pid. PidExistsWithContext (be_proc (de_bsd env)) pid = Ok True) (sort (map dk_pid ks))"
proof -
  let ?ex = "\<lambda>pid. PidExistsWithContext (be_proc (de_bsd env)) pid = Ok True"
  have new: "darwin_createTimeWithContext env p \<noteq> Panic" for p by (simp add: darwin_createTimeWithContext_def darwin_getKProc_def outcome_iff)
  have "\<exists>ps. rfold (darwin_new_process env) pids out = Ok ps \<and> map p_Pid ps = map p_Pid out @ filter ?ex pids" for pids out
  proof (induction pids arbitrary: out)
    case (Cons q pids)
    obtain out' where "darwin_new_process env q out = Ok out'" "map p_Pid out' = map p_Pid out @ filter ?ex [q]"
      using bsd_NewProcess_pid [where createTime = "darwin_createTimeWithContext env" and env = "de_bsd env" and pid = q, OF new] by (auto simp: darwin_new_process_def)
    with Cons.IH [of out'] show ?case by auto
  qed simp
  from this [of _ "[]"] assms show ?thesis by (simp add: darwin_ProcessesWithContext_def darwin_PidsWithContext_def darwin_pidsWithContext_def)
qed

text \<open>Without a row for the process, the status panics; so does the number of descriptors when less than one entry is announced.\<close>

lemma darwin_status_no_row:
  "h_command (de_host env) ''ps'' (ps_args ''state'' (p_Pid p) False False) = (''STAT'' @ [nl], None) \<Longrightarrow> darwin_StatusWithContext env p = Panic"
  by (simp add: darwin_StatusWithContext_def callPsWithContext_def run_command_def ps_row_def idx_def)

lemma darwin_fds_small_buffer:
  "de_lib env = None \<Longrightarrow> de_pidinfo env (p_Pid p) 1 None = (n, d) \<Longrightarrow> 0 < n \<Longrightarrow> n < 8 \<Longrightarrow> darwin_NumFDsWithContext env p = Panic"
  by (simp add: darwin_NumFDsWithContext_def loadProcFuncs_def)

end
