(* ===== verification/Host_Darwin.thy ===== *)
theory Host_Darwin
  imports Process_Darwin Disk_Bsd
begin

text \<open>
  Package \<^verbatim>\<open>host\<close> on Darwin and NetBSD (\<^verbatim>\<open>host_darwin.go\<close>, \<^verbatim>\<open>host_netbsd.go\<close>), the number of processes that the BSD family reports, and the mounts of
  Darwin (\<^verbatim>\<open>disk_darwin.go\<close>).
\<close>

section \<open>Host\<close>

text \<open>The line of the platform identifier has the form \<^verbatim>\<open>"IOPlatformUUID" = "..."\<close>.\<close>

definition uuid_sep :: string where
  "uuid_sep = [CHR 0x22] @ '' = '' @ [CHR 0x22]"

definition uuid_line :: "string \<Rightarrow> string option" where
  "uuid_line line =
     (if str_contains line ''IOPlatformUUID''
      then case split_str uuid_sep [] line of [_, v] \<Rightarrow> Some (to_lower (trim_right_set [CHR 0x22] v)) | _ \<Rightarrow> None
      else None)"

definition darwin_HostIDWithContext :: "host \<Rightarrow> string result" where
  "darwin_HostIDWithContext h = rbind (run_command h ''ioreg'' [''-rd1'', ''-c'', ''IOPlatformExpertDevice'']) (\<lambda>out.
     case List.map_filter uuid_line (split_char nl out) of u # _ \<Rightarrow> Ok u | [] \<Rightarrow> Err (ErrMsg ''cannot find host id''))"

definition bsd_numProcs :: "int list result \<Rightarrow> u64 result" where
  "bsd_numProcs pids = rbind pids (\<lambda>procs. Ok (word_of_nat (length (sort procs))))"

definition darwin_numProcs :: "darwin_env \<Rightarrow> u64 result" where
  "darwin_numProcs env = bsd_numProcs (darwin_pidsWithContext env)"

definition fbsd_numProcs :: "bsd_env \<Rightarrow> u64 result" where
  "fbsd_numProcs env = bsd_numProcs (fbsd_pidsWithContext env)"

definition obsd_numProcs :: "bsd_env \<Rightarrow> u64 result" where
  "obsd_numProcs env = bsd_numProcs (obsd_pidsWithContext env)"

text \<open>The struct has two bytes of padding before the time. The first record of the file is a header.\<close>

definition utmpx32 :: layout where
  "utmpx32 = [(''User'', i8s_f 256), (''Id'', i8s_f 4), (''Line'', i8s_f 32), (''Pid'', i32_f), (''Type'', i16_f), (''_'', bytes_f 2), (''Tv.Sec'', i32_f),
     (''Tv.Usec'', i32_f), (''Host'', i8s_f 256), (''Pad'', u32s_f 16)]"

definition utmpx32_user :: "struct \<Rightarrow> user_stat" where
  "utmpx32_user u = \<lparr>u_User = IntToString (arr_of u ''User''), u_Terminal = IntToString (arr_of u ''Line''), u_Host = IntToString (arr_of u ''Host''),
     u_Started = val_of u ''Tv.Sec''\<rparr>"

definition darwin_UsersWithContext :: "host \<Rightarrow> user_stat list result" where
  "darwin_UsersWithContext h = rbind (ReadFile h ''/var/run/utmpx'') (\<lambda>buf.
     if length buf < layout_size utmpx32 then Panic
     else Ok (map utmpx32_user (filter (\<lambda>u. val_of u ''Type'' = 7) (table_entries le_decode utmpx32 (drop (layout_size utmpx32) buf)))))"

definition darwin_PlatformInformationWithContext :: "host \<Rightarrow> bsd \<Rightarrow> (string \<times> string \<times> string) result" where
  "darwin_PlatformInformationWithContext h sys =
     (let platform = to_lower (sys_str sys ''kern.ostype'');
          pver = (case h_command h ''sw_vers'' [''-productVersion''] of (out, None) \<Rightarrow> to_lower (trim_space out) | _ \<Rightarrow> []);
          family = (case h_stat h ''/System/Library/CoreServices/ServerVersion.plist'' of
             Inl e \<Rightarrow> if is_not_exist e then ''Standalone Workstation'' else ''Server'' | Inr _ \<Rightarrow> ''Server'')
      in Ok (platform, family, pver))"

definition darwin_KernelVersionWithContext :: "bsd \<Rightarrow> string result" where
  "darwin_KernelVersionWithContext sys = rbind (of_sum (bs_str sys ''kern.osrelease'')) (\<lambda>version. Ok (to_lower version))"

definition nbsd_PlatformInformationWithContext :: "bsd \<Rightarrow> (string \<times> string \<times> string) result" where
  "nbsd_PlatformInformationWithContext sys = Ok (to_lower (sys_str sys ''kern.ostype''), [], to_lower (sys_str sys ''kern.osrelease''))"

definition nbsd_KernelVersionWithContext :: "bsd \<Rightarrow> string result" where
  "nbsd_KernelVersionWithContext sys = rbind (nbsd_PlatformInformationWithContext sys) (\<lambda>(_, _, version). Ok version)"

section \<open>Mounts\<close>

definition darwin_opts :: "(string \<times> string) list" where
  "darwin_opts = [(''MNT_SYNCHRONOUS'', ''sync''), (''MNT_NOEXEC'', ''noexec''), (''MNT_NOSUID'', ''nosuid''), (''MNT_UNION'', ''union''), (''MNT_ASYNC'', ''async''),
     (''MNT_DONTBROWSE'', ''nobrowse''), (''MNT_AUTOMOUNTED'', ''automounted''), (''MNT_JOURNALED'', ''journaled''), (''MNT_MULTILABEL'', ''multilabel''),
     (''MNT_NOATIME'', ''noatime''), (''MNT_NODEV'', ''nodev''), (''MNT_LOCAL'', ''local''), (''MNT_CPROTECT'', ''protect'')]"

text \<open>The second call tells how many entries it has filled; the slice is cut there.\<close>

definition darwin_PartitionsWithContext :: "gerr + nat \<Rightarrow> (nat \<Rightarrow> gerr + (nat \<times> bsd_statfs list)) \<Rightarrow> partition_stat list result" where
  "darwin_PartitionsWithContext mounted fsstat = rbind (of_sum mounted) (\<lambda>n. rbind (of_sum (fsstat n)) (\<lambda>(filled, fs).
     if length fs < filled then Panic else Ok (map (bsd_partition ''ro'' darwin_opts) (take filled fs))))"

section \<open>Reading back\<close>

lemma uuid_split:
  assumes "CHR ''='' \<notin> set a" and "CHR ''='' \<notin> set b"
  shows "split_str uuid_sep cur b = [rev cur @ b]" and "split_str uuid_sep cur (a @ uuid_sep @ b) = [rev cur @ a, b]"
proof -
  have 1: "split_str uuid_sep cur b = [rev cur @ b]" if "CHR ''='' \<notin> set b" for b cur
    using that
  proof (induction b arbitrary: cur)
    case (Cons x b)
    have "\<not> prefix uuid_sep (x # b)" using Cons.prems by (auto simp: uuid_sep_def prefix_def)
    with Cons show ?case by (simp add: split_str.simps [of _ cur "x # b"])
  qed (simp add: split_str.simps)
  show "split_str uuid_sep cur b = [rev cur @ b]" using assms(2) by (rule 1)
  show "split_str uuid_sep cur (a @ uuid_sep @ b) = [rev cur @ a, b]"
    using assms(1)
  proof (induction a arbitrary: cur)
    case Nil
    show ?case using 1 [OF assms(2), of "[]"] by (simp add: split_str.simps [of _ cur] uuid_sep_def)
  next
    case (Cons x a)
    have "\<not> prefix uuid_sep (x # a @ uuid_sep @ b)"
      using Cons.prems by (cases a; cases "tl a") (auto simp: uuid_sep_def)
    with Cons show ?case by (simp add: split_str.simps [of _ cur "x # a @ _"])
  qed
qed

text \<open>The identifier that \<^verbatim>\<open>ioreg\<close> prints is found whatever lines surround it, and returned in lower case.\<close>

lemma darwin_HostID_found:
  assumes "h_command h ''ioreg'' [''-rd1'', ''-c'', ''IOPlatformExpertDevice''] =
      (join [nl] (before @ [indent @ [CHR 0x22] @ ''IOPlatformUUID'' @ uuid_sep @ uuid @ [CHR 0x22]] @ after), None)"
    and "list_all (\<lambda>l. \<not> str_contains l ''IOPlatformUUID'') before" and "list_all (\<lambda>l. nl \<notin> set l) (before @ [indent, uuid] @ after)"
    and "CHR ''='' \<notin> set indent" and "list_all (\<lambda>c. c \<noteq> CHR ''='' \<and> c \<noteq> CHR 0x22) uuid"
  shows "darwin_HostIDWithContext h = Ok (to_lower uuid)"
proof -
  let ?a = "indent @ [CHR 0x22] @ ''IOPlatformUUID''" and ?b = "uuid @ [CHR 0x22]"
  let ?line = "indent @ [CHR 0x22] @ ''IOPlatformUUID'' @ uuid_sep @ uuid @ [CHR 0x22]"
  have "CHR ''='' \<notin> set ?a" "CHR ''='' \<notin> set ?b" using assms(4,5) by (auto simp: list_all_iff)
  from uuid_split(2) [OF this, of "[]"] have "split_str uuid_sep [] ?line = [?a, ?b]" by simp
  moreover have "sublist ''IOPlatformUUID'' ?line"
    unfolding sublist_def by (rule exI [of _ "indent @ [CHR 0x22]"], rule exI [of _ "uuid_sep @ ?b"]) simp
  moreover have "trim_right_set [CHR 0x22] ?b = uuid"
    using assms(5) by (cases uuid rule: rev_cases) (auto simp: trim_right_set_def)
  ultimately have l: "uuid_line ?line = Some (to_lower uuid)" by (simp add: uuid_line_def str_contains_def)
  have "split_char nl (join [nl] (before @ [?line] @ after)) = before @ [?line] @ after"
    using assms(3) by (intro split_char_join) (auto simp: list_all_iff uuid_sep_def)
  moreover have "List.map_filter uuid_line (before @ [?line] @ after) = to_lower uuid # List.map_filter uuid_line after"
    using assms(2) l by (induction before) (simp_all add: List.map_filter_simps uuid_line_def [of "hd _"] uuid_line_def)
  ultimately show ?thesis using assms(1) by (simp add: darwin_HostIDWithContext_def run_command_def)
qed

lemma utmpx32_size [simp]: "layout_size utmpx32 = 628" "widths_pos utmpx32"
  by (simp_all add: utmpx32_def widths_pos_def le_field_defs field_size_def)

text \<open>The users reported on Darwin are exactly the user processes in the bytes of \<^verbatim>\<open>utmpx\<close> behind the header, in order.\<close>

lemma darwin_Users_roundtrip:
  assumes "list_all (has_layout utmpx32) us" and "length header = 628" and "length rest < 628"
    and "h_open h ''/var/run/utmpx'' = Inr (header @ concat (map (le_encode utmpx32) us) @ rest, None)"
  shows "darwin_UsersWithContext h = Ok (map utmpx32_user (filter (\<lambda>u. val_of u ''Type'' = 7) us))"
proof -
  have "table_entries le_decode utmpx32 (concat (map (le_encode utmpx32) us) @ rest) = us"
    using assms(1,3) le_decode_encode [of utmpx32 _ "[]"]
    by (intro table_entries_roundtrip) (auto simp: list_all_iff length_le_encode)
  with assms(2,4) show ?thesis by (simp add: darwin_UsersWithContext_def ReadFile_def)
qed

lemma darwin_Users_empty_file: "h_open h ''/var/run/utmpx'' = Inr ([], None) \<Longrightarrow> darwin_UsersWithContext h = Panic"
  by (simp add: darwin_UsersWithContext_def ReadFile_def)

text \<open>A mount is reported read-only exactly when its flag says so, unlike on OpenBSD and NetBSD.\<close>

lemma darwin_read_only:
  assumes "darwin_PartitionsWithContext (Inr n) fsstat = Ok ps" and "fsstat n = Inr (k, fs)"
  shows "map (\<lambda>p. ''ro'' \<in> set (pt_Opts p)) ps = map (\<lambda>s. bf_flag s ''MNT_RDONLY'') (take k fs)"
proof -
  have "ps = map (bsd_partition ''ro'' darwin_opts) (take k fs)"
    using assms by (simp add: darwin_PartitionsWithContext_def split: if_splits)
  moreover have "''ro'' \<in> set (pt_Opts (bsd_partition ''ro'' darwin_opts s)) \<longleftrightarrow> bf_flag s ''MNT_RDONLY''" for s
    by (auto simp: bsd_partition_def mount_opts_def darwin_opts_def)
  ultimately show ?thesis by simp
qed

end
