(* ===== verification/Process_Solaris.thy ===== *)
theory Process_Solaris
  imports Process_Api
begin

text \<open>
  Package \<^verbatim>\<open>process\<close> on Solaris (\<^verbatim>\<open>process_solaris.go\<close>): what is read from the text files and links under \<^verbatim>\<open>/proc\<close>. Operations that only return
  \<^verbatim>\<open>ErrNotImplementedError\<close> have no definition; so a process has no start time there.
\<close>

definition solaris_pidsWithContext :: "host \<Rightarrow> int list result" where
  "solaris_pidsWithContext h = readPidsFromDir h (HostProcWithContext h [])"

definition solaris_PidsWithContext :: "host \<Rightarrow> int list result" where
  "solaris_PidsWithContext h = rbind (solaris_pidsWithContext h) (\<lambda>pids. Ok (sort pids))"

definition solaris_NewProcessWithContext :: "proc_env \<Rightarrow> int \<Rightarrow> (process \<times> gerr option) result" where
  "solaris_NewProcessWithContext env pid = (let p = new_process pid in
     case PidExistsWithContext env pid of
       Err e \<Rightarrow> Ok (p, Some e)
     | Panic \<Rightarrow> Panic
     | Ok False \<Rightarrow> Ok (p, Some ErrProcessNotRunning)
     | Ok True \<Rightarrow> Ok (p\<lparr>p_createTime := 0\<rparr>, None))"

definition solaris_new_process :: "proc_env \<Rightarrow> int \<Rightarrow> process list \<Rightarrow> process list result" where
  "solaris_new_process env pid out = rbind (solaris_NewProcessWithContext env pid) (\<lambda>(p, err). Ok (if err = None then out @ [p] else out))"

definition solaris_ProcessesWithContext :: "proc_env \<Rightarrow> process list result" where
  "solaris_ProcessesWithContext env = rbind (solaris_PidsWithContext (pe_host env)) (\<lambda>pids. rfold (solaris_new_process env) pids [])"

definition solaris_fillFromPathAOutWithContext :: "host \<Rightarrow> process \<Rightarrow> string result" where
  "solaris_fillFromPathAOutWithContext h p = of_sum (h_readlink h (proc_file h (p_Pid p) [''path'', ''a.out'']))"

definition solaris_fillFromExecnameWithContext :: "host \<Rightarrow> process \<Rightarrow> string result" where
  "solaris_fillFromExecnameWithContext h p = ReadFile h (proc_file h (p_Pid p) [''execname''])"

definition solaris_ExeWithContext :: "host \<Rightarrow> process \<Rightarrow> string result" where
  "solaris_ExeWithContext h p = (case solaris_fillFromPathAOutWithContext h p of
     Err e \<Rightarrow> if is_not_exist e then solaris_fillFromExecnameWithContext h p else Err e | r \<Rightarrow> r)"

definition solaris_CwdWithContext :: "host \<Rightarrow> process \<Rightarrow> string result" where
  "solaris_CwdWithContext h p = of_sum (h_readlink h (proc_file h (p_Pid p) [''path'', ''cwd'']))"

definition solaris_fillFromCmdlineWithContext :: "host \<Rightarrow> process \<Rightarrow> string result" where
  "solaris_fillFromCmdlineWithContext h p = rbind (ReadFile h (proc_file h (p_Pid p) [''cmdline''])) (\<lambda>cmdline.
     Ok (join '' '' (fields_func (\<lambda>ch. ch = CHR 0x00) [] cmdline)))"

text \<open>One zero byte is taken from the end.\<close>

definition solaris_fillSliceFromCmdlineWithContext :: "host \<Rightarrow> process \<Rightarrow> string list result" where
  "solaris_fillSliceFromCmdlineWithContext h p = rbind (ReadFile h (proc_file h (p_Pid p) [''cmdline''])) (\<lambda>cmdline.
     if cmdline = [] then Ok []
     else Ok (split_char (CHR 0x00) (if last cmdline = CHR 0x00 then butlast cmdline else cmdline)))"

definition solaris_fillFromfdListWithContext :: "host \<Rightarrow> process \<Rightarrow> string \<times> string list \<times> gerr option" where
  "solaris_fillFromfdListWithContext h p = (let statPath = proc_file h (p_Pid p) [''fd''] in
     case h_readdir h statPath of Inl e \<Rightarrow> (statPath, [], Some e) | Inr fnames \<Rightarrow> (statPath, fnames, None))"

definition solaris_NumFDsWithContext :: "host \<Rightarrow> process \<Rightarrow> int \<times> gerr option" where
  "solaris_NumFDsWithContext h p = (case solaris_fillFromfdListWithContext h p of (_, fnames, err) \<Rightarrow> (to_i32 (int (length fnames)), err))"

text \<open>Every command line is read back with all of its arguments, also empty ones at the end, which the reader of Linux loses.\<close>

theorem solaris_cmdline_roundtrip:
  assumes "ReadFile h (proc_file h (p_Pid p) [''cmdline'']) = Ok (argv_text argv)" and "list_all (\<lambda>a. CHR 0x00 \<notin> set a) argv"
  shows "solaris_fillSliceFromCmdlineWithContext h p = Ok argv \<and>
    solaris_fillFromCmdlineWithContext h p = Ok (join '' '' (filter (\<lambda>a. a \<noteq> []) argv))"
proof -
  have "fields_func (\<lambda>ch. ch = CHR 0x00) [] (argv_text argv) = filter (\<lambda>a. a \<noteq> []) argv"
    using assms(2) by (intro fields_func_argv) (simp add: list_all_iff)
  moreover have "solaris_fillSliceFromCmdlineWithContext h p = Ok argv"
  proof (cases "argv = []")
    case False
    then have "split_char (CHR 0x00) (join [CHR 0x00] argv) = argv" using assms(2) by (intro split_char_join) (auto simp: list_all_iff)
    with False assms(1) show ?thesis by (simp add: solaris_fillSliceFromCmdlineWithContext_def argv_text_join)
  qed (use assms(1) in \<open>simp add: solaris_fillSliceFromCmdlineWithContext_def argv_text_def\<close>)
  ultimately show ?thesis using assms(1) by (simp add: solaris_fillFromCmdlineWithContext_def)
qed

text \<open>The processes listed are those of \<^verbatim>\<open>/proc\<close> that exist, in ascending order.\<close>

lemma solaris_processes:
  assumes "solaris_ProcessesWithContext env = Ok ps" and "solaris_PidsWithContext (pe_host env) = Ok pids"
  shows "map p_Pid ps = filter (\<lambda>pid. PidExistsWithContext env pid = Ok True) pids \<and> sorted (map p_Pid ps)"
proof -
  have "map p_Pid ps = map p_Pid out @ filter (\<lambda>pid. PidExistsWithContext env pid = Ok True) qs"
    if "rfold (solaris_new_process env) qs out = Ok ps" for qs out
    using that
  proof (induction qs arbitrary: out)
    case (Cons q qs)
    then show ?case
      by (cases "PidExistsWithContext env q")
        (force simp: solaris_new_process_def solaris_NewProcessWithContext_def new_process_def outcome_iff Let_def split: bool.splits)+
  qed simp
  from this [of pids "[]"] assms have m: "map p_Pid ps = filter (\<lambda>pid. PidExistsWithContext env pid = Ok True) pids"
    by (simp add: solaris_ProcessesWithContext_def)
  moreover have "sorted pids" using assms(2) by (auto simp: solaris_PidsWithContext_def outcome_iff)
  ultimately show ?thesis by (simp add: sorted_wrt_filter)
qed

end
