(* ===== verification/Net_Windows.thy ===== *)
theory Net_Windows
  imports Net_Bsd Sysctl_Bsd
begin

text \<open>
  Package \<^verbatim>\<open>net\<close> on Windows (\<^verbatim>\<open>net_windows.go\<close>): interface counters, and the tables of sockets with their owners, which the system writes into a buffer of
  the caller. The tables may grow between two calls, so the code calls again with a larger buffer. Operations that only return
  \<^verbatim>\<open>ErrNotImplementedError\<close> have no definition.
\<close>

section \<open>Kinds of sockets\<close>

abbreviation win_AF_INET6 :: u32 where "win_AF_INET6 \<equiv> 23"

definition win_kindTCP4 :: net_kind where
  "win_kindTCP4 = \<lparr>k_family = AF_INET, k_sockType = SOCK_STREAM, k_filename = ''tcp''\<rparr>"

definition win_kindTCP6 :: net_kind where
  "win_kindTCP6 = \<lparr>k_family = win_AF_INET6, k_sockType = SOCK_STREAM, k_filename = ''tcp6''\<rparr>"

definition win_kindUDP4 :: net_kind where
  "win_kindUDP4 = \<lparr>k_family = AF_INET, k_sockType = SOCK_DGRAM, k_filename = ''udp''\<rparr>"

definition win_kindUDP6 :: net_kind where
  "win_kindUDP6 = \<lparr>k_family = win_AF_INET6, k_sockType = SOCK_DGRAM, k_filename = ''udp6''\<rparr>"

definition win_netConnectionKindMap :: "(string \<times> net_kind list) list" where
  "win_netConnectionKindMap =
     [(''all'', [win_kindTCP4, win_kindTCP6, win_kindUDP4, win_kindUDP6]), (''tcp'', [win_kindTCP4, win_kindTCP6]), (''tcp4'', [win_kindTCP4]),
      (''tcp6'', [win_kindTCP6]), (''udp'', [win_kindUDP4, win_kindUDP6]), (''udp4'', [win_kindUDP4]), (''udp6'', [win_kindUDP6]),
      (''inet'', [win_kindTCP4, win_kindTCP6, win_kindUDP4, win_kindUDP6]), (''inet4'', [win_kindTCP4, win_kindUDP4]), (''inet6'', [win_kindTCP6, win_kindUDP6])]"

section \<open>Rows\<close>

definition mibTCPRowOwnerPid :: layout where
  "mibTCPRowOwnerPid = [(''DwState'', u32_f), (''DwLocalAddr'', u32_f), (''DwLocalPort'', u32_f), (''DwRemoteAddr'', u32_f), (''DwRemotePort'', u32_f),
     (''DwOwningPid'', u32_f)]"

definition mibTCP6RowOwnerPid :: layout where
  "mibTCP6RowOwnerPid = [(''UcLocalAddr'', bytes_f 16), (''DwLocalScopeId'', u32_f), (''DwLocalPort'', u32_f), (''UcRemoteAddr'', bytes_f 16),
     (''DwRemoteScopeId'', u32_f), (''DwRemotePort'', u32_f), (''DwState'', u32_f), (''DwOwningPid'', u32_f)]"

definition mibUDPRowOwnerPid :: layout where
  "mibUDPRowOwnerPid = [(''DwLocalAddr'', u32_f), (''DwLocalPort'', u32_f), (''DwOwningPid'', u32_f)]"

definition mibUDP6RowOwnerPid :: layout where
  "mibUDP6RowOwnerPid = [(''UcLocalAddr'', bytes_f 16), (''DwLocalScopeId'', u32_f), (''DwLocalPort'', u32_f), (''DwOwningPid'', u32_f)]"

definition win_tcpStatuses :: "(int \<times> string) list" where
  "win_tcpStatuses = [(1, ''CLOSED''), (2, ''LISTEN''), (3, ''SYN_SENT''), (4, ''SYN_RECEIVED''), (5, ''ESTABLISHED''), (6, ''FIN_WAIT_1''), (7, ''FIN_WAIT_2''),
     (8, ''CLOSE_WAIT''), (9, ''CLOSING''), (10, ''LAST_ACK''), (11, ''TIME_WAIT''), (12, ''DELETE'')]"

text \<open>The low 16 bits are a number in network order.\<close>

definition decodePort :: "int \<Rightarrow> u32" where
  "decodePort port = word_of_int ((port mod 256) * 256 + (port div 256) mod 256)"

definition parseIPv4HexString :: "int \<Rightarrow> string" where
  "parseIPv4HexString a = fmt_nat (nat (a mod 256)) @ ''.'' @ fmt_nat (nat (a div 2 ^ 8 mod 256)) @ ''.'' @ fmt_nat (nat (a div 2 ^ 16 mod 256)) @ ''.'' @
     fmt_nat (nat (a div 2 ^ 24 mod 256))"

definition win_parseIPv6HexString :: "int list \<Rightarrow> string" where
  "win_parseIPv6HexString a = ip_string (map word_of_int a)"

definition win_addr :: "string \<Rightarrow> int \<Rightarrow> addr" where
  "win_addr ip port = \<lparr>a_IP = ip, a_Port = decodePort port\<rparr>"

definition win_conn :: "net_kind \<Rightarrow> addr \<Rightarrow> addr \<Rightarrow> string \<Rightarrow> struct \<Rightarrow> connection_stat" where
  "win_conn kind l r status m = \<lparr>cs_Fd = 0, cs_Family = k_family kind, cs_Type = k_sockType kind, cs_Laddr = l, cs_Raddr = r, cs_Status = status,
     cs_Uids = [], cs_Pid = to_i32 (val_of m ''DwOwningPid'')\<rparr>"

definition win_status :: "struct \<Rightarrow> string" where
  "win_status m = (case map_of win_tcpStatuses (to_i32 (val_of m ''DwState'')) of Some s \<Rightarrow> s | None \<Rightarrow> [])"

definition tcp4_conn :: "struct \<Rightarrow> connection_stat" where
  "tcp4_conn m = win_conn win_kindTCP4 (win_addr (parseIPv4HexString (val_of m ''DwLocalAddr'')) (val_of m ''DwLocalPort''))
     (win_addr (parseIPv4HexString (val_of m ''DwRemoteAddr'')) (val_of m ''DwRemotePort'')) (win_status m) m"

definition tcp6_conn :: "struct \<Rightarrow> connection_stat" where
  "tcp6_conn m = win_conn win_kindTCP6 (win_addr (win_parseIPv6HexString (arr_of m ''UcLocalAddr'')) (val_of m ''DwLocalPort''))
     (win_addr (win_parseIPv6HexString (arr_of m ''UcRemoteAddr'')) (val_of m ''DwRemotePort'')) (win_status m) m"

definition udp4_conn :: "struct \<Rightarrow> connection_stat" where
  "udp4_conn m = win_conn win_kindUDP4 (win_addr (parseIPv4HexString (val_of m ''DwLocalAddr'')) (val_of m ''DwLocalPort'')) no_addr [] m"

definition udp6_conn :: "struct \<Rightarrow> connection_stat" where
  "udp6_conn m = win_conn win_kindUDP6 (win_addr (win_parseIPv6HexString (arr_of m ''UcLocalAddr'')) (val_of m ''DwLocalPort'')) no_addr [] m"

section \<open>Tables\<close>

text \<open>A call of \<^verbatim>\<open>GetExtendedTcpTable\<close> or \<^verbatim>\<open>GetExtendedUdpTable\<close>: the number of the attempt, the length of the buffer, if one is given, and the size that
  the caller announces; its error code, the size it announces in return and the bytes that it writes.\<close>

type_synonym win_table = "nat \<Rightarrow> nat option \<Rightarrow> u32 \<Rightarrow> nat \<times> u32 \<times> string"

definition overwrite :: "string \<Rightarrow> string \<Rightarrow> string" where
  "overwrite b d = take (length b) d @ drop (length d) b"

text \<open>The slice \<open>buf\<close> and the memory \<open>tbl\<close> that the table pointer points to: they are the same unless \<open>buf\<close> is empty. The pointer is only set for a
  \<open>known\<close> family.\<close>

function table_retry :: "string \<Rightarrow> bool \<Rightarrow> win_table \<Rightarrow> nat \<Rightarrow> string \<Rightarrow> string option \<Rightarrow> u32 \<Rightarrow> (string \<times> string option) result" where
  "table_retry name known api retry buf tbl sz =
     (if 10 \<le> retry then Ok (buf, tbl)
      else let p = (if known then if buf \<noteq> [] then Some buf else tbl else None) in
        case api retry (map_option length p) sz of (err, sz', d) \<Rightarrow>
          let p' = map_option (\<lambda>b. overwrite b d) p; buf' = (if known \<and> buf \<noteq> [] then overwrite buf d else buf) in
          if err = 0 then Ok (buf', p')
          else if err \<noteq> 122 then Err (Errno err)
          else if retry = 9 then Err (ErrMsg (name @ '': failed to allocate sufficient buffer after 10 retries''))
          else table_retry name known api (Suc retry) (replicate (unat (sz' + 4096)) (CHR 0x00)) p' (sz' + 4096))"
  by pat_completeness auto
termination
  by (relation "measure (\<lambda>(_, _, _, retry, _). 10 - retry)") auto

declare table_retry.simps [simp del]

text \<open>The number of entries is read through the table pointer, which must not be nil; the rows are read through pointers into the slice.\<close>

definition win_rows :: "(nat \<Rightarrow> char) \<Rightarrow> layout \<Rightarrow> (struct \<Rightarrow> connection_stat) \<Rightarrow> string \<times> string option \<Rightarrow> connection_stat list result" where
  "win_rows after fs conv = (\<lambda>(buf, tbl). case tbl of None \<Rightarrow> Panic
     | Some t \<Rightarrow> rbind (unsafe_view after [(''v'', u32_f)] t) (\<lambda>hd.
         map_result (\<lambda>i. rbind (unsafe_view after fs (drop (4 + i * layout_size fs) buf)) (\<lambda>m. Ok (conv m))) [0..<nat (val_of hd ''v'')]))"

definition win_connections :: "string \<Rightarrow> (nat \<Rightarrow> char) \<Rightarrow> win_table \<Rightarrow> layout \<Rightarrow> (struct \<Rightarrow> connection_stat) \<Rightarrow> connection_stat list result" where
  "win_connections name after api fs conv = rbind (table_retry name True api 0 [] None 0) (win_rows after fs conv)"

record win_net =
  wn_tcp :: "u32 \<Rightarrow> win_table"
  wn_udp :: "u32 \<Rightarrow> win_table"
  wn_after :: "nat \<Rightarrow> char"
  wn_interfaces :: "gerr + (string \<times> int) list"
  wn_ifentry2 :: "(int \<Rightarrow> nat \<times> string \<times> gerr) option"
  wn_ifentry :: "int \<Rightarrow> gerr + (string \<Rightarrow> u32)"

text \<open>For another family the pointer stays nil and no row is read.\<close>

definition getTCPConnections :: "win_net \<Rightarrow> u32 \<Rightarrow> connection_stat list result" where
  "getTCPConnections env family =
     (if family = 0 then Err (ErrMsg ''faimly must be required'')
      else if family = k_family win_kindTCP4 then win_connections ''GetExtendedTcpTable'' (wn_after env) (wn_tcp env family) mibTCPRowOwnerPid tcp4_conn
      else if family = k_family win_kindTCP6 then win_connections ''GetExtendedTcpTable'' (wn_after env) (wn_tcp env family) mibTCP6RowOwnerPid tcp6_conn
      else rbind (table_retry ''GetExtendedTcpTable'' False (wn_tcp env family) 0 [] None 0) (\<lambda>_. Ok []))"

definition getUDPConnections :: "win_net \<Rightarrow> u32 \<Rightarrow> connection_stat list result" where
  "getUDPConnections env family =
     (if family = 0 then Err (ErrMsg ''faimly must be required'')
      else if family = k_family win_kindUDP4 then win_connections ''GetExtendedUdpTable'' (wn_after env) (wn_udp env family) mibUDPRowOwnerPid udp4_conn
      else if family = k_family win_kindUDP6 then win_connections ''GetExtendedUdpTable'' (wn_after env) (wn_udp env family) mibUDP6RowOwnerPid udp6_conn
      else rbind (table_retry ''GetExtendedUdpTable'' False (wn_udp env family) 0 [] None 0) (\<lambda>_. Ok []))"

definition getNetStatWithKind :: "win_net \<Rightarrow> net_kind \<Rightarrow> connection_stat list result" where
  "getNetStatWithKind env kind = (let f = k_filename kind in
     if f = [] then Err (ErrMsg ''kind filename must be required'')
     else if f = k_filename win_kindTCP4 then getTCPConnections env (k_family win_kindTCP4)
     else if f = k_filename win_kindTCP6 then getTCPConnections env (k_family win_kindTCP6)
     else if f = k_filename win_kindUDP4 then getUDPConnections env (k_family win_kindUDP4)
     else if f = k_filename win_kindUDP6 then getUDPConnections env (k_family win_kindUDP6)
     else Err (ErrMsg (''invalid kind filename, '' @ f)))"

text \<open>A table that cannot be read is left out.\<close>

definition getProcInet :: "win_net \<Rightarrow> net_kind list \<Rightarrow> int \<Rightarrow> connection_stat list result" where
  "getProcInet env kinds pid = rfold (\<lambda>kind stats. case getNetStatWithKind env kind of
       Ok s \<Rightarrow> Ok (stats @ (if pid = 0 then s else filter (\<lambda>ns. cs_Pid ns = pid) s)) | Err _ \<Rightarrow> Ok stats | Panic \<Rightarrow> Panic) kinds []"

definition win_ConnectionsPidWithContext :: "win_net \<Rightarrow> string \<Rightarrow> int \<Rightarrow> connection_stat list result" where
  "win_ConnectionsPidWithContext env kind pid = (case map_of win_netConnectionKindMap kind of
     None \<Rightarrow> Err (ErrMsg (''invalid kind, '' @ kind)) | Some tmap \<Rightarrow> getProcInet env tmap pid)"

definition win_ConnectionsWithContext :: "win_net \<Rightarrow> string \<Rightarrow> connection_stat list result" where
  "win_ConnectionsWithContext env kind = win_ConnectionsPidWithContext env kind 0"

section \<open>Interface counters\<close>

definition u16s_f :: "nat \<Rightarrow> field_ty" where
  "u16s_f n = \<lparr>ft_signed = False, ft_width = 2, ft_count = n\<rparr>"

definition guid :: layout where
  "guid = [(''Data1'', u32_f), (''Data2'', u16_f), (''Data3'', u16_f), (''Data4'', bytes_f 8)]"

definition mibIfRow2 :: layout where
  "mibIfRow2 = [(''InterfaceLuid'', u64_f), (''InterfaceIndex'', u32_f)] @ nested ''InterfaceGuid'' guid @ [(''Alias'', u16s_f 257), (''Description'', u16s_f 257),
     (''PhysicalAddressLength'', u32_f), (''PhysicalAddress'', bytes_f 32), (''PermanentPhysicalAddress'', bytes_f 32), (''Mtu'', u32_f), (''Type'', u32_f),
     (''TunnelType'', u32_f), (''MediaType'', u32_f), (''PhysicalMediumType'', u32_f), (''AccessType'', u32_f), (''DirectionType'', u32_f),
     (''InterfaceAndOperStatusFlags'', u32_f), (''OperStatus'', u32_f), (''AdminStatus'', u32_f), (''MediaConnectState'', u32_f)] @ nested ''NetworkGuid'' guid @
     [(''ConnectionType'', u32_f), (''_'', bytes_f 4), (''TransmitLinkSpeed'', u64_f), (''ReceiveLinkSpeed'', u64_f), (''InOctets'', u64_f), (''InUcastPkts'', u64_f),
     (''InNUcastPkts'', u64_f), (''InDiscards'', u64_f), (''InErrors'', u64_f), (''InUnknownProtos'', u64_f), (''InUcastOctets'', u64_f), (''InMulticastOctets'', u64_f),
     (''InBroadcastOctets'', u64_f), (''OutOctets'', u64_f), (''OutUcastPkts'', u64_f), (''OutNUcastPkts'', u64_f), (''OutDiscards'', u64_f), (''OutErrors'', u64_f),
     (''OutUcastOctets'', u64_f), (''OutMulticastOctets'', u64_f), (''OutBroadcastOctets'', u64_f), (''OutQLen'', u64_f)]"

definition win_io :: "string \<Rightarrow> (string \<Rightarrow> u64) \<Rightarrow> io_counters_stat" where
  "win_io name row = (zero_io name)\<lparr>io_BytesSent := row ''OutOctets'', io_BytesRecv := row ''InOctets'', io_PacketsSent := row ''OutUcastPkts'',
     io_PacketsRecv := row ''InUcastPkts'', io_Errin := row ''InErrors'', io_Errout := row ''OutErrors'', io_Dropin := row ''InDiscards'', io_Dropout := row ''OutDiscards''\<rparr>"

definition win_interface :: "win_net \<Rightarrow> string \<times> int \<Rightarrow> io_counters_stat result" where
  "win_interface env = (\<lambda>(name, index). case wn_ifentry2 env of
     Some entry2 \<Rightarrow> (case entry2 index of (ret, d, err) \<Rightarrow>
       if ret \<noteq> 0 then Err (ErrWrap ''GetIfEntry2'' err)
       else let row = le_decode mibIfRow2 (sys_buffer (layout_size mibIfRow2) d) in Ok (win_io name (\<lambda>f. word_of_int (val_of row f))))
   | None \<Rightarrow> (case wn_ifentry env index of
       Inl err \<Rightarrow> Err (ErrWrap ''GetIfEntry'' err)
     | Inr row \<Rightarrow> Ok (win_io name (\<lambda>f. ucast (row f)))))"

definition win_IOCountersWithContext :: "win_net \<Rightarrow> bool \<Rightarrow> io_counters_stat list result" where
  "win_IOCountersWithContext env pernic = rbind (of_sum (wn_interfaces env)) (\<lambda>ifs. rbind (map_result (win_interface env) ifs) (\<lambda>counters.
     Ok (if pernic then counters else getIOCountersAll counters)))"

section \<open>Tables are read back\<close>

text \<open>The bytes of a table, and a system that keeps to the documentation: the table at each attempt is written when the size that the caller announces
  is enough, otherwise the size that is needed is reported. The table may be another one at each attempt.\<close>

definition table_bytes :: "layout \<Rightarrow> struct list \<Rightarrow> string" where
  "table_bytes fs rows = le_encode [(''v'', u32_f)] [(''v'', [int (length rows)])] @ concat (map (le_encode fs) rows)"

definition table_api :: "(nat \<Rightarrow> string) \<Rightarrow> win_table" where
  "table_api tabs k p sz = (if p \<noteq> None \<and> length (tabs k) \<le> unat sz then (0, word_of_nat (length (tabs k)), tabs k)
     else (122, word_of_nat (length (tabs k)), []))"

text \<open>The first attempt at which the table has grown by no more than the reserve since the attempt before.\<close>

definition fits_at :: "(nat \<Rightarrow> string) \<Rightarrow> nat \<Rightarrow> bool" where
  "fits_at tabs k \<longleftrightarrow> length (tabs k) \<le> length (tabs (k - 1)) + 4096"

lemma table_retry_api:
  assumes "\<And>k. length (tabs k) + 4096 < 2 ^ 32" and "1 \<le> k" and "k \<le> 9"
  shows "table_retry name True (table_api tabs) k (replicate (length (tabs (k - 1)) + 4096) (CHR 0x00)) tbl (word_of_nat (length (tabs (k - 1)) + 4096)) =
    (case find (fits_at tabs) [k..<10] of
       Some j \<Rightarrow> let b = overwrite (replicate (length (tabs (j - 1)) + 4096) (CHR 0x00)) (tabs j) in Ok (b, Some b)
     | None \<Rightarrow> Err (ErrMsg (name @ '': failed to allocate sufficient buffer after 10 retries'')))"
  using assms(2,3)
proof (induction "9 - k" arbitrary: k tbl)
  case 0
  then have k: "k = 9" by simp
  have u: "unat (word_of_nat (length (tabs 8) + 4096) :: u32) = length (tabs 8) + 4096"
    using assms(1) [of 8] by (intro unat_u32_length) simp
  show ?case unfolding k
    using u by (subst table_retry.simps) (simp add: table_api_def fits_at_def Let_def)
next
  case (Suc n)
  have u: "unat (word_of_nat (length (tabs (k - 1)) + 4096) :: u32) = length (tabs (k - 1)) + 4096"
    using assms(1) [of "k - 1"] by (intro unat_u32_length) simp
  have u': "unat (word_of_nat (length (tabs k)) + 4096 :: u32) = length (tabs k) + 4096"
    using assms(1) [of k] unat_u32_length [of "length (tabs k) + 4096"] by simp
  have upt: "[k..<10] = k # [Suc k..<10]" using Suc.hyps(2) by (simp add: upt_conv_Cons)
  have "k \<le> 8" using Suc.hyps(2) by simp
  then show ?case
    using Suc.hyps(1) [of "Suc k"] Suc.hyps(2) u u'
    by (subst table_retry.simps) (simp add: table_api_def fits_at_def upt Let_def)
qed

text \<open>A kind of table: its rows have bytes, and every row of the system is decoded.\<close>

locale owner_table =
  fixes fs :: layout and conv :: "struct \<Rightarrow> connection_stat"
  assumes row_bytes: "0 < layout_size fs" and row_widths: "widths_pos fs"
begin

lemma rows_value:
  assumes "list_all (has_layout fs) rows" and "length rows < 2 ^ 32" and "buf = table_bytes fs rows @ rest"
  shows "win_rows after fs conv (buf, Some buf) = Ok (map conv rows)"
proof -
  let ?hd = "[(''v'', [int (length rows)])]" and ?z = "layout_size fs"
  note w = le_word [OF assms(2)]
  have "unsafe_view after [(''v'', u32_f)] buf = Ok ?hd"
    unfolding assms(3) table_bytes_def append_assoc
    by (rule unsafe_view_encode [OF _ w(1)]) (simp_all add: widths_pos_def field_ty_defs field_size_def)
  moreover have "val_of ?hd ''v'' = int (length rows)" by (simp add: val_of_def arr_of_def)
  moreover have "unsafe_view after fs (drop (4 + i * ?z) buf) = Ok (rows ! i)" if i: "i < length rows" for i
  proof -
    have "drop (4 + i * ?z) buf = drop (i * ?z) (concat (map (le_encode fs) rows) @ rest)"
      unfolding assms(3) table_bytes_def using w(2) by simp
    then have "drop (4 + i * ?z) buf = le_encode fs (rows ! i) @ concat (map (le_encode fs) (drop (Suc i) rows)) @ rest"
      by (simp only: drop_rows [OF assms(1) i])
    moreover have "has_layout fs (rows ! i)" using assms(1) i by (simp add: list_all_length)
    ultimately show ?thesis using row_bytes row_widths by (simp add: unsafe_view_encode)
  qed
  then have "map_result (\<lambda>i. rbind (unsafe_view after fs (drop (4 + i * ?z) buf)) (\<lambda>m. Ok (conv m))) [0..<length rows] = Ok (map (\<lambda>i. conv (rows ! i)) [0..<length rows])"
    by (intro map_result_map) simp
  moreover have "map (\<lambda>i. conv (rows ! i)) [0..<length rows] = map conv rows" by (intro nth_equalityI) simp_all
  ultimately show ?thesis by (simp add: win_rows_def)
qed

lemma connections_value:
  assumes "\<And>k. list_all (has_layout fs) (rows k)" and "\<And>k. length (table_bytes fs (rows k)) + 4096 < 2 ^ 32"
  shows "win_connections name after (table_api (\<lambda>k. table_bytes fs (rows k))) fs conv =
    (case find (fits_at (\<lambda>k. table_bytes fs (rows k))) [1..<10] of Some k \<Rightarrow> Ok (map conv (rows k))
     | None \<Rightarrow> Err (ErrMsg (name @ '': failed to allocate sufficient buffer after 10 retries'')))"
proof -
  let ?tabs = "\<lambda>k. table_bytes fs (rows k)"
  have small: "length (rows k) < 2 ^ 32" for k
  proof -
    have "length (rows k) \<le> length (rows k) * layout_size fs" using row_bytes by simp
    also have "\<dots> < 2 ^ 32" using length_rows [OF assms(1) [of k]] assms(2) [of k] by (simp add: table_bytes_def)
    finally show ?thesis .
  qed
  have u: "unat (word_of_nat (length (?tabs 0)) + 4096 :: u32) = length (?tabs 0) + 4096"
    using assms(2) [of 0] unat_u32_length [of "length (?tabs 0) + 4096"] by simp
  have "table_retry name True (table_api ?tabs) 0 [] None 0 =
      table_retry name True (table_api ?tabs) 1 (replicate (length (?tabs 0) + 4096) (CHR 0x00)) None (word_of_nat (length (?tabs 0) + 4096))"
    by (subst table_retry.simps) (simp add: table_api_def u)
  also have "\<dots> = (case find (fits_at ?tabs) [1..<10] of
       Some j \<Rightarrow> let b = overwrite (replicate (length (?tabs (j - 1)) + 4096) (CHR 0x00)) (?tabs j) in Ok (b, Some b)
     | None \<Rightarrow> Err (ErrMsg (name @ '': failed to allocate sufficient buffer after 10 retries'')))"
    using table_retry_api [of ?tabs 1 name None] assms(2) by simp
  finally have t: "table_retry name True (table_api ?tabs) 0 [] None 0 = \<dots>" .
  show ?thesis
  proof (cases "find (fits_at ?tabs) [1..<10]")
    case None
    then show ?thesis unfolding win_connections_def t by simp
  next
    case (Some j)
    then have "fits_at ?tabs j" by (auto simp: find_Some_iff)
    then have "overwrite (replicate (length (?tabs (j - 1)) + 4096) (CHR 0x00)) (?tabs j) =
        ?tabs j @ replicate (length (?tabs (j - 1)) + 4096 - length (?tabs j)) (CHR 0x00)"
      by (simp add: overwrite_def fits_at_def)
    with Some show ?thesis unfolding win_connections_def t by (simp add: Let_def rows_value [OF assms(1) small])
  qed
qed

end

lemmas win_row_defs = mibTCPRowOwnerPid_def mibTCP6RowOwnerPid_def mibUDPRowOwnerPid_def mibUDP6RowOwnerPid_def

interpretation tcp4: owner_table mibTCPRowOwnerPid tcp4_conn
  by unfold_locales (simp_all add: win_row_defs widths_pos_def field_ty_defs field_size_def)

interpretation tcp6: owner_table mibTCP6RowOwnerPid tcp6_conn
  by unfold_locales (simp_all add: win_row_defs widths_pos_def field_ty_defs field_size_def)

interpretation udp4: owner_table mibUDPRowOwnerPid udp4_conn
  by unfold_locales (simp_all add: win_row_defs widths_pos_def field_ty_defs field_size_def)

interpretation udp6: owner_table mibUDP6RowOwnerPid udp6_conn
  by unfold_locales (simp_all add: win_row_defs widths_pos_def field_ty_defs field_size_def)

text \<open>C28: However the table of TCP sockets changes between the calls, the sockets reported are exactly those of one table, that of the first call which the
  announced buffer can hold, in order; when the table outgrows ten buffers, there is an error and never a part of a table.\<close>

theorem win_tcp_tables:
  assumes "\<And>k. list_all (has_layout mibTCPRowOwnerPid) (rows k)" and "\<And>k. length (table_bytes mibTCPRowOwnerPid (rows k)) + 4096 < 2 ^ 32"
    and "wn_tcp env AF_INET = table_api (\<lambda>k. table_bytes mibTCPRowOwnerPid (rows k))"
  shows "getTCPConnections env AF_INET =
    (case find (fits_at (\<lambda>k. table_bytes mibTCPRowOwnerPid (rows k))) [1..<10] of Some k \<Rightarrow> Ok (map tcp4_conn (rows k))
     | None \<Rightarrow> Err (ErrMsg ''GetExtendedTcpTable: failed to allocate sufficient buffer after 10 retries''))"
  unfolding getTCPConnections_def assms(3)
  using tcp4.connections_value [of rows, where name = "''GetExtendedTcpTable''" and after = "wn_after env"] assms(1,2)
  by (simp add: win_kindTCP4_def cong: option.case_cong)

definition smb_row :: struct where
  "smb_row = [(''DwState'', [2]), (''DwLocalAddr'', [0x0100007F]), (''DwLocalPort'', [0xBD01]), (''DwRemoteAddr'', [0]), (''DwRemotePort'', [0]), (''DwOwningPid'', [4])]"

definition smb_env :: win_net where
  "smb_env = \<lparr>wn_tcp = (\<lambda>_. table_api (\<lambda>_. table_bytes mibTCPRowOwnerPid [smb_row])), wn_udp = (\<lambda>_ _ _ _. (0, 0, [])), wn_after = (\<lambda>_. CHR 0x00),
     wn_interfaces = Inr [], wn_ifentry2 = None, wn_ifentry = (\<lambda>_. Inl ENOENT)\<rparr>"

theorem win_tcp_tables_witness:
  "getTCPConnections smb_env AF_INET = Ok [\<lparr>cs_Fd = 0, cs_Family = 2, cs_Type = 1, cs_Laddr = \<lparr>a_IP = ''127.0.0.1'', a_Port = 445\<rparr>,
     cs_Raddr = \<lparr>a_IP = ''0.0.0.0'', a_Port = 0\<rparr>, cs_Status = ''LISTEN'', cs_Uids = [], cs_Pid = 4\<rparr>]"
proof -
  have ok: "has_layout mibTCPRowOwnerPid smb_row"
    by (simp add: has_layout_def smb_row_def win_row_defs field_ok_def field_ty_defs in_width_def)
  have len: "length (table_bytes mibTCPRowOwnerPid [smb_row]) = 28"
    using le_word(2) [of 1] length_le_encode [OF ok] by (simp add: table_bytes_def win_row_defs field_ty_defs field_size_def)
  have ip: "parseIPv4HexString 0x0100007F = ''127.0.0.1''" "parseIPv4HexString 0 = ''0.0.0.0''" by code_simp+
  have "tcp4_conn smb_row = \<lparr>cs_Fd = 0, cs_Family = 2, cs_Type = 1, cs_Laddr = \<lparr>a_IP = ''127.0.0.1'', a_Port = 445\<rparr>,
     cs_Raddr = \<lparr>a_IP = ''0.0.0.0'', a_Port = 0\<rparr>, cs_Status = ''LISTEN'', cs_Uids = [], cs_Pid = 4\<rparr>"
    by (simp add: tcp4_conn_def win_conn_def smb_row_def val_of_def arr_of_def win_addr_def win_kindTCP4_def win_status_def win_tcpStatuses_def
        ip decodePort_def wrap_signed_id)
  moreover have "find (fits_at (\<lambda>_. table_bytes mibTCPRowOwnerPid [smb_row])) [1..<10] = Some 1"
    by (simp add: fits_at_def upt_conv_Cons)
  ultimately show ?thesis
    using win_tcp_tables [of "\<lambda>_. [smb_row]" smb_env] ok len by (simp add: smb_env_def)
qed

text \<open>The connections of a process are exactly those among all connections of the kind that have its number, in order.\<close>

theorem win_connections_of_pid:
  "win_ConnectionsPidWithContext env kind pid =
    (if pid = 0 then win_ConnectionsWithContext env kind
     else rbind (win_ConnectionsWithContext env kind) (\<lambda>conns. Ok (filter (\<lambda>c. cs_Pid c = pid) conns)))"
proof (cases "pid = 0")
  case False
  let ?step = "\<lambda>pid kind stats. case getNetStatWithKind env kind of
       Ok s \<Rightarrow> Ok (stats @ (if pid = 0 then s else filter (\<lambda>ns. cs_Pid ns = pid) s)) | Err _ \<Rightarrow> Ok stats | Panic \<Rightarrow> Panic"
  have "rfold (?step pid) kinds (filter (\<lambda>c. cs_Pid c = pid) stats) = rbind (rfold (?step 0) kinds stats) (\<lambda>conns. Ok (filter (\<lambda>c. cs_Pid c = pid) conns))"
    for kinds stats
  proof (induction kinds arbitrary: stats)
    case (Cons k kinds)
    then show ?case using False by (cases "getNetStatWithKind env k") (simp_all flip: filter_append)
  qed simp
  from this [of _ "[]"] False show ?thesis
    by (simp add: win_ConnectionsPidWithContext_def win_ConnectionsWithContext_def getProcInet_def split: option.splits)
qed (simp add: win_ConnectionsWithContext_def)

text \<open>A system that accepts a call without a buffer makes the code read through a nil pointer.\<close>

lemma win_nil_table: "wn_tcp env AF_INET 0 None 0 = (0, n, d) \<Longrightarrow> getTCPConnections env AF_INET = Panic"
  by (simp add: getTCPConnections_def win_kindTCP4_def win_connections_def table_retry.simps win_rows_def)

end
