(* ===== verification/Cpu_Windows.thy ===== *)
theory Cpu_Windows
  imports System_Bsd
begin

text \<open>
  Package \<^verbatim>\<open>cpu\<close> on Windows (\<^verbatim>\<open>cpu_windows.go\<close>): times of all processor groups, the firmware table (SMBIOS) with the family and the identifier of the
  processor, the packages and cores of the machine, and their frequencies. What the system functions return and write into their buffers is the
  environment \<open>win_cpu\<close>.
\<close>

section \<open>Structures and system functions\<close>

definition win32_SystemProcessorPerformanceInformation :: layout where
  "win32_SystemProcessorPerformanceInformation = [(''IdleTime'', i64_f), (''KernelTime'', i64_f), (''UserTime'', i64_f), (''DpcTime'', i64_f),
     (''InterruptTime'', i64_f), (''InterruptCount'', u64_f)]"

definition win32_SystemProcessorPerformanceInfoSize :: nat where
  "win32_SystemProcessorPerformanceInfoSize = 48"

definition processorPowerInformation :: layout where
  "processorPowerInformation = [(''number'', u32_f), (''maxMhz'', u32_f), (''currentMhz'', u32_f), (''mhzLimit'', u32_f), (''maxIdleState'', u32_f),
     (''currentIdleState'', u32_f)]"

definition groupAffinity :: layout where
  "groupAffinity = [(''mask'', u64_f), (''group'', u16_f), (''reserved'', \<lparr>ft_signed = False, ft_width = 2, ft_count = 3\<rparr>)]"

definition processorRelationship :: layout where
  "processorRelationship = [(''flags'', u8_f), (''efficientClass'', u8_f), (''reserved'', bytes_f 20), (''groupCount'', u16_f)] @ nested ''groupMask'' groupAffinity"

definition systemLogicalProcessorInformationEx :: layout where
  "systemLogicalProcessorInformationEx = [(''relationship'', u32_f), (''size'', u32_f)] @ nested ''processor'' processorRelationship"

text \<open>A call gives its return value, the size that it reports, the bytes that it writes and its error value, as far as it has them. \<open>wc_ex\<close> tells whether
  the functions for all groups were found; \<open>wc_nt\<close> is the error of finding the older one. A registry key gives its string values.\<close>

record win_cpu =
  wc_ex :: bool
  wc_nt :: "gerr option"
  wc_query :: "nat \<Rightarrow> nat \<times> u32 \<times> string \<times> gerr"
  wc_groups :: "u64 \<times> gerr"
  wc_active :: "nat \<Rightarrow> u32"
  wc_query_ex :: "nat \<Rightarrow> nat \<Rightarrow> nat \<times> u32 \<times> string \<times> gerr"
  wc_times :: "bool \<times> (u32 \<times> u32) \<times> (u32 \<times> u32) \<times> (u32 \<times> u32) \<times> gerr"
  wc_native :: "u32 \<times> gerr"
  wc_power :: "nat \<Rightarrow> nat \<times> string \<times> gerr"
  wc_firmware :: "nat option \<Rightarrow> nat \<times> string \<times> gerr"
  wc_relations :: "nat \<Rightarrow> nat option \<Rightarrow> bool \<times> u32 \<times> string \<times> gerr"
  wc_registry :: "string \<Rightarrow> (string \<Rightarrow> gerr + string) option"
  wc_after :: "nat \<Rightarrow> char"

section \<open>Times\<close>

text \<open>The entries that fill the first \<open>n\<close> places of a buffer.\<close>

definition perf_entries :: "nat \<Rightarrow> string \<Rightarrow> struct list" where
  "perf_entries n d = (let z = win32_SystemProcessorPerformanceInfoSize in
     map (\<lambda>i. le_decode win32_SystemProcessorPerformanceInformation (drop (i * z) (sys_buffer (n * z) d))) [0..<n])"

definition perfInfoSingleGroup :: "win_cpu \<Rightarrow> struct list result" where
  "perfInfoSingleGroup env = (let maxBuffer = 2056 in
     case wc_query env (win32_SystemProcessorPerformanceInfoSize * maxBuffer) of (retCode, retSize, d, err) \<Rightarrow>
       if retCode \<noteq> 0 then Err (ErrWrap (''call to NtQuerySystemInformation returned 0x'' @ fmt_hex retCode) err)
       else let n = unat retSize div win32_SystemProcessorPerformanceInfoSize in
         if maxBuffer < n then Panic else Ok (take n (perf_entries maxBuffer d)))"

definition group_entries :: "win_cpu \<Rightarrow> nat \<Rightarrow> struct list \<Rightarrow> struct list result" where
  "group_entries env g res = (let numLP = unat (wc_active env g); bufSize = win32_SystemProcessorPerformanceInfoSize * numLP in
     if numLP = 0 then Err (ErrMsg (''GetActiveProcessorCount returned 0 for processor group '' @ fmt_nat g))
     else case wc_query_ex env g bufSize of (retCode, retSize, d, err) \<Rightarrow>
       if retCode \<noteq> 0 then Err (ErrWrap (''call to NtQuerySystemInformationEx(group='' @ fmt_nat g @ '') returned 0x'' @ fmt_hex retCode) err)
       else if unat retSize mod win32_SystemProcessorPerformanceInfoSize \<noteq> 0 \<or> bufSize < unat retSize
       then Err (ErrMsg (''NtQuerySystemInformationEx(group='' @ fmt_nat g @ '') returned unexpected retSize='' @ fmt_nat (unat retSize) @ '' (bufSize='' @
         fmt_nat bufSize @ '')''))
       else Ok (res @ take (unat retSize div win32_SystemProcessorPerformanceInfoSize) (perf_entries numLP d)))"

text \<open>The number of groups is cut to 16 bits.\<close>

definition perfInfoAllGroups :: "win_cpu \<Rightarrow> struct list result" where
  "perfInfoAllGroups env = (case wc_groups env of (r, callErr) \<Rightarrow>
     if r = 0 then Err (ErrWrap ''GetActiveProcessorGroupCount returned 0'' callErr)
     else rfold (group_entries env) [0..<unat r mod 2 ^ 16] [])"

definition perfInfo :: "win_cpu \<Rightarrow> struct list result" where
  "perfInfo env = (if wc_ex env then perfInfoAllGroups env
     else case wc_nt env of Some e \<Rightarrow> Err e | None \<Rightarrow> perfInfoSingleGroup env)"

definition win_times :: "string \<Rightarrow> float64 \<Rightarrow> float64 \<Rightarrow> float64 \<Rightarrow> float64 \<Rightarrow> times_stat" where
  "win_times name user sys idle irq = \<lparr>t_CPU = name, t_User = user / Fin 10000000, t_System = sys / Fin 10000000, t_Idle = idle / Fin 10000000, t_Nice = 0,
     t_Iowait = 0, t_Irq = irq / Fin 10000000, t_Softirq = 0, t_Steal = 0, t_Guest = 0, t_GuestNice = 0\<rparr>"

definition filetime :: "u32 \<times> u32 \<Rightarrow> u64" where
  "filetime = (\<lambda>(high, low). or (push_bit 32 (ucast high)) (ucast low))"

definition systemTimes :: "win_cpu \<Rightarrow> times_stat list result" where
  "systemTimes env = (case wc_times env of (ok, lpIdle, lpKernel, lpUser, err) \<Rightarrow>
     if \<not> ok then Err err
     else let idle = filetime lpIdle; user = filetime lpUser; kernel = filetime lpKernel in
       Ok [(win_times ''cpu-total'' (f_of_u64 user) (f_of_u64 (kernel - idle)) (f_of_u64 idle) 0)\<lparr>t_Irq := 0\<rparr>])"

definition core_times :: "nat \<Rightarrow> struct \<Rightarrow> times_stat" where
  "core_times core v = win_times (''cpu'' @ fmt_nat core) (f_of_int (val_of v ''UserTime''))
     (f_of_int (to_i64 (val_of v ''KernelTime'' - val_of v ''IdleTime''))) (f_of_int (val_of v ''IdleTime'')) (f_of_int (val_of v ''InterruptTime''))"

definition sum_i64 :: "string \<Rightarrow> struct list \<Rightarrow> int" where
  "sum_i64 name stats = fold (\<lambda>v acc. to_i64 (acc + val_of v name)) stats 0"

definition win_TimesWithContext :: "win_cpu \<Rightarrow> bool \<Rightarrow> times_stat list result" where
  "win_TimesWithContext env percpu =
     (case rbind (perfInfo env) (\<lambda>stats. if stats = [] then Err (ErrMsg ''no processor performance information returned'') else Ok stats) of
        Panic \<Rightarrow> Panic
      | Err e \<Rightarrow> if percpu then Err e else systemTimes env
      | Ok stats \<Rightarrow>
          if percpu then Ok (map (\<lambda>(core, v). core_times core v) (zip [0..<length stats] stats))
          else let idle = sum_i64 ''IdleTime'' stats; kernel = sum_i64 ''KernelTime'' stats; user = sum_i64 ''UserTime'' stats;
                   interrupt = sum_i64 ''InterruptTime'' stats in
            Ok [win_times ''cpu-total'' (f_of_int user) (f_of_int (to_i64 (kernel - idle))) (f_of_int idle) (f_of_int interrupt)])"

section \<open>The firmware table\<close>

text \<open>The end of the strings of a structure: two zero bytes. \<open>inner\<close> counts the steps; the loop gives up after as many as the table has bytes.\<close>

function skip_strings :: "string \<Rightarrow> nat \<Rightarrow> nat \<Rightarrow> nat \<times> nat" where
  "skip_strings buf j inner =
     (if j + 1 < length buf \<and> inner < length buf
      then if buf ! j = CHR 0x00 \<and> buf ! (j + 1) = CHR 0x00 then (j + 2, inner + 1) else skip_strings buf (j + 1) (inner + 1)
      else (j, inner))"
  by pat_completeness auto
termination
  by (relation "measure (\<lambda>(buf, j, inner). length buf - inner)") auto

declare skip_strings.simps [simp del]

definition hex8 :: "nat \<Rightarrow> string" where
  "hex8 n = map (\<lambda>k. HEX_digit (n div 16 ^ k mod 16)) [7, 6, 5, 4, 3, 2, 1, 0]"

definition le_u32 :: "string \<Rightarrow> nat" where
  "le_u32 b = of_char (b ! 0) + of_char (b ! 1) * 2 ^ 8 + of_char (b ! 2) * 2 ^ 16 + of_char (b ! 3) * 2 ^ 24"

definition smbios_processor :: "string \<Rightarrow> nat \<Rightarrow> u8 \<times> string" where
  "smbios_processor buf i = (let procIdBytes = take 8 (drop (i + 8) buf); eax = le_u32 procIdBytes; edx = le_u32 (drop 4 procIdBytes) in
     (of_char (buf ! (i + 6)), hex8 edx @ hex8 eax))"

definition is_processor :: "string \<Rightarrow> nat \<Rightarrow> bool" where
  "is_processor buf i \<longleftrightarrow> buf ! i = CHR 0x04 \<and> 0x18 \<le> (of_char (buf ! (i + 1)) :: nat) \<and> i + of_char (buf ! (i + 1)) \<le> length buf"

function smbios_loop :: "string \<Rightarrow> nat \<Rightarrow> nat \<Rightarrow> (u8 \<times> string) option" where
  "smbios_loop buf i iterations =
     (if i < length buf \<and> iterations < length buf * 2
      then if length buf < i + 4 then None
        else if buf ! i = CHR 0x7F then None
        else if is_processor buf i then (if length buf < i + 16 then None else Some (smbios_processor buf i))
        else (case skip_strings buf (i + of_char (buf ! (i + 1))) 0 of (j, inner) \<Rightarrow>
          if length buf \<le> inner then None else smbios_loop buf j (iterations + 1))
      else None)"
  by pat_completeness auto
termination
  by (relation "measure (\<lambda>(buf, i, iterations). length buf * 2 - iterations)") auto

declare smbios_loop.simps [simp del]

definition getSMBIOSProcessorInfo :: "win_cpu \<Rightarrow> (u8 \<times> string) result" where
  "getSMBIOSProcessorInfo env = (case wc_firmware env None of (sz, _, err) \<Rightarrow>
     if sz = 0 then Err (ErrWrap ''failed to get SMBIOS table size'' err)
     else case wc_firmware env (Some sz) of (ret, d, err) \<Rightarrow>
       if ret = 0 then Err (ErrWrap ''failed to read SMBIOS table'' err)
       else case smbios_loop (sys_buffer sz d) 8 0 of Some r \<Rightarrow> Ok r
         | None \<Rightarrow> Err (ErrWrap ''SMBIOS processor information not found'' (Errno 1168)))"

section \<open>Packages and cores\<close>

text \<open>A structure at an address inside or behind a buffer.\<close>

definition mem_view :: "(nat \<Rightarrow> char) \<Rightarrow> layout \<Rightarrow> string \<Rightarrow> nat \<Rightarrow> struct" where
  "mem_view after fs buf off = le_decode fs (map (\<lambda>i. if off + i < length buf then buf ! (off + i) else after (off + i - length buf)) [0..<layout_size fs])"

text \<open>Every structure tells its size; the loop does not end when that is 0.\<close>

partial_function (option) relations_loop :: "(nat \<Rightarrow> char) \<Rightarrow> string \<Rightarrow> nat \<Rightarrow> nat \<Rightarrow> struct list \<Rightarrow> struct list option" where
  [code]: "relations_loop after buf len off infos =
     (if off < len
      then let info = mem_view after systemLogicalProcessorInformationEx buf off in
        relations_loop after buf len (off + nat (val_of info ''size'')) (infos @ [info])
      else Some infos)"

definition getSystemLogicalProcessorInformationEx :: "win_cpu \<Rightarrow> nat \<Rightarrow> struct list result option" where
  "getSystemLogicalProcessorInformationEx env rel = (case wc_relations env rel None of (ok, len, _, err) \<Rightarrow>
     if \<not> ok \<and> err \<noteq> Errno 122 then Some (Err (ErrWrap ''failed to get buffer size'' err))
     else if len = 0 then Some (Err (ErrMsg ''failed to get buffer size: reported size is zero''))
     else case wc_relations env rel (Some (unat len)) of (ok', len', d, err') \<Rightarrow>
       if \<not> ok' then Some (Err (ErrWrap ''failed to get logical processor information'' err'))
       else map_option Ok (relations_loop (wc_after env) (sys_buffer (unat len) d) (unat len') 0 []))"

definition getPhysicalCoreCount :: "win_cpu \<Rightarrow> int result option" where
  "getPhysicalCoreCount env = map_option (\<lambda>r. rbind r (\<lambda>infos. Ok (int (length infos)))) (getSystemLogicalProcessorInformationEx env 0)"

text \<open>\<open>0xffff\<close> stands for all groups.\<close>

definition logicalCount :: "win_cpu \<Rightarrow> int result" where
  "logicalCount env = (let ret = wc_active env 0xffff in
     if ret \<noteq> 0 then Ok (uint ret) else case wc_native env of (n, err) \<Rightarrow> if n = 0 then Err err else Ok (uint n))"

definition win_CountsWithContext :: "win_cpu \<Rightarrow> bool \<Rightarrow> int result option" where
  "win_CountsWithContext env logical = (if logical then Some (logicalCount env) else getPhysicalCoreCount env)"

definition getProcessorPowerInformation :: "win_cpu \<Rightarrow> struct list result" where
  "getProcessorPowerInformation env = (case logicalCount env of
     Err e \<Rightarrow> Err (ErrWrap ''failed to get logical processor count'' e)
   | Panic \<Rightarrow> Panic
   | Ok numLP \<Rightarrow>
       if numLP \<le> 0 then Err (ErrMsg (''invalid logical processor count: '' @ itoa numLP))
       else let z = layout_size processorPowerInformation in
         case wc_power env (nat numLP * z) of (ppi, d, err) \<Rightarrow>
           if ppi \<noteq> 0 then Err (ErrWrap (''CallNtPowerInformation failed with code '' @ fmt_nat ppi) err)
           else Ok (map (\<lambda>i. le_decode processorPowerInformation (drop (i * z) (sys_buffer (nat numLP * z) d))) [0..<nat numLP]))"

text \<open>\<^verbatim>\<open>bits.TrailingZeros64\<close>, and the bits that are set in a mask, from the lowest.\<close>

definition TrailingZeros64 :: "u64 \<Rightarrow> nat" where
  "TrailingZeros64 m = length (takeWhile (\<lambda>i. \<not> bit m i) [0..<64])"

lemma clear_lowest_less: "m \<noteq> 0 \<Longrightarrow> unat (and m (m - 1)) < unat (m :: u64)"
proof -
  assume "m \<noteq> 0"
  have "and m (m - 1) \<le> m - 1" by (rule word_and_le1)
  moreover have "m - 1 < m" using \<open>m \<noteq> 0\<close> by (simp add: word_less_minus_mono_left measure_unat word_less_nat_alt)
  ultimately show ?thesis by (simp add: word_le_nat_alt word_less_nat_alt)
qed

function forEachSetBit64 :: "u64 \<Rightarrow> nat list" where
  "forEachSetBit64 m = (if m = 0 then [] else TrailingZeros64 m # forEachSetBit64 (and m (m - 1)))"
  by pat_completeness auto
termination
  by (relation "measure unat") (auto simp: clear_lowest_less)

declare forEachSetBit64.simps [simp del]

text \<open>\<^verbatim>\<open>unsafe.Sizeof\<close> of a product of type \<^verbatim>\<open>uintptr\<close> is the size of that type.\<close>

definition maxLogicalProcessorsPerGroup :: nat where
  "maxLogicalProcessorsPerGroup = 8"

definition globalLpl :: "nat \<Rightarrow> nat \<Rightarrow> nat" where
  "globalLpl g b = g * maxLogicalProcessorsPerGroup + b"

definition getRegistryStringValueIfUnset :: "(string \<Rightarrow> gerr + string) \<Rightarrow> string \<Rightarrow> string \<Rightarrow> string" where
  "getRegistryStringValueIfUnset key keyName value =
     (if value \<noteq> [] then value else case key keyName of Inr val \<Rightarrow> trim_space val | Inl _ \<Rightarrow> [])"

definition centralProcessorRegistryKey :: string where
  "centralProcessorRegistryKey = ''HARDWARE'' @ [CHR 0x5C] @ ''DESCRIPTION'' @ [CHR 0x5C] @ ''System'' @ [CHR 0x5C] @ ''CentralProcessor''"

text \<open>One logical processor of a package: the number of processors, the highest frequency, the model and the vendor so far.\<close>

definition package_bit :: "win_cpu \<Rightarrow> struct list \<Rightarrow> nat \<Rightarrow> nat \<Rightarrow> nat \<times> int \<times> string \<times> string \<Rightarrow> nat \<times> int \<times> string \<times> string" where
  "package_bit env ppis g b = (\<lambda>(cnt, maxMhz, model, vendorId).
     let l = globalLpl g b;
         (cnt, maxMhz) = (if l < length ppis then (cnt + 1, max maxMhz (val_of (ppis ! l) ''maxMhz'')) else (cnt, maxMhz))
     in case wc_registry env (centralProcessorRegistryKey @ [CHR 0x5C] @ fmt_nat l) of
          Some key \<Rightarrow> (cnt, maxMhz, getRegistryStringValueIfUnset key ''ProcessorNameString'' model,
            getRegistryStringValueIfUnset key ''VendorIdentifier'' vendorId)
        | None \<Rightarrow> (cnt, maxMhz, model, vendorId))"

definition package_info :: "win_cpu \<Rightarrow> struct list \<Rightarrow> u8 \<times> string \<Rightarrow> nat \<times> struct \<Rightarrow> info_stat" where
  "package_info env ppis = (\<lambda>(family, processorId) (i, pkg).
     case fold (package_bit env ppis (nat (val_of pkg ''processor.groupMask.group''))) (forEachSetBit64 (word_of_int (val_of pkg ''processor.groupMask.mask'')))
         (0, 0, [], []) of (cnt, maxMhz, model, vendorId) \<Rightarrow>
       zero_info\<lparr>i_CPU := to_i32 (int i), i_Family := fmt_nat (unat family), i_VendorID := vendorId, i_ModelName := model,
         i_Cores := to_i32 (int cnt), i_PhysicalID := processorId, i_Mhz := f_of_int maxMhz, i_Flags := []\<rparr>)"

definition win_InfoWithContext :: "win_cpu \<Rightarrow> info_stat list result option" where
  "win_InfoWithContext env = map_option (\<lambda>pkgs. case pkgs of
       Err e \<Rightarrow> Err (ErrWrap ''failed to get processor package information'' e)
     | Panic \<Rightarrow> Panic
     | Ok processorPackages \<Rightarrow> (case getProcessorPowerInformation env of
         Err e \<Rightarrow> Err (ErrWrap ''failed to get processor power information'' e)
       | Panic \<Rightarrow> Panic
       | Ok ppis \<Rightarrow> rbind (getSMBIOSProcessorInfo env) (\<lambda>smbios.
           Ok (map (package_info env ppis smbios) (zip [0..<length processorPackages] processorPackages)))))
     (getSystemLogicalProcessorInformationEx env 3)"

section \<open>The search in the firmware table\<close>

text \<open>The search without its two counters.\<close>

function after_strings :: "string \<Rightarrow> nat \<Rightarrow> nat" where
  "after_strings buf j =
     (if j + 1 < length buf then if buf ! j = CHR 0x00 \<and> buf ! (j + 1) = CHR 0x00 then j + 2 else after_strings buf (j + 1) else j)"
  by pat_completeness auto
termination
  by (relation "measure (\<lambda>(buf, j). length buf - j)") auto

declare after_strings.simps [simp del]

lemma after_strings_ge: "j \<le> after_strings buf j"
proof (induction buf j rule: after_strings.induct)
  case (1 buf j)
  then show ?case by (subst after_strings.simps) force
qed

lemma after_strings_less: "j + 1 < length buf \<Longrightarrow> j < after_strings buf j"
  using after_strings_ge [of "j + 1" buf] by (subst after_strings.simps) auto

function smbios_find :: "string \<Rightarrow> nat \<Rightarrow> (u8 \<times> string) option" where
  "smbios_find buf i =
     (if length buf < i + 4 \<or> buf ! i = CHR 0x7F then None
      else if is_processor buf i then (if length buf < i + 16 then None else Some (smbios_processor buf i))
      else smbios_find buf (after_strings buf (i + of_char (buf ! (i + 1)))))"
  by pat_completeness auto
termination
proof (relation "measure (\<lambda>(buf, i). length buf - i)")
  fix buf :: string and i
  let ?j = "i + of_char (buf ! (i + 1))"
  assume "\<not> (length buf < i + 4 \<or> buf ! i = CHR 0x7F)"
  then have "i < after_strings buf ?j"
    using after_strings_ge [of ?j buf] after_strings_less [of ?j buf] by (cases "of_char (buf ! (i + 1)) = (0 :: nat)") auto
  with \<open>\<not> (length buf < i + 4 \<or> buf ! i = CHR 0x7F)\<close>
  show "((buf, after_strings buf ?j), buf, i) \<in> measure (\<lambda>(buf, i). length buf - i)" by auto
qed simp

declare smbios_find.simps [simp del]

lemma smbios_step: "i + 4 \<le> length buf \<Longrightarrow> i < after_strings buf (i + of_char (buf ! (i + 1)))"
  using after_strings_ge [of "i + of_char (buf ! (i + 1))" buf] after_strings_less [of "i + of_char (buf ! (i + 1))" buf]
  by (cases "of_char (buf ! (i + 1)) = (0 :: nat)") auto

text \<open>The inner counter stays below the position and never stops the inner loop.\<close>

lemma skip_strings_counter:
  "inner < j \<Longrightarrow> inner < length buf \<Longrightarrow> \<exists>k < length buf. skip_strings buf j inner = (after_strings buf j, k)"
proof (induction buf j inner rule: skip_strings.induct)
  case (1 buf j inner)
  then show ?case by (subst skip_strings.simps, subst after_strings.simps) auto
qed

text \<open>Every round moves the position, so the outer counter stays below it as well.\<close>

lemma smbios_loop_counter: "iterations < i \<Longrightarrow> smbios_loop buf i iterations = smbios_find buf i"
proof (induction buf i iterations rule: smbios_loop.induct)
  case (1 buf i iterations)
  let ?j = "i + of_char (buf ! (i + 1))"
  show ?case
  proof (cases "i + 4 \<le> length buf \<and> buf ! i \<noteq> CHR 0x7F \<and> \<not> is_processor buf i")
    case True
    then obtain k where k: "k < length buf" "skip_strings buf ?j 0 = (after_strings buf ?j, k)"
      using skip_strings_counter [of 0 ?j buf] "1.prems" by (cases buf) auto
    have "iterations + 1 < after_strings buf ?j" using smbios_step [of i buf] True "1.prems" by linarith
    then have "smbios_loop buf (after_strings buf ?j) (iterations + 1) = smbios_find buf (after_strings buf ?j)"
      using True k "1.prems" by (intro "1.IH") auto
    then show ?thesis using True k "1.prems" by (subst smbios_loop.simps, subst smbios_find.simps) auto
  qed (use "1.prems" in \<open>subst smbios_loop.simps, subst smbios_find.simps, auto\<close>)
qed

text \<open>A table: every structure has its number, its formatted bytes and strings, with the two zero bytes that end them.\<close>

record smbios =
  sm_type :: nat
  sm_body :: string
  sm_strings :: string

definition smbios_bytes :: "smbios \<Rightarrow> string" where
  "smbios_bytes s = [char_of (sm_type s), char_of (length (sm_body s) + 2)] @ sm_body s @ sm_strings s @ [CHR 0x00, CHR 0x00]"

definition smbios_ok :: "smbios \<Rightarrow> bool" where
  "smbios_ok s \<longleftrightarrow> sm_type s < 256 \<and> 2 \<le> length (sm_body s) \<and> length (sm_body s) + 2 < 256 \<and>
     list_all (\<lambda>k. \<not> ((sm_strings s @ [CHR 0x00, CHR 0x00]) ! k = CHR 0x00 \<and> (sm_strings s @ [CHR 0x00, CHR 0x00]) ! (k + 1) = CHR 0x00))
       [0..<length (sm_strings s)]"

definition smbios_other :: "smbios \<Rightarrow> bool" where
  "smbios_other s \<longleftrightarrow> sm_type s \<noteq> 127 \<and> \<not> (sm_type s = 4 \<and> 22 \<le> length (sm_body s))"

lemma smbios_number:
  "n < 256 \<Longrightarrow> char_of (n :: nat) = CHR 0x04 \<longleftrightarrow> n = 4" "n < 256 \<Longrightarrow> char_of (n :: nat) = CHR 0x7F \<longleftrightarrow> n = 127"
  by (simp_all add: char_of_eq_iff take_bit_nat_eq_self)

lemma after_strings_scan:
  assumes "\<And>k. k < n \<Longrightarrow> \<not> (buf ! (j + k) = CHR 0x00 \<and> buf ! (j + k + 1) = CHR 0x00)" and "j + n + 1 < length buf"
    and "buf ! (j + n) = CHR 0x00" and "buf ! (j + n + 1) = CHR 0x00"
  shows "after_strings buf j = j + n + 2"
  using assms
proof (induction n arbitrary: j)
  case 0
  then show ?case by (subst after_strings.simps) simp
next
  case (Suc n)
  have "after_strings buf (j + 1) = (j + 1) + n + 2"
    using Suc.prems(1) [of "Suc _"] Suc.prems(2-4) by (intro Suc.IH) auto
  with Suc.prems(1) [of 0] Suc.prems(2) show ?case by (subst after_strings.simps) auto
qed

lemma smbios_skip:
  assumes "smbios_ok s" and "smbios_other s"
  shows "smbios_find (pre @ smbios_bytes s @ rest) (length pre) = smbios_find (pre @ smbios_bytes s @ rest) (length (pre @ smbios_bytes s))"
proof -
  let ?buf = "pre @ smbios_bytes s @ rest" and ?i = "length pre" and ?z = "sm_strings s @ [CHR 0x00, CHR 0x00]" and ?n = "length (sm_body s) + 2"
  have sz: "length (smbios_bytes s) = ?n + length (sm_strings s) + 2" by (simp add: smbios_bytes_def)
  have ty: "?buf ! ?i = char_of (sm_type s)" "?buf ! (?i + 1) = char_of ?n" by (simp_all add: smbios_bytes_def nth_append)
  then have le: "of_char (?buf ! (?i + 1)) = ?n" using assms(1) by (simp add: smbios_ok_def)
  have at: "?buf ! (?i + ?n + k) = ?z ! k" if "k < length ?z" for k
    using that by (auto simp: smbios_bytes_def nth_append nth_Cons' less_Suc_eq)
  have "after_strings ?buf (?i + ?n) = ?i + ?n + length (sm_strings s) + 2"
  proof (rule after_strings_scan)
    fix k assume "k < length (sm_strings s)"
    with assms(1) at [of k] at [of "k + 1"] show "\<not> (?buf ! (?i + ?n + k) = CHR 0x00 \<and> ?buf ! (?i + ?n + k + 1) = CHR 0x00)"
      by (auto simp: smbios_ok_def list_all_length simp del: append.simps)
  next
    show "?buf ! (?i + ?n + length (sm_strings s)) = CHR 0x00" using at [of "length (sm_strings s)"] by simp
    show "?buf ! (?i + ?n + length (sm_strings s) + 1) = CHR 0x00" using at [of "length (sm_strings s) + 1"] by (simp add: nth_append)
  qed (simp add: sz)
  moreover have "?buf ! ?i \<noteq> CHR 0x7F" "\<not> is_processor ?buf ?i"
    using assms le ty(1) by (auto simp: is_processor_def smbios_other_def smbios_ok_def smbios_number)
  ultimately show ?thesis using le sz by (subst smbios_find.simps) (simp add: algebra_simps)
qed

lemma smbios_skip_all:
  "list_all smbios_ok ss \<Longrightarrow> list_all smbios_other ss \<Longrightarrow>
   smbios_find (pre @ concat (map smbios_bytes ss) @ rest) (length pre) = smbios_find (pre @ concat (map smbios_bytes ss) @ rest) (length (pre @ concat (map smbios_bytes ss)))"
proof (induction ss arbitrary: pre)
  case (Cons s ss)
  show ?case using smbios_skip [of s pre "concat (map smbios_bytes ss) @ rest"] Cons.IH [of "pre @ smbios_bytes s"] Cons.prems by (simp add: add.assoc)
qed simp

lemma smbios_found:
  assumes "smbios_ok p" and "sm_type p = 4" and "22 \<le> length (sm_body p)"
  shows "smbios_find (pre @ smbios_bytes p @ rest) (length pre) =
    Some (of_char (sm_body p ! 4), hex8 (le_u32 (drop 10 (sm_body p))) @ hex8 (le_u32 (drop 6 (sm_body p))))"
proof -
  let ?buf = "pre @ smbios_bytes p @ rest" and ?i = "length pre" and ?b = "sm_body p"
  have at: "?buf ! (?i + 2 + k) = ?b ! k" if "k < length ?b" for k using that by (simp add: smbios_bytes_def nth_append)
  have ty: "?buf ! ?i = char_of (4 :: nat)" "?buf ! (?i + 1) = char_of (length ?b + 2)" using assms(2) by (simp_all add: smbios_bytes_def nth_append)
  have "is_processor ?buf ?i" unfolding is_processor_def ty using assms by (simp add: smbios_number smbios_ok_def) (simp add: smbios_bytes_def)
  moreover have "?buf ! ?i \<noteq> CHR 0x7F" using smbios_number(2) [of 4] ty(1) by simp
  moreover have "take 8 (drop (?i + 8) ?buf) = take 8 (drop 6 ?b)"
    using assms(3) at by (intro nth_equalityI) (simp_all add: smbios_bytes_def nth_append)
  moreover have "?buf ! (?i + 6) = ?b ! 4" using assms(3) by (simp add: smbios_bytes_def nth_append)
  ultimately show ?thesis using assms(3)
    by (subst smbios_find.simps) (simp add: smbios_processor_def le_u32_def Let_def smbios_bytes_def nth_append)
qed

text \<open>The table as the system hands it over: first its size, then its bytes.\<close>

definition firmware_api :: "string \<Rightarrow> nat option \<Rightarrow> nat \<times> string \<times> gerr" where
  "firmware_api t = (\<lambda>None \<Rightarrow> (length t, [], Errno 0) | Some n \<Rightarrow> (min n (length t), t, Errno 0))"

lemma getSMBIOSProcessorInfo_api:
  "t \<noteq> [] \<Longrightarrow> wc_firmware env = firmware_api t \<Longrightarrow> getSMBIOSProcessorInfo env =
    (case smbios_find t 8 of Some r \<Rightarrow> Ok r | None \<Rightarrow> Err (ErrWrap ''SMBIOS processor information not found'' (Errno 1168)))"
  by (simp add: getSMBIOSProcessorInfo_def firmware_api_def smbios_loop_counter)

text \<open>C24: In every well-formed firmware table, whatever structures and strings come before, the family and the identifier are those of the first processor structure, the
  identifier being the second word of its eight bytes followed by the first; no counter of the loops cuts the search short.\<close>

theorem smbios_first_processor:
  assumes "list_all smbios_ok (before @ [p])" and "list_all smbios_other before" and "sm_type p = 4" and "22 \<le> length (sm_body p)" and "length header = 8"
    and "wc_firmware env = firmware_api (header @ concat (map smbios_bytes before) @ smbios_bytes p @ rest)"
  shows "getSMBIOSProcessorInfo env = Ok (of_char (sm_body p ! 4), hex8 (le_u32 (drop 10 (sm_body p))) @ hex8 (le_u32 (drop 6 (sm_body p))))"
proof -
  let ?t = "header @ concat (map smbios_bytes before) @ smbios_bytes p @ rest"
  have "smbios_find ?t 8 = smbios_find ?t (length (header @ concat (map smbios_bytes before)))"
    using smbios_skip_all [of before header "smbios_bytes p @ rest"] assms(1,2,5) by simp
  also have "\<dots> = Some (of_char (sm_body p ! 4), hex8 (le_u32 (drop 10 (sm_body p))) @ hex8 (le_u32 (drop 6 (sm_body p))))"
    using smbios_found [of p "header @ concat (map smbios_bytes before)" rest] assms(1,3,4) by simp
  finally show ?thesis using assms(5) by (subst getSMBIOSProcessorInfo_api [OF _ assms(6)]) auto
qed

text \<open>A table without a processor: the search ends at the structure that ends the table, or at the end of the bytes.\<close>

lemma smbios_no_processor:
  assumes "list_all smbios_ok ss" and "list_all smbios_other ss" and "length header = 8"
    and "rest = [] \<or> hd rest = CHR 0x7F" and "wc_firmware env = firmware_api (header @ concat (map smbios_bytes ss) @ rest)"
  shows "getSMBIOSProcessorInfo env = Err (ErrWrap ''SMBIOS processor information not found'' (Errno 1168))"
proof -
  let ?t = "header @ concat (map smbios_bytes ss) @ rest"
  have "smbios_find ?t 8 = smbios_find ?t (length (header @ concat (map smbios_bytes ss)))"
    using smbios_skip_all [of ss header rest] assms(1-3) by simp
  also have "\<dots> = None" using assms(4) by (subst smbios_find.simps) (cases rest, auto simp: nth_append)
  finally show ?thesis using assms(3) by (subst getSMBIOSProcessorInfo_api [OF _ assms(5)]) auto
qed

section \<open>All groups of processors\<close>

lemma perf_layout: "widths_pos win32_SystemProcessorPerformanceInformation"
    "layout_size win32_SystemProcessorPerformanceInformation = win32_SystemProcessorPerformanceInfoSize"
  by (simp_all add: win32_SystemProcessorPerformanceInformation_def win32_SystemProcessorPerformanceInfoSize_def widths_pos_def field_ty_defs field_size_def)

abbreviation perf_bytes :: "struct list \<Rightarrow> string" where
  "perf_bytes rows \<equiv> concat (map (le_encode win32_SystemProcessorPerformanceInformation) rows)"

lemma perf_entries_bytes:
  assumes "list_all (has_layout win32_SystemProcessorPerformanceInformation) rows"
  shows "perf_entries (length rows) (perf_bytes rows) = rows"
proof -
  have "sys_buffer (length rows * win32_SystemProcessorPerformanceInfoSize) (perf_bytes rows) = perf_bytes rows @ []"
    using length_rows [OF assms] by (metis perf_layout(2) sys_buffer_full append_Nil2)
  then show ?thesis using le_decode_rows [OF perf_layout(1) assms, where rest = "[]"]
    by (intro nth_equalityI) (simp_all add: perf_entries_def perf_layout Let_def)
qed

text \<open>A system with several groups: \<open>gs ! g\<close> are the counters of the processors of group \<open>g\<close>.\<close>

definition groups_env :: "struct list list \<Rightarrow> win_cpu \<Rightarrow> bool" where
  "groups_env gs env \<longleftrightarrow> wc_ex env \<and> fst (wc_groups env) = of_nat (length gs) \<and>
     list_all (\<lambda>g. wc_active env g = of_nat (length (gs ! g)) \<and>
       wc_query_ex env g (48 * length (gs ! g)) = (0, of_nat (48 * length (gs ! g)), perf_bytes (gs ! g), Errno 0)) [0..<length gs]"

definition group_ok :: "struct list \<Rightarrow> bool" where
  "group_ok rows \<longleftrightarrow> rows \<noteq> [] \<and> 48 * length rows < 2 ^ 32 \<and> list_all (has_layout win32_SystemProcessorPerformanceInformation) rows"

lemma group_entries_value:
  assumes "groups_env gs env" and "list_all group_ok gs" and "g < length gs"
  shows "group_entries env g res = Ok (res @ gs ! g)"
proof -
  have ok: "group_ok (gs ! g)" using assms(2,3) by (simp add: list_all_length)
  let ?n = "length (gs ! g)"
  have "wc_active env g = of_nat ?n" "wc_query_ex env g (48 * ?n) = (0, of_nat (48 * ?n), perf_bytes (gs ! g), Errno 0)"
    using assms(1,3) by (simp_all add: groups_env_def list_all_length)
  moreover have "unat (of_nat ?n :: u32) = ?n" "unat (of_nat (48 * ?n) :: u32) = 48 * ?n"
    using ok unat_u32_length [of ?n] unat_u32_length [of "48 * ?n"] by (simp_all add: group_ok_def)
  moreover have "perf_entries ?n (perf_bytes (gs ! g)) = gs ! g" using ok perf_entries_bytes by (simp add: group_ok_def)
  ultimately show ?thesis using ok
    by (simp add: group_entries_def Let_def win32_SystemProcessorPerformanceInfoSize_def group_ok_def)
qed

lemma perfInfo_groups:
  assumes "groups_env gs env" and "list_all group_ok gs" and "gs \<noteq> []" and "length gs < 2 ^ 16"
  shows "perfInfo env = Ok (concat gs)"
proof -
  have "rfold (group_entries env) [0..<n] [] = Ok (concat (take n gs))" if "n \<le> length gs" for n
    using that group_entries_value [OF assms(1,2)] by (induction n) (simp_all add: rfold_append take_Suc_conv_app_nth)
  from this [of "length gs"] have "rfold (group_entries env) [0..<length gs] [] = Ok (concat gs)" by simp
  moreover obtain e where "wc_groups env = (of_nat (length gs), e)" using assms(1) by (cases "wc_groups env") (simp add: groups_env_def)
  moreover have "unat (of_nat (length gs) :: u64) = length gs" using assms(4) by (simp add: unat_of_nat)
  moreover from this have "(of_nat (length gs) :: u64) \<noteq> 0" using assms(3) by auto
  ultimately show ?thesis using assms(1,4) by (simp add: perfInfo_def perfInfoAllGroups_def groups_env_def)
qed

lemma wrap_signed_diff: "wrap_signed w (wrap_signed w a - wrap_signed w c) = wrap_signed w (a - c)"
  by (simp add: wrap_signed_def mod_simps algebra_simps)

lemma sum_i64_exact: "sum_i64 name stats = to_i64 (\<Sum>v\<leftarrow>stats. val_of v name)"
proof -
  have "fold (\<lambda>v acc. to_i64 (acc + val_of v name)) stats (to_i64 a) = to_i64 (a + (\<Sum>v\<leftarrow>stats. val_of v name))" for a
    by (induction stats arbitrary: a) (simp_all add: wrap_signed_add add.assoc)
  from this [of 0] show ?thesis by (simp add: sum_i64_def wrap_signed_def)
qed

text \<open>C29: On a machine with any number of groups, the processors of all groups are reported one after the other, and the total is their sum, exact up to the wrap
  of 64 bits.\<close>

theorem win_times_groups:
  assumes "groups_env gs env" and "list_all group_ok gs" and "gs \<noteq> []" and "length gs < 2 ^ 16"
  shows "win_TimesWithContext env percpu =
    (let stats = concat gs; S = (\<lambda>name. \<Sum>v\<leftarrow>stats. val_of v name) in
     Ok (if percpu then map (\<lambda>(core, v). core_times core v) (zip [0..<length stats] stats)
       else [win_times ''cpu-total'' (f_of_int (to_i64 (S ''UserTime''))) (f_of_int (to_i64 (S ''KernelTime'' - S ''IdleTime'')))
         (f_of_int (to_i64 (S ''IdleTime''))) (f_of_int (to_i64 (S ''InterruptTime'')))]))"
proof -
  have "concat gs \<noteq> []" using assms(2,3) by (cases gs) (auto simp: group_ok_def)
  then show ?thesis using perfInfo_groups [OF assms] by (auto simp: win_TimesWithContext_def sum_i64_exact wrap_signed_diff Let_def)
qed

section \<open>Structures of variable size\<close>

text \<open>Structures that tell their size, each with bytes behind the part that the code reads.\<close>

definition rel_bytes :: "struct \<times> string \<Rightarrow> string" where
  "rel_bytes = (\<lambda>(s, extra). le_encode systemLogicalProcessorInformationEx s @ extra)"

definition rel_ok :: "struct \<times> string \<Rightarrow> bool" where
  "rel_ok = (\<lambda>(s, extra). has_layout systemLogicalProcessorInformationEx s \<and>
     val_of s ''size'' = int (layout_size systemLogicalProcessorInformationEx + length extra))"

lemma rel_layout: "widths_pos systemLogicalProcessorInformationEx" "layout_size systemLogicalProcessorInformationEx = 48"
  by (simp_all add: systemLogicalProcessorInformationEx_def processorRelationship_def groupAffinity_def widths_pos_def field_ty_defs field_size_def nested_def)

lemma mem_view_encode:
  assumes "widths_pos fs" and "has_layout fs s"
  shows "mem_view after fs (pre @ le_encode fs s @ rest) (length pre) = s"
proof -
  have "map (\<lambda>i. if length pre + i < length (pre @ le_encode fs s @ rest) then (pre @ le_encode fs s @ rest) ! (length pre + i) else after (length pre + i - length (pre @ le_encode fs s @ rest)))
      [0..<layout_size fs] = le_encode fs s"
    using length_le_encode [OF assms(2)] by (intro nth_equalityI) (simp_all add: nth_append)
  then show ?thesis using le_decode_encode [OF assms, of "[]"] by (simp add: mem_view_def)
qed

lemma relations_loop_value:
  "list_all rel_ok rs \<Longrightarrow> relations_loop after (pre @ concat (map rel_bytes rs)) (length (pre @ concat (map rel_bytes rs))) (length pre) infos = Some (infos @ map fst rs)"
proof (induction rs arbitrary: pre infos)
  case Nil
  show ?case by (subst relations_loop.simps) simp
next
  case (Cons r rs)
  obtain s extra where r: "r = (s, extra)" by (cases r)
  let ?fs = systemLogicalProcessorInformationEx
  have ok: "has_layout ?fs s" "val_of s ''size'' = int (48 + length extra)" using Cons.prems by (simp_all add: r rel_ok_def rel_layout)
  have len: "length (rel_bytes r) = 48 + length extra" using length_le_encode [OF ok(1)] by (simp add: r rel_bytes_def rel_layout)
  have "mem_view after ?fs (pre @ le_encode ?fs s @ extra @ concat (map rel_bytes rs)) (length pre) = s" by (rule mem_view_encode [OF rel_layout(1) ok(1)])
  then have "mem_view after ?fs (pre @ concat (map rel_bytes (r # rs))) (length pre) = s" by (simp add: r rel_bytes_def)
  moreover have "relations_loop after ((pre @ rel_bytes r) @ concat (map rel_bytes rs)) (length ((pre @ rel_bytes r) @ concat (map rel_bytes rs)))
      (length (pre @ rel_bytes r)) (infos @ [s]) = Some ((infos @ [s]) @ map fst rs)"
    using Cons.prems by (intro Cons.IH) simp
  ultimately show ?case using len ok(2) by (subst relations_loop.simps) (simp add: r add.assoc nat_add_distrib)
qed

text \<open>A structure of size 0 keeps the loop at its place for ever.\<close>

lemma relations_loop_stuck:
  assumes "off < len" and "val_of (mem_view after systemLogicalProcessorInformationEx buf off) ''size'' = 0"
  shows "relations_loop after buf len off infos = None"
proof (rule ccontr)
  assume "relations_loop after buf len off infos \<noteq> None"
  then obtain r where "relations_loop after buf len off infos = Some r" by blast
  then have "\<not> (off < len \<and> val_of (mem_view after systemLogicalProcessorInformationEx buf off) ''size'' = 0)"
  proof (rule relations_loop.raw_induct [rotated, where P = "\<lambda>after buf len off infos r.
      \<not> (off < len \<and> val_of (mem_view after systemLogicalProcessorInformationEx buf off) ''size'' = 0)"], goal_cases)
    case (1 loop after buf len off infos r)
    then show ?case by (auto simp: Let_def split: if_splits)
  qed
  with assms show False by simp
qed

text \<open>A system that reports the size at the first call and the structures at the second.\<close>

definition relations_api :: "string \<Rightarrow> nat option \<Rightarrow> bool \<times> u32 \<times> string \<times> gerr" where
  "relations_api t = (\<lambda>None \<Rightarrow> (False, of_nat (length t), [], Errno 122) | Some n \<Rightarrow> (True, of_nat (length t), t, Errno 0))"

lemma relations_value:
  assumes "list_all rel_ok rs" and "rs \<noteq> []" and "length (concat (map rel_bytes rs)) < 2 ^ 32" and "wc_relations env rel = relations_api (concat (map rel_bytes rs))"
  shows "getSystemLogicalProcessorInformationEx env rel = Some (Ok (map fst rs))"
proof -
  let ?t = "concat (map rel_bytes rs)"
  have "le_encode systemLogicalProcessorInformationEx s \<noteq> []" if "has_layout systemLogicalProcessorInformationEx s" for s
    using length_le_encode [OF that] rel_layout(2) by auto
  then have "?t \<noteq> []" using assms(1,2) by (cases rs) (auto simp: rel_bytes_def rel_ok_def)
  moreover have u: "unat (of_nat (length ?t) :: u32) = length ?t" using assms(3) by (rule unat_u32_length)
  ultimately have "(of_nat (length ?t) :: u32) \<noteq> 0" by (metis length_0_conv unat_0)
  with u relations_loop_value [OF assms(1), of "wc_after env" "[]" "[]"] show ?thesis
    by (simp add: getSystemLogicalProcessorInformationEx_def assms(4) relations_api_def)
qed

text \<open>The number of cores is the number of structures for cores.\<close>

theorem win_physical_cores:
  assumes "list_all rel_ok rs" and "rs \<noteq> []" and "length (concat (map rel_bytes rs)) < 2 ^ 32" and "wc_relations env 0 = relations_api (concat (map rel_bytes rs))"
  shows "win_CountsWithContext env False = Some (Ok (int (length rs)))"
  using relations_value [OF assms] by (simp add: win_CountsWithContext_def getPhysicalCoreCount_def)

section \<open>The processors of a package\<close>

text \<open>Clearing the lowest set bit.\<close>

lemma clear_lowest_nat:
  assumes "n = 2 ^ t * (2 * q + 1)"
  shows "bit (n - 1 :: nat) i \<longleftrightarrow> i < t \<or> t < i \<and> bit n i"
proof -
  have m: "n - 1 = 2 ^ Suc t * q + (2 ^ t - 1)" and n: "n = 2 ^ Suc t * q + 2 ^ t"
    unfolding assms by (simp_all add: algebra_simps)
  have r: "(2 ^ Suc t * q + r) div 2 ^ Suc t = q" if "r < 2 ^ Suc t" for r using that by simp
  have "(n - 1) div 2 ^ Suc t = q" "n div 2 ^ Suc t = q"
    using r [of "2 ^ t - 1", folded m] r [of "2 ^ t", folded n] by (simp_all add: less_imp_diff_less)
  then have "drop_bit (Suc t) (n - 1) = drop_bit (Suc t) n" by (simp add: drop_bit_eq_div)
  then have "bit (drop_bit (Suc t) (n - 1)) k \<longleftrightarrow> bit (drop_bit (Suc t) n) k" for k by simp
  then have hi: "bit (n - 1) i \<longleftrightarrow> bit n i" if "t < i" for i
    using less_imp_Suc_add [OF that] by (auto simp: bit_drop_bit_eq)
  have "take_bit (Suc t) (2 ^ Suc t * q + r) = take_bit (Suc t) r" for r by (simp add: take_bit_eq_mod)
  from this [of "2 ^ t - 1", folded m] have "take_bit (Suc t) (n - 1) = take_bit (Suc t) (2 ^ t - 1)" .
  then have "bit (take_bit (Suc t) (n - 1)) i \<longleftrightarrow> bit (take_bit (Suc t) (mask t :: nat)) i" for i by (simp add: mask_eq_exp_minus_1)
  then have lo: "bit (n - 1) i \<longleftrightarrow> i < t" if "i \<le> t" for i
    using that by (simp only: bit_take_bit_iff bit_mask_iff) (simp add: less_Suc_eq_le, blast)
  show ?thesis using hi lo by (cases "i \<le> t") auto
qed

lemma lowest_bit_form:
  assumes "n \<noteq> 0"
  obtains t q where "n = 2 ^ t * (2 * q + 1 :: nat)"
proof -
  have "\<exists>t q. n = 2 ^ t * (2 * q + 1)" using assms
  proof (induction n rule: less_induct)
    case (less n)
    show ?case
    proof (cases "even n")
      case True
      then obtain k where k: "n = 2 * k" by blast
      then obtain t q where "k = 2 ^ t * (2 * q + 1)" using less.IH [of k] less.prems by auto
      then have "n = 2 ^ Suc t * (2 * q + 1)" using k by simp
      then show ?thesis by blast
    next
      case False
      then have "n = 2 ^ 0 * (2 * (n div 2) + 1)" by simp
      then show ?thesis by blast
    qed
  qed
  with that show ?thesis by blast
qed

lemma lowest_bits:
  assumes "(m :: u64) \<noteq> 0"
  obtains t where "bit m t" and "\<And>i. i < t \<Longrightarrow> \<not> bit m i" and "\<And>i. bit (and m (m - 1)) i \<longleftrightarrow> bit m i \<and> i \<noteq> t"
proof -
  obtain t q where n: "unat m = 2 ^ t * (2 * q + 1)" using assms lowest_bit_form [of "unat m"] by (auto simp: unat_eq_0)
  have b: "bit w i \<longleftrightarrow> bit (unat w) i" for w :: u64 and i by (simp add: bit_unsigned_iff)
  have "unat (m - 1) = unat m - 1" using assms by (simp add: unat_minus_one)
  then have c: "bit (m - 1) i \<longleftrightarrow> i < t \<or> t < i \<and> bit m i" for i
    unfolding b [of "m - 1"] b [of m] using clear_lowest_nat [OF n, of i] by simp
  have "bit (unat m) t" unfolding n by (simp add: bit_iff_odd)
  moreover have "\<not> bit (unat m) i" if i: "i < t" for i
  proof -
    obtain k where "t = Suc (i + k)" using less_imp_Suc_add [OF i] by blast
    then have "unat m = 2 ^ i * (2 * (2 ^ k * (2 * q + 1)))" unfolding n by (simp add: power_add algebra_simps)
    then show ?thesis by (simp add: bit_iff_odd)
  qed
  ultimately show ?thesis using c by (intro that [of t]) (auto simp: b [of m] bit_and_iff nat_neq_iff)
qed

text \<open>The loop over a mask visits exactly the set bits, each once, from the lowest.\<close>

lemma set_bits: "forEachSetBit64 m = filter (bit m) [0..<64]"
proof (induction m rule: forEachSetBit64.induct)
  case (1 m)
  show ?case
  proof (cases "m = 0")
    case False
    then obtain t where t: "bit m t" "\<And>i. i < t \<Longrightarrow> \<not> bit m i" "\<And>i. bit (and m (m - 1)) i \<longleftrightarrow> bit m i \<and> i \<noteq> t"
      using lowest_bits [OF False] by blast
    have "t < 64" using bit_imp_le_length [OF t(1)] by simp
    then have split: "[0..<64] = [0..<t] @ t # [Suc t..<64]" using upt_add_eq_append [of 0 t "64 - t"] upt_conv_Cons [of t 64] by simp
    have "takeWhile (\<lambda>i. \<not> bit m i) [0..<64] = [0..<t]" unfolding split using t(1,2) by (subst takeWhile_append2) auto
    then have "TrailingZeros64 m = t" by (simp add: TrailingZeros64_def)
    moreover have "filter (bit m) [0..<t] = []" "filter (bit (and m (m - 1))) [0..<t] = []" using t(2,3) by (simp_all add: filter_empty_conv)
    moreover have "filter (bit (and m (m - 1))) [Suc t..<64] = filter (bit m) [Suc t..<64]" using t(3) by (intro filter_cong) auto
    moreover have "\<not> bit (and m (m - 1)) t" using t(3) by simp
    ultimately show ?thesis using "1.IH" [OF False] False t(1) by (subst forEachSetBit64.simps) (simp add: split)
  qed (simp add: forEachSetBit64.simps)
qed

text \<open>What a package reports: as many processors as bits of its mask whose number is below the count of processors, and their highest frequency.\<close>

lemma package_bits:
  "fold (package_bit env ppis g) bs (cnt, mhz, model, vendor) = (cnt', mhz', model', vendor') \<Longrightarrow>
   cnt' = cnt + length (filter (\<lambda>b. globalLpl g b < length ppis) bs) \<and>
   mhz' = fold (\<lambda>b m. max m (val_of (ppis ! globalLpl g b) ''maxMhz'')) (filter (\<lambda>b. globalLpl g b < length ppis) bs) mhz"
proof (induction bs arbitrary: cnt mhz model vendor)
  case (Cons b bs)
  obtain md vd where "package_bit env ppis g b (cnt, mhz, model, vendor) =
      (if globalLpl g b < length ppis then (cnt + 1, max mhz (val_of (ppis ! globalLpl g b) ''maxMhz''), md, vd) else (cnt, mhz, md, vd))"
    by (cases "wc_registry env (centralProcessorRegistryKey @ [CHR 0x5C] @ fmt_nat (globalLpl g b))") (auto simp: package_bit_def)
  with Cons.IH [of "cnt + 1" "max mhz (val_of (ppis ! globalLpl g b) ''maxMhz'')" md vd] Cons.IH [of cnt mhz md vd] Cons.prems
  show ?case by (auto split: if_splits)
qed simp

theorem win_package_cores:
  "i_Cores (package_info env ppis smbios (i, pkg)) =
     to_i32 (int (length (filter (\<lambda>b. bit (word_of_int (val_of pkg ''processor.groupMask.mask'') :: u64) b \<and>
       globalLpl (nat (val_of pkg ''processor.groupMask.group'')) b < length ppis) [0..<64])))"
proof -
  let ?g = "nat (val_of pkg ''processor.groupMask.group'')" and ?m = "word_of_int (val_of pkg ''processor.groupMask.mask'') :: u64"
  obtain cnt mhz model vendor where f: "fold (package_bit env ppis ?g) (forEachSetBit64 ?m) (0, 0, [], []) = (cnt, mhz, model, vendor)"
    by (metis prod_cases4)
  have "forEachSetBit64 ?m = filter (bit ?m) [0..<64]" by (rule set_bits)
  with package_bits [OF f] f show ?thesis by (cases smbios) (simp add: package_info_def conj_commute)
qed

text \<open>Groups have up to 64 processors, yet their numbers are 8 apart: a processor of group 0 and one of group 1 are taken for the same one.\<close>

lemma win_group_labels_clash: "globalLpl 0 8 = globalLpl 1 0"
  by (simp add: globalLpl_def maxLogicalProcessorsPerGroup_def)

text \<open>A structure that reports no size makes the count of cores run for ever.\<close>

lemma win_cores_diverge:
  assumes "wc_relations env 0 None = (False, 48, d, Errno 122)" and "wc_relations env 0 (Some 48) = (True, 48, replicate 48 (CHR 0x00), e)"
  shows "win_CountsWithContext env False = None"
proof -
  have "sys_buffer 48 (replicate 48 (CHR 0x00)) = replicate 48 (CHR 0x00)" using sys_buffer_full [of "replicate 48 (CHR 0x00)"] by simp
  moreover have "val_of (mem_view (wc_after env) systemLogicalProcessorInformationEx (replicate 48 (CHR 0x00)) 0) ''size'' = 0"
  proof -
    have "map (\<lambda>i. if 0 + i < length (replicate 48 (CHR 0x00)) then replicate 48 (CHR 0x00) ! (0 + i) else wc_after env (0 + i - length (replicate 48 (CHR 0x00)))) [0..<48] = replicate 48 (CHR 0x00)"
      by (intro nth_equalityI) simp_all
    moreover have "val_of (le_decode systemLogicalProcessorInformationEx (replicate 48 (CHR 0x00))) ''size'' = 0" by code_simp
    ultimately show ?thesis unfolding mem_view_def rel_layout by (simp only:)
  qed
  ultimately show ?thesis using relations_loop_stuck [of 0 48 "wc_after env" "replicate 48 (CHR 0x00)" "[]"] assms
    by (simp add: win_CountsWithContext_def getPhysicalCoreCount_def getSystemLogicalProcessorInformationEx_def)
qed

text \<open>A machine with two groups of one processor each, one package and a small firmware table.\<close>

definition perf_sample :: "int \<Rightarrow> struct" where
  "perf_sample u = [(''IdleTime'', [30000000]), (''KernelTime'', [50000000]), (''UserTime'', [u]), (''DpcTime'', [0]), (''InterruptTime'', [10000000]), (''InterruptCount'', [7])]"

definition smbios_sample :: "nat \<Rightarrow> smbios" where
  "smbios_sample n = \<lparr>sm_type = n, sm_body = ''0123'' @ [CHR 0xC6, CHR 0x02] @ [CHR 0xEA, CHR 0x06, CHR 0x09, CHR 0x00, CHR 0xFF, CHR 0xFB, CHR 0xEB, CHR 0xBF] @ replicate 8 (CHR 0x00),
     sm_strings = ''ACME'' @ [CHR 0x00] @ ''X''\<rparr>"

definition win_cpu_sample :: win_cpu where
  "win_cpu_sample = \<lparr>wc_ex = True, wc_nt = None, wc_query = (\<lambda>_. (1, 0, [], Errno 0)), wc_groups = (2, Errno 0), wc_active = (\<lambda>_. 1),
     wc_query_ex = (\<lambda>g n. (0, of_nat n, perf_bytes [perf_sample (int (g + 1) * 10000000)], Errno 0)), wc_times = (False, (0, 0), (0, 0), (0, 0), Errno 0),
     wc_native = (1, Errno 0), wc_power = (\<lambda>_. (1, [], Errno 0)),
     wc_firmware = firmware_api (replicate 8 (CHR 0x00) @ concat (map smbios_bytes [smbios_sample 1]) @ smbios_bytes (smbios_sample 4) @ smbios_bytes (smbios_sample 127)),
     wc_relations = (\<lambda>_. relations_api []), wc_registry = (\<lambda>_. None), wc_after = (\<lambda>_. CHR 0x00)\<rparr>"

theorem win_times_groups_witness:
  "win_TimesWithContext win_cpu_sample False = Ok [win_times ''cpu-total'' (f_of_int 30000000) (f_of_int 40000000) (f_of_int 60000000) (f_of_int 20000000)]"
proof -
  let ?gs = "[[perf_sample 10000000], [perf_sample 20000000]]"
  have "groups_env ?gs win_cpu_sample" by (simp add: groups_env_def win_cpu_sample_def)
  moreover have "list_all group_ok ?gs"
    by (simp add: group_ok_def has_layout_def perf_sample_def win32_SystemProcessorPerformanceInformation_def field_ok_def field_ty_defs in_width_def)
  ultimately show ?thesis using win_times_groups [of ?gs win_cpu_sample False] by (simp add: perf_sample_def val_of_def arr_of_def wrap_signed_id)
qed

theorem smbios_first_processor_witness:
  "getSMBIOSProcessorInfo win_cpu_sample = Ok (0xC6, ''BFEBFBFF000906EA'')"
proof -
  have "list_all smbios_ok ([smbios_sample 1] @ [smbios_sample 4])" by code_simp
  moreover have "list_all smbios_other [smbios_sample 1]" by code_simp
  moreover have "sm_type (smbios_sample 4) = 4" "22 \<le> length (sm_body (smbios_sample 4))" by (simp_all add: smbios_sample_def)
  moreover have "hex8 (le_u32 (drop 10 (sm_body (smbios_sample 4)))) @ hex8 (le_u32 (drop 6 (sm_body (smbios_sample 4)))) = ''BFEBFBFF000906EA''" by code_simp
  ultimately show ?thesis
    using smbios_first_processor [of "[smbios_sample 1]" "smbios_sample 4" "replicate 8 (CHR 0x00)" win_cpu_sample "smbios_bytes (smbios_sample 127)"]
    by (simp add: win_cpu_sample_def smbios_sample_def)
qed

end
