(* ===== verification/Disk_Windows.thy ===== *)
theory Disk_Windows
  imports Disk_Bsd Common_Warnings Go_Unquote "HOL-Library.Signed_Division"
begin

text \<open>
  Package \<^verbatim>\<open>disk\<close> on Windows (\<^verbatim>\<open>disk_windows.go\<close>): usage of a volume, partitions from the drive letters and from the volumes that are mounted as folders, and
  the counters of the fixed drives. Texts of the system are sequences of 16-bit units. The system functions and the state of the context at each inspection are
  the environment \<open>win_disk\<close>.
\<close>

section \<open>Texts of 16-bit units\<close>

text \<open>\<^verbatim>\<open>utf16.Decode\<close>: a surrogate without its partner gives \<open>lone\<close>.\<close>

definition high_surrogate :: "u16 \<Rightarrow> bool" where
  "high_surrogate a \<longleftrightarrow> 0xD800 \<le> a \<and> a < 0xDC00"

definition low_surrogate :: "u16 \<Rightarrow> bool" where
  "low_surrogate a \<longleftrightarrow> 0xDC00 \<le> a \<and> a < 0xE000"

definition rune_of_unit :: "(u16 \<Rightarrow> nat) \<Rightarrow> u16 \<Rightarrow> nat" where
  "rune_of_unit lone a = (if high_surrogate a \<or> low_surrogate a then lone a else unat a)"

fun utf16_runes :: "(u16 \<Rightarrow> nat) \<Rightarrow> u16 list \<Rightarrow> nat list" where
  "utf16_runes lone [] = []"
| "utf16_runes lone [a] = [rune_of_unit lone a]"
| "utf16_runes lone (a # b # s) =
     (if high_surrogate a \<and> low_surrogate b then ((unat a - 0xD800) * 0x400 + (unat b - 0xDC00) + 0x10000) # utf16_runes lone s
      else rune_of_unit lone a # utf16_runes lone (b # s))"

definition utf16_string :: "u16 list \<Rightarrow> string" where
  "utf16_string s = concat (map encode_rune (utf16_runes (\<lambda>_. 0xFFFD) s))"

text \<open>\<^verbatim>\<open>windows.UTF16ToString\<close> stops at the first zero and keeps a lone surrogate.\<close>

definition UTF16ToString :: "u16 list \<Rightarrow> string" where
  "UTF16ToString s = concat (map encode_rune (utf16_runes unat (takeWhile (\<lambda>a. a \<noteq> 0) s)))"

section \<open>The system\<close>

text \<open>The result of a call, the values that it writes and its error value. A volume has the flags and the bytes of the name of its file system. The state of the
  context is that at each of its inspections; volumes are found call by call.\<close>

record win_disk =
  wd_free :: "string \<Rightarrow> bool \<times> int \<times> int \<times> gerr"
  wd_drives :: "nat option \<Rightarrow> nat \<times> u16 list \<times> gerr"
  wd_letters :: "gerr + (nat \<times> u16 list)"
  wd_type :: "string \<Rightarrow> nat"
  wd_last_error :: "gerr option"
  wd_volume :: "string \<Rightarrow> gerr + (int \<times> string)"
  wd_first :: "gerr + u16 list"
  wd_next :: "nat \<Rightarrow> gerr + u16 list"
  wd_paths :: "u16 list \<Rightarrow> nat option \<Rightarrow> bool \<times> u32 \<times> u16 list \<times> gerr"
  wd_open :: "string \<Rightarrow> gerr option"
  wd_perf :: "string \<Rightarrow> gerr + string"
  wd_ctx :: "nat \<Rightarrow> gerr option"

definition diskPerformance :: layout where
  "diskPerformance = [(''BytesRead'', i64_f), (''BytesWritten'', i64_f), (''ReadTime'', i64_f), (''WriteTime'', i64_f), (''IdleTime'', i64_f), (''ReadCount'', u32_f),
     (''WriteCount'', u32_f), (''QueueDepth'', u32_f), (''SplitCount'', u32_f), (''QueryTime'', i64_f), (''StorageDeviceNumber'', u32_f),
     (''StorageManagerName'', \<lparr>ft_signed = False, ft_width = 2, ft_count = 8\<rparr>), (''alignmentPadding'', u32_f)]"

definition win_UsageWithContext :: "win_disk \<Rightarrow> string \<Rightarrow> usage_stat result" where
  "win_UsageWithContext env path = (case wd_free env path of (ok, lpTotal, lpFree, err) \<Rightarrow>
     if \<not> ok then Err err
     else Ok \<lparr>us_Path = path, us_Fstype = [], us_Total = word_of_int lpTotal, us_Free = word_of_int lpFree,
       us_Used = word_of_int lpTotal - word_of_int lpFree, us_UsedPercent = (f_of_int lpTotal - f_of_int lpFree) / f_of_int lpTotal * Fin 100,
       us_InodesTotal = 0, us_InodesUsed = 0, us_InodesFree = 0, us_InodesUsedPercent = 0\<rparr>)"

section \<open>Partitions\<close>

text \<open>The units from \<open>from\<close> up to a zero, when there are any.\<close>

function split0_loop :: "u16 list \<Rightarrow> nat \<Rightarrow> nat \<Rightarrow> nat \<Rightarrow> string list \<Rightarrow> string list" where
  "split0_loop s16 end from to ss =
     (if to < end
      then if s16 ! to = 0
        then split0_loop s16 end (to + 1) (to + 1) (if from < to \<and> s16 ! from \<noteq> 0 then ss @ [utf16_string (take (to - from) (drop from s16))] else ss)
        else split0_loop s16 end from (to + 1) ss
      else ss)"
  by pat_completeness auto
termination
  by (relation "measure (\<lambda>(s16, end, from, to, ss). end - to)") auto

declare split0_loop.simps [simp del]

definition split0 :: "u16 list \<Rightarrow> nat \<Rightarrow> string list" where
  "split0 s16 end = split0_loop s16 (if length s16 < end then length s16 else end) 0 0 []"

text \<open>A buffer of \<open>n\<close> units into which the system has written.\<close>

definition unit_buffer :: "nat \<Rightarrow> u16 list \<Rightarrow> u16 list" where
  "unit_buffer n d = take n (d @ replicate (n - length d) 0)"

text \<open>A buffer of no units has no first one.\<close>

definition getLogicalDrives :: "win_disk \<Rightarrow> string list result" where
  "getLogicalDrives env = (case wd_drives env None of (bufferLen, _, err) \<Rightarrow>
     if err \<noteq> Errno 0 then Err err
     else case wd_ctx env 0 of Some e \<Rightarrow> Err e
       | None \<Rightarrow> if bufferLen = 0 then Panic
         else case wd_drives env (Some bufferLen) of (_, d, err') \<Rightarrow>
           if err' \<noteq> Errno 0 then Err err' else Ok (split0 (unit_buffer bufferLen d) bufferLen))"

definition empty_partition :: partition_stat where
  "empty_partition = \<lparr>pt_Device = [], pt_Mountpoint = [], pt_Fstype = [], pt_Opts = []\<rparr>"

definition flag_set :: "int \<Rightarrow> int \<Rightarrow> bool" where
  "flag_set flags f \<longleftrightarrow> and flags f \<noteq> 0"

definition buildPartitionStat :: "win_disk \<Rightarrow> string \<Rightarrow> partition_stat \<times> gerr option" where
  "buildPartitionStat env path = (let driveType = wd_type env path in
     if driveType = 0 then (empty_partition, wd_last_error env)
     else if driveType \<in> {2, 3, 4, 5} then
       (case wd_volume env (path @ ''/'') of
          Inl err \<Rightarrow> if driveType \<in> {2, 4, 5} then (empty_partition, None) else (empty_partition, Some err)
        | Inr (fsFlags, fsName) \<Rightarrow>
            (\<lparr>pt_Device = path, pt_Mountpoint = path, pt_Fstype = filter (\<lambda>c. c \<noteq> CHR 0x00) fsName,
              pt_Opts = (if flag_set fsFlags 0x80000 then [''ro''] else [''rw'']) @ (if flag_set fsFlags 0x10 then [''compress''] else [])\<rparr>, None))
     else (empty_partition, None))"

text \<open>Collectors of warnings are handed over by value: what a function adds to its copy is seen only inside it. \<open>k\<close> counts the inspections of the context.\<close>

definition drive_letter :: "string \<Rightarrow> bool" where
  "drive_letter d \<longleftrightarrow> d \<noteq> [] \<and> 65 \<le> (of_char (hd d) :: nat) \<and> (of_char (hd d) :: nat) \<le> 90"

fun processLogicalDrives :: "win_disk \<Rightarrow> nat \<Rightarrow> string list \<Rightarrow> string list \<Rightarrow> partition_stat list \<Rightarrow> warnings \<Rightarrow> nat \<times> string list \<times> partition_stat list" where
  "processLogicalDrives env k [] processedPaths stats w = (k, processedPaths, stats)"
| "processLogicalDrives env k (drive # drives) processedPaths stats w =
     (case wd_ctx env k of
        Some e \<Rightarrow> (k + 1, processedPaths, stats)
      | None \<Rightarrow>
          if drive_letter drive
          then case buildPartitionStat env [hd drive, CHR '':''] of
              (p, None) \<Rightarrow> processLogicalDrives env (k + 1) drives (processedPaths @ [pt_Mountpoint p @ [CHR 0x5C]]) (stats @ [p]) w
            | (_, Some warning) \<Rightarrow> processLogicalDrives env (k + 1) drives processedPaths stats (Warnings_Add warning w)
          else processLogicalDrives env (k + 1) drives processedPaths stats w)"

fun processMountsForVolume :: "win_disk \<Rightarrow> nat \<Rightarrow> string list \<Rightarrow> string list \<Rightarrow> partition_stat list \<Rightarrow> warnings \<Rightarrow> nat \<times> partition_stat list" where
  "processMountsForVolume env k [] processedPaths stats w = (k, stats)"
| "processMountsForVolume env k (mount # mounts) processedPaths stats w =
     (case wd_ctx env k of
        Some e \<Rightarrow> (k + 1, stats)
      | None \<Rightarrow>
          if mount \<in> set processedPaths then processMountsForVolume env (k + 1) mounts processedPaths stats w
          else case buildPartitionStat env mount of
              (p, None) \<Rightarrow> processMountsForVolume env (k + 1) mounts processedPaths (stats @ [p]) w
            | (_, Some warning) \<Rightarrow> processMountsForVolume env (k + 1) mounts processedPaths stats (Warnings_Add warning w))"

text \<open>A buffer of no units panics when its first one is taken.\<close>

definition getVolumePaths :: "win_disk \<Rightarrow> u16 list \<Rightarrow> string list result" where
  "getVolumePaths env volNameBuf = (case wd_paths env volNameBuf None of (first, returnLen, _, err) \<Rightarrow>
     if \<not> first \<and> \<not> err_is err (Errno 234) then Err (ErrWrap (''failed to get volume paths size for volume '' @ UTF16ToString volNameBuf) err)
     else if returnLen = 0 then Panic
     else case wd_paths env volNameBuf (Some (unat returnLen)) of (ok, returnLen', d, err') \<Rightarrow>
       if ok then Ok (split0 (unit_buffer (unat returnLen) d) (unat returnLen'))
       else Err (ErrWrap (''failed to get volume paths for volume '' @ UTF16ToString volNameBuf) err'))"

definition maxVolumeNameLength :: nat where
  "maxVolumeNameLength = 261"

text \<open>One round: the mounts of a volume, then the next volume. A call that fails for another reason than the end leaves an empty name; only the
  sixth warning ends the loop.\<close>

partial_function (option) processVolumeLoop :: "win_disk \<Rightarrow> nat \<Rightarrow> nat \<Rightarrow> u16 list \<Rightarrow> string list \<Rightarrow> partition_stat list \<Rightarrow> warnings \<Rightarrow> partition_stat list result option" where
  [code]: "processVolumeLoop env k n volNameBuf processedPaths stats w =
     (case wd_ctx env k of
        Some e \<Rightarrow> Some (Ok stats)
      | None \<Rightarrow>
         (case getVolumePaths env volNameBuf of
            Panic \<Rightarrow> Some Panic
          | r \<Rightarrow>
            (let (k', stats', w') = (case r of
                   Ok mounts \<Rightarrow> (case processMountsForVolume env (k + 1) mounts processedPaths stats w of (k', stats') \<Rightarrow> (k', stats', w))
                 | _ \<Rightarrow> (k + 1, stats, Warnings_Add (ErrMsg (''failed to find paths for volume '' @ UTF16ToString volNameBuf)) w))
             in case wd_next env n of
                  Inr name \<Rightarrow> processVolumeLoop env k' (n + 1) (unit_buffer maxVolumeNameLength name) processedPaths stats' w'
                | Inl err \<Rightarrow>
                    if err_is err (Errno 18) then Some (Ok stats')
                    else let w'' = Warnings_Add (ErrWrap ''failed to find next volume'' err) w' in
                      if 5 < length (w_list w'') then Some (Ok stats')
                      else processVolumeLoop env k' (n + 1) (unit_buffer maxVolumeNameLength []) processedPaths stats' w'')))"

definition processVolumesMountedAsFolders :: "win_disk \<Rightarrow> nat \<Rightarrow> partition_stat list \<Rightarrow> warnings \<Rightarrow> string list \<Rightarrow> partition_stat list result option" where
  "processVolumesMountedAsFolders env k stats w processedPaths = (case wd_first env of
     Inl err \<Rightarrow> Some (Ok stats)
   | Inr name \<Rightarrow> processVolumeLoop env k 0 (unit_buffer maxVolumeNameLength name) processedPaths stats w)"

definition win_PartitionsWithContext :: "win_disk \<Rightarrow> bool \<Rightarrow> (partition_stat list \<times> warnings option) result option" where
  "win_PartitionsWithContext env all = (let w = new_warnings True in
     case getLogicalDrives env of
       Err e \<Rightarrow> Some (Err e)
     | Panic \<Rightarrow> Some Panic
     | Ok drives \<Rightarrow> (case processLogicalDrives env 1 drives [] [] w of (k, processedPaths, stats) \<Rightarrow>
         map_option (\<lambda>r. rbind r (\<lambda>stats. Ok (stats, Warnings_Reference w))) (processVolumesMountedAsFolders env k stats w processedPaths)))"

section \<open>Counters\<close>

definition win_disk_io :: "string \<Rightarrow> struct \<Rightarrow> disk_io_stat" where
  "win_disk_io path d = empty_disk_io\<lparr>d_ReadCount := word_of_int (val_of d ''ReadCount''), d_WriteCount := word_of_int (val_of d ''WriteCount''),
     d_ReadBytes := word_of_int (val_of d ''BytesRead''), d_WriteBytes := word_of_int (val_of d ''BytesWritten''),
     d_ReadTime := word_of_int (val_of d ''ReadTime'' sdiv 10000 sdiv 1000), d_WriteTime := word_of_int (val_of d ''WriteTime'' sdiv 10000 sdiv 1000), d_Name := path\<rparr>"

text \<open>The bytes of a failed or short call stay those of the drive before it, \<open>dp\<close>.\<close>

definition win_drive :: "win_disk \<Rightarrow> string list \<Rightarrow> u16 \<Rightarrow> string \<times> (string \<times> disk_io_stat) list \<Rightarrow> (string \<times> (string \<times> disk_io_stat) list) result" where
  "win_drive env names v = (\<lambda>(dp, drivemap).
     let path = [char_of (unat v), CHR '':'']; device = [CHR 0x5C, CHR 0x5C, CHR ''.'', CHR 0x5C] @ path in
     if v < 65 \<or> 90 < v \<or> wd_type env path \<noteq> 3 then Ok (dp, drivemap)
     else case wd_open env device of
         Some err \<Rightarrow> if err_is err (Errno 2) then Ok (dp, drivemap) else Err err
       | None \<Rightarrow> (case wd_perf env device of
           Inl err \<Rightarrow> if err_is err (Errno 1) \<or> err_is err (Errno 50) then Ok (dp, drivemap) else Err err
         | Inr d \<Rightarrow> (let dp' = take (length dp) (d @ drop (length d) dp) in
             Ok (dp', put_disk names (win_disk_io path (le_decode diskPerformance dp')) drivemap))))"

definition win_disk_IOCountersWithContext :: "win_disk \<Rightarrow> string list \<Rightarrow> (string \<times> disk_io_stat) list result" where
  "win_disk_IOCountersWithContext env names = (case wd_letters env of
     Inl err \<Rightarrow> Err err
   | Inr (lpBufferLen, d) \<Rightarrow>
       if 254 < lpBufferLen then Panic
       else rbind (rfold (win_drive env names) (take lpBufferLen (unit_buffer 254 d)) (replicate (layout_size diskPerformance) (CHR 0x00), [])) (\<lambda>(_, drivemap). Ok drivemap))"

definition win_SerialNumberWithContext :: "string result" where
  "win_SerialNumberWithContext = Err ErrNotImplemented"

definition win_LabelWithContext :: "string result" where
  "win_LabelWithContext = Err ErrNotImplemented"

section \<open>Texts that end with a zero\<close>

lemma split0_text:
  assumes "list_all (\<lambda>a. a \<noteq> 0) t" and "length pre + length t < n"
  shows "split0_loop (pre @ t @ 0 # rest) n (length pre) (length pre) ss =
    split0_loop (pre @ t @ 0 # rest) n (length pre + length t + 1) (length pre + length t + 1) (if t = [] then ss else ss @ [utf16_string t])"
proof -
  let ?s = "pre @ t @ 0 # rest"
  have at: "?s ! (length pre + k) = t ! k" if "k < length t" for k using that by (simp add: nth_append)
  have "split0_loop ?s n (length pre) (length pre) ss = split0_loop ?s n (length pre) (length pre + k) ss" if "k \<le> length t" for k
    using that
  proof (induction k)
    case (Suc k)
    have "?s ! (length pre + k) \<noteq> 0" using at [of k] Suc.prems assms(1) by (simp add: list_all_length)
    then have "split0_loop ?s n (length pre) (length pre + k) ss = split0_loop ?s n (length pre) (length pre + Suc k) ss"
      using Suc.prems assms(2) by (subst split0_loop.simps) simp
    with Suc show ?case by simp
  qed simp
  from this [of "length t"] have "split0_loop ?s n (length pre) (length pre) ss = split0_loop ?s n (length pre) (length pre + length t) ss" by simp
  also have "\<dots> = split0_loop ?s n (length pre + length t + 1) (length pre + length t + 1) (if t = [] then ss else ss @ [utf16_string t])"
    using assms at [of 0] by (subst split0_loop.simps) (auto simp: nth_append list_all_length)
  finally show ?thesis .
qed

lemma split0_texts:
  "list_all (\<lambda>t. list_all (\<lambda>a. a \<noteq> 0) t) ts \<Longrightarrow> length pre + length (concat (map (\<lambda>t. t @ [0]) ts)) \<le> n \<Longrightarrow>
   split0_loop (pre @ concat (map (\<lambda>t. t @ [0]) ts) @ rest) n (length pre) (length pre) ss =
   split0_loop (pre @ concat (map (\<lambda>t. t @ [0]) ts) @ rest) n (length pre + length (concat (map (\<lambda>t. t @ [0]) ts)))
     (length pre + length (concat (map (\<lambda>t. t @ [0]) ts))) (ss @ map utf16_string (filter (\<lambda>t. t \<noteq> []) ts))"
proof (induction ts arbitrary: pre ss)
  case (Cons t ts)
  then show ?case
    using split0_text [of t pre n "concat (map (\<lambda>t. t @ [0]) ts) @ rest" ss] Cons.IH [of "pre @ t @ [0]" "if t = [] then ss else ss @ [utf16_string t]"]
    by (simp add: add.assoc)
qed simp

text \<open>Texts, each ended by a zero, are read back; what follows without a zero is left out.\<close>

lemma split0_roundtrip:
  assumes "list_all (\<lambda>t. list_all (\<lambda>a. a \<noteq> 0) t) ts" and "list_all (\<lambda>a. a \<noteq> 0) rest"
  shows "split0 (concat (map (\<lambda>t. t @ [0]) ts) @ rest) (length (concat (map (\<lambda>t. t @ [0]) ts) @ rest)) = map utf16_string (filter (\<lambda>t. t \<noteq> []) ts)"
proof -
  let ?c = "concat (map (\<lambda>t. t @ [0]) ts)"
  have "split0_loop (?c @ rest) (length (?c @ rest)) (length ?c) (length ?c + k) ss = ss" if "k \<le> length rest" for k ss
    using that
  proof (induction "length rest - k" arbitrary: k)
    case 0
    then show ?case by (subst split0_loop.simps) simp
  next
    case (Suc m)
    then have "rest ! k \<noteq> 0" using assms(2) by (simp add: list_all_length)
    moreover have "m = length rest - Suc k" "Suc k \<le> length rest" using Suc.hyps(2) by auto
    note Suc.hyps(1) [OF this]
    ultimately show ?case by (subst split0_loop.simps) (simp add: nth_append)
  qed
  from this [of 0] split0_texts [OF assms(1), of "[]" "length (?c @ rest)" rest "[]"] show ?thesis by (simp add: split0_def)
qed

section \<open>Partitions: what is listed\<close>

text \<open>The loop over the volumes ends as soon as the system says so, at the latest: it needs no context that ends.\<close>

lemma volume_loop_ends:
  assumes "wd_next env (n + m) = Inl (Errno 18)"
  shows "\<exists>r. processVolumeLoop env k n name processedPaths stats w = Some r"
  using assms
proof (induction m arbitrary: k n name stats w)
  case 0
  then show ?case by (subst processVolumeLoop.simps) (auto split: option.splits result.splits prod.splits)
next
  case (Suc m)
  have IH: "\<exists>r. processVolumeLoop env k (n + 1) name processedPaths stats w = Some r" for k name stats w
    using Suc.IH [of "n + 1"] Suc.prems by simp
  show ?case
  proof (cases "wd_ctx env k")
    case None
    then show ?thesis using IH
      by (subst processVolumeLoop.simps) (auto simp: Let_def split: option.splits result.splits prod.splits sum.splits)
  qed (subst processVolumeLoop.simps, simp)
qed

theorem win_partitions_total:
  assumes "\<exists>n. wd_next env n = Inl (Errno 18)"
  shows "\<exists>r. win_PartitionsWithContext env all = Some r"
proof -
  obtain n where n: "wd_next env (0 + n) = Inl (Errno 18)" using assms by auto
  have "\<exists>r. processVolumesMountedAsFolders env k stats w ps = Some r" for k stats w ps
    using volume_loop_ends [OF n] by (auto simp: processVolumesMountedAsFolders_def split: sum.splits)
  then show ?thesis by (auto simp: win_PartitionsWithContext_def Let_def split: result.splits prod.splits)
qed

text \<open>No warning is ever returned, whatever failed: each function adds to its own copy of the collector.\<close>

theorem win_partitions_never_warn: "win_PartitionsWithContext env all = Some (Ok (stats, ws)) \<Longrightarrow> ws = None"
  by (auto simp: win_PartitionsWithContext_def Let_def Warnings_Reference_def new_warnings_def rbind_Ok_iff split: result.splits prod.splits)

text \<open>A removable, remote or optical drive that is not ready is listed as a partition without device and mount point.\<close>

lemma win_not_ready_listed:
  assumes "wd_ctx env k = None" and "drive_letter d" and "wd_type env [hd d, CHR '':''] = 5" and "wd_volume env [hd d, CHR '':'', CHR ''/''] = Inl e"
  shows "processLogicalDrives env k [d] ps stats w = (k + 1, ps @ [[CHR 0x5C]], stats @ [empty_partition])"
  using assms by (simp add: buildPartitionStat_def empty_partition_def)

text \<open>Folders: a path that a drive letter already stands for is not listed again.\<close>

lemma buildPartitionStat_path: "buildPartitionStat env path = (p, None) \<Longrightarrow> p = empty_partition \<or> pt_Mountpoint p = path \<and> pt_Device p = path"
  by (auto simp: buildPartitionStat_def Let_def split: if_splits sum.splits)

lemma mounts_not_processed:
  "processMountsForVolume env k mounts ps stats w = (k', stats') \<Longrightarrow>
   \<exists>new. stats' = stats @ new \<and> list_all (\<lambda>p. p = empty_partition \<or> pt_Mountpoint p \<in> set mounts - set ps) new"
proof (induction mounts arbitrary: k stats w)
  case (Cons m ms)
  have weaken: "list_all (\<lambda>p. p = empty_partition \<or> pt_Mountpoint p \<in> set (m # ms) - set ps) new"
    if "list_all (\<lambda>p. p = empty_partition \<or> pt_Mountpoint p \<in> set ms - set ps) new" for new
    using that by (rule list.pred_mono_strong) auto
  show ?case
  proof (cases "wd_ctx env k = None \<and> m \<notin> set ps")
    case True
    obtain p o' where b: "buildPartitionStat env m = (p, o')" by (cases "buildPartitionStat env m")
    show ?thesis
    proof (cases o')
      case None
      then obtain new where "stats' = (stats @ [p]) @ new" "list_all (\<lambda>p. p = empty_partition \<or> pt_Mountpoint p \<in> set ms - set ps) new"
        using Cons.IH [of "k + 1" "stats @ [p]" w] Cons.prems True b by auto
      moreover have "p = empty_partition \<or> pt_Mountpoint p = m" using buildPartitionStat_path b None by blast
      ultimately show ?thesis using True weaken by (intro exI [of _ "p # new"]) auto
    next
      case (Some e)
      then show ?thesis using Cons.IH [of "k + 1" stats "Warnings_Add e w"] Cons.prems True b weaken by auto
    qed
  next
    case False
    then show ?thesis using Cons.IH [of "k + 1" stats w] Cons.prems weaken by (auto split: option.splits)
  qed
qed simp

section \<open>Counters of the fixed drives\<close>

lemma perf_disk_layout: "widths_pos diskPerformance" "layout_size diskPerformance = 88"
  by (simp_all add: diskPerformance_def widths_pos_def field_ty_defs field_size_def)

definition letter_path :: "u16 \<Rightarrow> string" where
  "letter_path c = [char_of (unat c), CHR '':'']"

definition fixed_drive :: "win_disk \<Rightarrow> (u16 \<Rightarrow> struct) \<Rightarrow> u16 \<Rightarrow> bool" where
  "fixed_drive env S c \<longleftrightarrow> 65 \<le> c \<and> c \<le> 90 \<and> wd_type env (letter_path c) = 3 \<and> has_layout diskPerformance (S c) \<and>
     wd_open env ([CHR 0x5C, CHR 0x5C, CHR ''.'', CHR 0x5C] @ letter_path c) = None \<and>
     wd_perf env ([CHR 0x5C, CHR 0x5C, CHR ''.'', CHR 0x5C] @ letter_path c) = Inr (le_encode diskPerformance (S c))"

lemma win_drive_fixed:
  assumes "fixed_drive env S c" and "length dp = 88"
  shows "\<exists>dp'. length dp' = 88 \<and> win_drive env [] c (dp, m) = Ok (dp', alist_put (letter_path c) (win_disk_io (letter_path c) (S c)) m)"
proof -
  have l: "has_layout diskPerformance (S c)" using assms(1) by (simp add: fixed_drive_def)
  note len = length_le_encode [OF l] 
  have "take (length dp) (le_encode diskPerformance (S c) @ drop (length (le_encode diskPerformance (S c))) dp) = le_encode diskPerformance (S c)"
    using len assms(2) by (simp add: perf_disk_layout)
  moreover have "le_decode diskPerformance (le_encode diskPerformance (S c)) = S c" using le_decode_encode [OF perf_disk_layout(1) l, of "[]"] by simp
  moreover have "d_Name (win_disk_io p d) = p" for p d by (simp add: win_disk_io_def)
  ultimately show ?thesis using assms(1) len
    by (intro exI [of _ "le_encode diskPerformance (S c)"])
      (simp add: fixed_drive_def win_drive_def letter_path_def perf_disk_layout put_disk_def Let_def linorder_not_less [symmetric])
qed

text \<open>The system lists every drive as letter, colon, backslash and zero. When all drives are fixed and answer, the counters are those of the drives in this order.\<close>

theorem win_disk_counters:
  assumes "list_all (fixed_drive env S) ls" and "distinct ls" and "length ls < 60"
    and "wd_letters env = Inr (4 * length ls, concat (map (\<lambda>c. [c, 58, 92, 0]) ls))"
  shows "win_disk_IOCountersWithContext env [] = Ok (map (\<lambda>c. (letter_path c, win_disk_io (letter_path c) (S c))) ls)"
proof -
  let ?text = "concat (map (\<lambda>c. [c, 58, 92, 0]) ls)"
  have inj: "letter_path a = letter_path b \<Longrightarrow> a = b" if "fixed_drive env S a" "fixed_drive env S b" for a b
    using that by (auto simp: letter_path_def fixed_drive_def word_le_nat_alt char_of_eq_iff word_unat_eq_iff take_bit_nat_eq_self
      dest!: arg_cong [of "char_of _" _ "of_char :: char \<Rightarrow> nat"])
  have run: "\<exists>dp'. rfold (win_drive env []) (concat (map (\<lambda>c. [c, 58, 92, 0]) us)) (dp, m) =
      Ok (dp', m @ map (\<lambda>c. (letter_path c, win_disk_io (letter_path c) (S c))) us)"
    if "list_all (fixed_drive env S) us" "distinct us" "length dp = 88" "set (map fst m) \<inter> letter_path ` set us = {}" for us dp m
    using that
  proof (induction us arbitrary: dp m)
    case (Cons c us)
    obtain dp' where d: "length dp' = 88" "win_drive env [] c (dp, m) = Ok (dp', alist_put (letter_path c) (win_disk_io (letter_path c) (S c)) m)"
      using win_drive_fixed [of env S c dp m] Cons.prems by auto
    have "alist_put (letter_path c) (win_disk_io (letter_path c) (S c)) m = m @ [(letter_path c, win_disk_io (letter_path c) (S c))]"
      using Cons.prems(4) by (intro alist_put_fresh) auto
    moreover have "win_drive env [] v x = Ok x" if "v \<in> {58, 92, 0}" for v x using that by (cases x) (auto simp: win_drive_def)
    moreover have "letter_path c \<notin> letter_path ` set us" using Cons.prems(1,2) inj by (auto simp: list_all_iff)
    ultimately show ?case using d Cons.prems Cons.IH [of dp' "m @ [(letter_path c, win_disk_io (letter_path c) (S c))]"] by auto
  qed simp
  have "length ?text = 4 * length ls" by (induction ls) simp_all
  then have "take (4 * length ls) (unit_buffer 254 ?text) = ?text" using assms(3) by (simp add: unit_buffer_def)
  moreover obtain dp' where "rfold (win_drive env []) ?text (replicate 88 (CHR 0x00), []) = Ok (dp', map (\<lambda>c. (letter_path c, win_disk_io (letter_path c) (S c))) ls)"
    using run [OF assms(1,2), of "replicate 88 (CHR 0x00)" "[]"] by auto
  ultimately show ?thesis using assms(3,4) by (simp add: win_disk_IOCountersWithContext_def perf_disk_layout)
qed

text \<open>Times are in units of 100 nanoseconds; a second of reading is reported as 1, not as 1000.\<close>

lemma win_disk_seconds: "val_of d ''ReadTime'' = 10000000 \<Longrightarrow> d_ReadTime (win_disk_io path d) = 1"
  by (simp add: win_disk_io_def)

end
