(* ===== verification/Spec2Isabelle.thy ===== *)
theory Spec2Isabelle
  imports Common_Warnings Cpu_Linux Mem_Linux Load_Linux Net_Linux Process_Api Docker_Linux Disk_Linux
    Host_Linux Sensors_Linux Solaris_Devices Nfs_Aix Aix_System Process_Aix_Api Net_Bsd System_Bsd
    Process_Bsd Disk_Bsd Process_Darwin Host_Darwin Process_Solaris Net_Windows Cpu_Windows Disk_Windows
begin

text \<open>
  A model of gopsutil on Linux, Solaris, AIX, the BSD family, Darwin and, for network, CPU and disks, Windows, and the theorems about it.

  \<^bold>\<open>The program.\<close> gopsutil reports the state of a machine: CPU, memory, load, network, disks, host, sensors,
  control groups and processes. It is a set of packages over \<^verbatim>\<open>internal/common\<close>; every package has a
  platform-independent file with its data types and one file per operating system. On Linux an operation reads
  text files under \<^verbatim>\<open>/proc\<close>, \<^verbatim>\<open>/sys\<close>, \<^verbatim>\<open>/etc\<close> and \<^verbatim>\<open>/dev\<close> (at roots the context or the environment can
  change), a few system calls and the output of a few commands, and turns them into records; on the BSD family the kernel hands
  out binary structures (\<^verbatim>\<open>sysctl\<close>), on AIX a library does. The state the
  library itself keeps is small: the last CPU sample of \<^verbatim>\<open>cpu\<close>, the caches of the boot time and of the virtualization
  system in \<^verbatim>\<open>internal/common\<close>, the identity of an AIX host that is asked for once, the snapshot of the AIX process
  table, the fields of a \<^verbatim>\<open>Process\<close> object, and the collector of warnings.

  \<^bold>\<open>How it is modelled.\<close> The operating system is the record \<open>host\<close> of \<^verbatim>\<open>Common\<close>: what opening, listing, globbing or
  querying a path gives, the environment, the clock, system information and the output of commands. A call reads one
  snapshot; where the code reads twice with a wait in between, the model takes two. Packages that need more of the
  system extend it by a record of their own (\<open>proc_env\<close>, \<open>disk_env\<close>, \<open>host_env\<close>). A Go call is a function into
  \<open>result\<close>: a value, an error, or a panic; indexing and slicing out of range panic, as in Go. A call that returns a
  value together with an error gives \<open>Ok (value, error)\<close>. \<^verbatim>\<open>uint64\<close> and \<^verbatim>\<open>uint32\<close> are words and wrap, signed integers are
  integers with the conversions written out, strings are byte lists, and \<^verbatim>\<open>float64\<close> is a type of its own with IEEE rounding.
  Maps whose order is not observable are association lists. State is passed explicitly.

  \<^bold>\<open>Language and standard library.\<close>
  \<^item> \<^verbatim>\<open>Prelude\<close>: outcomes, errors, slices, integer conversions; the locales \<open>field_fold\<close> and \<open>field_rfold\<close> (a loop over lines
    in which a field ends with the value of the last line that contributes to it) and \<open>counter_sum\<close> (a loop that adds columns),
    which the parsers of the components interpret.
  \<^item> \<^verbatim>\<open>Go_Strings\<close>, \<^verbatim>\<open>Go_Strconv\<close>, \<^verbatim>\<open>Go_Unquote\<close>: the functions used of \<^verbatim>\<open>strings\<close> and \<^verbatim>\<open>strconv\<close>, with the lemmas that printing
    followed by splitting or parsing is the identity. Case conversion is that of ASCII.
  \<^item> \<^verbatim>\<open>Go_Float\<close>, \<^verbatim>\<open>Go_ParseFloat\<close>: binary64 with round-half-even over rationals, its comparison and arithmetic, and
    \<^verbatim>\<open>strconv.ParseFloat\<close>; lemmas on monotone rounding give the bounds of percentages.
  \<^item> \<^verbatim>\<open>Go_Binary\<close>: \<^verbatim>\<open>encoding/binary\<close> in big-endian order, over descriptions of structure layouts; a structure that is read has the
    types of its layout, and encoding followed by reading is the identity. \<^verbatim>\<open>Sysctl_Bsd\<close> adds little-endian order and the view of a
    buffer through an unsafe pointer.

  \<^bold>\<open>Components.\<close>
  \<^item> \<^verbatim>\<open>Common\<close> (\<^verbatim>\<open>internal/common/common.go\<close>): file readers, byte and string helpers, path cleaning, roots of the system
    directories. Shown: which lines \<^verbatim>\<open>ReadLinesOffsetN\<close> returns, \<^verbatim>\<open>ByteToString\<close> against a reference.
  \<^item> \<^verbatim>\<open>Common_Warnings\<close> (\<^verbatim>\<open>warnings.go\<close>): the bounded collector and its invariant.
  \<^item> \<^verbatim>\<open>Common_Linux\<close> (\<^verbatim>\<open>common_linux.go\<close>, \<^verbatim>\<open>common_unix.go\<close>, \<^verbatim>\<open>readlink_linux.go\<close>): boot time, virtualization, process count,
    \<^verbatim>\<open>lsof\<close>, \<^verbatim>\<open>os-release\<close>, \<^verbatim>\<open>Readlink\<close>. Concurrent calls of \<^verbatim>\<open>Virtualization\<close> are the step relation \<open>virt_step\<close>; the cache settles in
    every interleaving. The retry loop of \<^verbatim>\<open>Readlink\<close> is a partial function over the attempts of the system call; it returns
    exactly when an attempt is not interrupted.
  \<^item> \<^verbatim>\<open>Cpu\<close>, \<^verbatim>\<open>Cpu_Linux\<close> (\<^verbatim>\<open>cpu/cpu.go\<close>, \<^verbatim>\<open>cpu_linux.go\<close>, \<^verbatim>\<open>ex_linux.go\<close>): samples, percentages, the state \<^verbatim>\<open>lastCPUPercent\<close>, CPU information
    and counts. The locale \<open>times_source\<close> states what the percentages need of a sampler and is interpreted on the reader of
    \<^verbatim>\<open>/proc/stat\<close>; \<open>percent_state\<close> are the reachable states. Shown: percentages are finite and in [0, 100], the rows are read
    back, both readers agree, physical cores are counted by sibling lists.
  \<^item> \<^verbatim>\<open>Mem_Linux\<close> (\<^verbatim>\<open>mem.go\<close>, \<^verbatim>\<open>mem_linux.go\<close>, \<^verbatim>\<open>ex_linux.go\<close>): virtual memory, the estimate for kernels without
    \<^verbatim>\<open>MemAvailable\<close>, swap memory and devices; every figure is traced to its line.
  \<^item> \<^verbatim>\<open>Load_Linux\<close> (\<^verbatim>\<open>load.go\<close>, \<^verbatim>\<open>load_linux.go\<close>): load averages and process counts.
  \<^item> \<^verbatim>\<open>Net\<close>, \<^verbatim>\<open>Net_Linux\<close> (\<^verbatim>\<open>net.go\<close>, \<^verbatim>\<open>net_linux.go\<close>): counters, conntrack, connection tables and their owners. Shown: round trips of
    addresses and tables, totals are sums, deduplication keeps the first of each key, a query for a process returns only its
    connections, and when listing connections cannot panic.
  \<^item> \<^verbatim>\<open>Process\<close>, \<^verbatim>\<open>Process_Linux\<close>, \<^verbatim>\<open>Process_Maps\<close>, \<^verbatim>\<open>Process_Readers\<close>, \<^verbatim>\<open>Process_Api\<close> (\<^verbatim>\<open>process.go\<close>, \<^verbatim>\<open>process_posix.go\<close>, \<^verbatim>\<open>process_linux.go\<close>):
    the data, the readers of \<^verbatim>\<open>/proc/<pid>\<close>, the memory maps, the round trips of the readers, and the operations. Shown: any
    command name is read correctly, pids are complete and sorted, children have the parent, a reused pid is not the same process,
    grouped maps are sums.
  \<^item> \<^verbatim>\<open>Docker_Linux\<close> (\<^verbatim>\<open>docker.go\<close>, \<^verbatim>\<open>docker_linux.go\<close>): statistics of both control group hierarchies. Shown: the path of a file of a container for every id,
    which cannot leave the base directory and the directory of scopes; totals of the unified hierarchy.
  \<^item> \<^verbatim>\<open>Disk_Linux\<close> (\<^verbatim>\<open>disk.go\<close>, \<^verbatim>\<open>disk_unix.go\<close>, \<^verbatim>\<open>disk_linux.go\<close>): usage, mounts, device names and I/O counters. Shown: effective mount
    options, unescaping of mount points, which mounts of either mount table count as physical, percentages, counters read back.
  \<^item> \<^verbatim>\<open>Host_Linux\<close> (\<^verbatim>\<open>host.go\<close>, \<^verbatim>\<open>host_linux.go\<close>, \<^verbatim>\<open>host_linux_amd64.go\<close>, \<^verbatim>\<open>host_posix.go\<close>): identity, users, distribution, \<^verbatim>\<open>Info\<close>. Shown: the
    bytes of \<^verbatim>\<open>utmp\<close> are read back, the form of the host id.
  \<^item> \<^verbatim>\<open>Sensors_Linux\<close> (\<^verbatim>\<open>sensors.go\<close>, \<^verbatim>\<open>sensors_linux.go\<close>, \<^verbatim>\<open>ex_linux.go\<close>): temperatures. The locale \<open>reader\<close> states what the loops need of
    one reading and is interpreted on the three of them; no sensor is lost.
  \<^item> \<^verbatim>\<open>Solaris_System\<close>, \<^verbatim>\<open>Solaris_Devices\<close> (\<^verbatim>\<open>cpu_solaris.go\<close>, \<^verbatim>\<open>mem_solaris.go\<close>, \<^verbatim>\<open>load_solaris.go\<close>, \<^verbatim>\<open>host_solaris.go\<close>, \<^verbatim>\<open>net_solaris.go\<close>,
    \<^verbatim>\<open>disk_solaris.go\<close>): the readers of \<^verbatim>\<open>kstat\<close>, \<^verbatim>\<open>swap\<close> and other commands. Shown: the swap table is read back, and the network counters
    do not depend on the order in which Go ranges over a map.
  \<^item> \<^verbatim>\<open>Nfs_Aix\<close> (\<^verbatim>\<open>nfs.go\<close>, \<^verbatim>\<open>nfs_aix.go\<close>): the parser of \<^verbatim>\<open>nfsstat\<close>. The locale \<open>counter_table\<close> states what a table of setters promises and
    is interpreted on the four of them. \<open>nfsstat_text\<close> describes what the command prints; every counter is the sum of what is printed under its
    name, and the operations are those of the printed tables.
  \<^item> \<^verbatim>\<open>Common_Aix\<close> (\<^verbatim>\<open>common_aix.go\<close>, \<^verbatim>\<open>perfstat_aix.go\<close>): uptime, and the calls of the AIX libraries with their buffers. Shown: the process table
    is read completely in however many batches, and environments, mount tables and elapsed times are read back.
  \<^item> \<^verbatim>\<open>Aix_System\<close> (\<^verbatim>\<open>cpu_aix_nocgo.go\<close>, \<^verbatim>\<open>mem_aix_nocgo.go\<close>, \<^verbatim>\<open>load_aix_nocgo.go\<close>, \<^verbatim>\<open>disk_aix.go\<close>, \<^verbatim>\<open>disk_aix_nocgo.go\<close>, \<^verbatim>\<open>host_aix.go\<close>, \<^verbatim>\<open>host_aix_nocgo.go\<close>):
    the operations over them. The package variables behind a \<^verbatim>\<open>sync.Once\<close> (its flag, the values and the error) are explicit; the
    locale \<open>queried_once\<close> states what a query behind one promises and is interpreted on the identity queries. Shown: percentages, process counts, and the users in the bytes of \<^verbatim>\<open>utmp\<close>.
  \<^item> \<^verbatim>\<open>Net_Aix\<close> (\<^verbatim>\<open>net_aix.go\<close>, \<^verbatim>\<open>net_aix_nocgo.go\<close>): counters and connections from \<^verbatim>\<open>netstat\<close> and \<^verbatim>\<open>rmsock\<close>. Shown: every protocol counter is the
    sum of its lines, native names never collide with common ones, tables of sockets are read back, and a query for a process
    returns exactly its connections.
  \<^item> \<^verbatim>\<open>Process_Aix\<close>, \<^verbatim>\<open>Process_Aix_Api\<close> (\<^verbatim>\<open>process_aix.go\<close>): the binary files under \<^verbatim>\<open>/proc\<close>, the snapshot of the process table shared by all
    processes, arguments from the memory of a process, and the operations over commands. \<open>ps_calls\<close> are the states that calls lead
    to. Shown: counters are never older than a second, structures and arguments are read back, pids are listed once, soft limits do not exceed hard ones.
  \<^item> \<^verbatim>\<open>Process_Solaris\<close> (\<^verbatim>\<open>process_solaris.go\<close>): the readers of \<^verbatim>\<open>/proc\<close>; the argument vector is read back.
  \<^item> \<^verbatim>\<open>Sysctl_Bsd\<close> (\<^verbatim>\<open>common_freebsd.go\<close>): the two calls of \<^verbatim>\<open>sysctl\<close> for the size and for the data, over a kernel that is a parameter.
  \<^item> \<^verbatim>\<open>Net_Bsd\<close> (\<^verbatim>\<open>net_freebsd.go\<close>, \<^verbatim>\<open>net_openbsd.go\<close>, \<^verbatim>\<open>net_netbsd.go\<close>, \<^verbatim>\<open>net_darwin.go\<close>, \<^verbatim>\<open>net_unix.go\<close>): counters of \<^verbatim>\<open>netstat\<close>, connections of
    \<^verbatim>\<open>netstat\<close> and \<^verbatim>\<open>lsof\<close>. The locale \<open>netstat_table\<close> states what merging one table of counters promises (a row changes the counters of its
    own columns and of its own interface only) and is interpreted on the parsers of OpenBSD and NetBSD. Shown: tables do not
    disturb each other, the tables of Darwin and of \<^verbatim>\<open>lsof\<close> are read back.
  \<^item> \<^verbatim>\<open>System_Bsd\<close> (\<^verbatim>\<open>mem_bsd.go\<close>, \<^verbatim>\<open>mem_freebsd.go\<close>, \<^verbatim>\<open>mem_openbsd.go\<close>, \<^verbatim>\<open>mem_netbsd.go\<close>, \<^verbatim>\<open>mem_darwin.go\<close>, \<^verbatim>\<open>load_bsd.go\<close>, \<^verbatim>\<open>load_freebsd.go\<close>,
    \<^verbatim>\<open>load_openbsd.go\<close>, \<^verbatim>\<open>load_darwin.go\<close>, \<^verbatim>\<open>cpu_freebsd.go\<close>, \<^verbatim>\<open>cpu_openbsd.go\<close>, \<^verbatim>\<open>cpu_netbsd.go\<close>, \<^verbatim>\<open>cpu_darwin.go\<close>): memory, swap, load and CPU
    times. Shown: memory adds up and its percentage is bounded, swap tables and CPU times are read back.
  \<^item> \<^verbatim>\<open>Process_Bsd\<close> (\<^verbatim>\<open>process_freebsd.go\<close>, \<^verbatim>\<open>process_openbsd.go\<close>, \<^verbatim>\<open>process_bsd.go\<close> and their structures on amd64): the process table and the
    operations. The locale \<open>kinfo_system\<close> states what the operations need of the kernel structure and is interpreted on both systems.
    Shown: no reply of the kernel makes the argument vector of OpenBSD panic, arguments, structures and tables are read back,
    children have the parent.
  \<^item> \<^verbatim>\<open>Disk_Bsd\<close> (\<^verbatim>\<open>disk_freebsd.go\<close>, \<^verbatim>\<open>disk_openbsd.go\<close>, \<^verbatim>\<open>disk_netbsd.go\<close>, \<^verbatim>\<open>host_freebsd.go\<close>, \<^verbatim>\<open>host_openbsd.go\<close>, \<^verbatim>\<open>host_bsd.go\<close>): mounts, usage, disk
    counters, users and boot time. Shown: tables of disks and users are read back.
  \<^item> \<^verbatim>\<open>Process_Darwin\<close>, \<^verbatim>\<open>Host_Darwin\<close> (\<^verbatim>\<open>process_darwin.go\<close>, \<^verbatim>\<open>host_darwin.go\<close>, \<^verbatim>\<open>host_netbsd.go\<close>, \<^verbatim>\<open>disk_darwin.go\<close>): processes, identity, users and mounts.
    Shown: arguments and environment, which the kernel hands out in one buffer, are told apart; users and the host id are read back.

  \<^item> \<^verbatim>\<open>Net_Windows\<close> (\<^verbatim>\<open>net_windows.go\<close>): interface counters and the tables of sockets, read with a buffer that grows. The locale \<open>owner_table\<close> states what reading
    a table needs of the layout of its rows and is interpreted on the four tables. Shown: the sockets reported are those of one table, however it changes
    between the calls, and a query for a process returns exactly its connections.
  \<^item> \<^verbatim>\<open>Cpu_Windows\<close> (\<^verbatim>\<open>cpu_windows.go\<close>): times of all processor groups, the firmware table, packages and cores. Shown: all groups are reported and summed, the
    counters that guard the search in the firmware table never stop it and the first processor is found, cores are counted, the bits of a mask are visited
    once each and in order.
  \<^item> \<^verbatim>\<open>Disk_Windows\<close> (\<^verbatim>\<open>disk_windows.go\<close>): usage, partitions and counters. Shown: listing partitions ends when the list of volumes ends, no
    path of a drive letter is listed again as a folder, texts that end with a zero and the counters of the drives are read back.

  \<^bold>\<open>Termination.\<close> All loops but four are total functions, by structural recursion or by a measure on the input left; no fuel is
  used. The exceptions are the retry loop of \<^verbatim>\<open>Readlink\<close>, the batches of the AIX process table, the volumes and the processor structures of Windows, whose results
  are options; when they return is proved.

  \<^bold>\<open>Parameters.\<close> Clock ticks and page size, \<^verbatim>\<open>statfs\<close>, device numbers, \<^verbatim>\<open>uname\<close>, user names, signals and priorities of processes, the
  result of converting a float that does not fit an integer, the byte order, and what the AIX libraries return and write into their buffers (\<open>aix_lib\<close>),
  the replies of a BSD kernel (\<open>bsd\<close>), the functions of the Darwin system library (\<open>darwin_env\<close>), the system functions of Windows (\<open>win_net\<close>, \<open>win_cpu\<close>, \<open>win_disk\<close>), the address of a buffer and the bytes behind it, the capacity of a slice, \<^verbatim>\<open>exec.LookPath\<close> and the order
  of a map are arguments or fields of the environment. Kernel structures are those of amd64.

  \<^bold>\<open>Not modelled.\<close> Processes, memory, load, host and sensors of Windows, the disk counters and the sensors of Darwin (they call system libraries and decode their structures); Plan 9,
  whose readers are a third-party package; DragonFly, which repeats FreeBSD; the CPU information of FreeBSD and NetBSD (patterns
  over boot messages, a floating point scan) and of Solaris; the structures generated for other architectures; the AIX builds with cgo;
  \<^verbatim>\<open>winservices\<close>; the \<^verbatim>\<open>String\<close> methods that print JSON; the functions without a context, which only call those with one;
  running commands and sleeping; the sample program.
\<close>

end
